(* ===== verification/Prelude.thy ===== *)
theory Prelude
  imports Main "HOL-Library.List_Lexorder" "HOL-Library.Char_ord"
begin

text \<open>
  Shared vocabulary of the development: Python values as HOL values, and the generic lemmas
  the component theories use.

  \<^item> A Python \<open>str\<close> is a \<open>string\<close> (a list of 8-bit \<open>char\<close>s, so the code points
    below 256); a Python \<open>bytes\<close> object is the same type, where a \<open>char\<close> is exactly
    one byte.
  \<^item> A call that can raise returns a sum: \<open>Inl\<close> the exception, \<open>Inr\<close> the value.
  \<^item> A Python \<open>dict\<close> is an association list in insertion order with distinct keys.
\<close>

type_synonym bytes = string
type_synonym 'v dict = "(string \<times> 'v) list"

named_theorems result_simps \<open>rewriting of sequenced fallible calls\<close>
named_theorems py_eval \<open>evaluation of the Python string helpers on closed terms\<close>

subsection \<open>Exceptions and fallible calls\<close>

text \<open>The built-in exceptions the modelled code raises, with their message where it is used.
  \<open>ArithmeticError\<close> is the base of the exceptions of \<open>decimal\<close>, \<open>OperationalError\<close> one of \<open>sqlite3\<close>. \<open>OutsideModel\<close> is no exception: it marks
  a value the model does not represent.\<close>

datatype py_error =
    ValueError string
  | AttributeError string
  | AssertionError
  | TypeError
  | KeyError string
  | OSError
  | OperationalError
  | ArithmeticError
  | OutsideModel

definition bind_res :: "'e + 'a \<Rightarrow> ('a \<Rightarrow> 'e + 'b) \<Rightarrow> 'e + 'b" where
  "bind_res m f = (case m of Inl e \<Rightarrow> Inl e | Inr x \<Rightarrow> f x)"

lemma bind_res_simps [simp, result_simps]:
  "bind_res (Inl e) f = Inl e" "bind_res (Inr x) f = f x"
  by (simp_all add: bind_res_def)

lemma bind_res_eq_Inr [result_simps]:
  "bind_res m f = Inr y \<longleftrightarrow> (\<exists>x. m = Inr x \<and> f x = Inr y)"
  by (cases m) simp_all

lemma bind_res_eq_Inl:
  "bind_res m f = Inl e \<longleftrightarrow> m = Inl e \<or> (\<exists>x. m = Inr x \<and> f x = Inl e)"
  by (cases m) simp_all

text \<open>A loop that stops at the first exception: \<open>[f(x) for x in xs]\<close>.\<close>

fun traverse :: "('a \<Rightarrow> 'e + 'b) \<Rightarrow> 'a list \<Rightarrow> 'e + 'b list" where
  "traverse f [] = Inr []"
| "traverse f (x # xs) = bind_res (f x) (\<lambda>y. bind_res (traverse f xs) (\<lambda>ys. Inr (y # ys)))"

lemma traverse_Inr: "(\<And>x. x \<in> set xs \<Longrightarrow> f x = Inr (g x)) \<Longrightarrow> traverse f xs = Inr (map g xs)"
  by (induction xs) simp_all

lemma traverse_all:
  "traverse f xs = Inr ys \<Longrightarrow> (\<And>x y. f x = Inr y \<Longrightarrow> P y) \<Longrightarrow> \<forall>y \<in> set ys. P y"
  by (induction xs arbitrary: ys) (auto simp: bind_res_eq_Inr)

lemma traverse_mem: "traverse f xs = Inr ys \<Longrightarrow> x \<in> set xs \<Longrightarrow> \<exists>y \<in> set ys. f x = Inr y"
  by (induction xs arbitrary: ys) (auto simp: bind_res_eq_Inr)

lemma traverse_source: "traverse f xs = Inr ys \<Longrightarrow> y \<in> set ys \<Longrightarrow> \<exists>x \<in> set xs. f x = Inr y"
  by (induction xs arbitrary: ys) (auto simp: bind_res_eq_Inr)

lemma traverse_Inr_iff: "traverse f xs = Inr ys \<longleftrightarrow> list_all2 (\<lambda>x y. f x = Inr y) xs ys"
  by (induction xs arbitrary: ys) (auto simp: bind_res_eq_Inr list_all2_Cons1)

lemma list_all2_source: "list_all2 P xs ys \<Longrightarrow> y \<in> set ys \<Longrightarrow> \<exists>x \<in> set xs. P x y"
  by (induction rule: list_all2_induct) auto

text \<open>The value of a call, when it returned.\<close>

definition returns :: "'e + 'a \<Rightarrow> bool" where
  "returns m = (case m of Inl _ \<Rightarrow> False | Inr _ \<Rightarrow> True)"

lemma returns_simps [simp]: "\<not> returns (Inl e)" "returns (Inr x)"
  by (simp_all add: returns_def)

lemma returns_iff: "returns m \<longleftrightarrow> (\<exists>x. m = Inr x)"
  by (cases m) simp_all

subsection \<open>Decimal numerals: \<open>str(n)\<close>\<close>

definition digit_char :: "nat \<Rightarrow> char" where
  "digit_char n = ''0123456789'' ! n"

definition is_digit :: "char \<Rightarrow> bool" where
  "is_digit c = (48 \<le> (of_char c :: nat) \<and> (of_char c :: nat) \<le> 57)"

definition digit_val :: "char \<Rightarrow> nat" where
  "digit_val c = of_char c - 48"

fun show_nat :: "nat \<Rightarrow> string" where
  "show_nat n = (if n < 10 then [digit_char n]
                 else show_nat (n div 10) @ [digit_char (n mod 10)])"

declare show_nat.simps [simp del]

definition show_int :: "int \<Rightarrow> string" where
  "show_int i = (if i < 0 then CHR ''-'' # show_nat (nat (- i)) else show_nat (nat i))"

fun digits_val :: "nat \<Rightarrow> string \<Rightarrow> nat" where
  "digits_val acc [] = acc"
| "digits_val acc (c # cs) = digits_val (10 * acc + digit_val c) cs"

lemma less_10_cases:
  assumes "(n::nat) < 10"
  obtains "n = 0" | "n = 1" | "n = 2" | "n = 3" | "n = 4"
    | "n = 5" | "n = 6" | "n = 7" | "n = 8" | "n = 9"
  using assms by (auto simp: numeral_eq_Suc less_Suc_eq)

lemma digit_char_props:
  assumes "n < 10"
  shows "is_digit (digit_char n)" "digit_val (digit_char n) = n"
  using assms
  by (rule less_10_cases; simp add: digit_char_def is_digit_def digit_val_def)+

lemma digits_val_append:
  "digits_val acc (xs @ ys) = digits_val (digits_val acc xs) ys"
  by (induction xs arbitrary: acc) simp_all

lemma digits_val_show_nat: "digits_val 0 (show_nat n) = n"
proof (induction n rule: show_nat.induct)
  case (1 n)
  show ?case
  proof (cases "n < 10")
    case True
    then show ?thesis by (subst show_nat.simps) (simp add: digit_char_props)
  next
    case False
    with 1 have "digits_val 0 (show_nat (n div 10)) = n div 10" by simp
    with False show ?thesis
      by (subst show_nat.simps) (simp add: digits_val_append digit_char_props)
  qed
qed

lemma show_nat_inj: "show_nat m = show_nat n \<Longrightarrow> m = n"
  by (metis digits_val_show_nat)

lemma show_nat_digits: "\<forall>c \<in> set (show_nat n). is_digit c"
proof (induction n rule: show_nat.induct)
  case (1 n)
  then show ?case by (subst show_nat.simps) (auto simp: digit_char_props)
qed

lemma show_nat_nonempty [simp]: "show_nat n \<noteq> []"
  by (subst show_nat.simps) simp

lemma hd_show_nat: "is_digit (hd (show_nat n))"
  using show_nat_digits [of n] hd_in_set [OF show_nat_nonempty] by blast

lemma not_digit_minus [simp]: "\<not> is_digit (CHR ''-'')"
  by (simp add: is_digit_def)

lemma show_int_inj:
  assumes "show_int i = show_int j"
  shows "i = j"
proof -
  have m: "show_nat a \<noteq> CHR ''-'' # xs" for a xs
    using hd_show_nat [of a] by (cases "show_nat a") auto
  show ?thesis
    using assms m [THEN not_sym] m
    by (auto simp: show_int_def dest!: show_nat_inj split: if_splits)
qed

subsection \<open>\<open>strip\<close>, \<open>startswith\<close>, \<open>join\<close>, \<open>splitlines\<close>, \<open>replace\<close>\<close>

text \<open>ASCII white space, as \<open>bytes.strip\<close> and \<open>int(bytes)\<close> see it.\<close>

definition is_space_byte :: "char \<Rightarrow> bool" where
  "is_space_byte c = (let n = (of_char c :: nat) in n = 32 \<or> 9 \<le> n \<and> n \<le> 13)"

text \<open>White space of \<open>str.strip\<close>, for the code points below 256.\<close>

definition is_space :: "char \<Rightarrow> bool" where
  "is_space c = (let n = (of_char c :: nat) in
     n = 32 \<or> 9 \<le> n \<and> n \<le> 13 \<or> 28 \<le> n \<and> n \<le> 31 \<or> n = 133 \<or> n = 160)"

definition strip_by :: "(char \<Rightarrow> bool) \<Rightarrow> string \<Rightarrow> string" where
  "strip_by p s = rev (dropWhile p (rev (dropWhile p s)))"

abbreviation strip :: "string \<Rightarrow> string" where
  "strip \<equiv> strip_by is_space"

abbreviation strip_bytes :: "bytes \<Rightarrow> bytes" where
  "strip_bytes \<equiv> strip_by is_space_byte"

lemma strip_by_id: "s = [] \<or> \<not> p (hd s) \<and> \<not> p (last s) \<Longrightarrow> strip_by p s = s"
proof (cases s)
  case (Cons c t)
  assume a: "s = [] \<or> \<not> p (hd s) \<and> \<not> p (last s)"
  then have "dropWhile p s = s" using Cons by simp
  moreover have "dropWhile p (rev s) = rev s"
    using a Cons by (metis dropWhile_eq_self_iff hd_rev rev_is_Nil_conv)
  ultimately show ?thesis by (simp add: strip_by_def)
qed (simp add: strip_by_def)

definition starts_with :: "string \<Rightarrow> string \<Rightarrow> bool" where
  "starts_with p s = (take (length p) s = p)"

text \<open>\<open>str.split()\<close>: the maximal runs of characters that are not white space.\<close>

fun words_of :: "string \<Rightarrow> string \<Rightarrow> string list" where
  "words_of acc [] = (if acc = [] then [] else [acc])"
| "words_of acc (c # cs) =
     (if is_space c then (if acc = [] then words_of [] cs else acc # words_of [] cs)
      else words_of (acc @ [c]) cs)"

definition split_words :: "string \<Rightarrow> string list" where
  "split_words s = words_of [] s"

fun join :: "string \<Rightarrow> string list \<Rightarrow> string" where
  "join sep [] = []"
| "join sep [x] = x"
| "join sep (x # y # zs) = x @ sep @ join sep (y # zs)"

text \<open>\<open>content.replace(b"\r\n", b"\n")\<close>.\<close>

fun crlf_to_lf :: "bytes \<Rightarrow> bytes" where
  "crlf_to_lf (c # d # cs) =
     (if c = CHR 0x0D \<and> d = CHR 0x0A then d # crlf_to_lf cs
      else c # crlf_to_lf (d # cs))"
| "crlf_to_lf cs = cs"

text \<open>\<open>bytes.splitlines(keepends=True)\<close>: a line ends at LF, CR or CR LF and keeps its end.\<close>

fun splitlines_keep :: "bytes \<Rightarrow> bytes list" where
  "splitlines_keep [] = []"
| "splitlines_keep [c] = [[c]]"
| "splitlines_keep (c # d # cs) =
     (if c = CHR 0x0A then [c] # splitlines_keep (d # cs)
      else if c = CHR 0x0D then
        (if d = CHR 0x0A then [c, d] # splitlines_keep cs
         else [c] # splitlines_keep (d # cs))
      else (case splitlines_keep (d # cs) of
              [] \<Rightarrow> [[c]]
            | l # ls \<Rightarrow> (c # l) # ls))"

lemma concat_splitlines_keep: "concat (splitlines_keep s) = s"
proof (induction s rule: splitlines_keep.induct)
  case (3 c d cs)
  consider "c = CHR 0x0A" | "c = CHR 0x0D" "d = CHR 0x0A" | "c = CHR 0x0D" "d \<noteq> CHR 0x0A"
    | "c \<noteq> CHR 0x0A" "c \<noteq> CHR 0x0D" by blast
  then show ?case
  proof cases
    case 4
    with 3 have "concat (splitlines_keep (d # cs)) = d # cs" by blast
    with 4 show ?thesis by (cases "splitlines_keep (d # cs)") simp_all
  qed (use 3 in auto)
qed simp_all

lemma splitlines_keep_eq_Nil [simp]: "splitlines_keep s = [] \<longleftrightarrow> s = []"
  using concat_splitlines_keep [of s] by (metis concat.simps(1) splitlines_keep.simps(1))

lemma starts_with_append [simp]: "starts_with p (p @ s)"
  by (simp add: starts_with_def)

lemma starts_with_iff: "starts_with p s \<longleftrightarrow> (\<exists>t. s = p @ t)"
  unfolding starts_with_def by (metis append_eq_conv_conj append_take_drop_id)

subsection \<open>\<open>repr\<close> of strings and bytes\<close>

definition hex_char :: "nat \<Rightarrow> char" where
  "hex_char n = ''0123456789abcdef'' ! n"

definition hex2 :: "char \<Rightarrow> string" where
  "hex2 c = (let n = (of_char c :: nat) in [hex_char (n div 16), hex_char (n mod 16)])"

definition quote_for :: "string \<Rightarrow> char" where
  "quote_for s = (if CHR 0x27 \<in> set s \<and> CHR 0x22 \<notin> set s then CHR 0x22 else CHR 0x27)"

definition repr_char :: "(char \<Rightarrow> bool) \<Rightarrow> char \<Rightarrow> char \<Rightarrow> string" where
  "repr_char printable q c =
     (if c = q \<or> c = CHR 0x5C then [CHR 0x5C, c]
      else if c = CHR 0x09 then [CHR 0x5C, CHR ''t'']
      else if c = CHR 0x0A then [CHR 0x5C, CHR ''n'']
      else if c = CHR 0x0D then [CHR 0x5C, CHR ''r'']
      else if printable c then [c]
      else [CHR 0x5C, CHR ''x''] @ hex2 c)"

definition repr_with :: "(char \<Rightarrow> bool) \<Rightarrow> string \<Rightarrow> string" where
  "repr_with printable s =
     (let q = quote_for s in [q] @ concat (map (repr_char printable q) s) @ [q])"

definition ascii_printable :: "char \<Rightarrow> bool" where
  "ascii_printable c = (32 \<le> (of_char c :: nat) \<and> (of_char c :: nat) < 127)"

text \<open>\<open>str.isprintable\<close> for the code points below 256.\<close>

definition str_printable :: "char \<Rightarrow> bool" where
  "str_printable c = (let n = (of_char c :: nat) in
     32 \<le> n \<and> n < 127 \<or> 161 \<le> n \<and> n \<noteq> 173)"

text \<open>\<open>repr(s)\<close> of a string, \<open>str(b)\<close> of a bytes object.\<close>

definition repr_str :: "string \<Rightarrow> string" where
  "repr_str s = repr_with str_printable s"

definition str_bytes :: "bytes \<Rightarrow> string" where
  "str_bytes b = CHR ''b'' # repr_with ascii_printable b"

text \<open>
  \<open>str(xs)\<close> of a set or list of strings. Python leaves the order in which a set of strings
  is shown open; here a set is given by the list of its elements, shown in list order.
\<close>

definition show_str_list :: "string list \<Rightarrow> string" where
  "show_str_list xs = ''['' @ join '', '' (map repr_str xs) @ '']''"

definition show_str_set :: "string list \<Rightarrow> string" where
  "show_str_set xs = (if xs = [] then ''set()''
     else ''{'' @ join '', '' (map repr_str (remdups xs)) @ ''}'')"

subsection \<open>POSIX paths\<close>

text \<open>\<open>s.split("/")\<close>.\<close>

fun split_slash :: "string \<Rightarrow> string list" where
  "split_slash [] = [[]]"
| "split_slash (c # s) =
     (if c = CHR ''/'' then [] # split_slash s
      else (case split_slash s of [] \<Rightarrow> [[c]] | p # ps \<Rightarrow> (c # p) # ps))"

text \<open>The components of a path, without the empty ones and \<open>.\<close>; \<open>Path(p).name\<close> is the last.\<close>

type_synonym path_parts = "string list"

definition name_parts :: "string \<Rightarrow> path_parts" where
  "name_parts name = filter (\<lambda>p. p \<noteq> [] \<and> p \<noteq> ''.'') (split_slash name)"

definition path_name :: "string \<Rightarrow> string" where
  "path_name p = (let ps = name_parts p in if ps = [] then [] else last ps)"

subsection \<open>Dictionaries and lists\<close>

text \<open>\<open>{key(x): val(x) for x in xs}.get(k)\<close>: a later entry replaces an earlier one.\<close>

definition dict_comp_get :: "('a \<Rightarrow> string) \<Rightarrow> ('a \<Rightarrow> 'v) \<Rightarrow> 'a list \<Rightarrow> string \<Rightarrow> 'v option" where
  "dict_comp_get key val xs k = map_of (rev (map (\<lambda>x. (key x, val x)) xs)) k"

lemma dict_comp_get_Some:
  "dict_comp_get key val xs k = Some v \<Longrightarrow> \<exists>x \<in> set xs. key x = k \<and> val x = v"
  by (auto simp: dict_comp_get_def dest!: map_of_SomeD)

lemma dict_comp_get_None:
  "dict_comp_get key val xs k = None \<longleftrightarrow> k \<notin> key ` set xs"
proof -
  have "fst ` set (rev (map (\<lambda>x. (key x, val x)) xs)) = key ` set xs"
    by (simp add: image_image)
  then show ?thesis unfolding dict_comp_get_def map_of_eq_None_iff by simp
qed

lemma dict_comp_get_mem:
  "x \<in> set xs \<Longrightarrow> \<exists>y \<in> set xs. key y = key x \<and> dict_comp_get key val xs (key x) = Some (val y)"
  using dict_comp_get_None [of key val xs "key x"] dict_comp_get_Some [of key val xs "key x"]
  by (cases "dict_comp_get key val xs (key x)") auto

text \<open>Python's \<open>enumerate\<close> starts at 0.\<close>

abbreviation enum :: "'a list \<Rightarrow> (nat \<times> 'a) list" where
  "enum xs \<equiv> List.enumerate 0 xs"

lemma in_enum_iff: "(i, x) \<in> set (enum xs) \<longleftrightarrow> i < length xs \<and> xs ! i = x"
  by (auto simp: in_set_enumerate_eq)

lemma enum_concat_eq_Nil:
  "concat (map (\<lambda>(i, x). f i x) (enum xs)) = [] \<longleftrightarrow> (\<forall>i < length xs. f i (xs ! i) = [])"
proof -
  have "concat (map (\<lambda>(i, x). f i x) (enum xs)) = []
      \<longleftrightarrow> (\<forall>i x. (i, x) \<in> set (enum xs) \<longrightarrow> f i x = [])"
    unfolding concat_eq_Nil_conv by auto
  then show ?thesis by (auto simp: in_enum_iff)
qed

text \<open>A loop that reports at most one problem per element, depending on the element only.\<close>

lemma enum_filter_eq_Nil:
  "concat (map (\<lambda>(i, x). if P x then [f i x] else []) (enum xs)) = [] \<longleftrightarrow> (\<forall>x \<in> set xs. \<not> P x)"
  unfolding enum_concat_eq_Nil all_set_conv_all_nth by simp blast

end
