(* ===== verification/Identities.thy ===== *)
theory Identities
  imports Sha256
begin

text \<open>
  Core identity types (\<open>engine/domain/identities.py\<close>): content hashes, run, workload and
  execution ids, source, candidate, oracle, environment, input and artifact identities, the
  verdict vocabulary. A frozen dataclass with checks in \<open>__post_init__\<close> is a record
  together with a constructor \<open>mk_...\<close> that returns the exception of the first failed check.

  \<open>ContentHash.algorithm\<close> is a \<open>Final\<close> field that the constructor pins to
  \<open>"sha256"\<close>, so a constructed hash is its digest.
\<close>

subsection \<open>Content hashes\<close>

datatype content_hash = ContentHash (digest: string)

definition mk_content_hash :: "string \<Rightarrow> string \<Rightarrow> py_error + content_hash" where
  "mk_content_hash d algorithm =
     (if algorithm \<noteq> ''sha256''
      then Inl (ValueError (''V1 only supports sha256, got '' @ algorithm))
      else if length d \<noteq> 64
      then Inl (ValueError (''SHA-256 digest must be 64 hex chars, got '' @ show_nat (length d)))
      else Inr (ContentHash d))"

definition hash_from_bytes :: "bytes \<Rightarrow> content_hash" where
  "hash_from_bytes data = ContentHash (sha256_hex data)"

text \<open>\<open>str.encode("utf-8")\<close> for the code points below 256.\<close>

definition utf8_char :: "char \<Rightarrow> bytes" where
  "utf8_char c = (let n = (of_char c :: nat) in
     if n < 128 then [c] else [char_of (192 + n div 64), char_of (128 + n mod 64)])"

definition utf8_encode :: "string \<Rightarrow> bytes" where
  "utf8_encode s = concat (map utf8_char s)"

definition hash_from_string :: "string \<Rightarrow> content_hash" where
  "hash_from_string text = hash_from_bytes (utf8_encode text)"

definition hash_verify :: "content_hash \<Rightarrow> bytes \<Rightarrow> bool" where
  "hash_verify h data = (digest h = sha256_hex data)"

definition str_hash :: "content_hash \<Rightarrow> string" where
  "str_hash h = ''sha256:'' @ digest h"

lemma str_hash_inj [simp]: "str_hash g = str_hash h \<longleftrightarrow> g = h"
  by (cases g; cases h) (simp add: str_hash_def)

lemma mk_content_hash_from_bytes:
  "mk_content_hash (sha256_hex data) ''sha256'' = Inr (hash_from_bytes data)"
  by (simp add: mk_content_hash_def hash_from_bytes_def)

lemma hash_verify_from_bytes [simp]: "hash_verify (hash_from_bytes data) data"
  by (simp add: hash_verify_def hash_from_bytes_def)

text \<open>UTF-8 is uniquely decodable, so hashing text is hashing its encoding.\<close>

lemma utf8_char_inj: "utf8_char c @ r = utf8_char d @ r' \<Longrightarrow> c = d \<and> r = r'"
proof -
  assume eq: "utf8_char c @ r = utf8_char d @ r'"
  let ?n = "of_char c :: nat" and ?m = "of_char d :: nat"
  have hi: "of_char (char_of (192 + k div 64) :: char) = 192 + k div 64"
    "of_char (char_of (128 + k mod 64) :: char) = 128 + k mod 64" if "k < 256" for k :: nat
    using that by (simp_all add: less_mult_imp_div_less)
  have two: "e \<noteq> char_of (192 + k div 64)" if "(of_char e :: nat) < 128" "k < 256" for e and k :: nat
    using that hi(1) [of k] by auto
  consider "?n < 128" "?m < 128" | "?n \<ge> 128" "?m \<ge> 128"
    | "?n < 128" "?m \<ge> 128" | "?n \<ge> 128" "?m < 128" by linarith
  then show ?thesis
  proof cases
    case 2
    then have "char_of (192 + ?n div 64) = (char_of (192 + ?m div 64) :: char)"
      "char_of (128 + ?n mod 64) = (char_of (128 + ?m mod 64) :: char)" "r = r'"
      using eq by (simp_all add: utf8_char_def Let_def)
    then have "?n div 64 = ?m div 64" "?n mod 64 = ?m mod 64"
      using hi [of ?n] hi [of ?m] nat_of_char_less_256 by (metis add_left_cancel)+
    then have "?n = ?m" by (metis div_mult_mod_eq)
    with \<open>r = r'\<close> show ?thesis by simp
  qed (use eq two [of c ?m] two [of d ?n] in \<open>auto simp: utf8_char_def Let_def\<close>)
qed

lemma utf8_encode_inj: "utf8_encode s = utf8_encode t \<Longrightarrow> s = t"
proof (induction s arbitrary: t)
  case Nil
  then show ?case by (cases t) (auto simp: utf8_encode_def utf8_char_def Let_def split: if_splits)
next
  case (Cons c s)
  then obtain d t' where t: "t = d # t'"
    by (cases t) (auto simp: utf8_encode_def utf8_char_def Let_def split: if_splits)
  with Cons.prems have "utf8_char c @ utf8_encode s = utf8_char d @ utf8_encode t'"
    by (simp add: utf8_encode_def)
  from utf8_char_inj [OF this] Cons.IH t show ?case by blast
qed

subsection \<open>Wrapped identifiers\<close>

type_synonym workload_id = string
type_synonym run_id = string
type_synonym execution_id = string

definition mk_workload_id :: "string \<Rightarrow> py_error + workload_id" where
  "mk_workload_id v = (if v = [] then Inl (ValueError ''WorkloadId cannot be empty'') else Inr v)"

definition mk_run_id :: "string \<Rightarrow> py_error + run_id" where
  "mk_run_id v = (if v = [] then Inl (ValueError ''RunId cannot be empty'') else Inr v)"

definition mk_execution_id :: "string \<Rightarrow> py_error + execution_id" where
  "mk_execution_id v = (if v = [] then Inl (ValueError ''ExecutionId cannot be empty'') else Inr v)"

definition mk_comparison_id :: "string \<Rightarrow> py_error + string" where
  "mk_comparison_id v = (if v = [] then Inl (ValueError ''ComparisonId cannot be empty'') else Inr v)"

record comparator_id =
  cid_id :: string
  cid_version :: string

definition mk_comparator_id :: "string \<Rightarrow> string \<Rightarrow> py_error + comparator_id" where
  "mk_comparator_id i v =
     (if i = [] then Inl (ValueError ''comparator_id cannot be empty'')
      else Inr \<lparr>cid_id = i, cid_version = v\<rparr>)"

definition contract_types :: "string list" where
  "contract_types = [''ORACLE'', ''ARTIFACT'', ''VERDICT'', ''JAVA_CANDIDATE'', ''PRODUCER'']"

record contract_id =
  cti_type :: string
  cti_version :: string

definition mk_contract_id :: "string \<Rightarrow> string \<Rightarrow> py_error + contract_id" where
  "mk_contract_id t v =
     (if t \<notin> set contract_types
      then Inl (ValueError (''contract_type must be one of '' @ show_str_set contract_types
                            @ '', got '' @ t))
      else Inr \<lparr>cti_type = t, cti_version = v\<rparr>)"

subsection \<open>Source, candidate, oracle, environment and input identities\<close>

record source_identity =
  si_id :: string
  si_hash :: content_hash
  si_file_count :: int
  si_total_size :: int

definition mk_source_identity ::
  "string \<Rightarrow> content_hash \<Rightarrow> int \<Rightarrow> int \<Rightarrow> py_error + source_identity" where
  "mk_source_identity i h n z =
     (if i = [] then Inl (ValueError ''source_id cannot be empty'')
      else Inr \<lparr>si_id = i, si_hash = h, si_file_count = n, si_total_size = z\<rparr>)"

record candidate_identity =
  ca_id :: string
  ca_hash :: content_hash
  ca_source_hash :: content_hash
  ca_file_count :: int
  ca_total_size :: int

definition mk_candidate_identity ::
  "string \<Rightarrow> content_hash \<Rightarrow> content_hash \<Rightarrow> int \<Rightarrow> int \<Rightarrow> py_error + candidate_identity" where
  "mk_candidate_identity i h s n z =
     (if i = [] then Inl (ValueError ''candidate_id cannot be empty'')
      else Inr \<lparr>ca_id = i, ca_hash = h, ca_source_hash = s, ca_file_count = n, ca_total_size = z\<rparr>)"

record oracle_identity =
  or_id :: string
  or_image_digest :: string
  or_compiler_version :: string
  or_preprocessor_version :: "string option"
  or_base_image :: "string option"

definition mk_oracle_identity ::
  "string \<Rightarrow> string \<Rightarrow> string \<Rightarrow> string option \<Rightarrow> string option \<Rightarrow> py_error + oracle_identity" where
  "mk_oracle_identity i d v p b =
     (if i = [] then Inl (ValueError ''oracle_id cannot be empty'')
      else if \<not> starts_with ''sha256:'' d
      then Inl (ValueError ''image_digest must be sha256-pinned (never mutable tag)'')
      else if v = [] then Inl (ValueError ''compiler_version cannot be empty'')
      else Inr \<lparr>or_id = i, or_image_digest = d, or_compiler_version = v,
                or_preprocessor_version = p, or_base_image = b\<rparr>)"

record environment_identity =
  env_runtime_id :: string
  env_java_version :: "string option"
  env_cobol_compiler :: "string option"
  env_os_base :: "string option"
  env_network_policy :: string
  env_resource_limits :: "string dict"

record input_identity =
  in_id :: string
  in_stdin_hash :: "content_hash option"
  in_files :: "content_hash dict"

definition combined_hash :: "input_identity \<Rightarrow> content_hash" where
  "combined_hash i =
     (let parts = (case in_stdin_hash i of None \<Rightarrow> [] | Some h \<Rightarrow> [digest h])
                  @ map (\<lambda>path. digest (the (map_of (in_files i) path)))
                      (sort (map fst (in_files i)))
      in hash_from_string (concat parts))"

subsection \<open>Artifact identities\<close>

definition unobserved_effect_types :: "string list" where
  "unobserved_effect_types =
     [''DATABASE_STATE'', ''TRANSACTION_EFFECTS'', ''MESSAGE_QUEUE_EFFECTS'']"

definition valid_artifact_types :: "string list" where
  "valid_artifact_types =
     [''STDOUT'', ''STDERR'', ''EXIT_STATUS'', ''TEXT_FILE'', ''FIXED_RECORD'', ''BUSINESS_INVARIANT'']
     @ unobserved_effect_types"

record artifact_identity =
  ai_id :: string
  ai_type :: string
  ai_logical_name :: string
  ai_role :: string
  ai_content_hash :: content_hash
  ai_size_bytes :: int
  ai_record_count :: "int option"

definition mk_artifact_identity :: "artifact_identity \<Rightarrow> py_error + artifact_identity" where
  "mk_artifact_identity a =
     (if ai_type a \<notin> set valid_artifact_types
      then Inl (ValueError (''artifact_type must be one of '' @ show_str_set valid_artifact_types
                            @ '', got '' @ ai_type a))
      else if ai_role a \<notin> {''ORACLE'', ''CANDIDATE''}
      then Inl (ValueError (''producer_role must be ORACLE or CANDIDATE, got '' @ ai_role a))
      else Inr a)"

subsection \<open>Status vocabularies\<close>

datatype adapter_status = AVAILABLE | ADAPTER_UNAVAILABLE | ADAPTER_FAILED | SUCCEEDED

datatype verdict_state =
    VERIFIED | PARTIAL | FAILED | UNPROVEN | UNAVAILABLE | UNSUPPORTED | ERROR

fun verdict_value :: "verdict_state \<Rightarrow> string" where
  "verdict_value VERIFIED = ''VERIFIED''"
| "verdict_value PARTIAL = ''PARTIAL''"
| "verdict_value FAILED = ''FAILED''"
| "verdict_value UNPROVEN = ''UNPROVEN''"
| "verdict_value UNAVAILABLE = ''UNAVAILABLE''"
| "verdict_value UNSUPPORTED = ''UNSUPPORTED''"
| "verdict_value ERROR = ''ERROR''"

end
