(* ===== verification/Json.thy ===== *)
theory Json
  imports Prelude
begin

text \<open>
  The part of Python's \<open>json\<close> module the evidence code uses: \<open>json.dumps(value,
  sort_keys=True)\<close> with the default separators and ASCII escapes. The main lemma is that the
  text determines the value up to the order of the object keys (\<open>json_dumps_inj\<close>), which
  is what makes a hash of the text a hash of the value.
\<close>

datatype json =
    JNull
  | JBool bool
  | JInt int
  | JStr string
  | JList "json list"
  | JObj "(string \<times> json) list"

subsection \<open>The serializer\<close>

text \<open>\<open>json.encoder.ESCAPE_ASCII\<close>.\<close>

definition esc_char :: "char \<Rightarrow> string" where
  "esc_char c =
     (if c = CHR 0x22 then [CHR 0x5C, CHR 0x22]
      else if c = CHR 0x5C then [CHR 0x5C, CHR 0x5C]
      else if c = CHR 0x0A then [CHR 0x5C, CHR ''n'']
      else if c = CHR 0x0D then [CHR 0x5C, CHR ''r'']
      else if c = CHR 0x09 then [CHR 0x5C, CHR ''t'']
      else if c = CHR 0x0C then [CHR 0x5C, CHR ''f'']
      else if c = CHR 0x08 then [CHR 0x5C, CHR ''b'']
      else if ascii_printable c then [c]
      else [CHR 0x5C, CHR ''u'', CHR ''0'', CHR ''0''] @ hex2 c)"

definition dump_str :: "string \<Rightarrow> string" where
  "dump_str s = [CHR 0x22] @ concat (map esc_char s) @ [CHR 0x22]"

definition dump_member :: "string \<times> string \<Rightarrow> string" where
  "dump_member p = dump_str (fst p) @ '': '' @ snd p"

primrec dump :: "json \<Rightarrow> string" where
  "dump JNull = ''null''"
| "dump (JBool b) = (if b then ''true'' else ''false'')"
| "dump (JInt i) = show_int i"
| "dump (JStr s) = dump_str s"
| "dump (JList xs) = ''['' @ join '', '' (map dump xs) @ '']''"
| "dump (JObj fs) = ''{'' @ join '', '' (map dump_member (map (map_prod id dump) fs)) @ ''}''"

text \<open>\<open>sort_keys=True\<close>: at every level, by key.\<close>

primrec sort_keys :: "json \<Rightarrow> json" where
  "sort_keys JNull = JNull"
| "sort_keys (JBool b) = JBool b"
| "sort_keys (JInt i) = JInt i"
| "sort_keys (JStr s) = JStr s"
| "sort_keys (JList xs) = JList (map sort_keys xs)"
| "sort_keys (JObj fs) = JObj (sort_key fst (map (map_prod id sort_keys) fs))"

definition json_dumps :: "json \<Rightarrow> string" where
  "json_dumps v = dump (sort_keys v)"

subsection \<open>Unique decoding of string literals\<close>

definition unhex :: "char \<Rightarrow> nat" where
  "unhex c = (if is_digit c then digit_val c else of_char c - 87)"

text \<open>Reads one escaped character back; the inverse that shows the escapes are prefix-free.\<close>

fun unesc :: "string \<Rightarrow> char \<times> string" where
  "unesc (c # cs) =
     (if c = CHR 0x5C then
        (case cs of
           [] \<Rightarrow> (c, cs)
         | e # es \<Rightarrow>
             if e = CHR ''n'' then (CHR 0x0A, es)
             else if e = CHR ''r'' then (CHR 0x0D, es)
             else if e = CHR ''t'' then (CHR 0x09, es)
             else if e = CHR ''f'' then (CHR 0x0C, es)
             else if e = CHR ''b'' then (CHR 0x08, es)
             else if e = CHR ''u'' then
               (char_of (16 * unhex (es ! 2) + unhex (es ! 3)), drop 4 es)
             else (e, es))
      else (c, cs))"
| "unesc [] = (CHR 0x00, [])"

lemma less_16_cases:
  assumes "(n::nat) < 16"
  obtains "n < 10" | "n = 10" | "n = 11" | "n = 12" | "n = 13" | "n = 14" | "n = 15"
  using assms by linarith

lemma unhex_hex_char: "n < 16 \<Longrightarrow> unhex (hex_char n) = n"
proof (erule less_16_cases)
  assume "n < 10"
  then show ?thesis
    by (rule less_10_cases) (simp_all add: unhex_def hex_char_def is_digit_def digit_val_def)
qed (simp_all add: unhex_def hex_char_def is_digit_def)

lemma unesc_esc_char: "unesc (esc_char c @ r) = (c, r)"
proof -
  have "(of_char c :: nat) div 16 < 16" "(of_char c :: nat) mod 16 < 16"
    using nat_of_char_less_256 [of c] by (auto simp: less_mult_imp_div_less)
  then have "char_of (16 * unhex (hex_char (of_char c div 16))
      + unhex (hex_char (of_char c mod 16))) = c"
    by (simp add: unhex_hex_char)
  then have hex: "unesc ([CHR 0x5C, CHR ''u'', CHR ''0'', CHR ''0''] @ hex2 c @ r) = (c, r)"
    by (simp add: hex2_def Let_def)
  show ?thesis
  proof (cases "c \<in> set [CHR 0x22, CHR 0x5C, CHR 0x0A, CHR 0x0D, CHR 0x09, CHR 0x0C, CHR 0x08]")
    case True
    then show ?thesis by (auto simp: esc_char_def)
  next
    case False
    with hex show ?thesis
      by (cases "ascii_printable c") (simp_all add: esc_char_def del: unesc.simps, simp)
  qed
qed

lemma esc_char_inj: "esc_char c @ r = esc_char d @ r' \<Longrightarrow> c = d \<and> r = r'"
  by (metis prod.inject unesc_esc_char)

lemma hd_esc_char: "\<exists>x xs. esc_char c = x # xs \<and> x \<noteq> CHR 0x22"
  by (auto simp: esc_char_def)

lemma esc_string_inj:
  "concat (map esc_char s) @ CHR 0x22 # r = concat (map esc_char t) @ CHR 0x22 # r'
     \<Longrightarrow> s = t \<and> r = r'"
proof (induction s arbitrary: t)
  case Nil
  show ?case
  proof (cases t)
    case (Cons d t')
    with Nil hd_esc_char [of d] show ?thesis by auto
  qed (use Nil in simp)
next
  case (Cons c s)
  show ?case
  proof (cases t)
    case Nil
    with Cons.prems hd_esc_char [of c] show ?thesis by auto
  next
    case (Cons d t')
    with Cons.prems have "esc_char c @ concat (map esc_char s) @ CHR 0x22 # r
        = esc_char d @ concat (map esc_char t') @ CHR 0x22 # r'" by simp
    from esc_char_inj [OF this] Cons.IH Cons show ?thesis by blast
  qed
qed

lemma dump_str_inj: "dump_str s @ r = dump_str t @ r' \<Longrightarrow> s = t \<and> r = r'"
  using esc_string_inj [of s r t r'] by (simp add: dump_str_def)

subsection \<open>Unique decoding of values\<close>

text \<open>What can follow a value inside a larger text.\<close>

definition delim :: "string \<Rightarrow> bool" where
  "delim r \<longleftrightarrow> r = [] \<or> hd r \<in> {CHR '','', CHR '']'', CHR ''}''}"

lemma delim_simps [simp]:
  "delim []" "delim (c # cs) \<longleftrightarrow> c \<in> {CHR '','', CHR '']'', CHR ''}''}"
  by (simp_all add: delim_def)

lemma digits_maximal_munch:
  assumes "\<forall>c \<in> set xs. is_digit c" "\<forall>c \<in> set ys. is_digit c" "delim r" "delim r'"
    and "xs @ r = ys @ r'"
  shows "xs = ys \<and> r = r'"
proof -
  have tw: "takeWhile is_digit (zs @ q) = zs" if "\<forall>c \<in> set zs. is_digit c" "delim q" for zs q
    using that by (cases q) (auto simp: takeWhile_append is_digit_def)
  from assms tw [of xs r] tw [of ys r'] show ?thesis by simp
qed

lemma show_int_munch:
  assumes "delim r" "delim r'" "show_int i @ r = show_int j @ r'"
  shows "i = j \<and> r = r'"
proof -
  have h: "show_nat a @ q \<noteq> CHR ''-'' # xs" for a q xs
    using hd_show_nat [of a] by (cases "show_nat a") auto
  have nn: "a = b \<and> r = r'" if "show_nat a @ r = show_nat b @ r'" for a b
    using digits_maximal_munch [OF show_nat_digits show_nat_digits assms(1,2) that]
    by (auto dest: show_nat_inj)
  consider "i < 0 \<longleftrightarrow> j < 0" | "i < 0" "\<not> j < 0" | "\<not> i < 0" "j < 0" by blast
  then show ?thesis
  proof cases
    case 1
    show ?thesis
    proof (cases "i < 0")
      case True
      with 1 assms(3) have "show_nat (nat (- i)) @ r = show_nat (nat (- j)) @ r'"
        by (simp add: show_int_def)
      from nn [OF this] 1 True show ?thesis by linarith
    next
      case False
      with 1 assms(3) have "show_nat (nat i) @ r = show_nat (nat j) @ r'"
        by (simp add: show_int_def)
      from nn [OF this] 1 False show ?thesis by linarith
    qed
  next
    case 2
    with assms(3) h [of "nat j" r'] show ?thesis by (simp add: show_int_def) metis
  next
    case 3
    with assms(3) h [of "nat i" r] show ?thesis by (simp add: show_int_def)
  qed
qed

text \<open>The first character tells the constructor.\<close>

definition con :: "json \<Rightarrow> nat" where
  "con v = (case v of JNull \<Rightarrow> 0 | JBool b \<Rightarrow> 1 | JInt i \<Rightarrow> 2 | JStr s \<Rightarrow> 3
     | JList xs \<Rightarrow> 4 | JObj fs \<Rightarrow> 5)"

definition con_of_char :: "char \<Rightarrow> nat" where
  "con_of_char c =
     (if c = CHR ''n'' then 0 else if c = CHR ''t'' \<or> c = CHR ''f'' then 1
      else if is_digit c \<or> c = CHR ''-'' then 2 else if c = CHR 0x22 then 3
      else if c = CHR ''['' then 4 else if c = CHR ''{'' then 5 else 6)"

lemma show_int_start: "\<exists>c cs. show_int i = c # cs \<and> (is_digit c \<or> c = CHR ''-'')"
proof (cases "i < 0")
  case False
  with hd_show_nat [of "nat i"] show ?thesis
    by (cases "show_nat (nat i)") (auto simp: show_int_def)
qed (simp add: show_int_def)

lemma is_digit_not_letter:
  "is_digit c \<Longrightarrow> c \<noteq> CHR ''n'' \<and> c \<noteq> CHR ''t'' \<and> c \<noteq> CHR ''f'' \<and> c \<noteq> CHR '','' \<and> c \<noteq> CHR '']'' \<and> c \<noteq> CHR ''}''"
  by (auto simp: is_digit_def)

lemma con_of_char_eval:
  "con_of_char (CHR ''n'') = 0" "con_of_char (CHR ''t'') = 1" "con_of_char (CHR ''f'') = 1"
  "con_of_char (CHR 0x22) = 3" "con_of_char (CHR ''['') = 4" "con_of_char (CHR ''{'') = 5"
  by (simp_all add: con_of_char_def is_digit_def)

lemma dump_start: "\<exists>c cs. dump v = c # cs \<and> con_of_char c = con v \<and> \<not> delim [c]"
proof (cases v)
  case (JInt i)
  from show_int_start [of i] obtain c cs where c: "show_int i = c # cs" "is_digit c \<or> c = CHR ''-''"
    by blast
  then have "con_of_char c = 2" "\<not> delim [c]"
    using is_digit_not_letter [of c] by (auto simp: con_of_char_def)
  with c JInt show ?thesis by (simp add: con_def)
qed (simp_all add: con_def dump_str_def con_of_char_eval)

lemma same_con: "dump v @ r = dump w @ r' \<Longrightarrow> con v = con w"
  using dump_start [of v] dump_start [of w] by auto

definition prefix_inj :: "('a \<Rightarrow> string) \<Rightarrow> 'a \<Rightarrow> bool" where
  "prefix_inj f x \<longleftrightarrow> (\<forall>y r r'. delim r \<longrightarrow> delim r' \<longrightarrow> f x @ r = f y @ r' \<longrightarrow> x = y \<and> r = r')"

lemma prefix_injD:
  "prefix_inj f x \<Longrightarrow> delim r \<Longrightarrow> delim r' \<Longrightarrow> f x @ r = f y @ r' \<Longrightarrow> x = y \<and> r = r'"
  by (simp add: prefix_inj_def)

lemma join_Cons: "join sep (x # xs) = x @ concat (map (\<lambda>y. sep @ y) xs)"
  by (induction xs arbitrary: x) auto

lemma items_tail_inj:
  assumes "\<forall>x \<in> set xs. prefix_inj f x" and c: "c \<in> {CHR '']'', CHR ''}''}"
    and "concat (map (\<lambda>x. '', '' @ f x) xs) @ c # r = concat (map (\<lambda>x. '', '' @ f x) ys) @ c # r'"
  shows "xs = ys \<and> r = r'"
  using assms(1,3)
proof (induction xs arbitrary: ys)
  case Nil
  then show ?case using c by (cases ys) auto
next
  case (Cons x xs)
  let ?T = "\<lambda>zs q. concat (map (\<lambda>x. '', '' @ f x) zs) @ c # q"
  from Cons.prems c obtain y ys' where ys: "ys = y # ys'" by (cases ys) auto
  have d: "delim (?T zs q)" for zs q using c by (cases zs) auto
  from Cons.prems ys have "f x @ ?T xs r = f y @ ?T ys' r'" by simp
  with Cons.prems(1) d have "x = y \<and> ?T xs r = ?T ys' r'"
    by (intro prefix_injD) auto
  with Cons ys show ?case by auto
qed

lemma items_inj:
  assumes "\<forall>x \<in> set xs. prefix_inj f x" and st: "\<forall>x. \<exists>a as. f x = a # as \<and> \<not> delim [a]"
    and c: "c \<in> {CHR '']'', CHR ''}''}"
    and eq: "join '', '' (map f xs) @ c # r = join '', '' (map f ys) @ c # r'"
  shows "xs = ys \<and> r = r'"
proof (cases xs)
  case Nil
  have "f y @ q \<noteq> c # q'" for y q q' using st [rule_format, of y] c by auto
  with Nil eq show ?thesis by (cases ys) (auto simp: join_Cons dest: not_sym)
next
  case (Cons x xs')
  have "f y @ q \<noteq> c # q'" for y q q' using st [rule_format, of y] c by auto
  with Cons eq obtain y ys' where ys: "ys = y # ys'"
    by (cases ys) (auto simp: join_Cons)
  let ?T = "\<lambda>zs q. concat (map (\<lambda>x. '', '' @ f x) zs) @ c # q"
  have d: "delim (?T zs q)" for zs q using c by (cases zs) auto
  from eq Cons ys have "f x @ ?T xs' r = f y @ ?T ys' r'" by (simp add: join_Cons comp_def)
  with assms(1) Cons d have *: "x = y \<and> ?T xs' r = ?T ys' r'"
    by (intro prefix_injD) auto
  with items_tail_inj [of xs' f c r ys' r'] assms(1) c Cons ys show ?thesis by auto
qed

lemma dump_member_start: "\<exists>a as. dump_member p = a # as \<and> \<not> delim [a]"
  by (simp add: dump_member_def dump_str_def)

lemma dump_prefix_inj: "prefix_inj dump v"
proof (induction v)
  case JNull
  show ?case unfolding prefix_inj_def
  proof (intro allI impI)
    fix w r r' assume eq: "dump JNull @ r = dump w @ r'"
    with same_con [OF eq] show "JNull = w \<and> r = r'" by (cases w) (simp_all add: con_def)
  qed
next
  case (JBool b)
  show ?case unfolding prefix_inj_def
  proof (intro allI impI)
    fix w r r' assume eq: "dump (JBool b) @ r = dump w @ r'"
    with same_con [OF eq] show "JBool b = w \<and> r = r'"
      by (cases w) (simp_all add: con_def split: if_splits)
  qed
next
  case (JInt i)
  show ?case unfolding prefix_inj_def
  proof (intro allI impI)
    fix w r r' assume d: "delim r" "delim r'" and eq: "dump (JInt i) @ r = dump w @ r'"
    with same_con [OF eq] obtain j where w: "w = JInt j" by (cases w) (simp_all add: con_def)
    with eq show_int_munch [OF d, of i j] show "JInt i = w \<and> r = r'" by simp
  qed
next
  case (JStr s)
  show ?case unfolding prefix_inj_def
  proof (intro allI impI)
    fix w r r' assume eq: "dump (JStr s) @ r = dump w @ r'"
    with same_con [OF eq] obtain t where w: "w = JStr t" by (cases w) (simp_all add: con_def)
    with eq dump_str_inj [of s r t r'] show "JStr s = w \<and> r = r'" by simp
  qed
next
  case (JList xs)
  show ?case unfolding prefix_inj_def
  proof (intro allI impI)
    fix w r r' assume eq: "dump (JList xs) @ r = dump w @ r'"
    with same_con [OF eq] obtain ys where w: "w = JList ys" by (cases w) (simp_all add: con_def)
    have st: "\<forall>x. \<exists>a as. dump x = a # as \<and> \<not> delim [a]" using dump_start by blast
    from eq w have "join '', '' (map dump xs) @ CHR '']'' # r
        = join '', '' (map dump ys) @ CHR '']'' # r'" by simp
    from items_inj [OF _ st _ this] JList w show "JList xs = w \<and> r = r'" by simp
  qed
next
  case (JObj fs)
  let ?f = "\<lambda>p. dump_member (map_prod id dump p)"
  have inj: "\<forall>p \<in> set fs. prefix_inj ?f p"
  proof
    fix p assume p: "p \<in> set fs"
    have ih: "prefix_inj dump (snd p)" using JObj [OF p, of "snd p"] by (cases p) auto
    show "prefix_inj ?f p" unfolding prefix_inj_def
    proof (intro allI impI)
      fix q r r' assume d: "delim r" "delim r'" and "?f p @ r = ?f q @ r'"
      then have "dump_str (fst p) @ '': '' @ dump (snd p) @ r
          = dump_str (fst q) @ '': '' @ dump (snd q) @ r'" by (simp add: dump_member_def)
      from dump_str_inj [OF this] have k: "fst p = fst q"
        and v: "dump (snd p) @ r = dump (snd q) @ r'" by auto
      from prefix_injD [OF ih d v] k show "p = q \<and> r = r'" by (simp add: prod_eq_iff)
    qed
  qed
  show ?case unfolding prefix_inj_def
  proof (intro allI impI)
    fix w r r' assume eq: "dump (JObj fs) @ r = dump w @ r'"
    with same_con [OF eq] obtain gs where w: "w = JObj gs" by (cases w) (simp_all add: con_def)
    have st: "\<forall>p. \<exists>a as. ?f p = a # as \<and> \<not> delim [a]" using dump_member_start by blast
    from eq w have "join '', '' (map ?f fs) @ CHR ''}'' # r
        = join '', '' (map ?f gs) @ CHR ''}'' # r'" by (simp add: comp_def)
    from items_inj [OF inj st _ this] w show "JObj fs = w \<and> r = r'" by simp
  qed
qed

lemma dump_inj: "dump v = dump w \<Longrightarrow> v = w"
  using prefix_injD [OF dump_prefix_inj [of v], of "[]" "[]" w] by simp

lemma json_dumps_inj: "json_dumps v = json_dumps w \<longleftrightarrow> sort_keys v = sort_keys w"
  by (auto simp: json_dumps_def dest: dump_inj)

subsection \<open>Objects up to the order of their keys\<close>

lemma insort_key_map: "insort_key f (g x) (map g xs) = map g (insort_key (\<lambda>y. f (g y)) x xs)"
  by (induction xs) simp_all

lemma sort_key_map: "sort_key f (map g xs) = map g (sort_key (\<lambda>y. f (g y)) xs)"
  by (induction xs) (simp_all add: insort_key_map comp_def)

lemma sort_keys_JObj_map:
  "sort_keys (JObj (map (map_prod id g) d)) = JObj (map (map_prod id (sort_keys \<circ> g)) (sort_key fst d))"
proof -
  have "map_prod id sort_keys (map_prod id g x) = map_prod id (sort_keys \<circ> g) x" for x :: "string \<times> 'a"
    by (cases x) simp
  moreover have "sort_key (\<lambda>y. fst (map_prod id (sort_keys \<circ> g) y)) d = sort_key fst d"
    by simp
  ultimately show ?thesis by (simp add: sort_key_map comp_def)
qed

text \<open>Two objects with the same keys in the same order: equal values, key by key.\<close>

lemma sort_key_fst_inj:
  assumes "distinct (map fst xs)" and k: "map fst xs = map fst ys"
    and "sort_key fst xs = sort_key fst ys"
  shows "xs = ys"
proof -
  from assms(3) have st: "set xs = set ys" by (metis set_sort)
  have len: "length xs = length ys" using k by (metis length_map)
  show ?thesis
  proof (rule nth_equalityI [OF len])
    fix i assume i: "i < length xs"
    then have f: "fst (xs ! i) = fst (ys ! i)" using k len by (metis nth_map)
    from i len st have "ys ! i \<in> set xs" by simp
    moreover from i have "xs ! i \<in> set xs" by simp
    ultimately show "xs ! i = ys ! i" using assms(1) f
      by (metis eq_key_imp_eq_value prod.collapse)
  qed
qed

text \<open>The object literal with the given keys, in the source's order.\<close>

definition obj_of :: "string list \<Rightarrow> json list \<Rightarrow> json" where
  "obj_of ks vs = JObj (zip ks vs)"

lemma sort_keys_obj_of_inj:
  assumes "distinct ks" "length vs = length ks" "length ws = length ks"
    and "sort_keys (obj_of ks vs) = sort_keys (obj_of ks ws)"
  shows "map sort_keys vs = map sort_keys ws"
proof -
  have z: "map (map_prod id sort_keys) (zip ks zs) = zip ks (map sort_keys zs)" for zs
    by (rule nth_equalityI) simp_all
  from assms(4) have "sort_key fst (zip ks (map sort_keys vs)) = sort_key fst (zip ks (map sort_keys ws))"
    by (simp add: obj_of_def z)
  moreover have "map fst (zip ks (map sort_keys zs)) = ks" if "length zs = length ks" for zs
    using that by simp
  ultimately have eq: "zip ks (map sort_keys vs) = zip ks (map sort_keys ws)"
    using assms(1-3) sort_key_fst_inj by metis
  show ?thesis
    using arg_cong [OF eq, of "map snd"] assms(2,3) by simp
qed

subsection \<open>Distinct keys\<close>

text \<open>A Python \<open>dict\<close> has distinct keys; in the association lists of the model this is a condition, at every
  level.\<close>

primrec distinct_keys :: "json \<Rightarrow> bool" where
  "distinct_keys JNull = True"
| "distinct_keys (JBool b) = True"
| "distinct_keys (JInt i) = True"
| "distinct_keys (JStr s) = True"
| "distinct_keys (JList xs) = list_all id (map distinct_keys xs)"
| "distinct_keys (JObj fs) = (distinct (map fst fs) \<and> list_all snd (map (map_prod id distinct_keys) fs))"

lemma distinct_keys_list: "distinct_keys (JList xs) \<longleftrightarrow> (\<forall>x \<in> set xs. distinct_keys x)"
  by (simp add: list.pred_set)

lemma distinct_keys_obj:
  "distinct_keys (JObj fs) \<longleftrightarrow> distinct (map fst fs) \<and> (\<forall>p \<in> set fs. distinct_keys (snd p))"
  by (auto simp: list.pred_set)

declare distinct_keys.simps(5,6) [simp del]

lemma map_of_sort_key: "distinct (map fst d) \<Longrightarrow> map_of (sort_key fst d) k = map_of d k"
proof -
  assume d: "distinct (map fst d)"
  then have "distinct (map fst (sort_key fst d))" by (simp add: distinct_map)
  moreover have "set (sort_key fst d) = set d" by simp
  ultimately show ?thesis using d map_of_eqI map_of_eq_Some_iff
    by (metis (no_types, opaque_lifting) map_of_eq_Some_iff not_None_eq)
qed

lemma map_of_map_prod: "map_of (map (map_prod id f) d) k = map_option f (map_of d k)"
  by (induction d) auto

lemma sort_keys_idem: "sort_keys (sort_keys v) = sort_keys v"
proof (induction v)
  case (JObj fs)
  have "map (map_prod id sort_keys) (sort_key fst (map (map_prod id sort_keys) fs))
      = sort_key fst (map (map_prod id sort_keys) fs)"
  proof (rule map_idI)
    fix p assume "p \<in> set (sort_key fst (map (map_prod id sort_keys) fs))"
    then obtain q where q: "q \<in> set fs" "p = map_prod id sort_keys q" by auto
    have "sort_keys (sort_keys (snd q)) = sort_keys (snd q)" using JObj.IH [OF q(1), of "snd q"] by (simp add: snds.simps)
    then show "map_prod id sort_keys p = p" by (simp add: q(2) map_prod_def split_beta)
  qed
  moreover have "sort_key fst (sort_key fst xs) = sort_key fst xs" for xs :: "(string \<times> json) list"
    by (rule sort_key_id_if_sorted) simp
  ultimately show ?case by (simp only: sort_keys.simps)
qed simp_all

end
