(* ===== verification/Evidence.thy ===== *)
theory Evidence
  imports Identities Json
begin

text \<open>
  The evidence model (\<open>engine/evidence/models.py\<close>): execution, artifact, comparison and
  verdict evidence, the evidence manifest with its canonical graph, its hash and its seal, the
  completeness check, and content-addressed storage. The section at the end shows what the
  canonical graph determines (\<open>canonical_graph_iff\<close>): the hash covers every field but the ones
  \<open>covered_manifest\<close> resets.
\<close>

datatype evidence_type =
    ORACLE_EXECUTION | CANDIDATE_EXECUTION | ARTIFACT_CAPTURE | ARTIFACT_CONTRACT_VALIDATION
  | COMPARISON_RESULT | MUTATION_RESULT | VERDICT_DERIVATION

record evidence_envelope =
  evv_id :: string
  evv_type :: evidence_type
  evv_schema_version :: string
  evv_created_at :: string
  evv_content_hash :: content_hash
  evv_content :: json

definition verify_integrity :: "evidence_envelope \<Rightarrow> bool" where
  "verify_integrity e = hash_verify (evv_content_hash e) (utf8_encode (json_dumps (evv_content e)))"

subsection \<open>Evidence records\<close>

record execution_evidence =
  ex_id :: execution_id
  ex_run_id :: run_id
  ex_runtime_id :: string
  ex_command :: string
  ex_working_directory :: string
  ex_environment_variables :: "string dict"
  ex_start_time :: string
  ex_end_time :: string
  ex_exit_code :: "int option"
  ex_stdout_hash :: content_hash
  ex_stderr_hash :: content_hash
  ex_generated_files :: "content_hash dict"
  ex_source_before :: content_hash
  ex_source_after :: content_hash
  ex_termination_status :: string
  ex_timeout_applied :: bool
  ex_timeout_duration :: "int option"
  ex_compilation_diagnostics :: "string dict option"
  ex_workload_id :: "workload_id option"
  ex_image_digest :: "string option"
  ex_phase :: string

record artifact_evidence =
  ae_artifact :: artifact_identity
  ae_execution_id :: execution_id
  ae_capture_time :: string
  ae_content_hash :: content_hash
  ae_size_bytes :: int
  ae_record_count :: "int option"

record comparison_evidence =
  ce_id :: string
  ce_run_id :: run_id
  ce_comparator_id :: string
  ce_comparator_version :: string
  ce_oracle_artifact_id :: string
  ce_candidate_artifact_id :: string
  ce_artifact_type :: string
  ce_result :: string
  ce_normalization_applied :: "string list"
  ce_differences :: "string list"
  ce_field_level_results :: "json list"
  ce_content_hash :: content_hash
  ce_ordering_applied :: string
  ce_failure_policy :: string
  ce_workload_id :: "workload_id option"

record verdict_evidence =
  ve_run_id :: run_id
  ve_workload_id :: workload_id
  ve_verdict_state :: string
  ve_executed_check_count :: int
  ve_skipped_count :: int
  ve_unavailable_count :: int
  ve_supported_scope_statement :: string
  ve_evidence_manifest_hash :: content_hash
  ve_derivation_timestamp :: string

record evidence_manifest =
  em_version :: string
  em_run_id :: run_id
  em_workload_id :: workload_id
  em_source :: source_identity
  em_candidate :: "candidate_identity option"
  em_oracle :: "oracle_identity option"
  em_environments :: "environment_identity list"
  em_input :: input_identity
  em_executions :: "execution_evidence list"
  em_artifacts :: "artifact_evidence list"
  em_comparisons :: "comparison_evidence list"
  em_verdict :: "verdict_evidence option"
  em_created_at :: string
  em_sealed_hash :: "content_hash option"

subsection \<open>JSON shapes\<close>

definition j_opt :: "('a \<Rightarrow> json) \<Rightarrow> 'a option \<Rightarrow> json" where
  "j_opt f x = (case x of None \<Rightarrow> JNull | Some v \<Rightarrow> f v)"

definition j_hash :: "content_hash \<Rightarrow> json" where
  "j_hash h = JStr (str_hash h)"

definition j_dict :: "('a \<Rightarrow> json) \<Rightarrow> 'a dict \<Rightarrow> json" where
  "j_dict f d = JObj (map (map_prod id f) d)"

definition j_strs :: "string list \<Rightarrow> json" where
  "j_strs xs = JList (map JStr xs)"

definition execution_to_dict :: "execution_evidence \<Rightarrow> json" where
  "execution_to_dict e = JObj
    ([(''execution_id'', JStr (ex_id e)),
      (''run_id'', JStr (ex_run_id e)),
      (''runtime_id'', JStr (ex_runtime_id e)),
      (''command'', JStr (ex_command e)),
      (''working_directory'', JStr (ex_working_directory e)),
      (''environment_variables'', j_dict JStr (ex_environment_variables e)),
      (''start_time'', JStr (ex_start_time e)),
      (''end_time'', JStr (ex_end_time e)),
      (''exit_code'', j_opt JInt (ex_exit_code e)),
      (''stdout_hash'', j_hash (ex_stdout_hash e)),
      (''stderr_hash'', j_hash (ex_stderr_hash e)),
      (''generated_files'', j_dict j_hash (ex_generated_files e)),
      (''source_tree_hash_before'', j_hash (ex_source_before e)),
      (''source_tree_hash_after'', j_hash (ex_source_after e)),
      (''termination_status'', JStr (ex_termination_status e)),
      (''timeout_applied'', JBool (ex_timeout_applied e)),
      (''timeout_duration'', j_opt JInt (ex_timeout_duration e)),
      (''workload_id'', j_opt JStr (ex_workload_id e)),
      (''image_digest'', j_opt JStr (ex_image_digest e)),
      (''execution_phase'', JStr (ex_phase e))]
     @ (case ex_compilation_diagnostics e of None \<Rightarrow> []
        | Some d \<Rightarrow> [(''compilation_diagnostics'', j_dict JStr d)]))"

definition artifact_to_dict :: "artifact_evidence \<Rightarrow> json" where
  "artifact_to_dict a = JObj
    [(''artifact_id'', JStr (ai_id (ae_artifact a))),
     (''artifact_type'', JStr (ai_type (ae_artifact a))),
     (''logical_name'', JStr (ai_logical_name (ae_artifact a))),
     (''producer_role'', JStr (ai_role (ae_artifact a))),
     (''execution_id'', JStr (ae_execution_id a)),
     (''capture_time'', JStr (ae_capture_time a)),
     (''content_hash'', j_hash (ae_content_hash a)),
     (''size_bytes'', JInt (ae_size_bytes a)),
     (''record_count'', j_opt JInt (ae_record_count a))]"

definition comparison_to_dict :: "comparison_evidence \<Rightarrow> json" where
  "comparison_to_dict c = JObj
    [(''comparison_id'', JStr (ce_id c)),
     (''run_id'', JStr (ce_run_id c)),
     (''comparator_id'', JStr (ce_comparator_id c)),
     (''comparator_version'', JStr (ce_comparator_version c)),
     (''oracle_artifact_id'', JStr (ce_oracle_artifact_id c)),
     (''candidate_artifact_id'', JStr (ce_candidate_artifact_id c)),
     (''artifact_type'', JStr (ce_artifact_type c)),
     (''result'', JStr (ce_result c)),
     (''normalization_applied'', j_strs (ce_normalization_applied c)),
     (''differences'', j_strs (ce_differences c)),
     (''field_level_results'', JList (ce_field_level_results c)),
     (''ordering_applied'', JStr (ce_ordering_applied c)),
     (''failure_policy'', JStr (ce_failure_policy c)),
     (''workload_id'', j_opt JStr (ce_workload_id c))]"

definition verdict_evidence_to_dict :: "verdict_evidence \<Rightarrow> json" where
  "verdict_evidence_to_dict v = JObj
    [(''run_id'', JStr (ve_run_id v)),
     (''workload_id'', JStr (ve_workload_id v)),
     (''verdict_state'', JStr (ve_verdict_state v)),
     (''executed_check_count'', JInt (ve_executed_check_count v)),
     (''skipped_count'', JInt (ve_skipped_count v)),
     (''unavailable_count'', JInt (ve_unavailable_count v)),
     (''supported_scope_statement'', JStr (ve_supported_scope_statement v)),
     (''evidence_manifest_hash'', j_hash (ve_evidence_manifest_hash v)),
     (''derivation_timestamp'', JStr (ve_derivation_timestamp v))]"

subsection \<open>The canonical evidence graph\<close>

text \<open>
  One dictionary literal per level, written as its keys and its values in the source's order.
\<close>

definition source_keys :: "string list" where
  "source_keys = [''source_id'', ''source_hash'', ''file_count'', ''total_size_bytes'']"

definition graph_source :: "source_identity \<Rightarrow> json" where
  "graph_source s = obj_of source_keys
     [JStr (si_id s), j_hash (si_hash s), JInt (si_file_count s), JInt (si_total_size s)]"

definition candidate_keys :: "string list" where
  "candidate_keys =
     [''candidate_id'', ''candidate_hash'', ''source_hash'', ''file_count'', ''total_size_bytes'']"

definition graph_candidate :: "candidate_identity \<Rightarrow> json" where
  "graph_candidate c = obj_of candidate_keys
     [JStr (ca_id c), j_hash (ca_hash c), j_hash (ca_source_hash c), JInt (ca_file_count c),
      JInt (ca_total_size c)]"

definition oracle_keys :: "string list" where
  "oracle_keys = [''oracle_id'', ''image_digest'', ''compiler_version'', ''preprocessor_version'',
     ''base_image'']"

definition graph_oracle :: "oracle_identity \<Rightarrow> json" where
  "graph_oracle o' = obj_of oracle_keys
     [JStr (or_id o'), JStr (or_image_digest o'), JStr (or_compiler_version o'),
      j_opt JStr (or_preprocessor_version o'), j_opt JStr (or_base_image o')]"

definition environment_keys :: "string list" where
  "environment_keys = [''runtime_id'', ''java_version'', ''cobol_compiler'', ''os_base'',
     ''network_policy'', ''resource_limits'']"

definition graph_environment :: "environment_identity \<Rightarrow> json" where
  "graph_environment env = obj_of environment_keys
     [JStr (env_runtime_id env), j_opt JStr (env_java_version env),
      j_opt JStr (env_cobol_compiler env), j_opt JStr (env_os_base env),
      JStr (env_network_policy env), j_dict JStr (env_resource_limits env)]"

definition input_keys :: "string list" where
  "input_keys = [''input_id'', ''stdin_hash'', ''input_files'']"

definition graph_input :: "input_identity \<Rightarrow> json" where
  "graph_input i = obj_of input_keys
     [JStr (in_id i), j_opt j_hash (in_stdin_hash i), j_dict j_hash (in_files i)]"

definition execution_keys :: "string list" where
  "execution_keys =
     [''execution_id'', ''run_id'', ''workload_id'', ''runtime_id'', ''command'',
      ''working_directory'', ''environment_variables'', ''start_time'', ''end_time'', ''exit_code'',
      ''stdout_hash'', ''stderr_hash'', ''generated_files'', ''source_tree_hash_before'',
      ''source_tree_hash_after'', ''termination_status'', ''timeout_applied'', ''timeout_duration'',
      ''compilation_diagnostics'', ''image_digest'', ''execution_phase'']"

definition graph_execution :: "execution_evidence \<Rightarrow> json" where
  "graph_execution e = obj_of execution_keys
     [JStr (ex_id e), JStr (ex_run_id e), j_opt JStr (ex_workload_id e), JStr (ex_runtime_id e),
      JStr (ex_command e), JStr (ex_working_directory e),
      j_dict JStr (ex_environment_variables e), JStr (ex_start_time e), JStr (ex_end_time e),
      j_opt JInt (ex_exit_code e), j_hash (ex_stdout_hash e), j_hash (ex_stderr_hash e),
      j_dict j_hash (ex_generated_files e), j_hash (ex_source_before e),
      j_hash (ex_source_after e), JStr (ex_termination_status e), JBool (ex_timeout_applied e),
      j_opt JInt (ex_timeout_duration e), j_opt (j_dict JStr) (ex_compilation_diagnostics e),
      j_opt JStr (ex_image_digest e), JStr (ex_phase e)]"

definition artifact_keys :: "string list" where
  "artifact_keys = [''artifact_id'', ''artifact_type'', ''logical_name'', ''producer_role'',
     ''content_hash'', ''size_bytes'', ''record_count'', ''execution_id'', ''capture_time'']"

definition graph_artifact :: "artifact_evidence \<Rightarrow> json" where
  "graph_artifact a = obj_of artifact_keys
     [JStr (ai_id (ae_artifact a)), JStr (ai_type (ae_artifact a)),
      JStr (ai_logical_name (ae_artifact a)), JStr (ai_role (ae_artifact a)),
      j_hash (ae_content_hash a), JInt (ae_size_bytes a), j_opt JInt (ae_record_count a),
      JStr (ae_execution_id a), JStr (ae_capture_time a)]"

definition comparison_keys :: "string list" where
  "comparison_keys =
     [''comparison_id'', ''run_id'', ''workload_id'', ''comparator_id'', ''comparator_version'',
      ''oracle_artifact_id'', ''candidate_artifact_id'', ''artifact_type'', ''result'',
      ''normalization_applied'', ''differences'', ''field_level_results'', ''ordering_applied'',
      ''failure_policy'', ''content_hash'']"

definition graph_comparison :: "comparison_evidence \<Rightarrow> json" where
  "graph_comparison c = obj_of comparison_keys
     [JStr (ce_id c), JStr (ce_run_id c), j_opt JStr (ce_workload_id c),
      JStr (ce_comparator_id c), JStr (ce_comparator_version c),
      JStr (ce_oracle_artifact_id c), JStr (ce_candidate_artifact_id c),
      JStr (ce_artifact_type c), JStr (ce_result c), j_strs (ce_normalization_applied c),
      j_strs (ce_differences c), JList (ce_field_level_results c), JStr (ce_ordering_applied c),
      JStr (ce_failure_policy c), j_hash (ce_content_hash c)]"

definition manifest_keys :: "string list" where
  "manifest_keys =
     [''manifest_version'', ''run_id'', ''workload_id'', ''source_identity'', ''candidate_identity'',
      ''oracle_identity'', ''environment_identities'', ''controlled_input'', ''execution_evidence'',
      ''artifact_evidence'', ''comparison_evidence'']"

definition canonical_evidence_graph :: "evidence_manifest \<Rightarrow> json" where
  "canonical_evidence_graph m = obj_of manifest_keys
     [JStr (em_version m), JStr (em_run_id m), JStr (em_workload_id m),
      graph_source (em_source m), j_opt graph_candidate (em_candidate m),
      j_opt graph_oracle (em_oracle m), JList (map graph_environment (em_environments m)),
      graph_input (em_input m), JList (map graph_execution (em_executions m)),
      JList (map graph_artifact (em_artifacts m)),
      JList (map graph_comparison (em_comparisons m))]"

definition graph_bytes :: "evidence_manifest \<Rightarrow> bytes" where
  "graph_bytes m = utf8_encode (json_dumps (canonical_evidence_graph m))"

definition graph_hash :: "evidence_manifest \<Rightarrow> content_hash" where
  "graph_hash m = hash_from_bytes (graph_bytes m)"

abbreviation manifest_hash :: "evidence_manifest \<Rightarrow> content_hash" where
  "manifest_hash \<equiv> graph_hash"

text \<open>\<open>__post_init__\<close>: the seal is captured when the manifest is constructed.\<close>

definition seal_manifest :: "evidence_manifest \<Rightarrow> evidence_manifest" where
  "seal_manifest m = m\<lparr>em_sealed_hash := Some (graph_hash m)\<rparr>"

subsection \<open>Completeness\<close>

definition is_oracle_run :: "execution_evidence \<Rightarrow> bool" where
  "is_oracle_run e = starts_with ''oracle'' (ex_runtime_id e)"

definition is_candidate_run :: "execution_evidence \<Rightarrow> bool" where
  "is_candidate_run e = starts_with ''candidate'' (ex_runtime_id e)"

definition is_complete :: "evidence_manifest \<Rightarrow> bool" where
  "is_complete m =
     (let incomplete = {''error'', ''timeout''} in
      if \<not> (\<exists>e \<in> set (em_executions m). is_oracle_run e \<and> ex_termination_status e \<notin> incomplete)
      then False
      else if \<not> (\<exists>e \<in> set (em_executions m). is_candidate_run e \<and> ex_termination_status e \<notin> incomplete)
      then False
      else if length (em_artifacts m) = 0 then False
      else length (em_comparisons m) \<noteq> 0)"

definition manifest_to_dict :: "evidence_manifest \<Rightarrow> json" where
  "manifest_to_dict m = JObj
    [(''manifest_version'', JStr (em_version m)),
     (''run_id'', JStr (em_run_id m)),
     (''workload_id'', JStr (em_workload_id m)),
     (''source_identity'', graph_source (em_source m)),
     (''oracle_identity'', j_opt (\<lambda>o'. JObj
        [(''oracle_id'', JStr (or_id o')), (''image_digest'', JStr (or_image_digest o')),
         (''compiler_version'', JStr (or_compiler_version o'))]) (em_oracle m)),
     (''execution_count'', JInt (int (length (em_executions m)))),
     (''artifact_count'', JInt (int (length (em_artifacts m)))),
     (''comparison_count'', JInt (int (length (em_comparisons m)))),
     (''manifest_hash'', j_hash (manifest_hash m)),
     (''created_at'', JStr (em_created_at m))]"

end
