(* ===== verification/Comparators.thy ===== *)
theory Comparators
  imports Evidence
begin

text \<open>
  The typed comparators (\<open>engine/comparators/framework.py\<close>): one comparator per artifact type,
  the registry, and the binding of comparator ids to artifact types. A comparator call takes the
  two artifact identities, the two contents (\<open>None\<close> when the artifact is missing), the declared
  normalizations, the ordering and the \<open>on_missing\<close> attribute of the failure policy (\<open>None\<close>
  when the policy object has none), and returns a result or the \<open>ValueError\<close> of an unsupported
  policy.
\<close>

subsection \<open>Results\<close>

datatype comparison_result = MATCH | MISMATCH | INCONCLUSIVE

fun result_value :: "comparison_result \<Rightarrow> string" where
  "result_value MATCH = ''MATCH''"
| "result_value MISMATCH = ''MISMATCH''"
| "result_value INCONCLUSIVE = ''INCONCLUSIVE''"

record comparison_difference =
  cd_location :: string
  cd_expected :: string
  cd_actual :: string
  cd_description :: string

record comparator_result =
  cr_comparator_id :: comparator_id
  cr_oracle :: artifact_identity
  cr_candidate :: artifact_identity
  cr_result :: comparison_result
  cr_differences :: "comparison_difference list"
  cr_normalization :: "string list"
  cr_field_level :: "json list"
  cr_evidence_hash :: "content_hash option"
  cr_ordering :: string
  cr_failure_policy :: string

text \<open>The result with the dataclass defaults of the fields a comparator does not give.\<close>

definition mk_result ::
  "comparator_id \<Rightarrow> artifact_identity \<Rightarrow> artifact_identity \<Rightarrow> comparison_result
     \<Rightarrow> comparison_difference list \<Rightarrow> string list \<Rightarrow> comparator_result" where
  "mk_result cid oa ca r ds ns =
     \<lparr>cr_comparator_id = cid, cr_oracle = oa, cr_candidate = ca, cr_result = r,
      cr_differences = ds, cr_normalization = ns, cr_field_level = [], cr_evidence_hash = None,
      cr_ordering = ''SEQUENTIAL'', cr_failure_policy = []\<rparr>"

definition difference :: "string \<Rightarrow> string \<Rightarrow> string \<Rightarrow> string \<Rightarrow> comparison_difference" where
  "difference l e a d =
     \<lparr>cd_location = l, cd_expected = e, cd_actual = a, cd_description = d\<rparr>"

definition to_comparison_evidence :: "comparator_result \<Rightarrow> run_id \<Rightarrow> comparison_evidence" where
  "to_comparison_evidence r run =
     (let evidence_dict = JObj
        [(''comparator_id'', JStr (cid_id (cr_comparator_id r))),
         (''comparator_version'', JStr (cid_version (cr_comparator_id r))),
         (''oracle_artifact_id'', JStr (ai_id (cr_oracle r))),
         (''candidate_artifact_id'', JStr (ai_id (cr_candidate r))),
         (''result'', JStr (result_value (cr_result r))),
         (''differences'', JList (map (\<lambda>d. JObj
            [(''location'', JStr (cd_location d)), (''expected'', JStr (cd_expected d)),
             (''actual'', JStr (cd_actual d))]) (cr_differences r)))]
      in \<lparr>ce_id = ''comp-'' @ ai_id (cr_oracle r) @ ''-'' @ ai_id (cr_candidate r),
          ce_run_id = run,
          ce_comparator_id = cid_id (cr_comparator_id r),
          ce_comparator_version = cid_version (cr_comparator_id r),
          ce_oracle_artifact_id = ai_id (cr_oracle r),
          ce_candidate_artifact_id = ai_id (cr_candidate r),
          ce_artifact_type = ai_type (cr_oracle r),
          ce_result = result_value (cr_result r),
          ce_normalization_applied = cr_normalization r,
          ce_differences = map cd_description (cr_differences r),
          ce_field_level_results = cr_field_level r,
          ce_content_hash = hash_from_bytes (utf8_encode (json_dumps evidence_dict)),
          ce_ordering_applied = ''SEQUENTIAL'',
          ce_failure_policy = [],
          ce_workload_id = None\<rparr>)"

subsection \<open>Shared steps of every comparator\<close>

definition handle_missing ::
  "comparator_id \<Rightarrow> artifact_identity \<Rightarrow> artifact_identity \<Rightarrow> bytes option \<Rightarrow> bytes option
     \<Rightarrow> string option \<Rightarrow> comparator_result option" where
  "handle_missing cid oa ca oc cc fp =
     (let oracle_missing = (oc = None); candidate_missing = (cc = None) in
      if \<not> oracle_missing \<and> \<not> candidate_missing then None
      else
        let policy = (case fp of None \<Rightarrow> ''UNAVAILABLE'' | Some p \<Rightarrow> p);
            result = (if policy = ''UNAVAILABLE'' then INCONCLUSIVE else MISMATCH);
            description =
              (if oracle_missing \<and> candidate_missing
               then ''Both declared artifacts are missing/unavailable''
               else if oracle_missing then ''Oracle declared artifact is missing/unavailable''
               else ''Candidate declared artifact is missing/unavailable'')
        in Some ((mk_result cid oa ca result
             [difference ''artifact'' (if \<not> oracle_missing then ''PRESENT'' else ''MISSING'')
                (if \<not> candidate_missing then ''PRESENT'' else ''MISSING'') description] [])
             \<lparr>cr_failure_policy := policy\<rparr>))"

definition apply_ordering :: "bytes \<Rightarrow> string \<Rightarrow> py_error + bytes" where
  "apply_ordering content ord =
     (if ord = ''SEQUENTIAL'' then Inr content
      else if ord \<in> {''SORTED'', ''UNORDERED''} then Inr (concat (sort (splitlines_keep content)))
      else Inl (ValueError (''Unsupported ordering policy: '' @ ord)))"

fun normalize :: "bytes \<Rightarrow> string list \<Rightarrow> py_error + bytes" where
  "normalize content [] = Inr content"
| "normalize content (n # ns) =
     (if n = ''crlf_to_lf'' then normalize (crlf_to_lf content) ns
      else Inl (ValueError (''Unsupported normalization '' @ repr_str n
                            @ ''; V1 implements only 'crlf_to_lf'')))"

definition prepared :: "bytes \<Rightarrow> string list \<Rightarrow> string \<Rightarrow> py_error + bytes" where
  "prepared content ns ord = bind_res (normalize content ns) (\<lambda>c. apply_ordering c ord)"

type_synonym compare_fn =
  "artifact_identity \<Rightarrow> bytes option \<Rightarrow> artifact_identity \<Rightarrow> bytes option
     \<Rightarrow> string list option \<Rightarrow> string \<Rightarrow> string option \<Rightarrow> py_error + comparator_result"

subsection \<open>STDOUT, STDERR and TEXT_FILE\<close>

text \<open>The three text comparators have the same body but for their id, location and description.\<close>

definition text_compare :: "comparator_id \<Rightarrow> string \<Rightarrow> string \<Rightarrow> compare_fn" where
  "text_compare cid location description oa oc ca cc norm ord fp =
     (case handle_missing cid oa ca oc cc fp of
        Some r \<Rightarrow> Inr r
      | None \<Rightarrow>
          (let ns = (case norm of None \<Rightarrow> [] | Some xs \<Rightarrow> xs) in
           bind_res (prepared (the oc) ns ord) (\<lambda>on.
           bind_res (prepared (the cc) ns ord) (\<lambda>cn.
             if on = cn
             then Inr ((mk_result cid oa ca MATCH [] ns)\<lparr>cr_ordering := ord\<rparr>)
             else Inr ((mk_result cid oa ca MISMATCH
                    [difference location (str_bytes on) (str_bytes cn) description] ns)
                    \<lparr>cr_ordering := ord\<rparr>)))))"

definition stdout_id :: comparator_id where
  "stdout_id = \<lparr>cid_id = ''STDOUT_COMPARATOR'', cid_version = ''1.0.0''\<rparr>"

definition stdout_compare :: compare_fn where
  "stdout_compare = text_compare stdout_id ''stdout'' ''STDOUT output differs''"

definition stderr_id :: comparator_id where
  "stderr_id = \<lparr>cid_id = ''STDERR_COMPARATOR'', cid_version = ''1.0.0''\<rparr>"

definition stderr_compare :: compare_fn where
  "stderr_compare = text_compare stderr_id ''stderr'' ''STDERR output differs''"

definition text_file_id :: comparator_id where
  "text_file_id = \<lparr>cid_id = ''TEXT_FILE_COMPARATOR'', cid_version = ''1.0.0''\<rparr>"

definition text_file_compare :: compare_fn where
  "text_file_compare = text_compare text_file_id ''file_content'' ''TEXT_FILE content differs''"

subsection \<open>EXIT_STATUS\<close>

text \<open>
  \<open>int(b)\<close> of a bytes object in base 10: an optional sign, then digits with single underscores
  between them; more than 4300 digits raise \<open>ValueError\<close> as a malformed literal does.
\<close>

fun digit_groups :: "string \<Rightarrow> bool" where
  "digit_groups [] = False"
| "digit_groups [c] = is_digit c"
| "digit_groups (c # d # cs) =
     (is_digit c \<and> (if d = CHR ''_'' then digit_groups cs else digit_groups (d # cs)))"

lemma digit_groups_digits: "list_all is_digit s \<Longrightarrow> s \<noteq> [] \<Longrightarrow> digit_groups s"
  by (induction s rule: digit_groups.induct) (auto simp: is_digit_def)

definition int_of_bytes :: "bytes \<Rightarrow> int option" where
  "int_of_bytes b =
     (let t = strip_bytes b;
          neg = (t \<noteq> [] \<and> hd t = CHR ''-'');
          body = (if t \<noteq> [] \<and> hd t \<in> {CHR ''+'', CHR ''-''} then tl t else t);
          ds = filter is_digit body
      in if digit_groups body \<and> length ds \<le> 4300
         then Some (if neg then - int (digits_val 0 ds) else int (digits_val 0 ds))
         else None)"

definition exit_status_id :: comparator_id where
  "exit_status_id = \<lparr>cid_id = ''EXIT_STATUS_COMPARATOR'', cid_version = ''1.0.0''\<rparr>"

definition exit_status_compare :: compare_fn where
  "exit_status_compare oa oc ca cc norm ord fp =
     (case handle_missing exit_status_id oa ca oc cc fp of
        Some r \<Rightarrow> Inr r
      | None \<Rightarrow>
          (case (int_of_bytes (the oc), int_of_bytes (the cc)) of
             (Some oe, Some ce) \<Rightarrow>
               (if oe = ce then Inr (mk_result exit_status_id oa ca MATCH [] [])
                else Inr (mk_result exit_status_id oa ca MISMATCH
                       [difference ''exit_code'' (show_int oe) (show_int ce)
                          (''Exit code differs: '' @ show_int oe @ '' vs '' @ show_int ce)] []))
           | _ \<Rightarrow> Inr (mk_result exit_status_id oa ca INCONCLUSIVE
                    [difference ''exit_code'' (str_bytes (the oc)) (str_bytes (the cc))
                       ''Invalid exit code format''] [])))"

subsection \<open>FIXED_RECORD\<close>

definition fixed_record_id :: comparator_id where
  "fixed_record_id = \<lparr>cid_id = ''FIXED_RECORD_COMPARATOR'', cid_version = ''1.0.0''\<rparr>"

definition infer_record_length :: "artifact_identity \<Rightarrow> artifact_identity \<Rightarrow> int option" where
  "infer_record_length oa ca =
     (case ai_record_count oa of
        Some n \<Rightarrow>
          if n > 0 then Some (ai_size_bytes oa div n)
          else (case ai_record_count ca of
                  Some k \<Rightarrow> if k > 0 then Some (ai_size_bytes ca div k) else None
                | None \<Rightarrow> None)
      | None \<Rightarrow>
          (case ai_record_count ca of
             Some k \<Rightarrow> if k > 0 then Some (ai_size_bytes ca div k) else None
           | None \<Rightarrow> None))"

text \<open>\<open>content[i * n : i * n + n] if i * n < len(content) else b""\<close>\<close>

definition record_at :: "nat \<Rightarrow> bytes \<Rightarrow> nat \<Rightarrow> bytes" where
  "record_at n content i =
     (if i * n < length content then take n (drop (i * n) content) else [])"

definition index_label :: "nat \<Rightarrow> string" where
  "index_label i = ''record['' @ show_nat i @ '']''"

definition record_difference ::
  "nat \<Rightarrow> bytes \<Rightarrow> bytes \<Rightarrow> nat \<Rightarrow> comparison_difference list" where
  "record_difference n oc cc i =
     (let oracle_count = length oc div n; candidate_count = length cc div n;
          oracle_rec = record_at n oc i; candidate_rec = record_at n cc i
      in if i \<ge> oracle_count
         then [difference (index_label i) ''<missing>'' (str_bytes candidate_rec)
                 (''Extra candidate record at index '' @ show_nat i)]
         else if i \<ge> candidate_count
         then [difference (index_label i) (str_bytes oracle_rec) ''<missing>''
                 (''Missing candidate record at index '' @ show_nat i)]
         else if oracle_rec \<noteq> candidate_rec
         then [difference (index_label i) (str_bytes oracle_rec) (str_bytes candidate_rec)
                 (''Record '' @ show_nat i @ '' differs'')]
         else [])"

definition record_tail :: "nat \<Rightarrow> bytes \<Rightarrow> bytes" where
  "record_tail n content = drop ((length content div n) * n) content"

definition record_differences :: "nat \<Rightarrow> bytes \<Rightarrow> bytes \<Rightarrow> comparison_difference list" where
  "record_differences n oc cc =
     (let max_count = max (length oc div n) (length cc div n);
          oracle_tail = record_tail n oc; candidate_tail = record_tail n cc
      in concat (map (record_difference n oc cc) [0..<max_count])
         @ (if oracle_tail \<noteq> candidate_tail
            then [difference ''trailing_partial_record'' (str_bytes oracle_tail)
                    (str_bytes candidate_tail)
                    (''Trailing partial-record bytes differ: oracle ''
                     @ show_nat (length oracle_tail) @ '' byte(s) vs candidate ''
                     @ show_nat (length candidate_tail) @ '' beyond '' @ show_nat max_count
                     @ '' whole record(s) of length '' @ show_nat n)]
            else []))"

definition compare_record_by_record ::
  "artifact_identity \<Rightarrow> bytes \<Rightarrow> artifact_identity \<Rightarrow> bytes \<Rightarrow> nat \<Rightarrow> comparator_result" where
  "compare_record_by_record oa oc ca cc n =
     (let ds = record_differences n oc cc in
      if ds \<noteq> [] then mk_result fixed_record_id oa ca MISMATCH ds []
      else mk_result fixed_record_id oa ca MATCH [] [])"

definition fixed_record_compare :: compare_fn where
  "fixed_record_compare oa oc ca cc norm ord fp =
     (case handle_missing fixed_record_id oa ca oc cc fp of
        Some r \<Rightarrow> Inr r
      | None \<Rightarrow>
          (let oracle_rl = ai_record_count oa; candidate_rl = ai_record_count ca in
           if oracle_rl \<noteq> None \<and> candidate_rl \<noteq> None \<and> oracle_rl \<noteq> candidate_rl
           then Inr (mk_result fixed_record_id oa ca MISMATCH
                  [difference ''record_count'' (show_int (the oracle_rl)) (show_int (the candidate_rl))
                     (''Record count differs: oracle='' @ show_int (the oracle_rl)
                      @ '' candidate='' @ show_int (the candidate_rl))] [])
           else if the oc = the cc then Inr (mk_result fixed_record_id oa ca MATCH [] [])
           else (case infer_record_length oa ca of
                   Some l \<Rightarrow>
                     if l > 0 then Inr (compare_record_by_record oa (the oc) ca (the cc) (nat l))
                     else Inr (mk_result fixed_record_id oa ca MISMATCH
                       [difference ''records'' (show_nat (length (the oc))) (show_nat (length (the cc)))
                          ''FIXED_RECORD content differs (byte-level fallback)''] [])
                 | None \<Rightarrow>
                     Inr (mk_result fixed_record_id oa ca MISMATCH
                       [difference ''records'' (show_nat (length (the oc))) (show_nat (length (the cc)))
                          ''FIXED_RECORD content differs (byte-level fallback)''] []))))"

subsection \<open>The registry\<close>

datatype comparator =
    StdoutComparator | StderrComparator | ExitStatusComparator | TextFileComparator
  | FixedRecordComparator | BusinessInvariantComparator

fun comparator_artifact_type :: "comparator \<Rightarrow> string" where
  "comparator_artifact_type StdoutComparator = ''STDOUT''"
| "comparator_artifact_type StderrComparator = ''STDERR''"
| "comparator_artifact_type ExitStatusComparator = ''EXIT_STATUS''"
| "comparator_artifact_type TextFileComparator = ''TEXT_FILE''"
| "comparator_artifact_type FixedRecordComparator = ''FIXED_RECORD''"
| "comparator_artifact_type BusinessInvariantComparator = ''BUSINESS_INVARIANT''"

fun comparator_ident :: "comparator \<Rightarrow> comparator_id" where
  "comparator_ident StdoutComparator = stdout_id"
| "comparator_ident StderrComparator = stderr_id"
| "comparator_ident ExitStatusComparator = exit_status_id"
| "comparator_ident TextFileComparator = text_file_id"
| "comparator_ident FixedRecordComparator = fixed_record_id"
| "comparator_ident BusinessInvariantComparator =
     \<lparr>cid_id = ''BUSINESS_INVARIANT_COMPARATOR'', cid_version = ''1.0.0''\<rparr>"

type_synonym registry = "comparator dict"

definition registry_get :: "registry \<Rightarrow> string \<Rightarrow> comparator option" where
  "registry_get r t = map_of r t"

definition is_registered :: "registry \<Rightarrow> string \<Rightarrow> bool" where
  "is_registered r t = (t \<in> fst ` set r)"

definition register :: "comparator \<Rightarrow> registry \<Rightarrow> py_error + registry" where
  "register c r =
     (let t = comparator_artifact_type c in
      if is_registered r t then Inl (ValueError (''Comparator already registered for '' @ t))
      else Inr (r @ [(t, c)]))"

definition create_default_registry :: "py_error + registry" where
  "create_default_registry =
     bind_res (register StdoutComparator []) (\<lambda>r.
     bind_res (register StderrComparator r) (\<lambda>r.
     bind_res (register ExitStatusComparator r) (\<lambda>r.
     bind_res (register TextFileComparator r) (\<lambda>r.
       register FixedRecordComparator r))))"

definition create_verification_registry :: "py_error + registry" where
  "create_verification_registry =
     bind_res create_default_registry (\<lambda>r. register BusinessInvariantComparator r)"

definition register_business_invariant_comparator :: "registry \<Rightarrow> py_error + registry" where
  "register_business_invariant_comparator r =
     (if \<not> is_registered r ''BUSINESS_INVARIANT'' then register BusinessInvariantComparator r
      else Inr r)"

definition canonical_comparator_ids :: "string dict" where
  "canonical_comparator_ids =
     [(''STDOUT'', ''STDOUT_COMPARATOR''),
      (''STDERR'', ''STDERR_COMPARATOR''),
      (''EXIT_STATUS'', ''EXIT_STATUS_COMPARATOR''),
      (''TEXT_FILE'', ''TEXT_FILE_COMPARATOR''),
      (''FIXED_RECORD'', ''FIXED_RECORD_COMPARATOR''),
      (''BUSINESS_INVARIANT'', ''BUSINESS_INVARIANT_COMPARATOR'')]"

definition comparator_id_aliases :: "string dict" where
  "comparator_id_aliases =
     [(''stdout-exact'', ''STDOUT_COMPARATOR''),
      (''stderr-exact'', ''STDERR_COMPARATOR''),
      (''exit-status-exact'', ''EXIT_STATUS_COMPARATOR''),
      (''text-file-exact'', ''TEXT_FILE_COMPARATOR''),
      (''fixed-record-exact'', ''FIXED_RECORD_COMPARATOR''),
      (''business-invariant-exact'', ''BUSINESS_INVARIANT_COMPARATOR'')]"

definition dict_get :: "string dict \<Rightarrow> string \<Rightarrow> string \<Rightarrow> string" where
  "dict_get d k default' = (case map_of d k of None \<Rightarrow> default' | Some v \<Rightarrow> v)"

definition resolve_comparator_id :: "string option \<Rightarrow> string" where
  "resolve_comparator_id declared_id =
     (let declared = strip (case declared_id of None \<Rightarrow> [] | Some s \<Rightarrow> s)
      in dict_get comparator_id_aliases declared declared)"

end
