(* ===== verification/Integrity.thy ===== *)
theory Integrity
  imports Comparators
begin

text \<open>
  The trust-boundary admission layer (\<open>engine/evidence/integrity.py\<close>): one definition per check of
  \<open>EvidenceIntegrityValidator\<close>, each returning the violations it appends, and \<open>validate\<close>, which
  runs them in the source's order. \<open>IntegrityFacts\<close> shows what acceptance means.
\<close>

datatype violation_type =
    RUN_BINDING_MISMATCH | WORKLOAD_BINDING_MISMATCH | SOURCE_CANDIDATE_MISMATCH
  | ORACLE_IDENTITY_MISMATCH | IMAGE_IDENTITY_MISMATCH | ARTIFACT_EXECUTION_MISMATCH
  | COMPARISON_ARTIFACT_MISMATCH | COMPARATOR_BINDING_MISMATCH | CONTENT_HASH_MISMATCH
  | MANIFEST_HASH_MISMATCH | SOURCE_MUTATION | UNKNOWN_COMPARISON_RESULT
  | MISSING_REQUIRED_EVIDENCE | MISSING_EXIT_STATUS | CROSS_RUN_REPLAY | CROSS_WORKLOAD_REPLAY
  | ORPHAN_ARTIFACT | ORPHAN_COMPARISON | MALFORMED_EVIDENCE

record integrity_violation =
  iv_type :: violation_type
  iv_description :: string
  iv_field_path :: string
  iv_expected :: string
  iv_actual :: string

definition violation ::
  "violation_type \<Rightarrow> string \<Rightarrow> string \<Rightarrow> string \<Rightarrow> string \<Rightarrow> integrity_violation" where
  "violation t d f e a =
     \<lparr>iv_type = t, iv_description = d, iv_field_path = f, iv_expected = e, iv_actual = a\<rparr>"

definition known_comparison_results :: "string list" where
  "known_comparison_results = [''MATCH'', ''MISMATCH'', ''INCONCLUSIVE'']"

record validated_manifest =
  vm_manifest :: evidence_manifest
  vm_integrity_hash :: content_hash
  vm_validated_at :: string
  vm_summary :: string

text \<open>\<open>f"{base}[{i}].{field}"\<close>\<close>

definition path :: "string \<Rightarrow> nat \<Rightarrow> string \<Rightarrow> string" where
  "path base i field = base @ ''['' @ show_nat i @ ''].'' @ field"

definition indexed :: "string \<Rightarrow> nat \<Rightarrow> string \<Rightarrow> string" where
  "indexed base i rest = base @ '' ['' @ show_nat i @ ''] '' @ rest"

definition quoted :: "string \<Rightarrow> string" where
  "quoted s = [CHR 0x27] @ s @ [CHR 0x27]"

subsection \<open>Run and workload bindings\<close>

definition run_exec_ids :: "evidence_manifest \<Rightarrow> string list" where
  "run_exec_ids m = map ex_id (filter (\<lambda>e. ex_run_id e = em_run_id m) (em_executions m))"

definition validate_run_bindings :: "evidence_manifest \<Rightarrow> integrity_violation list" where
  "validate_run_bindings m =
     (let expected_run = em_run_id m; valid_exec_ids = run_exec_ids m in
      concat (map (\<lambda>(i, e). if ex_run_id e \<noteq> expected_run
          then [violation CROSS_RUN_REPLAY
                 (indexed ''Execution evidence'' i (''has run_id '' @ quoted (ex_run_id e)
                    @ '' but manifest declares '' @ quoted expected_run))
                 (path ''execution_evidence'' i ''run_id'') expected_run (ex_run_id e)]
          else []) (enum (em_executions m)))
      @ concat (map (\<lambda>(i, a). if ae_execution_id a \<notin> set valid_exec_ids
          then [violation CROSS_RUN_REPLAY
                 (indexed ''Artifact evidence'' i (''has execution_id '' @ quoted (ae_execution_id a)
                    @ '' not found in manifest execution evidence for run '' @ quoted expected_run))
                 (path ''artifact_evidence'' i ''execution_id'')
                 (''one of '' @ show_str_set valid_exec_ids) (ae_execution_id a)]
          else []) (enum (em_artifacts m)))
      @ concat (map (\<lambda>(i, c). if ce_run_id c \<noteq> expected_run
          then [violation CROSS_RUN_REPLAY
                 (indexed ''Comparison evidence'' i (''has run_id '' @ quoted (ce_run_id c)
                    @ '' but manifest declares '' @ quoted expected_run))
                 (path ''comparison_evidence'' i ''run_id'') expected_run (ce_run_id c)]
          else []) (enum (em_comparisons m))))"

definition validate_workload_bindings :: "evidence_manifest \<Rightarrow> integrity_violation list" where
  "validate_workload_bindings m =
     (let expected = em_workload_id m in
      concat (map (\<lambda>(i, e). if ex_workload_id e \<notin> {None, Some expected}
          then [violation WORKLOAD_BINDING_MISMATCH
                 (indexed ''Execution evidence'' i (''is bound to workload ''
                    @ quoted (the (ex_workload_id e)) @ '' but manifest declares '' @ quoted expected))
                 (path ''execution_evidence'' i ''workload_id'') expected (the (ex_workload_id e))]
          else []) (enum (em_executions m)))
      @ concat (map (\<lambda>(i, c). if ce_workload_id c \<notin> {None, Some expected}
          then [violation WORKLOAD_BINDING_MISMATCH
                 (indexed ''Comparison evidence'' i (''is bound to workload ''
                    @ quoted (the (ce_workload_id c)) @ '' but manifest declares '' @ quoted expected))
                 (path ''comparison_evidence'' i ''workload_id'') expected (the (ce_workload_id c))]
          else []) (enum (em_comparisons m))))"

subsection \<open>Source, candidate and oracle bindings\<close>

definition validate_source_candidate_binding :: "evidence_manifest \<Rightarrow> integrity_violation list" where
  "validate_source_candidate_binding m =
     (case em_candidate m of
        None \<Rightarrow> []
      | Some c \<Rightarrow>
          (let manifest_hash = str_hash (si_hash (em_source m));
               candidate_hash = str_hash (ca_source_hash c)
           in if candidate_hash \<noteq> manifest_hash
              then [violation SOURCE_CANDIDATE_MISMATCH
                     (''Candidate source_hash '' @ quoted candidate_hash
                      @ '' does not match manifest source_hash '' @ quoted manifest_hash)
                     ''candidate_identity.source_hash'' manifest_hash candidate_hash]
              else []))"

definition validate_oracle_binding :: "evidence_manifest \<Rightarrow> integrity_violation list" where
  "validate_oracle_binding m =
     (let oracle_execs = filter is_oracle_run (em_executions m) in
      case em_oracle m of
        None \<Rightarrow> [violation ORACLE_IDENTITY_MISMATCH ''Manifest has no oracle_identity''
                  ''oracle_identity'' ''non-null OracleIdentity'' ''None'']
      | Some o' \<Rightarrow>
          concat (map (\<lambda>(i, e). if ex_image_digest e \<notin> {None, Some (or_image_digest o')}
            then [violation IMAGE_IDENTITY_MISMATCH
                   (indexed ''Oracle execution'' i (''ran image '' @ quoted (the (ex_image_digest e))
                      @ '' but manifest claims oracle identity '' @ quoted (or_image_digest o')))
                   (path ''execution_evidence'' i ''image_digest'')
                   (or_image_digest o') (the (ex_image_digest e))]
            else []) (enum oracle_execs)))"

subsection \<open>Artifact and comparison bindings\<close>

definition validate_artifact_execution_binding :: "evidence_manifest \<Rightarrow> integrity_violation list" where
  "validate_artifact_execution_binding m =
     (let valid_exec_ids = map ex_id (em_executions m) in
      concat (map (\<lambda>(i, a). if ae_execution_id a \<notin> set valid_exec_ids
        then [violation ARTIFACT_EXECUTION_MISMATCH
               (indexed ''Artifact'' i (''references execution_id '' @ quoted (ae_execution_id a)
                  @ '' not in manifest execution evidence''))
               (path ''artifact_evidence'' i ''execution_id'')
               (''one of '' @ show_str_set valid_exec_ids) (ae_execution_id a)]
        else []) (enum (em_artifacts m))))"

definition artifact_by_id :: "evidence_manifest \<Rightarrow> string \<Rightarrow> artifact_identity option" where
  "artifact_by_id m = dict_comp_get (\<lambda>a. ai_id (ae_artifact a)) ae_artifact (em_artifacts m)"

definition comparison_pairing_violations ::
  "nat \<Rightarrow> comparison_evidence \<Rightarrow> evidence_manifest \<Rightarrow> integrity_violation list" where
  "comparison_pairing_violations i c m =
     (let oracle = artifact_by_id m (ce_oracle_artifact_id c);
          candidate = artifact_by_id m (ce_candidate_artifact_id c);
          v = (\<lambda>kind description field expected actual.
                 violation kind (indexed ''Comparison'' i description)
                   (path ''comparison_evidence'' i field) expected actual);
          type_check = (\<lambda>(side, artifact). case artifact of
              None \<Rightarrow> []
            | Some a \<Rightarrow> if ai_type a \<noteq> ce_artifact_type c
                then [v COMPARISON_ARTIFACT_MISMATCH
                       (side @ '' artifact type differs from the comparison's'')
                       (side @ ''_artifact_id'') (ce_artifact_type c) (ai_type a)]
                else [])
      in (if ce_oracle_artifact_id c = ce_candidate_artifact_id c
          then [v COMPARISON_ARTIFACT_MISMATCH ''compares an artifact with itself''
                 ''candidate_artifact_id'' ''an artifact other than the oracle's''
                 (ce_candidate_artifact_id c)]
          else [])
         @ (case oracle of None \<Rightarrow> []
            | Some a \<Rightarrow> if ai_role a \<noteq> ''ORACLE''
                then [v COMPARISON_ARTIFACT_MISMATCH ''oracle side is not an ORACLE artifact''
                       ''oracle_artifact_id'' ''producer_role ORACLE'' (ai_role a)]
                else [])
         @ (case candidate of None \<Rightarrow> []
            | Some a \<Rightarrow> if ai_role a \<noteq> ''CANDIDATE''
                then [v COMPARISON_ARTIFACT_MISMATCH ''candidate side is not a CANDIDATE artifact''
                       ''candidate_artifact_id'' ''producer_role CANDIDATE'' (ai_role a)]
                else [])
         @ concat (map type_check [(''oracle'', oracle), (''candidate'', candidate)])
         @ (if ce_result c = ''MATCH'' \<and> ce_differences c \<noteq> []
            then [v MALFORMED_EVIDENCE ''is a MATCH that records differences'' ''differences''
                   ''no differences for MATCH'' (show_nat (length (ce_differences c)) @ '' difference(s)'')]
            else []))"

definition validate_comparison_artifact_binding :: "evidence_manifest \<Rightarrow> integrity_violation list" where
  "validate_comparison_artifact_binding m =
     (let valid_artifact_ids = map (\<lambda>a. ai_id (ae_artifact a)) (em_artifacts m) in
      concat (map (\<lambda>(i, c).
        (if ce_oracle_artifact_id c \<notin> set valid_artifact_ids
         then [violation COMPARISON_ARTIFACT_MISMATCH
                (indexed ''Comparison'' i (''references oracle_artifact_id ''
                   @ quoted (ce_oracle_artifact_id c) @ '' not in manifest artifact evidence''))
                (path ''comparison_evidence'' i ''oracle_artifact_id'')
                (''one of '' @ show_str_set valid_artifact_ids) (ce_oracle_artifact_id c)]
         else [])
        @ (if ce_candidate_artifact_id c \<notin> set valid_artifact_ids
           then [violation COMPARISON_ARTIFACT_MISMATCH
                  (indexed ''Comparison'' i (''references candidate_artifact_id ''
                     @ quoted (ce_candidate_artifact_id c) @ '' not in manifest artifact evidence''))
                  (path ''comparison_evidence'' i ''candidate_artifact_id'')
                  (''one of '' @ show_str_set valid_artifact_ids) (ce_candidate_artifact_id c)]
           else [])
        @ comparison_pairing_violations i c m) (enum (em_comparisons m))))"

definition validate_comparator_binding :: "evidence_manifest \<Rightarrow> integrity_violation list" where
  "validate_comparator_binding m =
     concat (map (\<lambda>(i, c).
       (case map_of canonical_comparator_ids (ce_artifact_type c) of
          None \<Rightarrow> []
        | Some expected \<Rightarrow>
            (let resolved = dict_get comparator_id_aliases (ce_comparator_id c) (ce_comparator_id c)
             in if resolved \<noteq> expected
                then [violation COMPARATOR_BINDING_MISMATCH
                       (indexed ''Comparison'' i (''for artifact_type='' @ repr_str (ce_artifact_type c)
                          @ '' is attributed to comparator '' @ repr_str (ce_comparator_id c)
                          @ '' but the registered comparator is '' @ repr_str expected))
                       (path ''comparison_evidence'' i ''comparator_id'') expected (ce_comparator_id c)]
                else []))) (enum (em_comparisons m)))"

definition validate_comparison_results :: "evidence_manifest \<Rightarrow> integrity_violation list" where
  "validate_comparison_results m =
     concat (map (\<lambda>(i, c). if ce_result c \<notin> set known_comparison_results
       then [violation UNKNOWN_COMPARISON_RESULT
              (indexed ''Comparison'' i (''has unknown result '' @ repr_str (ce_result c)
                 @ ''; known results are '' @ show_str_list (sort known_comparison_results)))
              (path ''comparison_evidence'' i ''result'')
              (''one of '' @ show_str_list (sort known_comparison_results)) (ce_result c)]
       else []) (enum (em_comparisons m)))"

subsection \<open>Source mutation and exit status\<close>

definition validate_source_mutation :: "evidence_manifest \<Rightarrow> integrity_violation list" where
  "validate_source_mutation m =
     concat (map (\<lambda>(i, e). if str_hash (ex_source_before e) \<noteq> str_hash (ex_source_after e)
       then [violation SOURCE_MUTATION
              (indexed ''Execution'' i (''('' @ ex_runtime_id e
                 @ '') modified the source tree during execution''))
              (path ''execution_evidence'' i ''source_tree_hash_after'')
              (str_hash (ex_source_before e)) (str_hash (ex_source_after e))]
       else []) (enum (em_executions m)))"

definition exit_status_observed :: "execution_evidence \<Rightarrow> bool" where
  "exit_status_observed e \<longleftrightarrow>
     is_candidate_run e \<and> ex_termination_status e = ''nonzero_exit''
     \<or> is_oracle_run e \<and> ex_termination_status e = ''return_code''"

definition validate_exit_status_completeness :: "evidence_manifest \<Rightarrow> integrity_violation list" where
  "validate_exit_status_completeness m =
     (if \<exists>e \<in> set (em_executions m). exit_status_observed e
      then
        (if ''EXIT_STATUS'' \<notin> set (map (\<lambda>a. ai_type (ae_artifact a)) (em_artifacts m))
         then [violation MISSING_EXIT_STATUS
                ''Candidate has nonzero_exit but EXIT_STATUS is not in artifact evidence''
                ''artifact_evidence'' ''EXIT_STATUS present'' ''EXIT_STATUS absent'']
         else [])
        @ (if ''EXIT_STATUS'' \<notin> set (map ce_artifact_type (em_comparisons m))
           then [violation MISSING_EXIT_STATUS
                  ''Candidate has nonzero_exit but EXIT_STATUS is not in comparison evidence''
                  ''comparison_evidence'' ''EXIT_STATUS comparison present''
                  ''EXIT_STATUS comparison absent'']
           else [])
      else [])"

subsection \<open>Seal and required evidence\<close>

definition validate_manifest_integrity :: "evidence_manifest \<Rightarrow> integrity_violation list" where
  "validate_manifest_integrity m =
     (case em_sealed_hash m of
        None \<Rightarrow> [violation MANIFEST_HASH_MISMATCH
                  ''Manifest carries no construction-time seal; evidence integrity cannot be established''
                  ''sealed_hash'' ''sha256 seal of the evidence graph'' ''None'']
      | Some sealed \<Rightarrow>
          (let recomputed = manifest_hash m in
           if sealed \<noteq> recomputed
           then [violation MANIFEST_HASH_MISMATCH
                  (''Manifest evidence was mutated after construction: the construction-time seal ''
                   @ ''no longer matches the current evidence graph'')
                  ''sealed_hash'' (str_hash sealed) (str_hash recomputed)]
           else []))"

definition missing_evidence :: "string \<Rightarrow> string \<Rightarrow> string \<Rightarrow> string \<Rightarrow> integrity_violation" where
  "missing_evidence d f e a = violation MISSING_REQUIRED_EVIDENCE d f e a"

definition validate_required_evidence :: "evidence_manifest \<Rightarrow> integrity_violation list" where
  "validate_required_evidence m =
     (if em_executions m = []
      then [missing_evidence ''No execution evidence in manifest'' ''execution_evidence''
              ''oracle and candidate execution evidence'' ''0'']
      else
        let oracle_execs = filter is_oracle_run (em_executions m);
            candidate_execs = filter is_candidate_run (em_executions m);
            oracle_artifacts =
              filter (\<lambda>a. ae_execution_id a \<in> set (map ex_id oracle_execs)) (em_artifacts m);
            candidate_artifacts =
              filter (\<lambda>a. ae_execution_id a \<in> set (map ex_id candidate_execs)) (em_artifacts m);
            compared_ids = concat (map (\<lambda>c. [ce_oracle_artifact_id c, ce_candidate_artifact_id c])
                                     (em_comparisons m))
        in (if oracle_execs = []
            then [missing_evidence ''No oracle execution evidence'' ''execution_evidence''
                    ''at least 1 oracle execution'' ''0 oracle executions'']
            else [])
           @ (if candidate_execs = []
              then [missing_evidence ''No candidate execution evidence'' ''execution_evidence''
                      ''at least 1 candidate execution'' ''0 candidate executions'']
              else if \<not> (\<exists>e \<in> set candidate_execs. ex_phase e = ''EXECUTE'')
              then [missing_evidence
                      ''Candidate evidence contains no executed run: a build failure is not execution evidence''
                      ''execution_evidence'' ''at least 1 candidate execution with phase EXECUTE''
                      (''phases present: '' @ show_str_list (sort (remdups (map ex_phase candidate_execs))))]
              else [])
           @ (if oracle_artifacts = []
              then [missing_evidence ''No oracle artifact evidence'' ''artifact_evidence''
                      ''at least 1 oracle artifact'' ''0 oracle artifacts'']
              else [])
           @ (if candidate_artifacts = []
              then [missing_evidence ''No candidate artifact evidence'' ''artifact_evidence''
                      ''at least 1 candidate artifact'' ''0 candidate artifacts'']
              else [])
           @ concat (map (\<lambda>a. if ai_id (ae_artifact a) \<notin> set compared_ids
                then [missing_evidence
                        (''Artifact '' @ quoted (ai_id (ae_artifact a)) @ '' is not covered by any comparison'')
                        ''comparison_evidence'' (''comparison referencing '' @ ai_id (ae_artifact a))
                        ''artifact is unreferenced'']
                else []) (em_artifacts m))
           @ (if em_comparisons m = []
              then [missing_evidence ''No comparison evidence in manifest'' ''comparison_evidence''
                      ''at least 1 comparison'' ''0 comparisons'']
              else []))"

subsection \<open>Admission\<close>

definition compute_integrity_hash :: "evidence_manifest \<Rightarrow> content_hash" where
  "compute_integrity_hash m = manifest_hash m"

definition violations :: "evidence_manifest \<Rightarrow> integrity_violation list" where
  "violations m =
     validate_run_bindings m
     @ validate_workload_bindings m
     @ validate_source_candidate_binding m
     @ validate_oracle_binding m
     @ validate_artifact_execution_binding m
     @ validate_comparison_artifact_binding m
     @ validate_comparator_binding m
     @ validate_comparison_results m
     @ validate_source_mutation m
     @ validate_exit_status_completeness m
     @ validate_manifest_integrity m
     @ validate_required_evidence m"

text \<open>\<open>now\<close> is the time the validator stamps on its result.\<close>

definition validate ::
  "string \<Rightarrow> evidence_manifest \<Rightarrow> integrity_violation list + validated_manifest" where
  "validate now m =
     (if violations m \<noteq> [] then Inl (violations m)
      else Inr \<lparr>vm_manifest = m, vm_integrity_hash = compute_integrity_hash m,
                vm_validated_at = now,
                vm_summary = ''All binding and integrity checks passed''\<rparr>)"

end
