(* ===== verification/Verdict.thy ===== *)
theory Verdict
  imports Integrity
begin

text \<open>
  Verdict derivation (\<open>engine/verdict/derivation.py\<close>): the verdict record, the deriver's checks in
  the order \<open>derive\<close> runs them, the validated and untrusted entry points, and the pipeline's
  admission step (\<open>engine/pipeline.py\<close>). A parameter \<open>now\<close> is the clock; reading an attribute of
  an absent oracle identity raises \<open>AttributeError\<close>, as in Python.
\<close>

record verdict =
  vd_state :: verdict_state
  vd_workload_id :: workload_id
  vd_run_id :: string
  vd_source_hash :: string
  vd_candidate_hash :: "string option"
  vd_oracle_id :: string
  vd_oracle_digest :: string
  vd_executed_check_count :: int
  vd_skipped_count :: int
  vd_unavailable_count :: int
  vd_supported_scope_statement :: string
  vd_evidence_manifest_hash :: string
  vd_derivation_timestamp :: string
  vd_differences :: "string list"

definition verdict_to_dict :: "verdict \<Rightarrow> json" where
  "verdict_to_dict v = JObj
    [(''state'', JStr (verdict_value (vd_state v))),
     (''workload_id'', JStr (vd_workload_id v)),
     (''run_id'', JStr (vd_run_id v)),
     (''source_hash'', JStr (vd_source_hash v)),
     (''candidate_hash'', j_opt JStr (vd_candidate_hash v)),
     (''oracle_id'', JStr (vd_oracle_id v)),
     (''oracle_digest'', JStr (vd_oracle_digest v)),
     (''executed_check_count'', JInt (vd_executed_check_count v)),
     (''skipped_count'', JInt (vd_skipped_count v)),
     (''unavailable_count'', JInt (vd_unavailable_count v)),
     (''supported_scope_statement'', JStr (vd_supported_scope_statement v)),
     (''evidence_manifest_hash'', JStr (vd_evidence_manifest_hash v)),
     (''derivation_timestamp'', JStr (vd_derivation_timestamp v)),
     (''differences'', j_strs (vd_differences v))]"

subsection \<open>Reading the oracle identity\<close>

definition oracle_attr :: "string \<Rightarrow> (oracle_identity \<Rightarrow> 'a) \<Rightarrow> evidence_manifest \<Rightarrow> py_error + 'a" where
  "oracle_attr name f m = (case em_oracle m of
     None \<Rightarrow> Inl (AttributeError ([CHR 0x27] @ ''NoneType'' @ [CHR 0x27]
               @ '' object has no attribute '' @ [CHR 0x27] @ name @ [CHR 0x27]))
   | Some o' \<Rightarrow> Inr (f o'))"

definition is_truthy :: "string option \<Rightarrow> bool" where
  "is_truthy s = (s \<noteq> None \<and> s \<noteq> Some [])"

definition scope_for :: "evidence_manifest \<Rightarrow> py_error + string" where
  "scope_for m =
     (let lane = (case find (\<lambda>env. starts_with ''candidate'' (env_runtime_id env)
                                 \<and> is_truthy (env_os_base env)) (em_environments m) of
                    None \<Rightarrow> None | Some env \<Rightarrow> env_os_base env);
          candidate = (case lane of
              None \<Rightarrow> ''Java candidate (lane not recorded)''
            | Some l \<Rightarrow> ''Java candidate ('' @ l @ '')'')
      in bind_res (oracle_attr ''compiler_version'' or_compiler_version m) (\<lambda>version.
           let compiler = (if version = [] then ''(unrecorded)'' else version) in
           Inr (''V1 validation scope: GnuCOBOL '' @ compiler @ '' oracle (Docker), '' @ candidate
                @ '', artifact types STDOUT, STDERR, EXIT_STATUS, TEXT_FILE, ''
                @ ''FIXED_RECORD as the run's contract declares them; ''
                @ ''derived BUSINESS_INVARIANT reports gate business rules; ''
                @ ''INDEXED/RELATIVE/SQL/DATABASE excluded (UNSUPPORTED); ''
                @ ''substring containment permanently forbidden.'')))"

subsection \<open>The checks of the deriver\<close>

definition check_for_errors :: "evidence_manifest \<Rightarrow> verdict_state option" where
  "check_for_errors m =
     (if \<exists>e \<in> set (em_executions m). ex_termination_status e = ''error'' \<or> ex_timeout_applied e
      then Some ERROR else None)"

definition check_for_unavailable :: "evidence_manifest \<Rightarrow> verdict_state option" where
  "check_for_unavailable m =
     (let oracle_unavailable = {''error'', ''timeout'', ''nonzero_exit''};
          candidate_unavailable = {''error'', ''timeout''};
          oracle_executions = filter is_oracle_run (em_executions m);
          candidate_executions = filter is_candidate_run (em_executions m)
      in if oracle_executions = [] then Some UNAVAILABLE
         else if \<exists>e \<in> set oracle_executions. ex_termination_status e \<in> oracle_unavailable
         then Some UNAVAILABLE
         else if candidate_executions = [] then Some UNAVAILABLE
         else if \<exists>e \<in> set candidate_executions. ex_termination_status e \<in> candidate_unavailable
         then Some UNAVAILABLE
         else None)"

fun unavailable_reason_of :: "execution_evidence list \<Rightarrow> string" where
  "unavailable_reason_of [] = ''Required infrastructure unavailable''"
| "unavailable_reason_of (e # es) =
     (if \<not> is_oracle_run e then unavailable_reason_of es
      else
        let diagnostics = (case ex_compilation_diagnostics e of None \<Rightarrow> [] | Some d \<Rightarrow> d);
            status = strip (dict_get diagnostics ''exit_code'' [])
        in if status \<noteq> [] \<and> status \<noteq> ''0''
           then ''COBOL source does not compile on the oracle (cobc exit '' @ status
                @ ''); no reference behaviour exists''
           else unavailable_reason_of es)"

definition unavailable_reason :: "evidence_manifest \<Rightarrow> string" where
  "unavailable_reason m = unavailable_reason_of (em_executions m)"

definition supported_types :: "string list" where
  "supported_types =
     [''STDOUT'', ''STDERR'', ''EXIT_STATUS'', ''TEXT_FILE'', ''FIXED_RECORD'', ''BUSINESS_INVARIANT'']"

definition check_for_unsupported :: "evidence_manifest \<Rightarrow> verdict_state option" where
  "check_for_unsupported m =
     (if \<exists>a \<in> set (em_artifacts m). ai_type (ae_artifact a) \<notin> set supported_types
      then Some UNSUPPORTED else None)"

definition create_verdict ::
  "string \<Rightarrow> verdict_state \<Rightarrow> evidence_manifest \<Rightarrow> string list \<Rightarrow> py_error + verdict" where
  "create_verdict now state m differences =
     (let unavailable_count = int (length (filter (\<lambda>e. ex_termination_status e \<in> {''error'', ''timeout''}
             \<or> is_oracle_run e \<and> ex_termination_status e = ''nonzero_exit'') (em_executions m)))
      in bind_res (oracle_attr ''oracle_id'' or_id m) (\<lambda>oracle_id.
         bind_res (oracle_attr ''image_digest'' or_image_digest m) (\<lambda>oracle_digest.
         bind_res (scope_for m) (\<lambda>scope.
           Inr \<lparr>vd_state = state, vd_workload_id = em_workload_id m, vd_run_id = em_run_id m,
                vd_source_hash = str_hash (si_hash (em_source m)),
                vd_candidate_hash = map_option (\<lambda>c. str_hash (ca_hash c)) (em_candidate m),
                vd_oracle_id = oracle_id, vd_oracle_digest = oracle_digest,
                vd_executed_check_count = int (length (em_comparisons m)), vd_skipped_count = 0,
                vd_unavailable_count = unavailable_count, vd_supported_scope_statement = scope,
                vd_evidence_manifest_hash = str_hash (manifest_hash m),
                vd_derivation_timestamp = now, vd_differences = differences\<rparr>))))"

subsection \<open>Derivation\<close>

text \<open>The accumulators of the loop over the comparisons.\<close>

record comparison_flags =
  fl_mismatch :: bool
  fl_inconclusive :: bool
  fl_unknown :: bool
  fl_differences :: "string list"

definition no_flags :: comparison_flags where
  "no_flags = \<lparr>fl_mismatch = False, fl_inconclusive = False, fl_unknown = False,
     fl_differences = []\<rparr>"

definition analyze :: "comparison_flags \<Rightarrow> comparison_evidence \<Rightarrow> comparison_flags" where
  "analyze f c =
     (if ce_result c = ''MISMATCH''
      then f\<lparr>fl_mismatch := True, fl_differences := fl_differences f @ ce_differences c\<rparr>
      else if ce_result c = ''INCONCLUSIVE'' then f\<lparr>fl_inconclusive := True\<rparr>
      else if ce_result c \<noteq> ''MATCH''
      then f\<lparr>fl_unknown := True, fl_differences := fl_differences f
             @ [''Unknown comparison result '' @ repr_str (ce_result c) @ '' for comparison ''
                @ repr_str (ce_id c)]\<rparr>
      else f)"

definition final_state :: "comparison_flags \<Rightarrow> verdict_state" where
  "final_state f =
     (if fl_unknown f then ERROR
      else if fl_mismatch f then FAILED
      else if fl_inconclusive f then PARTIAL
      else VERIFIED)"

definition derive :: "string \<Rightarrow> evidence_manifest \<Rightarrow> py_error + verdict" where
  "derive now m =
     (case check_for_errors m of
        Some s \<Rightarrow> create_verdict now s m [''Platform/validator error detected'']
      | None \<Rightarrow>
     (case check_for_unavailable m of
        Some s \<Rightarrow> create_verdict now s m [unavailable_reason m]
      | None \<Rightarrow>
     (case check_for_unsupported m of
        Some s \<Rightarrow> create_verdict now s m [''Unsupported artifact type encountered'']
      | None \<Rightarrow>
        if \<not> is_complete m then create_verdict now UNPROVEN m [''Incomplete evidence manifest'']
        else if length (em_comparisons m) = 0
        then create_verdict now UNPROVEN m [''Zero executed checks'']
        else
          let flags = foldl analyze no_flags (em_comparisons m) in
          create_verdict now (final_state flags) m (fl_differences flags))))"

text \<open>The verdict of an evidence graph that may not certify.\<close>

definition error_verdict ::
  "string \<Rightarrow> evidence_manifest \<Rightarrow> string \<Rightarrow> string list \<Rightarrow> py_error + verdict" where
  "error_verdict now m scope differences =
     bind_res (oracle_attr ''oracle_id'' or_id m) (\<lambda>oracle_id.
     bind_res (oracle_attr ''image_digest'' or_image_digest m) (\<lambda>oracle_digest.
       Inr \<lparr>vd_state = ERROR, vd_workload_id = em_workload_id m, vd_run_id = em_run_id m,
            vd_source_hash = str_hash (si_hash (em_source m)),
            vd_candidate_hash = map_option (\<lambda>c. str_hash (ca_hash c)) (em_candidate m),
            vd_oracle_id = oracle_id, vd_oracle_digest = oracle_digest,
            vd_executed_check_count = 0, vd_skipped_count = 0, vd_unavailable_count = 0,
            vd_supported_scope_statement = scope,
            vd_evidence_manifest_hash = str_hash (manifest_hash m),
            vd_derivation_timestamp = now, vd_differences = differences\<rparr>))"

definition derive_from_validated :: "string \<Rightarrow> validated_manifest \<Rightarrow> py_error + verdict" where
  "derive_from_validated now v =
     (let m = vm_manifest v; live_hash = manifest_hash m in
      if live_hash \<noteq> vm_integrity_hash v
      then error_verdict now m ''Evidence mutated after validation; derivation fails closed''
             [''Post-validation mutation detected: manifest hash '' @ str_hash live_hash
              @ '' no longer matches the validation-time integrity hash ''
              @ str_hash (vm_integrity_hash v)]
      else derive now m)"

definition derive_unsafe_from_raw :: "string \<Rightarrow> evidence_manifest \<Rightarrow> py_error + verdict" where
  "derive_unsafe_from_raw now m = derive now m"

definition derive_untrusted ::
  "string \<Rightarrow> evidence_manifest \<Rightarrow> integrity_violation list \<Rightarrow> py_error + verdict" where
  "derive_untrusted now m vs =
     bind_res (derive_unsafe_from_raw now m) (\<lambda>v.
       if vd_state v \<noteq> VERIFIED then Inr v
       else error_verdict now m ''Evidence trust boundary violation'' (map iv_description vs))"

definition derive_verdict :: "string \<Rightarrow> evidence_manifest \<Rightarrow> py_error + verdict" where
  "derive_verdict now m = derive now m"

definition derive_verdict_validated :: "string \<Rightarrow> validated_manifest \<Rightarrow> py_error + verdict" where
  "derive_verdict_validated now v = derive_from_validated now v"

definition derive_verdict_untrusted ::
  "string \<Rightarrow> evidence_manifest \<Rightarrow> integrity_violation list \<Rightarrow> py_error + verdict" where
  "derive_verdict_untrusted now m vs = derive_untrusted now m vs"

text \<open>
  The last step of the pipeline: admission, then derivation. \<open>now\<close> and \<open>now'\<close> are the times of the
  two steps.
\<close>

definition admit_and_derive :: "string \<Rightarrow> string \<Rightarrow> evidence_manifest \<Rightarrow> py_error + verdict" where
  "admit_and_derive now now' m =
     (case validate now m of
        Inl vs \<Rightarrow> derive_verdict_untrusted now' m vs
      | Inr v \<Rightarrow> derive_verdict_validated now' v)"

end
