(* ===== verification/ComparatorFacts.thy ===== *)
theory ComparatorFacts
  imports Comparators "HOL-Library.Multiset"
begin

text \<open>
  What the comparators promise. The contract the evidence pipeline relies on is the locale
  \<open>typed_comparator\<close>: a result names its comparator and its two artifacts, is a MATCH exactly when
  it lists no difference, and is never a MATCH when an artifact is missing. It is interpreted on
  each comparator. Then: what MATCH means for each comparator, in terms of the two contents.
\<close>

subsection \<open>The contract\<close>

locale typed_comparator =
  fixes cmp :: compare_fn and cid :: comparator_id
  assumes names: "cmp oa oc ca cc norm ord fp = Inr r \<Longrightarrow>
      cr_comparator_id r = cid \<and> cr_oracle r = oa \<and> cr_candidate r = ca"
    and match_iff: "cmp oa oc ca cc norm ord fp = Inr r \<Longrightarrow>
      cr_result r = MATCH \<longleftrightarrow> cr_differences r = []"
    and missing: "cmp oa oc ca cc norm ord fp = Inr r \<Longrightarrow> oc = None \<or> cc = None \<Longrightarrow>
      cr_result r \<noteq> MATCH"
begin

lemma evidence_comparator:
  "cmp oa oc ca cc norm ord fp = Inr r \<Longrightarrow> ce_comparator_id (to_comparison_evidence r run) = cid_id cid"
  using names by (auto simp: to_comparison_evidence_def Let_def)

lemma evidence_artifacts:
  assumes "cmp oa oc ca cc norm ord fp = Inr r"
  shows "ce_oracle_artifact_id (to_comparison_evidence r run) = ai_id oa"
    "ce_candidate_artifact_id (to_comparison_evidence r run) = ai_id ca"
    "ce_artifact_type (to_comparison_evidence r run) = ai_type oa"
    "ce_run_id (to_comparison_evidence r run) = run"
  using names [OF assms] by (auto simp: to_comparison_evidence_def Let_def)

lemma evidence_result_known:
  "ce_result (to_comparison_evidence r run) \<in> {''MATCH'', ''MISMATCH'', ''INCONCLUSIVE''}"
  by (cases "cr_result r") (simp_all add: to_comparison_evidence_def Let_def)

lemma evidence_match_iff:
  assumes "cmp oa oc ca cc norm ord fp = Inr r"
  shows "ce_result (to_comparison_evidence r run) = ''MATCH''
    \<longleftrightarrow> ce_differences (to_comparison_evidence r run) = []"
  using match_iff [OF assms]
  by (cases "cr_result r") (auto simp: to_comparison_evidence_def Let_def)

end

subsection \<open>Every comparator keeps the contract\<close>

lemma mk_result_simps [simp]:
  "cr_comparator_id (mk_result cid oa ca r ds ns) = cid"
  "cr_oracle (mk_result cid oa ca r ds ns) = oa"
  "cr_candidate (mk_result cid oa ca r ds ns) = ca"
  "cr_result (mk_result cid oa ca r ds ns) = r"
  "cr_differences (mk_result cid oa ca r ds ns) = ds"
  by (simp_all add: mk_result_def)

lemma handle_missing_None [simp]:
  "handle_missing cid oa ca oc cc fp = None \<longleftrightarrow> oc \<noteq> None \<and> cc \<noteq> None"
  by (auto simp: handle_missing_def Let_def)

lemma handle_missing_Some:
  assumes "handle_missing cid oa ca oc cc fp = Some r"
  shows "cr_comparator_id r = cid" "cr_oracle r = oa" "cr_candidate r = ca"
    "cr_result r \<noteq> MATCH" "cr_differences r \<noteq> []"
  using assms by (auto simp: handle_missing_def Let_def split: if_splits)

lemma text_compare_contract: "typed_comparator (text_compare cid loc desc) cid"
proof (unfold_locales)
  fix oa oc ca cc norm ord fp r
  assume c: "text_compare cid loc desc oa oc ca cc norm ord fp = Inr r"
  show "cr_comparator_id r = cid \<and> cr_oracle r = oa \<and> cr_candidate r = ca"
    and "cr_result r = MATCH \<longleftrightarrow> cr_differences r = []"
    and "oc = None \<or> cc = None \<Longrightarrow> cr_result r \<noteq> MATCH"
    using c unfolding text_compare_def Let_def
    by (auto simp: bind_res_eq_Inr handle_missing_Some split: option.splits if_splits
             dest: handle_missing_Some(4,5) handle_missing_None [THEN iffD1])
qed

lemma exit_status_contract: "typed_comparator exit_status_compare exit_status_id"
proof (unfold_locales)
  fix oa oc ca cc norm ord fp r
  assume c: "exit_status_compare oa oc ca cc norm ord fp = Inr r"
  show "cr_comparator_id r = exit_status_id \<and> cr_oracle r = oa \<and> cr_candidate r = ca"
    and "cr_result r = MATCH \<longleftrightarrow> cr_differences r = []"
    and "oc = None \<or> cc = None \<Longrightarrow> cr_result r \<noteq> MATCH"
    using c unfolding exit_status_compare_def Let_def
    by (auto simp: handle_missing_Some split: option.splits if_splits
             dest: handle_missing_Some(4,5) handle_missing_None [THEN iffD1])
qed

lemma compare_record_by_record_simps:
  "cr_comparator_id (compare_record_by_record oa oc ca cc n) = fixed_record_id"
  "cr_oracle (compare_record_by_record oa oc ca cc n) = oa"
  "cr_candidate (compare_record_by_record oa oc ca cc n) = ca"
  "cr_differences (compare_record_by_record oa oc ca cc n) = record_differences n oc cc"
  "cr_result (compare_record_by_record oa oc ca cc n) = MATCH \<longleftrightarrow> record_differences n oc cc = []"
  by (simp_all add: compare_record_by_record_def Let_def)

lemma fixed_record_contract: "typed_comparator fixed_record_compare fixed_record_id"
proof (unfold_locales)
  fix oa oc ca cc norm ord fp r
  assume c: "fixed_record_compare oa oc ca cc norm ord fp = Inr r"
  show "cr_comparator_id r = fixed_record_id \<and> cr_oracle r = oa \<and> cr_candidate r = ca"
    and "cr_result r = MATCH \<longleftrightarrow> cr_differences r = []"
    and "oc = None \<or> cc = None \<Longrightarrow> cr_result r \<noteq> MATCH"
    using c unfolding fixed_record_compare_def Let_def
    by (auto simp: handle_missing_Some compare_record_by_record_simps split: option.splits if_splits
             dest: handle_missing_Some(4,5) handle_missing_None [THEN iffD1])
qed

interpretation stdout_cmp: typed_comparator stdout_compare stdout_id
  unfolding stdout_compare_def by (rule text_compare_contract)

interpretation stderr_cmp: typed_comparator stderr_compare stderr_id
  unfolding stderr_compare_def by (rule text_compare_contract)

interpretation text_file_cmp: typed_comparator text_file_compare text_file_id
  unfolding text_file_compare_def by (rule text_compare_contract)

interpretation exit_status_cmp: typed_comparator exit_status_compare exit_status_id
  by (rule exit_status_contract)

interpretation fixed_record_cmp: typed_comparator fixed_record_compare fixed_record_id
  by (rule fixed_record_contract)


subsection \<open>FIXED_RECORD: record by record is byte by byte\<close>

lemma take_records:
  "k * n \<le> length xs \<Longrightarrow> 0 < n \<Longrightarrow> take (k * n) xs = concat (map (record_at n xs) [0..<k])"
proof (induction k)
  case (Suc k)
  then have "take (k * n) xs = concat (map (record_at n xs) [0..<k])" by simp
  moreover have "record_at n xs k = take n (drop (k * n) xs)"
    using Suc.prems by (simp add: record_at_def)
  moreover have "take (Suc k * n) xs = take (k * n) xs @ take n (drop (k * n) xs)"
    using take_add [of "k * n" n xs] by (simp add: add.commute)
  ultimately show ?case by simp
qed simp

lemma records_and_tail:
  assumes "0 < n"
  shows "xs = concat (map (record_at n xs) [0..<length xs div n]) @ record_tail n xs"
proof -
  have "take (length xs div n * n) xs = concat (map (record_at n xs) [0..<length xs div n])"
    using assms by (intro take_records) (simp_all add: div_times_less_eq_dividend)
  then show ?thesis by (metis append_take_drop_id record_tail_def)
qed

lemma record_differences_Nil:
  assumes "0 < n"
  shows "record_differences n xs ys = [] \<longleftrightarrow> xs = ys"
proof
  assume d: "record_differences n xs ys = []"
  then have none: "\<forall>i < max (length xs div n) (length ys div n). record_difference n xs ys i = []"
    and tail: "record_tail n xs = record_tail n ys"
    by (auto simp: record_differences_def Let_def split: if_splits)
  have count: "length xs div n = length ys div n"
  proof (rule ccontr)
    assume "length xs div n \<noteq> length ys div n"
    then have "record_difference n xs ys (min (length xs div n) (length ys div n)) \<noteq> []"
      by (auto simp: record_difference_def Let_def min_def)
    with none \<open>length xs div n \<noteq> length ys div n\<close> show False by auto
  qed
  have "record_at n xs i = record_at n ys i" if "i < length xs div n" for i
    using none count that by (auto simp: record_difference_def Let_def split: if_splits)
  then have "map (record_at n xs) [0..<length xs div n] = map (record_at n ys) [0..<length ys div n]"
    using count by simp
  with tail records_and_tail [OF assms] show "xs = ys" by metis
next
  assume "xs = ys"
  then show "record_differences n xs ys = []"
    by (auto simp: record_differences_def record_difference_def Let_def)
qed

text \<open>The FIXED_RECORD comparator always returns, and its result is MATCH exactly when the two
  contents are the same bytes and no two declared record counts disagree, whatever record length
  it infers from the artifacts: splitting at the record length, the record loop and the check of
  the trailing partial record together miss no byte.\<close>
theorem fixed_record_match_iff:
  "\<exists>r. fixed_record_compare oa (Some xs) ca (Some ys) norm ord fp = Inr r \<and>
     (cr_result r = MATCH \<longleftrightarrow> xs = ys \<and>
        (ai_record_count oa = None \<or> ai_record_count ca = None \<or> ai_record_count oa = ai_record_count ca))"
  unfolding fixed_record_compare_def Let_def
  by (auto simp: compare_record_by_record_simps record_differences_Nil handle_missing_def split: option.splits)

subsection \<open>Text comparators\<close>

lemma normalize_returns: "returns (normalize c ns) \<longleftrightarrow> set ns \<subseteq> {''crlf_to_lf''}"
  by (induction c ns rule: normalize.induct) auto

lemma apply_ordering_returns:
  "returns (apply_ordering c ord) \<longleftrightarrow> ord \<in> {''SEQUENTIAL'', ''SORTED'', ''UNORDERED''}"
  by (auto simp: apply_ordering_def)

lemma prepared_returns:
  "returns (prepared c ns ord) \<longleftrightarrow>
     set ns \<subseteq> {''crlf_to_lf''} \<and> ord \<in> {''SEQUENTIAL'', ''SORTED'', ''UNORDERED''}"
  using normalize_returns [of c ns] apply_ordering_returns [of _ ord]
  by (cases "normalize c ns") (auto simp: prepared_def)

definition supported_policy :: "string list option \<Rightarrow> string \<Rightarrow> bool" where
  "supported_policy norm ord \<longleftrightarrow>
     set (case norm of None \<Rightarrow> [] | Some ns \<Rightarrow> ns) \<subseteq> {''crlf_to_lf''} \<and>
     ord \<in> {''SEQUENTIAL'', ''SORTED'', ''UNORDERED''}"

lemma text_compare_present:
  "text_compare cid loc desc oa (Some xs) ca (Some ys) norm ord fp =
     (let ns = (case norm of None \<Rightarrow> [] | Some ns \<Rightarrow> ns) in
      bind_res (prepared xs ns ord) (\<lambda>on. bind_res (prepared ys ns ord) (\<lambda>cn.
        if on = cn then Inr ((mk_result cid oa ca MATCH [] ns)\<lparr>cr_ordering := ord\<rparr>)
        else Inr ((mk_result cid oa ca MISMATCH
               [difference loc (str_bytes on) (str_bytes cn) desc] ns)\<lparr>cr_ordering := ord\<rparr>))))"
  by (simp add: text_compare_def handle_missing_def)

lemma text_compare_returns:
  "returns (text_compare cid loc desc oa (Some xs) ca (Some ys) norm ord fp) \<longleftrightarrow> supported_policy norm ord"
proof -
  let ?ns = "case norm of None \<Rightarrow> [] | Some ns \<Rightarrow> ns"
  have "supported_policy norm ord \<longleftrightarrow> returns (prepared xs ?ns ord)"
    "returns (prepared xs ?ns ord) \<longleftrightarrow> returns (prepared ys ?ns ord)"
    unfolding prepared_returns supported_policy_def by (rule refl)+
  then show ?thesis
    unfolding text_compare_present Let_def
    by (cases "prepared xs ?ns ord"; cases "prepared ys ?ns ord") simp_all
qed

lemma text_compare_match:
  "text_compare cid loc desc oa (Some xs) ca (Some ys) norm ord fp = Inr r \<Longrightarrow>
   cr_result r = MATCH \<longleftrightarrow> prepared xs (case norm of None \<Rightarrow> [] | Some ns \<Rightarrow> ns) ord
                       = prepared ys (case norm of None \<Rightarrow> [] | Some ns \<Rightarrow> ns) ord"
  unfolding text_compare_present Let_def
  by (cases "prepared xs (case norm of None \<Rightarrow> [] | Some ns \<Rightarrow> ns) ord";
      cases "prepared ys (case norm of None \<Rightarrow> [] | Some ns \<Rightarrow> ns) ord")
     (auto split: if_splits)

text \<open>With both artifacts present, the STDOUT, STDERR and TEXT_FILE comparators return a result
  exactly when every declared normalization is \<open>crlf_to_lf\<close> and the ordering is one of the three
  supported ones; any other policy raises \<open>ValueError\<close>, so an unknown policy never weakens a
  comparison silently.\<close>
theorem text_comparators_fail_closed:
  "list_all (\<lambda>cmp. returns (cmp oa (Some xs) ca (Some ys) norm ord fp) = supported_policy norm ord)
     [stdout_compare, stderr_compare, text_file_compare]"
  by (simp add: stdout_compare_def stderr_compare_def text_file_compare_def text_compare_returns)

text \<open>Without a declared policy the text comparators are byte-exact: each returns, and says
  MATCH exactly when the two contents are equal.\<close>
theorem text_comparators_byte_exact:
  "list_all (\<lambda>cmp. \<exists>r. cmp oa (Some xs) ca (Some ys) None ''SEQUENTIAL'' fp = Inr r \<and>
       (cr_result r = MATCH \<longleftrightarrow> xs = ys))
     [stdout_compare, stderr_compare, text_file_compare]"
  by (simp add: stdout_compare_def stderr_compare_def text_file_compare_def text_compare_present
        prepared_def apply_ordering_def)

subsection \<open>SORTED and UNORDERED\<close>

definition is_line :: "bytes \<Rightarrow> bool" where
  "is_line l \<longleftrightarrow> l \<noteq> [] \<and> last l = CHR 0x0A \<and> CHR 0x0A \<notin> set (butlast l)"

text \<open>Text whose every line, the last one included, ends with a line feed.\<close>

definition lf_text :: "bytes \<Rightarrow> bool" where
  "lf_text s \<longleftrightarrow> CHR 0x0D \<notin> set s \<and> (s = [] \<or> last s = CHR 0x0A)"

lemma splitlines_lf_text: "lf_text s \<Longrightarrow> \<forall>l \<in> set (splitlines_keep s). is_line l"
proof (induction s rule: splitlines_keep.induct)
  case (2 c)
  then show ?case by (simp add: lf_text_def is_line_def)
next
  case (3 c d cs)
  then have t: "lf_text (d # cs)" and cr: "c \<noteq> CHR 0x0D" by (auto simp: lf_text_def)
  show ?case
  proof (cases "c = CHR 0x0A")
    case True
    with 3(1) t cr show ?thesis by (auto simp: is_line_def)
  next
    case False
    with 3(4) t cr have ih: "\<forall>l \<in> set (splitlines_keep (d # cs)). is_line l" by simp
    then show ?thesis
      using False cr by (cases "splitlines_keep (d # cs)") (auto simp: is_line_def)
  qed
qed simp

lemma is_line_split:
  assumes "is_line l" "is_line m" "l @ r = m @ r'"
  shows "l = m \<and> r = r'"
proof -
  have tw: "takeWhile (\<lambda>c. c \<noteq> CHR 0x0A) (k @ q) = butlast k" if "is_line k" for k q
  proof -
    from that have k: "k = butlast k @ [CHR 0x0A]"
      by (metis append_butlast_last_id is_line_def)
    have "takeWhile (\<lambda>c. c \<noteq> CHR 0x0A) ((butlast k @ [CHR 0x0A]) @ q) = butlast k"
      using that by (auto simp: is_line_def takeWhile_append)
    with k show ?thesis by simp
  qed
  from assms tw [of l r] tw [of m r'] have "butlast l = butlast m" by simp
  with assms(1,2) have "l = m" by (metis append_butlast_last_id is_line_def)
  with assms(3) show ?thesis by simp
qed

lemma concat_lines_inj:
  "\<forall>l \<in> set ls. is_line l \<Longrightarrow> \<forall>l \<in> set ms. is_line l \<Longrightarrow> concat ls = concat ms \<Longrightarrow> ls = ms"
proof (induction ls arbitrary: ms)
  case Nil
  then show ?case by (cases ms) (auto simp: is_line_def)
next
  case (Cons l ls)
  from Cons.prems obtain m ms' where ms: "ms = m # ms'" by (cases ms) (auto simp: is_line_def)
  from Cons.prems ms have "is_line l" "is_line m" "l @ concat ls = m @ concat ms'" by simp_all
  then have eq: "l = m \<and> concat ls = concat ms'" by (rule is_line_split)
  from Cons.prems ms have "\<forall>l \<in> set ls. is_line l" "\<forall>l \<in> set ms'. is_line l" by simp_all
  with eq have "ls = ms'" using Cons.IH by blast
  with eq ms show ?case by simp
qed

lemma sorted_lines_eq_iff:
  assumes "lf_text xs" "lf_text ys"
  shows "concat (sort (splitlines_keep xs)) = concat (sort (splitlines_keep ys))
     \<longleftrightarrow> mset (splitlines_keep xs) = mset (splitlines_keep ys)"
proof
  assume "concat (sort (splitlines_keep xs)) = concat (sort (splitlines_keep ys))"
  then have "sort (splitlines_keep xs) = sort (splitlines_keep ys)"
    using splitlines_lf_text assms by (intro concat_lines_inj) auto
  then show "mset (splitlines_keep xs) = mset (splitlines_keep ys)"
    by (metis mset_sort)
next
  assume "mset (splitlines_keep xs) = mset (splitlines_keep ys)"
  then have "sort (splitlines_keep xs) = sort (splitlines_keep ys)"
    by (intro properties_for_sort) simp_all
  then show "concat (sort (splitlines_keep xs)) = concat (sort (splitlines_keep ys))" by simp
qed

lemma prepared_sorted:
  "ord \<in> {''SORTED'', ''UNORDERED''} \<Longrightarrow> prepared xs [] ord = Inr (concat (sort (splitlines_keep xs)))"
  by (auto simp: prepared_def apply_ordering_def)

text \<open>C38: on texts in which every line ends with LF, an order-insensitive TEXT_FILE comparison
  (SORTED or UNORDERED, no normalization) returns, and says MATCH exactly when both sides hold the
  same lines with the same multiplicities.\<close>
theorem sorted_comparison_is_multiset_equality:
  assumes "lf_text xs" "lf_text ys" "ord \<in> {''SORTED'', ''UNORDERED''}"
  shows "\<exists>r. text_file_compare oa (Some xs) ca (Some ys) None ord fp = Inr r \<and>
     (cr_result r = MATCH \<longleftrightarrow> mset (splitlines_keep xs) = mset (splitlines_keep ys))"
  using sorted_lines_eq_iff [OF assms(1,2)]
  by (auto simp: text_file_compare_def text_compare_present prepared_sorted [OF assms(3)])

text \<open>The two lines of a small file, in both orders.\<close>
lemma sorted_comparison_is_multiset_equality_witness:
  "\<forall>oa ca. \<exists>r. text_file_compare oa (Some [CHR ''b'', CHR 0x0A, CHR ''a'', CHR 0x0A]) ca
        (Some [CHR ''a'', CHR 0x0A, CHR ''b'', CHR 0x0A]) None ''SORTED'' None = Inr r \<and>
     cr_result r = MATCH"
proof (intro allI)
  fix oa ca
  have "lf_text [CHR ''b'', CHR 0x0A, CHR ''a'', CHR 0x0A]"
    "lf_text [CHR ''a'', CHR 0x0A, CHR ''b'', CHR 0x0A]"
    by (simp_all add: lf_text_def)
  from sorted_comparison_is_multiset_equality [OF this, of "''SORTED''" oa ca None]
  show "\<exists>r. text_file_compare oa (Some [CHR ''b'', CHR 0x0A, CHR ''a'', CHR 0x0A]) ca
        (Some [CHR ''a'', CHR 0x0A, CHR ''b'', CHR 0x0A]) None ''SORTED'' None = Inr r \<and>
     cr_result r = MATCH"
    by (auto simp: add_mset_commute)
qed

text \<open>Where the last line is not terminated, sorting glues it to the line sorted after it, so an
  order-insensitive comparison answers MATCH for files with different lines: \<open>"b\n" "a"\<close> against
  the single line \<open>"ab\n"\<close>.\<close>
theorem sorted_comparison_unterminated_line:
  "(\<exists>r. text_file_compare oa (Some [CHR ''b'', CHR 0x0A, CHR ''a'']) ca
        (Some [CHR ''a'', CHR ''b'', CHR 0x0A]) None ''SORTED'' fp = Inr r \<and> cr_result r = MATCH) \<and>
   mset (splitlines_keep [CHR ''b'', CHR 0x0A, CHR ''a''])
     \<noteq> mset (splitlines_keep [CHR ''a'', CHR ''b'', CHR 0x0A])"
  by (simp add: text_file_compare_def text_compare_present prepared_sorted less_char_def)

end
