(* ===== verification/EvidenceGraph.thy ===== *)
theory EvidenceGraph
  imports Evidence
begin

text \<open>
  What the canonical evidence graph determines. The graph of a manifest fixes, up to the order of
  dictionary keys, every field of the manifest except the construction time, the verdict
  evidence, the seal and, inside each artifact evidence, the content hash, size and record count
  of the nested \<open>ArtifactIdentity\<close>: \<open>covered_manifest\<close> resets exactly those, and two
  manifests have the same graph text iff their covered parts are equal.
\<close>

subsection \<open>The covered part of each record\<close>

definition covered_environment :: "environment_identity \<Rightarrow> environment_identity" where
  "covered_environment e = e\<lparr>env_resource_limits := sort_key fst (env_resource_limits e)\<rparr>"

definition covered_input :: "input_identity \<Rightarrow> input_identity" where
  "covered_input i = i\<lparr>in_files := sort_key fst (in_files i)\<rparr>"

definition covered_execution :: "execution_evidence \<Rightarrow> execution_evidence" where
  "covered_execution e = e
     \<lparr>ex_environment_variables := sort_key fst (ex_environment_variables e),
      ex_generated_files := sort_key fst (ex_generated_files e),
      ex_compilation_diagnostics := map_option (sort_key fst) (ex_compilation_diagnostics e)\<rparr>"

definition covered_artifact :: "artifact_evidence \<Rightarrow> artifact_evidence" where
  "covered_artifact a = a\<lparr>ae_artifact := (ae_artifact a)
     \<lparr>ai_content_hash := ContentHash [], ai_size_bytes := 0, ai_record_count := None\<rparr>\<rparr>"

definition covered_comparison :: "comparison_evidence \<Rightarrow> comparison_evidence" where
  "covered_comparison c = c\<lparr>ce_field_level_results := map sort_keys (ce_field_level_results c)\<rparr>"

definition covered_manifest :: "evidence_manifest \<Rightarrow> evidence_manifest" where
  "covered_manifest m = m
     \<lparr>em_environments := map covered_environment (em_environments m),
      em_input := covered_input (em_input m),
      em_executions := map covered_execution (em_executions m),
      em_artifacts := map covered_artifact (em_artifacts m),
      em_comparisons := map covered_comparison (em_comparisons m),
      em_verdict := None, em_created_at := [], em_sealed_hash := None\<rparr>"

subsection \<open>Equality of sorted JSON shapes\<close>

named_theorems graph_eq \<open>equality of the sorted graph of a shape, in terms of the shape\<close>

lemma obj_of_eq:
  assumes "distinct ks" "length vs = length ks" "length ws = length ks"
  shows "sort_keys (obj_of ks vs) = sort_keys (obj_of ks ws) \<longleftrightarrow> map sort_keys vs = map sort_keys ws"
proof
  assume "map sort_keys vs = map sort_keys ws"
  moreover have "map (map_prod id sort_keys) (zip ks zs) = zip ks (map sort_keys zs)" for zs
    by (rule nth_equalityI) simp_all
  ultimately show "sort_keys (obj_of ks vs) = sort_keys (obj_of ks ws)"
    by (simp add: obj_of_def)
qed (use assms sort_keys_obj_of_inj in blast)

lemma j_hash_eq [graph_eq]: "sort_keys (j_hash g) = sort_keys (j_hash h) \<longleftrightarrow> g = h"
  by (simp add: j_hash_def)

lemma j_strs_eq [graph_eq]: "sort_keys (j_strs xs) = sort_keys (j_strs ys) \<longleftrightarrow> xs = ys"
proof -
  have "inj_on (\<lambda>x. JStr x) (set xs \<union> set ys)" by (simp add: inj_on_def)
  then show ?thesis by (simp add: j_strs_def comp_def inj_on_map_eq_map)
qed

lemma j_opt_eq:
  assumes "\<And>x y. sort_keys (f x) = sort_keys (f y) \<longleftrightarrow> g x = g y" "\<And>x. sort_keys (f x) \<noteq> JNull"
  shows "sort_keys (j_opt f x) = sort_keys (j_opt f y) \<longleftrightarrow> map_option g x = map_option g y"
  using assms assms(2) [THEN not_sym] by (cases x; cases y) (simp_all add: j_opt_def)

lemma j_opt_atom_eq [graph_eq]:
  "sort_keys (j_opt JStr s) = sort_keys (j_opt JStr t) \<longleftrightarrow> s = t"
  "sort_keys (j_opt JInt i) = sort_keys (j_opt JInt j) \<longleftrightarrow> i = j"
  "sort_keys (j_opt j_hash g) = sort_keys (j_opt j_hash h) \<longleftrightarrow> g = h"
  by (simp_all add: j_opt_def j_hash_def split: option.splits)

lemma j_dict_eq:
  assumes "\<And>x y. sort_keys (f x) = sort_keys (f y) \<longleftrightarrow> x = y"
  shows "sort_keys (j_dict f d) = sort_keys (j_dict f d') \<longleftrightarrow> sort_key fst d = sort_key fst d'"
proof -
  have "inj (map_prod id (sort_keys \<circ> f) :: string \<times> 'a \<Rightarrow> string \<times> json)"
    using assms by (auto simp: inj_def)
  then show ?thesis
    unfolding j_dict_def sort_keys_JObj_map by (simp add: inj_map_eq_map)
qed

lemma j_dict_atom_eq [graph_eq]:
  "sort_keys (j_dict JStr d) = sort_keys (j_dict JStr e) \<longleftrightarrow> sort_key fst d = sort_key fst e"
  "sort_keys (j_dict j_hash f) = sort_keys (j_dict j_hash g) \<longleftrightarrow> sort_key fst f = sort_key fst g"
  by (rule j_dict_eq, simp add: graph_eq)+

lemma j_opt_dict_eq [graph_eq]:
  "sort_keys (j_opt (j_dict JStr) d) = sort_keys (j_opt (j_dict JStr) e)
     \<longleftrightarrow> map_option (sort_key fst) d = map_option (sort_key fst) e"
  by (rule j_opt_eq) (simp_all add: graph_eq, simp add: j_dict_def)

lemma j_list_eq:
  assumes "\<And>x y. sort_keys (f x) = sort_keys (f y) \<longleftrightarrow> g x = g y"
  shows "sort_keys (JList (map f xs)) = sort_keys (JList (map f ys)) \<longleftrightarrow> map g xs = map g ys"
proof -
  have "map (\<lambda>x. sort_keys (f x)) xs = map (\<lambda>x. sort_keys (f x)) ys \<longleftrightarrow> map g xs = map g ys"
  proof (induction xs arbitrary: ys)
    case (Cons x xs)
    then show ?case using assms by (cases ys) auto
  qed auto
  then show ?thesis by (simp add: comp_def)
qed

subsection \<open>Every level of the graph\<close>

lemma graph_source_eq [graph_eq]:
  "sort_keys (graph_source s) = sort_keys (graph_source t) \<longleftrightarrow> s = t"
  unfolding graph_source_def
  by (subst obj_of_eq) (auto simp: source_keys_def j_hash_def)

lemma graph_candidate_eq [graph_eq]:
  "sort_keys (graph_candidate s) = sort_keys (graph_candidate t) \<longleftrightarrow> s = t"
  unfolding graph_candidate_def
  by (subst obj_of_eq) (auto simp: candidate_keys_def j_hash_def)

lemma graph_oracle_eq [graph_eq]:
  "sort_keys (graph_oracle s) = sort_keys (graph_oracle t) \<longleftrightarrow> s = t"
  unfolding graph_oracle_def
  by (subst obj_of_eq) (auto simp: oracle_keys_def graph_eq)

lemma graph_environment_eq [graph_eq]:
  "sort_keys (graph_environment s) = sort_keys (graph_environment t)
     \<longleftrightarrow> covered_environment s = covered_environment t"
  unfolding graph_environment_def
  by (cases s; cases t; subst obj_of_eq) (auto simp: environment_keys_def graph_eq covered_environment_def)

lemma graph_input_eq [graph_eq]:
  "sort_keys (graph_input s) = sort_keys (graph_input t) \<longleftrightarrow> covered_input s = covered_input t"
  unfolding graph_input_def
  by (cases s; cases t; subst obj_of_eq) (auto simp: input_keys_def graph_eq covered_input_def)

lemma graph_execution_eq [graph_eq]:
  "sort_keys (graph_execution s) = sort_keys (graph_execution t)
     \<longleftrightarrow> covered_execution s = covered_execution t"
  unfolding graph_execution_def
  by (cases s; cases t; subst obj_of_eq) (auto simp: execution_keys_def graph_eq covered_execution_def)

lemma graph_artifact_eq [graph_eq]:
  "sort_keys (graph_artifact s) = sort_keys (graph_artifact t)
     \<longleftrightarrow> covered_artifact s = covered_artifact t"
  unfolding graph_artifact_def
  by (cases s; cases t; cases "ae_artifact s"; cases "ae_artifact t"; subst obj_of_eq)
     (auto simp: artifact_keys_def graph_eq covered_artifact_def)

lemma graph_comparison_eq [graph_eq]:
  "sort_keys (graph_comparison s) = sort_keys (graph_comparison t)
     \<longleftrightarrow> covered_comparison s = covered_comparison t"
  unfolding graph_comparison_def
  by (cases s; cases t; subst obj_of_eq) (auto simp: comparison_keys_def graph_eq covered_comparison_def)

lemma graph_opt_eq [graph_eq]:
  "sort_keys (j_opt graph_candidate c) = sort_keys (j_opt graph_candidate d) \<longleftrightarrow> c = d"
  "sort_keys (j_opt graph_oracle a) = sort_keys (j_opt graph_oracle b) \<longleftrightarrow> a = b"
proof -
  have n: "sort_keys (graph_candidate x) \<noteq> JNull" "sort_keys (graph_oracle y) \<noteq> JNull" for x y
    by (simp_all add: graph_candidate_def graph_oracle_def obj_of_def)
  show "sort_keys (j_opt graph_candidate c) = sort_keys (j_opt graph_candidate d) \<longleftrightarrow> c = d"
    using j_opt_eq [of graph_candidate "\<lambda>x. x", OF graph_candidate_eq n(1)]
    by (simp add: option.map_ident)
  show "sort_keys (j_opt graph_oracle a) = sort_keys (j_opt graph_oracle b) \<longleftrightarrow> a = b"
    using j_opt_eq [of graph_oracle "\<lambda>x. x", OF graph_oracle_eq n(2)]
    by (simp add: option.map_ident)
qed

lemma canonical_graph_iff:
  "sort_keys (canonical_evidence_graph m) = sort_keys (canonical_evidence_graph n)
     \<longleftrightarrow> covered_manifest m = covered_manifest n"
  unfolding canonical_evidence_graph_def
  by (cases m; cases n; subst obj_of_eq)
     (auto simp: manifest_keys_def graph_eq covered_manifest_def
        j_list_eq [of graph_environment covered_environment, OF graph_environment_eq]
        j_list_eq [of graph_execution covered_execution, OF graph_execution_eq]
        j_list_eq [of graph_artifact covered_artifact, OF graph_artifact_eq]
        j_list_eq [of graph_comparison covered_comparison, OF graph_comparison_eq]
        simp del: sort_keys.simps(5))

lemma graph_bytes_iff: "graph_bytes m = graph_bytes n \<longleftrightarrow> covered_manifest m = covered_manifest n"
  unfolding graph_bytes_def canonical_graph_iff [symmetric] json_dumps_inj [symmetric]
  by (metis utf8_encode_inj)

end
