(* ===== verification/Samples.thy ===== *)
theory Samples
  imports Evidence
begin

text \<open>
  Concrete evidence the witnesses and counterexamples of the other theories evaluate on: the
  manifest of a run whose program wrote the line \<open>HELLO\<close> on both sides, compared once.
\<close>

definition sample_hash :: content_hash where
  "sample_hash = ContentHash (replicate 64 (CHR ''a''))"

definition sample_execution :: "string \<Rightarrow> string \<Rightarrow> string \<Rightarrow> execution_evidence" where
  "sample_execution i runtime status =
     \<lparr>ex_id = i, ex_run_id = ''run-1'', ex_runtime_id = runtime, ex_command = ''./prog'',
      ex_working_directory = ''/work'', ex_environment_variables = [], ex_start_time = ''t0'',
      ex_end_time = ''t1'', ex_exit_code = Some 0, ex_stdout_hash = sample_hash,
      ex_stderr_hash = sample_hash, ex_generated_files = [], ex_source_before = sample_hash,
      ex_source_after = sample_hash, ex_termination_status = status, ex_timeout_applied = False,
      ex_timeout_duration = None, ex_compilation_diagnostics = None,
      ex_workload_id = Some ''w-1'', ex_image_digest = None, ex_phase = ''EXECUTE''\<rparr>"

definition sample_artifact :: "string \<Rightarrow> string \<Rightarrow> string \<Rightarrow> artifact_evidence" where
  "sample_artifact i role e =
     \<lparr>ae_artifact = \<lparr>ai_id = i, ai_type = ''STDOUT'', ai_logical_name = ''stdout'', ai_role = role,
         ai_content_hash = sample_hash, ai_size_bytes = 6, ai_record_count = None\<rparr>,
      ae_execution_id = e, ae_capture_time = ''t1'', ae_content_hash = sample_hash,
      ae_size_bytes = 6, ae_record_count = None\<rparr>"

definition sample_comparison :: "string \<Rightarrow> comparison_evidence" where
  "sample_comparison result =
     \<lparr>ce_id = ''cmp-1'', ce_run_id = ''run-1'', ce_comparator_id = ''STDOUT_COMPARATOR'',
      ce_comparator_version = ''1.0.0'', ce_oracle_artifact_id = ''a-oracle'',
      ce_candidate_artifact_id = ''a-candidate'', ce_artifact_type = ''STDOUT'', ce_result = result,
      ce_normalization_applied = [], ce_differences = [], ce_field_level_results = [],
      ce_content_hash = sample_hash, ce_ordering_applied = ''EXACT'', ce_failure_policy = ''STRICT'',
      ce_workload_id = Some ''w-1''\<rparr>"

definition sample_oracle :: oracle_identity where
  "sample_oracle = \<lparr>or_id = ''oracle'', or_image_digest = ''sha256:1'',
     or_compiler_version = ''3.2'', or_preprocessor_version = None, or_base_image = None\<rparr>"

definition sample_raw :: evidence_manifest where
  "sample_raw =
     \<lparr>em_version = ''1.0'', em_run_id = ''run-1'', em_workload_id = ''w-1'',
      em_source = \<lparr>si_id = ''s'', si_hash = sample_hash, si_file_count = 1, si_total_size = 9\<rparr>,
      em_candidate = Some \<lparr>ca_id = ''c'', ca_hash = sample_hash, ca_source_hash = sample_hash,
                            ca_file_count = 1, ca_total_size = 9\<rparr>,
      em_oracle = Some sample_oracle, em_environments = [],
      em_input = \<lparr>in_id = ''i'', in_stdin_hash = None, in_files = []\<rparr>,
      em_executions = [sample_execution ''e-oracle'' ''oracle-gnucobol'' ''normal'',
                       sample_execution ''e-candidate'' ''candidate-java'' ''normal''],
      em_artifacts = [sample_artifact ''a-oracle'' ''ORACLE'' ''e-oracle'',
                      sample_artifact ''a-candidate'' ''CANDIDATE'' ''e-candidate''],
      em_comparisons = [sample_comparison ''MATCH''],
      em_verdict = None, em_created_at = ''t2'', em_sealed_hash = None\<rparr>"

definition sample_manifest :: evidence_manifest where
  "sample_manifest = seal_manifest sample_raw"

lemmas sample_defs =
  sample_manifest_def seal_manifest_def sample_raw_def sample_execution_def sample_artifact_def
  sample_comparison_def sample_oracle_def is_oracle_run_def is_candidate_run_def starts_with_def

end
