(* ===== verification/IntegrityFacts.thy ===== *)
theory IntegrityFacts
  imports Integrity ComparatorFacts EvidenceGraph Samples
begin

text \<open>
  What admission means. Each check of the validator is empty exactly under a condition on the
  manifest (the \<open>check_iff\<close> collection); together they say that \<open>validate\<close> accepts exactly the
  \<open>admissible\<close> manifests. The contract the verdict layer relies on is the locale \<open>admission\<close>: an
  accepted manifest is returned unchanged, with its current hash, which is also its seal. From it
  follow tamper detection and the detection of mutations after validation.
\<close>

named_theorems check_iff \<open>a check reports nothing, as a condition on the manifest\<close>

subsection \<open>Each check\<close>

lemma mem_map_ids: "k \<in> set (map f xs) \<longleftrightarrow> (\<exists>x \<in> set xs. f x = k)"
  by (induction xs) auto

lemma run_bindings_iff [check_iff]:
  "validate_run_bindings m = [] \<longleftrightarrow>
     (\<forall>e \<in> set (em_executions m). ex_run_id e = em_run_id m)
     \<and> (\<forall>a \<in> set (em_artifacts m). \<exists>e \<in> set (em_executions m).
          ex_run_id e = em_run_id m \<and> ex_id e = ae_execution_id a)
     \<and> (\<forall>c \<in> set (em_comparisons m). ce_run_id c = em_run_id m)"
  unfolding validate_run_bindings_def Let_def append_is_Nil_conv enum_filter_eq_Nil
  unfolding run_exec_ids_def mem_map_ids set_filter by simp blast

lemma workload_bindings_iff [check_iff]:
  "validate_workload_bindings m = [] \<longleftrightarrow>
     (\<forall>e \<in> set (em_executions m). ex_workload_id e \<in> {None, Some (em_workload_id m)})
     \<and> (\<forall>c \<in> set (em_comparisons m). ce_workload_id c \<in> {None, Some (em_workload_id m)})"
  unfolding validate_workload_bindings_def Let_def append_is_Nil_conv enum_filter_eq_Nil by simp

lemma source_candidate_iff [check_iff]:
  "validate_source_candidate_binding m = [] \<longleftrightarrow>
     (\<forall>c. em_candidate m = Some c \<longrightarrow> ca_source_hash c = si_hash (em_source m))"
  by (auto simp: validate_source_candidate_binding_def Let_def split: option.splits)

lemma oracle_binding_iff [check_iff]:
  "validate_oracle_binding m = [] \<longleftrightarrow>
     (\<exists>oi. em_oracle m = Some oi \<and> (\<forall>e \<in> set (em_executions m).
        is_oracle_run e \<longrightarrow> ex_image_digest e \<in> {None, Some (or_image_digest oi)}))"
proof (cases "em_oracle m")
  case (Some oi)
  then show ?thesis
    unfolding validate_oracle_binding_def Let_def by (simp only: option.case enum_filter_eq_Nil) auto
qed (simp add: validate_oracle_binding_def)

lemma artifact_execution_iff [check_iff]:
  "validate_artifact_execution_binding m = [] \<longleftrightarrow>
     (\<forall>a \<in> set (em_artifacts m). \<exists>e \<in> set (em_executions m). ex_id e = ae_execution_id a)"
  unfolding validate_artifact_execution_binding_def Let_def enum_filter_eq_Nil mem_map_ids by simp

text \<open>The artifacts a comparison names exist, have the two roles and the comparison's type.\<close>

definition well_paired :: "evidence_manifest \<Rightarrow> comparison_evidence \<Rightarrow> bool" where
  "well_paired m c \<longleftrightarrow>
     ce_oracle_artifact_id c \<noteq> ce_candidate_artifact_id c
     \<and> (case (artifact_by_id m (ce_oracle_artifact_id c), artifact_by_id m (ce_candidate_artifact_id c)) of
          (Some oa, Some ca) \<Rightarrow> ai_role oa = ''ORACLE'' \<and> ai_role ca = ''CANDIDATE''
              \<and> ai_type oa = ce_artifact_type c \<and> ai_type ca = ce_artifact_type c
        | _ \<Rightarrow> False)
     \<and> (ce_result c = ''MATCH'' \<longrightarrow> ce_differences c = [])"

lemma artifact_by_id_None:
  "artifact_by_id m k = None \<longleftrightarrow> k \<notin> set (map (\<lambda>a. ai_id (ae_artifact a)) (em_artifacts m))"
  by (simp add: artifact_by_id_def dict_comp_get_None)

lemma pairing_iff:
  "comparison_pairing_violations i c m = [] \<and>
   ce_oracle_artifact_id c \<in> set (map (\<lambda>a. ai_id (ae_artifact a)) (em_artifacts m)) \<and>
   ce_candidate_artifact_id c \<in> set (map (\<lambda>a. ai_id (ae_artifact a)) (em_artifacts m))
   \<longleftrightarrow> well_paired m c"
proof -
  have mem: "k \<in> set (map (\<lambda>a. ai_id (ae_artifact a)) (em_artifacts m)) \<longleftrightarrow> artifact_by_id m k \<noteq> None"
    for k unfolding artifact_by_id_None by simp
  show ?thesis
    unfolding mem
    by (cases "artifact_by_id m (ce_oracle_artifact_id c)";
        cases "artifact_by_id m (ce_candidate_artifact_id c)")
      (auto simp: comparison_pairing_violations_def well_paired_def Let_def)
qed

lemma comparison_artifact_iff [check_iff]:
  "validate_comparison_artifact_binding m = [] \<longleftrightarrow> (\<forall>c \<in> set (em_comparisons m). well_paired m c)"
proof -
  have one: "((if k \<notin> K then [x] else []) @ (if l \<notin> K then [y] else []) @ zs = [])
      \<longleftrightarrow> zs = [] \<and> k \<in> K \<and> l \<in> K" for k l :: 'a and K and x y :: 'b and zs
    by auto
  show ?thesis
    unfolding validate_comparison_artifact_binding_def Let_def enum_concat_eq_Nil one pairing_iff
      all_set_conv_all_nth ..
qed

definition comparator_bound :: "comparison_evidence \<Rightarrow> bool" where
  "comparator_bound c \<longleftrightarrow>
     (case map_of canonical_comparator_ids (ce_artifact_type c) of
        None \<Rightarrow> True
      | Some expected \<Rightarrow> dict_get comparator_id_aliases (ce_comparator_id c) (ce_comparator_id c) = expected)"

lemma comparator_binding_iff [check_iff]:
  "validate_comparator_binding m = [] \<longleftrightarrow> (\<forall>c \<in> set (em_comparisons m). comparator_bound c)"
  unfolding validate_comparator_binding_def enum_concat_eq_Nil comparator_bound_def
    all_set_conv_all_nth Let_def
  by (auto split: option.splits)

lemma comparison_results_iff [check_iff]:
  "validate_comparison_results m = [] \<longleftrightarrow>
     (\<forall>c \<in> set (em_comparisons m). ce_result c \<in> set known_comparison_results)"
  unfolding validate_comparison_results_def enum_filter_eq_Nil by simp

lemma source_mutation_iff [check_iff]:
  "validate_source_mutation m = [] \<longleftrightarrow>
     (\<forall>e \<in> set (em_executions m). ex_source_before e = ex_source_after e)"
  unfolding validate_source_mutation_def enum_filter_eq_Nil by (simp add: eq_commute)

lemma exit_status_iff [check_iff]:
  "validate_exit_status_completeness m = [] \<longleftrightarrow>
     ((\<exists>e \<in> set (em_executions m). exit_status_observed e) \<longrightarrow>
        ''EXIT_STATUS'' \<in> (\<lambda>a. ai_type (ae_artifact a)) ` set (em_artifacts m)
        \<and> ''EXIT_STATUS'' \<in> ce_artifact_type ` set (em_comparisons m))"
  by (auto simp: validate_exit_status_completeness_def)

lemma manifest_integrity_iff [check_iff]:
  "validate_manifest_integrity m = [] \<longleftrightarrow> em_sealed_hash m = Some (graph_hash m)"
  by (auto simp: validate_manifest_integrity_def Let_def split: option.splits)

lemma required_evidence_iff [check_iff]:
  "validate_required_evidence m = [] \<longleftrightarrow>
     (\<exists>e \<in> set (em_executions m). is_oracle_run e)
     \<and> (\<exists>e \<in> set (em_executions m). is_candidate_run e \<and> ex_phase e = ''EXECUTE'')
     \<and> (\<exists>a \<in> set (em_artifacts m). \<exists>e \<in> set (em_executions m). is_oracle_run e \<and> ex_id e = ae_execution_id a)
     \<and> (\<exists>a \<in> set (em_artifacts m). \<exists>e \<in> set (em_executions m). is_candidate_run e \<and> ex_id e = ae_execution_id a)
     \<and> (\<forall>a \<in> set (em_artifacts m). \<exists>c \<in> set (em_comparisons m).
          ai_id (ae_artifact a) \<in> {ce_oracle_artifact_id c, ce_candidate_artifact_id c})
     \<and> em_comparisons m \<noteq> []"
proof (cases "em_executions m = []")
  case False
  have ids: "filter (\<lambda>a. ae_execution_id a \<in> set (map ex_id (filter p (em_executions m)))) (em_artifacts m) = []
      \<longleftrightarrow> \<not> (\<exists>a \<in> set (em_artifacts m). \<exists>e \<in> set (em_executions m). p e \<and> ex_id e = ae_execution_id a)"
    for p unfolding filter_empty_conv mem_map_ids set_filter by simp blast
  have ref: "concat (map (\<lambda>a. if P a then [f a] else []) xs) = [] \<longleftrightarrow> (\<forall>a \<in> set xs. \<not> P a)"
    for P xs and f :: "'x \<Rightarrow> 'y" by (induction xs) auto
  show ?thesis
    using False unfolding validate_required_evidence_def Let_def if_not_P [OF False]
      append_is_Nil_conv ids ref
    by (auto simp: filter_empty_conv)
qed (simp add: validate_required_evidence_def)

subsection \<open>Admissible manifests\<close>

text \<open>
  The manifests the trust boundary lets through, stated per execution, artifact and comparison.
\<close>

definition admissible_execution :: "evidence_manifest \<Rightarrow> execution_evidence \<Rightarrow> bool" where
  "admissible_execution m e \<longleftrightarrow>
     ex_run_id e = em_run_id m
     \<and> ex_workload_id e \<in> {None, Some (em_workload_id m)}
     \<and> ex_source_before e = ex_source_after e
     \<and> (is_oracle_run e \<longrightarrow>
          ex_image_digest e \<in> {None, map_option or_image_digest (em_oracle m)})"

definition admissible_artifact :: "evidence_manifest \<Rightarrow> artifact_evidence \<Rightarrow> bool" where
  "admissible_artifact m a \<longleftrightarrow>
     (\<exists>e \<in> set (em_executions m). ex_id e = ae_execution_id a)
     \<and> (\<exists>c \<in> set (em_comparisons m).
          ai_id (ae_artifact a) \<in> {ce_oracle_artifact_id c, ce_candidate_artifact_id c})"

definition admissible_comparison :: "evidence_manifest \<Rightarrow> comparison_evidence \<Rightarrow> bool" where
  "admissible_comparison m c \<longleftrightarrow>
     ce_run_id c = em_run_id m
     \<and> ce_workload_id c \<in> {None, Some (em_workload_id m)}
     \<and> well_paired m c \<and> comparator_bound c
     \<and> ce_result c \<in> {''MATCH'', ''MISMATCH'', ''INCONCLUSIVE''}"

definition captured_from :: "(execution_evidence \<Rightarrow> bool) \<Rightarrow> evidence_manifest \<Rightarrow> bool" where
  "captured_from side m \<longleftrightarrow>
     (\<exists>a \<in> set (em_artifacts m). \<exists>e \<in> set (em_executions m). side e \<and> ex_id e = ae_execution_id a)"

definition admissible :: "evidence_manifest \<Rightarrow> bool" where
  "admissible m \<longleftrightarrow>
     em_sealed_hash m = Some (graph_hash m)
     \<and> em_oracle m \<noteq> None
     \<and> (\<forall>c. em_candidate m = Some c \<longrightarrow> ca_source_hash c = si_hash (em_source m))
     \<and> (\<forall>e \<in> set (em_executions m). admissible_execution m e)
     \<and> (\<forall>a \<in> set (em_artifacts m). admissible_artifact m a)
     \<and> (\<forall>c \<in> set (em_comparisons m). admissible_comparison m c)
     \<and> captured_from is_oracle_run m \<and> captured_from is_candidate_run m
     \<and> (\<exists>e \<in> set (em_executions m). is_candidate_run e \<and> ex_phase e = ''EXECUTE'')
     \<and> ((\<exists>e \<in> set (em_executions m). exit_status_observed e) \<longrightarrow>
          (\<exists>c \<in> set (em_comparisons m). ce_artifact_type c = ''EXIT_STATUS''))"

lemma well_paired_types:
  assumes "well_paired m c"
  obtains oa ca where "oa \<in> set (em_artifacts m)" "ca \<in> set (em_artifacts m)"
    "ai_id (ae_artifact oa) = ce_oracle_artifact_id c"
    "ai_id (ae_artifact ca) = ce_candidate_artifact_id c"
    "ai_type (ae_artifact oa) = ce_artifact_type c" "ai_type (ae_artifact ca) = ce_artifact_type c"
    "ai_role (ae_artifact oa) = ''ORACLE''" "ai_role (ae_artifact ca) = ''CANDIDATE''"
proof -
  from assms obtain x y where xy:
    "artifact_by_id m (ce_oracle_artifact_id c) = Some x"
    "artifact_by_id m (ce_candidate_artifact_id c) = Some y"
    "ai_role x = ''ORACLE''" "ai_role y = ''CANDIDATE''"
    "ai_type x = ce_artifact_type c" "ai_type y = ce_artifact_type c"
    by (auto simp: well_paired_def split: option.splits)
  from xy(1,2) [unfolded artifact_by_id_def, THEN dict_comp_get_Some] xy(3-6) that
  show thesis by blast
qed

lemma exit_status_artifact:
  assumes "\<forall>c \<in> set (em_comparisons m). well_paired m c" "''EXIT_STATUS'' \<in> ce_artifact_type ` set (em_comparisons m)"
  shows "''EXIT_STATUS'' \<in> (\<lambda>a. ai_type (ae_artifact a)) ` set (em_artifacts m)"
proof -
  from assms obtain c where "well_paired m c" "ce_artifact_type c = ''EXIT_STATUS''" by force
  then show ?thesis by (metis (mono_tags, lifting) well_paired_types image_eqI)
qed

lemma violations_iff: "violations m = [] \<longleftrightarrow> admissible m"
proof
  assume "violations m = []"
  then have v: "validate_run_bindings m = []" "validate_workload_bindings m = []"
    "validate_source_candidate_binding m = []" "validate_oracle_binding m = []"
    "validate_comparison_artifact_binding m = []" "validate_comparator_binding m = []"
    "validate_comparison_results m = []" "validate_source_mutation m = []"
    "validate_exit_status_completeness m = []" "validate_manifest_integrity m = []"
    "validate_required_evidence m = []"
    by (simp_all add: violations_def)
  note v = v [unfolded check_iff]
  show "admissible m"
    unfolding admissible_def admissible_execution_def admissible_artifact_def
      admissible_comparison_def captured_from_def
    using v by (auto simp: known_comparison_results_def)
next
  assume a: "admissible m"
  have p: "\<forall>c \<in> set (em_comparisons m). well_paired m c"
    using a by (simp add: admissible_def admissible_comparison_def)
  note e = exit_status_artifact [OF p]
  note d = admissible_execution_def admissible_artifact_def admissible_comparison_def
    captured_from_def
  have "validate_run_bindings m = []" "validate_workload_bindings m = []"
    "validate_source_candidate_binding m = []" "validate_artifact_execution_binding m = []"
    "validate_comparison_artifact_binding m = []" "validate_comparator_binding m = []"
    "validate_source_mutation m = []" "validate_manifest_integrity m = []"
    unfolding check_iff using a [unfolded admissible_def d] by (blast | simp)+
  moreover have "validate_oracle_binding m = []"
    unfolding check_iff using a [unfolded admissible_def d] by (cases "em_oracle m") auto
  moreover have "validate_exit_status_completeness m = []"
  proof -
    have "(\<exists>e \<in> set (em_executions m). exit_status_observed e) \<longrightarrow>
        ''EXIT_STATUS'' \<in> ce_artifact_type ` set (em_comparisons m)"
      using a [unfolded admissible_def] by (metis image_eqI)
    with e show ?thesis unfolding check_iff by blast
  qed
  moreover have "validate_comparison_results m = []"
    unfolding check_iff known_comparison_results_def using a [unfolded admissible_def d] by simp
  moreover have "validate_required_evidence m = []"
  proof -
    from a have o': "captured_from is_oracle_run m" and c': "captured_from is_candidate_run m"
      and x': "\<exists>e \<in> set (em_executions m). is_candidate_run e \<and> ex_phase e = ''EXECUTE''"
      and r': "\<forall>a \<in> set (em_artifacts m). admissible_artifact m a"
      by (simp_all add: admissible_def)
    from o' obtain b where "b \<in> set (em_artifacts m)" by (auto simp: captured_from_def)
    with r' have "\<exists>c. c \<in> set (em_comparisons m)" unfolding admissible_artifact_def by blast
    then have "em_comparisons m \<noteq> []" by auto
    with o' c' x' r' show ?thesis
      unfolding check_iff captured_from_def admissible_artifact_def by blast
  qed
  ultimately show "violations m = []" by (simp add: violations_def)
qed

text \<open>C8: the validator accepts a manifest exactly when it is admissible: its seal is the hash of its
  current graph, the oracle identity is present, the candidate was built from the manifest's source,
  every execution, artifact and comparison is bound to the manifest as \<open>admissible_execution\<close>,
  \<open>admissible_artifact\<close> and \<open>admissible_comparison\<close> say, both sides contributed artifacts, the
  candidate was executed, and a program exit status that was observed was also compared.\<close>
theorem validate_accepts_iff_admissible:
  "returns (validate now m) = admissible m"
  by (simp add: validate_def violations_iff)

subsection \<open>The admission contract\<close>

locale admission =
  fixes admit :: "evidence_manifest \<Rightarrow> 'e + validated_manifest"
  assumes admit_manifest: "admit m = Inr v \<Longrightarrow> vm_manifest v = m"
    and admit_hash: "admit m = Inr v \<Longrightarrow> vm_integrity_hash v = graph_hash m"
    and admit_sealed: "admit m = Inr v \<Longrightarrow> em_sealed_hash m = Some (graph_hash m)"
begin

text \<open>Two manifests with the same hash have the same covered part, or collide under SHA-256.\<close>

definition collide :: "evidence_manifest \<Rightarrow> evidence_manifest \<Rightarrow> bool" where
  "collide m n \<longleftrightarrow> graph_bytes m \<noteq> graph_bytes n \<and> sha256_hex (graph_bytes m) = sha256_hex (graph_bytes n)"

lemma same_hash: "graph_hash m = graph_hash n \<Longrightarrow> covered_manifest m = covered_manifest n \<or> collide m n"
  unfolding graph_hash_def collide_def graph_bytes_iff [symmetric]
  by (simp add: hash_from_bytes_def)

lemma sealed_then_admitted:
  assumes "em_sealed_hash n = Some (graph_hash m)" "admit n = Inr v"
  shows "covered_manifest n = covered_manifest m \<or> collide n m"
  using same_hash [of n m] assms admit_sealed by fastforce

lemma admitted_then_changed:
  assumes "admit m = Inr v" "graph_hash n = vm_integrity_hash v"
  shows "covered_manifest n = covered_manifest m \<or> collide n m"
  using same_hash assms(2) admit_hash [OF assms(1)] by metis

end

lemma admission_validate: "admission (validate now)"
  by unfold_locales
     (auto simp: validate_def compute_integrity_hash_def violations_iff admissible_def split: if_splits)

interpretation adm: admission "validate now" for now
  by (rule admission_validate)

lemma seal_then_hash: "graph_hash (seal_manifest m) = graph_hash m"
proof -
  have "graph_bytes (seal_manifest m) = graph_bytes m"
    unfolding graph_bytes_iff by (simp add: seal_manifest_def covered_manifest_def)
  then show ?thesis by (simp add: graph_hash_def)
qed

text \<open>Tampering between construction and validation is detected: if a manifest that still carries
  the seal captured when \<open>m\<close> was constructed is accepted, then it agrees with \<open>m\<close> on every field
  of the evidence graph, or the two graph texts are an explicit SHA-256 collision.\<close>
theorem tampering_detected:
  assumes "em_sealed_hash n = em_sealed_hash (seal_manifest m)" "returns (validate now n)"
  shows "covered_manifest n = covered_manifest m \<or>
    (graph_bytes n \<noteq> graph_bytes m \<and> sha256_hex (graph_bytes n) = sha256_hex (graph_bytes m))"
  using adm.sealed_then_admitted [of n m now] assms
  unfolding returns_iff adm.collide_def seal_manifest_def by auto

lemma sample_admissible: "admissible sample_manifest"
proof -
  have "em_sealed_hash sample_manifest = Some (graph_hash sample_manifest)"
    unfolding sample_manifest_def seal_then_hash by (simp add: seal_manifest_def)
  then show ?thesis
    unfolding admissible_def
    by (simp add: admissible_execution_def admissible_artifact_def
        admissible_comparison_def captured_from_def exit_status_observed_def sample_defs
        well_paired_def artifact_by_id_def dict_comp_get_def comparator_bound_def
        canonical_comparator_ids_def comparator_id_aliases_def dict_get_def)
qed

text \<open>The sample manifest keeps the seal it was constructed with and is accepted.\<close>
lemma tampering_detected_witness:
  "covered_manifest sample_manifest = covered_manifest sample_raw \<or>
    (graph_bytes sample_manifest \<noteq> graph_bytes sample_raw \<and>
     sha256_hex (graph_bytes sample_manifest) = sha256_hex (graph_bytes sample_raw))"
  by (rule tampering_detected [of sample_manifest sample_raw "[]"])
     (simp_all add: sample_manifest_def [symmetric] validate_def violations_iff sample_admissible)

subsection \<open>Evidence the comparators produce\<close>

context typed_comparator begin

lemma evidence_admissible:
  assumes c: "cmp oa oc ca cc norm ord fp = Inr r"
    and by_id: "artifact_by_id m (ai_id oa) = Some oa" "artifact_by_id m (ai_id ca) = Some ca"
    and pair: "ai_id oa \<noteq> ai_id ca" "ai_role oa = ''ORACLE''" "ai_role ca = ''CANDIDATE''"
    and types: "ai_type ca = ai_type oa" "map_of canonical_comparator_ids (ai_type oa) = Some (cid_id cid)"
    and canonical: "map_of comparator_id_aliases (cid_id cid) = None"
  shows "admissible_comparison m (to_comparison_evidence r (em_run_id m))"
proof -
  note e = evidence_artifacts [OF c] evidence_comparator [OF c] evidence_result_known
    evidence_match_iff [OF c]
  have "well_paired m (to_comparison_evidence r (em_run_id m))"
    using e by_id pair types(1) by (simp add: well_paired_def)
  moreover have "comparator_bound (to_comparison_evidence r (em_run_id m))"
    using e types canonical by (simp add: comparator_bound_def dict_get_def)
  moreover have "ce_workload_id (to_comparison_evidence r (em_run_id m)) = None"
    by (simp add: to_comparison_evidence_def Let_def)
  ultimately show ?thesis
    using e evidence_result_known [of r "em_run_id m"] by (simp add: admissible_comparison_def)
qed

end

definition v1_comparators :: "(compare_fn \<times> string) list" where
  "v1_comparators =
     [(stdout_compare, ''STDOUT''), (stderr_compare, ''STDERR''), (text_file_compare, ''TEXT_FILE''),
      (exit_status_compare, ''EXIT_STATUS''), (fixed_record_compare, ''FIXED_RECORD'')]"

lemmas canonical_defs =
  canonical_comparator_ids_def comparator_id_aliases_def stdout_id_def stderr_id_def text_file_id_def
  exit_status_id_def fixed_record_id_def

text \<open>C39: whatever one of the five comparators returns for an ORACLE artifact and a CANDIDATE artifact
  of its type in a manifest, the comparison evidence made from it passes every per-comparison check
  of the validator: the pairing, comparator-binding, result-domain and run checks never reject
  honestly produced evidence.\<close>
theorem comparator_evidence_admissible:
  assumes "(cmp, t) \<in> set v1_comparators" "cmp oa oc ca cc norm ord fp = Inr r"
    and "artifact_by_id m (ai_id oa) = Some oa" "artifact_by_id m (ai_id ca) = Some ca"
    and "ai_id oa \<noteq> ai_id ca" "ai_role oa = ''ORACLE''" "ai_role ca = ''CANDIDATE''"
    and "ai_type oa = t" "ai_type ca = t"
  shows "admissible_comparison m (to_comparison_evidence r (em_run_id m))"
proof -
  have *: ?thesis if "typed_comparator cmp cid" "map_of canonical_comparator_ids t = Some (cid_id cid)"
      "map_of comparator_id_aliases (cid_id cid) = None" for cid
    by (rule typed_comparator.evidence_admissible [OF that(1) assms(2-7)]) (simp_all add: assms(8,9) that)
  from assms(1) show ?thesis
    unfolding v1_comparators_def
    using * [OF _, of stdout_id] * [OF _, of stderr_id] * [OF _, of text_file_id]
      * [OF _, of exit_status_id] * [OF _, of fixed_record_id]
      stdout_cmp.typed_comparator_axioms stderr_cmp.typed_comparator_axioms
      text_file_cmp.typed_comparator_axioms exit_status_cmp.typed_comparator_axioms
      fixed_record_cmp.typed_comparator_axioms
    by (auto simp: canonical_defs)
qed

text \<open>The STDOUT comparison of the sample run.\<close>
lemma comparator_evidence_admissible_witness:
  "\<exists>r. stdout_compare (ae_artifact (sample_artifact ''a-oracle'' ''ORACLE'' ''e-oracle'')) (Some ''A'')
       (ae_artifact (sample_artifact ''a-candidate'' ''CANDIDATE'' ''e-candidate'')) (Some ''B'')
       None ''SEQUENTIAL'' None = Inr r \<and>
     admissible_comparison sample_manifest (to_comparison_evidence r (em_run_id sample_manifest))"
proof -
  let ?oa = "ae_artifact (sample_artifact ''a-oracle'' ''ORACLE'' ''e-oracle'')"
  let ?ca = "ae_artifact (sample_artifact ''a-candidate'' ''CANDIDATE'' ''e-candidate'')"
  obtain r where r: "stdout_compare ?oa (Some ''A'') ?ca (Some ''B'') None ''SEQUENTIAL'' None = Inr r"
    by (auto simp: stdout_compare_def text_compare_present prepared_def apply_ordering_def)
  have "admissible_comparison sample_manifest (to_comparison_evidence r (em_run_id sample_manifest))"
    by (rule comparator_evidence_admissible [where cmp = stdout_compare and t = "''STDOUT''", OF _ r])
       (simp_all add: v1_comparators_def artifact_by_id_def dict_comp_get_def sample_defs)
  with r show ?thesis by blast
qed

subsection \<open>What the seal does not cover\<close>

text \<open>The manifest with the content hash, size and record count of every nested artifact identity
  replaced (the artifact evidence around it keeps its own).\<close>

definition overwrite_identity ::
  "content_hash \<Rightarrow> int \<Rightarrow> int option \<Rightarrow> artifact_evidence \<Rightarrow> artifact_evidence" where
  "overwrite_identity h k n a = a\<lparr>ae_artifact := (ae_artifact a)
     \<lparr>ai_content_hash := h, ai_size_bytes := k, ai_record_count := n\<rparr>\<rparr>"

definition overwrite_identities ::
  "content_hash \<Rightarrow> int \<Rightarrow> int option \<Rightarrow> evidence_manifest \<Rightarrow> evidence_manifest" where
  "overwrite_identities h k n m = m\<lparr>em_artifacts := map (overwrite_identity h k n) (em_artifacts m)\<rparr>"

lemma overwrite_simps [simp]:
  "ai_id (ae_artifact (overwrite_identity h k n a)) = ai_id (ae_artifact a)"
  "ai_type (ae_artifact (overwrite_identity h k n a)) = ai_type (ae_artifact a)"
  "ai_role (ae_artifact (overwrite_identity h k n a)) = ai_role (ae_artifact a)"
  "ae_execution_id (overwrite_identity h k n a) = ae_execution_id a"
  by (simp_all add: overwrite_identity_def)

lemma overwrite_covered: "graph_hash (overwrite_identities h k n m) = graph_hash m"
proof -
  have "covered_artifact (overwrite_identity h k n a) = covered_artifact a" for a
    by (simp add: covered_artifact_def overwrite_identity_def)
  then have "graph_bytes (overwrite_identities h k n m) = graph_bytes m"
    unfolding graph_bytes_iff by (simp add: covered_manifest_def overwrite_identities_def)
  then show ?thesis by (simp add: graph_hash_def)
qed

lemma overwrite_by_id:
  "artifact_by_id (overwrite_identities h k n m) i =
     map_option (\<lambda>a. a\<lparr>ai_content_hash := h, ai_size_bytes := k, ai_record_count := n\<rparr>) (artifact_by_id m i)"
proof -
  have "rev (map (\<lambda>a. (ai_id (ae_artifact a), ae_artifact a)) (map (overwrite_identity h k n) xs))
      = map (\<lambda>(i, a). (i, a\<lparr>ai_content_hash := h, ai_size_bytes := k, ai_record_count := n\<rparr>))
          (rev (map (\<lambda>a. (ai_id (ae_artifact a), ae_artifact a)) xs))" for xs
    by (simp add: rev_map comp_def overwrite_identity_def)
  then show ?thesis
    by (simp add: artifact_by_id_def dict_comp_get_def overwrite_identities_def map_of_map)
qed

lemma overwrite_well_paired: "well_paired (overwrite_identities h k n m) c = well_paired m c"
  by (simp add: well_paired_def overwrite_by_id split: option.splits)

text \<open>The seal does not cover the artifact identities nested in the artifact evidence: whatever
  content hash, size and record count they are overwritten with after construction, the validator
  gives the same answer.\<close>
theorem nested_identity_not_sealed:
  "returns (validate now (overwrite_identities h k n m)) = returns (validate now m)"
proof -
  have "admissible (overwrite_identities h k n m) = admissible m"
    unfolding admissible_def admissible_execution_def admissible_artifact_def
      admissible_comparison_def captured_from_def overwrite_well_paired overwrite_covered
    by (simp add: overwrite_identities_def)
  then show ?thesis by (simp add: validate_def violations_iff)
qed

end
