(* ===== verification/VerdictFacts.thy ===== *)
theory VerdictFacts
  imports Verdict IntegrityFacts
begin

text \<open>
  What a verdict means. \<open>certifiable\<close> is the condition for a natural VERIFIED; with \<open>admissible\<close>
  (theory \<open>IntegrityFacts\<close>) it characterises the certification of the whole pipeline step. The rest
  gives the priority of the verdict states, the independence of the order of the evidence, and the
  guarantees of the validated and the untrusted entry points.
\<close>

subsection \<open>The natural verdict\<close>

definition usable_execution :: "execution_evidence \<Rightarrow> bool" where
  "usable_execution e \<longleftrightarrow>
     \<not> ex_timeout_applied e \<and> ex_termination_status e \<noteq> ''error''
     \<and> (is_oracle_run e \<longrightarrow> ex_termination_status e \<notin> {''timeout'', ''nonzero_exit''})
     \<and> (is_candidate_run e \<longrightarrow> ex_termination_status e \<noteq> ''timeout'')"

definition certifiable :: "evidence_manifest \<Rightarrow> bool" where
  "certifiable m \<longleftrightarrow>
     em_oracle m \<noteq> None
     \<and> (\<exists>e \<in> set (em_executions m). is_oracle_run e)
     \<and> (\<exists>e \<in> set (em_executions m). is_candidate_run e)
     \<and> (\<forall>e \<in> set (em_executions m). usable_execution e)
     \<and> em_artifacts m \<noteq> []
     \<and> (\<forall>a \<in> set (em_artifacts m). ai_type (ae_artifact a) \<in> set supported_types)
     \<and> em_comparisons m \<noteq> []
     \<and> (\<forall>c \<in> set (em_comparisons m). ce_result c = ''MATCH'')"

text \<open>The state of every verdict is decided before \<open>create_verdict\<close> reads the oracle identity.\<close>

definition comparison_state :: "evidence_manifest \<Rightarrow> verdict_state" where
  "comparison_state m = final_state (foldl analyze no_flags (em_comparisons m))"

definition natural_state :: "evidence_manifest \<Rightarrow> verdict_state" where
  "natural_state m =
     (case check_for_errors m of Some s \<Rightarrow> s | None \<Rightarrow>
     (case check_for_unavailable m of Some s \<Rightarrow> s | None \<Rightarrow>
     (case check_for_unsupported m of Some s \<Rightarrow> s | None \<Rightarrow>
        if is_complete m then comparison_state m else UNPROVEN)))"

lemma create_verdict_cases:
  "em_oracle m = None \<Longrightarrow> \<exists>e. create_verdict now s m ds = Inl (AttributeError e)"
  "em_oracle m = Some oi \<Longrightarrow> \<exists>v. create_verdict now s m ds = Inr v \<and> vd_state v = s"
  by (simp_all add: create_verdict_def scope_for_def oracle_attr_def Let_def)

lemma error_verdict_cases:
  "em_oracle m = None \<Longrightarrow> \<exists>e. error_verdict now m s ds = Inl (AttributeError e)"
  "em_oracle m = Some oi \<Longrightarrow> \<exists>v. error_verdict now m s ds = Inr v \<and> vd_state v = ERROR"
  by (simp_all add: error_verdict_def oracle_attr_def Let_def)

lemma derive_is_create: "\<exists>ds. derive now m = create_verdict now (natural_state m) m ds"
  by (auto simp: derive_def natural_state_def comparison_state_def is_complete_def Let_def
        split: option.splits)

lemma derive_None: "em_oracle m = None \<Longrightarrow> \<exists>e. derive now m = Inl (AttributeError e)"
  using derive_is_create [of now m] create_verdict_cases(1) by metis

lemma derive_Some:
  assumes "em_oracle m \<noteq> None"
  obtains v where "derive now m = Inr v" "vd_state v = natural_state m"
proof -
  from assms obtain oi where oi: "em_oracle m = Some oi" by blast
  from derive_is_create [of now m] obtain ds where
    ds: "derive now m = create_verdict now (natural_state m) m ds" ..
  from create_verdict_cases(2) [OF oi, of now "natural_state m" ds] ds that show thesis by auto
qed

lemma derive_state: "derive now m = Inr v \<Longrightarrow> vd_state v = natural_state m \<and> em_oracle m \<noteq> None"
  by (metis Inl_Inr_False Inr_inject derive_None derive_Some)

lemma error_verdict_state: "error_verdict now m s ds = Inr v \<Longrightarrow> vd_state v = ERROR"
  by (cases "em_oracle m") (auto simp: error_verdict_def oracle_attr_def)

subsection \<open>The comparison step\<close>

fun result_rank :: "comparison_evidence \<Rightarrow> nat" where
  "result_rank c = (if ce_result c = ''MATCH'' then 0 else if ce_result c = ''INCONCLUSIVE'' then 1
     else if ce_result c = ''MISMATCH'' then 2 else 3)"

definition state_of_rank :: "nat \<Rightarrow> verdict_state" where
  "state_of_rank r = (if r = 0 then VERIFIED else if r = 1 then PARTIAL else if r = 2 then FAILED
     else ERROR)"

definition worst_rank :: "comparison_evidence list \<Rightarrow> nat" where
  "worst_rank cs = Max (insert 0 (result_rank ` set cs))"

lemma analyze_flags:
  "fl_mismatch (analyze f c) = (fl_mismatch f \<or> ce_result c = ''MISMATCH'')"
  "fl_inconclusive (analyze f c) = (fl_inconclusive f \<or> ce_result c = ''INCONCLUSIVE'')"
  "fl_unknown (analyze f c) = (fl_unknown f \<or> ce_result c \<notin> {''MATCH'', ''MISMATCH'', ''INCONCLUSIVE''})"
  by (auto simp: analyze_def)

lemma foldl_analyze_flags:
  "fl_mismatch (foldl analyze f cs) = (fl_mismatch f \<or> (\<exists>c \<in> set cs. ce_result c = ''MISMATCH''))"
  "fl_inconclusive (foldl analyze f cs) = (fl_inconclusive f \<or> (\<exists>c \<in> set cs. ce_result c = ''INCONCLUSIVE''))"
  "fl_unknown (foldl analyze f cs) = (fl_unknown f \<or>
     (\<exists>c \<in> set cs. ce_result c \<notin> {''MATCH'', ''MISMATCH'', ''INCONCLUSIVE''}))"
  by (induction cs arbitrary: f) (auto simp: analyze_flags)

lemma worst_rank_ge_iff:
  "0 < k \<Longrightarrow> k \<le> worst_rank cs \<longleftrightarrow> (\<exists>c \<in> set cs. k \<le> result_rank c)"
  by (simp add: worst_rank_def Max_ge_iff del: result_rank.simps)

lemma comparison_state_worst: "comparison_state m = state_of_rank (worst_rank (em_comparisons m))"
proof -
  let ?w = "worst_rank (em_comparisons m)"
  let ?has = "\<lambda>P. \<exists>c \<in> set (em_comparisons m). P (ce_result c)"
  let ?unknown = "?has (\<lambda>r. r \<notin> {''MATCH'', ''MISMATCH'', ''INCONCLUSIVE''})"
  let ?mismatch = "?has (\<lambda>r. r = ''MISMATCH'')" and ?inconclusive = "?has (\<lambda>r. r = ''INCONCLUSIVE'')"
  have rank: "3 \<le> result_rank c \<longleftrightarrow> ce_result c \<notin> {''MATCH'', ''MISMATCH'', ''INCONCLUSIVE''}"
    "2 \<le> result_rank c \<longleftrightarrow> ce_result c = ''MISMATCH'' \<or> 3 \<le> result_rank c"
    "1 \<le> result_rank c \<longleftrightarrow> ce_result c = ''INCONCLUSIVE'' \<or> 2 \<le> result_rank c" for c
    by simp_all
  have w3: "3 \<le> ?w \<longleftrightarrow> ?unknown" and w2: "2 \<le> ?w \<longleftrightarrow> ?mismatch \<or> 3 \<le> ?w"
    and w1: "1 \<le> ?w \<longleftrightarrow> ?inconclusive \<or> 2 \<le> ?w"
    using rank worst_rank_ge_iff [of _ "em_comparisons m"] by (auto simp del: result_rank.simps)
  have le: "?w \<le> 3" unfolding worst_rank_def by auto
  have "comparison_state m = (if ?unknown then ERROR else if ?mismatch then FAILED
      else if ?inconclusive then PARTIAL else VERIFIED)"
    unfolding comparison_state_def final_state_def foldl_analyze_flags by (simp add: no_flags_def)
  also have "\<dots> = (if 3 \<le> ?w then ERROR else if 2 \<le> ?w then FAILED else if 1 \<le> ?w then PARTIAL else VERIFIED)"
    unfolding w1 w2 w3 by simp
  also have "\<dots> = state_of_rank ?w"
    using le by (simp add: state_of_rank_def)
  finally show ?thesis .
qed

subsection \<open>Verdict states in priority order\<close>

lemma comparison_state_verified:
  "comparison_state m = VERIFIED \<longleftrightarrow> (\<forall>c \<in> set (em_comparisons m). ce_result c = ''MATCH'')"
proof -
  have "state_of_rank r = VERIFIED \<longleftrightarrow> \<not> 1 \<le> r" for r by (simp add: state_of_rank_def)
  moreover have "1 \<le> result_rank c \<longleftrightarrow> ce_result c \<noteq> ''MATCH''" for c by simp
  ultimately show ?thesis
    unfolding comparison_state_worst
    using worst_rank_ge_iff [of 1 "em_comparisons m"] by (metis zero_less_one)
qed

lemma is_complete_iff:
  "is_complete m \<longleftrightarrow>
     (\<exists>e \<in> set (em_executions m). is_oracle_run e \<and> ex_termination_status e \<notin> {''error'', ''timeout''})
     \<and> (\<exists>e \<in> set (em_executions m). is_candidate_run e \<and> ex_termination_status e \<notin> {''error'', ''timeout''})
     \<and> em_artifacts m \<noteq> [] \<and> em_comparisons m \<noteq> []"
  by (simp add: is_complete_def Let_def)

lemma natural_verified_iff:
  "em_oracle m \<noteq> None \<and> natural_state m = VERIFIED \<longleftrightarrow> certifiable m"
proof -
  let ?es = "set (em_executions m)"
  have 1: "check_for_errors m = None \<longleftrightarrow>
      (\<forall>e \<in> ?es. ex_termination_status e \<noteq> ''error'' \<and> \<not> ex_timeout_applied e)"
    "\<And>s. check_for_errors m = Some s \<Longrightarrow> s = ERROR"
    by (auto simp: check_for_errors_def split: if_splits)
  have 2: "check_for_unavailable m = None \<longleftrightarrow>
      (\<exists>e \<in> ?es. is_oracle_run e) \<and> (\<exists>e \<in> ?es. is_candidate_run e)
      \<and> (\<forall>e \<in> ?es. is_oracle_run e \<longrightarrow> ex_termination_status e \<notin> {''error'', ''timeout'', ''nonzero_exit''})
      \<and> (\<forall>e \<in> ?es. is_candidate_run e \<longrightarrow> ex_termination_status e \<notin> {''error'', ''timeout''})"
    "\<And>s. check_for_unavailable m = Some s \<Longrightarrow> s = UNAVAILABLE"
    by (auto simp: check_for_unavailable_def Let_def filter_empty_conv split: if_splits)
  have 3: "check_for_unsupported m = None \<longleftrightarrow>
      (\<forall>a \<in> set (em_artifacts m). ai_type (ae_artifact a) \<in> set supported_types)"
    "\<And>s. check_for_unsupported m = Some s \<Longrightarrow> s = UNSUPPORTED"
    by (auto simp: check_for_unsupported_def split: if_splits)
  have n: "natural_state m = VERIFIED \<longleftrightarrow> check_for_errors m = None \<and> check_for_unavailable m = None
      \<and> check_for_unsupported m = None \<and> is_complete m \<and> comparison_state m = VERIFIED"
    using 1(2) 2(2) 3(2) by (auto simp: natural_state_def split: option.splits)
  show ?thesis
    unfolding n 1(1) 2(1) 3(1) is_complete_iff comparison_state_verified certifiable_def usable_execution_def by blast
qed

text \<open>Derivation answers VERIFIED exactly for a certifiable manifest: the oracle identity is
  present, both sides ran, no execution failed, timed out or (on the oracle side) exited nonzero on its
  own, there is evidence, every artifact type is supported and every comparison is a MATCH.\<close>
theorem derive_verified_iff_certifiable:
  "(\<exists>v. derive now m = Inr v \<and> vd_state v = VERIFIED) = certifiable m"
  using natural_verified_iff [of m] derive_state [of now m] derive_Some [of m now] by metis

text \<open>Once every execution is usable and the evidence is complete and supported, the verdict is the
  worst comparison result, in the order MATCH, INCONCLUSIVE, MISMATCH, unrecognised: one mismatch
  outweighs any number of matches and inconclusive results, an unrecognised result outweighs all.\<close>
theorem derive_worst_comparison:
  assumes "em_oracle m \<noteq> None" "check_for_errors m = None" "check_for_unavailable m = None"
    "check_for_unsupported m = None" "is_complete m"
  shows "\<exists>v. derive now m = Inr v \<and> vd_state v = state_of_rank (worst_rank (em_comparisons m))"
  using derive_Some [OF assms(1), of now] assms(2-5)
  by (metis natural_state_def option.simps(4) comparison_state_worst)

text \<open>The sample run with a mismatch behind a match.\<close>
lemma derive_worst_comparison_witness:
  "\<exists>v. derive ''t'' (sample_raw\<lparr>em_comparisons := [sample_comparison ''MATCH'', sample_comparison ''MISMATCH'']\<rparr>)
     = Inr v \<and> vd_state v = FAILED"
proof -
  let ?m = "sample_raw\<lparr>em_comparisons := [sample_comparison ''MATCH'', sample_comparison ''MISMATCH'']\<rparr>"
  have "\<exists>v. derive ''t'' ?m = Inr v \<and> vd_state v = state_of_rank (worst_rank (em_comparisons ?m))"
    by (rule derive_worst_comparison)
       (simp_all add: sample_defs check_for_errors_def check_for_unavailable_def
          check_for_unsupported_def supported_types_def is_complete_def)
  moreover have "state_of_rank (worst_rank (em_comparisons ?m)) = FAILED"
    by (simp add: worst_rank_def sample_defs state_of_rank_def)
  ultimately show ?thesis by simp
qed

subsection \<open>The order of the evidence\<close>

lemma natural_state_cong:
  assumes "set (em_executions m) = set (em_executions n)" "set (em_artifacts m) = set (em_artifacts n)"
    "set (em_comparisons m) = set (em_comparisons n)"
  shows "natural_state m = natural_state n"
proof -
  have nil: "em_artifacts m = [] \<longleftrightarrow> em_artifacts n = []" "em_comparisons m = [] \<longleftrightarrow> em_comparisons n = []"
    using assms(2,3) by (metis set_empty2)+
  have 1: "check_for_errors m = check_for_errors n" and 2: "check_for_unsupported m = check_for_unsupported n"
    using assms by (simp_all add: check_for_errors_def check_for_unsupported_def)
  have 3: "check_for_unavailable m = check_for_unavailable n"
    using assms(1) by (simp add: check_for_unavailable_def Let_def filter_empty_conv)
  have 4: "is_complete m = is_complete n"
    unfolding is_complete_iff assms(1) nil ..
  have 5: "comparison_state m = comparison_state n"
    using assms(3) by (simp add: comparison_state_worst worst_rank_def)
  show ?thesis unfolding natural_state_def 1 2 3 4 5 ..
qed

text \<open>The verdict does not depend on the order in which executions, artifacts and comparisons are
  listed in the manifest, nor on repetitions among them.\<close>
theorem verdict_order_independent:
  assumes "set (em_executions m) = set (em_executions n)" "set (em_artifacts m) = set (em_artifacts n)"
    "set (em_comparisons m) = set (em_comparisons n)"
    and "em_oracle m = em_oracle n" "derive now m = Inr v" "derive now' n = Inr w"
  shows "vd_state v = vd_state w"
  using natural_state_cong [OF assms(1-3)] derive_state [OF assms(5)] derive_state [OF assms(6)] by simp

text \<open>The sample run and the same run with its executions listed the other way round.\<close>
lemma verdict_order_independent_witness:
  "\<exists>v w. derive ''t'' sample_raw = Inr v \<and>
     derive ''t'' (sample_raw\<lparr>em_executions := rev (em_executions sample_raw)\<rparr>) = Inr w \<and>
     vd_state v = vd_state w"
proof -
  let ?n = "sample_raw\<lparr>em_executions := rev (em_executions sample_raw)\<rparr>"
  have "em_oracle sample_raw \<noteq> None" "em_oracle ?n \<noteq> None" by (simp_all add: sample_raw_def)
  then obtain v w where vw: "derive ''t'' sample_raw = Inr v" "derive ''t'' ?n = Inr w"
    by (metis derive_Some)
  have "vd_state v = vd_state w"
    by (rule verdict_order_independent [OF _ _ _ _ vw]) simp_all
  with vw show ?thesis by blast
qed

subsection \<open>The two entry points of the pipeline\<close>

text \<open>Evidence that failed validation never certifies: no list of violations makes the untrusted
  entry point answer VERIFIED.\<close>
theorem untrusted_never_verified:
  "\<not> (\<exists>v. derive_verdict_untrusted now m vs = Inr v \<and> vd_state v = VERIFIED)"
  by (auto simp: derive_verdict_untrusted_def derive_untrusted_def derive_unsafe_from_raw_def
        bind_res_eq_Inr dest: error_verdict_state split: if_splits)

lemma derive_validated_live:
  assumes "derive_from_validated now v = Inr w" "vd_state w \<noteq> ERROR"
  shows "graph_hash (vm_manifest v) = vm_integrity_hash v \<and> derive now (vm_manifest v) = Inr w"
  using assms by (auto simp: derive_from_validated_def Let_def dest: error_verdict_state split: if_splits)

text \<open>A manifest changed between its validation and its derivation fails closed: if the manifest
  inside an accepted wrapper is replaced by \<open>n\<close> and the verdict is anything but ERROR, then \<open>n\<close>
  agrees with the validated manifest on every field of the evidence graph, or the two graph texts
  are an explicit SHA-256 collision.\<close>
theorem mutation_after_validation_fails_closed:
  assumes "validate now m = Inr v" "derive_verdict_validated now' (v\<lparr>vm_manifest := n\<rparr>) = Inr w"
    and "vd_state w \<noteq> ERROR"
  shows "covered_manifest n = covered_manifest m \<or>
    (graph_bytes n \<noteq> graph_bytes m \<and> sha256_hex (graph_bytes n) = sha256_hex (graph_bytes m))"
proof -
  have "graph_hash n = vm_integrity_hash v"
    using derive_validated_live [OF assms(2) [unfolded derive_verdict_validated_def] assms(3)] by simp
  from adm.admitted_then_changed [OF assms(1) this] show ?thesis
    unfolding adm.collide_def .
qed

lemma sample_certifiable: "certifiable sample_manifest"
  by (simp add: certifiable_def usable_execution_def supported_types_def sample_defs)

lemma sample_validated: "\<exists>v. validate now sample_manifest = Inr v"
  by (simp add: validate_def violations_iff sample_admissible)

text \<open>The sample run, with its manifest replaced by the one before sealing, which derives as it did.\<close>
lemma mutation_after_validation_fails_closed_witness:
  "covered_manifest sample_raw = covered_manifest sample_manifest \<or>
    (graph_bytes sample_raw \<noteq> graph_bytes sample_manifest \<and>
     sha256_hex (graph_bytes sample_raw) = sha256_hex (graph_bytes sample_manifest))"
proof -
  obtain v where v: "validate ''t'' sample_manifest = Inr v" using sample_validated by blast
  have "graph_hash sample_raw = graph_hash sample_manifest"
    by (simp add: sample_manifest_def seal_manifest_def graph_hash_def graph_bytes_def canonical_evidence_graph_def)
  then have live: "graph_hash sample_raw = vm_integrity_hash v" using adm.admit_hash [OF v] by simp
  have "certifiable sample_raw"
    by (simp add: certifiable_def usable_execution_def supported_types_def sample_defs)
  then obtain w where w: "derive ''t'' sample_raw = Inr w" "vd_state w = VERIFIED"
    using natural_verified_iff derive_Some by metis
  have "derive_verdict_validated ''t'' (v\<lparr>vm_manifest := sample_raw\<rparr>) = Inr w"
    using live w(1) by (simp add: derive_verdict_validated_def derive_from_validated_def Let_def)
  from mutation_after_validation_fails_closed [OF v this] w(2) show ?thesis by simp
qed

lemma admit_and_derive_verified:
  "(\<exists>v. admit_and_derive now now' m = Inr v \<and> vd_state v = VERIFIED) \<longleftrightarrow> admissible m \<and> certifiable m"
proof (cases "admissible m")
  case True
  then obtain v where v: "validate now m = Inr v" "vm_manifest v = m" "vm_integrity_hash v = graph_hash m"
    by (simp add: validate_def violations_iff compute_integrity_hash_def)
  then have "admit_and_derive now now' m = derive now' m"
    by (simp add: admit_and_derive_def derive_verdict_validated_def derive_from_validated_def Let_def)
  then show ?thesis
    using True natural_verified_iff [of m] derive_state [of now' m] derive_Some [of m now'] by metis
next
  case False
  then have "admit_and_derive now now' m = derive_verdict_untrusted now' m (violations m)"
    by (simp add: admit_and_derive_def validate_def violations_iff)
  with False show ?thesis
    by (auto simp: derive_verdict_untrusted_def derive_untrusted_def derive_unsafe_from_raw_def
          bind_res_eq_Inr dest: error_verdict_state split: if_splits)
qed

text \<open>C1: the pipeline certifies a run exactly when its evidence is admissible and certifiable: the two
  conditions are both necessary and together sufficient for a VERIFIED verdict.\<close>
theorem pipeline_verified_iff:
  "(\<exists>v. admit_and_derive now now' m = Inr v \<and> vd_state v = VERIFIED) = (admissible m \<and> certifiable m)"
  by (rule admit_and_derive_verified)

definition counterpart :: "string \<Rightarrow> string" where
  "counterpart role = (if role = ''ORACLE'' then ''CANDIDATE'' else ''ORACLE'')"

lemma covered_by_match:
  assumes "admissible m" "certifiable m" "a \<in> set (em_artifacts m)"
    "distinct (map (\<lambda>a. ai_id (ae_artifact a)) (em_artifacts m))"
  shows "\<exists>c \<in> set (em_comparisons m). \<exists>b \<in> set (em_artifacts m).
     ai_id (ae_artifact a) \<in> {ce_oracle_artifact_id c, ce_candidate_artifact_id c}
     \<and> ce_result c = ''MATCH'' \<and> ce_differences c = [] \<and> comparator_bound c
     \<and> ai_id (ae_artifact b) \<in> {ce_oracle_artifact_id c, ce_candidate_artifact_id c}
     \<and> ai_type (ae_artifact b) = ai_type (ae_artifact a)
     \<and> ai_role (ae_artifact b) = counterpart (ai_role (ae_artifact a))"
proof -
  from assms(1,3) obtain c where c: "c \<in> set (em_comparisons m)"
    "ai_id (ae_artifact a) \<in> {ce_oracle_artifact_id c, ce_candidate_artifact_id c}"
    by (auto simp: admissible_def admissible_artifact_def)
  with assms(1,2) have w: "well_paired m c" "comparator_bound c" "ce_result c = ''MATCH''"
    by (auto simp: admissible_def admissible_comparison_def certifiable_def)
  then have d: "ce_differences c = []" by (simp add: well_paired_def)
  obtain oa ca where p: "oa \<in> set (em_artifacts m)" "ca \<in> set (em_artifacts m)"
    "ai_id (ae_artifact oa) = ce_oracle_artifact_id c" "ai_id (ae_artifact ca) = ce_candidate_artifact_id c"
    "ai_type (ae_artifact oa) = ce_artifact_type c" "ai_type (ae_artifact ca) = ce_artifact_type c"
    "ai_role (ae_artifact oa) = ''ORACLE''" "ai_role (ae_artifact ca) = ''CANDIDATE''"
    using well_paired_types [OF w(1)] by metis
  have same: "x = y" if "x \<in> set (em_artifacts m)" "y \<in> set (em_artifacts m)"
      "ai_id (ae_artifact x) = ai_id (ae_artifact y)" for x y
    using that assms(4) by (auto simp: distinct_map inj_on_def)
  from c(2) p(3,4) have "a = oa \<or> a = ca"
    using same assms(3) p(1,2) by (metis insertE singletonD)
  then show ?thesis
    using c w d p by (intro bexI [OF _ c(1)]) (auto simp: counterpart_def)
qed

text \<open>C37: A certified run has no uncompared evidence. When artifact ids are distinct, every artifact of a
  VERIFIED manifest takes part in a comparison that is a MATCH without recorded differences, made by
  the comparator registered for its type, against an artifact of the same type and the other role.\<close>
theorem verified_covers_every_artifact:
  assumes "admit_and_derive now now' m = Inr v" "vd_state v = VERIFIED" "a \<in> set (em_artifacts m)"
    "distinct (map (\<lambda>a. ai_id (ae_artifact a)) (em_artifacts m))"
  shows "\<exists>c \<in> set (em_comparisons m). \<exists>b \<in> set (em_artifacts m).
     ai_id (ae_artifact a) \<in> {ce_oracle_artifact_id c, ce_candidate_artifact_id c}
     \<and> ce_result c = ''MATCH'' \<and> ce_differences c = [] \<and> comparator_bound c
     \<and> ai_id (ae_artifact b) \<in> {ce_oracle_artifact_id c, ce_candidate_artifact_id c}
     \<and> ai_type (ae_artifact b) = ai_type (ae_artifact a)
     \<and> ai_role (ae_artifact b) = counterpart (ai_role (ae_artifact a))"
  using covered_by_match assms admit_and_derive_verified by blast

text \<open>The oracle artifact of the sample run.\<close>
lemma verified_covers_every_artifact_witness:
  "\<exists>c \<in> set (em_comparisons sample_manifest). ce_result c = ''MATCH''
     \<and> ce_oracle_artifact_id c = ''a-oracle''"
proof -
  obtain v where v: "admit_and_derive ''t'' ''t'' sample_manifest = Inr v" "vd_state v = VERIFIED"
    using admit_and_derive_verified sample_admissible sample_certifiable by blast
  from verified_covers_every_artifact [OF v, of "sample_artifact ''a-oracle'' ''ORACLE'' ''e-oracle''"]
  show ?thesis by (simp add: sample_defs)
qed

text \<open>The pipeline step returns a verdict for exactly the manifests that name an oracle identity. A
  manifest without one is rejected by the validator as ORACLE_IDENTITY_MISMATCH, but the verdict for
  it is never produced: the untrusted entry point raises \<open>AttributeError\<close> instead.\<close>
theorem pipeline_returns_iff_oracle:
  "returns (admit_and_derive now now' m) = (em_oracle m \<noteq> None)"
proof (cases "em_oracle m")
  case None
  then have "\<not> admissible m" by (simp add: admissible_def)
  then have "admit_and_derive now now' m = derive_verdict_untrusted now' m (violations m)"
    by (simp add: admit_and_derive_def validate_def violations_iff)
  with None show ?thesis using derive_None [OF None, of now']
    by (auto simp: derive_verdict_untrusted_def derive_untrusted_def derive_unsafe_from_raw_def)
next
  case (Some oi)
  have e: "returns (error_verdict t m s ds)" for t s ds
    using error_verdict_cases(2) [OF Some, of t s ds] by auto
  have d: "returns (derive t m)" for t
    using derive_Some [of m t] Some by (metis option.distinct(1) returns_simps(2))
  have "returns (derive_verdict_untrusted now' m vs)" for vs
    using d [of now'] e
    by (auto simp: derive_verdict_untrusted_def derive_untrusted_def derive_unsafe_from_raw_def returns_iff)
  moreover have "returns (derive_verdict_validated now' v)" if "vm_manifest v = m" for v
    using d [of now'] e that by (simp add: derive_verdict_validated_def derive_from_validated_def Let_def)
  ultimately show ?thesis
    using Some by (auto simp: admit_and_derive_def validate_def)
qed

subsection \<open>What certification does not check\<close>

text \<open>
  Three manifests that certify although their evidence is not what a reader of the contract
  expects: the roles of the two artifacts are exchanged against the executions that produced them,
  a second artifact reuses the id of a compared one, and the oracle run ended with a status outside
  the known vocabulary.
\<close>

definition swapped_roles :: evidence_manifest where
  "swapped_roles = seal_manifest (sample_raw\<lparr>em_artifacts :=
     [sample_artifact ''a-oracle'' ''ORACLE'' ''e-candidate'',
      sample_artifact ''a-candidate'' ''CANDIDATE'' ''e-oracle'']\<rparr>)"

definition shadowed_artifact :: artifact_evidence where
  "shadowed_artifact = (sample_artifact ''a-oracle'' ''CANDIDATE'' ''e-candidate'')
     \<lparr>ae_content_hash := ContentHash (replicate 64 (CHR ''b''))\<rparr>"

definition shadowed :: evidence_manifest where
  "shadowed = seal_manifest (sample_raw\<lparr>em_artifacts := shadowed_artifact # em_artifacts sample_raw\<rparr>)"

definition odd_status :: evidence_manifest where
  "odd_status = seal_manifest (sample_raw\<lparr>em_executions :=
     [sample_execution ''e-oracle'' ''oracle-gnucobol'' ''killed'',
      sample_execution ''e-candidate'' ''candidate-java'' ''normal'']\<rparr>)"

lemma sealed_hash_seal [simp]: "em_sealed_hash (seal_manifest m) = Some (graph_hash (seal_manifest m))"
  unfolding seal_then_hash by (simp add: seal_manifest_def)

lemma admissible_seal:
  "admissible (seal_manifest m) \<longleftrightarrow>
     em_oracle m \<noteq> None
     \<and> (\<forall>c. em_candidate m = Some c \<longrightarrow> ca_source_hash c = si_hash (em_source m))
     \<and> (\<forall>e \<in> set (em_executions m). admissible_execution m e)
     \<and> (\<forall>a \<in> set (em_artifacts m). admissible_artifact m a)
     \<and> (\<forall>c \<in> set (em_comparisons m). admissible_comparison m c)
     \<and> captured_from is_oracle_run m \<and> captured_from is_candidate_run m
     \<and> (\<exists>e \<in> set (em_executions m). is_candidate_run e \<and> ex_phase e = ''EXECUTE'')
     \<and> ((\<exists>e \<in> set (em_executions m). exit_status_observed e) \<longrightarrow>
          (\<exists>c \<in> set (em_comparisons m). ce_artifact_type c = ''EXIT_STATUS''))"
proof -
  have sel: "em_run_id (seal_manifest m) = em_run_id m" "em_workload_id (seal_manifest m) = em_workload_id m"
    "em_source (seal_manifest m) = em_source m" "em_candidate (seal_manifest m) = em_candidate m"
    "em_oracle (seal_manifest m) = em_oracle m" "em_executions (seal_manifest m) = em_executions m"
    "em_artifacts (seal_manifest m) = em_artifacts m" "em_comparisons (seal_manifest m) = em_comparisons m"
    by (simp_all add: seal_manifest_def)
  have w: "well_paired (seal_manifest m) c = well_paired m c" for c
    by (simp add: well_paired_def artifact_by_id_def sel)
  show ?thesis
    unfolding admissible_def admissible_execution_def admissible_artifact_def
      admissible_comparison_def captured_from_def w sel sealed_hash_seal by simp
qed

lemmas sample_check_defs =
  admissible_execution_def admissible_artifact_def admissible_comparison_def captured_from_def
  exit_status_observed_def well_paired_def artifact_by_id_def dict_comp_get_def comparator_bound_def
  canonical_comparator_ids_def comparator_id_aliases_def dict_get_def sample_defs

text \<open>Certification does not tie an artifact's role to the execution that produced it: a run whose
  ORACLE artifact was captured from the candidate execution, and the other way round, is VERIFIED.\<close>
theorem swapped_roles_certify:
  "(\<exists>v. admit_and_derive now now' swapped_roles = Inr v \<and> vd_state v = VERIFIED) \<and>
   (\<exists>a \<in> set (em_artifacts swapped_roles). \<exists>e \<in> set (em_executions swapped_roles).
      ai_role (ae_artifact a) = ''ORACLE'' \<and> ae_execution_id a = ex_id e \<and> is_candidate_run e)"
proof -
  have "admissible swapped_roles"
    unfolding swapped_roles_def admissible_seal by (simp add: sample_check_defs)
  moreover have "certifiable swapped_roles"
    by (simp add: swapped_roles_def certifiable_def usable_execution_def supported_types_def sample_defs)
  ultimately show ?thesis
    unfolding admit_and_derive_verified by (simp add: swapped_roles_def sample_defs)
qed

text \<open>Certification does not require artifact ids to be distinct: an artifact that reuses the id of
  a compared one is shadowed by it, is never compared itself, and the run is still VERIFIED although
  its content hash and its role differ from those of the artifact that was compared.\<close>
theorem shadowed_artifact_certifies:
  "(\<exists>v. admit_and_derive now now' shadowed = Inr v \<and> vd_state v = VERIFIED) \<and>
   shadowed_artifact \<in> set (em_artifacts shadowed) \<and>
   artifact_by_id shadowed (ai_id (ae_artifact shadowed_artifact)) \<noteq> Some (ae_artifact shadowed_artifact)"
proof -
  have "admissible shadowed"
    unfolding shadowed_def admissible_seal by (simp add: shadowed_artifact_def sample_check_defs)
  moreover have "certifiable shadowed"
    by (simp add: shadowed_def shadowed_artifact_def certifiable_def usable_execution_def
        supported_types_def sample_defs)
  ultimately show ?thesis
    unfolding admit_and_derive_verified
    by (simp add: shadowed_def shadowed_artifact_def artifact_by_id_def dict_comp_get_def sample_defs)
qed

text \<open>The oracle's termination status is checked against a list of bad statuses, not of good ones:
  a run whose oracle ended with the unknown status \<open>killed\<close> is VERIFIED.\<close>
theorem unknown_oracle_status_certifies:
  "\<exists>v. admit_and_derive now now' odd_status = Inr v \<and> vd_state v = VERIFIED"
proof -
  have "admissible odd_status"
    unfolding odd_status_def admissible_seal by (simp add: sample_check_defs)
  moreover have "certifiable odd_status"
    by (simp add: odd_status_def certifiable_def usable_execution_def supported_types_def sample_defs)
  ultimately show ?thesis unfolding admit_and_derive_verified ..
qed

end
