(* ===== verification/ApiErrors.thy ===== *)
theory ApiErrors
  imports Prelude
begin

text \<open>
  The control-plane errors (\<open>api/errors.py\<close>): the exception classes with their HTTP status, default
  detail and subclass relation, and the truncation of the client-safe detail.
\<close>

datatype api_class =
    ApiError | ServiceError | NotFoundError | ConflictError | PayloadTooLargeError | BusyError
  | PersistenceCorruptionError | InvalidStateTransitionError | UnsupportedSchemaError

fun parent_class :: "api_class \<Rightarrow> api_class option" where
  "parent_class ApiError = None"
| "parent_class ServiceError = Some ApiError"
| "parent_class NotFoundError = Some ServiceError"
| "parent_class ConflictError = Some ServiceError"
| "parent_class PayloadTooLargeError = Some ApiError"
| "parent_class BusyError = Some ApiError"
| "parent_class PersistenceCorruptionError = Some ApiError"
| "parent_class InvalidStateTransitionError = Some PersistenceCorruptionError"
| "parent_class UnsupportedSchemaError = Some PersistenceCorruptionError"

fun status_code :: "api_class \<Rightarrow> nat" where
  "status_code ApiError = 500"
| "status_code ServiceError = 400"
| "status_code NotFoundError = 404"
| "status_code ConflictError = 409"
| "status_code PayloadTooLargeError = 413"
| "status_code BusyError = 429"
| "status_code PersistenceCorruptionError = 500"
| "status_code InvalidStateTransitionError = 500"
| "status_code UnsupportedSchemaError = 500"

fun default_detail :: "api_class \<Rightarrow> string" where
  "default_detail ApiError = ''Internal server error''"
| "default_detail ServiceError = ''Invalid request''"
| "default_detail NotFoundError = ''Resource not found''"
| "default_detail ConflictError = ''Operation conflicts with the current run state''"
| "default_detail PayloadTooLargeError = ''Upload exceeds the configured size limit''"
| "default_detail BusyError = ''Too many concurrent jobs; retry later''"
| "default_detail PersistenceCorruptionError = ''Persisted state failed integrity validation''"
| "default_detail InvalidStateTransitionError = ''Invalid run state transition''"
| "default_detail UnsupportedSchemaError = ''Unsupported persisted schema version''"

definition is_corruption :: "api_class \<Rightarrow> bool" where
  "is_corruption c \<longleftrightarrow> c = PersistenceCorruptionError \<or> parent_class c = Some PersistenceCorruptionError"

definition max_detail_chars :: nat where
  "max_detail_chars = 500"

text \<open>The detail of an exception: its text, and whether the ellipsis character (U+2026, which has no
  8-bit code) follows because the text was cut.\<close>

record detail =
  dt_text :: string
  dt_cut :: bool

definition truncate_detail :: "string \<Rightarrow> detail" where
  "truncate_detail text =
     (let flat = join '' '' (split_words text) in
      if length flat \<le> max_detail_chars then \<lparr>dt_text = flat, dt_cut = False\<rparr>
      else \<lparr>dt_text = take (max_detail_chars - 1) flat, dt_cut = True\<rparr>)"

datatype exn =
    Api api_class detail
  | Py py_error
  | Unmodelled

definition api_detail :: "api_class \<Rightarrow> string option \<Rightarrow> detail" where
  "api_detail c d =
     (case d of
        None \<Rightarrow> \<lparr>dt_text = default_detail c, dt_cut = False\<rparr>
      | Some t \<Rightarrow> if t = [] then \<lparr>dt_text = default_detail c, dt_cut = False\<rparr> else truncate_detail t)"

definition raise_api :: "api_class \<Rightarrow> string \<Rightarrow> exn + 'a" where
  "raise_api c msg = Inl (Api c (api_detail c (Some msg)))"

definition detail_length :: "detail \<Rightarrow> nat" where
  "detail_length d = length (dt_text d) + (if dt_cut d then 1 else 0)"

lemma raise_api_not_Inr [simp]: "raise_api c msg \<noteq> Inr x" "Inr x \<noteq> raise_api c msg"
  by (simp_all add: raise_api_def)

lemma bind_raise [simp]: "bind_res (raise_api c msg) f = raise_api c msg"
  by (simp add: raise_api_def)

lemma default_detail_length: "length (default_detail c) \<le> 500"
  by (cases c) simp_all

text \<open>Whatever text an error is raised with, the detail a client sees is at most 500 characters
  long, the ellipsis of a cut text included.\<close>
theorem detail_bounded: "detail_length (api_detail c d) \<le> max_detail_chars"
proof -
  have t: "detail_length (truncate_detail t) \<le> max_detail_chars" for t
    by (auto simp: truncate_detail_def detail_length_def max_detail_chars_def Let_def)
  have d: "detail_length \<lparr>dt_text = default_detail c, dt_cut = False\<rparr> \<le> max_detail_chars"
    using default_detail_length [of c] by (simp add: detail_length_def max_detail_chars_def)
  show ?thesis
    unfolding api_detail_def using t d by (simp split: option.split)
qed

end
