(* ===== verification/Serialization.thy ===== *)
theory Serialization
  imports ApiErrors Verdict JsonParse
begin

text \<open>
  The persistence codec (\<open>api/serialization.py\<close>): versioned JSON documents for evidence manifests,
  verdicts, reports and string lists. A persisted column is \<open>None\<close> or bytes. Decoding checks the
  envelope, the schema version and every field, in the source's order, and re-verifies the seal.
  The result \<open>Unmodelled\<close> stands for documents whose values the model does not represent: floats,
  code points above 255, and environment variables that are not strings.
\<close>

definition schema_evidence :: string where "schema_evidence = ''evidence-manifest''"
definition schema_verdict :: string where "schema_verdict = ''verdict''"
definition schema_report :: string where "schema_report = ''modernization-report''"

definition current_schema_version :: int where "current_schema_version = 1"

subsection \<open>Validation helpers\<close>

fun type_name :: "json \<Rightarrow> string" where
  "type_name JNull = ''NoneType''"
| "type_name (JBool _) = ''bool''"
| "type_name (JInt _) = ''int''"
| "type_name (JStr _) = ''str''"
| "type_name (JList _) = ''list''"
| "type_name (JObj _) = ''dict''"

definition fail :: "string \<Rightarrow> exn + 'a" where
  "fail msg = raise_api PersistenceCorruptionError msg"

definition unsupported :: "string \<Rightarrow> exn + 'a" where
  "unsupported msg = raise_api UnsupportedSchemaError msg"

text \<open>\<open>d.get(k)\<close> and \<open>d.get(k, x)\<close>.\<close>

definition jget_or :: "json dict \<Rightarrow> string \<Rightarrow> json \<Rightarrow> json" where
  "jget_or d k x = (case map_of d k of None \<Rightarrow> x | Some v \<Rightarrow> v)"

definition jget :: "json dict \<Rightarrow> string \<Rightarrow> json" where
  "jget d k = jget_or d k JNull"

definition expect_dict :: "json \<Rightarrow> string \<Rightarrow> exn + json dict" where
  "expect_dict v loc = (case v of JObj d \<Rightarrow> Inr d
     | _ \<Rightarrow> fail (loc @ '' must be an object, got '' @ type_name v))"

definition expect_list :: "json \<Rightarrow> string \<Rightarrow> exn + json list" where
  "expect_list v loc = (case v of JList xs \<Rightarrow> Inr xs
     | _ \<Rightarrow> fail (loc @ '' must be an array, got '' @ type_name v))"

definition missing_field :: "string \<Rightarrow> exn + 'a" where
  "missing_field loc = fail (''missing or null required field '' @ repr_str loc)"

definition expect_text :: "bool \<Rightarrow> json \<Rightarrow> string \<Rightarrow> exn + string" where
  "expect_text allow_empty v loc = (case v of
       JNull \<Rightarrow> missing_field loc
     | JStr s \<Rightarrow> if \<not> allow_empty \<and> s = [] then fail (loc @ '' must not be empty'') else Inr s
     | _ \<Rightarrow> fail (loc @ '' must be a string, got '' @ type_name v))"

abbreviation expect_str :: "json \<Rightarrow> string \<Rightarrow> exn + string" where
  "expect_str \<equiv> expect_text False"

abbreviation expect_str_or_empty :: "json \<Rightarrow> string \<Rightarrow> exn + string" where
  "expect_str_or_empty \<equiv> expect_text True"

definition expect_int :: "json \<Rightarrow> string \<Rightarrow> exn + int" where
  "expect_int v loc = (case v of
       JNull \<Rightarrow> missing_field loc
     | JInt i \<Rightarrow> Inr i
     | _ \<Rightarrow> fail (loc @ '' must be an integer, got '' @ type_name v))"

definition expect_bool :: "json \<Rightarrow> string \<Rightarrow> exn + bool" where
  "expect_bool v loc = (case v of
       JNull \<Rightarrow> missing_field loc
     | JBool b \<Rightarrow> Inr b
     | _ \<Rightarrow> fail (loc @ '' must be a boolean, got '' @ type_name v))"

text \<open>\<open>None if v is None else f(v)\<close>.\<close>

definition when_present :: "(json \<Rightarrow> exn + 'a) \<Rightarrow> json \<Rightarrow> exn + 'a option" where
  "when_present f v = (if v = JNull then Inr None else bind_res (f v) (\<lambda>x. Inr (Some x)))"

definition opt_str :: "json dict \<Rightarrow> string \<Rightarrow> exn + string option" where
  "opt_str d k = when_present (\<lambda>v. expect_str v k) (jget d k)"

definition is_lower_hex :: "char \<Rightarrow> bool" where
  "is_lower_hex c = (c \<in> set ''0123456789abcdef'')"

definition is_sha256_digest :: "string \<Rightarrow> bool" where
  "is_sha256_digest s = (length s = 64 \<and> list_all is_lower_hex s)"

definition parse_hash :: "json \<Rightarrow> string \<Rightarrow> exn + content_hash" where
  "parse_hash v loc =
     bind_res (expect_str v loc) (\<lambda>text.
       let d = (if starts_with ''sha256:'' text then drop (length ''sha256:'') text else text) in
       if \<not> is_sha256_digest d then fail (loc @ '' is not a sha256 digest'')
       else Inr (ContentHash d))"

text \<open>\<open>_hash(payload, key, where)\<close>: the label is \<open>where.key\<close>.\<close>

definition hash_field :: "json dict \<Rightarrow> string \<Rightarrow> string \<Rightarrow> exn + content_hash" where
  "hash_field d k loc =
     (let label = loc @ ''.'' @ k in
      if jget d k = JNull then fail (label @ '' is required'') else parse_hash (jget d k) label)"

definition hash_map :: "json \<Rightarrow> string \<Rightarrow> exn + content_hash dict" where
  "hash_map v loc =
     bind_res (expect_dict v loc) (traverse (\<lambda>(k, item).
       bind_res (parse_hash item (loc @ ''.'' @ k)) (\<lambda>h. Inr (k, h))))"

definition str_list :: "json \<Rightarrow> string \<Rightarrow> exn + string list" where
  "str_list v loc =
     bind_res (expect_list v loc) (traverse (\<lambda>item. case item of
       JStr s \<Rightarrow> Inr s | _ \<Rightarrow> fail (loc @ '' entries must be strings'')))"

text \<open>A dictionary whose values must be strings; the message is the caller's.\<close>

definition str_dict :: "string \<Rightarrow> json dict \<Rightarrow> exn + string dict" where
  "str_dict msg = traverse (\<lambda>(k, v). case v of JStr s \<Rightarrow> Inr (k, s) | _ \<Rightarrow> fail msg)"

text \<open>The constructors of the identities raise \<open>ValueError\<close>; this is the call without a handler.\<close>

definition lift_py :: "py_error + 'a \<Rightarrow> exn + 'a" where
  "lift_py r = (case r of Inl e \<Rightarrow> Inl (Py e) | Inr x \<Rightarrow> Inr x)"

subsection \<open>The envelope\<close>

text \<open>\<open>int.__repr__\<close>, which \<open>json.dumps\<close> calls, refuses integers above the digit limit.\<close>

primrec ints_within_limit :: "json \<Rightarrow> bool" where
  "ints_within_limit JNull = True"
| "ints_within_limit (JBool b) = True"
| "ints_within_limit (JInt i) = (length (show_nat (nat \<bar>i\<bar>)) \<le> int_digit_limit)"
| "ints_within_limit (JStr s) = True"
| "ints_within_limit (JList xs) = list_all id (map ints_within_limit xs)"
| "ints_within_limit (JObj fs) = list_all snd (map (map_prod id ints_within_limit) fs)"

definition int_limit_message :: string where
  "int_limit_message = ''Exceeds the limit (4300 digits) for integer string conversion; ''
     @ ''use sys.set_int_max_str_digits() to increase the limit''"

definition document :: "string \<Rightarrow> json \<Rightarrow> json" where
  "document schema payload = JObj
     [(''schema'', JStr schema), (''schema_version'', JInt current_schema_version),
      (''payload'', payload)]"

definition encode_envelope :: "string \<Rightarrow> json \<Rightarrow> exn + bytes" where
  "encode_envelope schema payload =
     (if ints_within_limit payload then Inr (utf8_encode (json_dumps (document schema payload)))
      else raise_api PersistenceCorruptionError
             (''payload for schema '' @ repr_str schema @ '' is not JSON-serializable: ''
              @ int_limit_message))"

definition decode_text :: "bytes \<Rightarrow> exn + json" where
  "decode_text raw =
     (case utf8_decode raw of
        Inl Malformed \<Rightarrow> fail ''persisted payload is not UTF-8 JSON (legacy or corrupted)''
      | Inl _ \<Rightarrow> Inl Unmodelled
      | Inr text \<Rightarrow>
          (case json_loads text of
             Inl Malformed \<Rightarrow> fail ''persisted payload is not valid JSON''
           | Inl _ \<Rightarrow> Inl Unmodelled
           | Inr v \<Rightarrow> Inr v))"

text \<open>\<open>repr\<close> of a decoded value.\<close>

primrec py_repr :: "json \<Rightarrow> string" where
  "py_repr JNull = ''None''"
| "py_repr (JBool b) = (if b then ''True'' else ''False'')"
| "py_repr (JInt i) = show_int i"
| "py_repr (JStr s) = repr_str s"
| "py_repr (JList xs) = ''['' @ join '', '' (map py_repr xs) @ '']''"
| "py_repr (JObj fs) = ''{'' @ join '', ''
     (map (\<lambda>p. repr_str (fst p) @ '': '' @ snd p) (map (map_prod id py_repr) fs)) @ ''}''"

definition decode_envelope :: "bytes option \<Rightarrow> string \<Rightarrow> exn + json dict option" where
  "decode_envelope raw expected =
     (case raw of
        None \<Rightarrow> Inr None
      | Some b \<Rightarrow>
          bind_res (decode_text b) (\<lambda>v.
          bind_res (expect_dict v ''persisted payload'') (\<lambda>doc.
            let schema = jget doc ''schema'' in
            if schema \<noteq> JStr expected
            then fail (''unexpected persisted schema '' @ py_repr schema @ '', expected ''
                       @ repr_str expected)
            else (case jget doc ''schema_version'' of
                JInt version \<Rightarrow>
                  if version \<noteq> current_schema_version
                  then unsupported (''unsupported persisted schema version '' @ show_int version
                         @ '' (supported: '' @ show_int current_schema_version @ '')'')
                  else bind_res (expect_dict (jget doc ''payload'') ''payload'') (\<lambda>p. Inr (Some p))
              | _ \<Rightarrow> fail ''persisted payload has no integer schema_version''))))"

subsection \<open>Encoding evidence manifests\<close>

definition stored_source :: "source_identity \<Rightarrow> json" where
  "stored_source s = JObj
     [(''source_id'', JStr (si_id s)), (''source_hash'', j_hash (si_hash s)),
      (''file_count'', JInt (si_file_count s)), (''total_size_bytes'', JInt (si_total_size s))]"

definition stored_candidate :: "candidate_identity \<Rightarrow> json" where
  "stored_candidate c = JObj
     [(''candidate_id'', JStr (ca_id c)), (''candidate_hash'', j_hash (ca_hash c)),
      (''source_hash'', j_hash (ca_source_hash c)), (''file_count'', JInt (ca_file_count c)),
      (''total_size_bytes'', JInt (ca_total_size c))]"

definition stored_oracle :: "oracle_identity \<Rightarrow> json" where
  "stored_oracle oi = JObj
     [(''oracle_id'', JStr (or_id oi)), (''image_digest'', JStr (or_image_digest oi)),
      (''compiler_version'', JStr (or_compiler_version oi)),
      (''preprocessor_version'', j_opt JStr (or_preprocessor_version oi)),
      (''base_image'', j_opt JStr (or_base_image oi))]"

definition stored_environment :: "environment_identity \<Rightarrow> json" where
  "stored_environment env = JObj
     [(''runtime_id'', JStr (env_runtime_id env)),
      (''java_version'', j_opt JStr (env_java_version env)),
      (''cobol_compiler'', j_opt JStr (env_cobol_compiler env)),
      (''os_base'', j_opt JStr (env_os_base env)),
      (''network_policy'', JStr (env_network_policy env)),
      (''resource_limits'', j_dict JStr (env_resource_limits env))]"

definition stored_input :: "input_identity \<Rightarrow> json" where
  "stored_input i = JObj
     [(''input_id'', JStr (in_id i)), (''stdin_hash'', j_opt j_hash (in_stdin_hash i)),
      (''input_files'', j_dict j_hash (in_files i))]"

definition stored_artifact :: "artifact_evidence \<Rightarrow> json" where
  "stored_artifact a = JObj
     [(''artifact'', JObj
        [(''artifact_id'', JStr (ai_id (ae_artifact a))),
         (''artifact_type'', JStr (ai_type (ae_artifact a))),
         (''logical_name'', JStr (ai_logical_name (ae_artifact a))),
         (''producer_role'', JStr (ai_role (ae_artifact a))),
         (''content_hash'', j_hash (ai_content_hash (ae_artifact a))),
         (''size_bytes'', JInt (ai_size_bytes (ae_artifact a))),
         (''record_count'', j_opt JInt (ai_record_count (ae_artifact a)))]),
      (''execution_id'', JStr (ae_execution_id a)),
      (''capture_time'', JStr (ae_capture_time a)),
      (''content_hash'', j_hash (ae_content_hash a)),
      (''size_bytes'', JInt (ae_size_bytes a)),
      (''record_count'', j_opt JInt (ae_record_count a))]"

definition stored_comparison :: "comparison_evidence \<Rightarrow> json" where
  "stored_comparison c =
     (case comparison_to_dict c of
        JObj d \<Rightarrow> JObj (d @ [(''content_hash'', j_hash (ce_content_hash c))])
      | v \<Rightarrow> v)"

definition str_opt_hash :: "content_hash option \<Rightarrow> string" where
  "str_opt_hash h = (case h of None \<Rightarrow> ''None'' | Some x \<Rightarrow> str_hash x)"

definition manifest_payload :: "evidence_manifest \<Rightarrow> oracle_identity \<Rightarrow> json" where
  "manifest_payload m oi = JObj
     [(''manifest_version'', JStr (em_version m)),
      (''run_id'', JStr (em_run_id m)),
      (''workload_id'', JStr (em_workload_id m)),
      (''source_identity'', stored_source (em_source m)),
      (''candidate_identity'', j_opt stored_candidate (em_candidate m)),
      (''oracle_identity'', stored_oracle oi),
      (''environment_identities'', JList (map stored_environment (em_environments m))),
      (''controlled_input'', stored_input (em_input m)),
      (''execution_evidence'', JList (map execution_to_dict (em_executions m))),
      (''artifact_evidence'', JList (map stored_artifact (em_artifacts m))),
      (''comparison_evidence'', JList (map stored_comparison (em_comparisons m))),
      (''verdict_evidence'', j_opt verdict_evidence_to_dict (em_verdict m)),
      (''created_at'', JStr (em_created_at m)),
      (''sealed_hash'', j_opt j_hash (em_sealed_hash m))]"

definition encode_evidence_manifest :: "evidence_manifest \<Rightarrow> exn + bytes" where
  "encode_evidence_manifest m =
     (let seal = em_sealed_hash m; recomputed = manifest_hash m in
      if seal \<noteq> Some recomputed
      then raise_api PersistenceCorruptionError
             (''refusing to persist evidence manifest with a stale seal (sealed_hash=''
              @ str_opt_hash seal @ '', recomputed='' @ str_hash recomputed @ '')'')
      else bind_res (lift_py (oracle_attr ''oracle_id'' (\<lambda>oi. oi) m)) (\<lambda>oi.
             encode_envelope schema_evidence (manifest_payload m oi)))"

subsection \<open>Decoding evidence manifests\<close>

text \<open>\<open>f"{base}[{index}]"\<close> and \<open>f"{where}.{field}"\<close>.\<close>

definition at_index :: "string \<Rightarrow> nat \<Rightarrow> string" where
  "at_index base i = base @ ''['' @ show_nat i @ '']''"

definition dot :: "string \<Rightarrow> string \<Rightarrow> string" where
  "dot loc field = loc @ ''.'' @ field"

text \<open>Environment variables are only checked to be an object.\<close>

definition decode_variables :: "json \<Rightarrow> string \<Rightarrow> exn + string dict" where
  "decode_variables v loc =
     bind_res (expect_dict v loc) (traverse (\<lambda>(k, x). case x of
       JStr s \<Rightarrow> Inr (k, s) | _ \<Rightarrow> Inl Unmodelled))"

definition decode_execution :: "nat \<times> json \<Rightarrow> exn + execution_evidence" where
  "decode_execution = (\<lambda>(index, raw).
     let loc = at_index ''execution_evidence'' index in
     bind_res (expect_dict raw loc) (\<lambda>item.
     bind_res (when_present (\<lambda>v. bind_res (expect_dict v (dot loc ''compilation_diagnostics''))
         (str_dict (loc @ ''.compilation_diagnostics must map strings'')))
       (jget item ''compilation_diagnostics'')) (\<lambda>compilation.
     bind_res (when_present (\<lambda>v. expect_str v (dot loc ''workload_id'')) (jget item ''workload_id''))
       (\<lambda>workload_id.
     bind_res (when_present (\<lambda>v. expect_int v (dot loc ''timeout_duration''))
       (jget item ''timeout_duration'')) (\<lambda>timeout_duration.
     bind_res (when_present (\<lambda>v. expect_int v (dot loc ''exit_code'')) (jget item ''exit_code''))
       (\<lambda>exit_code.
     bind_res (expect_str (jget item ''execution_id'') (dot loc ''execution_id'')) (\<lambda>execution_id.
     bind_res (expect_str (jget item ''run_id'') (dot loc ''run_id'')) (\<lambda>run_id.
     bind_res (expect_str (jget item ''runtime_id'') (dot loc ''runtime_id'')) (\<lambda>runtime_id.
     bind_res (expect_str_or_empty (jget item ''command'') (dot loc ''command'')) (\<lambda>command.
     bind_res (expect_str_or_empty (jget item ''working_directory'') (dot loc ''working_directory''))
       (\<lambda>working_directory.
     bind_res (decode_variables (jget item ''environment_variables'') (dot loc ''environment_variables''))
       (\<lambda>variables.
     bind_res (expect_str_or_empty (jget item ''start_time'') (dot loc ''start_time'')) (\<lambda>start_time.
     bind_res (expect_str_or_empty (jget item ''end_time'') (dot loc ''end_time'')) (\<lambda>end_time.
     bind_res (hash_field item ''stdout_hash'' loc) (\<lambda>stdout_hash.
     bind_res (hash_field item ''stderr_hash'' loc) (\<lambda>stderr_hash.
     bind_res (hash_map (jget_or item ''generated_files'' (JObj [])) (dot loc ''generated_files''))
       (\<lambda>generated.
     bind_res (hash_field item ''source_tree_hash_before'' loc) (\<lambda>before.
     bind_res (hash_field item ''source_tree_hash_after'' loc) (\<lambda>after.
     bind_res (expect_str (jget item ''termination_status'') (dot loc ''termination_status''))
       (\<lambda>termination_status.
     bind_res (expect_bool (jget item ''timeout_applied'') (dot loc ''timeout_applied''))
       (\<lambda>timeout_applied.
     bind_res (opt_str item ''image_digest'') (\<lambda>image_digest.
     bind_res (expect_str (jget_or item ''execution_phase'' (JStr ''EXECUTE''))
       (dot loc ''execution_phase'')) (\<lambda>phase.
       Inr \<lparr>ex_id = execution_id, ex_run_id = run_id, ex_runtime_id = runtime_id,
            ex_command = command, ex_working_directory = working_directory,
            ex_environment_variables = variables, ex_start_time = start_time,
            ex_end_time = end_time, ex_exit_code = exit_code, ex_stdout_hash = stdout_hash,
            ex_stderr_hash = stderr_hash, ex_generated_files = generated,
            ex_source_before = before, ex_source_after = after,
            ex_termination_status = termination_status, ex_timeout_applied = timeout_applied,
            ex_timeout_duration = timeout_duration, ex_compilation_diagnostics = compilation,
            ex_workload_id = workload_id, ex_image_digest = image_digest, ex_phase = phase\<rparr>)))))))))))))))))))))))"

definition decode_artifact :: "nat \<times> json \<Rightarrow> exn + artifact_evidence" where
  "decode_artifact = (\<lambda>(index, raw).
     let loc = at_index ''artifact_evidence'' index; inner = dot loc ''artifact'' in
     bind_res (expect_dict raw loc) (\<lambda>item.
     bind_res (when_present (\<lambda>v. expect_int v (dot loc ''record_count'')) (jget item ''record_count''))
       (\<lambda>record_count.
     bind_res (expect_dict (jget item ''artifact'') inner) (\<lambda>ident.
     bind_res (when_present (\<lambda>v. expect_int v (dot inner ''record_count'')) (jget ident ''record_count''))
       (\<lambda>artifact_record_count.
     bind_res (expect_str (jget ident ''artifact_id'') (dot inner ''artifact_id'')) (\<lambda>artifact_id.
     bind_res (expect_str (jget ident ''artifact_type'') (dot inner ''artifact_type'')) (\<lambda>artifact_type.
     bind_res (expect_str_or_empty (jget ident ''logical_name'') (dot inner ''logical_name''))
       (\<lambda>logical_name.
     bind_res (expect_str (jget ident ''producer_role'') (dot inner ''producer_role'')) (\<lambda>role.
     bind_res (hash_field ident ''content_hash'' inner) (\<lambda>inner_hash.
     bind_res (expect_int (jget ident ''size_bytes'') (dot inner ''size_bytes'')) (\<lambda>inner_size.
     bind_res (lift_py (mk_artifact_identity
        \<lparr>ai_id = artifact_id, ai_type = artifact_type, ai_logical_name = logical_name,
         ai_role = role, ai_content_hash = inner_hash, ai_size_bytes = inner_size,
         ai_record_count = artifact_record_count\<rparr>)) (\<lambda>identity.
     bind_res (expect_str (jget item ''execution_id'') (dot loc ''execution_id'')) (\<lambda>execution_id.
     bind_res (expect_str_or_empty (jget item ''capture_time'') (dot loc ''capture_time''))
       (\<lambda>capture_time.
     bind_res (hash_field item ''content_hash'' loc) (\<lambda>h.
     bind_res (expect_int (jget item ''size_bytes'') (dot loc ''size_bytes'')) (\<lambda>size_bytes.
       Inr \<lparr>ae_artifact = identity, ae_execution_id = execution_id, ae_capture_time = capture_time,
            ae_content_hash = h, ae_size_bytes = size_bytes,
            ae_record_count = record_count\<rparr>))))))))))))))))"

definition decode_comparison :: "nat \<times> json \<Rightarrow> exn + comparison_evidence" where
  "decode_comparison = (\<lambda>(index, raw).
     let loc = at_index ''comparison_evidence'' index in
     bind_res (expect_dict raw loc) (\<lambda>item.
     bind_res (expect_list (jget item ''field_level_results'') (dot loc ''field_level_results''))
       (\<lambda>field_results.
     bind_res (traverse (\<lambda>v. expect_dict v (loc @ ''.field_level_results entry'')) field_results) (\<lambda>_.
     bind_res (when_present (\<lambda>v. expect_str v (dot loc ''workload_id'')) (jget item ''workload_id''))
       (\<lambda>workload_id.
     bind_res (expect_str (jget item ''comparison_id'') (dot loc ''comparison_id'')) (\<lambda>comparison_id.
     bind_res (expect_str (jget item ''run_id'') (dot loc ''run_id'')) (\<lambda>run_id.
     bind_res (expect_str (jget item ''comparator_id'') (dot loc ''comparator_id'')) (\<lambda>comparator.
     bind_res (expect_str_or_empty (jget item ''comparator_version'') (dot loc ''comparator_version''))
       (\<lambda>version.
     bind_res (expect_str (jget item ''oracle_artifact_id'') (dot loc ''oracle_artifact_id'')) (\<lambda>oracle_id.
     bind_res (expect_str (jget item ''candidate_artifact_id'') (dot loc ''candidate_artifact_id''))
       (\<lambda>candidate_id.
     bind_res (expect_str (jget item ''artifact_type'') (dot loc ''artifact_type'')) (\<lambda>artifact_type.
     bind_res (expect_str (jget item ''result'') (dot loc ''result'')) (\<lambda>result.
     bind_res (str_list (jget item ''normalization_applied'') (dot loc ''normalization_applied''))
       (\<lambda>normalization.
     bind_res (str_list (jget item ''differences'') (dot loc ''differences'')) (\<lambda>differences.
     bind_res (hash_field item ''content_hash'' loc) (\<lambda>h.
     bind_res (expect_str (jget_or item ''ordering_applied'' (JStr ''SEQUENTIAL''))
       (dot loc ''ordering_applied'')) (\<lambda>ord.
     bind_res (expect_str_or_empty (jget_or item ''failure_policy'' (JStr []))
       (dot loc ''failure_policy'')) (\<lambda>policy.
       Inr \<lparr>ce_id = comparison_id, ce_run_id = run_id, ce_comparator_id = comparator,
            ce_comparator_version = version, ce_oracle_artifact_id = oracle_id,
            ce_candidate_artifact_id = candidate_id, ce_artifact_type = artifact_type,
            ce_result = result, ce_normalization_applied = normalization,
            ce_differences = differences, ce_field_level_results = field_results,
            ce_content_hash = h, ce_ordering_applied = ord, ce_failure_policy = policy,
            ce_workload_id = workload_id\<rparr>))))))))))))))))))"

definition decode_verdict_evidence :: "json \<Rightarrow> exn + verdict_evidence option" where
  "decode_verdict_evidence raw =
     (let loc = ''verdict_evidence'' in when_present (\<lambda>v.
     bind_res (expect_dict v loc) (\<lambda>item.
     bind_res (expect_str (jget item ''run_id'') (dot loc ''run_id'')) (\<lambda>run_id.
     bind_res (expect_str (jget item ''workload_id'') (dot loc ''workload_id'')) (\<lambda>workload_id.
     bind_res (expect_str (jget item ''verdict_state'') (dot loc ''verdict_state'')) (\<lambda>state.
     bind_res (expect_int (jget item ''executed_check_count'') (dot loc ''executed_check_count''))
       (\<lambda>executed.
     bind_res (expect_int (jget item ''skipped_count'') (dot loc ''skipped_count'')) (\<lambda>skipped.
     bind_res (expect_int (jget item ''unavailable_count'') (dot loc ''unavailable_count''))
       (\<lambda>unavailable.
     bind_res (expect_str_or_empty (jget item ''supported_scope_statement'')
       (dot loc ''supported_scope_statement'')) (\<lambda>scope.
     bind_res (parse_hash (jget item ''evidence_manifest_hash'') (dot loc ''evidence_manifest_hash''))
       (\<lambda>h.
     bind_res (expect_str (jget item ''derivation_timestamp'') (dot loc ''derivation_timestamp''))
       (\<lambda>timestamp.
       Inr \<lparr>ve_run_id = run_id, ve_workload_id = workload_id, ve_verdict_state = state,
            ve_executed_check_count = executed, ve_skipped_count = skipped,
            ve_unavailable_count = unavailable, ve_supported_scope_statement = scope,
            ve_evidence_manifest_hash = h, ve_derivation_timestamp = timestamp\<rparr>)))))))))) ) raw)"

definition decode_environment :: "nat \<times> json \<Rightarrow> exn + environment_identity" where
  "decode_environment = (\<lambda>(index, raw).
     let loc = at_index ''environment_identities'' index in
     bind_res (expect_dict raw loc) (\<lambda>env.
     bind_res (bind_res (expect_dict (jget_or env ''resource_limits'' (JObj [])) (dot loc ''resource_limits''))
       (str_dict (loc @ ''.resource_limits must map strings''))) (\<lambda>limits.
     bind_res (expect_str (jget env ''runtime_id'') (dot loc ''runtime_id'')) (\<lambda>runtime_id.
     bind_res (opt_str env ''java_version'') (\<lambda>java.
     bind_res (opt_str env ''cobol_compiler'') (\<lambda>cobol.
     bind_res (opt_str env ''os_base'') (\<lambda>os.
     bind_res (expect_str (jget_or env ''network_policy'' (JStr ''none'')) (dot loc ''network_policy''))
       (\<lambda>network.
       Inr \<lparr>env_runtime_id = runtime_id, env_java_version = java, env_cobol_compiler = cobol,
            env_os_base = os, env_network_policy = network, env_resource_limits = limits\<rparr>))))))))"

definition decode_source :: "json dict \<Rightarrow> exn + source_identity" where
  "decode_source d =
     (let loc = ''source_identity'' in
     bind_res (expect_str (jget d ''source_id'') (dot loc ''source_id'')) (\<lambda>i.
     bind_res (hash_field d ''source_hash'' loc) (\<lambda>h.
     bind_res (expect_int (jget d ''file_count'') (dot loc ''file_count'')) (\<lambda>n.
     bind_res (expect_int (jget d ''total_size_bytes'') (dot loc ''total_size_bytes'')) (\<lambda>z.
       Inr \<lparr>si_id = i, si_hash = h, si_file_count = n, si_total_size = z\<rparr>)))))"

definition decode_candidate :: "json dict \<Rightarrow> exn + candidate_identity" where
  "decode_candidate d =
     (let loc = ''candidate_identity'' in
     bind_res (expect_str (jget d ''candidate_id'') (dot loc ''candidate_id'')) (\<lambda>i.
     bind_res (hash_field d ''candidate_hash'' loc) (\<lambda>h.
     bind_res (hash_field d ''source_hash'' loc) (\<lambda>sh.
     bind_res (expect_int (jget d ''file_count'') (dot loc ''file_count'')) (\<lambda>n.
     bind_res (expect_int (jget d ''total_size_bytes'') (dot loc ''total_size_bytes'')) (\<lambda>z.
       Inr \<lparr>ca_id = i, ca_hash = h, ca_source_hash = sh, ca_file_count = n, ca_total_size = z\<rparr>))))))"

text \<open>A \<open>ValueError\<close> of the identity constructors is caught here and reported as corruption.\<close>

definition caught :: "py_error + 'a \<Rightarrow> exn + 'a" where
  "caught r = (case r of
     Inr x \<Rightarrow> Inr x
   | Inl (ValueError t) \<Rightarrow> fail (''persisted evidence manifest is malformed: '' @ t)
   | Inl (AttributeError t) \<Rightarrow> fail (''persisted evidence manifest is malformed: '' @ t)
   | Inl e \<Rightarrow> Inl (Py e))"

definition decode_oracle :: "json dict \<Rightarrow> exn + oracle_identity" where
  "decode_oracle d =
     (let loc = ''oracle_identity'' in
     bind_res (expect_str (jget d ''oracle_id'') (dot loc ''oracle_id'')) (\<lambda>i.
     bind_res (expect_str (jget d ''image_digest'') (dot loc ''image_digest'')) (\<lambda>image.
     bind_res (expect_str (jget d ''compiler_version'') (dot loc ''compiler_version'')) (\<lambda>version.
     bind_res (opt_str d ''preprocessor_version'') (\<lambda>pre.
     bind_res (opt_str d ''base_image'') (\<lambda>base.
       caught (mk_oracle_identity i image version pre base)))))))"

definition decode_each :: "(nat \<times> json \<Rightarrow> exn + 'a) \<Rightarrow> json dict \<Rightarrow> string \<Rightarrow> exn + 'a list" where
  "decode_each f payload k = bind_res (expect_list (jget payload k) k) (\<lambda>xs. traverse f (enum xs))"

definition decode_input :: "json dict \<Rightarrow> exn + input_identity" where
  "decode_input d =
     (let loc = ''controlled_input'' in
     bind_res (when_present (\<lambda>v. parse_hash v (dot loc ''stdin_hash'')) (jget d ''stdin_hash'')) (\<lambda>stdin.
     bind_res (expect_str (jget d ''input_id'') (dot loc ''input_id'')) (\<lambda>i.
     bind_res (hash_map (jget_or d ''input_files'' (JObj [])) (dot loc ''input_files'')) (\<lambda>files.
       Inr \<lparr>in_id = i, in_stdin_hash = stdin, in_files = files\<rparr>))))"

definition decode_seal :: "json dict \<Rightarrow> exn + string" where
  "decode_seal payload = (case jget payload ''sealed_hash'' of
       JStr s \<Rightarrow> if s = [] then fail ''persisted evidence manifest has no seal'' else Inr s
     | _ \<Rightarrow> fail ''persisted evidence manifest has no seal'')"

text \<open>The payload of the document. Constructing the manifest seals it.\<close>

definition decode_payload :: "json dict \<Rightarrow> exn + evidence_manifest" where
  "decode_payload payload =
     bind_res (expect_dict (jget payload ''source_identity'') ''source_identity'') (\<lambda>source_raw.
     bind_res (when_present (\<lambda>v. expect_dict v ''candidate_identity'') (jget payload ''candidate_identity''))
       (\<lambda>candidate_raw.
     bind_res (expect_dict (jget payload ''oracle_identity'') ''oracle_identity'') (\<lambda>oracle_raw.
     bind_res (expect_dict (jget payload ''controlled_input'') ''controlled_input'') (\<lambda>controlled_raw.
     bind_res (decode_each decode_environment payload ''environment_identities'') (\<lambda>environments.
     bind_res (decode_each decode_execution payload ''execution_evidence'') (\<lambda>executions.
     bind_res (decode_each decode_artifact payload ''artifact_evidence'') (\<lambda>artifacts.
     bind_res (decode_each decode_comparison payload ''comparison_evidence'') (\<lambda>comparisons.
     bind_res (decode_input controlled_raw) (\<lambda>controlled.
     bind_res (decode_seal payload) (\<lambda>seal.
     bind_res (expect_str (jget payload ''manifest_version'') ''manifest_version'') (\<lambda>version.
     bind_res (expect_str (jget payload ''run_id'') ''run_id'') (\<lambda>run_id.
     bind_res (expect_str (jget payload ''workload_id'') ''workload_id'') (\<lambda>workload_id.
     bind_res (decode_source source_raw) (\<lambda>source.
     bind_res (case candidate_raw of None \<Rightarrow> Inr None
         | Some d \<Rightarrow> bind_res (decode_candidate d) (\<lambda>c. Inr (Some c))) (\<lambda>candidate.
     bind_res (decode_oracle oracle_raw) (\<lambda>oracle.
     bind_res (decode_verdict_evidence (jget payload ''verdict_evidence'')) (\<lambda>verdict_ev.
     bind_res (expect_str (jget payload ''created_at'') ''created_at'') (\<lambda>created_at.
       let m = seal_manifest
         \<lparr>em_version = version, em_run_id = run_id, em_workload_id = workload_id,
          em_source = source, em_candidate = candidate, em_oracle = Some oracle,
          em_environments = environments, em_input = controlled, em_executions = executions,
          em_artifacts = artifacts, em_comparisons = comparisons, em_verdict = verdict_ev,
          em_created_at = created_at, em_sealed_hash = None\<rparr>
       in if str_opt_hash (em_sealed_hash m) \<noteq> seal
          then fail ''persisted evidence seal mismatch (evidence was modified)''
          else Inr m))))))))))))))))))"

definition decode_evidence_manifest :: "bytes option \<Rightarrow> exn + evidence_manifest option" where
  "decode_evidence_manifest raw =
     bind_res (decode_envelope raw schema_evidence) (\<lambda>p. case p of
       None \<Rightarrow> Inr None
     | Some payload \<Rightarrow> bind_res (decode_payload payload) (\<lambda>m. Inr (Some m)))"

subsection \<open>Verdicts\<close>

definition verdict_fields :: "string list" where
  "verdict_fields =
     [''state'', ''workload_id'', ''run_id'', ''source_hash'', ''candidate_hash'', ''oracle_id'',
      ''oracle_digest'', ''executed_check_count'', ''skipped_count'', ''unavailable_count'',
      ''supported_scope_statement'', ''evidence_manifest_hash'', ''derivation_timestamp'',
      ''differences'']"

definition encode_verdict :: "verdict \<Rightarrow> exn + bytes" where
  "encode_verdict v = encode_envelope schema_verdict (verdict_to_dict v)"

definition verdict_states :: "verdict_state list" where
  "verdict_states = [VERIFIED, PARTIAL, FAILED, UNPROVEN, UNAVAILABLE, UNSUPPORTED, ERROR]"

definition parse_verdict_state :: "string \<Rightarrow> verdict_state option" where
  "parse_verdict_state s = find (\<lambda>st. verdict_value st = s) verdict_states"

definition decode_verdict_payload :: "json dict \<Rightarrow> exn + verdict" where
  "decode_verdict_payload payload =
     (let missing = filter (\<lambda>k. k \<notin> fst ` set payload) verdict_fields in
      if missing \<noteq> [] then fail (''persisted verdict is missing fields: '' @ join '', '' missing)
      else
     bind_res (expect_str (jget payload ''state'') ''state'') (\<lambda>state_raw.
     (case parse_verdict_state state_raw of
        None \<Rightarrow> fail (''persisted verdict state '' @ repr_str state_raw @ '' is not a valid verdict state'')
      | Some state \<Rightarrow>
     bind_res (when_present (\<lambda>v. expect_str v ''candidate_hash'') (jget payload ''candidate_hash''))
       (\<lambda>candidate_hash.
     bind_res (expect_str (jget payload ''workload_id'') ''workload_id'') (\<lambda>workload_id.
     bind_res (expect_str (jget payload ''run_id'') ''run_id'') (\<lambda>run_id.
     bind_res (expect_str (jget payload ''source_hash'') ''source_hash'') (\<lambda>source_hash.
     bind_res (expect_str (jget payload ''oracle_id'') ''oracle_id'') (\<lambda>oracle_id.
     bind_res (expect_str (jget payload ''oracle_digest'') ''oracle_digest'') (\<lambda>oracle_digest.
     bind_res (expect_int (jget payload ''executed_check_count'') ''executed_check_count'') (\<lambda>executed.
     bind_res (expect_int (jget payload ''skipped_count'') ''skipped_count'') (\<lambda>skipped.
     bind_res (expect_int (jget payload ''unavailable_count'') ''unavailable_count'') (\<lambda>unavailable.
     bind_res (expect_str_or_empty (jget payload ''supported_scope_statement'')
       ''supported_scope_statement'') (\<lambda>scope.
     bind_res (expect_str (jget payload ''evidence_manifest_hash'') ''evidence_manifest_hash'') (\<lambda>h.
     bind_res (expect_str (jget payload ''derivation_timestamp'') ''derivation_timestamp'') (\<lambda>timestamp.
     bind_res (str_list (jget payload ''differences'') ''differences'') (\<lambda>differences.
       Inr \<lparr>vd_state = state, vd_workload_id = workload_id, vd_run_id = run_id,
            vd_source_hash = source_hash, vd_candidate_hash = candidate_hash,
            vd_oracle_id = oracle_id, vd_oracle_digest = oracle_digest,
            vd_executed_check_count = executed, vd_skipped_count = skipped,
            vd_unavailable_count = unavailable, vd_supported_scope_statement = scope,
            vd_evidence_manifest_hash = h, vd_derivation_timestamp = timestamp,
            vd_differences = differences\<rparr>))))))))))))))))"

definition decode_verdict :: "bytes option \<Rightarrow> exn + verdict option" where
  "decode_verdict raw =
     bind_res (decode_envelope raw schema_verdict) (\<lambda>p. case p of
       None \<Rightarrow> Inr None
     | Some payload \<Rightarrow> bind_res (decode_verdict_payload payload) (\<lambda>v. Inr (Some v)))"

subsection \<open>Reports and string lists\<close>

definition encode_report :: "json dict option \<Rightarrow> exn + bytes option" where
  "encode_report report = (case report of
     None \<Rightarrow> Inr None
   | Some d \<Rightarrow> bind_res (encode_envelope schema_report (JObj [(''report'', JObj d)])) (\<lambda>b. Inr (Some b)))"

definition decode_report :: "bytes option \<Rightarrow> exn + json dict option" where
  "decode_report raw =
     bind_res (decode_envelope raw schema_report) (\<lambda>p. case p of
       None \<Rightarrow> Inr None
     | Some payload \<Rightarrow> (case jget payload ''report'' of
         JObj d \<Rightarrow> Inr (Some d)
       | _ \<Rightarrow> fail ''persisted modernization report must be an object''))"

text \<open>\<open>encode_str_list\<close>, and \<open>decode_str_list\<close> of a text column.\<close>

definition encode_str_list :: "string list \<Rightarrow> string" where
  "encode_str_list xs = dump (j_strs xs)"

definition decode_str_list :: "string option \<Rightarrow> exn + string list" where
  "decode_str_list raw =
     (case raw of
        None \<Rightarrow> Inr []
      | Some text \<Rightarrow>
          if strip text = [] then fail ''string list column is empty''
          else (case json_loads text of
              Inl Malformed \<Rightarrow> fail ''string list column is not valid JSON''
            | Inl _ \<Rightarrow> Inl Unmodelled
            | Inr (JList items) \<Rightarrow> traverse (\<lambda>v. case v of JStr s \<Rightarrow> Inr s
                | _ \<Rightarrow> fail ''string list column entries must be strings'') items
            | Inr _ \<Rightarrow> fail ''string list column must contain a JSON array''))"

end
