(* ===== verification/JsonParseFacts.thy ===== *)
theory JsonParseFacts
  imports JsonParse
begin

text \<open>
  Facts about reading JSON: the fuel suffices on every text, and reading inverts writing. The
  round trip needs the keys of every object to be distinct, as they are in a \<open>dict\<close>, and the
  integers to stay within the digit limit of Python's integer conversion.
\<close>

subsection \<open>Fuel\<close>

lemma length_skip_space: "length (skip_space s) \<le> length s"
  by (simp add: skip_space_def length_dropWhile_le)

lemma parse_escape_length: "parse_escape s = Inr (c, r) \<Longrightarrow> length r < length s"
  by (cases s) (auto simp: Let_def split: option.splits if_splits)

lemma parse_chars_length: "parse_chars k s = Inr (t, r) \<Longrightarrow> length r < length s"
proof (induction k s arbitrary: t r rule: parse_chars.induct)
  case (3 k c cs)
  then show ?case
    by (auto simp: bind_res_eq_Inr split: if_splits prod.splits dest!: parse_escape_length)
       (metis less_SucI less_trans)+
qed auto

lemma parse_str_length: "parse_str s = Inr (t, r) \<Longrightarrow> length r < length s"
  unfolding parse_str_def by (rule parse_chars_length)

lemma parse_escape_fuel: "parse_escape s \<noteq> Inl OutOfFuel"
  by (cases s) (auto simp: Let_def split: option.splits)

lemma parse_chars_fuel: "length s < k \<Longrightarrow> parse_chars k s \<noteq> Inl OutOfFuel"
proof (induction k s rule: parse_chars.induct)
  case (3 k c cs)
  have esc: "length r < k" if "parse_escape cs = Inr (d, r)" for d r
    using parse_escape_length [OF that] 3(3) by simp
  from 3 esc show ?case
    by (auto simp: bind_res_eq_Inl parse_escape_fuel split: prod.splits)
qed auto

lemma parse_str_fuel: "parse_str s \<noteq> Inl OutOfFuel"
  unfolding parse_str_def by (rule parse_chars_fuel) simp

lemma parse_nat_length: "parse_nat s = Inr (n, r) \<Longrightarrow> length r < length s"
  by (cases s) (auto simp: parse_nat_def Let_def split: if_splits)

lemma parse_number_length: "parse_number s = Inr (v, r) \<Longrightarrow> length r < length s"
  by (cases s) (auto simp: parse_number_def bind_res_eq_Inr split: if_splits dest!: parse_nat_length)

lemma parse_number_fuel: "parse_number s \<noteq> Inl OutOfFuel"
  by (cases s) (auto simp: parse_number_def parse_nat_def Let_def bind_res_eq_Inl split: list.splits)

lemma starts_with_drop:
  "starts_with p s \<Longrightarrow> p \<noteq> [] \<Longrightarrow> length (drop (length p) s) < length s"
  by (auto simp: starts_with_iff)

lemma length_tl_skip: "length (tl (skip_space s)) \<le> length s"
  using length_skip_space [of s] by simp

lemma parse_length:
  "parse_value k s = Inr (v, r) \<Longrightarrow> length r < length s"
  "parse_items k s = Inr (vs, r) \<Longrightarrow> length r < length s"
  "parse_members k s = Inr (ps, r) \<Longrightarrow> length r < length s"
proof (induction k s and k s and k s arbitrary: v r and vs r and ps r
    rule: parse_value_parse_items_parse_members.induct)
  case (2 k s)
  show ?case
  proof (cases s)
    case (Cons c cs)
    have t: "length (tl (skip_space cs)) < length s" "length (skip_space cs) < length s"
      using length_skip_space [of cs] Cons by auto
    have lit: "length (drop n s) < length s" if "0 < n" for n using Cons that by simp
    from 2(3) Cons show ?thesis
      using 2(1) [OF Cons] 2(2) [OF Cons] t lit
      by (fastforce simp: bind_res_eq_Inr Let_def split: if_splits
          dest: parse_str_length parse_number_length)
  qed (use 2 in simp)
next
  case (4 k s)
  from 4(3) obtain x r0 where x: "parse_value k s = Inr (x, r0)"
    by (cases "parse_value k s") auto
  have l: "length r0 < length s" using 4(1) [OF x] .
  show ?case
  proof (cases "starts_with '']'' (skip_space r0)")
    case True
    then show ?thesis using 4(3) x l length_tl_skip [of r0] by (auto simp: Let_def)
  next
    case False
    with 4(3) x have c: "starts_with '','' (skip_space r0)" by (auto simp: Let_def split: if_splits)
    with False 4(3) x obtain xs where p: "parse_items k (skip_space (tl (skip_space r0))) = Inr (xs, r)"
      by (auto simp: Let_def bind_res_eq_Inr)
    have "length r < length (skip_space (tl (skip_space r0)))"
      using 4(2) [OF refl False c p] .
    with l length_skip_space [of "tl (skip_space r0)"] length_tl_skip [of r0] show ?thesis by linarith
  qed
next
  case (6 k s)
  from 6(3) have q: "starts_with [CHR 0x22] s" by (auto split: if_splits)
  with 6(3) obtain key r0 where key: "parse_str (tl s) = Inr (key, r0)"
    by (cases "parse_str (tl s)") auto
  from q key 6(3) have c: "starts_with '':'' (skip_space r0)" by (auto simp: Let_def split: if_splits)
  let ?u = "skip_space (tl (skip_space r0))"
  from q key c 6(3) obtain x r1 where x: "parse_value k ?u = Inr (x, r1)"
    by (cases "parse_value k ?u") auto
  have ls: "length r0 < length s" using parse_str_length [OF key] by simp
  have q': "\<not> \<not> starts_with [CHR 0x22] s" and c': "\<not> \<not> starts_with '':'' (skip_space r0)"
    using q c by simp_all
  have lu: "length r1 < length ?u" using 6(1) [OF q' refl c' x] .
  have l: "length r1 < length s"
    using ls lu length_skip_space [of "tl (skip_space r0)"] length_tl_skip [of r0] by linarith
  show ?case
  proof (cases "starts_with ''}'' (skip_space r1)")
    case True
    then show ?thesis using 6(3) q key c x l length_tl_skip [of r1] by (auto simp: Let_def)
  next
    case False
    with 6(3) q key c x have d: "starts_with '','' (skip_space r1)" by (auto simp: Let_def split: if_splits)
    with False 6(3) q key c x obtain ps' where
      p: "parse_members k (skip_space (tl (skip_space r1))) = Inr (ps', r)"
      by (auto simp: Let_def bind_res_eq_Inr)
    have "length r < length (skip_space (tl (skip_space r1)))"
      using 6(2) [OF q' refl c' refl False d p] .
    with l length_skip_space [of "tl (skip_space r1)"] length_tl_skip [of r1] show ?thesis by linarith
  qed
qed auto

lemma parse_fuel:
  "2 * length s + 1 \<le> k \<Longrightarrow> parse_value k s \<noteq> Inl OutOfFuel"
  "2 * length s + 2 \<le> k \<Longrightarrow> parse_items k s \<noteq> Inl OutOfFuel"
  "2 * length s + 2 \<le> k \<Longrightarrow> parse_members k s \<noteq> Inl OutOfFuel"
proof (induction k s and k s and k s rule: parse_value_parse_items_parse_members.induct)
  case (2 k s)
  show ?case
  proof (cases s)
    case (Cons c cs)
    have "2 * length (skip_space cs) + 2 \<le> k"
      using 2(3) Cons length_skip_space [of cs] by simp
    with 2(1) [OF Cons _ _ refl] 2(2) [OF Cons _ _ _ refl] Cons show ?thesis
      by (auto simp: Let_def bind_res_eq_Inl parse_str_fuel parse_number_fuel split: prod.splits)
  qed simp
next
  case (4 k s)
  have v: "parse_value k s \<noteq> Inl OutOfFuel" using 4(1,3) by simp
  have i: "parse_items k (skip_space (tl (skip_space r))) \<noteq> Inl OutOfFuel"
    if "parse_value k s = Inr (x, r)" "\<not> starts_with '']'' (skip_space r)" "starts_with '','' (skip_space r)"
    for x r
  proof -
    have "2 * length (skip_space (tl (skip_space r))) + 2 \<le> k"
      using parse_length(1) [OF that(1)] length_skip_space [of "tl (skip_space r)"] length_tl_skip [of r] 4(3)
      by linarith
    from 4(2) [OF refl that(2,3) this] show ?thesis .
  qed
  show ?case using v i by (auto simp: Let_def bind_res_eq_Inl)
next
  case (6 k s)
  show ?case
  proof (cases "starts_with [CHR 0x22] s")
    case True
    then have q: "\<not> \<not> starts_with [CHR 0x22] s" by simp
    have v: "parse_value k (skip_space (tl (skip_space r))) \<noteq> Inl OutOfFuel"
      if "parse_str (tl s) = Inr (key, r)" "starts_with '':'' (skip_space r)" for key r
    proof -
      have "2 * length (skip_space (tl (skip_space r))) + 1 \<le> k"
        using parse_str_length [OF that(1)] length_skip_space [of "tl (skip_space r)"]
          length_tl_skip [of r] 6(3) by (simp; linarith)
      from 6(1) [OF q refl _ this] that(2) show ?thesis by blast
    qed
    have m: "parse_members k (skip_space (tl (skip_space r'))) \<noteq> Inl OutOfFuel"
      if "parse_str (tl s) = Inr (key, r)" "starts_with '':'' (skip_space r)"
        "parse_value k (skip_space (tl (skip_space r))) = Inr (x, r')"
        "\<not> starts_with ''}'' (skip_space r')" "starts_with '','' (skip_space r')" for key r x r'
    proof -
      have "length r' < length (skip_space (tl (skip_space r)))" using parse_length(1) [OF that(3)] .
      then have "2 * length (skip_space (tl (skip_space r'))) + 2 \<le> k"
        using parse_str_length [OF that(1)] length_skip_space [of "tl (skip_space r)"]
          length_tl_skip [of r] length_skip_space [of "tl (skip_space r')"] length_tl_skip [of r'] 6(3)
        by (simp; linarith)
      from 6(2) [OF q refl _ refl that(4,5) this] that(2) show ?thesis by blast
    qed
    show ?thesis using True v m by (auto simp: Let_def bind_res_eq_Inl parse_str_fuel)
  qed simp
qed simp_all

text \<open>\<open>json_loads\<close> never runs out of fuel.\<close>

lemma loads_fuel: "json_loads s \<noteq> Inl OutOfFuel"
  using parse_fuel(1) [of "skip_space s"] by (auto simp: json_loads_def Let_def bind_res_eq_Inl simp del: parse_value.simps)

subsection \<open>Reading what was written: strings and numbers\<close>

lemma hex_char_props: "n < 16 \<Longrightarrow> is_hex (hex_char n) \<and> hex_val (hex_char n) = n"
proof (erule less_16_cases)
  assume "n < 10"
  then show ?thesis
    by (rule less_10_cases) (simp_all add: is_hex_def hex_val_def hex_char_def is_digit_def digit_val_def)
qed (simp_all add: is_hex_def hex_val_def hex_char_def is_digit_def)

lemma zero_hex: "is_hex (CHR ''0'')" "hex_val (CHR ''0'') = 0"
  by (simp_all add: is_hex_def hex_val_def is_digit_def digit_val_def)

lemma parse_escape_hex:
  "parse_escape ([CHR ''u'', CHR ''0'', CHR ''0''] @ hex2 c @ r) = Inr (c, r)"
proof -
  have b: "(of_char c :: nat) div 16 < 16" "(of_char c :: nat) mod 16 < 16" "(of_char c :: nat) < 256"
    using nat_of_char_less_256 [of c] by (auto simp: less_mult_imp_div_less)
  then show ?thesis
    using hex_char_props [OF b(1)] hex_char_props [OF b(2)]
    by (simp add: hex2_def Let_def simple_escape_def zero_hex)
qed

lemma parse_esc_char:
  "parse_chars (Suc k) (esc_char c @ r) = bind_res (parse_chars k r) (\<lambda>(s, r'). Inr (c # s, r'))"
proof (cases "c \<in> set [CHR 0x22, CHR 0x5C, CHR 0x0A, CHR 0x0D, CHR 0x09, CHR 0x0C, CHR 0x08]")
  case True
  then show ?thesis by (auto simp: esc_char_def simple_escape_def)
next
  case False
  show ?thesis
  proof (cases "ascii_printable c")
    case True
    with False show ?thesis by (simp add: esc_char_def ascii_printable_def)
  next
    case p: False
    have "esc_char c @ r = CHR 0x5C # ([CHR ''u'', CHR ''0'', CHR ''0''] @ hex2 c @ r)"
      using False p by (simp add: esc_char_def)
    then show ?thesis using parse_escape_hex [of c r] by (simp del: parse_escape.simps)
  qed
qed

lemma parse_chars_dump:
  "length s < k \<Longrightarrow> parse_chars k (concat (map esc_char s) @ CHR 0x22 # r) = Inr (s, r)"
proof (induction s arbitrary: k)
  case Nil
  then show ?case by (cases k) simp_all
next
  case (Cons c s)
  then obtain j where "k = Suc j" "length s < j" by (cases k) auto
  with Cons.IH [of j] show ?case using parse_esc_char [of j c] by simp
qed

lemma length_esc: "length s \<le> length (concat (map esc_char s))"
proof (induction s)
  case (Cons c s)
  have "esc_char c \<noteq> []" using hd_esc_char [of c] by auto
  then obtain x xs where "esc_char c = x # xs" by (cases "esc_char c") auto
  with Cons show ?case by simp
qed simp

lemma parse_str_dump: "parse_str (tl (dump_str s @ r)) = Inr (s, r)"
  unfolding parse_str_def dump_str_def
  using length_esc [of s] by (simp add: parse_chars_dump)

lemma show_nat_zero: "hd (show_nat n) = CHR ''0'' \<Longrightarrow> n = 0"
proof (induction n rule: show_nat.induct)
  case (1 n)
  show ?case
  proof (cases "n < 10")
    case True
    have "digit_val (hd (show_nat n)) = n"
      by (subst show_nat.simps) (simp add: True digit_char_props)
    with 1(2) show ?thesis by (simp add: digit_val_def)
  next
    case False
    have "hd (show_nat n) = hd (show_nat (n div 10))"
      by (subst show_nat.simps) (simp add: False hd_append)
    with 1 False show ?thesis by simp
  qed
qed

lemma parse_nat_show:
  assumes "delim r" "length (show_nat n) \<le> int_digit_limit"
  shows "parse_nat (show_nat n @ r) = Inr (n, r)"
proof -
  obtain c cs where s: "show_nat n = c # cs" by (cases "show_nat n") auto
  have d: "\<forall>x \<in> set (show_nat n). is_digit x" by (rule show_nat_digits)
  have r: "takeWhile is_digit r = []" "\<not> is_float_tail r"
    using assms(1) by (cases r; force simp: is_float_tail_def is_digit_def split: list.splits)+
  have tw: "takeWhile is_digit (show_nat n @ r) = show_nat n"
    using d r(1) by (simp add: takeWhile_append2)
  show ?thesis
  proof (cases "c = CHR ''0''")
    case True
    then have "n = 0" using show_nat_zero [of n] s by simp
    then have "show_nat n = [CHR ''0'']" by (simp add: show_nat.simps digit_char_def)
    with \<open>n = 0\<close> r(2) show ?thesis
      by (simp add: parse_nat_def is_digit_def digit_val_def int_digit_limit_def)
  next
    case False
    have "parse_nat (show_nat n @ r) = Inr (digits_val 0 (show_nat n), r)"
      unfolding parse_nat_def tw using s d False r(2) assms(2) tw by (simp add: Let_def)
    then show ?thesis by (simp add: digits_val_show_nat)
  qed
qed

definition int_ok :: "int \<Rightarrow> bool" where
  "int_ok i \<longleftrightarrow> length (show_nat (nat \<bar>i\<bar>)) \<le> int_digit_limit"

lemma digit_not_special: "is_digit c \<Longrightarrow>
    c \<noteq> CHR ''-'' \<and> c \<noteq> CHR ''N'' \<and> c \<noteq> CHR ''I'' \<and> c \<noteq> CHR ''n'' \<and> c \<noteq> CHR ''t'' \<and> c \<noteq> CHR ''f'' \<and>
    c \<noteq> CHR 0x22 \<and> c \<noteq> CHR ''{'' \<and> c \<noteq> CHR ''['' \<and> c \<noteq> CHR ''}'' \<and> c \<noteq> CHR '']'' \<and> \<not> is_json_space c"
  by (auto simp: is_digit_def is_json_space_def)

lemma parse_number_show:
  assumes "delim r" "int_ok i"
  shows "parse_number (show_int i @ r) = Inr (JInt i, r)"
proof (cases "i < 0")
  case True
  have "hd (show_nat (nat (- i))) \<noteq> CHR ''I''" using hd_show_nat digit_not_special by blast
  then have "\<not> starts_with ''Infinity'' (show_nat (nat (- i)) @ r)"
    by (cases "show_nat (nat (- i))") (auto simp: starts_with_def)
  with True assms show ?thesis
    by (simp add: parse_number_def show_int_def parse_nat_show int_ok_def)
next
  case False
  obtain c cs where s: "show_nat (nat i) = c # cs" by (cases "show_nat (nat i)") auto
  then have "is_digit c" using hd_show_nat [of "nat i"] by simp
  with digit_not_special [of c] s False assms parse_nat_show [of r "nat i"] show ?thesis
    by (simp add: parse_number_def show_int_def starts_with_def int_ok_def)
qed

subsection \<open>Reading what was written: values\<close>

primrec json_ok :: "json \<Rightarrow> bool" where
  "json_ok JNull = True"
| "json_ok (JBool b) = True"
| "json_ok (JInt i) = int_ok i"
| "json_ok (JStr s) = True"
| "json_ok (JList xs) = list_all id (map json_ok xs)"
| "json_ok (JObj fs) = (distinct (map fst fs) \<and> list_all snd (map (map_prod id json_ok) fs))"

lemma json_ok_list: "json_ok (JList xs) \<longleftrightarrow> (\<forall>x \<in> set xs. json_ok x)"
  by (simp add: list.pred_set)

lemma json_ok_obj: "json_ok (JObj fs) \<longleftrightarrow> distinct (map fst fs) \<and> (\<forall>p \<in> set fs. json_ok (snd p))"
  by (auto simp: list.pred_set)

declare json_ok.simps(5,6) [simp del]

lemma dict_set_new: "k \<notin> fst ` set d \<Longrightarrow> dict_set k v d = d @ [(k, v)]"
  by (induction d) auto

lemma dict_of_pairs_distinct: "distinct (map fst ps) \<Longrightarrow> dict_of_pairs ps = ps"
proof -
  have "distinct (map fst (d @ ps)) \<Longrightarrow> foldl (\<lambda>d (k, v). dict_set k v d) d ps = d @ ps"
    for d :: "(string \<times> 'v) list" and ps
  proof (induction ps arbitrary: d)
    case (Cons p ps)
    obtain k v where p: "p = (k, v)" by fastforce
    with Cons.prems have "dict_set k v d = d @ [p]" by (simp add: dict_set_new)
    with Cons.IH [of "d @ [p]"] Cons.prems p show ?case by simp
  qed simp
  from this [of "[]" ps] show "distinct (map fst ps) \<Longrightarrow> dict_of_pairs ps = ps"
    by (simp add: dict_of_pairs_def)
qed

lemma skip_space_id: "s = [] \<or> \<not> is_json_space (hd s) \<Longrightarrow> skip_space s = s"
  by (cases s) (auto simp: skip_space_def)

lemma skip_space_simps [simp]:
  "skip_space (CHR '' '' # s) = skip_space s"
  "skip_space (CHR 0x22 # s) = CHR 0x22 # s"
  "skip_space (CHR '','' # s) = CHR '','' # s" "skip_space (CHR '':'' # s) = CHR '':'' # s"
  "skip_space (CHR '']'' # s) = CHR '']'' # s" "skip_space (CHR ''}'' # s) = CHR ''}'' # s"
  "skip_space [] = []"
  by (simp_all add: skip_space_def is_json_space_def)

lemma skip_space_append: "list_all is_json_space w \<Longrightarrow> skip_space (w @ t) = skip_space t"
  by (induction w) (auto simp: skip_space_def)

lemma starts_with_char [simp]: "starts_with [c] (d # s) \<longleftrightarrow> c = d" "\<not> starts_with (c # p) []"
  by (auto simp: starts_with_def)

text \<open>A writer is given by its two separators and its string literals; \<open>dump\<close> is the one with the default
  separators and ASCII escapes.\<close>

definition member_with :: "string \<Rightarrow> (string \<Rightarrow> string) \<Rightarrow> string \<times> string \<Rightarrow> string" where
  "member_with msep literal p = literal (fst p) @ msep @ snd p"

primrec dump_with :: "string \<Rightarrow> string \<Rightarrow> (string \<Rightarrow> string) \<Rightarrow> json \<Rightarrow> string" where
  "dump_with isep msep literal JNull = ''null''"
| "dump_with isep msep literal (JBool b) = (if b then ''true'' else ''false'')"
| "dump_with isep msep literal (JInt i) = show_int i"
| "dump_with isep msep literal (JStr s) = literal s"
| "dump_with isep msep literal (JList xs) = ''['' @ join isep (map (dump_with isep msep literal) xs) @ '']''"
| "dump_with isep msep literal (JObj fs) =
     ''{'' @ join isep (map (member_with msep literal) (map (map_prod id (dump_with isep msep literal)) fs)) @ ''}''"

lemma dump_with_default: "dump_with '', '' '': '' dump_str v = dump v"
proof (induction v)
  case (JList xs)
  then have "map (dump_with '', '' '': '' dump_str) xs = map dump xs" by simp
  then show ?case by (simp only: dump_with.simps dump.simps)
next
  case (JObj fs)
  then have "map (map_prod id (dump_with '', '' '': '' dump_str)) fs = map (map_prod id dump) fs" by force
  moreover have "member_with '': '' dump_str = dump_member" by (simp add: fun_eq_iff member_with_def dump_member_def)
  ultimately show ?case by (simp only: dump_with.simps dump.simps)
qed simp_all

text \<open>What reading needs of a writer: separators that are a comma and a colon up to white space, and literals
  that are read back.\<close>

locale json_writer =
  fixes isep msep :: string and literal :: "string \<Rightarrow> string"
  assumes isep_form: "\<exists>w. isep = CHR '','' # w \<and> list_all is_json_space w"
    and msep_form: "\<exists>w. msep = CHR '':'' # w \<and> list_all is_json_space w"
    and literal_start: "\<exists>u. literal s = CHR 0x22 # u"
    and literal_read: "parse_str (tl (literal s @ r)) = Inr (s, r)"
begin

abbreviation wr :: "json \<Rightarrow> string" where
  "wr \<equiv> dump_with isep msep literal"

abbreviation member :: "string \<times> json \<Rightarrow> string" where
  "member q \<equiv> member_with msep literal (map_prod id wr q)"

definition reads :: "json \<Rightarrow> bool" where
  "reads v \<longleftrightarrow> (\<forall>k r. delim r \<longrightarrow> 2 * length (wr v @ r) + 1 \<le> k \<longrightarrow> parse_value k (wr v @ r) = Inr (v, r))"

lemma readsD:
  "reads v \<Longrightarrow> delim r \<Longrightarrow> 2 * length (wr v @ r) + 1 \<le> k \<Longrightarrow> parse_value k (wr v @ r) = Inr (v, r)"
  unfolding reads_def by blast

lemma wr_start: "\<exists>c cs. wr v = c # cs \<and> \<not> is_json_space c \<and> c \<noteq> CHR '']''"
proof (cases v)
  case (JInt i)
  obtain c cs where "show_int i = c # cs" "is_digit c \<or> c = CHR ''-''" using show_int_start by blast
  moreover from this(2) have "\<not> is_json_space c \<and> c \<noteq> CHR '']''"
    by (elim disjE) (use digit_not_special [of c] in \<open>simp_all add: is_json_space_def\<close>)
  ultimately show ?thesis using JInt by simp
next
  case (JStr s)
  then show ?thesis using literal_start [of s] by (auto simp: is_json_space_def)
qed (auto simp: is_json_space_def)

lemma skip_space_wr: "skip_space (wr v @ r) = wr v @ r"
  using wr_start [of v] by (auto simp: skip_space_id)

lemma skip_space_items: "skip_space (join isep (map wr (x # xs)) @ r) = join isep (map wr (x # xs)) @ r"
  by (cases xs) (simp_all add: skip_space_wr)

lemma member_start: "\<exists>u. join isep (map member (p # ps)) @ r = CHR 0x22 # u"
  using literal_start [of "fst p"] by (cases ps) (auto simp: member_with_def)

lemma after_isep: "starts_with '','' (isep @ t)" "skip_space (isep @ t) = isep @ t"
  "skip_space (tl (isep @ t)) = skip_space t" "delim (isep @ t)" "\<not> starts_with '']'' (isep @ t)"
  "\<not> starts_with ''}'' (isep @ t)" "\<exists>n. length isep = Suc n"
  using isep_form by (auto simp: skip_space_append)

lemma after_msep: "starts_with '':'' (msep @ t)" "skip_space (msep @ t) = msep @ t"
  "skip_space (tl (msep @ t)) = skip_space t"
  using msep_form by (auto simp: skip_space_append)

lemma parse_items_wr:
  "\<forall>v \<in> set (x # xs). reads v \<Longrightarrow>
   2 * length (join isep (map wr (x # xs)) @ CHR '']'' # r) + 2 \<le> k \<Longrightarrow>
   parse_items k (join isep (map wr (x # xs)) @ CHR '']'' # r) = Inr (x # xs, r)"
proof (induction xs arbitrary: x k)
  case Nil
  then obtain j where k: "k = Suc j" by (cases k) auto
  have "parse_value j (wr x @ CHR '']'' # r) = Inr (x, CHR '']'' # r)"
    using Nil k by (intro readsD) auto
  then show ?case by (simp add: k)
next
  case (Cons y ys)
  then obtain j where k: "k = Suc j" by (cases k) auto
  obtain n where n: "length isep = Suc n" using after_isep(7) by blast
  let ?t = "join isep (map wr (y # ys)) @ CHR '']'' # r"
  have v: "parse_value j (wr x @ isep @ ?t) = Inr (x, isep @ ?t)"
    using Cons.prems k after_isep(4) by (intro readsD) auto
  have i: "parse_items j ?t = Inr (y # ys, r)"
    using Cons.prems k n by (intro Cons.IH) auto
  have e: "join isep (map wr (x # y # ys)) @ CHR '']'' # r = wr x @ isep @ ?t" by simp
  show ?case unfolding e k parse_items.simps v bind_res_simps Let_def split_conv
    using i skip_space_items [of y ys] by (simp only: after_isep if_False if_True bind_res_simps split_conv)
qed

lemma parse_members_head:
  "parse_members (Suc j) (literal key @ msep @ t) = bind_res (parse_value j (skip_space t)) (\<lambda>(x, r').
     let t' = skip_space r' in
     if starts_with ''}'' t' then Inr ([(key, x)], tl t')
     else if starts_with '','' t'
     then bind_res (parse_members j (skip_space (tl t'))) (\<lambda>(ps, r''). Inr ((key, x) # ps, r''))
     else Inl Malformed)"
proof -
  have q: "starts_with [CHR 0x22] (literal key @ msep @ t)" using literal_start [of key] by auto
  show ?thesis unfolding parse_members.simps literal_read bind_res_simps Let_def split_conv
    using q by (simp only: after_msep if_False if_True not_True_eq_False bind_res_simps split_conv)
qed

lemma parse_members_wr:
  "\<forall>q \<in> set (p # ps). reads (snd q) \<Longrightarrow>
   2 * length (join isep (map member (p # ps)) @ CHR ''}'' # r) + 2 \<le> k \<Longrightarrow>
   parse_members k (join isep (map member (p # ps)) @ CHR ''}'' # r) = Inr (p # ps, r)"
proof (induction ps arbitrary: p k)
  case Nil
  then obtain j where k: "k = Suc j" by (cases k) auto
  have "parse_value j (wr (snd p) @ CHR ''}'' # r) = Inr (snd p, CHR ''}'' # r)"
    using Nil k by (intro readsD) (auto simp: member_with_def)
  moreover have "join isep (map member [p]) @ CHR ''}'' # r = literal (fst p) @ msep @ wr (snd p) @ CHR ''}'' # r"
    by (simp add: member_with_def)
  ultimately show ?case by (simp only: k parse_members_head skip_space_wr bind_res_simps) (simp add: k)
next
  case (Cons p' ps)
  then obtain j where k: "k = Suc j" by (cases k) auto
  obtain n where n: "length isep = Suc n" using after_isep(7) by blast
  let ?u = "join isep (map member (p' # ps)) @ CHR ''}'' # r"
  have v: "parse_value j (wr (snd p) @ isep @ ?u) = Inr (snd p, isep @ ?u)"
    using Cons.prems k after_isep(4) by (intro readsD) (auto simp: member_with_def)
  have m: "parse_members j ?u = Inr (p' # ps, r)"
    using Cons.prems k n by (intro Cons.IH) auto
  obtain x where "?u = CHR 0x22 # x" using member_start by blast
  then have u: "skip_space ?u = ?u" by simp
  have e: "join isep (map member (p # p' # ps)) @ CHR ''}'' # r = literal (fst p) @ msep @ wr (snd p) @ isep @ ?u"
    by (simp add: member_with_def)
  show ?case unfolding e k parse_members_head skip_space_wr v bind_res_simps Let_def split_conv
    using m u by (simp only: after_isep if_False if_True bind_res_simps split_conv prod.collapse)
qed

lemma reads_wr: "json_ok v \<Longrightarrow> reads v"
proof (induction v)
  case (JInt i)
  show ?case unfolding reads_def
  proof (intro allI impI)
    fix k r assume d: "delim r" and k: "2 * length (wr (JInt i) @ r) + 1 \<le> k"
    obtain j where j: "k = Suc j" using k by (cases k) auto
    obtain c cs where c: "show_int i = c # cs" "is_digit c \<or> c = CHR ''-''"
      using show_int_start by blast
    have "c \<noteq> CHR 0x22 \<and> c \<noteq> CHR ''{'' \<and> c \<noteq> CHR ''['' \<and> c \<noteq> CHR ''n'' \<and> c \<noteq> CHR ''t'' \<and> c \<noteq> CHR ''f''"
      using c(2) digit_not_special [of c] by (elim disjE) simp_all
    with c parse_number_show [OF d, of i] JInt show "parse_value k (wr (JInt i) @ r) = Inr (JInt i, r)"
      by (simp add: j starts_with_def)
  qed
next
  case (JStr s)
  show ?case unfolding reads_def
  proof (intro allI impI)
    fix k r assume k: "2 * length (wr (JStr s) @ r) + 1 \<le> k"
    obtain j where j: "k = Suc j" using k by (cases k) auto
    obtain u where u: "literal s @ r = CHR 0x22 # u" using literal_start [of s] by auto
    with literal_read [of s r] show "parse_value k (wr (JStr s) @ r) = Inr (JStr s, r)"
      by (simp add: j)
  qed
next
  case (JList xs)
  then have ih: "\<forall>v \<in> set xs. reads v" by (simp add: json_ok_list)
  show ?case unfolding reads_def
  proof (intro allI impI)
    fix k r assume k: "2 * length (wr (JList xs) @ r) + 1 \<le> k"
    obtain j where j: "k = Suc j" using k by (cases k) auto
    show "parse_value k (wr (JList xs) @ r) = Inr (JList xs, r)"
    proof (cases xs)
      case Nil then show ?thesis by (simp add: j)
    next
      case (Cons x ys)
      let ?t = "join isep (map wr (x # ys)) @ CHR '']'' # r"
      have i: "parse_items j ?t = Inr (x # ys, r)"
        using ih Cons k j by (intro parse_items_wr) auto
      obtain c cs where "?t = c # cs" "c \<noteq> CHR '']''" using wr_start [of x] by (cases ys) auto
      then have "\<not> starts_with '']'' ?t" by simp
      with i skip_space_items [of x ys] show ?thesis by (simp add: j Cons)
    qed
  qed
next
  case (JObj fs)
  then have ih: "\<forall>p \<in> set fs. reads (snd p)" and d: "distinct (map fst fs)"
    by (auto simp: json_ok_obj)
  show ?case unfolding reads_def
  proof (intro allI impI)
    fix k r assume k: "2 * length (wr (JObj fs) @ r) + 1 \<le> k"
    obtain j where j: "k = Suc j" using k by (cases k) auto
    show "parse_value k (wr (JObj fs) @ r) = Inr (JObj fs, r)"
    proof (cases fs)
      case Nil then show ?thesis by (simp add: j)
    next
      case (Cons p ps)
      let ?t = "join isep (map member (p # ps)) @ CHR ''}'' # r"
      have i: "parse_members j ?t = Inr (p # ps, r)"
        using ih Cons k j by (intro parse_members_wr) (auto simp: comp_def)
      obtain u where u: "?t = CHR 0x22 # u" using member_start by blast
      have "\<not> starts_with ''}'' ?t" "skip_space ?t = ?t" unfolding u by simp_all
      with i dict_of_pairs_distinct [OF d] show ?thesis
        by (simp add: j Cons comp_def)
    qed
  qed
next
  case (JBool b)
  have "parse_value (Suc j) (wr (JBool b) @ r) = Inr (JBool b, r)" for j r
    by (simp add: starts_with_def)
  then show ?case unfolding reads_def by (metis Suc_le_D Suc_eq_plus1 add_leD2 One_nat_def)
next
  case JNull
  have "parse_value (Suc j) (wr JNull @ r) = Inr (JNull, r)" for j r
    by (simp add: starts_with_def)
  then show ?case unfolding reads_def by (metis Suc_le_D Suc_eq_plus1 add_leD2 One_nat_def)
qed

lemma loads_wr: "json_ok v \<Longrightarrow> json_loads (wr v) = Inr v"
  using readsD [OF reads_wr, of v "[]" "2 * length (wr v) + 1"] skip_space_wr [of v "[]"]
  by (simp add: json_loads_def Let_def)

end

interpretation default_writer: json_writer "'', ''" "'': ''" dump_str
proof unfold_locales
  show "parse_str (tl (dump_str s @ r)) = Inr (s, r)" for s r by (rule parse_str_dump)
qed (auto simp: is_json_space_def dump_str_def)

lemma loads_dump: "json_ok v \<Longrightarrow> json_loads (dump v) = Inr v"
  using default_writer.loads_wr [of v] by (simp add: dump_with_default)

subsection \<open>Sorted keys and UTF-8\<close>

lemma json_ok_sort_keys: "json_ok (sort_keys v) = json_ok v"
proof (induction v)
  case (JObj fs)
  have "map fst (map (map_prod id sort_keys) fs) = map fst fs" by simp
  moreover have "distinct (map fst (sort_key fst xs)) = distinct (map fst xs)" for xs :: "(string \<times> json) list"
    by (simp add: distinct_map)
  ultimately show ?case
    using JObj by (force simp: json_ok_obj)
qed (simp_all add: json_ok_list)

lemma loads_dumps: "json_ok v \<Longrightarrow> json_loads (json_dumps v) = Inr (sort_keys v)"
  unfolding json_dumps_def by (rule loads_dump) (simp add: json_ok_sort_keys)

lemma utf8_decode_char: "utf8_decode (utf8_char c @ r) = bind_res (utf8_decode r) (\<lambda>s. Inr (c # s))"
proof -
  let ?n = "of_char c :: nat"
  have n: "?n < 256" by (rule nat_of_char_less_256)
  show ?thesis
  proof (cases "?n < 128")
    case False
    have hi': "of_char (char_of (192 + k div 64) :: char) = 192 + k div 64"
      "of_char (char_of (128 + k mod 64) :: char) = 128 + k mod 64" if "k < 256" for k :: nat
      using that by (simp_all add: less_mult_imp_div_less)
    note hi = hi' [OF n]
    define c1 c2 :: char where "c1 = char_of (192 + ?n div 64)" and "c2 = char_of (128 + ?n mod 64)"
    have c: "utf8_char c = [c1, c2]"
      using False by (simp add: utf8_char_def Let_def c1_def c2_def)
    have n1: "of_char c1 = 192 + ?n div 64" and n2: "of_char c2 = 128 + ?n mod 64"
      using hi by (simp_all add: c1_def c2_def)
    have d': "k div 64 = 2 \<or> k div 64 = 3" if "\<not> k < 128" "k < 256" for k :: nat
    proof -
      have "k div 64 < 4" using that(2) by (simp add: less_mult_imp_div_less)
      moreover have "128 div 64 \<le> k div 64" using that(1) by (intro div_le_mono) simp
      ultimately show ?thesis by linarith
    qed
    note d = d' [OF False n]
    have cont: "is_continuation c2" by (simp add: is_continuation_def n2)
    have val: "char_of (64 * (of_char c1 - 192) + (of_char c2 - 128 :: nat)) = c"
      unfolding n1 n2 by simp
    have "of_char c1 = (194 :: nat) \<or> of_char c1 = (195 :: nat)" using d n1 by auto
    then show ?thesis unfolding c using cont val by (auto simp: Let_def)
  qed (simp add: utf8_char_def Let_def)
qed

lemma utf8_decode_encode: "utf8_decode (utf8_encode s) = Inr s"
proof (induction s)
  case (Cons c s)
  then show ?case using utf8_decode_char [of c "utf8_encode s"] by (simp add: utf8_encode_def)
qed (simp add: utf8_encode_def)

end
