(* ===== verification/SerializationFacts.thy ===== *)
theory SerializationFacts
  imports Serialization JsonParseFacts EvidenceGraph Samples
begin

text \<open>
  The codec's promises: a storable manifest and a storable verdict survive the round trip through
  their JSON documents, up to the order of dictionary keys (\<open>stored_form\<close>), and whatever is decoded
  carries a seal that matches its evidence. The collection \<open>reading\<close> holds what each field reader
  answers on the text written for a field.
\<close>

named_theorems reading \<open>a field reader applied to what the encoder wrote\<close>

subsection \<open>Looking up sorted objects\<close>

definition sorted_dict :: "json dict \<Rightarrow> json dict" where
  "sorted_dict d = sort_key fst (map (map_prod id sort_keys) d)"

lemma sort_keys_JObj: "sort_keys (JObj d) = JObj (sorted_dict d)"
  by (simp add: sorted_dict_def)

lemma jget_or_sorted:
  assumes "distinct (map fst d)"
  shows "jget_or (sorted_dict d) k (sort_keys x) = sort_keys (jget_or d k x)"
proof -
  have "distinct (map fst (map (map_prod id sort_keys) d))" using assms by simp
  from map_of_sort_key [OF this, of k] show ?thesis
    by (simp add: jget_or_def sorted_dict_def map_of_map_prod split: option.splits)
qed

lemma jget_sorted: "distinct (map fst d) \<Longrightarrow> jget (sorted_dict d) k = sort_keys (jget d k)"
  using jget_or_sorted [of d k JNull] by (simp add: jget_def)

lemma jget_or_sorted_str: "distinct (map fst d) \<Longrightarrow>
    jget_or (sorted_dict d) k (JStr s) = sort_keys (jget_or d k (JStr s))"
  using jget_or_sorted [of d k "JStr s"] by simp

lemma jget_or_sorted_obj: "distinct (map fst d) \<Longrightarrow>
    jget_or (sorted_dict d) k (JObj []) = sort_keys (jget_or d k (JObj []))"
  using jget_or_sorted [of d k "JObj []"] by simp

lemma jget_Cons: "jget ((k', v) # d) k = (if k' = k then v else jget d k)"
  "jget [] k = JNull"
  by (simp_all add: jget_def jget_or_def)

lemma jget_or_Cons: "jget_or ((k', v) # d) k x = (if k' = k then v else jget_or d k x)"
  "jget_or [] k x = x"
  by (simp_all add: jget_or_def)

lemma keys_sorted_dict: "fst ` set (sorted_dict d) = set (map fst d)"
  by (simp add: sorted_dict_def image_image)

subsection \<open>Field readers on written fields\<close>

lemma expect_str_JStr [reading]: "s \<noteq> [] \<Longrightarrow> expect_str (JStr s) loc = Inr s"
  by (simp add: expect_text_def)

lemma expect_str_or_empty_JStr [reading]: "expect_str_or_empty (JStr s) loc = Inr s"
  by (simp add: expect_text_def)

lemma expect_simps [reading]:
  "expect_int (JInt i) loc = Inr i" "expect_bool (JBool b) loc = Inr b"
  "expect_dict (JObj d) loc = Inr d" "expect_list (JList xs) loc = Inr xs"
  by (simp_all add: expect_int_def expect_bool_def expect_dict_def expect_list_def)

lemma sort_keys_atoms [reading]:
  "sort_keys (j_hash h) = j_hash h" "sort_keys (j_strs xs) = j_strs xs"
  by (simp_all add: j_hash_def j_strs_def)

lemma sort_keys_j_opt: "(\<And>x. f x \<noteq> JNull) \<Longrightarrow> sort_keys (j_opt f v) = j_opt (\<lambda>x. sort_keys (f x)) v"
  by (simp add: j_opt_def split: option.split)

lemma sort_keys_j_opt_atoms [reading]:
  "sort_keys (j_opt JStr s) = j_opt JStr s" "sort_keys (j_opt JInt i) = j_opt JInt i"
  "sort_keys (j_opt j_hash h) = j_opt j_hash h"
  by (simp_all add: j_opt_def j_hash_def split: option.split)

definition ok_hash :: "content_hash \<Rightarrow> bool" where
  "ok_hash h = is_sha256_digest (digest h)"

lemma parse_hash_j_hash [reading]: "ok_hash h \<Longrightarrow> parse_hash (j_hash h) loc = Inr h"
  by (cases h) (simp add: parse_hash_def j_hash_def str_hash_def ok_hash_def expect_text_def
      starts_with_def Let_def)

lemma j_hash_not_null [simp]: "j_hash h \<noteq> JNull"
  by (simp add: j_hash_def)

lemma when_present_j_opt:
  assumes "\<And>x. v = Some x \<Longrightarrow> g x \<noteq> JNull \<and> f (g x) = Inr (h x)"
  shows "when_present f (j_opt g v) = Inr (map_option h v)"
  using assms by (cases v) (auto simp: when_present_def j_opt_def)

lemma when_present_atoms [reading]:
  "s \<noteq> Some [] \<Longrightarrow> when_present (\<lambda>v. expect_str v loc) (j_opt JStr s) = Inr s"
  "when_present (\<lambda>v. expect_int v loc) (j_opt JInt i) = Inr i"
  "(case h of None \<Rightarrow> True | Some x \<Rightarrow> ok_hash x) \<Longrightarrow>
     when_present (\<lambda>v. parse_hash v loc) (j_opt j_hash h) = Inr h"
  "when_present f JNull = Inr None"
  subgoal by (cases s) (simp_all add: when_present_def j_opt_def reading)
  subgoal by (cases i) (simp_all add: when_present_def j_opt_def reading)
  subgoal by (cases h) (simp_all add: when_present_def j_opt_def reading)
  subgoal by (simp add: when_present_def)
  done

lemma str_list_j_strs [reading]: "str_list (j_strs xs) loc = Inr xs"
proof -
  have "traverse (\<lambda>item. case item of JStr s \<Rightarrow> Inr s
      | _ \<Rightarrow> fail (loc @ '' entries must be strings'')) (map JStr xs) = Inr xs"
    by (induction xs) simp_all
  then show ?thesis by (simp add: str_list_def j_strs_def expect_list_def)
qed

lemma sort_keys_j_dict: "sort_keys (j_dict f d) = JObj (map (map_prod id (\<lambda>x. sort_keys (f x))) (sort_key fst d))"
  unfolding j_dict_def sort_keys_JObj_map by (simp add: comp_def)

lemma hash_map_j_dict [reading]:
  assumes "\<forall>p \<in> set d. ok_hash (snd p)"
  shows "hash_map (sort_keys (j_dict j_hash d)) loc = Inr (sort_key fst d)"
proof -
  have "traverse (\<lambda>(k, item). bind_res (parse_hash item (loc @ ''.'' @ k)) (\<lambda>h. Inr (k, h)))
      (map (map_prod id j_hash) xs) = Inr xs" if "\<forall>p \<in> set xs. ok_hash (snd p)" for xs
    using that by (induction xs) (auto simp: reading)
  then show ?thesis
    using assms by (simp add: hash_map_def sort_keys_j_dict expect_dict_def reading)
qed

lemma str_dict_j_dict [reading]:
  "bind_res (expect_dict (sort_keys (j_dict JStr d)) loc) (str_dict msg) = Inr (sort_key fst d)"
proof -
  have "str_dict msg (map (map_prod id JStr) xs) = Inr xs" for xs
    unfolding str_dict_def by (induction xs) auto
  then show ?thesis by (simp add: sort_keys_j_dict expect_dict_def)
qed

lemma decode_variables_j_dict [reading]:
  "decode_variables (sort_keys (j_dict JStr d)) loc = Inr (sort_key fst d)"
proof -
  have "traverse (\<lambda>(k, x). case x of JStr s \<Rightarrow> Inr (k, s) | _ \<Rightarrow> Inl Unmodelled)
      (map (map_prod id JStr) xs) = Inr xs" for xs
    by (induction xs) auto
  then show ?thesis by (simp add: decode_variables_def sort_keys_j_dict expect_dict_def)
qed

subsection \<open>Records\<close>

text \<open>The fields an encoder accepts but a decoder would refuse are excluded by these predicates.\<close>

abbreviation ok_opt :: "string option \<Rightarrow> bool" where
  "ok_opt s \<equiv> s \<noteq> Some []"

abbreviation ok_hash_opt :: "content_hash option \<Rightarrow> bool" where
  "ok_hash_opt h \<equiv> (case h of None \<Rightarrow> True | Some x \<Rightarrow> ok_hash x)"

abbreviation ok_hash_dict :: "content_hash dict \<Rightarrow> bool" where
  "ok_hash_dict d \<equiv> (\<forall>p \<in> set d. ok_hash (snd p))"

definition storable_source :: "source_identity \<Rightarrow> bool" where
  "storable_source s \<longleftrightarrow> si_id s \<noteq> [] \<and> ok_hash (si_hash s)"

definition storable_candidate :: "candidate_identity \<Rightarrow> bool" where
  "storable_candidate c \<longleftrightarrow> ca_id c \<noteq> [] \<and> ok_hash (ca_hash c) \<and> ok_hash (ca_source_hash c)"

definition storable_oracle :: "oracle_identity \<Rightarrow> bool" where
  "storable_oracle oi \<longleftrightarrow> or_id oi \<noteq> [] \<and> starts_with ''sha256:'' (or_image_digest oi)
     \<and> or_compiler_version oi \<noteq> [] \<and> ok_opt (or_preprocessor_version oi) \<and> ok_opt (or_base_image oi)"

definition storable_environment :: "environment_identity \<Rightarrow> bool" where
  "storable_environment e \<longleftrightarrow> env_runtime_id e \<noteq> [] \<and> ok_opt (env_java_version e)
     \<and> ok_opt (env_cobol_compiler e) \<and> ok_opt (env_os_base e) \<and> env_network_policy e \<noteq> []"

definition storable_input :: "input_identity \<Rightarrow> bool" where
  "storable_input i \<longleftrightarrow> in_id i \<noteq> [] \<and> ok_hash_opt (in_stdin_hash i) \<and> ok_hash_dict (in_files i)"

definition storable_execution :: "execution_evidence \<Rightarrow> bool" where
  "storable_execution e \<longleftrightarrow>
     ex_id e \<noteq> [] \<and> ex_run_id e \<noteq> [] \<and> ex_runtime_id e \<noteq> [] \<and> ex_termination_status e \<noteq> []
     \<and> ex_phase e \<noteq> [] \<and> ok_opt (ex_workload_id e) \<and> ok_opt (ex_image_digest e)
     \<and> ok_hash (ex_stdout_hash e) \<and> ok_hash (ex_stderr_hash e) \<and> ok_hash (ex_source_before e)
     \<and> ok_hash (ex_source_after e) \<and> ok_hash_dict (ex_generated_files e)"

definition storable_artifact :: "artifact_evidence \<Rightarrow> bool" where
  "storable_artifact a \<longleftrightarrow>
     ai_id (ae_artifact a) \<noteq> [] \<and> ai_type (ae_artifact a) \<in> set valid_artifact_types
     \<and> ai_role (ae_artifact a) \<in> {''ORACLE'', ''CANDIDATE''} \<and> ok_hash (ai_content_hash (ae_artifact a))
     \<and> ae_execution_id a \<noteq> [] \<and> ok_hash (ae_content_hash a)"

definition storable_comparison :: "comparison_evidence \<Rightarrow> bool" where
  "storable_comparison c \<longleftrightarrow>
     ce_id c \<noteq> [] \<and> ce_run_id c \<noteq> [] \<and> ce_comparator_id c \<noteq> [] \<and> ce_oracle_artifact_id c \<noteq> []
     \<and> ce_candidate_artifact_id c \<noteq> [] \<and> ce_artifact_type c \<noteq> [] \<and> ce_result c \<noteq> []
     \<and> ce_ordering_applied c \<noteq> [] \<and> ok_opt (ce_workload_id c) \<and> ok_hash (ce_content_hash c)
     \<and> (\<forall>v \<in> set (ce_field_level_results c). \<exists>d. v = JObj d)"

definition storable_verdict_evidence :: "verdict_evidence \<Rightarrow> bool" where
  "storable_verdict_evidence v \<longleftrightarrow>
     ve_run_id v \<noteq> [] \<and> ve_workload_id v \<noteq> [] \<and> ve_verdict_state v \<noteq> []
     \<and> ok_hash (ve_evidence_manifest_hash v) \<and> ve_derivation_timestamp v \<noteq> []"

lemmas jget_eval = jget_sorted jget_or_sorted_str jget_or_sorted_obj jget_Cons jget_or_Cons

lemmas field_defs = hash_field_def opt_str_def Let_def

lemma when_present_opt_str [reading]:
  "ok_opt s \<Longrightarrow> when_present (\<lambda>v. expect_str v loc) (sort_keys (j_opt JStr s)) = Inr s"
  by (simp add: reading)

lemma decode_source_stored:
  "storable_source s \<Longrightarrow> sort_keys (stored_source s) = JObj d \<Longrightarrow> decode_source d = Inr s"
  unfolding stored_source_def sort_keys_JObj decode_source_def
  by (cases s) (auto simp: storable_source_def jget_eval reading field_defs)

lemma decode_candidate_stored:
  "storable_candidate c \<Longrightarrow> sort_keys (stored_candidate c) = JObj d \<Longrightarrow> decode_candidate d = Inr c"
  unfolding stored_candidate_def sort_keys_JObj decode_candidate_def
  by (cases c) (auto simp: storable_candidate_def jget_eval reading field_defs)

lemma decode_oracle_stored:
  assumes "storable_oracle oi" "sort_keys (stored_oracle oi) = JObj d"
  shows "decode_oracle d = Inr oi"
proof -
  have "or_image_digest oi \<noteq> []"
    using assms(1) by (auto simp: storable_oracle_def starts_with_def)
  then show ?thesis
    using assms unfolding stored_oracle_def sort_keys_JObj decode_oracle_def
    by (cases oi) (auto simp: storable_oracle_def jget_eval reading field_defs mk_oracle_identity_def
        caught_def)
qed

lemma decode_environment_stored:
  "storable_environment e \<Longrightarrow>
     decode_environment (i, sort_keys (stored_environment e)) = Inr (covered_environment e)"
  unfolding stored_environment_def sort_keys_JObj decode_environment_def
  by (cases e) (simp add: storable_environment_def jget_eval reading field_defs covered_environment_def)

lemma decode_input_stored:
  "storable_input i \<Longrightarrow> sort_keys (stored_input i) = JObj d \<Longrightarrow> decode_input d = Inr (covered_input i)"
  unfolding stored_input_def sort_keys_JObj decode_input_def
  by (cases i) (auto simp: storable_input_def jget_eval reading field_defs covered_input_def)

lemma decode_artifact_stored:
  assumes "storable_artifact a"
  shows "decode_artifact (i, sort_keys (stored_artifact a)) = Inr a"
proof -
  have "ai_type (ae_artifact a) \<noteq> []" "ai_role (ae_artifact a) \<noteq> []"
    using assms by (auto simp: storable_artifact_def valid_artifact_types_def unobserved_effect_types_def)
  then show ?thesis
    using assms unfolding stored_artifact_def sort_keys_JObj decode_artifact_def
    by (cases a; cases "ae_artifact a")
       (simp add: storable_artifact_def jget_eval sort_keys_JObj reading field_defs
          mk_artifact_identity_def lift_py_def del: sort_keys.simps(6))
qed

lemma decode_verdict_evidence_stored:
  "(case v of None \<Rightarrow> True | Some x \<Rightarrow> storable_verdict_evidence x) \<Longrightarrow>
     decode_verdict_evidence (sort_keys (j_opt verdict_evidence_to_dict v)) = Inr v"
proof (cases v)
  case (Some x)
  assume "case v of None \<Rightarrow> True | Some x \<Rightarrow> storable_verdict_evidence x"
  with Some have st: "storable_verdict_evidence x" by simp
  then show ?thesis
    unfolding Some j_opt_def option.case verdict_evidence_to_dict_def sort_keys_JObj
      decode_verdict_evidence_def
    by (cases x) (simp add: storable_verdict_evidence_def when_present_def jget_eval reading field_defs)
qed (simp add: decode_verdict_evidence_def when_present_def j_opt_def)

lemma sort_keys_diagnostics [reading]:
  "when_present (\<lambda>v. bind_res (expect_dict v loc) (str_dict msg)) (sort_keys (j_dict JStr d))
     = Inr (Some (sort_key fst d))"
proof -
  have "sort_keys (j_dict JStr d) \<noteq> JNull" by (simp add: sort_keys_j_dict)
  then show ?thesis by (simp add: when_present_def reading)
qed

text \<open>The 21 fields of an execution, with their distinctness proved once.\<close>

definition execution_fields :: "execution_evidence \<Rightarrow> json dict" where
  "execution_fields e = (case execution_to_dict e of JObj d \<Rightarrow> d | _ \<Rightarrow> [])"

lemma execution_fields: "execution_to_dict e = JObj (execution_fields e)"
  by (simp add: execution_fields_def execution_to_dict_def)

lemma distinct_execution_fields: "distinct (map fst (execution_fields e))"
  by (cases "ex_compilation_diagnostics e") (simp_all add: execution_fields_def execution_to_dict_def)

lemma execution_field:
  "jget (execution_fields e) ''execution_id'' = JStr (ex_id e)"
  "jget (execution_fields e) ''run_id'' = JStr (ex_run_id e)"
  "jget (execution_fields e) ''runtime_id'' = JStr (ex_runtime_id e)"
  "jget (execution_fields e) ''command'' = JStr (ex_command e)"
  "jget (execution_fields e) ''working_directory'' = JStr (ex_working_directory e)"
  "jget (execution_fields e) ''environment_variables'' = j_dict JStr (ex_environment_variables e)"
  "jget (execution_fields e) ''start_time'' = JStr (ex_start_time e)"
  "jget (execution_fields e) ''end_time'' = JStr (ex_end_time e)"
  "jget (execution_fields e) ''exit_code'' = j_opt JInt (ex_exit_code e)"
  "jget (execution_fields e) ''stdout_hash'' = j_hash (ex_stdout_hash e)"
  "jget (execution_fields e) ''stderr_hash'' = j_hash (ex_stderr_hash e)"
  "jget_or (execution_fields e) ''generated_files'' x = j_dict j_hash (ex_generated_files e)"
  "jget (execution_fields e) ''source_tree_hash_before'' = j_hash (ex_source_before e)"
  "jget (execution_fields e) ''source_tree_hash_after'' = j_hash (ex_source_after e)"
  "jget (execution_fields e) ''termination_status'' = JStr (ex_termination_status e)"
  "jget (execution_fields e) ''timeout_applied'' = JBool (ex_timeout_applied e)"
  "jget (execution_fields e) ''timeout_duration'' = j_opt JInt (ex_timeout_duration e)"
  "jget (execution_fields e) ''workload_id'' = j_opt JStr (ex_workload_id e)"
  "jget (execution_fields e) ''image_digest'' = j_opt JStr (ex_image_digest e)"
  "jget_or (execution_fields e) ''execution_phase'' x = JStr (ex_phase e)"
  "jget (execution_fields e) ''compilation_diagnostics''
     = (case ex_compilation_diagnostics e of None \<Rightarrow> JNull | Some d \<Rightarrow> j_dict JStr d)"
  by (simp_all add: execution_fields_def execution_to_dict_def jget_Cons jget_or_Cons split: option.split)

lemma decode_execution_stored:
  assumes "storable_execution e"
  shows "decode_execution (i, sort_keys (execution_to_dict e)) = Inr (covered_execution e)"
proof -
  note look = jget_sorted [OF distinct_execution_fields] jget_or_sorted_str [OF distinct_execution_fields]
    jget_or_sorted_obj [OF distinct_execution_fields] execution_field
  show ?thesis
    using assms unfolding execution_fields sort_keys_JObj decode_execution_def
    by (cases e) (simp add: storable_execution_def look reading field_defs covered_execution_def
        split: option.split)
qed

lemma expect_entries:
  "\<forall>v \<in> set xs. \<exists>d. v = JObj d \<Longrightarrow>
     \<exists>ys. traverse (\<lambda>v. expect_dict v loc) (map sort_keys xs) = Inr ys"
  by (induction xs) (auto simp: expect_dict_def)

lemma decode_comparison_stored:
  assumes "storable_comparison c"
  shows "decode_comparison (i, sort_keys (stored_comparison c)) = Inr (covered_comparison c)"
proof -
  obtain ys where "traverse (\<lambda>v. expect_dict v (at_index ''comparison_evidence'' i @ ''.field_level_results entry''))
      (map sort_keys (ce_field_level_results c)) = Inr ys"
    using expect_entries assms by (fastforce simp: storable_comparison_def)
  then show ?thesis
    using assms unfolding stored_comparison_def comparison_to_dict_def json.case decode_comparison_def
    by (cases c) (simp add: sort_keys_JObj storable_comparison_def jget_eval reading field_defs
        covered_comparison_def del: sort_keys.simps(6))
qed

subsection \<open>Documents\<close>

declare distinct_keys.simps [simp]

lemma json_ok_iff: "json_ok v \<longleftrightarrow> ints_within_limit v \<and> distinct_keys v"
proof (induction v)
  case (JObj fs)
  have "(\<forall>p \<in> set fs. json_ok (snd p)) \<longleftrightarrow>
      (\<forall>p \<in> set fs. ints_within_limit (snd p)) \<and> (\<forall>p \<in> set fs. distinct_keys (snd p))"
    using JObj by force
  then show ?case unfolding json_ok_obj by (auto simp: list.pred_set)
next
  case (JList xs)
  then show ?case unfolding json_ok_list by (auto simp: list.pred_set)
qed (simp_all add: int_ok_def)

lemma distinct_keys_map: "distinct_keys (JList (map f xs)) \<longleftrightarrow> (\<forall>x \<in> set xs. distinct_keys (f x))"
  by (auto simp: list.pred_set)

lemma distinct_keys_atoms [simp]:
  "distinct_keys (j_hash h)" "distinct_keys (j_strs xs)"
  "distinct_keys (j_opt f v) \<longleftrightarrow> (case v of None \<Rightarrow> True | Some x \<Rightarrow> distinct_keys (f x))"
  "distinct_keys (j_dict JStr d) \<longleftrightarrow> distinct (map fst d)"
  "distinct_keys (j_dict j_hash g) \<longleftrightarrow> distinct (map fst g)"
  by (auto simp: j_hash_def j_strs_def j_opt_def j_dict_def list.pred_set comp_def split: option.splits)

lemma decode_envelope_encoded:
  assumes "encode_envelope schema (JObj d) = Inr b" "distinct_keys (JObj d)"
  shows "decode_envelope (Some b) schema = Inr (Some (sorted_dict d))"
proof -
  from assms(1) have i: "ints_within_limit (JObj d)"
    and b: "b = utf8_encode (json_dumps (document schema (JObj d)))"
    by (auto simp: encode_envelope_def split: if_splits)
  have "int_ok current_schema_version"
    by (simp add: int_ok_def current_schema_version_def show_nat.simps int_digit_limit_def)
  moreover have "json_ok (JObj d)" using i assms(2) by (simp add: json_ok_iff)
  ultimately have "json_ok (document schema (JObj d))" by (simp add: document_def json_ok_obj)
  then have "decode_text b = Inr (sort_keys (document schema (JObj d)))"
    unfolding decode_text_def b by (simp add: utf8_decode_encode loads_dumps)
  moreover have "sort_keys (document schema (JObj d)) = JObj (sorted_dict
      [(''schema'', JStr schema), (''schema_version'', JInt current_schema_version), (''payload'', JObj d)])"
    unfolding document_def sort_keys_JObj ..
  ultimately show ?thesis
    unfolding decode_envelope_def
    by (simp add: reading jget_eval Let_def sort_keys_JObj del: sort_keys.simps(6))
qed

subsection \<open>Evidence manifests\<close>

definition proper_dicts :: "evidence_manifest \<Rightarrow> bool" where
  "proper_dicts m \<longleftrightarrow>
     (\<forall>e \<in> set (em_environments m). distinct (map fst (env_resource_limits e)))
     \<and> distinct (map fst (in_files (em_input m)))
     \<and> (\<forall>e \<in> set (em_executions m). distinct (map fst (ex_environment_variables e))
          \<and> distinct (map fst (ex_generated_files e))
          \<and> (case ex_compilation_diagnostics e of None \<Rightarrow> True | Some d \<Rightarrow> distinct (map fst d)))
     \<and> (\<forall>c \<in> set (em_comparisons m). \<forall>v \<in> set (ce_field_level_results c). distinct_keys v)"

definition storable :: "evidence_manifest \<Rightarrow> bool" where
  "storable m \<longleftrightarrow>
     em_version m \<noteq> [] \<and> em_run_id m \<noteq> [] \<and> em_workload_id m \<noteq> [] \<and> em_created_at m \<noteq> []
     \<and> storable_source (em_source m)
     \<and> (case em_candidate m of None \<Rightarrow> True | Some c \<Rightarrow> storable_candidate c)
     \<and> (case em_oracle m of None \<Rightarrow> False | Some oi \<Rightarrow> storable_oracle oi)
     \<and> (\<forall>e \<in> set (em_environments m). storable_environment e)
     \<and> storable_input (em_input m)
     \<and> (\<forall>e \<in> set (em_executions m). storable_execution e)
     \<and> (\<forall>a \<in> set (em_artifacts m). storable_artifact a)
     \<and> (\<forall>c \<in> set (em_comparisons m). storable_comparison c)
     \<and> (case em_verdict m of None \<Rightarrow> True | Some v \<Rightarrow> storable_verdict_evidence v)
     \<and> proper_dicts m"

text \<open>What comes back: every dictionary in key order.\<close>

definition stored_form :: "evidence_manifest \<Rightarrow> evidence_manifest" where
  "stored_form m = m
     \<lparr>em_environments := map covered_environment (em_environments m),
      em_input := covered_input (em_input m),
      em_executions := map covered_execution (em_executions m),
      em_comparisons := map covered_comparison (em_comparisons m)\<rparr>"

lemma distinct_keys_execution:
  "distinct_keys (execution_to_dict e) \<longleftrightarrow> distinct (map fst (ex_environment_variables e))
     \<and> distinct (map fst (ex_generated_files e))
     \<and> (case ex_compilation_diagnostics e of None \<Rightarrow> True | Some d \<Rightarrow> distinct (map fst d))"
  by (cases "ex_compilation_diagnostics e")
     (auto simp: execution_to_dict_def list.pred_set split: option.splits)

lemma distinct_keys_payload:
  assumes "proper_dicts m"
  shows "distinct_keys (manifest_payload m oi)"
proof -
  have src: "distinct_keys (stored_source s)" for s by (simp add: stored_source_def)
  have can: "distinct_keys (stored_candidate c)" for c by (simp add: stored_candidate_def)
  have ora: "distinct_keys (stored_oracle q)" for q
    by (simp add: stored_oracle_def split: option.split)
  have env: "distinct_keys (stored_environment e) \<longleftrightarrow> distinct (map fst (env_resource_limits e))" for e
    by (simp add: stored_environment_def split: option.split)
  have inp: "distinct_keys (stored_input i) \<longleftrightarrow> distinct (map fst (in_files i))" for i
    by (simp add: stored_input_def split: option.split)
  have art: "distinct_keys (stored_artifact a)" for a
    by (simp add: stored_artifact_def split: option.split)
  have cmp: "distinct_keys (stored_comparison c) \<longleftrightarrow> (\<forall>v \<in> set (ce_field_level_results c). distinct_keys v)" for c
    by (simp add: stored_comparison_def comparison_to_dict_def list.pred_set split: option.split)
  have ver: "distinct_keys (verdict_evidence_to_dict v)" for v by (simp add: verdict_evidence_to_dict_def)
  show ?thesis
    using assms unfolding manifest_payload_def proper_dicts_def
    by (simp add: src ora distinct_keys_map env inp distinct_keys_execution art cmp can ver
        del: distinct_keys.simps(5) split: option.split)
qed

lemma traverse_enumerate:
  "(\<And>i x. x \<in> set xs \<Longrightarrow> f (i, g x) = Inr (h x)) \<Longrightarrow>
     traverse f (List.enumerate n (map g xs)) = Inr (map h xs)"
  by (induction xs arbitrary: n) simp_all

lemma decode_each_stored:
  assumes "jget payload k = sort_keys (JList (map g xs))"
    and "\<And>i x. x \<in> set xs \<Longrightarrow> f (i, sort_keys (g x)) = Inr (h x)"
  shows "decode_each f payload k = Inr (map h xs)"
  using assms traverse_enumerate [of xs f "\<lambda>x. sort_keys (g x)" h 0]
  by (simp add: decode_each_def reading comp_def)

definition payload_fields :: "evidence_manifest \<Rightarrow> oracle_identity \<Rightarrow> json dict" where
  "payload_fields m oi = (case manifest_payload m oi of JObj d \<Rightarrow> d | _ \<Rightarrow> [])"

lemma payload_fields: "manifest_payload m oi = JObj (payload_fields m oi)"
  by (simp add: payload_fields_def manifest_payload_def)

lemma distinct_payload_fields: "distinct (map fst (payload_fields m oi))"
  by (simp add: payload_fields_def manifest_payload_def)

lemma payload_field:
  "jget (payload_fields m oi) ''manifest_version'' = JStr (em_version m)"
  "jget (payload_fields m oi) ''run_id'' = JStr (em_run_id m)"
  "jget (payload_fields m oi) ''workload_id'' = JStr (em_workload_id m)"
  "jget (payload_fields m oi) ''source_identity'' = stored_source (em_source m)"
  "jget (payload_fields m oi) ''candidate_identity'' = j_opt stored_candidate (em_candidate m)"
  "jget (payload_fields m oi) ''oracle_identity'' = stored_oracle oi"
  "jget (payload_fields m oi) ''environment_identities'' = JList (map stored_environment (em_environments m))"
  "jget (payload_fields m oi) ''controlled_input'' = stored_input (em_input m)"
  "jget (payload_fields m oi) ''execution_evidence'' = JList (map execution_to_dict (em_executions m))"
  "jget (payload_fields m oi) ''artifact_evidence'' = JList (map stored_artifact (em_artifacts m))"
  "jget (payload_fields m oi) ''comparison_evidence'' = JList (map stored_comparison (em_comparisons m))"
  "jget (payload_fields m oi) ''verdict_evidence'' = j_opt verdict_evidence_to_dict (em_verdict m)"
  "jget (payload_fields m oi) ''created_at'' = JStr (em_created_at m)"
  "jget (payload_fields m oi) ''sealed_hash'' = j_opt j_hash (em_sealed_hash m)"
  by (simp_all add: payload_fields_def manifest_payload_def jget_Cons)

lemma sort_key_idem: "sort_key fst (sort_key fst d) = sort_key fst (d :: 'v dict)"
  by (simp add: sort_key_id_if_sorted)

lemma stored_form_hash: "graph_hash (stored_form m) = graph_hash m"
proof -
  have "covered_environment (covered_environment e) = covered_environment e" for e
    by (simp add: covered_environment_def sort_key_idem)
  moreover have "covered_input (covered_input i) = covered_input i" for i
    by (simp add: covered_input_def sort_key_idem)
  moreover have "covered_execution (covered_execution e) = covered_execution e" for e
    by (simp add: covered_execution_def sort_key_idem option.map_comp comp_def)
  moreover have "covered_comparison (covered_comparison c) = covered_comparison c" for c
    by (simp add: covered_comparison_def sort_keys_idem comp_def)
  ultimately have "graph_bytes (stored_form m) = graph_bytes m"
    unfolding graph_bytes_iff by (simp add: stored_form_def covered_manifest_def comp_def)
  then show ?thesis by (simp add: graph_hash_def)
qed

lemma seal_covers_nothing_else: "graph_hash (m\<lparr>em_sealed_hash := h\<rparr>) = graph_hash m"
proof -
  have "graph_bytes (m\<lparr>em_sealed_hash := h\<rparr>) = graph_bytes m"
    unfolding graph_bytes_iff by (simp add: covered_manifest_def)
  then show ?thesis by (simp add: graph_hash_def)
qed

lemma str_hash_nonempty [simp]: "str_hash h \<noteq> []"
  by (simp add: str_hash_def)

lemma decode_payload_stored:
  assumes st: "storable m" and seal: "em_sealed_hash m = Some (graph_hash m)"
    and oi: "em_oracle m = Some oi"
  shows "decode_payload (sorted_dict (payload_fields m oi)) = Inr (stored_form m)"
proof -
  let ?d = "sorted_dict (payload_fields m oi)"
  note look = jget_sorted [OF distinct_payload_fields] payload_field
  obtain sd where sd: "sort_keys (stored_source (em_source m)) = JObj sd"
    by (simp add: stored_source_def)
  obtain od where od: "sort_keys (stored_oracle oi) = JObj od" by (simp add: stored_oracle_def)
  obtain idt where idt: "sort_keys (stored_input (em_input m)) = JObj idt" by (simp add: stored_input_def)
  have src: "decode_source sd = Inr (em_source m)"
    using st decode_source_stored [OF _ sd] by (simp add: storable_def)
  have ora: "decode_oracle od = Inr oi"
    using st oi decode_oracle_stored [OF _ od] by (simp add: storable_def)
  have inp: "decode_input idt = Inr (covered_input (em_input m))"
    using st decode_input_stored [OF _ idt] by (simp add: storable_def)
  have env: "decode_each decode_environment ?d ''environment_identities''
      = Inr (map covered_environment (em_environments m))"
    using st by (intro decode_each_stored [where g = stored_environment and h = "covered_environment"])
      (simp_all add: look storable_def decode_environment_stored del: sort_keys.simps(5))
  have exe: "decode_each decode_execution ?d ''execution_evidence'' = Inr (map covered_execution (em_executions m))"
    using st by (intro decode_each_stored [where g = execution_to_dict and h = "covered_execution"])
      (simp_all add: look storable_def decode_execution_stored del: sort_keys.simps(5))
  have art: "decode_each decode_artifact ?d ''artifact_evidence'' = Inr (map (\<lambda>a. a) (em_artifacts m))"
    using st by (intro decode_each_stored [where g = stored_artifact and h = "\<lambda>a. a"])
      (simp_all add: look storable_def decode_artifact_stored del: sort_keys.simps(5))
  have com: "decode_each decode_comparison ?d ''comparison_evidence'' = Inr (map covered_comparison (em_comparisons m))"
    using st by (intro decode_each_stored [where g = stored_comparison and h = "covered_comparison"])
      (simp_all add: look storable_def decode_comparison_stored del: sort_keys.simps(5))
  have ver: "decode_verdict_evidence (sort_keys (j_opt verdict_evidence_to_dict (em_verdict m))) = Inr (em_verdict m)"
    using st by (intro decode_verdict_evidence_stored) (simp add: storable_def)
  obtain cr where cr: "when_present (\<lambda>v. expect_dict v ''candidate_identity'')
        (sort_keys (j_opt stored_candidate (em_candidate m))) = Inr cr"
    and can: "(case cr of None \<Rightarrow> Inr None | Some d \<Rightarrow> bind_res (decode_candidate d) (\<lambda>c. Inr (Some c)))
        = Inr (em_candidate m)"
  proof (cases "em_candidate m")
    case None
    then show ?thesis using that [of None] by (simp add: j_opt_def when_present_def)
  next
    case (Some c)
    obtain cd where cd: "sort_keys (stored_candidate c) = JObj cd" by (simp add: stored_candidate_def)
    have "decode_candidate cd = Inr c"
      using st Some decode_candidate_stored [OF _ cd] by (simp add: storable_def)
    then show ?thesis
      using that [of "Some cd"] Some cd by (simp add: j_opt_def when_present_def reading)
  qed
  have sl: "decode_seal ?d = Inr (str_hash (graph_hash m))"
    by (simp add: decode_seal_def look seal j_opt_def j_hash_def)
  let ?m = "\<lparr>em_version = em_version m, em_run_id = em_run_id m, em_workload_id = em_workload_id m,
      em_source = em_source m, em_candidate = em_candidate m, em_oracle = Some oi,
      em_environments = map covered_environment (em_environments m), em_input = covered_input (em_input m),
      em_executions = map covered_execution (em_executions m), em_artifacts = em_artifacts m,
      em_comparisons = map covered_comparison (em_comparisons m), em_verdict = em_verdict m,
      em_created_at = em_created_at m, em_sealed_hash = None\<rparr>"
  have m: "?m = (stored_form m)\<lparr>em_sealed_hash := None\<rparr>"
    using oi by (cases m) (simp add: stored_form_def)
  have "seal_manifest ?m = stored_form m"
    unfolding m seal_manifest_def seal_covers_nothing_else stored_form_hash
    using seal by (simp add: stored_form_def)
  moreover have "em_sealed_hash (stored_form m) = Some (graph_hash m)"
    using seal by (simp add: stored_form_def)
  ultimately show ?thesis
    using st unfolding decode_payload_def
    by (simp add: look sd od idt src ora inp env exe art com ver cr can sl reading
        str_opt_hash_def storable_def)
qed

lemma encode_manifest_Inr:
  assumes "encode_evidence_manifest m = Inr b"
  obtains oi where "em_oracle m = Some oi" "em_sealed_hash m = Some (graph_hash m)"
    "encode_envelope schema_evidence (JObj (payload_fields m oi)) = Inr b"
  using assms unfolding encode_evidence_manifest_def Let_def
  by (cases "em_oracle m")
     (auto simp: oracle_attr_def lift_py_def payload_fields [symmetric] split: if_splits)

lemma decode_encoded_manifest:
  assumes "storable m" "encode_evidence_manifest m = Inr b"
  shows "decode_evidence_manifest (Some b) = Inr (Some (stored_form m))"
proof -
  from encode_manifest_Inr [OF assms(2)] obtain oi where
    oi: "em_oracle m = Some oi" and seal: "em_sealed_hash m = Some (graph_hash m)"
    and e: "encode_envelope schema_evidence (JObj (payload_fields m oi)) = Inr b" .
  have "distinct_keys (JObj (payload_fields m oi))"
    using distinct_keys_payload assms(1) unfolding payload_fields [symmetric] by (simp add: storable_def)
  from decode_envelope_encoded [OF e this] decode_payload_stored [OF assms(1) seal oi]
  show ?thesis by (simp add: decode_evidence_manifest_def)
qed

text \<open>C35: what the store writes it reads back: a storable manifest that the encoder accepts is decoded
  from its bytes (JSON text in UTF-8) with every field and the same seal, its dictionaries in key
  order.\<close>
theorem manifest_roundtrip:
  assumes "storable m" "encode_evidence_manifest m = Inr b"
  shows "decode_evidence_manifest (Some b) = Inr (Some (stored_form m))"
  by (rule decode_encoded_manifest [OF assms])

lemma sample_hash_ok: "ok_hash sample_hash"
  by (simp add: ok_hash_def is_sha256_digest_def sample_hash_def is_lower_hex_def list_all_iff)

lemma sample_storable: "storable sample_manifest"
  using sample_hash_ok
  by (simp add: storable_def proper_dicts_def sample_defs storable_source_def storable_candidate_def
      storable_oracle_def storable_input_def storable_execution_def storable_artifact_def
      storable_comparison_def valid_artifact_types_def)

lemma sample_encodes: "\<exists>b. encode_evidence_manifest sample_manifest = Inr b"
proof -
  have seal: "em_sealed_hash sample_manifest = Some (graph_hash sample_manifest)"
    using seal_covers_nothing_else [of "Some (graph_hash sample_raw)" sample_raw]
    by (simp add: sample_manifest_def seal_manifest_def)
  have "em_oracle sample_manifest = Some sample_oracle" by (simp add: sample_defs)
  moreover have "ints_within_limit (manifest_payload sample_manifest sample_oracle)"
    by (simp add: manifest_payload_def stored_source_def stored_candidate_def stored_oracle_def
        stored_input_def execution_to_dict_def stored_artifact_def stored_comparison_def
        comparison_to_dict_def sample_defs j_opt_def j_hash_def j_dict_def j_strs_def
        show_nat.simps int_digit_limit_def)
  ultimately show ?thesis
    by (simp add: encode_evidence_manifest_def seal oracle_attr_def lift_py_def encode_envelope_def)
qed

text \<open>The sample manifest.\<close>
lemma manifest_roundtrip_witness:
  "\<exists>b. encode_evidence_manifest sample_manifest = Inr b \<and>
     decode_evidence_manifest (Some b) = Inr (Some (stored_form sample_manifest))"
  using sample_encodes manifest_roundtrip [OF sample_storable] by blast

subsection \<open>Whatever is decoded is sealed\<close>

lemma decode_payload_sealed:
  assumes "decode_payload payload = Inr m"
  shows "jget payload ''sealed_hash'' = JStr (str_hash (graph_hash m))"
    "em_sealed_hash m = Some (graph_hash m)" "em_oracle m \<noteq> None"
proof -
  from assms obtain n seal oi where m: "m = seal_manifest n" "em_oracle n = Some oi"
    and d: "decode_seal payload = Inr seal" "seal = str_opt_hash (em_sealed_hash m)"
    unfolding decode_payload_def Let_def
    by (auto simp: bind_res_eq_Inr fail_def split: if_splits)
  show s: "em_sealed_hash m = Some (graph_hash m)" "em_oracle m \<noteq> None"
    using m by (simp_all add: seal_manifest_def seal_covers_nothing_else)
  show "jget payload ''sealed_hash'' = JStr (str_hash (graph_hash m))"
    using d s(1) by (auto simp: decode_seal_def str_opt_hash_def fail_def split: json.splits if_splits)
qed

text \<open>What an envelope that decodes holds; the messages are variables, so that they are not simplified.\<close>

lemma expect_dict_Inr: "expect_dict v loc = Inr d \<longleftrightarrow> v = JObj d"
  by (cases v) (simp_all add: expect_dict_def fail_def)

lemma envelope_version:
  assumes "(case j of
       JInt version \<Rightarrow> if version \<noteq> w then unsupported (t version) else bind_res (expect_dict q loc) (\<lambda>p. Inr (Some p))
     | _ \<Rightarrow> fail u) = Inr (Some d)"
  shows "q = JObj d"
  using assms by (cases j) (auto simp: fail_def unsupported_def bind_res_eq_Inr expect_dict_Inr split: if_splits)

lemma envelope_schema:
  assumes "(if c then fail m else r) = (Inr x :: exn + 'a)"
  shows "r = Inr x"
  using assms by (simp add: fail_def split: if_splits)

lemma decode_envelope_payload:
  assumes "decode_envelope (Some raw) schema = Inr (Some d)"
  shows "\<exists>doc. decode_text raw = Inr (JObj doc) \<and> jget doc ''payload'' = JObj d"
proof -
  from assms [unfolded decode_envelope_def option.case bind_res_eq_Inr Let_def expect_dict_Inr]
  show ?thesis
    by (elim exE conjE) (drule envelope_schema, drule envelope_version, blast)
qed

text \<open>The text of the seal that stands in a stored column, if it has one: no decoder of evidence is involved.\<close>

definition stored_seal :: "bytes \<Rightarrow> string option" where
  "stored_seal raw =
     (case decode_text raw of
        Inr (JObj doc) \<Rightarrow>
          (case jget doc ''payload'' of
             JObj payload \<Rightarrow> (case jget payload ''sealed_hash'' of JStr seal \<Rightarrow> Some seal | _ \<Rightarrow> None)
           | _ \<Rightarrow> None)
      | _ \<Rightarrow> None)"

lemma decode_manifest_sealed:
  assumes "decode_evidence_manifest (Some raw) = Inr (Some m)"
  shows "stored_seal raw = Some (str_hash (graph_hash m))" "em_sealed_hash m = Some (graph_hash m)"
proof -
  obtain payload where e: "decode_envelope (Some raw) schema_evidence = Inr (Some payload)" and p: "decode_payload payload = Inr m"
    using assms by (auto simp: decode_evidence_manifest_def bind_res_eq_Inr split: option.splits)
  obtain doc where "decode_text raw = Inr (JObj doc)" "jget doc ''payload'' = JObj payload"
    using decode_envelope_payload [OF e] by blast
  then show "stored_seal raw = Some (str_hash (graph_hash m))"
    using decode_payload_sealed(1) [OF p] by (simp add: stored_seal_def)
  show "em_sealed_hash m = Some (graph_hash m)" by (rule decode_payload_sealed(2) [OF p])
qed

text \<open>C36: Modification of persisted evidence is detected. The bytes of a column decode to a manifest only when
  the seal that stands in those very bytes is the hash recomputed from the decoded evidence. So bytes that carry
  the seal of \<open>m\<close>, however else they were modified, either do not decode or decode to a manifest that agrees
  with \<open>m\<close> on every field of the evidence graph, unless the two graph texts are an explicit SHA-256 collision.\<close>
theorem persisted_tampering_detected:
  assumes "decode_evidence_manifest (Some raw) = Inr (Some n)"
  shows "stored_seal raw = Some (str_hash (graph_hash n)) \<and> em_sealed_hash n = Some (graph_hash n) \<and>
    (\<forall>m. stored_seal raw = Some (str_hash (graph_hash m)) \<longrightarrow>
       covered_manifest n = covered_manifest m \<or>
       (graph_bytes n \<noteq> graph_bytes m \<and> sha256_hex (graph_bytes n) = sha256_hex (graph_bytes m)))"
  using decode_manifest_sealed [OF assms]
  unfolding graph_bytes_iff [symmetric] graph_hash_def hash_from_bytes_def by auto

text \<open>The sample manifest, decoded from its own bytes.\<close>
lemma persisted_tampering_detected_witness:
  "\<exists>raw. encode_evidence_manifest sample_manifest = Inr raw \<and>
     decode_evidence_manifest (Some raw) = Inr (Some (stored_form sample_manifest)) \<and>
     stored_seal raw = Some (str_hash (graph_hash sample_manifest))"
proof -
  obtain b where b: "encode_evidence_manifest sample_manifest = Inr b" using sample_encodes by blast
  have d: "decode_evidence_manifest (Some b) = Inr (Some (stored_form sample_manifest))"
    by (rule decode_encoded_manifest [OF sample_storable b])
  from persisted_tampering_detected [OF d] b d show ?thesis
    unfolding stored_form_hash by blast
qed

subsection \<open>Verdicts\<close>

definition storable_verdict :: "verdict \<Rightarrow> bool" where
  "storable_verdict v \<longleftrightarrow>
     vd_workload_id v \<noteq> [] \<and> vd_run_id v \<noteq> [] \<and> vd_source_hash v \<noteq> []
     \<and> ok_opt (vd_candidate_hash v) \<and> vd_oracle_id v \<noteq> [] \<and> vd_oracle_digest v \<noteq> []
     \<and> vd_evidence_manifest_hash v \<noteq> [] \<and> vd_derivation_timestamp v \<noteq> []"

lemma parse_verdict_state_value: "parse_verdict_state (verdict_value s) = Some s"
  by (cases s) (simp_all add: parse_verdict_state_def verdict_states_def)

lemma verdict_value_nonempty: "verdict_value s \<noteq> []"
  by (cases s) simp_all

definition verdict_payload :: "verdict \<Rightarrow> json dict" where
  "verdict_payload v = (case verdict_to_dict v of JObj d \<Rightarrow> d | _ \<Rightarrow> [])"

lemma verdict_payload: "verdict_to_dict v = JObj (verdict_payload v)"
  by (simp add: verdict_payload_def verdict_to_dict_def)

lemma distinct_verdict_payload: "distinct (map fst (verdict_payload v))"
  by (simp add: verdict_payload_def verdict_to_dict_def)

lemma verdict_field:
  "jget (verdict_payload v) ''state'' = JStr (verdict_value (vd_state v))"
  "jget (verdict_payload v) ''workload_id'' = JStr (vd_workload_id v)"
  "jget (verdict_payload v) ''run_id'' = JStr (vd_run_id v)"
  "jget (verdict_payload v) ''source_hash'' = JStr (vd_source_hash v)"
  "jget (verdict_payload v) ''candidate_hash'' = j_opt JStr (vd_candidate_hash v)"
  "jget (verdict_payload v) ''oracle_id'' = JStr (vd_oracle_id v)"
  "jget (verdict_payload v) ''oracle_digest'' = JStr (vd_oracle_digest v)"
  "jget (verdict_payload v) ''executed_check_count'' = JInt (vd_executed_check_count v)"
  "jget (verdict_payload v) ''skipped_count'' = JInt (vd_skipped_count v)"
  "jget (verdict_payload v) ''unavailable_count'' = JInt (vd_unavailable_count v)"
  "jget (verdict_payload v) ''supported_scope_statement'' = JStr (vd_supported_scope_statement v)"
  "jget (verdict_payload v) ''evidence_manifest_hash'' = JStr (vd_evidence_manifest_hash v)"
  "jget (verdict_payload v) ''derivation_timestamp'' = JStr (vd_derivation_timestamp v)"
  "jget (verdict_payload v) ''differences'' = j_strs (vd_differences v)"
  by (simp_all add: verdict_payload_def verdict_to_dict_def jget_Cons)

lemma decode_encoded_verdict:
  assumes "storable_verdict v" "encode_verdict v = Inr b"
  shows "decode_verdict (Some b) = Inr (Some v)"
proof -
  note look = jget_sorted [OF distinct_verdict_payload] verdict_field
  have "distinct_keys (JObj (verdict_payload v))"
    unfolding verdict_payload [symmetric] by (simp add: verdict_to_dict_def split: option.split)
  moreover from assms(2) have "encode_envelope schema_verdict (JObj (verdict_payload v)) = Inr b"
    by (simp add: encode_verdict_def verdict_payload)
  ultimately have e: "decode_envelope (Some b) schema_verdict = Inr (Some (sorted_dict (verdict_payload v)))"
    by (intro decode_envelope_encoded)
  have "fst ` set (sorted_dict (verdict_payload v)) = set verdict_fields"
    unfolding keys_sorted_dict by (simp add: verdict_payload_def verdict_to_dict_def verdict_fields_def)
  then have m: "filter (\<lambda>k. k \<notin> fst ` set (sorted_dict (verdict_payload v))) verdict_fields = []"
    by simp
  have "decode_verdict_payload (sorted_dict (verdict_payload v)) = Inr v"
    unfolding decode_verdict_payload_def m Let_def
    using assms(1) by (cases v) (simp add: look reading storable_verdict_def verdict_value_nonempty
      parse_verdict_state_value)
  with e show ?thesis by (simp add: decode_verdict_def)
qed

text \<open>A verdict with its identifiers present survives the round trip through the store unchanged.\<close>
theorem verdict_roundtrip:
  assumes "storable_verdict v" "encode_verdict v = Inr b"
  shows "decode_verdict (Some b) = Inr (Some v)"
  by (rule decode_encoded_verdict [OF assms])

lemma derived_verdict_storable:
  assumes "create_verdict now s m ds = Inr v" "em_run_id m \<noteq> []" "em_workload_id m \<noteq> []" "now \<noteq> []"
    and "\<forall>oi. em_oracle m = Some oi \<longrightarrow> or_id oi \<noteq> [] \<and> or_image_digest oi \<noteq> []"
  shows "storable_verdict v"
  using assms by (cases "em_oracle m"; cases "em_candidate m")
    (auto simp: create_verdict_def oracle_attr_def scope_for_def Let_def storable_verdict_def str_hash_def)

text \<open>The verdict of the sample manifest.\<close>
lemma verdict_roundtrip_witness:
  "\<exists>v b. create_verdict ''t'' VERIFIED sample_manifest [] = Inr v \<and> encode_verdict v = Inr b \<and>
     decode_verdict (Some b) = Inr (Some v)"
proof -
  obtain v where v: "create_verdict ''t'' VERIFIED sample_manifest [] = Inr v"
    and c: "vd_executed_check_count v = 1" "vd_skipped_count v = 0" "vd_unavailable_count v = 0"
    by (auto simp: create_verdict_def oracle_attr_def scope_for_def Let_def sample_defs)
  have s: "storable_verdict v"
    by (rule derived_verdict_storable [OF v]) (simp_all add: sample_defs)
  have "ints_within_limit (verdict_to_dict v)"
    using c by (simp add: verdict_to_dict_def j_opt_def j_strs_def list.pred_set show_nat.simps
        int_digit_limit_def split: option.split)
  then obtain b where b: "encode_verdict v = Inr b" by (simp add: encode_verdict_def encode_envelope_def)
  from v b verdict_roundtrip [OF s b] show ?thesis by blast
qed

subsection \<open>String list columns\<close>

lemma strip_nonempty: "c \<in> set s \<Longrightarrow> \<not> p c \<Longrightarrow> strip_by p s \<noteq> []"
  by (auto simp: strip_by_def dropWhile_eq_Nil_conv dest: set_dropWhileD)
     (metis dropWhile_eq_Nil_conv in_set_conv_decomp set_rev takeWhile_dropWhile_id Un_iff set_append set_takeWhileD)

lemma decode_encode_str_list: "decode_str_list (Some (encode_str_list xs)) = Inr xs"
proof -
  have "CHR ''['' \<in> set (encode_str_list xs)" by (simp add: encode_str_list_def j_strs_def)
  moreover have "\<not> is_space (CHR ''['')" by (simp add: is_space_def)
  ultimately have "strip (encode_str_list xs) \<noteq> []" by (rule strip_nonempty)
  moreover have "json_loads (encode_str_list xs) = Inr (j_strs xs)"
    unfolding encode_str_list_def by (rule loads_dump) (simp add: j_strs_def json_ok_list)
  moreover have "traverse (\<lambda>v. case v of JStr s \<Rightarrow> Inr s
      | _ \<Rightarrow> fail ''string list column entries must be strings'') (map JStr xs) = Inr xs"
    by (induction xs) simp_all
  ultimately show ?thesis by (simp add: decode_str_list_def j_strs_def)
qed

text \<open>The string list columns (the program ids of an application) survive the round trip, whatever
  the strings contain.\<close>
theorem str_list_roundtrip:
  "decode_str_list (Some (encode_str_list xs)) = Inr xs"
  by (rule decode_encode_str_list)

subsection \<open>An error that is not reported as corruption\<close>

text \<open>The sample manifest whose first artifact has a type outside the vocabulary.\<close>

definition foreign_type :: evidence_manifest where
  "foreign_type = seal_manifest (sample_raw\<lparr>em_artifacts := map (\<lambda>a. a\<lparr>ae_artifact :=
     (ae_artifact a)\<lparr>ai_type := ''PRINTER''\<rparr>\<rparr>) (em_artifacts sample_raw)\<rparr>)"

definition foreign_type_error :: exn where
  "foreign_type_error = Py (ValueError (''artifact_type must be one of ''
     @ show_str_set valid_artifact_types @ '', got PRINTER''))"

lemma foreign_artifact:
  assumes "a \<noteq> []"
  shows "decode_artifact (i, sort_keys (stored_artifact ((sample_artifact a ''ORACLE'' e)
       \<lparr>ae_artifact := (ae_artifact (sample_artifact a ''ORACLE'' e))\<lparr>ai_type := ''PRINTER''\<rparr>\<rparr>)))
     = Inl foreign_type_error"
  using assms sample_hash_ok
  unfolding stored_artifact_def sort_keys_JObj decode_artifact_def
  by (simp add: sample_artifact_def jget_eval sort_keys_JObj reading field_defs mk_artifact_identity_def
      lift_py_def valid_artifact_types_def unobserved_effect_types_def foreign_type_error_def
      del: sort_keys.simps(6))

lemma foreign_payload:
  assumes "em_oracle foreign_type = Some oi"
  shows "decode_payload (sorted_dict (payload_fields foreign_type oi)) = Inl foreign_type_error"
proof -
  let ?d = "sorted_dict (payload_fields foreign_type oi)"
  note look = jget_sorted [OF distinct_payload_fields] payload_field
  have e: "em_executions foreign_type = em_executions sample_manifest"
    "em_environments foreign_type = em_environments sample_manifest"
    by (simp_all add: foreign_type_def sample_manifest_def seal_manifest_def)
  have env: "decode_each decode_environment ?d ''environment_identities''
      = Inr (map covered_environment (em_environments foreign_type))"
    using sample_storable unfolding e
    by (intro decode_each_stored [where g = stored_environment and h = covered_environment])
      (simp_all add: look e storable_def decode_environment_stored del: sort_keys.simps(5))
  have exe: "decode_each decode_execution ?d ''execution_evidence''
      = Inr (map covered_execution (em_executions foreign_type))"
    using sample_storable unfolding e
    by (intro decode_each_stored [where g = execution_to_dict and h = covered_execution])
      (simp_all add: look e storable_def decode_execution_stored del: sort_keys.simps(5))
  obtain as where as: "em_artifacts foreign_type = (sample_artifact ''a-oracle'' ''ORACLE'' ''e-oracle'')
       \<lparr>ae_artifact := (ae_artifact (sample_artifact ''a-oracle'' ''ORACLE'' ''e-oracle''))\<lparr>ai_type := ''PRINTER''\<rparr>\<rparr> # as"
    by (simp add: foreign_type_def seal_manifest_def sample_raw_def)
  have art: "decode_each decode_artifact ?d ''artifact_evidence'' = Inl foreign_type_error"
    by (simp add: decode_each_def look reading as foreign_artifact)
  obtain sd where sd: "sort_keys (stored_source (em_source foreign_type)) = JObj sd"
    by (simp add: stored_source_def)
  obtain od where od: "sort_keys (stored_oracle oi) = JObj od" by (simp add: stored_oracle_def)
  obtain idt where idt: "sort_keys (stored_input (em_input foreign_type)) = JObj idt"
    by (simp add: stored_input_def)
  obtain cr where cr: "when_present (\<lambda>v. expect_dict v ''candidate_identity'')
      (sort_keys (j_opt stored_candidate (em_candidate foreign_type))) = Inr cr"
    by (cases "em_candidate foreign_type")
       (auto simp: j_opt_def when_present_def stored_candidate_def expect_dict_def)
  show ?thesis unfolding decode_payload_def by (simp add: look sd od idt cr env exe art reading)
qed

text \<open>An unknown artifact type in persisted evidence escapes the codec as the bare \<open>ValueError\<close> of
  the \<open>ArtifactIdentity\<close> constructor, not as the \<open>PersistenceCorruptionError\<close> the decoder promises
  for every structural deviation: the artifacts are decoded before its handler is entered.\<close>
theorem unknown_type_escapes_as_value_error:
  "encode_envelope schema_evidence (manifest_payload foreign_type sample_oracle) = Inr b
     \<Longrightarrow> decode_evidence_manifest (Some b) = Inl foreign_type_error"
proof -
  assume e: "encode_envelope schema_evidence (manifest_payload foreign_type sample_oracle) = Inr b"
  have "proper_dicts foreign_type"
    using sample_storable by (simp add: storable_def proper_dicts_def foreign_type_def sample_manifest_def
        seal_manifest_def)
  then have "distinct_keys (JObj (payload_fields foreign_type sample_oracle))"
    unfolding payload_fields [symmetric] by (rule distinct_keys_payload)
  from decode_envelope_encoded [OF e [unfolded payload_fields] this]
    foreign_payload [of sample_oracle]
  show ?thesis by (simp add: decode_evidence_manifest_def foreign_type_def sample_defs)
qed

text \<open>The document exists.\<close>
lemma unknown_type_escapes_as_value_error_witness:
  "\<exists>b. encode_envelope schema_evidence (manifest_payload foreign_type sample_oracle) = Inr b \<and>
     decode_evidence_manifest (Some b) = Inl foreign_type_error"
proof -
  have "ints_within_limit (manifest_payload foreign_type sample_oracle)"
    by (simp add: foreign_type_def manifest_payload_def stored_source_def stored_candidate_def
        stored_oracle_def stored_input_def execution_to_dict_def stored_artifact_def
        stored_comparison_def comparison_to_dict_def sample_defs j_opt_def j_hash_def j_dict_def
        j_strs_def show_nat.simps int_digit_limit_def)
  then show ?thesis
    using unknown_type_escapes_as_value_error by (simp add: encode_envelope_def)
qed

end
