(* ===== verification/Store.thy ===== *)
theory Store
  imports Serialization
begin

text \<open>
  The store of applications and runs (\<open>api/store.py\<close>). The database is the record \<open>db\<close>: the rows of
  the two tables in insertion order and the append-only approval events. Every method runs under one
  reentrant lock, so a concurrent history is a sequence of the operations below; each takes the
  database and returns its result, or the exception, with the database it leaves behind (a method
  that raises after its first UPDATE leaves that UPDATE in the open transaction of the connection). The
  parameter \<open>now\<close> is the clock. A text column that holds JSON is kept as text and decoded by
  \<open>Serialization\<close>.
\<close>

subsection \<open>The lifecycle\<close>

datatype run_stage =
    CREATED | INGESTING | DISCOVERING | DISCOVERY_COMPLETED | ANALYZING | ANALYSIS_COMPLETED
  | PLANNING | PLAN_COMPLETED | TRANSFORMING | GENERATING | ASSEMBLING | ASSEMBLY_COMPLETED
  | BUILDING | EXECUTING_ORACLE | EXECUTING_GENERATED | COMPARING | VALIDATING_EVIDENCE
  | COMPLETED | STAGE_FAILED

fun stage_value :: "run_stage \<Rightarrow> string" where
  "stage_value CREATED = ''CREATED''"
| "stage_value INGESTING = ''INGESTING''"
| "stage_value DISCOVERING = ''DISCOVERING''"
| "stage_value DISCOVERY_COMPLETED = ''DISCOVERY_COMPLETED''"
| "stage_value ANALYZING = ''ANALYZING''"
| "stage_value ANALYSIS_COMPLETED = ''ANALYSIS_COMPLETED''"
| "stage_value PLANNING = ''PLANNING''"
| "stage_value PLAN_COMPLETED = ''PLAN_COMPLETED''"
| "stage_value TRANSFORMING = ''TRANSFORMING''"
| "stage_value GENERATING = ''GENERATING''"
| "stage_value ASSEMBLING = ''ASSEMBLING''"
| "stage_value ASSEMBLY_COMPLETED = ''ASSEMBLY_COMPLETED''"
| "stage_value BUILDING = ''BUILDING''"
| "stage_value EXECUTING_ORACLE = ''EXECUTING_ORACLE''"
| "stage_value EXECUTING_GENERATED = ''EXECUTING_GENERATED''"
| "stage_value COMPARING = ''COMPARING''"
| "stage_value VALIDATING_EVIDENCE = ''VALIDATING_EVIDENCE''"
| "stage_value COMPLETED = ''COMPLETED''"
| "stage_value STAGE_FAILED = ''FAILED''"

definition all_stages :: "run_stage list" where
  "all_stages = [CREATED, INGESTING, DISCOVERING, DISCOVERY_COMPLETED, ANALYZING,
     ANALYSIS_COMPLETED, PLANNING, PLAN_COMPLETED, TRANSFORMING, GENERATING, ASSEMBLING,
     ASSEMBLY_COMPLETED, BUILDING, EXECUTING_ORACLE, EXECUTING_GENERATED, COMPARING,
     VALIDATING_EVIDENCE, COMPLETED, STAGE_FAILED]"

definition stage_order :: "run_stage list" where
  "stage_order = [CREATED, INGESTING, DISCOVERING, DISCOVERY_COMPLETED, ANALYZING,
     ANALYSIS_COMPLETED, PLANNING, PLAN_COMPLETED, TRANSFORMING, GENERATING, ASSEMBLING,
     ASSEMBLY_COMPLETED, EXECUTING_ORACLE, BUILDING, EXECUTING_GENERATED, COMPARING,
     VALIDATING_EVIDENCE, COMPLETED]"

definition stage_index :: "run_stage \<Rightarrow> nat option" where
  "stage_index s = map_of (map (\<lambda>(i, st). (st, i)) (enum stage_order)) s"

definition terminal_stages :: "run_stage list" where
  "terminal_stages = [COMPLETED, STAGE_FAILED]"

definition parse_stage :: "string \<Rightarrow> string \<Rightarrow> exn + run_stage" where
  "parse_stage v loc =
     (case find (\<lambda>s. stage_value s = v) all_stages of
        Some s \<Rightarrow> Inr s
      | None \<Rightarrow> raise_api PersistenceCorruptionError
                 (loc @ '' contains unknown run stage '' @ repr_str v))"

definition is_valid_transition :: "run_stage \<Rightarrow> run_stage \<Rightarrow> bool" where
  "is_valid_transition current target =
     (if current = target then True
      else if current \<in> set terminal_stages then False
      else if target = STAGE_FAILED then True
      else if target = COMPLETED then True
      else (case (stage_index current, stage_index target) of
              (Some i, Some j) \<Rightarrow> i \<le> j
            | _ \<Rightarrow> False))"

definition last_stage_anchor :: "run_stage \<Rightarrow> string option \<Rightarrow> string option" where
  "last_stage_anchor stage previous =
     (if stage \<in> set terminal_stages then previous else Some (stage_value stage))"

subsection \<open>Records and rows\<close>

record application_record =
  ap_id :: string
  ap_name :: string
  ap_description :: string
  ap_workload_id :: string
  ap_java_entrypoint :: string
  ap_target_runtime :: string
  ap_cobol_source_path :: "string option"
  ap_java_candidate_path :: "string option"
  ap_discovered_program_ids :: "string list"
  ap_generated_app_path :: "string option"
  ap_generated_entrypoint :: "string option"
  ap_generated_program_ids :: "string list"
  ap_created_at :: string
  ap_version :: int

record run_record =
  rr_id :: string
  rr_application_id :: string
  rr_workload_id :: string
  rr_stage :: run_stage
  rr_created_at :: string
  rr_completed_at :: "string option"
  rr_error :: "string option"
  rr_evidence_manifest :: "evidence_manifest option"
  rr_verdict :: "verdict option"
  rr_report :: "json dict option"
  rr_generation :: int
  rr_contract :: "string option"
  rr_approval_state :: string
  rr_approval_approver :: "string option"
  rr_approval_reason :: "string option"
  rr_approval_decided_at :: "string option"
  rr_generated_seal :: "string option"
  rr_last_stage :: "string option"
  rr_source_path :: "string option"
  rr_generated_app_path :: "string option"
  rr_generated_entrypoint :: "string option"
  rr_discovery_snapshot :: "json dict option"

text \<open>The rows of the two tables; the lists and documents are encoded.\<close>

record app_row =
  aw_id :: string
  aw_name :: string
  aw_description :: string
  aw_workload_id :: string
  aw_java_entrypoint :: string
  aw_target_runtime :: string
  aw_cobol_source_path :: "string option"
  aw_java_candidate_path :: "string option"
  aw_discovered_program_ids :: string
  aw_generated_app_path :: "string option"
  aw_generated_entrypoint :: "string option"
  aw_generated_program_ids :: string
  aw_created_at :: string
  aw_version :: int

record run_row =
  rw_id :: string
  rw_application_id :: string
  rw_workload_id :: string
  rw_stage :: string
  rw_created_at :: string
  rw_completed_at :: "string option"
  rw_error :: "string option"
  rw_evidence_blob :: "bytes option"
  rw_verdict_blob :: "bytes option"
  rw_report_blob :: "bytes option"
  rw_generation :: int
  rw_contract :: "string option"
  rw_approval_state :: string
  rw_approval_approver :: "string option"
  rw_approval_reason :: "string option"
  rw_approval_decided_at :: "string option"
  rw_generated_seal :: "string option"
  rw_last_stage :: "string option"
  rw_source_path :: "string option"
  rw_generated_app_path :: "string option"
  rw_generated_entrypoint :: "string option"
  rw_discovery_json :: "string option"

record approval_event =
  av_run_id :: string
  av_state :: string
  av_approver :: "string option"
  av_reason :: "string option"
  av_recorded_at :: string

text \<open>\<open>db_runs\<close> is the table as the connection sees it; \<open>db_committed\<close> is the table as of the last
  commit, which a rollback restores. Only the runs table can differ from its committed state when a
  method returns.\<close>

record db =
  db_apps :: "app_row list"
  db_runs :: "run_row list"
  db_committed :: "run_row list"
  db_events :: "approval_event list"

type_synonym 'a op = "db \<Rightarrow> (exn + 'a) \<times> db"

definition empty_db :: db where
  "empty_db = \<lparr>db_apps = [], db_runs = [], db_committed = [], db_events = []\<rparr>"

definition commit :: "db \<Rightarrow> db" where
  "commit s = s\<lparr>db_committed := db_runs s\<rparr>"

definition rollback :: "db \<Rightarrow> db" where
  "rollback s = s\<lparr>db_runs := db_committed s\<rparr>"

subsection \<open>Snapshots\<close>

definition encode_snapshot :: "json dict option \<Rightarrow> exn + string option" where
  "encode_snapshot s = (case s of
     None \<Rightarrow> Inr None
   | Some d \<Rightarrow> if ints_within_limit (JObj d) then Inr (Some (json_dumps (JObj d)))
               else Inl (Py (ValueError int_limit_message)))"

definition decode_snapshot :: "string option \<Rightarrow> exn + json dict option" where
  "decode_snapshot text = (case text of
     None \<Rightarrow> Inr None
   | Some t \<Rightarrow>
       if t = [] then Inr None
       else (case json_loads t of
           Inl Malformed \<Rightarrow> Inr None
         | Inl _ \<Rightarrow> Inl Unmodelled
         | Inr (JObj d) \<Rightarrow> Inr (Some d)
         | Inr _ \<Rightarrow> Inr None))"

subsection \<open>Row mapping\<close>

text \<open>\<open>row[column] or default\<close> of a text column.\<close>

definition or_default :: "string \<Rightarrow> string \<Rightarrow> string" where
  "or_default s d = (if s = [] then d else s)"

definition app_params :: "application_record \<Rightarrow> app_row" where
  "app_params r =
     \<lparr>aw_id = ap_id r, aw_name = ap_name r, aw_description = ap_description r,
      aw_workload_id = ap_workload_id r, aw_java_entrypoint = ap_java_entrypoint r,
      aw_target_runtime = ap_target_runtime r, aw_cobol_source_path = ap_cobol_source_path r,
      aw_java_candidate_path = ap_java_candidate_path r,
      aw_discovered_program_ids = encode_str_list (ap_discovered_program_ids r),
      aw_generated_app_path = ap_generated_app_path r,
      aw_generated_entrypoint = ap_generated_entrypoint r,
      aw_generated_program_ids = encode_str_list (ap_generated_program_ids r),
      aw_created_at = ap_created_at r, aw_version = ap_version r\<rparr>"

definition app_from_row :: "app_row \<Rightarrow> exn + application_record" where
  "app_from_row w =
     bind_res (decode_str_list (Some (aw_discovered_program_ids w))) (\<lambda>discovered.
     bind_res (decode_str_list (Some (aw_generated_program_ids w))) (\<lambda>generated.
       Inr \<lparr>ap_id = aw_id w, ap_name = aw_name w, ap_description = or_default (aw_description w) [],
            ap_workload_id = or_default (aw_workload_id w) [],
            ap_java_entrypoint = or_default (aw_java_entrypoint w) ''Main'',
            ap_target_runtime = or_default (aw_target_runtime w) ''spring_boot'',
            ap_cobol_source_path = aw_cobol_source_path w,
            ap_java_candidate_path = aw_java_candidate_path w,
            ap_discovered_program_ids = discovered, ap_generated_app_path = aw_generated_app_path w,
            ap_generated_entrypoint = aw_generated_entrypoint w,
            ap_generated_program_ids = generated, ap_created_at = aw_created_at w,
            ap_version = aw_version w\<rparr>))"

definition encode_opt :: "('a \<Rightarrow> exn + bytes) \<Rightarrow> 'a option \<Rightarrow> exn + bytes option" where
  "encode_opt f v = (case v of None \<Rightarrow> Inr None | Some x \<Rightarrow> bind_res (f x) (\<lambda>b. Inr (Some b)))"

text \<open>The three documents of a run, encoded in the order of \<open>_run_params\<close>.\<close>

definition run_params :: "run_record \<Rightarrow> exn + bytes option \<times> bytes option \<times> bytes option" where
  "run_params r =
     bind_res (encode_opt encode_evidence_manifest (rr_evidence_manifest r)) (\<lambda>evidence.
     bind_res (encode_opt encode_verdict (rr_verdict r)) (\<lambda>verdict.
     bind_res (encode_report (rr_report r)) (\<lambda>report. Inr (evidence, verdict, report))))"

definition run_from_row :: "run_row \<Rightarrow> exn + run_record" where
  "run_from_row w =
     bind_res (parse_stage (rw_stage w) ''persisted run stage'') (\<lambda>stage.
     bind_res (decode_evidence_manifest (rw_evidence_blob w)) (\<lambda>evidence.
     bind_res (decode_verdict (rw_verdict_blob w)) (\<lambda>verdict.
     bind_res (decode_report (rw_report_blob w)) (\<lambda>report.
     bind_res (decode_snapshot (rw_discovery_json w)) (\<lambda>snapshot.
       Inr \<lparr>rr_id = rw_id w, rr_application_id = rw_application_id w,
            rr_workload_id = or_default (rw_workload_id w) [], rr_stage = stage,
            rr_created_at = rw_created_at w, rr_completed_at = rw_completed_at w,
            rr_error = rw_error w, rr_evidence_manifest = evidence, rr_verdict = verdict,
            rr_report = report, rr_generation = rw_generation w, rr_contract = rw_contract w,
            rr_approval_state = or_default (rw_approval_state w) ''PENDING'',
            rr_approval_approver = rw_approval_approver w, rr_approval_reason = rw_approval_reason w,
            rr_approval_decided_at = rw_approval_decided_at w,
            rr_generated_seal = rw_generated_seal w, rr_last_stage = rw_last_stage w,
            rr_source_path = rw_source_path w, rr_generated_app_path = rw_generated_app_path w,
            rr_generated_entrypoint = rw_generated_entrypoint w,
            rr_discovery_snapshot = snapshot\<rparr>)))))"

subsection \<open>Rows by key\<close>

definition find_app :: "db \<Rightarrow> string \<Rightarrow> app_row option" where
  "find_app s i = find (\<lambda>w. aw_id w = i) (db_apps s)"

definition find_run :: "db \<Rightarrow> string \<Rightarrow> run_row option" where
  "find_run s i = find (\<lambda>w. rw_id w = i) (db_runs s)"

text \<open>\<open>UPDATE ... SET ... WHERE ...\<close>: the rows that satisfy the condition.\<close>

definition update_where :: "('r \<Rightarrow> bool) \<Rightarrow> ('r \<Rightarrow> 'r) \<Rightarrow> 'r list \<Rightarrow> 'r list" where
  "update_where p f rows = map (\<lambda>w. if p w then f w else w) rows"

definition update_runs :: "(run_row \<Rightarrow> bool) \<Rightarrow> (run_row \<Rightarrow> run_row) \<Rightarrow> db \<Rightarrow> db" where
  "update_runs p f s = s\<lparr>db_runs := update_where p f (db_runs s)\<rparr>"

definition no_run :: "string \<Rightarrow> string" where
  "no_run i = ''Run '' @ repr_str i @ '' not found''"

definition no_app :: "string \<Rightarrow> string" where
  "no_app i = ''Application '' @ repr_str i @ '' not found''"

subsection \<open>Applications\<close>

definition add_application :: "application_record \<Rightarrow> application_record op" where
  "add_application r s =
     (if find_app s (ap_id r) \<noteq> None
      then (raise_api ConflictError (''Application '' @ repr_str (ap_id r) @ '' already exists''), s)
      else (Inr r, commit (s\<lparr>db_apps := db_apps s @ [app_params r]\<rparr>)))"

definition get_application :: "string \<Rightarrow> application_record option op" where
  "get_application i s =
     (case find_app s i of
        None \<Rightarrow> (Inr None, s)
      | Some w \<Rightarrow> (bind_res (app_from_row w) (\<lambda>r. Inr (Some r)), s))"

text \<open>\<open>ORDER BY created_at, id\<close>: a stable sort by id, then by creation time.\<close>

definition list_applications :: "application_record list op" where
  "list_applications s =
     (traverse app_from_row (sort_key aw_created_at (sort_key aw_id (db_apps s))), s)"

text \<open>The columns a full-row update sets.\<close>

definition app_columns :: "application_record \<Rightarrow> app_row \<Rightarrow> app_row" where
  "app_columns r w = (app_params r)\<lparr>aw_id := aw_id w, aw_version := aw_version w\<rparr>"

text \<open>An UPDATE of one application, conditional on the version when one is given.\<close>

definition update_app_where ::
  "string \<Rightarrow> int option \<Rightarrow> (app_row \<Rightarrow> app_row) \<Rightarrow> application_record op" where
  "update_app_where i expected f s =
     (let p = (\<lambda>w. aw_id w = i \<and> (expected = None \<or> expected = Some (aw_version w)));
          s' = commit (s\<lparr>db_apps :=
                 update_where p (\<lambda>w. (f w)\<lparr>aw_version := aw_version w + 1\<rparr>) (db_apps s)\<rparr>)
      in if filter p (db_apps s) = []
         then (case find_app s i of
                 None \<Rightarrow> (raise_api NotFoundError (no_app i), s)
               | Some _ \<Rightarrow> (raise_api ConflictError (''Application '' @ repr_str i
                    @ '' version conflict (expected ''
                    @ (case expected of None \<Rightarrow> ''None'' | Some v \<Rightarrow> show_int v) @ '')''), s))
         else (case find_app s' i of
                 None \<Rightarrow> (Inl (Py AssertionError), s')
               | Some w \<Rightarrow> (app_from_row w, s')))"

definition update_application :: "application_record \<Rightarrow> int option \<Rightarrow> application_record op" where
  "update_application r expected = update_app_where (ap_id r) expected (app_columns r)"

text \<open>The named columns: their names and the values to write (\<open>None\<close> is SQL NULL).\<close>

datatype app_field =
    Text_field string
  | Null_field
  | List_field "string list"

definition application_fields :: "string list" where
  "application_fields =
     [''name'', ''description'', ''workload_id'', ''java_entrypoint'', ''target_runtime'',
      ''cobol_source_path'', ''java_candidate_path'', ''discovered_program_ids'',
      ''generated_app_path'', ''generated_entrypoint'', ''generated_program_ids'', ''created_at'']"

definition field_text :: "app_field \<Rightarrow> string \<Rightarrow> string" where
  "field_text v old = (case v of Text_field t \<Rightarrow> t | _ \<Rightarrow> old)"

definition field_opt :: "app_field \<Rightarrow> string option \<Rightarrow> string option" where
  "field_opt v old = (case v of Text_field t \<Rightarrow> Some t | Null_field \<Rightarrow> None | _ \<Rightarrow> old)"

definition field_list :: "app_field \<Rightarrow> string \<Rightarrow> string" where
  "field_list v old = (case v of List_field xs \<Rightarrow> encode_str_list xs
     | Null_field \<Rightarrow> encode_str_list [] | _ \<Rightarrow> old)"

definition set_column :: "string \<times> app_field \<Rightarrow> app_row \<Rightarrow> app_row" where
  "set_column = (\<lambda>(k, v) w.
     if k = ''name'' then w\<lparr>aw_name := field_text v (aw_name w)\<rparr>
     else if k = ''description'' then w\<lparr>aw_description := field_text v (aw_description w)\<rparr>
     else if k = ''workload_id'' then w\<lparr>aw_workload_id := field_text v (aw_workload_id w)\<rparr>
     else if k = ''java_entrypoint'' then w\<lparr>aw_java_entrypoint := field_text v (aw_java_entrypoint w)\<rparr>
     else if k = ''target_runtime'' then w\<lparr>aw_target_runtime := field_text v (aw_target_runtime w)\<rparr>
     else if k = ''cobol_source_path'' then w\<lparr>aw_cobol_source_path := field_opt v (aw_cobol_source_path w)\<rparr>
     else if k = ''java_candidate_path'' then w\<lparr>aw_java_candidate_path := field_opt v (aw_java_candidate_path w)\<rparr>
     else if k = ''discovered_program_ids''
     then w\<lparr>aw_discovered_program_ids := field_list v (aw_discovered_program_ids w)\<rparr>
     else if k = ''generated_app_path'' then w\<lparr>aw_generated_app_path := field_opt v (aw_generated_app_path w)\<rparr>
     else if k = ''generated_entrypoint''
     then w\<lparr>aw_generated_entrypoint := field_opt v (aw_generated_entrypoint w)\<rparr>
     else if k = ''generated_program_ids''
     then w\<lparr>aw_generated_program_ids := field_list v (aw_generated_program_ids w)\<rparr>
     else if k = ''created_at'' then w\<lparr>aw_created_at := field_text v (aw_created_at w)\<rparr>
     else w)"

text \<open>A list goes into a list column, NULL only into a nullable one; other values make the database
  driver raise, which is not modelled.\<close>

definition well_typed_change :: "string \<times> app_field \<Rightarrow> bool" where
  "well_typed_change = (\<lambda>(k, v). case v of
     Text_field _ \<Rightarrow> k \<notin> {''discovered_program_ids'', ''generated_program_ids''}
   | Null_field \<Rightarrow> k \<in> {''cobol_source_path'', ''java_candidate_path'', ''generated_app_path'',
       ''generated_entrypoint'', ''discovered_program_ids'', ''generated_program_ids''}
   | List_field _ \<Rightarrow> k \<in> {''discovered_program_ids'', ''generated_program_ids''})"

definition update_application_fields ::
  "string \<Rightarrow> int option \<Rightarrow> (string \<times> app_field) list \<Rightarrow> application_record op" where
  "update_application_fields i expected changes s =
     (let unknown = filter (\<lambda>k. k \<notin> set application_fields) (map fst changes) in
      if changes = []
      then (Inl (Py (ValueError ''update_application_fields requires at least one field'')), s)
      else if unknown \<noteq> []
      then (Inl (Py (ValueError (''unknown application column(s): '' @ show_str_list (sort unknown)))), s)
      else if \<not> list_all well_typed_change changes then (Inl Unmodelled, s)
      else update_app_where i expected (\<lambda>w. foldl (\<lambda>w' f. set_column f w') w changes) s)"

text \<open>\<open>WHERE name = ? LIMIT 1\<close>.\<close>

definition find_by_name :: "db \<Rightarrow> string \<Rightarrow> exn + application_record option" where
  "find_by_name s n =
     (case find (\<lambda>w. aw_name w = n) (db_apps s) of
        None \<Rightarrow> Inr None
      | Some w \<Rightarrow> bind_res (app_from_row w) (\<lambda>r. Inr (Some r)))"

definition find_application_by_name :: "string \<Rightarrow> application_record option op" where
  "find_application_by_name n s = (find_by_name s n, s)"

definition numbered :: "string \<Rightarrow> nat \<Rightarrow> string" where
  "numbered base n = base @ ''-'' @ show_nat n"

lemma numbered_inj: "numbered b m = numbered b n \<Longrightarrow> m = n"
  by (simp add: numbered_def) (rule show_nat_inj)

lemma finite_taken: "finite {k. numbered b k \<in> aw_name ` set rows}"
proof -
  have "inj (numbered b)" by (rule injI) (rule numbered_inj)
  then show ?thesis using finite_vimageI [of "aw_name ` set rows" "numbered b"] by (simp add: vimage_def)
qed

text \<open>The loop that tries the suffixes; it ends because only finitely many names are taken.\<close>

function next_suffix :: "db \<Rightarrow> string \<Rightarrow> nat \<Rightarrow> exn + nat" where
  "next_suffix s base n =
     (case find_by_name s (numbered base n) of
        Inl e \<Rightarrow> Inl e
      | Inr None \<Rightarrow> Inr n
      | Inr (Some _) \<Rightarrow> next_suffix s base (n + 1))"
  by pat_completeness auto

lemma find_by_name_Some: "find_by_name s n = Inr (Some r) \<Longrightarrow> n \<in> aw_name ` set (db_apps s)"
  by (auto simp: find_by_name_def find_Some_iff split: option.splits)

termination next_suffix
proof (relation "measure (\<lambda>(s, base, n). card {k. n \<le> k \<and> numbered base k \<in> aw_name ` set (db_apps s)})")
  fix s base n and r r' :: "application_record option" and a
  assume "find_by_name s (numbered base n) = Inr r" "r = Some a"
  then have t: "numbered base n \<in> aw_name ` set (db_apps s)" using find_by_name_Some by blast
  let ?T = "\<lambda>n. {k. n \<le> k \<and> numbered base k \<in> aw_name ` set (db_apps s)}"
  have "finite (?T n)" using finite_subset [OF _ finite_taken [of base "db_apps s"]] by auto
  moreover have "?T (n + 1) \<subset> ?T n"
  proof
    show "?T (n + 1) \<subseteq> ?T n" by auto
    have "n \<in> ?T n" "n \<notin> ?T (n + 1)" using t by simp_all
    then show "?T (n + 1) \<noteq> ?T n" by blast
  qed
  ultimately show "((s, base, n + 1), s, base, n)
      \<in> measure (\<lambda>(s, base, n). card {k. n \<le> k \<and> numbered base k \<in> aw_name ` set (db_apps s)})"
    by (simp add: psubset_card_mono)
qed simp

declare next_suffix.simps [simp del]

definition unique_name :: "string \<Rightarrow> string op" where
  "unique_name base s =
     (bind_res (find_by_name s base) (\<lambda>found.
        case found of
          None \<Rightarrow> Inr base
        | Some _ \<Rightarrow> bind_res (next_suffix s base 2) (\<lambda>n. Inr (numbered base n))), s)"

subsection \<open>Runs\<close>

text \<open>The columns and values of the INSERT.\<close>

definition new_run_row ::
  "run_record \<Rightarrow> bytes option \<times> bytes option \<times> bytes option \<Rightarrow> string option \<Rightarrow> run_row" where
  "new_run_row r = (\<lambda>(evidence, verdict, report) snapshot.
     \<lparr>rw_id = rr_id r, rw_application_id = rr_application_id r, rw_workload_id = rr_workload_id r,
      rw_stage = stage_value (rr_stage r), rw_created_at = rr_created_at r,
      rw_completed_at = rr_completed_at r, rw_error = rr_error r, rw_evidence_blob = evidence,
      rw_verdict_blob = verdict, rw_report_blob = report, rw_generation = rr_generation r,
      rw_contract = rr_contract r, rw_approval_state = rr_approval_state r,
      rw_approval_approver = rr_approval_approver r, rw_approval_reason = rr_approval_reason r,
      rw_approval_decided_at = rr_approval_decided_at r, rw_generated_seal = rr_generated_seal r,
      rw_last_stage = last_stage_anchor (rr_stage r) (rr_last_stage r),
      rw_source_path = rr_source_path r, rw_generated_app_path = rr_generated_app_path r,
      rw_generated_entrypoint = rr_generated_entrypoint r, rw_discovery_json = snapshot\<rparr>)"

definition add_run :: "run_record \<Rightarrow> run_record op" where
  "add_run r s =
     (case bind_res (run_params r) (\<lambda>blobs. bind_res (encode_snapshot (rr_discovery_snapshot r))
             (\<lambda>snapshot. Inr (new_run_row r blobs snapshot))) of
        Inl e \<Rightarrow> (Inl e, s)
      | Inr w \<Rightarrow>
          if find_run s (rr_id r) \<noteq> None
          then (raise_api ConflictError (''Run '' @ repr_str (rr_id r) @ '' already exists''), s)
          else (Inr r, commit (s\<lparr>db_runs := db_runs s @ [w]\<rparr>)))"

definition get_run :: "string \<Rightarrow> run_record option op" where
  "get_run i s =
     (case find_run s i of
        None \<Rightarrow> (Inr None, s)
      | Some w \<Rightarrow> (bind_res (run_from_row w) (\<lambda>r. Inr (Some r)), s))"

definition list_runs_for_application :: "string \<Rightarrow> run_record list op" where
  "list_runs_for_application app s =
     (traverse run_from_row
        (sort_key rw_created_at (sort_key rw_id (filter (\<lambda>w. rw_application_id w = app) (db_runs s)))), s)"

definition stale_update :: "string \<Rightarrow> string" where
  "stale_update i =
     ''Run '' @ repr_str i @ '' was reset by a newer validation attempt; discarding stale update''"

text \<open>The columns a worker's update sets.\<close>

definition run_columns ::
  "run_record \<Rightarrow> bytes option \<times> bytes option \<times> bytes option \<Rightarrow> run_row \<Rightarrow> run_row" where
  "run_columns r = (\<lambda>(evidence, verdict, report) w. w
     \<lparr>rw_application_id := rr_application_id r, rw_workload_id := rr_workload_id r,
      rw_stage := stage_value (rr_stage r), rw_created_at := rr_created_at r,
      rw_completed_at := rr_completed_at r, rw_error := rr_error r,
      rw_evidence_blob := evidence, rw_verdict_blob := verdict, rw_report_blob := report,
      rw_generation := rr_generation r, rw_contract := rr_contract r\<rparr>)"

definition update_run :: "bool \<Rightarrow> run_record \<Rightarrow> unit op" where
  "update_run allow_reset r s =
     (case find_run s (rr_id r) of
        None \<Rightarrow> (raise_api NotFoundError (no_run (rr_id r)), s)
      | Some w \<Rightarrow>
          (case parse_stage (rw_stage w) ''persisted run stage'' of
             Inl e \<Rightarrow> (Inl e, s)
           | Inr current \<Rightarrow>
               let target = rr_stage r in
               if rr_generation r \<noteq> rw_generation w
               then (raise_api ConflictError (stale_update (rr_id r)), s)
               else if \<not> allow_reset \<and> \<not> is_valid_transition current target
               then (raise_api InvalidStateTransitionError
                       (''invalid run state transition '' @ stage_value current @ '' -> ''
                        @ stage_value target), s)
               else
                 let anchor = last_stage_anchor target (rw_last_stage w);
                     s1 = (if anchor \<noteq> rw_last_stage w
                           then update_runs (\<lambda>x. rw_id x = rr_id r) (\<lambda>x. x\<lparr>rw_last_stage := anchor\<rparr>) s
                           else s)
                 in (case run_params r of
                       Inl e \<Rightarrow> (Inl e, s1)
                     | Inr blobs \<Rightarrow>
                         (Inr (), commit (update_runs (\<lambda>x. rw_id x = rr_id r) (run_columns r blobs) s1)))))"

subsection \<open>Approval\<close>

definition bound_to :: "string \<Rightarrow> int option \<Rightarrow> run_row \<Rightarrow> bool" where
  "bound_to i expected w \<longleftrightarrow> rw_id w = i \<and> (expected = None \<or> expected = Some (rw_generation w))"

definition set_run_approval ::
  "string \<Rightarrow> string \<Rightarrow> string \<Rightarrow> string \<Rightarrow> string option \<Rightarrow> int option \<Rightarrow> run_record op" where
  "set_run_approval now i state approver reason expected s =
     (if state \<notin> {''APPROVED'', ''REJECTED''}
      then (Inl (Py (ValueError (''invalid approval decision '' @ repr_str state))), s)
      else if filter (bound_to i expected) (db_runs s) = []
      then (case find_run (rollback s) i of
              None \<Rightarrow> (raise_api NotFoundError (no_run i), rollback s)
            | Some _ \<Rightarrow> (raise_api ConflictError (''Run '' @ repr_str i
                 @ '' was reset by a newer validation attempt after it was checked; ''
                 @ ''the decision was not recorded''), rollback s))
      else
        let s' = commit ((update_runs (bound_to i expected) (\<lambda>w. w
                    \<lparr>rw_approval_state := state, rw_approval_approver := Some approver,
                     rw_approval_reason := reason, rw_approval_decided_at := Some now\<rparr>) s)
                 \<lparr>db_events := db_events s @ [\<lparr>av_run_id = i, av_state = state,
                     av_approver = Some approver, av_reason = reason, av_recorded_at = now\<rparr>]\<rparr>)
        in (case find_run s' i of
              None \<Rightarrow> (Inl (Py AssertionError), s')
            | Some w \<Rightarrow> (run_from_row w, s')))"

definition approval_history :: "string \<Rightarrow> approval_event list op" where
  "approval_history i s = (Inr (filter (\<lambda>e. av_run_id e = i) (db_events s)), s)"

subsection \<open>Writes bound to an attempt\<close>

definition write_run ::
  "string \<Rightarrow> string \<Rightarrow> int option \<Rightarrow> (run_row \<Rightarrow> run_row) \<Rightarrow> unit op" where
  "write_run stale i expected f s =
     (if filter (bound_to i expected) (db_runs s) = []
      then (case find_run s i of
              None \<Rightarrow> (raise_api NotFoundError (no_run i), s)
            | Some _ \<Rightarrow> (raise_api ConflictError (''Run '' @ repr_str i
                 @ '' was reset by a newer validation attempt; discarding stale '' @ stale), s))
      else (Inr (), commit (update_runs (bound_to i expected) f s)))"

definition set_generated_seal :: "string \<Rightarrow> string \<Rightarrow> int option \<Rightarrow> unit op" where
  "set_generated_seal i seal expected =
     write_run ''seal'' i expected (\<lambda>w. w\<lparr>rw_generated_seal := Some seal\<rparr>)"

text \<open>\<open>_set_run_columns\<close>, for the two sets of columns its callers name.\<close>

definition set_run_columns :: "string \<Rightarrow> (run_row \<Rightarrow> run_row) \<Rightarrow> int option \<Rightarrow> unit op" where
  "set_run_columns i f expected = write_run ''write'' i expected f"

definition set_run_generated ::
  "string \<Rightarrow> string option \<Rightarrow> string option \<Rightarrow> int option \<Rightarrow> unit op" where
  "set_run_generated i generated_path entrypoint expected =
     set_run_columns i (\<lambda>w. w\<lparr>rw_generated_app_path := generated_path,
       rw_generated_entrypoint := entrypoint\<rparr>) expected"

definition set_run_discovery :: "string \<Rightarrow> json dict option \<Rightarrow> unit op" where
  "set_run_discovery i snapshot s =
     (case encode_snapshot snapshot of
        Inl e \<Rightarrow> (Inl e, s)
      | Inr text \<Rightarrow> set_run_columns i (\<lambda>w. w\<lparr>rw_discovery_json := text\<rparr>) None s)"

subsection \<open>Revalidation and restart\<close>

definition reset_row :: "int \<Rightarrow> string option \<Rightarrow> run_row \<Rightarrow> run_row" where
  "reset_row generation contract w = w
     \<lparr>rw_stage := stage_value CREATED, rw_completed_at := None, rw_error := None,
      rw_evidence_blob := None, rw_verdict_blob := None, rw_generation := generation,
      rw_contract := contract, rw_approval_state := ''PENDING'', rw_approval_approver := None,
      rw_approval_reason := None, rw_approval_decided_at := None, rw_generated_seal := None,
      rw_last_stage := None\<rparr>"

definition begin_revalidation :: "string \<Rightarrow> string \<Rightarrow> string option \<Rightarrow> run_record op" where
  "begin_revalidation now i contract s =
     (case find_run s i of
        None \<Rightarrow> (raise_api NotFoundError (no_run i), s)
      | Some w \<Rightarrow>
          (case parse_stage (rw_stage w) ''persisted run stage'' of
             Inl e \<Rightarrow> (Inl e, s)
           | Inr current \<Rightarrow>
               if current \<notin> set terminal_stages
               then (raise_api ConflictError (''Run '' @ repr_str i @ '' is not revalidatable: stage ''
                       @ stage_value current @ '' (only terminal runs are)''), s)
               else
                 let generation = rw_generation w + 1;
                     s1 = update_runs (\<lambda>x. rw_id x = i) (reset_row generation contract) s;
                     s2 = commit (if rw_approval_state w \<noteq> ''PENDING''
                           then s1\<lparr>db_events := db_events s1 @ [\<lparr>av_run_id = i, av_state = ''RESET'',
                                  av_approver = None,
                                  av_reason = Some (''revalidation generation '' @ show_int generation),
                                  av_recorded_at = now\<rparr>]\<rparr>
                           else s1)
                 in (case find_run s2 i of
                       None \<Rightarrow> (Inl (Py AssertionError), s2)
                     | Some x \<Rightarrow> (run_from_row x, s2))))"

definition is_terminal_text :: "string \<Rightarrow> bool" where
  "is_terminal_text t = (t \<in> set (map stage_value terminal_stages))"

definition mark_interrupted_runs :: "string \<Rightarrow> nat op" where
  "mark_interrupted_runs now s =
     (let rows = filter (\<lambda>w. \<not> is_terminal_text (rw_stage w)) (db_runs s) in
      if rows = [] then (Inr 0, s)
      else (Inr (length rows),
            commit (update_runs (\<lambda>w. rw_id w \<in> set (map rw_id rows))
              (\<lambda>w. w\<lparr>rw_stage := stage_value STAGE_FAILED, rw_completed_at := Some now,
                     rw_error := Some ''Interrupted by process restart before completion''\<rparr>) s)))"

end
