(* ===== verification/StoreFacts.thy ===== *)
theory StoreFacts
  imports Store
begin

text \<open>
  What single calls of the store guarantee. Its two tables share the optimistic-concurrency contract, the
  locale \<open>optimistic_table\<close>: a write bound to a token lands only on a row that still has it. It is
  interpreted on the application updates and on the writes that are bound to a validation attempt.
\<close>

subsection \<open>Rows\<close>

lemma find_Some_mem: "find P xs = Some x \<Longrightarrow> x \<in> set xs \<and> P x"
  by (induction xs) (auto split: if_splits)

lemma find_unique:
  assumes "distinct (map k xs)" "x \<in> set xs"
  shows "find (\<lambda>w. k w = k x) xs = Some x"
  using assms by (induction xs) auto

lemma find_update_where:
  assumes "\<And>w. k (f w) = k w"
  shows "find (\<lambda>w. k w = i) (update_where p f xs)
    = map_option (\<lambda>w. if p w then f w else w) (find (\<lambda>w. k w = i) xs)"
  using assms by (induction xs) (auto simp: update_where_def)

lemma keys_update_where: "(\<And>w. k (f w) = k w) \<Longrightarrow> map k (update_where p f xs) = map k xs"
  by (auto simp: update_where_def)

lemma set_update_where: "set (update_where p f xs) = (\<lambda>w. if p w then f w else w) ` set xs"
  by (simp add: update_where_def)

lemma filter_key_Nil:
  assumes "distinct (map k xs)"
  shows "filter (\<lambda>w. k w = i \<and> q w) xs = []
    \<longleftrightarrow> (case find (\<lambda>w. k w = i) xs of None \<Rightarrow> True | Some w \<Rightarrow> \<not> q w)"
proof (cases "find (\<lambda>w. k w = i) xs")
  case None
  then have "\<forall>x \<in> set xs. k x \<noteq> i" by (auto simp: find_None_iff)
  then show ?thesis unfolding None by (simp add: filter_empty_conv)
next
  case (Some w)
  then have w: "w \<in> set xs" "k w = i" by (auto dest: find_Some_mem)
  have u: "x = w" if "x \<in> set xs" "k x = i" for x
    using that w assms by (auto simp: distinct_map inj_on_def)
  have "filter (\<lambda>w. k w = i \<and> q w) xs = [] \<longleftrightarrow> \<not> q w"
    unfolding filter_empty_conv using w u by blast
  then show ?thesis unfolding Some by simp
qed

lemma db_frame [simp]:
  "db_apps (update_runs p f s) = db_apps s" "db_events (update_runs p f s) = db_events s"
  "db_committed (update_runs p f s) = db_committed s"
  "db_runs (update_runs p f s) = update_where p f (db_runs s)"
  "db_apps (commit s) = db_apps s" "db_events (commit s) = db_events s" "db_runs (commit s) = db_runs s"
  "db_committed (commit s) = db_runs s"
  "db_apps (rollback s) = db_apps s" "db_events (rollback s) = db_events s"
  "db_runs (rollback s) = db_committed s" "db_committed (rollback s) = db_committed s"
  by (simp_all add: update_runs_def commit_def rollback_def)

subsection \<open>Optimistic concurrency\<close>

locale optimistic_table =
  fixes inv :: "'s \<Rightarrow> bool"
    and row :: "'s \<Rightarrow> string \<Rightarrow> 'r option"
    and token :: "'r \<Rightarrow> int"
    and keeps_key :: "('r \<Rightarrow> 'r) \<Rightarrow> bool"
    and put :: "string \<Rightarrow> int option \<Rightarrow> ('r \<Rightarrow> 'r) \<Rightarrow> 's \<Rightarrow> (exn + 'a) \<times> 's"
    and post :: "('r \<Rightarrow> 'r) \<Rightarrow> 'r \<Rightarrow> 'r"
  assumes absent: "inv s \<Longrightarrow> row s i = None \<Longrightarrow> \<exists>d. put i e f s = (Inl (Api NotFoundError d), s)"
    and stale: "inv s \<Longrightarrow> row s i = Some w \<Longrightarrow> v \<noteq> token w \<Longrightarrow>
      \<exists>d. put i (Some v) f s = (Inl (Api ConflictError d), s)"
    and current: "inv s \<Longrightarrow> keeps_key f \<Longrightarrow> row s i = Some w \<Longrightarrow> e = None \<or> e = Some (token w) \<Longrightarrow>
      row (snd (put i e f s)) i = Some (post f w)"
    and frame: "inv s \<Longrightarrow> keeps_key f \<Longrightarrow> j \<noteq> i \<Longrightarrow> row (snd (put i e f s)) j = row s j"
    and put_inv: "inv s \<Longrightarrow> keeps_key f \<Longrightarrow> inv (snd (put i e f s))"
begin

text \<open>A bound put changes the table only when the token it carries is the row's.\<close>

lemma bound_write_effect:
  assumes "inv s" "keeps_key f" "row s i = Some w"
  shows "row (snd (put i (Some e) f s)) i = (if e = token w then Some (post f w) else Some w)"
  using current [OF assms, of "Some e"] stale [OF assms(1,3), of e f] assms(3)
  by (cases "e = token w") auto

lemma write_None: "inv s \<Longrightarrow> keeps_key f \<Longrightarrow> row (snd (put i e f s)) j = None \<longleftrightarrow> row s j = None"
proof (cases "j = i")
  case True
  assume a: "inv s" "keeps_key f"
  show ?thesis
  proof (cases "row s i")
    case None
    then show ?thesis using absent [OF a(1) None, of e f] True by auto
  next
    case (Some w)
    then show ?thesis
      using current [OF a Some, of e] stale [OF a(1) Some, of "the e" f] True Some
      by (cases "e = None \<or> e = Some (token w)") (auto, metis option.distinct(1) snd_conv)
  qed
qed (simp add: frame)

end

text \<open>A table whose writes also advance the token.\<close>

locale versioned_table = optimistic_table +
  assumes advances: "keeps_key f \<Longrightarrow> token (post f w) \<noteq> token w"
begin

text \<open>Of two writers that read the same row, the second is told so and changes nothing.\<close>

lemma no_lost_update:
  assumes "inv s" "keeps_key f" "row s i = Some w"
  shows "\<exists>d. put i (Some (token w)) g (snd (put i (Some (token w)) f s))
    = (Inl (Api ConflictError d), snd (put i (Some (token w)) f s))"
proof -
  have "row (snd (put i (Some (token w)) f s)) i = Some (post f w)"
    by (rule current [OF assms]) simp
  from stale [OF put_inv [OF assms(1,2)] this advances [OF assms(2), THEN not_sym]] show ?thesis .
qed

end

definition apps_ok :: "db \<Rightarrow> bool" where
  "apps_ok s \<longleftrightarrow> distinct (map aw_id (db_apps s))"

definition keeps_app_id :: "(app_row \<Rightarrow> app_row) \<Rightarrow> bool" where
  "keeps_app_id f \<longleftrightarrow> (\<forall>w. aw_id (f w) = aw_id w)"

definition app_written :: "(app_row \<Rightarrow> app_row) \<Rightarrow> app_row \<Rightarrow> app_row" where
  "app_written f w = (f w)\<lparr>aw_version := aw_version w + 1\<rparr>"

definition runs_ok :: "db \<Rightarrow> bool" where
  "runs_ok s \<longleftrightarrow> distinct (map rw_id (db_runs s))"

definition keeps_run_id :: "(run_row \<Rightarrow> run_row) \<Rightarrow> bool" where
  "keeps_run_id f \<longleftrightarrow> (\<forall>w. rw_id (f w) = rw_id w)"

lemma update_app_where_cases:
  assumes "apps_ok s"
  shows "find_app s i = None \<Longrightarrow> \<exists>d. update_app_where i e f s = (Inl (Api NotFoundError d), s)"
    and "find_app s i = Some w \<Longrightarrow> e \<noteq> None \<Longrightarrow> e \<noteq> Some (aw_version w) \<Longrightarrow>
      \<exists>d. update_app_where i e f s = (Inl (Api ConflictError d), s)"
    and "find_app s i = Some w \<Longrightarrow> e = None \<or> e = Some (aw_version w) \<Longrightarrow> keeps_app_id f \<Longrightarrow>
      update_app_where i e f s = (app_from_row (app_written f w), commit (s\<lparr>db_apps :=
        update_where (\<lambda>w. aw_id w = i \<and> (e = None \<or> e = Some (aw_version w))) (app_written f) (db_apps s)\<rparr>))"
proof -
  note n = filter_key_Nil [OF assms [unfolded apps_ok_def], of i "\<lambda>w. e = None \<or> e = Some (aw_version w)"]
  show "find_app s i = None \<Longrightarrow> \<exists>d. update_app_where i e f s = (Inl (Api NotFoundError d), s)"
    using n by (simp add: update_app_where_def find_app_def raise_api_def Let_def)
  show "find_app s i = Some w \<Longrightarrow> e \<noteq> None \<Longrightarrow> e \<noteq> Some (aw_version w) \<Longrightarrow>
      \<exists>d. update_app_where i e f s = (Inl (Api ConflictError d), s)"
    using n by (simp add: update_app_where_def find_app_def raise_api_def Let_def)
  assume w: "find_app s i = Some w" "e = None \<or> e = Some (aw_version w)" and k: "keeps_app_id f"
  have id: "aw_id (app_written f x) = aw_id x" for x
    using k by (simp add: app_written_def keeps_app_id_def)
  have "find_app (commit (s\<lparr>db_apps := update_where (\<lambda>w. aw_id w = i \<and> (e = None \<or> e = Some (aw_version w)))
        (app_written f) (db_apps s)\<rparr>)) i = Some (app_written f w)"
    using w find_Some_mem [OF w(1) [unfolded find_app_def]]
    by (simp add: find_app_def find_update_where [where k = aw_id, OF id])
  then show "update_app_where i e f s = (app_from_row (app_written f w), commit (s\<lparr>db_apps :=
        update_where (\<lambda>w. aw_id w = i \<and> (e = None \<or> e = Some (aw_version w))) (app_written f) (db_apps s)\<rparr>))"
    using n w by (simp add: update_app_where_def find_app_def Let_def app_written_def [abs_def])
qed

lemma find_key: "find_app s i = Some w \<Longrightarrow> aw_id w = i" "find_run s j = Some x \<Longrightarrow> rw_id x = j"
  by (auto simp: find_app_def find_run_def dest: find_Some_mem)

lemma app_written_id: "keeps_app_id f \<Longrightarrow> aw_id (app_written f w) = aw_id w"
  by (simp add: app_written_def keeps_app_id_def)

lemma find_app_updated:
  assumes "keeps_app_id f"
  shows "find_app (commit (s\<lparr>db_apps := update_where p (app_written f) (db_apps s)\<rparr>)) j
    = map_option (\<lambda>w. if p w then app_written f w else w) (find_app s j)"
  unfolding find_app_def using find_update_where [where k = aw_id, OF app_written_id [OF assms]] by simp

interpretation apps: versioned_table apps_ok find_app aw_version keeps_app_id update_app_where app_written
proof unfold_locales
  show "\<exists>d. update_app_where i e f s = (Inl (Api NotFoundError d), s)"
    if "apps_ok s" "find_app s i = None" for s i e f
    using update_app_where_cases(1) that .
  show "\<exists>d. update_app_where i (Some v) f s = (Inl (Api ConflictError d), s)"
    if "apps_ok s" "find_app s i = Some w" "v \<noteq> aw_version w" for s i w v f
    using update_app_where_cases(2) [OF that(1,2), of "Some v"] that(3) by simp
  show "find_app (snd (update_app_where i e f s)) i = Some (app_written f w)"
    if "apps_ok s" "keeps_app_id f" "find_app s i = Some w" "e = None \<or> e = Some (aw_version w)" for s f i w e
    unfolding update_app_where_cases(3) [OF that(1,3,4,2)] snd_conv find_app_updated [OF that(2)]
    using that(3,4) find_key(1) by simp
  show "find_app (snd (update_app_where i e f s)) j = find_app s j"
    if "apps_ok s" "keeps_app_id f" "j \<noteq> i" for s f j i e
  proof (cases "find_app s i")
    case (Some w)
    have other: "map_option (\<lambda>w. if aw_id w = i \<and> p w then g w else w) (find_app s j) = find_app s j" for p g
      using that(3) find_key(1) [of s j] by (cases "find_app s j") auto
    show ?thesis
    proof (cases "e = None \<or> e = Some (aw_version w)")
      case True
      show ?thesis
        unfolding update_app_where_cases(3) [OF that(1) Some True that(2)] snd_conv
          find_app_updated [OF that(2)] other ..
    next
      case False
      with update_app_where_cases(2) [OF that(1) Some, of e f] show ?thesis by auto
    qed
  qed (use update_app_where_cases(1) [OF that(1), of i e f] in auto)
  show "apps_ok (snd (update_app_where i e f s))" if "apps_ok s" "keeps_app_id f" for s f i e
  proof (cases "find_app s i")
    case (Some w)
    show ?thesis
    proof (cases "e = None \<or> e = Some (aw_version w)")
      case True
      show ?thesis
        unfolding update_app_where_cases(3) [OF that(1) Some True that(2)] snd_conv
        using that(1) keys_update_where [where k = aw_id, OF app_written_id [OF that(2)]]
        by (simp add: apps_ok_def)
    next
      case False
      with update_app_where_cases(2) [OF that(1) Some, of e f] that(1) show ?thesis by auto
    qed
  qed (use update_app_where_cases(1) [OF that(1), of i e f] that(1) in auto)
  show "aw_version (app_written f w) \<noteq> aw_version w" for f w by (simp add: app_written_def)
qed

lemma find_run_updated:
  assumes "keeps_run_id f"
  shows "find (\<lambda>w. rw_id w = j) (update_where p f xs)
    = map_option (\<lambda>w. if p w then f w else w) (find (\<lambda>w. rw_id w = j) xs)"
  by (rule find_update_where) (use assms in \<open>simp add: keeps_run_id_def\<close>)

lemma bound_to_Nil:
  assumes "runs_ok s"
  shows "filter (bound_to i e) (db_runs s) = [] \<longleftrightarrow>
    (case find_run s i of None \<Rightarrow> True | Some w \<Rightarrow> e \<noteq> None \<and> e \<noteq> Some (rw_generation w))"
  using filter_key_Nil [OF assms [unfolded runs_ok_def], of i "\<lambda>w. e = None \<or> e = Some (rw_generation w)"]
  by (simp add: bound_to_def [abs_def] find_run_def split: option.splits)

interpretation run_writes: optimistic_table runs_ok find_run rw_generation keeps_run_id "write_run stale"
    "\<lambda>f. f" for stale
proof unfold_locales
  show "\<exists>d. write_run stale i e f s = (Inl (Api NotFoundError d), s)"
    if "runs_ok s" "find_run s i = None" for s i e f
    using that bound_to_Nil [OF that(1), of i e] by (simp add: write_run_def raise_api_def)
  show "\<exists>d. write_run stale i (Some v) f s = (Inl (Api ConflictError d), s)"
    if "runs_ok s" "find_run s i = Some w" "v \<noteq> rw_generation w" for s i w v f
    using that bound_to_Nil [OF that(1), of i "Some v"] by (simp add: write_run_def raise_api_def)
  show "find_run (snd (write_run stale i e f s)) i = Some (f w)"
    if "runs_ok s" "keeps_run_id f" "find_run s i = Some w" "e = None \<or> e = Some (rw_generation w)" for s f i w e
    using that bound_to_Nil [OF that(1), of i e] find_key(2) [OF that(3)]
    by (auto simp: write_run_def find_run_def find_run_updated bound_to_def)
  show "find_run (snd (write_run stale i e f s)) j = find_run s j"
    if "runs_ok s" "keeps_run_id f" "j \<noteq> i" for s f j i e
  proof -
    have "map_option (\<lambda>w. if bound_to i e w then f w else w) (find_run s j) = find_run s j"
      using that(3) find_key(2) [of s j] by (cases "find_run s j") (auto simp: bound_to_def)
    then show ?thesis
      using that by (auto simp: write_run_def find_run_def find_run_updated split: option.splits)
  qed
  show "runs_ok (snd (write_run stale i e f s))" if "runs_ok s" "keeps_run_id f" for s f i e
  proof -
    have "map rw_id (update_where p f xs) = map rw_id xs" for p xs
      by (rule keys_update_where) (use that(2) in \<open>simp add: keeps_run_id_def\<close>)
    then show ?thesis
      using that by (auto simp: write_run_def runs_ok_def split: option.splits)
  qed
qed

text \<open>Two editors that read the same version of an application cannot overwrite each other: once
  one conditional update with that version has been applied, another one with it is rejected with
  \<open>ConflictError\<close> and leaves the database as it was, whatever either of them writes.\<close>
theorem stale_application_update_rejected:
  assumes "apps_ok s" "find_app s (ap_id r) = Some w" "ap_id r' = ap_id r"
  shows "\<exists>d. update_application r' (Some (aw_version w)) (snd (update_application r (Some (aw_version w)) s))
     = (Inl (Api ConflictError d), snd (update_application r (Some (aw_version w)) s))"
proof -
  have "keeps_app_id (app_columns r)" by (simp add: keeps_app_id_def app_columns_def)
  from apps.no_lost_update [OF assms(1) this assms(2), of "app_columns r'"] assms(3)
  show ?thesis by (simp add: update_application_def)
qed

definition sample_application :: application_record where
  "sample_application = \<lparr>ap_id = ''a1'', ap_name = ''Payroll'', ap_description = [],
     ap_workload_id = ''w1'', ap_java_entrypoint = ''Main'', ap_target_runtime = ''spring_boot'',
     ap_cobol_source_path = None, ap_java_candidate_path = None, ap_discovered_program_ids = [],
     ap_generated_app_path = None, ap_generated_entrypoint = None, ap_generated_program_ids = [],
     ap_created_at = ''t'', ap_version = 0\<rparr>"

definition sample_db :: db where
  "sample_db = snd (add_application sample_application empty_db)"

text \<open>Two updates of the one application of a small store.\<close>
lemma stale_application_update_rejected_witness:
  "\<exists>d. update_application (sample_application\<lparr>ap_name := ''B''\<rparr>) (Some 0)
      (snd (update_application (sample_application\<lparr>ap_name := ''A''\<rparr>) (Some 0) sample_db))
     = (Inl (Api ConflictError d),
        snd (update_application (sample_application\<lparr>ap_name := ''A''\<rparr>) (Some 0) sample_db))"
proof -
  have d: "db_apps sample_db = [app_params sample_application]"
    by (simp add: sample_db_def add_application_def empty_db_def find_app_def)
  have "apps_ok sample_db" by (simp add: apps_ok_def d)
  moreover have "find_app sample_db (ap_id (sample_application\<lparr>ap_name := ''A''\<rparr>)) = Some (app_params sample_application)"
    by (simp add: find_app_def d app_params_def sample_application_def)
  moreover have "ap_id (sample_application\<lparr>ap_name := ''B''\<rparr>) = ap_id (sample_application\<lparr>ap_name := ''A''\<rparr>)"
    by (simp add: sample_application_def)
  moreover have "aw_version (app_params sample_application) = 0"
    by (simp add: app_params_def sample_application_def)
  ultimately show ?thesis using stale_application_update_rejected by metis
qed

end
