(* ===== verification/StoreHistory.thy ===== *)
theory StoreHistory
  imports StoreFacts
begin

text \<open>
  Histories of store calls. \<open>store_step\<close> has one rule per method that changes the database, and one
  for the loss of the connection, which discards an open transaction. Runs are added fresh, as
  \<open>api/service.py\<close> does: generation 0 and no approval.
\<close>

subsection \<open>The step relation\<close>

definition fresh_run :: "run_record \<Rightarrow> bool" where
  "fresh_run r \<longleftrightarrow> rr_generation r = 0 \<and> rr_approval_state r = ''PENDING''
     \<and> rr_approval_approver r = None \<and> rr_approval_reason r = None \<and> rr_approval_decided_at r = None"

inductive store_step :: "db \<Rightarrow> db \<Rightarrow> bool" where
  step_add_application: "store_step s (snd (add_application a s))"
| step_update_application: "store_step s (snd (update_application a e s))"
| step_update_fields: "store_step s (snd (update_application_fields i e cs s))"
| step_add_run: "fresh_run r \<Longrightarrow> store_step s (snd (add_run r s))"
| step_update_run: "store_step s (snd (update_run False r s))"
| step_approval: "store_step s (snd (set_run_approval now i st approver reason e s))"
| step_seal: "store_step s (snd (set_generated_seal i seal e s))"
| step_generated: "store_step s (snd (set_run_generated i p q e s))"
| step_discovery: "store_step s (snd (set_run_discovery i snap s))"
| step_revalidate: "store_step s (snd (begin_revalidation now i contract s))"
| step_interrupt: "store_step s (snd (mark_interrupted_runs now s))"
| step_disconnect: "store_step s (rollback s)"

abbreviation store_steps :: "db \<Rightarrow> db \<Rightarrow> bool" where
  "store_steps \<equiv> store_step\<^sup>*\<^sup>*"

definition reachable :: "db \<Rightarrow> bool" where
  "reachable s \<longleftrightarrow> store_steps empty_db s"

subsection \<open>How one call may change the runs table\<close>

text \<open>
  Every call is one of these: it leaves the runs as they are, adds a fresh run, or rewrites rows
  within the attempt, decides, or resets for a new attempt.
\<close>

definition approval_of :: "approval_event list \<Rightarrow> string \<times> string option \<times> string option \<times> string option" where
  "approval_of evs = (case rev evs of
       [] \<Rightarrow> (''PENDING'', None, None, None)
     | e # _ \<Rightarrow> if av_state e = ''RESET'' then (''PENDING'', None, None, None)
                else (av_state e, av_approver e, av_reason e, Some (av_recorded_at e)))"

definition approval_columns :: "run_row \<Rightarrow> string \<times> string option \<times> string option \<times> string option" where
  "approval_columns w =
     (rw_approval_state w, rw_approval_approver w, rw_approval_reason w, rw_approval_decided_at w)"

definition events_of :: "db \<Rightarrow> string \<Rightarrow> approval_event list" where
  "events_of s i = filter (\<lambda>e. av_run_id e = i) (db_events s)"

definition forget_anchor :: "run_row \<Rightarrow> run_row" where
  "forget_anchor w = w\<lparr>rw_last_stage := None\<rparr>"

definition stage_step :: "string \<Rightarrow> string \<Rightarrow> bool" where
  "stage_step t t' \<longleftrightarrow> (\<exists>a b. t = stage_value a \<and> t' = stage_value b \<and> is_valid_transition a b)"

text \<open>A row is rewritten within its attempt: same run, same attempt, same approval, a permitted stage.\<close>

definition same_attempt :: "run_row \<Rightarrow> run_row \<Rightarrow> bool" where
  "same_attempt w w' \<longleftrightarrow> rw_id w' = rw_id w \<and> rw_generation w' = rw_generation w
     \<and> approval_columns w' = approval_columns w \<and> stage_step (rw_stage w) (rw_stage w')"

text \<open>The next attempt: from a terminal stage, with nothing of the old attempt's results.\<close>

definition next_attempt :: "run_row \<Rightarrow> run_row \<Rightarrow> bool" where
  "next_attempt w w' \<longleftrightarrow> rw_id w' = rw_id w \<and> rw_generation w' = rw_generation w + 1
     \<and> is_terminal_text (rw_stage w) \<and> rw_stage w' = ''CREATED''
     \<and> approval_columns w' = (''PENDING'', None, None, None)
     \<and> rw_evidence_blob w' = None \<and> rw_verdict_blob w' = None \<and> rw_generated_seal w' = None"

subsection \<open>The invariant\<close>

definition known_events :: "db \<Rightarrow> bool" where
  "known_events s \<longleftrightarrow> (\<forall>e \<in> set (db_events s). av_run_id e \<in> rw_id ` set (db_runs s)
     \<and> av_state e \<in> {''APPROVED'', ''REJECTED'', ''RESET''})"

definition store_inv :: "db \<Rightarrow> bool" where
  "store_inv s \<longleftrightarrow> runs_ok s
     \<and> (\<forall>w \<in> set (db_runs s). approval_columns w = approval_of (events_of s (rw_id w)))
     \<and> known_events s
     \<and> (\<forall>w \<in> set (db_runs s). \<exists>st. rw_stage w = stage_value st)
     \<and> map forget_anchor (db_runs s) = map forget_anchor (db_committed s)"

lemma store_invD:
  assumes "store_inv s"
  shows "runs_ok s" "w \<in> set (db_runs s) \<Longrightarrow> approval_columns w = approval_of (events_of s (rw_id w))"
    "known_events s" "w \<in> set (db_runs s) \<Longrightarrow> \<exists>st. rw_stage w = stage_value st"
    "map forget_anchor (db_runs s) = map forget_anchor (db_committed s)"
  using assms by (simp_all add: store_inv_def)

lemma empty_inv: "store_inv empty_db"
  by (simp add: store_inv_def empty_db_def runs_ok_def known_events_def)

lemma forget_anchor_simps [simp]:
  "rw_id (forget_anchor w) = rw_id w" "rw_generation (forget_anchor w) = rw_generation w"
  "rw_stage (forget_anchor w) = rw_stage w" "approval_columns (forget_anchor w) = approval_columns w"
  by (simp_all add: forget_anchor_def approval_columns_def)

text \<open>Facts about rows that do not mention the anchor carry over to the committed table.\<close>

lemma anchor_map:
  assumes "map forget_anchor xs = map forget_anchor ys" "\<And>w. f (forget_anchor w) = f w"
  shows "map f xs = map f ys"
proof -
  have "map f zs = map f (map forget_anchor zs)" for zs by (simp add: assms(2))
  then show ?thesis using assms(1) by metis
qed

lemma update_where_keeps:
  "(\<And>w. g (f w) = g w) \<Longrightarrow> map g (update_where p f xs) = map g xs"
  by (rule keys_update_where)

lemma stage_value_inj: "stage_value a = stage_value b \<Longrightarrow> a = b"
  by (cases a; cases b) simp_all

lemma parse_stage_value: "parse_stage (stage_value a) loc = Inr a"
  by (cases a) (simp_all add: parse_stage_def all_stages_def)

lemma parse_stage_Inr: "parse_stage t loc = Inr a \<Longrightarrow> t = stage_value a"
  by (auto simp: parse_stage_def split: option.splits dest: find_Some_mem)

lemma valid_refl [simp]: "is_valid_transition a a"
  by (simp add: is_valid_transition_def)

lemma stage_step_refl: "stage_step (stage_value a) (stage_value a)"
  unfolding stage_step_def using valid_refl by blast

lemma is_terminal_text_iff: "is_terminal_text (stage_value a) \<longleftrightarrow> a \<in> set terminal_stages"
  by (auto simp: is_terminal_text_def dest: stage_value_inj)

subsection \<open>Kinds of change\<close>

text \<open>A run as it may be after one more call.\<close>

definition run_evolves :: "run_row \<Rightarrow> run_row \<Rightarrow> bool" where
  "run_evolves w w' \<longleftrightarrow>
     rw_generation w' = rw_generation w \<and> stage_step (rw_stage w) (rw_stage w') \<or> next_attempt w w'"

definition runs_evolve :: "db \<Rightarrow> db \<Rightarrow> bool" where
  "runs_evolve s s' \<longleftrightarrow>
     (\<forall>i w. find_run s i = Some w \<longrightarrow> (\<exists>w'. find_run s' i = Some w' \<and> run_evolves w w'))
     \<and> (\<exists>evs. db_events s' = db_events s @ evs)"

lemma evolve_refl: "store_inv s \<Longrightarrow> db_runs s' = db_runs s \<Longrightarrow> db_events s' = db_events s \<Longrightarrow> runs_evolve s s'"
  unfolding runs_evolve_def run_evolves_def find_run_def
  using store_invD(4) stage_step_refl find_Some_mem by (metis append_Nil2)

definition step_ok :: "db \<Rightarrow> db \<Rightarrow> bool" where
  "step_ok s s' \<longleftrightarrow> store_inv s' \<and> runs_evolve s s'"

lemma unchanged_ok:
  assumes "store_inv s" "db_runs s' = db_runs s" "db_events s' = db_events s"
    "map forget_anchor (db_committed s') = map forget_anchor (db_runs s)"
  shows "step_ok s s'"
  using assms evolve_refl [OF assms(1-3)]
  by (simp add: step_ok_def store_inv_def runs_ok_def known_events_def events_of_def)

lemma step_ok_refl: "store_inv s \<Longrightarrow> step_ok s s"
  by (rule unchanged_ok) (simp_all add: store_invD(5))

lemma commit_ok: "store_inv s \<Longrightarrow> step_ok s (commit (s\<lparr>db_apps := a\<rparr>))"
  by (rule unchanged_ok) simp_all

lemma same_attempt_refl: "store_inv s \<Longrightarrow> w \<in> set (db_runs s) \<Longrightarrow> same_attempt w w"
  using store_invD(4) stage_step_refl by (fastforce simp: same_attempt_def)

lemma find_run_mem: "find_run s i = Some w \<Longrightarrow> w \<in> set (db_runs s) \<and> rw_id w = i"
  unfolding find_run_def by (rule find_Some_mem)

text \<open>Rows rewritten within their attempt.\<close>

lemma rows_ok:
  assumes inv: "store_inv s" and id: "keeps_run_id f"
    and runs: "db_runs s' = update_where p f (db_runs s)" and ev: "db_events s' = db_events s"
    and same: "\<And>w. w \<in> set (db_runs s) \<Longrightarrow> p w \<Longrightarrow> same_attempt w (f w)"
    and com: "map forget_anchor (db_committed s') = map forget_anchor (db_runs s')"
  shows "step_ok s s'"
proof -
  have ids: "map rw_id (db_runs s') = map rw_id (db_runs s)"
    unfolding runs by (rule keys_update_where) (use id in \<open>simp add: keeps_run_id_def\<close>)
  have sa: "same_attempt w (if p w then f w else w)" if "w \<in> set (db_runs s)" for w
    using same [OF that] same_attempt_refl [OF inv that] by simp
  have "store_inv s'"
    unfolding store_inv_def
  proof (intro conjI ballI)
    show "runs_ok s'" using store_invD(1) [OF inv] ids by (simp add: runs_ok_def)
    show "map forget_anchor (db_runs s') = map forget_anchor (db_committed s')" using com ..
    have "rw_id ` set (db_runs s') = rw_id ` set (db_runs s)"
      using arg_cong [OF ids, of set] by simp
    then show "known_events s'" using store_invD(3) [OF inv] ev by (simp add: known_events_def)
    fix w' assume "w' \<in> set (db_runs s')"
    then obtain w where w: "w \<in> set (db_runs s)" "w' = (if p w then f w else w)"
      unfolding runs set_update_where by blast
    with sa [OF w(1)] have s: "same_attempt w w'" by simp
    show "approval_columns w' = approval_of (events_of s' (rw_id w'))"
      using s store_invD(2) [OF inv w(1)] ev by (simp add: same_attempt_def events_of_def)
    show "\<exists>st. rw_stage w' = stage_value st"
      using s by (auto simp: same_attempt_def stage_step_def)
  qed
  moreover have "\<exists>w'. find_run s' i = Some w' \<and> run_evolves w w'" if "find_run s i = Some w" for i w
  proof -
    have "find_run s' i = Some (if p w then f w else w)"
      using that unfolding find_run_def runs find_run_updated [OF id] by simp
    with sa find_run_mem [OF that] show ?thesis
      by (auto simp: run_evolves_def same_attempt_def)
  qed
  ultimately show ?thesis unfolding step_ok_def runs_evolve_def using ev by auto
qed

text \<open>One row gets a new approval together with the event that explains it; everything else about
  its attempt is given by \<open>evolves\<close>.\<close>

lemma decided_ok:
  assumes inv: "store_inv s" and id: "keeps_run_id f" and w: "find_run s i = Some w"
    and runs: "db_runs s' = update_where (\<lambda>x. rw_id x = i) f (db_runs s)"
    and ev: "db_events s' = db_events s @ evs" "\<forall>e \<in> set evs. av_run_id e = i
       \<and> av_state e \<in> {''APPROVED'', ''REJECTED'', ''RESET''}"
    and app: "approval_columns (f w) = approval_of (events_of s i @ evs)"
    and evolves: "run_evolves w (f w)" "\<exists>st. rw_stage (f w) = stage_value st"
    and com: "db_committed s' = db_runs s'"
  shows "step_ok s s'"
proof -
  have ids: "map rw_id (db_runs s') = map rw_id (db_runs s)"
    unfolding runs by (rule keys_update_where) (use id in \<open>simp add: keeps_run_id_def\<close>)
  have only: "x = w" if "x \<in> set (db_runs s)" "rw_id x = i" for x
    using that find_run_mem [OF w] store_invD(1) [OF inv] by (auto simp: runs_ok_def distinct_map inj_on_def)
  have evs: "events_of s' j = events_of s j @ (if j = i then evs else [])" for j
    using ev by (auto simp: events_of_def filter_empty_conv)
  have "store_inv s'"
    unfolding store_inv_def
  proof (intro conjI ballI)
    show "runs_ok s'" using store_invD(1) [OF inv] ids by (simp add: runs_ok_def)
    show "map forget_anchor (db_runs s') = map forget_anchor (db_committed s')" using com by simp
    have ids': "rw_id ` set (db_runs s') = rw_id ` set (db_runs s)"
      using arg_cong [OF ids, of set] by simp
    have "i \<in> rw_id ` set (db_runs s)" using find_run_mem [OF w] by blast
    with ids' show "known_events s'" using store_invD(3) [OF inv] ev by (auto simp: known_events_def)
    fix y assume "y \<in> set (db_runs s')"
    then obtain x where x: "x \<in> set (db_runs s)" "y = (if rw_id x = i then f x else x)"
      unfolding runs set_update_where by blast
    have idf: "rw_id (f x) = rw_id x" using id by (simp add: keeps_run_id_def)
    show "approval_columns y = approval_of (events_of s' (rw_id y))"
      using x only [of x] app store_invD(2) [OF inv x(1)] idf by (cases "rw_id x = i") (auto simp: evs)
    show "\<exists>st. rw_stage y = stage_value st"
      using x only [of x] evolves(2) store_invD(4) [OF inv x(1)] by (cases "rw_id x = i") auto
  qed
  moreover have "\<exists>y'. find_run s' j = Some y' \<and> run_evolves y y'" if "find_run s j = Some y" for j y
  proof -
    have f: "find_run s' j = Some (if rw_id y = i then f y else y)"
      using that unfolding find_run_def runs find_run_updated [OF id] by simp
    show ?thesis
    proof (cases "rw_id y = i")
      case True
      with only find_run_mem [OF that] have "y = w" by blast
      with f True evolves(1) show ?thesis by simp
    next
      case False
      with f same_attempt_refl [OF inv] find_run_mem [OF that] show ?thesis
        by (auto simp: run_evolves_def same_attempt_def)
    qed
  qed
  ultimately show ?thesis unfolding step_ok_def runs_evolve_def using ev(1) by blast
qed

lemma rollback_ok:
  assumes inv: "store_inv s"
  shows "step_ok s (rollback s)"
proof -
  note a = store_invD(5) [OF inv]
  have ids: "map rw_id (db_committed s) = map rw_id (db_runs s)"
    and app: "map approval_columns (db_committed s) = map approval_columns (db_runs s)"
    and gs: "map (\<lambda>w. (rw_id w, rw_generation w, rw_stage w, approval_columns w)) (db_committed s)
      = map (\<lambda>w. (rw_id w, rw_generation w, rw_stage w, approval_columns w)) (db_runs s)"
    by (rule anchor_map [OF a [symmetric]]; simp)+
  have len: "length (db_committed s) = length (db_runs s)" using ids map_eq_imp_length_eq by blast
  have nth: "rw_id (db_committed s ! k) = rw_id (db_runs s ! k)
      \<and> rw_generation (db_committed s ! k) = rw_generation (db_runs s ! k)
      \<and> rw_stage (db_committed s ! k) = rw_stage (db_runs s ! k)
      \<and> approval_columns (db_committed s ! k) = approval_columns (db_runs s ! k)"
    if "k < length (db_runs s)" for k
    using arg_cong [OF gs, of "\<lambda>xs. xs ! k"] that len by simp
  have d: "distinct (map rw_id (db_committed s))" using store_invD(1) [OF inv] ids by (simp add: runs_ok_def)
  have twin: "\<exists>y \<in> set (db_runs s). rw_id x = rw_id y \<and> rw_generation x = rw_generation y
      \<and> rw_stage x = rw_stage y \<and> approval_columns x = approval_columns y" if "x \<in> set (db_committed s)" for x
    using that nth len by (metis in_set_conv_nth)
  have "store_inv (rollback s)"
    unfolding store_inv_def
  proof (intro conjI ballI)
    show "runs_ok (rollback s)" using d by (simp add: runs_ok_def)
    show "map forget_anchor (db_runs (rollback s)) = map forget_anchor (db_committed (rollback s))" by simp
    have "rw_id ` set (db_committed s) = rw_id ` set (db_runs s)" using arg_cong [OF ids, of set] by simp
    then show "known_events (rollback s)" using store_invD(3) [OF inv] by (simp add: known_events_def)
    fix x assume "x \<in> set (db_runs (rollback s))"
    then obtain y where y: "y \<in> set (db_runs s)" "rw_id x = rw_id y" "rw_stage x = rw_stage y"
      "approval_columns x = approval_columns y" using twin [of x] by auto
    show "approval_columns x = approval_of (events_of (rollback s) (rw_id x))"
      using store_invD(2) [OF inv y(1)] y by (simp add: events_of_def)
    show "\<exists>st. rw_stage x = stage_value st" using store_invD(4) [OF inv y(1)] y by simp
  qed
  moreover have "\<exists>x. find_run (rollback s) i = Some x \<and> run_evolves w x" if "find_run s i = Some w" for i w
  proof -
    from find_run_mem [OF that] obtain k where k: "k < length (db_runs s)" "db_runs s ! k = w" "rw_id w = i"
      by (metis in_set_conv_nth)
    let ?x = "db_committed s ! k"
    have "?x \<in> set (db_committed s)" "rw_id ?x = i" using k len nth [OF k(1)] by simp_all
    with d have "find_run (rollback s) i = Some ?x"
      unfolding find_run_def by (metis db_frame(11) find_unique)
    moreover have "run_evolves w ?x"
      using nth [OF k(1)] k store_invD(4) [OF inv, of w] stage_step_refl find_run_mem [OF that]
      by (auto simp: run_evolves_def)
    ultimately show ?thesis by blast
  qed
  ultimately show ?thesis by (simp add: step_ok_def runs_evolve_def)
qed

subsection \<open>Every call keeps the invariant\<close>

named_theorems call_ok \<open>one call on a store with the invariant\<close>

lemma add_application_ok [call_ok]: "store_inv s \<Longrightarrow> step_ok s (snd (add_application a s))"
  by (simp add: add_application_def step_ok_refl commit_ok)

lemma update_app_where_ok: "store_inv s \<Longrightarrow> step_ok s (snd (update_app_where i e f s))"
  by (simp add: update_app_where_def Let_def step_ok_refl commit_ok split: option.split)

lemma update_application_ok [call_ok]: "store_inv s \<Longrightarrow> step_ok s (snd (update_application a e s))"
  by (simp add: update_application_def update_app_where_ok)

lemma update_fields_ok [call_ok]: "store_inv s \<Longrightarrow> step_ok s (snd (update_application_fields i e cs s))"
  by (simp add: update_application_fields_def Let_def step_ok_refl update_app_where_ok)

lemma write_run_ok:
  assumes "store_inv s" "keeps_run_id f"
    and "\<And>w. rw_generation (f w) = rw_generation w \<and> rw_stage (f w) = rw_stage w
        \<and> approval_columns (f w) = approval_columns w"
  shows "step_ok s (snd (write_run stale i e f s))"
proof (cases "filter (bound_to i e) (db_runs s) = []")
  case True
  then show ?thesis using assms(1) by (simp add: write_run_def step_ok_refl split: option.split)
next
  case False
  have "step_ok s (commit (update_runs (bound_to i e) f s))"
  proof (rule rows_ok [OF assms(1,2)])
    show "db_runs (commit (update_runs (bound_to i e) f s)) = update_where (bound_to i e) f (db_runs s)"
      "db_events (commit (update_runs (bound_to i e) f s)) = db_events s"
      "map forget_anchor (db_committed (commit (update_runs (bound_to i e) f s)))
        = map forget_anchor (db_runs (commit (update_runs (bound_to i e) f s)))" by simp_all
    show "same_attempt w (f w)" if "w \<in> set (db_runs s)" for w
      using assms(2,3) same_attempt_refl [OF assms(1) that]
      by (simp add: same_attempt_def keeps_run_id_def)
  qed
  then show ?thesis using False by (simp add: write_run_def)
qed

lemma set_generated_seal_ok [call_ok]: "store_inv s \<Longrightarrow> step_ok s (snd (set_generated_seal i seal e s))"
  unfolding set_generated_seal_def
  by (rule write_run_ok) (simp_all add: keeps_run_id_def approval_columns_def)

lemma set_run_generated_ok [call_ok]: "store_inv s \<Longrightarrow> step_ok s (snd (set_run_generated i p q e s))"
  unfolding set_run_generated_def set_run_columns_def
  by (rule write_run_ok) (simp_all add: keeps_run_id_def approval_columns_def)

lemma set_run_discovery_ok [call_ok]: "store_inv s \<Longrightarrow> step_ok s (snd (set_run_discovery i snap s))"
proof -
  assume inv: "store_inv s"
  have "step_ok s (snd (set_run_columns i (\<lambda>w. w\<lparr>rw_discovery_json := t\<rparr>) None s))" for t
    unfolding set_run_columns_def
    by (rule write_run_ok [OF inv]) (simp_all add: keeps_run_id_def approval_columns_def)
  then show ?thesis
    using step_ok_refl [OF inv] by (simp add: set_run_discovery_def split: sum.split)
qed

lemma add_run_ok [call_ok]:
  assumes inv: "store_inv s" and fresh: "fresh_run r"
  shows "step_ok s (snd (add_run r s))"
proof (cases "add_run r s")
  case (Pair res s')
  show ?thesis
  proof (cases "s' = s")
    case True
    then show ?thesis using Pair step_ok_refl [OF inv] by simp
  next
    case False
    with Pair obtain w blobs snap where none: "find_run s (rr_id r) = None"
      and nw: "w = new_run_row r blobs snap" and s': "s' = commit (s\<lparr>db_runs := db_runs s @ [w]\<rparr>)"
      by (auto simp: add_run_def bind_res_eq_Inr split: sum.splits if_splits)
    have w: "rw_id w = rr_id r" "rw_stage w = stage_value (rr_stage r)"
        "approval_columns w = (''PENDING'', None, None, None)"
      using fresh by (cases blobs; simp add: nw new_run_row_def fresh_run_def approval_columns_def)+
    have new: "rr_id r \<notin> rw_id ` set (db_runs s)"
      using none by (auto simp: find_run_def find_None_iff)
    then have noev: "events_of s (rr_id r) = []"
      using store_invD(3) [OF inv] unfolding events_of_def known_events_def filter_empty_conv by metis
    have "store_inv s'"
      unfolding store_inv_def
    proof (intro conjI ballI)
      show "runs_ok s'" using store_invD(1) [OF inv] new w by (simp add: s' runs_ok_def)
      show "map forget_anchor (db_runs s') = map forget_anchor (db_committed s')" by (simp add: s')
      show "known_events s'" using store_invD(3) [OF inv] by (auto simp: s' known_events_def)
      fix x assume "x \<in> set (db_runs s')"
      then have x: "x \<in> set (db_runs s) \<or> x = w" by (auto simp: s')
      show "approval_columns x = approval_of (events_of s' (rw_id x))"
        using x w noev store_invD(2) [OF inv, of x] by (auto simp: s' events_of_def approval_of_def)
      show "\<exists>st. rw_stage x = stage_value st" using x w store_invD(4) [OF inv, of x] by auto
    qed
    moreover have "find_run s' i = Some y" if "find_run s i = Some y" for i y
    proof -
      have "find P (xs @ ys) = Some y" if "find P xs = Some y" for P xs and ys :: "run_row list"
        using that by (induction xs) (auto split: if_splits)
      with that show ?thesis by (simp add: s' find_run_def)
    qed
    moreover have "run_evolves y y" if "find_run s i = Some y" for i y
      using find_run_mem [OF that] same_attempt_refl [OF inv] by (auto simp: run_evolves_def same_attempt_def)
    moreover have "db_events s' = db_events s @ []" by (simp add: s')
    ultimately have "step_ok s s'" unfolding step_ok_def runs_evolve_def by blast
    then show ?thesis using Pair by simp
  qed
qed

lemma update_run_ok [call_ok]:
  assumes inv: "store_inv s"
  shows "step_ok s (snd (update_run False r s))"
proof (cases "update_run False r s")
  case (Pair res s')
  show ?thesis
  proof (cases "s' = s")
    case True
    then show ?thesis using Pair step_ok_refl [OF inv] by simp
  next
    case False
    then obtain w cur where w: "find_run s (rr_id r) = Some w"
      and cur: "parse_stage (rw_stage w) ''persisted run stage'' = Inr cur"
      and gen: "rr_generation r = rw_generation w" and val: "is_valid_transition cur (rr_stage r)"
      using Pair by (auto simp: update_run_def Let_def split: option.splits sum.splits if_splits)
    let ?p = "\<lambda>x. rw_id x = rr_id r" and ?a = "last_stage_anchor (rr_stage r) (rw_last_stage w)"
    let ?g = "\<lambda>x. x\<lparr>rw_last_stage := ?a\<rparr>"
    let ?s1 = "if ?a \<noteq> rw_last_stage w then update_runs ?p ?g s else s"
    have only: "x = w" if "x \<in> set (db_runs s)" "rw_id x = rr_id r" for x
      using that find_run_mem [OF w] store_invD(1) [OF inv] by (auto simp: runs_ok_def distinct_map inj_on_def)
    have s1: "db_runs ?s1 = update_where ?p (if ?a \<noteq> rw_last_stage w then ?g else id) (db_runs s)"
      by (simp add: update_where_def map_idI)
    show ?thesis
    proof (cases "run_params r")
      case (Inl e)
      then have s': "s' = ?s1"
        using Pair w cur gen val by (auto simp: update_run_def Let_def)
      have "step_ok s ?s1"
      proof (rule rows_ok [OF inv _ s1])
        show "keeps_run_id (if ?a \<noteq> rw_last_stage w then ?g else id)" by (simp add: keeps_run_id_def)
        show "db_events ?s1 = db_events s" by simp
        show "same_attempt x ((if ?a \<noteq> rw_last_stage w then ?g else id) x)"
          if "x \<in> set (db_runs s)" for x
          using same_attempt_refl [OF inv that] by (simp add: same_attempt_def approval_columns_def)
        have "map forget_anchor (db_runs ?s1) = map forget_anchor (db_runs s)"
          by (simp add: update_where_def forget_anchor_def)
        then show "map forget_anchor (db_committed ?s1) = map forget_anchor (db_runs ?s1)"
          using store_invD(5) [OF inv] by simp
      qed
      then show ?thesis using Pair s' by simp
    next
      case (Inr blobs)
      let ?f = "\<lambda>x. run_columns r blobs ((if ?a \<noteq> rw_last_stage w then ?g else id) x)"
      have s': "s' = commit (update_runs ?p (run_columns r blobs) ?s1)"
        using Pair w cur gen val Inr by (auto simp: update_run_def Let_def)
      obtain ev ve rp where b: "blobs = (ev, ve, rp)" by (cases blobs) auto
      have ids: "rw_id (run_columns r blobs x) = rw_id x" for x by (simp add: run_columns_def b)
      have "step_ok s s'"
      proof (rule rows_ok [OF inv])
        show "keeps_run_id ?f" by (simp add: keeps_run_id_def ids)
        show "db_runs s' = update_where ?p ?f (db_runs s)"
          by (simp add: s' update_where_def)
        show "db_events s' = db_events s" by (simp add: s')
        show "same_attempt x (?f x)" if "x \<in> set (db_runs s)" "rw_id x = rr_id r" for x
        proof -
          have "x = w" using only that .
          moreover have "stage_step (rw_stage w) (stage_value (rr_stage r))"
            using parse_stage_Inr [OF cur] val by (auto simp: stage_step_def)
          ultimately show ?thesis
            using gen by (simp add: same_attempt_def run_columns_def b approval_columns_def)
        qed
        show "map forget_anchor (db_committed s') = map forget_anchor (db_runs s')" by (simp add: s')
      qed
      then show ?thesis using Pair by simp
    qed
  qed
qed

lemma approval_ok [call_ok]:
  assumes inv: "store_inv s"
  shows "step_ok s (snd (set_run_approval now i st approver reason e s))"
proof (cases "st \<in> {''APPROVED'', ''REJECTED''} \<and> filter (bound_to i e) (db_runs s) \<noteq> []")
  case False
  then show ?thesis
    using step_ok_refl [OF inv] rollback_ok [OF inv]
    by (auto simp: set_run_approval_def raise_api_def split: option.split)
next
  case True
  then obtain w where w: "find_run s i = Some w" and e: "e = None \<or> e = Some (rw_generation w)"
    using bound_to_Nil [OF store_invD(1) [OF inv], of i e] by (auto split: option.splits)
  let ?f = "\<lambda>w. w\<lparr>rw_approval_state := st, rw_approval_approver := Some approver,
      rw_approval_reason := reason, rw_approval_decided_at := Some now\<rparr>"
  let ?ev = "\<lparr>av_run_id = i, av_state = st, av_approver = Some approver, av_reason = reason, av_recorded_at = now\<rparr>"
  let ?s = "commit ((update_runs (bound_to i e) ?f s)\<lparr>db_events := db_events s @ [?ev]\<rparr>)"
  have only: "x = w" if "x \<in> set (db_runs s)" "rw_id x = i" for x
    using that find_run_mem [OF w] store_invD(1) [OF inv] by (auto simp: runs_ok_def distinct_map inj_on_def)
  have s: "snd (set_run_approval now i st approver reason e s) = ?s"
    using True by (auto simp: set_run_approval_def Let_def split: option.split)
  have "step_ok s ?s"
  proof (rule decided_ok [OF inv _ w, where f = ?f and evs = "[?ev]"])
    show "keeps_run_id ?f" by (simp add: keeps_run_id_def)
    show "db_runs ?s = update_where (\<lambda>x. rw_id x = i) ?f (db_runs s)"
      using only e by (auto simp: update_where_def bound_to_def)
    show "db_events ?s = db_events s @ [?ev]" by simp
    show "\<forall>e \<in> set [?ev]. av_run_id e = i \<and> av_state e \<in> {''APPROVED'', ''REJECTED'', ''RESET''}"
      using True by auto
    show "approval_columns (?f w) = approval_of (events_of s i @ [?ev])"
      using True by (auto simp: approval_columns_def approval_of_def)
    show "run_evolves w (?f w)" "\<exists>st. rw_stage (?f w) = stage_value st"
      using store_invD(4) [OF inv, of w] find_run_mem [OF w] stage_step_refl by (auto simp: run_evolves_def)
    show "db_committed ?s = db_runs ?s" by simp
  qed
  then show ?thesis by (simp only: s)
qed

lemma pending_no_event:
  assumes inv: "store_inv s" and w: "find_run s i = Some w" and p: "rw_approval_state w = ''PENDING''"
  shows "approval_of (events_of s i) = (''PENDING'', None, None, None)"
proof (cases "rev (events_of s i)")
  case (Cons e es)
  then have "e \<in> set (events_of s i)" by (metis list.set_intros(1) set_rev)
  then have "av_state e \<noteq> ''PENDING''"
    using store_invD(3) [OF inv] by (auto simp: events_of_def known_events_def)
  then show ?thesis
    using store_invD(2) [OF inv, of w] find_run_mem [OF w] p Cons
    by (auto simp: approval_of_def approval_columns_def split: if_splits)
qed (simp add: approval_of_def)

lemma revalidation_ok [call_ok]:
  assumes inv: "store_inv s"
  shows "step_ok s (snd (begin_revalidation now i contract s))"
proof (cases "find_run s i")
  case None
  then show ?thesis using step_ok_refl [OF inv] by (simp add: begin_revalidation_def)
next
  case (Some w)
  obtain st where st: "rw_stage w = stage_value st"
    using store_invD(4) [OF inv] find_run_mem [OF Some] by blast
  show ?thesis
  proof (cases "st \<in> set terminal_stages")
    case False
    then show ?thesis
      using step_ok_refl [OF inv] Some st by (simp add: begin_revalidation_def parse_stage_value)
  next
    case True
    let ?f = "reset_row (rw_generation w + 1) contract"
    let ?ev = "\<lparr>av_run_id = i, av_state = ''RESET'', av_approver = None,
        av_reason = Some (''revalidation generation '' @ show_int (rw_generation w + 1)), av_recorded_at = now\<rparr>"
    let ?evs = "if rw_approval_state w \<noteq> ''PENDING'' then [?ev] else []"
    let ?s1 = "update_runs (\<lambda>x. rw_id x = i) ?f s"
    let ?s = "commit (if rw_approval_state w \<noteq> ''PENDING'' then ?s1\<lparr>db_events := db_events ?s1 @ [?ev]\<rparr> else ?s1)"
    have s: "snd (begin_revalidation now i contract s) = ?s"
      using True Some st by (simp add: begin_revalidation_def parse_stage_value Let_def split: option.split)
    have "step_ok s ?s"
    proof (rule decided_ok [OF inv _ Some, where f = ?f and evs = ?evs])
      show "keeps_run_id ?f" by (simp add: keeps_run_id_def reset_row_def)
      show "db_runs ?s = update_where (\<lambda>x. rw_id x = i) ?f (db_runs s)" by simp
      show "db_events ?s = db_events s @ ?evs" by simp
      show "\<forall>e \<in> set ?evs. av_run_id e = i \<and> av_state e \<in> {''APPROVED'', ''REJECTED'', ''RESET''}" by simp
      show "approval_columns (?f w) = approval_of (events_of s i @ ?evs)"
        using pending_no_event [OF inv Some]
        by (auto simp: reset_row_def approval_columns_def approval_of_def)
      show "run_evolves w (?f w)"
        using True st by (simp add: run_evolves_def next_attempt_def reset_row_def approval_columns_def
            is_terminal_text_iff)
      have "rw_stage (?f w) = stage_value CREATED" by (simp add: reset_row_def)
      then show "\<exists>st. rw_stage (?f w) = stage_value st" by (rule exI)
      show "db_committed ?s = db_runs ?s" by simp
    qed
    then show ?thesis by (simp only: s)
  qed
qed

lemma interrupted_ok [call_ok]:
  assumes inv: "store_inv s"
  shows "step_ok s (snd (mark_interrupted_runs now s))"
proof -
  let ?rows = "filter (\<lambda>w. \<not> is_terminal_text (rw_stage w)) (db_runs s)"
  let ?p = "\<lambda>w. rw_id w \<in> set (map rw_id ?rows)"
  let ?f = "\<lambda>w. w\<lparr>rw_stage := stage_value STAGE_FAILED, rw_completed_at := Some now,
      rw_error := Some ''Interrupted by process restart before completion''\<rparr>"
  have "step_ok s (commit (update_runs ?p ?f s))"
  proof (rule rows_ok [OF inv])
    show "keeps_run_id ?f" by (simp add: keeps_run_id_def)
    show "db_runs (commit (update_runs ?p ?f s)) = update_where ?p ?f (db_runs s)"
      "db_events (commit (update_runs ?p ?f s)) = db_events s"
      "map forget_anchor (db_committed (commit (update_runs ?p ?f s)))
        = map forget_anchor (db_runs (commit (update_runs ?p ?f s)))" by simp_all
    show "same_attempt w (?f w)" if w: "w \<in> set (db_runs s)" and p: "?p w" for w
    proof -
      from p obtain x where x: "x \<in> set (db_runs s)" "rw_id x = rw_id w" "\<not> is_terminal_text (rw_stage x)"
        by auto
      with w store_invD(1) [OF inv] have "x = w" by (auto simp: runs_ok_def distinct_map inj_on_def)
      moreover obtain st where "rw_stage w = stage_value st" using store_invD(4) [OF inv w] by blast
      ultimately have "rw_stage w = stage_value st" "is_valid_transition st STAGE_FAILED"
        using x(3) by (auto simp: is_terminal_text_iff is_valid_transition_def)
      then have "stage_step (rw_stage w) (stage_value STAGE_FAILED)" unfolding stage_step_def by blast
      then show ?thesis by (simp add: same_attempt_def approval_columns_def)
    qed
  qed
  then show ?thesis using step_ok_refl [OF inv] by (simp add: mark_interrupted_runs_def Let_def)
qed

lemma step_preserves: "store_step s s' \<Longrightarrow> store_inv s \<Longrightarrow> step_ok s s'"
  by (induction rule: store_step.induct) (simp_all only: call_ok rollback_ok)

end
