(* ===== verification/StoreProperties.thy ===== *)
theory StoreProperties
  imports StoreHistory SerializationFacts
begin

text \<open>
  Consequences for histories of calls: what is true of every reachable store, how a run may have
  changed between two points of a history, and which writes are refused after a revalidation.
\<close>

subsection \<open>The stage order\<close>

lemma valid_trans:
  assumes "is_valid_transition a b" "is_valid_transition b c"
  shows "is_valid_transition a c"
proof (cases "a = b \<or> b = c")
  case False
  with assms have n: "a \<notin> set terminal_stages" "b \<notin> set terminal_stages"
    by (auto simp: is_valid_transition_def split: if_splits)
  then have b: "b \<noteq> STAGE_FAILED" "b \<noteq> COMPLETED" by (auto simp: terminal_stages_def)
  from assms False n b show ?thesis
    unfolding is_valid_transition_def by (auto split: if_splits option.splits)
qed (use assms in auto)

lemma stage_step_trans: "stage_step t u \<Longrightarrow> stage_step u v \<Longrightarrow> stage_step t v"
  unfolding stage_step_def using valid_trans by (metis stage_value_inj)

lemma terminal_final: "stage_step t u \<Longrightarrow> is_terminal_text t \<Longrightarrow> u = t"
  by (auto simp: stage_step_def is_terminal_text_iff is_valid_transition_def split: if_splits)

subsection \<open>Histories\<close>

text \<open>A run at a later point: the same attempt at a stage the lifecycle permits, or a later attempt.\<close>

definition later_run :: "run_row \<Rightarrow> run_row \<Rightarrow> bool" where
  "later_run w w' \<longleftrightarrow> rw_generation w < rw_generation w'
     \<or> rw_generation w' = rw_generation w \<and> stage_step (rw_stage w) (rw_stage w')"

lemma evolves_later: "run_evolves w w' \<Longrightarrow> later_run w w'"
  by (auto simp: run_evolves_def later_run_def next_attempt_def)

lemma later_trans: "later_run u v \<Longrightarrow> later_run v w \<Longrightarrow> later_run u w"
  by (auto simp: later_run_def dest: stage_step_trans)

definition history_ok :: "db \<Rightarrow> db \<Rightarrow> bool" where
  "history_ok s s' \<longleftrightarrow> store_inv s'
     \<and> (\<forall>i w. find_run s i = Some w \<longrightarrow> (\<exists>w'. find_run s' i = Some w' \<and> later_run w w'))
     \<and> (\<exists>evs. db_events s' = db_events s @ evs)"

lemma history_refl: "store_inv s \<Longrightarrow> history_ok s s"
  using store_invD(4) stage_step_refl find_run_mem by (fastforce simp: history_ok_def later_run_def)

lemma history_step: "history_ok s t \<Longrightarrow> store_step t u \<Longrightarrow> history_ok s u"
proof -
  assume h: "history_ok s t" and st: "store_step t u"
  from h have t: "store_inv t" by (simp add: history_ok_def)
  from step_preserves [OF st t] have u: "store_inv u" "runs_evolve t u" by (simp_all add: step_ok_def)
  have "\<exists>w'. find_run u i = Some w' \<and> later_run w w'" if w: "find_run s i = Some w" for i w
  proof -
    from h w obtain v where v: "find_run t i = Some v" "later_run w v" unfolding history_ok_def by blast
    with u(2) obtain w' where "find_run u i = Some w'" "run_evolves v w'" unfolding runs_evolve_def by blast
    with v show ?thesis using evolves_later later_trans by blast
  qed
  moreover have "\<exists>evs. db_events u = db_events s @ evs"
    using h u(2) unfolding history_ok_def runs_evolve_def by (metis append.assoc)
  ultimately show ?thesis using u(1) unfolding history_ok_def by blast
qed

lemma steps_history: "store_steps s s' \<Longrightarrow> store_inv s \<Longrightarrow> history_ok s s'"
  by (induction rule: rtranclp_induct) (auto intro: history_refl history_step)

lemma reachable_inv: "reachable s \<Longrightarrow> store_inv s"
  unfolding reachable_def using steps_history empty_inv history_ok_def by blast

text \<open>A small history: one run, added, completed, approved and reset for a new attempt.\<close>

definition sample_run :: run_record where
  "sample_run = \<lparr>rr_id = ''r1'', rr_application_id = ''a1'', rr_workload_id = ''w1'', rr_stage = CREATED,
     rr_created_at = ''t'', rr_completed_at = None, rr_error = None, rr_evidence_manifest = None,
     rr_verdict = None, rr_report = None, rr_generation = 0, rr_contract = None,
     rr_approval_state = ''PENDING'', rr_approval_approver = None, rr_approval_reason = None,
     rr_approval_decided_at = None, rr_generated_seal = None, rr_last_stage = None,
     rr_source_path = None, rr_generated_app_path = None, rr_generated_entrypoint = None,
     rr_discovery_snapshot = None\<rparr>"

definition sample_created :: db where
  "sample_created = snd (add_run sample_run empty_db)"

definition sample_completed :: db where
  "sample_completed = snd (update_run False (sample_run\<lparr>rr_stage := COMPLETED\<rparr>) sample_created)"

definition sample_approved :: db where
  "sample_approved = snd (set_run_approval ''t1'' ''r1'' ''APPROVED'' ''alice'' None (Some 0) sample_completed)"

definition sample_reset :: db where
  "sample_reset = snd (begin_revalidation ''t2'' ''r1'' None sample_approved)"

lemma sample_history:
  "store_step empty_db sample_created" "store_step sample_created sample_completed"
  "store_step sample_completed sample_approved" "store_step sample_approved sample_reset"
  unfolding sample_created_def sample_completed_def sample_approved_def sample_reset_def
  by (rule step_add_run step_update_run step_approval step_revalidate; simp add: fresh_run_def sample_run_def)+

lemma sample_reachable: "reachable sample_created" "reachable sample_approved" "reachable sample_reset"
  unfolding reachable_def using sample_history by (meson rtranclp.intros)+

definition sample_row :: run_row where
  "sample_row = new_run_row sample_run (None, None, None) None"

lemma sample_find:
  "find_run sample_created ''r1'' = Some sample_row"
  "find_run sample_approved ''r1'' = Some (sample_row\<lparr>rw_stage := ''COMPLETED'', rw_approval_state := ''APPROVED'',
     rw_approval_approver := Some ''alice'', rw_approval_decided_at := Some ''t1''\<rparr>)"
  by (simp_all add: find_run_def sample_created_def sample_completed_def sample_approved_def sample_run_def
      add_run_def run_params_def encode_opt_def encode_report_def encode_snapshot_def empty_db_def
      new_run_row_def commit_def update_run_def parse_stage_def all_stages_def is_valid_transition_def
      terminal_stages_def last_stage_anchor_def Let_def update_runs_def update_where_def run_columns_def
      set_run_approval_def bound_to_def sample_row_def)

subsection \<open>Approval\<close>

text \<open>C11: in every reachable store the approval columns of a run say exactly what the last event of its
  audit trail says: the decision with its author, reason and time, or nothing after a reset. A decision
  is never recorded without its event, nor an event without its decision.\<close>
theorem approval_matches_audit_trail:
  assumes "reachable s" "find_run s i = Some w"
  shows "approval_columns w = approval_of (filter (\<lambda>e. av_run_id e = i) (db_events s))"
  using store_invD(2) [OF reachable_inv [OF assms(1)]] find_run_mem [OF assms(2)]
  by (auto simp: events_of_def)

text \<open>The approved run of the sample history.\<close>
lemma approval_matches_audit_trail_witness:
  "reachable sample_approved \<and> approval_of (filter (\<lambda>e. av_run_id e = ''r1'') (db_events sample_approved))
     = (''APPROVED'', Some ''alice'', None, Some ''t1'')"
  using approval_matches_audit_trail [OF sample_reachable(2) sample_find(2)] sample_reachable(2)
  by (simp add: approval_columns_def sample_row_def new_run_row_def sample_run_def)

text \<open>C10: whatever calls follow, a run is never lost; within an attempt its stage only moves along the
  lifecycle, a terminal stage is final, and the attempt number never decreases; and the audit trail only
  grows at its end.\<close>
theorem history_laws:
  assumes "reachable s" "store_steps s s'"
  shows "(\<forall>i w. find_run s i = Some w \<longrightarrow> (\<exists>w'. find_run s' i = Some w' \<and>
      (rw_generation w < rw_generation w' \<or> rw_generation w' = rw_generation w
        \<and> stage_step (rw_stage w) (rw_stage w')
        \<and> (is_terminal_text (rw_stage w) \<longrightarrow> rw_stage w' = rw_stage w))))
    \<and> (\<exists>evs. db_events s' = db_events s @ evs)"
proof -
  have h: "history_ok s s'" using steps_history [OF assms(2) reachable_inv [OF assms(1)]] .
  then show ?thesis unfolding history_ok_def later_run_def using terminal_final by blast
qed

text \<open>From the created run of the sample history to its next attempt.\<close>
lemma history_laws_witness:
  "\<exists>evs. db_events sample_reset = db_events sample_created @ evs"
proof -
  have "store_steps sample_created sample_reset" using sample_history by (meson rtranclp.intros)
  from history_laws [OF sample_reachable(1) this] show ?thesis by blast
qed

subsection \<open>Stale workers and stale decisions\<close>

lemma stale_calls:
  assumes inv: "store_inv s" and w: "find_run s i = Some w" and g: "g \<noteq> rw_generation w"
  shows "rr_id r = i \<Longrightarrow> rr_generation r = g \<Longrightarrow>
      \<exists>d. update_run False r s = (Inl (Api ConflictError d), s)"
    and "\<exists>d. set_generated_seal i seal (Some g) s = (Inl (Api ConflictError d), s)"
    and "\<exists>d. set_run_generated i p q (Some g) s = (Inl (Api ConflictError d), s)"
    and "st \<in> {''APPROVED'', ''REJECTED''} \<Longrightarrow>
      \<exists>d. set_run_approval now i st approver reason (Some g) s = (Inl (Api ConflictError d), rollback s)"
proof -
  obtain a where a: "rw_stage w = stage_value a" using store_invD(4) [OF inv] find_run_mem [OF w] by blast
  show "\<exists>d. update_run False r s = (Inl (Api ConflictError d), s)" if "rr_id r = i" "rr_generation r = g"
    using that w g a by (simp add: update_run_def parse_stage_value Let_def raise_api_def)
  note ok = store_invD(1) [OF inv]
  show "\<exists>d. set_generated_seal i seal (Some g) s = (Inl (Api ConflictError d), s)"
    unfolding set_generated_seal_def by (rule run_writes.stale [OF ok w g])
  show "\<exists>d. set_run_generated i p q (Some g) s = (Inl (Api ConflictError d), s)"
    unfolding set_run_generated_def set_run_columns_def by (rule run_writes.stale [OF ok w g])
  have "step_ok s (rollback s)" by (rule rollback_ok [OF inv])
  then obtain x where "find_run (rollback s) i = Some x" using w unfolding step_ok_def runs_evolve_def by blast
  then show "\<exists>d. set_run_approval now i st approver reason (Some g) s = (Inl (Api ConflictError d), rollback s)"
    if "st \<in> {''APPROVED'', ''REJECTED''}"
    using that bound_to_Nil [OF ok, of i "Some g"] w g
    by (auto simp: set_run_approval_def raise_api_def)
qed

lemma revalidated:
  assumes inv: "store_inv s" and w: "find_run s i = Some w"
    and ret: "begin_revalidation now i contract s = (Inr r, s')"
  shows "store_inv s'" "\<exists>w'. find_run s' i = Some w' \<and> rw_generation w' = rw_generation w + 1"
proof -
  have ok: "step_ok s s'" using revalidation_ok [OF inv, of now i contract] ret by simp
  then show "store_inv s'" by (simp add: step_ok_def)
  obtain st where st: "rw_stage w = stage_value st" "st \<in> set terminal_stages"
    using ret w by (auto simp: begin_revalidation_def split: sum.splits if_splits dest: parse_stage_Inr)
  have "keeps_run_id (reset_row g c)" for g c by (simp add: keeps_run_id_def reset_row_def)
  note f = find_run_updated [OF this]
  have "db_runs s' = update_where (\<lambda>x. rw_id x = i) (reset_row (rw_generation w + 1) contract) (db_runs s)"
    using ret w st by (auto simp: begin_revalidation_def parse_stage_value Let_def split: option.splits)
  then have "find_run s' i = Some (reset_row (rw_generation w + 1) contract w)"
    using w find_run_mem [OF w] by (simp add: find_run_def f)
  then show "\<exists>w'. find_run s' i = Some w' \<and> rw_generation w' = rw_generation w + 1"
    by (simp add: reset_row_def)
qed

text \<open>C9: once a revalidation of a run has begun, nothing that belongs to an earlier attempt lands on it
  any more, at any later point of any history: a worker's update, a seal, a generated bundle and an
  approval decision that carry an earlier attempt number are each refused with \<open>ConflictError\<close>, and
  none of them changes the store (a refused decision only ends the open transaction).\<close>
theorem earlier_attempt_never_lands:
  assumes "reachable s" "find_run s i = Some w"
    and "begin_revalidation now i contract s = (Inr run, t)" "store_steps t u"
    and "rr_id r = i" "rr_generation r \<le> rw_generation w" "st \<in> {''APPROVED'', ''REJECTED''}"
  shows "(\<exists>d. update_run False r u = (Inl (Api ConflictError d), u))
    \<and> (\<exists>d. set_generated_seal i seal (Some (rr_generation r)) u = (Inl (Api ConflictError d), u))
    \<and> (\<exists>d. set_run_generated i p q (Some (rr_generation r)) u = (Inl (Api ConflictError d), u))
    \<and> (\<exists>d. set_run_approval now' i st approver reason (Some (rr_generation r)) u
           = (Inl (Api ConflictError d), rollback u))"
proof -
  from revalidated [OF reachable_inv [OF assms(1)] assms(2,3)] obtain w'
    where t: "store_inv t" and w': "find_run t i = Some w'" "rw_generation w' = rw_generation w + 1" by blast
  have h: "history_ok t u" by (rule steps_history [OF assms(4) t])
  with w' obtain x where x: "find_run u i = Some x" "later_run w' x" unfolding history_ok_def by blast
  then have "rr_generation r \<noteq> rw_generation x" using w'(2) assms(6) by (auto simp: later_run_def)
  moreover have "store_inv u" using h by (simp add: history_ok_def)
  ultimately show ?thesis using stale_calls [OF _ x(1)] assms(5,7) by blast
qed

lemma sample_revalidation:
  "\<exists>run. begin_revalidation ''t2'' ''r1'' None sample_approved = (Inr run, sample_reset)"
proof -
  let ?w = "sample_row\<lparr>rw_stage := ''COMPLETED'', rw_approval_state := ''APPROVED'',
     rw_approval_approver := Some ''alice'', rw_approval_decided_at := Some ''t1''\<rparr>"
  have "keeps_run_id (reset_row g c)" for g c by (simp add: keeps_run_id_def reset_row_def)
  note f = find_run_updated [OF this]
  have "rw_id ?w = ''r1''" by (simp add: sample_row_def new_run_row_def sample_run_def)
  then have "\<exists>run. fst (begin_revalidation ''t2'' ''r1'' None sample_approved) = Inr run"
    using sample_find(2)
    by (simp add: begin_revalidation_def parse_stage_def all_stages_def terminal_stages_def Let_def
        find_run_def f reset_row_def run_from_row_def decode_evidence_manifest_def decode_verdict_def
        decode_report_def decode_envelope_def decode_snapshot_def sample_row_def new_run_row_def sample_run_def)
  then show ?thesis unfolding sample_reset_def by (metis prod.collapse)
qed

text \<open>The first worker of the sample run, after the run was reset.\<close>
lemma earlier_attempt_never_lands_witness:
  "\<exists>d. update_run False (sample_run\<lparr>rr_stage := COMPLETED\<rparr>) sample_reset = (Inl (Api ConflictError d), sample_reset)"
proof -
  obtain run where r: "begin_revalidation ''t2'' ''r1'' None sample_approved = (Inr run, sample_reset)"
    using sample_revalidation by blast
  have g: "rr_generation (sample_run\<lparr>rr_stage := COMPLETED\<rparr>) \<le> rw_generation (sample_row\<lparr>rw_stage := ''COMPLETED'',
      rw_approval_state := ''APPROVED'', rw_approval_approver := Some ''alice'',
      rw_approval_decided_at := Some ''t1''\<rparr>)"
    by (simp add: sample_row_def new_run_row_def sample_run_def)
  have i: "rr_id (sample_run\<lparr>rr_stage := COMPLETED\<rparr>) = ''r1''" by (simp add: sample_run_def)
  show ?thesis
    using earlier_attempt_never_lands [OF sample_reachable(2) sample_find(2) r rtranclp.rtrancl_refl i g,
        of "''APPROVED''"] by blast
qed

subsection \<open>A worker's update\<close>

lemma decode_encoded_report:
  assumes "distinct_keys (JObj d)" "encode_report (Some d) = Inr b"
  shows "decode_report b = Inr (Some (case sort_keys (JObj d) of JObj d' \<Rightarrow> d' | _ \<Rightarrow> []))"
proof -
  from assms(2) obtain x where x: "b = Some x" "encode_envelope schema_report (JObj [(''report'', JObj d)]) = Inr x"
    by (auto simp: encode_report_def bind_res_eq_Inr)
  have "decode_envelope (Some x) schema_report = Inr (Some (sorted_dict [(''report'', JObj d)]))"
    by (rule decode_envelope_encoded [OF x(2)]) (use assms(1) in simp)
  then show ?thesis by (simp add: x(1) decode_report_def sorted_dict_def jget_Cons sort_keys_JObj)
qed

text \<open>What a reader gets back for the documents of a record.\<close>

definition stored_run :: "run_record \<Rightarrow> run_row \<Rightarrow> json dict option \<Rightarrow> run_record" where
  "stored_run r w snapshot =
     \<lparr>rr_id = rr_id r, rr_application_id = rr_application_id r, rr_workload_id = rr_workload_id r,
      rr_stage = rr_stage r, rr_created_at = rr_created_at r, rr_completed_at = rr_completed_at r,
      rr_error = rr_error r, rr_evidence_manifest = map_option stored_form (rr_evidence_manifest r),
      rr_verdict = rr_verdict r,
      rr_report = map_option (\<lambda>d. case sort_keys (JObj d) of JObj d' \<Rightarrow> d' | _ \<Rightarrow> []) (rr_report r),
      rr_generation = rr_generation r, rr_contract = rr_contract r,
      rr_approval_state = or_default (rw_approval_state w) ''PENDING'',
      rr_approval_approver = rw_approval_approver w, rr_approval_reason = rw_approval_reason w,
      rr_approval_decided_at = rw_approval_decided_at w, rr_generated_seal = rw_generated_seal w,
      rr_last_stage = last_stage_anchor (rr_stage r) (rw_last_stage w),
      rr_source_path = rw_source_path w, rr_generated_app_path = rw_generated_app_path w,
      rr_generated_entrypoint = rw_generated_entrypoint w, rr_discovery_snapshot = snapshot\<rparr>"

definition storable_run :: "run_record \<Rightarrow> bool" where
  "storable_run r \<longleftrightarrow> (\<forall>m. rr_evidence_manifest r = Some m \<longrightarrow> storable m)
     \<and> (\<forall>v. rr_verdict r = Some v \<longrightarrow> storable_verdict v)
     \<and> (\<forall>d. rr_report r = Some d \<longrightarrow> distinct_keys (JObj d))"

lemma decode_run_params:
  assumes "storable_run r" "run_params r = Inr (ev, ve, rp)"
  shows "decode_evidence_manifest ev = Inr (map_option stored_form (rr_evidence_manifest r))"
    and "decode_verdict ve = Inr (rr_verdict r)"
    and "decode_report rp = Inr (map_option (\<lambda>d. case sort_keys (JObj d) of JObj d' \<Rightarrow> d' | _ \<Rightarrow> []) (rr_report r))"
proof -
  from assms(2) have e: "encode_opt encode_evidence_manifest (rr_evidence_manifest r) = Inr ev"
    "encode_opt encode_verdict (rr_verdict r) = Inr ve" "encode_report (rr_report r) = Inr rp"
    by (auto simp: run_params_def bind_res_eq_Inr)
  show "decode_evidence_manifest ev = Inr (map_option stored_form (rr_evidence_manifest r))"
  proof (cases "rr_evidence_manifest r")
    case None
    then show ?thesis using e(1)
      by (auto simp: encode_opt_def decode_evidence_manifest_def decode_envelope_def)
  next
    case (Some m)
    then obtain b where "ev = Some b" "encode_evidence_manifest m = Inr b" "storable m"
      using e(1) assms(1) by (auto simp: encode_opt_def bind_res_eq_Inr storable_run_def)
    then show ?thesis using decode_encoded_manifest Some by simp
  qed
  show "decode_verdict ve = Inr (rr_verdict r)"
  proof (cases "rr_verdict r")
    case None
    then show ?thesis using e(2) by (auto simp: encode_opt_def decode_verdict_def decode_envelope_def)
  next
    case (Some v)
    then obtain b where "ve = Some b" "encode_verdict v = Inr b" "storable_verdict v"
      using e(2) assms(1) by (auto simp: encode_opt_def bind_res_eq_Inr storable_run_def)
    then show ?thesis using decode_encoded_verdict Some by simp
  qed
  show "decode_report rp = Inr (map_option (\<lambda>d. case sort_keys (JObj d) of JObj d' \<Rightarrow> d' | _ \<Rightarrow> []) (rr_report r))"
    using e(3) assms(1) decode_encoded_report
    by (cases "rr_report r") (auto simp: storable_run_def encode_report_def decode_report_def decode_envelope_def)
qed

lemma update_run_row:
  assumes "update_run False r s = (Inr (), s')" "find_run s (rr_id r) = Some w"
  shows "\<exists>ev ve rp. run_params r = Inr (ev, ve, rp) \<and> find_run s' (rr_id r)
    = Some (run_columns r (ev, ve, rp) (w\<lparr>rw_last_stage := last_stage_anchor (rr_stage r) (rw_last_stage w)\<rparr>))
    \<and> db_events s' = db_events s"
proof -
  obtain ev ve rp where p: "run_params r = Inr (ev, ve, rp)"
    using assms by (auto simp: update_run_def Let_def split: sum.splits if_splits)
  let ?a = "last_stage_anchor (rr_stage r) (rw_last_stage w)"
  have k: "keeps_run_id (run_columns r (ev, ve, rp))" "keeps_run_id (\<lambda>x. x\<lparr>rw_last_stage := ?a\<rparr>)"
    by (simp_all add: keeps_run_id_def run_columns_def)
  have same: "w\<lparr>rw_last_stage := rw_last_stage w\<rparr> = w" by simp
  have "s' = commit (update_runs (\<lambda>x. rw_id x = rr_id r) (run_columns r (ev, ve, rp))
      (if ?a \<noteq> rw_last_stage w then update_runs (\<lambda>x. rw_id x = rr_id r) (\<lambda>x. x\<lparr>rw_last_stage := ?a\<rparr>) s else s))"
    using assms p by (auto simp: update_run_def Let_def raise_api_def split: sum.splits if_splits)
  then show ?thesis
    using p assms(2) find_run_mem [OF assms(2)] same
    by (auto simp: find_run_def find_run_updated [OF k(1)] find_run_updated [OF k(2)])
qed

text \<open>What a worker persists is what a reader gets: after a successful update the run reads back with
  the stage, verdict, evidence and report that were written (dictionaries in key order), with the approval,
  seal and bundle columns the update does not own as they were.\<close>
theorem update_then_get:
  assumes "update_run False r s = (Inr (), s')" "find_run s (rr_id r) = Some w" "storable_run r"
    and "decode_snapshot (rw_discovery_json w) = Inr snapshot"
  shows "get_run (rr_id r) s' = (Inr (Some (stored_run r w snapshot)), s')"
proof -
  from update_run_row [OF assms(1,2)] obtain ev ve rp where p: "run_params r = Inr (ev, ve, rp)"
    and f: "find_run s' (rr_id r)
      = Some (run_columns r (ev, ve, rp) (w\<lparr>rw_last_stage := last_stage_anchor (rr_stage r) (rw_last_stage w)\<rparr>))"
    by blast
  have i: "rw_id w = rr_id r" using find_run_mem [OF assms(2)] by simp
  show ?thesis
    using decode_run_params [OF assms(3) p] assms(4) i
    by (simp add: get_run_def f run_from_row_def run_columns_def parse_stage_value stored_run_def or_default_def)
qed

text \<open>The completion of the sample run.\<close>
lemma update_then_get_witness:
  "fst (get_run ''r1'' sample_completed) = Inr (Some (stored_run (sample_run\<lparr>rr_stage := COMPLETED\<rparr>) sample_row None))"
proof -
  have u: "update_run False (sample_run\<lparr>rr_stage := COMPLETED\<rparr>) sample_created = (Inr (), sample_completed)"
    using sample_find(1)
    by (simp add: sample_completed_def update_run_def parse_stage_def all_stages_def Let_def
        is_valid_transition_def terminal_stages_def run_params_def encode_opt_def encode_report_def
        sample_row_def new_run_row_def sample_run_def)
  have f: "find_run sample_created (rr_id (sample_run\<lparr>rr_stage := COMPLETED\<rparr>)) = Some sample_row"
    using sample_find(1) by (simp add: sample_run_def)
  have "storable_run (sample_run\<lparr>rr_stage := COMPLETED\<rparr>)" by (simp add: storable_run_def sample_run_def)
  from update_then_get [OF u f this, of None] show ?thesis
    by (simp add: decode_snapshot_def sample_row_def new_run_row_def sample_run_def)
qed

subsection \<open>A failed update\<close>

lemma length_show_nat: "n < 10 ^ length (show_nat n)"
proof (induction n rule: show_nat.induct)
  case (1 n)
  show ?case
  proof (cases "n < 10")
    case False
    with 1 have "n div 10 < 10 ^ length (show_nat (n div 10))" by simp
    then have "n < 10 * 10 ^ length (show_nat (n div 10))" by simp
    with False show ?thesis by (simp add: show_nat.simps [of n])
  qed (simp add: show_nat.simps [of n])
qed

text \<open>A report with an integer of 4301 digits, which the JSON encoder refuses.\<close>

definition oversized_run :: run_record where
  "oversized_run = sample_run\<lparr>rr_stage := INGESTING, rr_report := Some [(''n'', JInt (10 ^ int_digit_limit))]\<rparr>"

text \<open>An update that fails is not without effect: when the report cannot be encoded, the update raises
  but the stage anchor it wrote first stays in the open transaction, with the stage unchanged, and the next
  successful call on any run commits it.\<close>
theorem failed_update_leaves_anchor:
  "\<exists>e s. update_run False oversized_run sample_created = (Inl e, s)
     \<and> map_option rw_last_stage (find_run sample_created ''r1'') = Some (Some ''CREATED'')
     \<and> map_option rw_last_stage (find_run s ''r1'') = Some (Some ''INGESTING'')
     \<and> map_option rw_stage (find_run s ''r1'') = Some ''CREATED''
     \<and> map rw_last_stage (db_committed (snd (set_generated_seal ''r1'' ''x'' None s))) = [Some ''INGESTING'']"
proof -
  have "\<not> length (show_nat (10 ^ int_digit_limit)) \<le> int_digit_limit"
  proof
    assume "length (show_nat (10 ^ int_digit_limit)) \<le> int_digit_limit"
    then have "(10::nat) ^ length (show_nat (10 ^ int_digit_limit)) \<le> 10 ^ int_digit_limit"
      by (rule power_increasing) simp
    with length_show_nat [of "10 ^ int_digit_limit"] show False by simp
  qed
  then have big: "\<not> ints_within_limit (JObj [(''report'', JObj [(''n'', JInt (10 ^ int_digit_limit))])])"
    by (simp add: nat_power_eq)
  have "\<exists>e. run_params oversized_run = Inl e"
    using big by (simp add: run_params_def encode_opt_def encode_report_def encode_envelope_def
        oversized_run_def sample_run_def raise_api_def del: ints_within_limit.simps)
  then obtain e where e: "run_params oversized_run = Inl e" ..
  have d: "db_runs sample_created = [sample_row]" "db_committed sample_created = [sample_row]"
    by (simp_all add: sample_created_def sample_run_def add_run_def run_params_def encode_opt_def
        encode_report_def encode_snapshot_def empty_db_def find_run_def sample_row_def commit_def)
  let ?s = "update_runs (\<lambda>x. rw_id x = ''r1'') (\<lambda>x. x\<lparr>rw_last_stage := Some ''INGESTING''\<rparr>) sample_created"
  have r: "rw_id sample_row = ''r1''" "rw_stage sample_row = ''CREATED''" "rw_generation sample_row = 0"
      "rw_last_stage sample_row = Some ''CREATED''"
    by (simp_all add: sample_row_def new_run_row_def sample_run_def last_stage_anchor_def terminal_stages_def)
  have "update_run False oversized_run sample_created = (Inl e, ?s)"
    using e d r by (simp add: update_run_def find_run_def oversized_run_def sample_run_def parse_stage_def
        all_stages_def Let_def is_valid_transition_def terminal_stages_def last_stage_anchor_def
        stage_index_def stage_order_def)
  moreover have "db_runs ?s = [sample_row\<lparr>rw_last_stage := Some ''INGESTING''\<rparr>]"
    by (simp add: d r update_where_def)
  ultimately show ?thesis
    using d r by (intro exI [of _ e] exI [of _ ?s])
      (simp add: find_run_def set_generated_seal_def write_run_def bound_to_def update_where_def)
qed

subsection \<open>Names\<close>

lemma next_suffix_free:
  "next_suffix s base n = Inr k \<Longrightarrow> n \<le> k \<and> numbered base k \<notin> aw_name ` set (db_apps s)
     \<and> (\<forall>j. n \<le> j \<and> j < k \<longrightarrow> numbered base j \<in> aw_name ` set (db_apps s))"
proof (induction s base n rule: next_suffix.induct)
  case (1 s base n)
  show ?case
  proof (cases "find_by_name s (numbered base n)")
    case (Inr found)
    show ?thesis
    proof (cases found)
      case None
      with 1(2) Inr have "k = n" by (simp add: next_suffix.simps)
      moreover have "numbered base n \<notin> aw_name ` set (db_apps s)"
        using Inr None by (auto simp: find_by_name_def find_None_iff bind_res_eq_Inr split: option.splits)
      ultimately show ?thesis by auto
    next
      case (Some a)
      with 1(2) Inr have "next_suffix s base (n + 1) = Inr k" by (subst (asm) next_suffix.simps) simp
      with 1(1) Inr Some have "n + 1 \<le> k \<and> numbered base k \<notin> aw_name ` set (db_apps s)
          \<and> (\<forall>j. n + 1 \<le> j \<and> j < k \<longrightarrow> numbered base j \<in> aw_name ` set (db_apps s))" by blast
      moreover have "numbered base n \<in> aw_name ` set (db_apps s)"
        using find_by_name_Some Inr Some by blast
      moreover have "j = n \<or> n + 1 \<le> j" if "n \<le> j" for j using that by arith
      ultimately show ?thesis by (metis add_leD1)
    qed
  qed (use 1(2) in \<open>simp add: next_suffix.simps\<close>)
qed

text \<open>C40: the name given to a new application is free, and it is the base name or the base name with the
  least free number from 2 on; the search always ends.\<close>
theorem unique_name_free:
  assumes "unique_name base s = (Inr n, s')"
  shows "s' = s \<and> n \<notin> aw_name ` set (db_apps s) \<and> (n = base \<or> base \<in> aw_name ` set (db_apps s) \<and>
    (\<exists>k \<ge> 2. n = numbered base k \<and> (\<forall>j. 2 \<le> j \<and> j < k \<longrightarrow> numbered base j \<in> aw_name ` set (db_apps s))))"
proof -
  let ?next = "\<lambda>found. case found of None \<Rightarrow> Inr base
      | Some _ \<Rightarrow> bind_res (next_suffix s base 2) (\<lambda>n. Inr (numbered base n))"
  have r: "bind_res (find_by_name s base) ?next = Inr n" and s: "s' = s"
    using assms unfolding unique_name_def prod.inject by blast+
  from r obtain found where f: "find_by_name s base = Inr found" and n: "?next found = Inr n"
    by (cases "find_by_name s base") simp_all
  show ?thesis
  proof (cases found)
    case None
    then have "base \<notin> aw_name ` set (db_apps s)"
      using f by (auto simp: find_by_name_def find_None_iff bind_res_eq_Inr split: option.splits)
    then show ?thesis using n s None by simp
  next
    case (Some a)
    with n obtain k where "next_suffix s base 2 = Inr k" "n = numbered base k"
      by (cases "next_suffix s base 2") simp_all
    moreover have "base \<in> aw_name ` set (db_apps s)" using find_by_name_Some f Some by blast
    ultimately show ?thesis using next_suffix_free [of s base 2 k] s by auto
  qed
qed

text \<open>A store with one application of that name.\<close>
lemma unique_name_free_witness:
  "unique_name ''Payroll'' sample_db = (Inr ''Payroll-2'', sample_db) \<and> ''Payroll-2'' \<notin> aw_name ` set (db_apps sample_db)"
proof -
  have d: "db_apps sample_db = [app_params sample_application]"
    by (simp add: sample_db_def add_application_def empty_db_def find_app_def commit_def)
  have u: "unique_name ''Payroll'' sample_db = (Inr ''Payroll-2'', sample_db)"
    by (simp add: unique_name_def find_by_name_def d app_params_def sample_application_def
        app_from_row_def decode_encode_str_list next_suffix.simps numbered_def show_nat.simps digit_char_def)
  with unique_name_free [OF u] show ?thesis by blast
qed

end
