(* ===== verification/Seal.thy ===== *)
theory Seal
  imports Serialization
begin

text \<open>
  The seal of a generated application bundle (\<open>api/artifact_seal.py\<close>). A directory tree is what a walk
  over it finds: its regular files, in the order of the walk, each with its bytes or unreadable. The
  seal is the JSON text of the hashes of all files; verification hashes the tree again and compares,
  and the export reads every file once and compares the hashes of the bytes it returns.
\<close>

subsection \<open>Files\<close>

datatype regular_file = Readable bytes | Unreadable nat

fun file_size :: "regular_file \<Rightarrow> nat" where
  "file_size (Readable b) = length b"
| "file_size (Unreadable n) = n"

text \<open>What a path leads to.\<close>

datatype node = Absent | Plain_file | Directory "(string \<times> regular_file) list"

definition seal_algorithm :: string where
  "seal_algorithm = ''sha256''"

definition not_available :: string where
  "not_available = ''Generated application bundle is not available''"

definition unreadable_bundle :: string where
  "unreadable_bundle = ''Generated application bundle could not be sealed (unreadable file)''"

definition hash_file :: "regular_file \<Rightarrow> exn + string" where
  "hash_file f = (case f of
     Readable b \<Rightarrow> Inr (sha256_hex b)
   | Unreadable _ \<Rightarrow> raise_api ServiceError unreadable_bundle)"

definition hash_files :: "(string \<times> regular_file) list \<Rightarrow> exn + string dict" where
  "hash_files fs = traverse (\<lambda>(p, f). bind_res (hash_file f) (\<lambda>h. Inr (p, h))) fs"

subsection \<open>Sealing\<close>

definition seal_document :: "string \<Rightarrow> string dict \<Rightarrow> json" where
  "seal_document now hashes = JObj
     [(''algorithm'', JStr seal_algorithm), (''files'', JObj (map (map_prod id JStr) hashes)),
      (''sealed_at'', JStr now)]"

definition compute_generated_seal :: "string \<Rightarrow> node \<Rightarrow> exn + string" where
  "compute_generated_seal now root = (case root of
     Directory fs \<Rightarrow> bind_res (hash_files fs) (\<lambda>hashes. Inr (json_dumps (seal_document now hashes)))
   | _ \<Rightarrow> raise_api ServiceError not_available)"

subsection \<open>Reading a seal\<close>

definition no_seal :: string where
  "no_seal = ''Run has no sealed evidence for its generated application; ''
     @ ''re-validate the run before approval or export''"

definition malformed_seal :: string where
  "malformed_seal = ''Sealed evidence for the generated application is malformed''"

text \<open>The checks both readers make on the seal document; they give its file table.\<close>

definition recorded_files :: "string option \<Rightarrow> exn + json dict" where
  "recorded_files seal_json =
     (case seal_json of
        None \<Rightarrow> raise_api ConflictError no_seal
      | Some t \<Rightarrow>
          if t = [] then raise_api ConflictError no_seal
          else (case json_loads t of
              Inl Malformed \<Rightarrow> raise_api ConflictError malformed_seal
            | Inl _ \<Rightarrow> Inl Unmodelled
            | Inr (JObj seal) \<Rightarrow>
                if jget seal ''algorithm'' \<noteq> JStr seal_algorithm
                then raise_api ConflictError ''Sealed evidence uses an unsupported hashing algorithm''
                else (case jget seal ''files'' of
                    JObj recorded \<Rightarrow> Inr recorded
                  | _ \<Rightarrow> raise_api ConflictError malformed_seal)
            | Inr _ \<Rightarrow> raise_api ConflictError ''Sealed evidence uses an unsupported hashing algorithm''))"

text \<open>\<open>str(v)\<close> of a decoded value.\<close>

definition py_str :: "json \<Rightarrow> string" where
  "py_str v = (case v of JStr s \<Rightarrow> s | _ \<Rightarrow> py_repr v)"

definition parse_seal_files :: "string option \<Rightarrow> exn + string dict" where
  "parse_seal_files seal_json =
     bind_res (recorded_files seal_json) (\<lambda>recorded. Inr (map (map_prod id py_str) recorded))"

subsection \<open>Comparing\<close>

text \<open>The keys on which two tables differ; \<open>actual != recorded\<close> when there is one.\<close>

definition differing :: "'a dict \<Rightarrow> 'a dict \<Rightarrow> string list" where
  "differing recorded actual = filter (\<lambda>k. map_of recorded k \<noteq> map_of actual k)
     (remdups (map fst recorded @ map fst actual))"

definition mismatch :: "nat \<Rightarrow> string" where
  "mismatch n = ''Generated application bundle does not match its sealed evidence ('' @ show_nat n
     @ '' file(s) differ after execution); re-validate the run before approval or export''"

definition verify_generated_seal :: "node \<Rightarrow> string option \<Rightarrow> string \<Rightarrow> exn + unit" where
  "verify_generated_seal root seal_json now =
     bind_res (recorded_files seal_json) (\<lambda>recorded.
     bind_res (compute_generated_seal now root) (\<lambda>text.
       (case json_loads text of
          Inr (JObj seal) \<Rightarrow>
            (case jget seal ''files'' of
               JObj actual \<Rightarrow>
                 (if differing recorded actual \<noteq> []
                  then raise_api ConflictError (mismatch (length (differing recorded actual)))
                  else Inr ())
             | _ \<Rightarrow> Inl Unmodelled)
        | _ \<Rightarrow> Inl Unmodelled)))"

subsection \<open>Reading the bundle once\<close>

definition too_many :: "nat \<Rightarrow> nat \<Rightarrow> string" where
  "too_many n limit = ''Generated application has '' @ show_nat n @ '' files, exceeding the ''
     @ show_nat limit @ '' file download limit''"

definition too_large :: "nat \<Rightarrow> string" where
  "too_large limit = ''Generated application exceeds the '' @ show_nat limit @ '' byte download limit''"

text \<open>The loop over the files; \<open>sofar\<close> is what was read before.\<close>

fun read_files :: "nat option \<Rightarrow> nat \<Rightarrow> (string \<times> regular_file) list \<Rightarrow> exn + bytes dict" where
  "read_files limit sofar [] = Inr []"
| "read_files limit sofar ((p, f) # fs) = (case f of
     Unreadable _ \<Rightarrow> raise_api ServiceError unreadable_bundle
   | Readable b \<Rightarrow>
       (let sofar' = sofar + length b in
        if (case limit of None \<Rightarrow> False | Some n \<Rightarrow> n < sofar')
        then raise_api PayloadTooLargeError (too_large (the limit))
        else bind_res (read_files limit sofar' fs) (\<lambda>rest. Inr ((p, b) # rest))))"

definition check_count :: "nat option \<Rightarrow> nat \<Rightarrow> exn + unit" where
  "check_count max_files n = (case max_files of
     None \<Rightarrow> Inr ()
   | Some limit \<Rightarrow> if limit < n then raise_api PayloadTooLargeError (too_many n limit) else Inr ())"

definition read_verified_bundle ::
  "node \<Rightarrow> string option \<Rightarrow> nat option \<Rightarrow> nat option \<Rightarrow> exn + bytes dict" where
  "read_verified_bundle root seal_json max_files max_bytes =
     bind_res (parse_seal_files seal_json) (\<lambda>recorded.
       (case root of
          Directory fs \<Rightarrow>
            bind_res (check_count max_files (length fs)) (\<lambda>_.
            bind_res (read_files max_bytes 0 fs) (\<lambda>bundle.
              let actual = map (map_prod id sha256_hex) bundle in
              if differing recorded actual \<noteq> []
              then raise_api ConflictError (mismatch (length (differing recorded actual)))
              else Inr bundle))
        | _ \<Rightarrow> raise_api ServiceError not_available))"

end
