(* ===== verification/Gates.thy ===== *)
theory Gates
  imports Store Seal
begin

text \<open>
  What the service serves and signs (\<open>api/service.py\<close>, and the download endpoint of \<open>api/app.py\<close>). Every
  view of a verdict, the approval and the export pass the same gates: the verdict must hash-match its
  persisted evidence, and a VERIFIED one needs evidence the integrity validator admits. The file system
  is the parameter \<open>fs\<close>, \<open>production\<close> says whether the deployment is a production one.
\<close>

type_synonym file_system = "string \<Rightarrow> node"

subsection \<open>Lookups\<close>

definition service_get_run :: "string \<Rightarrow> db \<Rightarrow> exn + run_record" where
  "service_get_run i s = bind_res (fst (get_run i s)) (\<lambda>r. case r of
     None \<Rightarrow> raise_api NotFoundError (no_run i)
   | Some run \<Rightarrow> Inr run)"

definition service_get_application :: "string \<Rightarrow> db \<Rightarrow> exn + application_record" where
  "service_get_application i s = bind_res (fst (get_application i s)) (\<lambda>r. case r of
     None \<Rightarrow> raise_api NotFoundError (no_app i)
   | Some app \<Rightarrow> Inr app)"

subsection \<open>The gates\<close>

definition check_evidence_verdict_consistency :: "run_record \<Rightarrow> exn + unit" where
  "check_evidence_verdict_consistency run = (case rr_verdict run of
     None \<Rightarrow> Inr ()
   | Some v \<Rightarrow> (case rr_evidence_manifest run of
       None \<Rightarrow>
         if vd_state v = VERIFIED
         then raise_api PersistenceCorruptionError (''Run '' @ repr_str (rr_id run)
                @ '' claims VERIFIED without a persisted evidence manifest'')
         else Inr ()
     | Some m \<Rightarrow>
         if vd_evidence_manifest_hash v \<noteq> str_hash (manifest_hash m)
         then raise_api PersistenceCorruptionError (''Verdict for run '' @ repr_str (rr_id run)
                @ '' does not match its evidence manifest (hash mismatch)'')
         else Inr ()))"

text \<open>Every caller has checked that the run has evidence.\<close>

definition require_valid_evidence :: "string \<Rightarrow> run_record \<Rightarrow> exn + unit" where
  "require_valid_evidence now run = (case rr_evidence_manifest run of
     None \<Rightarrow> Inl Unmodelled
   | Some m \<Rightarrow> (case validate now m of
       Inr _ \<Rightarrow> Inr ()
     | Inl vs \<Rightarrow>
         raise_api PersistenceCorruptionError (''Evidence manifest for run '' @ repr_str (rr_id run)
           @ '' failed integrity validation: ''
           @ or_default (join ''; '' (map iv_description vs)) ''unknown violation'')))"

definition gate_served_verdict :: "string \<Rightarrow> run_record \<Rightarrow> exn + unit" where
  "gate_served_verdict now run =
     bind_res (check_evidence_verdict_consistency run) (\<lambda>_.
       if map_option vd_state (rr_verdict run) = Some VERIFIED \<and> rr_evidence_manifest run \<noteq> None
       then require_valid_evidence now run else Inr ())"

definition require_verified_evidence :: "string \<Rightarrow> string \<Rightarrow> run_record \<Rightarrow> exn + unit" where
  "require_verified_evidence now action run =
     (let state = map_option vd_state (rr_verdict run) in
      if state \<noteq> Some VERIFIED
      then raise_api ConflictError (''Run '' @ repr_str (rr_id run) @ '' cannot be '' @ action
             @ '': verdict is '' @ (case state of None \<Rightarrow> ''no verdict'' | Some st \<Rightarrow> verdict_value st)
             @ '', which requires VERIFIED'')
      else bind_res (check_evidence_verdict_consistency run) (\<lambda>_. require_valid_evidence now run))"

subsection \<open>Views\<close>

definition run_verdict_state :: "string \<Rightarrow> run_record \<Rightarrow> exn + string option" where
  "run_verdict_state now run = (case rr_verdict run of
     None \<Rightarrow> Inr None
   | Some v \<Rightarrow> bind_res (gate_served_verdict now run) (\<lambda>_. Inr (Some (verdict_value (vd_state v)))))"

definition service_get_verdict :: "string \<Rightarrow> string \<Rightarrow> db \<Rightarrow> exn + json dict" where
  "service_get_verdict now i s =
     bind_res (service_get_run i s) (\<lambda>run. case rr_verdict run of
       None \<Rightarrow> raise_api NotFoundError ''No verdict available for this run''
     | Some v \<Rightarrow>
         bind_res (gate_served_verdict now run) (\<lambda>_.
           let data = (case verdict_to_dict v of JObj d \<Rightarrow> d | _ \<Rightarrow> []);
               engine_run_id = jget data ''run_id'';
               data' = dict_set ''run_id'' (JStr (rr_id run)) data;
               data'' = (if engine_run_id \<noteq> JNull \<and> engine_run_id \<noteq> JStr (rr_id run)
                         then dict_set ''engine_run_id'' engine_run_id data'
                         else if map_of data' ''engine_run_id'' = None
                         then dict_set ''engine_run_id'' JNull data' else data')
           in Inr (dict_set ''certification_contract'' (j_opt JStr (rr_contract run)) data'')))"

definition served_artifact :: "artifact_evidence \<Rightarrow> json dict" where
  "served_artifact a =
     [(''artifact_id'', JStr (ai_id (ae_artifact a))), (''artifact_type'', JStr (ai_type (ae_artifact a))),
      (''logical_name'', JStr (ai_logical_name (ae_artifact a))),
      (''producer_role'', JStr (ai_role (ae_artifact a))), (''content_hash'', j_hash (ae_content_hash a)),
      (''size_bytes'', JInt (ae_size_bytes a)), (''record_count'', j_opt JInt (ae_record_count a))]"

definition service_get_artifacts :: "string \<Rightarrow> string \<Rightarrow> db \<Rightarrow> exn + json dict list" where
  "service_get_artifacts now i s =
     bind_res (service_get_run i s) (\<lambda>run. case rr_evidence_manifest run of
       None \<Rightarrow> Inr []
     | Some m \<Rightarrow> bind_res (require_valid_evidence now run) (\<lambda>_. Inr (map served_artifact (em_artifacts m))))"

definition served_comparison :: "comparison_evidence \<Rightarrow> json dict" where
  "served_comparison c =
     [(''comparison_id'', JStr (ce_id c)), (''comparator_id'', JStr (ce_comparator_id c)),
      (''comparator_version'', JStr (ce_comparator_version c)), (''artifact_type'', JStr (ce_artifact_type c)),
      (''result'', JStr (ce_result c)), (''differences'', j_strs (ce_differences c))]"

definition service_get_comparisons :: "string \<Rightarrow> string \<Rightarrow> db \<Rightarrow> exn + json dict list" where
  "service_get_comparisons now i s =
     bind_res (service_get_run i s) (\<lambda>run. case rr_evidence_manifest run of
       None \<Rightarrow> Inr []
     | Some m \<Rightarrow> bind_res (gate_served_verdict now run) (\<lambda>_. Inr (map served_comparison (em_comparisons m))))"

definition service_approval_history :: "string \<Rightarrow> db \<Rightarrow> exn + approval_event list" where
  "service_approval_history i s =
     bind_res (service_get_run i s) (\<lambda>_. fst (approval_history i s))"

subsection \<open>The bundle of a run\<close>

definition bundle_of_other_run :: "string \<Rightarrow> string \<Rightarrow> bool" where
  "bundle_of_other_run bundle i =
     (starts_with ''pipeline-output-'' (path_name bundle)
      \<and> \<not> starts_with (''pipeline-output-'' @ i @ ''-'') (path_name bundle))"

definition run_generated_path :: "run_record \<Rightarrow> db \<Rightarrow> exn + string option" where
  "run_generated_path run s =
     (if rr_source_path run \<noteq> None \<or> rr_generated_app_path run \<noteq> None
      then Inr (rr_generated_app_path run)
      else bind_res (service_get_application (rr_application_id run) s) (\<lambda>app.
        case ap_generated_app_path app of
          None \<Rightarrow> Inr None
        | Some bundle \<Rightarrow>
            if bundle \<noteq> [] \<and> bundle_of_other_run bundle (rr_id run) then Inr None else Inr (Some bundle)))"

subsection \<open>Approval\<close>

text \<open>The checks before the store is written, with the attempt they were made on; the writing call may
  come later, on a store other calls have changed.\<close>

definition approval_check ::
  "string \<Rightarrow> file_system \<Rightarrow> bool \<Rightarrow> string \<Rightarrow> string \<Rightarrow> db \<Rightarrow> exn + int option" where
  "approval_check now fs production i decision s =
     (if decision \<noteq> ''APPROVED'' then Inr None
      else bind_res (service_get_run i s) (\<lambda>run.
           bind_res (require_verified_evidence now ''approved'' run) (\<lambda>_.
           bind_res (run_generated_path run s) (\<lambda>bundle.
           bind_res (case bundle of
               Some p \<Rightarrow> verify_generated_seal (fs p) (rr_generated_seal run) now
             | None \<Rightarrow>
                 if production
                 then raise_api ConflictError (''Run '' @ repr_str i
                        @ '' cannot be approved: it has no sealed generated application'')
                 else Inr ()) (\<lambda>_.
             Inr (Some (rr_generation run)))))))"

definition service_set_run_approval ::
  "string \<Rightarrow> file_system \<Rightarrow> bool \<Rightarrow> string \<Rightarrow> string \<Rightarrow> string \<Rightarrow> string option \<Rightarrow> run_record op" where
  "service_set_run_approval now fs production i decision approver reason s =
     (case approval_check now fs production i decision s of
        Inl e \<Rightarrow> (Inl e, s)
      | Inr expected \<Rightarrow> set_run_approval now i decision approver reason expected s)"

subsection \<open>Export\<close>

text \<open>The endpoint answers some refusals itself; the others are exceptions of the service.\<close>

datatype refusal = Http nat string | Raised exn

definition raised :: "exn + 'a \<Rightarrow> refusal + 'a" where
  "raised r = (case r of Inl e \<Rightarrow> Inl (Raised e) | Inr x \<Rightarrow> Inr x)"

text \<open>The loop over the file sizes before any byte is read.\<close>

fun check_sizes :: "nat \<Rightarrow> nat \<Rightarrow> (string \<times> regular_file) list \<Rightarrow> exn + unit" where
  "check_sizes limit sofar [] = Inr ()"
| "check_sizes limit sofar ((p, f) # files) =
     (let sofar' = sofar + file_size f in
      if limit < sofar' then raise_api PayloadTooLargeError (too_large limit)
      else check_sizes limit sofar' files)"

definition tree_files :: "node \<Rightarrow> (string \<times> regular_file) list" where
  "tree_files n = (case n of Directory files \<Rightarrow> files | _ \<Rightarrow> [])"

text \<open>The archive's entries. The tree may change between the walk that checks the sizes (\<open>fs\<close>) and the
  walk that reads the bytes (\<open>fs'\<close>). The dash in the message of the first refusal is a U+2014 in the code.\<close>

definition download_generated ::
  "string \<Rightarrow> nat \<Rightarrow> nat \<Rightarrow> file_system \<Rightarrow> file_system \<Rightarrow> string \<Rightarrow> db \<Rightarrow> refusal + bytes dict" where
  "download_generated now max_files max_bytes fs fs' i s =
     bind_res (raised (service_get_run i s)) (\<lambda>run.
       if rr_approval_state run \<noteq> ''APPROVED''
       then Inl (Http 409 (''Export blocked: run approval is '' @ rr_approval_state run
              @ '' - the customer must approve this run before download (POST /runs/'' @ i @ ''/approval)''))
       else
     bind_res (raised (require_verified_evidence now ''exported'' run)) (\<lambda>_.
     bind_res (raised (service_get_application (rr_application_id run) s)) (\<lambda>app.
     bind_res (raised (run_generated_path run s)) (\<lambda>java_dir. case java_dir of
         None \<Rightarrow> Inl (Http 404 ''No generated Java application available for this run'')
       | Some p \<Rightarrow>
           if fs p = Absent then Inl (Http 404 ''No generated Java application available for this run'')
           else let files = tree_files (fs p) in
     bind_res (raised (check_count (Some max_files) (length files))) (\<lambda>_.
     bind_res (raised (check_sizes max_bytes 0 files)) (\<lambda>_.
     bind_res (raised (read_verified_bundle (fs' p) (rr_generated_seal run) (Some max_files) (Some max_bytes)))
       (\<lambda>bundle. Inr (sort_key fst bundle))))))))"

end
