(* ===== verification/SealFacts.thy ===== *)
theory SealFacts
  imports Seal SerializationFacts
begin

text \<open>
  What a seal protects: a bundle verifies against the seal computed from it, and whatever verifies or is
  exported against that seal is, file by file, the bundle that was sealed.
\<close>

subsection \<open>Tables\<close>

lemma differing_Nil: "differing r a = [] \<longleftrightarrow> map_of r = map_of a"
proof
  assume d: "differing r a = []"
  show "map_of r = map_of a"
  proof
    fix k
    show "map_of r k = map_of a k"
    proof (cases "k \<in> set (map fst r @ map fst a)")
      case True
      then show ?thesis using d by (auto simp: differing_def filter_empty_conv)
    next
      case False
      then have "map_of r k = None" "map_of a k = None" by (auto simp: map_of_eq_None_iff)
      then show ?thesis by simp
    qed
  qed
qed (simp add: differing_def)

lemma map_of_mapped: "map_of (map (map_prod id f) xs) k = map_option f (map_of xs k)"
  by (induction xs) auto

lemma map_of_hashes_inj:
  assumes "map_of (map (map_prod id JStr) xs) = map_of (map (map_prod id JStr) ys)"
  shows "map_of xs = map_of ys"
proof
  fix k
  show "map_of xs k = map_of ys k"
    using fun_cong [OF assms, of k] unfolding map_of_mapped
    by (cases "map_of xs k"; cases "map_of ys k") auto
qed

subsection \<open>Hashing a tree\<close>

text \<open>The bytes of a tree all of whose files can be read.\<close>

definition contents :: "(string \<times> regular_file) list \<Rightarrow> bytes dict" where
  "contents fs = map (map_prod id (\<lambda>f. case f of Readable b \<Rightarrow> b | Unreadable _ \<Rightarrow> [])) fs"

definition readable :: "(string \<times> regular_file) list \<Rightarrow> bool" where
  "readable fs \<longleftrightarrow> (\<forall>p \<in> set fs. \<exists>b. snd p = Readable b)"

lemma hash_files_Inr:
  "hash_files fs = Inr hs \<longleftrightarrow> readable fs \<and> hs = map (map_prod id sha256_hex) (contents fs)"
proof (induction fs arbitrary: hs)
  case Nil
  then show ?case by (auto simp: hash_files_def readable_def contents_def)
next
  case (Cons x fs)
  obtain p f where x: "x = (p, f)" by fastforce
  show ?case
  proof (cases f)
    case (Readable b)
    have "hash_files (x # fs) = bind_res (hash_files fs) (\<lambda>hs. Inr ((p, sha256_hex b) # hs))"
      by (simp add: hash_files_def x Readable hash_file_def)
    then show ?thesis
      using Cons by (cases "hash_files fs") (auto simp: x Readable readable_def contents_def)
  next
    case (Unreadable n)
    then show ?thesis by (simp add: hash_files_def x hash_file_def readable_def)
  qed
qed

lemma read_files_Inr:
  "read_files limit sofar fs = Inr b \<Longrightarrow> readable fs \<and> b = contents fs
     \<and> (\<forall>n. limit = Some n \<longrightarrow> sofar \<le> n \<longrightarrow> sofar + sum_list (map (length \<circ> snd) b) \<le> n)"
proof (induction limit sofar fs arbitrary: b rule: read_files.induct)
  case (2 limit sofar p f fs)
  from 2(2) obtain c where f: "f = Readable c" by (cases f) auto
  from 2(2) f obtain r where r: "read_files limit (sofar + length c) fs = Inr r" "b = (p, c) # r"
      and l: "\<not> (case limit of None \<Rightarrow> False | Some n \<Rightarrow> n < sofar + length c)"
    by (auto simp: Let_def bind_res_eq_Inr split: if_splits)
  from 2(1) [OF f _ l r(1)] r(2) f l show ?case
    by (auto simp: readable_def contents_def)
qed (simp add: readable_def contents_def)

lemma read_files_unlimited: "readable fs \<Longrightarrow> read_files None sofar fs = Inr (contents fs)"
proof (induction fs arbitrary: sofar)
  case (Cons x fs)
  then obtain p b where "x = (p, Readable b)" by (cases x) (auto simp: readable_def)
  then show ?case using Cons by (simp add: readable_def contents_def)
qed (simp add: contents_def)

subsection \<open>The seal document\<close>

lemma recorded_of_seal:
  assumes "distinct (map fst hs)"
  shows "recorded_files (Some (json_dumps (seal_document now hs)))
    = Inr (map (map_prod id JStr) (sort_key fst hs))"
proof -
  have j: "json_ok (seal_document now hs)"
    using assms by (simp add: seal_document_def list_all_iff json_ok_obj)
  have ne: "json_dumps (seal_document now hs) \<noteq> []"
    by (simp add: json_dumps_def seal_document_def sort_keys_JObj)
  have k: "sort_keys (seal_document now hs) = JObj (sorted_dict
      [(''algorithm'', JStr seal_algorithm), (''files'', JObj (map (map_prod id JStr) hs)), (''sealed_at'', JStr now)])"
    unfolding seal_document_def by (rule sort_keys_JObj)
  have f: "sort_keys (JObj (map (map_prod id JStr) hs)) = JObj (map (map_prod id JStr) (sort_key fst hs))"
    using sort_keys_j_dict [of JStr hs] by (simp add: j_dict_def)
  show ?thesis
    by (simp add: recorded_files_def ne loads_dumps [OF j] k jget_sorted jget_Cons f del: sort_keys.simps(6))
qed

lemma map_of_sorted: "distinct (map fst hs) \<Longrightarrow> map_of (sort_key fst hs) = map_of hs"
  using map_of_sort_key by (intro ext) blast

text \<open>Two hash tables agree exactly when the trees do, unless SHA-256 collides on two of the files.\<close>

definition collision :: "bytes dict \<Rightarrow> bytes dict \<Rightarrow> bool" where
  "collision xs ys \<longleftrightarrow> (\<exists>p a b. map_of xs p = Some a \<and> map_of ys p = Some b \<and> a \<noteq> b \<and> sha256_hex a = sha256_hex b)"

lemma same_hashes:
  assumes "map_of (map (map_prod id sha256_hex) xs) = map_of (map (map_prod id sha256_hex) ys)"
  shows "map_of xs = map_of ys \<or> collision xs ys"
proof (rule disjCI)
  assume nc: "\<not> collision xs ys"
  show "map_of xs = map_of ys"
  proof
    fix k
    show "map_of xs k = map_of ys k"
      using fun_cong [OF assms, of k] nc unfolding map_of_mapped collision_def
      by (cases "map_of xs k"; cases "map_of ys k") auto
  qed
qed

lemma fst_contents [simp]: "map fst (contents fs) = map fst fs"
  by (simp add: contents_def)

lemma compute_Inr:
  "compute_generated_seal now root = Inr t \<longleftrightarrow> (\<exists>fs. root = Directory fs \<and> readable fs
     \<and> t = json_dumps (seal_document now (map (map_prod id sha256_hex) (contents fs))))"
  by (cases root) (auto simp: compute_generated_seal_def bind_res_eq_Inr hash_files_Inr)

lemma recorded_of_computed:
  assumes "distinct (map fst fs)"
  shows "recorded_files (Some (json_dumps (seal_document now (map (map_prod id sha256_hex) (contents fs)))))
    = Inr (map (map_prod id JStr) (sort_key fst (map (map_prod id sha256_hex) (contents fs))))"
  by (rule recorded_of_seal) (use assms in simp)

text \<open>Verification, on a tree with distinct paths, compares the recorded table with the tree's hashes.\<close>

lemma verify_iff:
  assumes "distinct (map fst fs)"
  shows "verify_generated_seal (Directory fs) seal now = Inr () \<longleftrightarrow> readable fs
    \<and> (\<exists>recorded. recorded_files seal = Inr recorded
       \<and> map_of recorded = map_of (map (map_prod id JStr) (map (map_prod id sha256_hex) (contents fs))))"
proof (cases "recorded_files seal")
  case (Inr recorded)
  let ?hs = "map (map_prod id sha256_hex) (contents fs)"
  show ?thesis
  proof (cases "readable fs")
    case True
    have d: "distinct (map fst ?hs)" using assms by simp
    have c: "compute_generated_seal now (Directory fs) = Inr (json_dumps (seal_document now ?hs))"
      using True by (simp add: compute_Inr)
    obtain s where s: "json_loads (json_dumps (seal_document now ?hs)) = Inr (JObj s)"
        "jget s ''files'' = JObj (map (map_prod id JStr) (sort_key fst ?hs))"
      using recorded_of_seal [OF d, of now] unfolding recorded_files_def
      by (auto split: if_splits sum.splits json.splits json_error.splits)
    have "map_of (map (map_prod id JStr) (sort_key fst ?hs)) = map_of (map (map_prod id JStr) ?hs)"
      by (rule ext) (simp only: map_of_mapped map_of_sorted [OF d])
    then show ?thesis
      unfolding verify_generated_seal_def Inr c
      using True by (simp add: s differing_Nil)
  next
    case False
    then obtain e where "compute_generated_seal now (Directory fs) = Inl e"
      using compute_Inr [of now "Directory fs"] by (cases "compute_generated_seal now (Directory fs)") auto
    with False show ?thesis
      unfolding verify_generated_seal_def Inr by simp
  qed
qed (simp add: verify_generated_seal_def)

lemma read_bundle_Inr:
  assumes "read_verified_bundle root seal mf mb = Inr bundle"
  shows "\<exists>fs recorded. root = Directory fs \<and> readable fs \<and> bundle = contents fs
    \<and> parse_seal_files seal = Inr recorded \<and> map_of recorded = map_of (map (map_prod id sha256_hex) bundle)
    \<and> (\<forall>n. mf = Some n \<longrightarrow> length bundle \<le> n) \<and> (\<forall>n. mb = Some n \<longrightarrow> sum_list (map (length \<circ> snd) bundle) \<le> n)"
proof -
  from assms obtain recorded where r: "parse_seal_files seal = Inr recorded"
    by (auto simp: read_verified_bundle_def bind_res_eq_Inr)
  from assms r obtain fs where fs: "root = Directory fs"
    by (cases root) (simp_all add: read_verified_bundle_def)
  from assms have b: "check_count mf (length fs) = Inr ()" "read_files mb 0 fs = Inr bundle"
      "differing recorded (map (map_prod id sha256_hex) bundle) = []"
    unfolding read_verified_bundle_def r fs by (auto simp: bind_res_eq_Inr Let_def split: if_splits)
  note rd = read_files_Inr [OF b(2)]
  have "length bundle = length fs" using rd by (simp add: contents_def)
  with b(1) have "\<forall>n. mf = Some n \<longrightarrow> length bundle \<le> n"
    by (auto simp: check_count_def split: if_splits)
  with rd b(3) fs r show ?thesis by (auto simp: differing_Nil)
qed

lemma parse_computed:
  assumes "distinct (map fst fs)"
  shows "parse_seal_files (Some (json_dumps (seal_document now (map (map_prod id sha256_hex) (contents fs)))))
    = Inr (sort_key fst (map (map_prod id sha256_hex) (contents fs)))"
proof -
  have "map (map_prod id py_str) (map (map_prod id JStr) xs) = xs" for xs :: "string dict"
    by (induction xs) (auto simp: py_str_def)
  then show ?thesis by (simp add: parse_seal_files_def recorded_of_computed [OF assms])
qed

subsection \<open>What the seal protects\<close>

lemma verified_is_sealed:
  assumes "compute_generated_seal now root = Inr seal" "distinct (map fst fs)"
    and "root = Directory fs0" "distinct (map fst fs0)"
    and "verify_generated_seal (Directory fs) (Some seal) now' = Inr ()"
  shows "map_of (contents fs) = map_of (contents fs0) \<or> collision (contents fs) (contents fs0)"
proof -
  from assms(1,3) have s: "seal = json_dumps (seal_document now (map (map_prod id sha256_hex) (contents fs0)))"
    by (simp add: compute_Inr)
  have d: "distinct (map fst (map (map_prod id sha256_hex) (contents fs0)))" using assms(4) by simp
  have "map_of (map (map_prod id JStr) (sort_key fst (map (map_prod id sha256_hex) (contents fs0))))
      = map_of (map (map_prod id JStr) (map (map_prod id sha256_hex) (contents fs)))"
    using assms(5) unfolding verify_iff [OF assms(2)] s recorded_of_computed [OF assms(4)] by simp
  from map_of_hashes_inj [OF this] have "map_of (map (map_prod id sha256_hex) (contents fs))
      = map_of (map (map_prod id sha256_hex) (contents fs0))"
    unfolding map_of_sorted [OF d] by simp
  from same_hashes [OF this] show ?thesis .
qed

lemma verify_computed:
  assumes "compute_generated_seal now (Directory fs) = Inr seal" "distinct (map fst fs)"
  shows "verify_generated_seal (Directory fs) (Some seal) now' = Inr ()"
proof -
  from assms(1) have r: "readable fs"
    and s: "seal = json_dumps (seal_document now (map (map_prod id sha256_hex) (contents fs)))"
    by (simp_all add: compute_Inr)
  have d: "distinct (map fst (map (map_prod id sha256_hex) (contents fs)))" using assms(2) by simp
  have "map_of (map (map_prod id JStr) (sort_key fst (map (map_prod id sha256_hex) (contents fs))))
      = map_of (map (map_prod id JStr) (map (map_prod id sha256_hex) (contents fs)))"
    by (rule ext) (simp only: map_of_mapped map_of_sorted [OF d])
  then show ?thesis
    unfolding verify_iff [OF assms(2)] s recorded_of_computed [OF assms(2)] using r by simp
qed

text \<open>C24: a bundle verifies against a seal computed from it, and a tree that verifies against that seal
  later has the same files with the same bytes, unless two different contents have the same SHA-256.\<close>
theorem seal_detects_substitution:
  assumes "compute_generated_seal now (Directory fs0) = Inr seal"
    and "distinct (map fst fs0)" "distinct (map fst fs)"
  shows "verify_generated_seal (Directory fs0) (Some seal) now' = Inr ()
    \<and> (verify_generated_seal (Directory fs) (Some seal) now' = Inr () \<longrightarrow>
        map_of (contents fs) = map_of (contents fs0) \<or> collision (contents fs) (contents fs0))"
  using verify_computed [OF assms(1,2)] verified_is_sealed [OF assms(1,3) refl assms(2)] by blast

definition sample_bundle :: "(string \<times> regular_file) list" where
  "sample_bundle = [(''Main.java'', Readable ''class Main {}''), (''pom.xml'', Readable ''x'')]"

text \<open>A bundle of two files.\<close>
lemma seal_detects_substitution_witness:
  "\<exists>seal. compute_generated_seal ''t'' (Directory sample_bundle) = Inr seal
     \<and> verify_generated_seal (Directory sample_bundle) (Some seal) ''u'' = Inr ()"
proof -
  have d: "distinct (map fst sample_bundle)" by (simp add: sample_bundle_def)
  obtain seal where s: "compute_generated_seal ''t'' (Directory sample_bundle) = Inr seal"
    by (simp add: compute_Inr readable_def sample_bundle_def)
  from seal_detects_substitution [OF s d d, of "''u''"] s show ?thesis by blast
qed

text \<open>Without limits, the export reads and verifies a bundle exactly when verification accepts it, for
  a seal whose file table holds text; it returns all of its files with their bytes.\<close>
theorem export_agrees_with_verification:
  assumes "distinct (map fst fs)" "recorded_files seal = Inr recorded"
    and "list_all (\<lambda>(k, v). \<exists>s. v = JStr s) recorded"
  shows "verify_generated_seal (Directory fs) seal now = Inr ()
    \<longleftrightarrow> read_verified_bundle (Directory fs) seal None None = Inr (contents fs)"
proof -
  let ?hs = "map (map_prod id sha256_hex) (contents fs)"
  have str: "map (map_prod id JStr) (map (map_prod id py_str) recorded) = recorded"
    using assms(3) by (induction recorded) (auto simp: py_str_def)
  have same: "map_of recorded = map_of (map (map_prod id JStr) ?hs) \<longleftrightarrow> map_of (map (map_prod id py_str) recorded) = map_of ?hs"
    (is "?l \<longleftrightarrow> ?r")
  proof
    assume ?l
    then have "map_of (map (map_prod id JStr) (map (map_prod id py_str) recorded)) = map_of (map (map_prod id JStr) ?hs)"
      unfolding str .
    then show ?r by (rule map_of_hashes_inj)
  next
    assume ?r
    then have "map_of (map (map_prod id JStr) (map (map_prod id py_str) recorded)) = map_of (map (map_prod id JStr) ?hs)"
      by (intro ext) (simp only: map_of_mapped)
    then show ?l unfolding str .
  qed
  have p: "parse_seal_files seal = Inr (map (map_prod id py_str) recorded)"
    by (simp add: parse_seal_files_def assms(2))
  show ?thesis
  proof
    assume "verify_generated_seal (Directory fs) seal now = Inr ()"
    then have "readable fs" "map_of (map (map_prod id py_str) recorded) = map_of ?hs"
      using same assms(2) unfolding verify_iff [OF assms(1)] by auto
    then show "read_verified_bundle (Directory fs) seal None None = Inr (contents fs)"
      using p by (simp add: read_verified_bundle_def check_count_def read_files_unlimited differing_Nil)
  next
    assume "read_verified_bundle (Directory fs) seal None None = Inr (contents fs)"
    from read_bundle_Inr [OF this] p
    have "readable fs" "map_of (map (map_prod id py_str) recorded) = map_of ?hs" by auto
    then show "verify_generated_seal (Directory fs) seal now = Inr ()"
      unfolding verify_iff [OF assms(1)] using same assms(2) by auto
  qed
qed

text \<open>The sample bundle and its seal.\<close>
lemma export_agrees_with_verification_witness:
  "\<exists>seal. compute_generated_seal ''t'' (Directory sample_bundle) = Inr seal
     \<and> read_verified_bundle (Directory sample_bundle) (Some seal) None None = Inr (contents sample_bundle)"
proof -
  have d: "distinct (map fst sample_bundle)" by (simp add: sample_bundle_def)
  obtain seal where s: "compute_generated_seal ''t'' (Directory sample_bundle) = Inr seal"
      "seal = json_dumps (seal_document ''t'' (map (map_prod id sha256_hex) (contents sample_bundle)))"
    by (simp add: compute_Inr readable_def sample_bundle_def)
  note f = recorded_of_computed [OF d, of "''t''", folded s(2)]
  have "list_all (\<lambda>(k, v). \<exists>s. v = JStr s) (map (map_prod id JStr) xs)" for xs :: "string dict"
    by (induction xs) auto
  from export_agrees_with_verification [OF d f this, of "''t''"] verify_computed [OF s(1) d] s(1)
  show ?thesis by blast
qed

end
