(* ===== verification/GatesFacts.thy ===== *)
theory GatesFacts
  imports Gates SealFacts IntegrityFacts StoreProperties
begin

text \<open>
  What the gates guarantee: a VERIFIED verdict is only served, approved or exported over admissible
  evidence that it hash-matches, an approval lands on the attempt that was checked, and the exported
  bytes are the sealed ones.
\<close>

subsection \<open>The gates\<close>

text \<open>A VERIFIED verdict with the evidence it was derived from.\<close>

definition certified_run :: "run_record \<Rightarrow> bool" where
  "certified_run run \<longleftrightarrow> (\<exists>v m. rr_verdict run = Some v \<and> vd_state v = VERIFIED
     \<and> rr_evidence_manifest run = Some m \<and> admissible m
     \<and> vd_evidence_manifest_hash v = str_hash (manifest_hash m))"

lemma validate_returns: "(\<exists>x. validate now m = Inr x) \<longleftrightarrow> admissible m"
  by (simp add: validate_def violations_iff)

lemma require_valid_iff:
  "require_valid_evidence now run = Inr () \<longleftrightarrow> (\<exists>m. rr_evidence_manifest run = Some m \<and> admissible m)"
proof (cases "rr_evidence_manifest run")
  case (Some m)
  then show ?thesis
    using validate_returns [of now m] by (cases "validate now m") (auto simp: require_valid_evidence_def)
qed (simp add: require_valid_evidence_def)

lemma consistency_iff:
  "check_evidence_verdict_consistency run = Inr () \<longleftrightarrow>
    (\<forall>v. rr_verdict run = Some v \<longrightarrow> (case rr_evidence_manifest run of
       None \<Rightarrow> vd_state v \<noteq> VERIFIED | Some m \<Rightarrow> vd_evidence_manifest_hash v = str_hash (manifest_hash m)))"
  by (auto simp: check_evidence_verdict_consistency_def split: option.splits)

lemma require_verified_iff: "require_verified_evidence now action run = Inr () \<longleftrightarrow> certified_run run"
  using require_valid_iff [of now run] consistency_iff [of run]
  by (cases "rr_verdict run")
    (auto simp: require_verified_evidence_def certified_run_def Let_def bind_res_eq_Inr split: option.splits)

lemma gate_served_iff:
  assumes "rr_verdict run = Some v" "vd_state v = VERIFIED"
  shows "gate_served_verdict now run = Inr () \<longleftrightarrow> certified_run run"
  using assms require_valid_iff [of now run] consistency_iff [of run]
  by (auto simp: gate_served_verdict_def certified_run_def bind_res_eq_Inr split: option.splits)

subsection \<open>A certified run in a store\<close>

text \<open>An application, a run of it with a bundle, its completion with the sample evidence and the verdict
  derived from it, the seal of the bundle, and its approval.\<close>

definition bundled_run :: run_record where
  "bundled_run = sample_run\<lparr>rr_source_path := Some ''/src'', rr_generated_app_path := Some ''/out''\<rparr>"

definition finished_run :: "verdict \<Rightarrow> run_record" where
  "finished_run v = bundled_run\<lparr>rr_stage := COMPLETED, rr_evidence_manifest := Some sample_manifest, rr_verdict := Some v\<rparr>"

definition finished_db :: "verdict \<Rightarrow> string \<Rightarrow> db" where
  "finished_db v seal = snd (set_generated_seal ''r1'' seal (Some 0)
     (snd (update_run False (finished_run v) (snd (add_run bundled_run sample_db)))))"

definition sample_fs :: file_system where
  "sample_fs = (\<lambda>_. Directory sample_bundle)"

lemma finished_reachable: "reachable (finished_db v seal)"
proof -
  have "store_step empty_db sample_db" unfolding sample_db_def by (rule step_add_application)
  moreover have "store_step sample_db (snd (add_run bundled_run sample_db))"
    by (rule step_add_run) (simp add: fresh_run_def bundled_run_def sample_run_def)
  moreover have "store_step s (snd (update_run False (finished_run v) s))" for s by (rule step_update_run)
  moreover have "store_step s (finished_db v seal)"
    if "s = snd (update_run False (finished_run v) (snd (add_run bundled_run sample_db)))" for s
    unfolding finished_db_def that by (rule step_seal)
  ultimately show ?thesis unfolding reachable_def by (meson rtranclp.intros)
qed

lemma stored_sample: "stored_form sample_manifest = sample_manifest"
  by (simp add: stored_form_def sample_defs covered_environment_def covered_input_def covered_execution_def
      covered_comparison_def)

definition finished_row :: "bytes option \<Rightarrow> bytes option \<Rightarrow> string \<Rightarrow> run_row" where
  "finished_row ev ve seal = (new_run_row bundled_run (ev, ve, None) None)
     \<lparr>rw_stage := ''COMPLETED'', rw_generated_seal := Some seal\<rparr>"

lemma finished_store:
  assumes "run_params (finished_run v) = Inr (ev, ve, None)"
  shows "db_runs (finished_db v seal) = [finished_row ev ve seal]"
    and "db_apps (finished_db v seal) = [app_params sample_application]"
    and "db_events (finished_db v seal) = []"
proof -
  let ?w = "new_run_row bundled_run (None, None, None) None"
  have n: "run_params bundled_run = Inr (None, None, None)"
    by (simp add: run_params_def encode_opt_def encode_report_def bundled_run_def sample_run_def)
  have d: "db_apps sample_db = [app_params sample_application]" "db_runs sample_db = []" "db_events sample_db = []"
    by (simp_all add: sample_db_def add_application_def empty_db_def find_app_def commit_def)
  have a: "db_runs (snd (add_run bundled_run sample_db)) = [?w]"
      "db_apps (snd (add_run bundled_run sample_db)) = [app_params sample_application]"
      "db_events (snd (add_run bundled_run sample_db)) = []"
    using n by (simp_all add: add_run_def d find_run_def encode_snapshot_def bundled_run_def sample_run_def)
  have f: "rr_id (finished_run v) = ''r1''" "rr_stage (finished_run v) = COMPLETED" "rr_generation (finished_run v) = 0"
    by (simp_all add: finished_run_def bundled_run_def sample_run_def)
  have w: "rw_id ?w = ''r1''" "rw_stage ?w = ''CREATED''" "rw_generation ?w = 0"
    by (simp_all add: new_run_row_def bundled_run_def sample_run_def)
  have u: "update_run False (finished_run v) s = (Inr (), commit (update_runs (\<lambda>x. rw_id x = ''r1'')
      (run_columns (finished_run v) (ev, ve, None)) s))" if "db_runs s = [?w]" for s
    using that f w assms by (simp add: update_run_def find_run_def parse_stage_def all_stages_def Let_def
        is_valid_transition_def last_stage_anchor_def terminal_stages_def)
  have c: "(run_columns (finished_run v) (ev, ve, None) ?w)\<lparr>rw_generated_seal := Some seal\<rparr> = finished_row ev ve seal"
    by (simp add: run_columns_def finished_row_def new_run_row_def finished_run_def bundled_run_def sample_run_def)
  have g: "rw_id (run_columns (finished_run v) (ev, ve, None) ?w) = ''r1''"
      "rw_generation (run_columns (finished_run v) (ev, ve, None) ?w) = 0"
    using w f by (simp_all add: run_columns_def)
  show "db_runs (finished_db v seal) = [finished_row ev ve seal]"
    "db_apps (finished_db v seal) = [app_params sample_application]" "db_events (finished_db v seal) = []"
    using a w g by (simp_all add: finished_db_def u set_generated_seal_def write_run_def bound_to_def
        update_where_def c)
qed

definition approved_db :: "verdict \<Rightarrow> string \<Rightarrow> db" where
  "approved_db v seal =
     snd (set_run_approval ''t1'' ''r1'' ''APPROVED'' ''alice'' None (Some 0) (finished_db v seal))"

definition decided_row :: "string \<Rightarrow> string option \<Rightarrow> string option \<Rightarrow> run_row \<Rightarrow> run_row" where
  "decided_row st approver at w = w\<lparr>rw_approval_state := st, rw_approval_approver := approver,
     rw_approval_reason := None, rw_approval_decided_at := at\<rparr>"

lemma finished_undecided: "finished_row ev ve seal = decided_row ''PENDING'' None None (finished_row ev ve seal)"
  by (simp add: decided_row_def finished_row_def new_run_row_def bundled_run_def sample_run_def)

lemma finished_row_key: "rw_id (finished_row ev ve seal) = ''r1''" "rw_generation (finished_row ev ve seal) = 0"
  by (simp_all add: finished_row_def new_run_row_def bundled_run_def sample_run_def)

lemma approved_store:
  assumes "run_params (finished_run v) = Inr (ev, ve, None)"
  shows "db_runs (approved_db v seal) = [decided_row ''APPROVED'' (Some ''alice'') (Some ''t1'') (finished_row ev ve seal)]"
    and "db_apps (approved_db v seal) = [app_params sample_application]" and "db_events (approved_db v seal) \<noteq> []"
  using finished_store [OF assms, of seal] finished_row_key [of ev ve seal]
  by (simp_all add: approved_db_def set_run_approval_def bound_to_def Let_def update_where_def decided_row_def
      split: option.split)

text \<open>What a reader gets for such a row.\<close>

lemma decided_readable:
  assumes "run_params (finished_run v) = Inr (ev, ve, None)" "storable_verdict v" "vd_state v = VERIFIED"
    and "vd_evidence_manifest_hash v = str_hash (manifest_hash sample_manifest)"
    and "db_runs s = [decided_row st x y (finished_row ev ve seal)]" "st \<noteq> []"
  shows "\<exists>run. service_get_run ''r1'' s = Inr run \<and> rr_verdict run = Some v \<and> certified_run run
    \<and> rr_generation run = 0 \<and> rr_generated_seal run = Some seal \<and> rr_approval_state run = st
    \<and> rr_application_id run = ''a1'' \<and> (\<forall>s. run_generated_path run s = Inr (Some ''/out''))"
proof -
  have st: "storable_run (finished_run v)"
    using assms(2) sample_storable by (simp add: storable_run_def finished_run_def bundled_run_def sample_run_def)
  note d = decode_run_params [OF st assms(1)]
  have r: "\<exists>run. run_from_row (decided_row st x y (finished_row ev ve seal)) = Inr run \<and> rr_verdict run = Some v
      \<and> rr_evidence_manifest run = Some sample_manifest \<and> rr_generation run = 0 \<and> rr_generated_seal run = Some seal
      \<and> rr_approval_state run = st \<and> rr_application_id run = ''a1'' \<and> rr_generated_app_path run = Some ''/out''"
    using d assms(6) by (simp add: run_from_row_def decided_row_def finished_row_def new_run_row_def
        parse_stage_def all_stages_def decode_snapshot_def finished_run_def bundled_run_def sample_run_def
        stored_sample or_default_def)
  then obtain run where run: "run_from_row (decided_row st x y (finished_row ev ve seal)) = Inr run"
      "rr_verdict run = Some v" "rr_evidence_manifest run = Some sample_manifest" "rr_generation run = 0"
      "rr_generated_seal run = Some seal" "rr_approval_state run = st" "rr_application_id run = ''a1''"
      "rr_generated_app_path run = Some ''/out''" by blast
  have "certified_run run"
    unfolding certified_run_def using run assms(3,4) sample_admissible by blast
  moreover have "service_get_run ''r1'' s = Inr run"
    using run(1) finished_row_key [of ev ve seal]
    by (simp add: service_get_run_def get_run_def find_run_def assms(5)) (simp add: decided_row_def)
  ultimately show ?thesis using run by (simp add: run_generated_path_def)
qed

text \<open>The verdict derived from the sample evidence.\<close>

lemma sample_verdict:
  "\<exists>v ev ve. vd_state v = VERIFIED \<and> storable_verdict v \<and> run_params (finished_run v) = Inr (ev, ve, None)
     \<and> vd_evidence_manifest_hash v = str_hash (manifest_hash sample_manifest)"
proof -
  obtain v where v: "create_verdict ''t'' VERIFIED sample_manifest [] = Inr v"
    and c: "vd_state v = VERIFIED" "vd_executed_check_count v = 1" "vd_skipped_count v = 0" "vd_unavailable_count v = 0"
      "vd_evidence_manifest_hash v = str_hash (manifest_hash sample_manifest)"
    by (auto simp: create_verdict_def oracle_attr_def scope_for_def Let_def sample_defs)
  have st: "storable_verdict v"
    by (rule derived_verdict_storable [OF v]) (simp_all add: sample_defs)
  have "ints_within_limit (verdict_to_dict v)"
    using c by (simp add: verdict_to_dict_def j_strs_def j_opt_def show_nat.simps int_digit_limit_def
        list_all_iff split: option.split)
  then obtain b where "encode_verdict v = Inr b" by (simp add: encode_verdict_def encode_envelope_def)
  moreover obtain b' where "encode_evidence_manifest sample_manifest = Inr b'" using sample_encodes by blast
  ultimately have "run_params (finished_run v) = Inr (Some b', Some b, None)"
    by (simp add: run_params_def encode_opt_def encode_report_def finished_run_def bundled_run_def sample_run_def)
  with c st show ?thesis by blast
qed

lemma sample_seal: "\<exists>seal. compute_generated_seal ''t'' (Directory sample_bundle) = Inr seal"
  by (simp add: compute_Inr readable_def sample_bundle_def)

lemma sample_bundle_distinct: "distinct (map fst sample_bundle)"
  by (simp add: sample_bundle_def)

text \<open>The finished store, its run and the passed approval check.\<close>

lemma finished_example:
  "\<exists>v seal run. vd_state v = VERIFIED \<and> compute_generated_seal ''t'' (Directory sample_bundle) = Inr seal
     \<and> service_get_run ''r1'' (finished_db v seal) = Inr run \<and> rr_verdict run = Some v \<and> certified_run run
     \<and> approval_check ''t1'' sample_fs True ''r1'' ''APPROVED'' (finished_db v seal) = Inr (Some 0)
     \<and> db_events (approved_db v seal) \<noteq> db_events (finished_db v seal)"
proof -
  obtain v ev ve where v: "vd_state v = VERIFIED" "storable_verdict v" "run_params (finished_run v) = Inr (ev, ve, None)"
    "vd_evidence_manifest_hash v = str_hash (manifest_hash sample_manifest)" using sample_verdict by blast
  obtain seal where s: "compute_generated_seal ''t'' (Directory sample_bundle) = Inr seal" using sample_seal by blast
  have "db_runs (finished_db v seal) = [decided_row ''PENDING'' None None (finished_row ev ve seal)]"
    unfolding finished_undecided [symmetric] by (rule finished_store(1) [OF v(3)])
  from decided_readable [OF v(3,2,1,4) this] obtain run where run: "service_get_run ''r1'' (finished_db v seal) = Inr run" "rr_verdict run = Some v"
    "certified_run run" "rr_generation run = 0" "rr_generated_seal run = Some seal"
    "\<forall>s. run_generated_path run s = Inr (Some ''/out'')" by blast
  have "approval_check ''t1'' sample_fs True ''r1'' ''APPROVED'' (finished_db v seal) = Inr (Some 0)"
    using run require_verified_iff [of "''t1''" "''approved''" run] verify_computed [OF s sample_bundle_distinct]
    by (simp add: approval_check_def sample_fs_def)
  with v(1) s run finished_store(3) [OF v(3)] approved_store(3) [OF v(3)] show ?thesis by auto
qed

subsection \<open>Views\<close>

text \<open>C23: No view shows a VERIFIED that its evidence does not carry. For a run whose verdict is VERIFIED, the summary
  and the verdict view answer exactly when the persisted evidence is admissible and is the evidence the verdict
  names. The comparison view answers then too, with the comparisons of that evidence, and refuses otherwise,
  except that it answers with no comparison at all for a run that has no evidence.\<close>
theorem served_verified_iff_certified:
  assumes "service_get_run i s = Inr run" "rr_verdict run = Some v" "vd_state v = VERIFIED"
  shows "returns (run_verdict_state now run) = certified_run run
    \<and> returns (service_get_verdict now i s) = certified_run run
    \<and> (case rr_evidence_manifest run of
         None \<Rightarrow> service_get_comparisons now i s = Inr []
       | Some m \<Rightarrow> returns (service_get_comparisons now i s) = certified_run run
           \<and> (certified_run run \<longrightarrow> service_get_comparisons now i s = Inr (map served_comparison (em_comparisons m))))"
proof -
  note g = gate_served_iff [OF assms(2,3), of now]
  have "returns (bind_res (gate_served_verdict now run) (\<lambda>_. Inr (f ()))) = certified_run run" for f :: "unit \<Rightarrow> 'a"
    using g by (cases "gate_served_verdict now run") auto
  from this [of "\<lambda>_. Some (verdict_value (vd_state v))"] this
  show ?thesis
    using assms g
    by (cases "gate_served_verdict now run")
      (auto simp: run_verdict_state_def service_get_verdict_def service_get_comparisons_def Let_def
        certified_run_def split: option.split)
qed

text \<open>The finished run.\<close>
lemma served_verified_iff_certified_witness:
  "\<exists>v seal run. service_get_run ''r1'' (finished_db v seal) = Inr run \<and> rr_verdict run = Some v
     \<and> vd_state v = VERIFIED \<and> returns (run_verdict_state ''t1'' run)
     \<and> returns (service_get_verdict ''t1'' ''r1'' (finished_db v seal))"
proof -
  obtain v seal run where v: "vd_state v = VERIFIED" "service_get_run ''r1'' (finished_db v seal) = Inr run"
    "rr_verdict run = Some v" "certified_run run" using finished_example by blast
  with served_verified_iff_certified [OF v(2,3,1), of "''t1''"] show ?thesis by blast
qed

subsection \<open>Approval\<close>

lemma service_run_row:
  assumes "service_get_run i s = Inr run"
  shows "\<exists>w. find_run s i = Some w \<and> rr_generation run = rw_generation w \<and> rr_id run = i"
proof -
  from assms obtain w where w: "find_run s i = Some w" "run_from_row w = Inr run"
    by (auto simp: service_get_run_def get_run_def bind_res_eq_Inr split: option.splits)
  then show ?thesis
    using find_run_mem [OF w(1)] by (auto simp: run_from_row_def bind_res_eq_Inr)
qed

lemma approval_check_Inr:
  assumes "approval_check now fs production i ''APPROVED'' s = Inr g"
  shows "\<exists>run bundle. service_get_run i s = Inr run \<and> certified_run run \<and> g = Some (rr_generation run)
    \<and> run_generated_path run s = Inr bundle
    \<and> (case bundle of Some p \<Rightarrow> verify_generated_seal (fs p) (rr_generated_seal run) now = Inr ()
       | None \<Rightarrow> \<not> production)"
  using assms require_verified_iff
  by (auto simp: approval_check_def bind_res_eq_Inr split: option.splits if_splits)

text \<open>C22: An APPROVED decision enters the audit trail only for a run whose verdict is VERIFIED over admissible
  evidence it hash-matches. When the run has a generated bundle, the bundle on disk still matches its seal;
  a run without a bundle is approved outside production only.\<close>
theorem approval_needs_certified_run:
  assumes "service_set_run_approval now fs production i ''APPROVED'' approver reason s = (res, s')"
    and "db_events s' \<noteq> db_events s"
  shows "\<exists>run bundle. service_get_run i s = Inr run \<and> certified_run run
    \<and> run_generated_path run s = Inr bundle
    \<and> (case bundle of Some p \<Rightarrow> verify_generated_seal (fs p) (rr_generated_seal run) now = Inr ()
       | None \<Rightarrow> \<not> production)"
proof (cases "approval_check now fs production i ''APPROVED'' s")
  case (Inl e)
  with assms show ?thesis by (simp add: service_set_run_approval_def)
next
  case (Inr g)
  from approval_check_Inr [OF this] show ?thesis by blast
qed

text \<open>The approval of the finished run.\<close>
lemma approval_needs_certified_run_witness:
  "\<exists>v seal res s'. service_set_run_approval ''t1'' sample_fs True ''r1'' ''APPROVED'' ''alice'' None (finished_db v seal)
      = (res, s') \<and> db_events s' \<noteq> db_events (finished_db v seal)
    \<and> (\<exists>run. service_get_run ''r1'' (finished_db v seal) = Inr run \<and> certified_run run)"
proof -
  obtain v seal where v: "approval_check ''t1'' sample_fs True ''r1'' ''APPROVED'' (finished_db v seal) = Inr (Some 0)"
    "db_events (approved_db v seal) \<noteq> db_events (finished_db v seal)" using finished_example by blast
  have "snd (service_set_run_approval ''t1'' sample_fs True ''r1'' ''APPROVED'' ''alice'' None (finished_db v seal))
      = approved_db v seal"
    using v(1) by (simp add: service_set_run_approval_def approved_db_def)
  then obtain res where r: "service_set_run_approval ''t1'' sample_fs True ''r1'' ''APPROVED'' ''alice'' None (finished_db v seal)
      = (res, approved_db v seal)" by (metis prod.collapse)
  from approval_needs_certified_run [OF r v(2)] r v(2) show ?thesis by blast
qed

text \<open>C21: an approval lands on the attempt that was checked: when the checks passed on one store and the
  decision is written on a later one, whatever calls came between, a decision that is recorded is
  recorded on a run of the same attempt number.\<close>
theorem approval_lands_on_checked_attempt:
  assumes "reachable s" "approval_check now fs production i ''APPROVED'' s = Inr g" "store_steps s u"
    and "set_run_approval now' i ''APPROVED'' approver reason g u = (res, u')" "db_events u' \<noteq> db_events u"
  shows "\<exists>run w. service_get_run i s = Inr run \<and> certified_run run
    \<and> find_run u i = Some w \<and> rw_generation w = rr_generation run"
proof -
  from approval_check_Inr [OF assms(2)] obtain run where run: "service_get_run i s = Inr run"
    "certified_run run" "g = Some (rr_generation run)" by blast
  from steps_history [OF assms(3) reachable_inv [OF assms(1)]] have inv: "store_inv u"
    by (simp add: history_ok_def)
  from service_run_row [OF run(1)] obtain x where x: "find_run s i = Some x" by blast
  from steps_history [OF assms(3) reachable_inv [OF assms(1)]] x obtain w where w: "find_run u i = Some w"
    unfolding history_ok_def by blast
  have "rw_generation w = rr_generation run"
  proof (rule ccontr)
    assume "rw_generation w \<noteq> rr_generation run"
    then obtain d where "set_run_approval now' i ''APPROVED'' approver reason g u = (Inl (Api ConflictError d), rollback u)"
      using stale_calls(4) [OF inv w, of "rr_generation run" "''APPROVED''" now' approver reason] run(3) by auto
    with assms(4,5) show False by (metis db_frame(10) prod.inject)
  qed
  with run w show ?thesis by blast
qed

text \<open>The approval of the finished run, with nothing in between.\<close>
lemma approval_lands_on_checked_attempt_witness:
  "\<exists>v seal run w. service_get_run ''r1'' (finished_db v seal) = Inr run \<and> certified_run run
     \<and> find_run (finished_db v seal) ''r1'' = Some w \<and> rw_generation w = rr_generation run"
proof -
  obtain v seal where v: "approval_check ''t1'' sample_fs True ''r1'' ''APPROVED'' (finished_db v seal) = Inr (Some 0)"
    "db_events (approved_db v seal) \<noteq> db_events (finished_db v seal)" using finished_example by blast
  obtain res where r: "set_run_approval ''t1'' ''r1'' ''APPROVED'' ''alice'' None (Some 0) (finished_db v seal)
      = (res, approved_db v seal)" unfolding approved_db_def by (metis prod.collapse)
  from approval_lands_on_checked_attempt [OF finished_reachable v(1) rtranclp.rtrancl_refl r v(2)]
  show ?thesis by blast
qed

text \<open>C30: rejecting always works: for a run that exists, whatever its verdict, its evidence or its bundle,
  a REJECTED decision is recorded on the run and in the audit trail.\<close>
theorem rejection_always_lands:
  assumes "runs_ok s" "find_run s i = Some w"
  shows "\<exists>s' w'. snd (service_set_run_approval now fs production i ''REJECTED'' approver reason s) = s'
    \<and> find_run s' i = Some w'
    \<and> approval_columns w' = (''REJECTED'', Some approver, reason, Some now)
    \<and> db_events s' = db_events s @ [\<lparr>av_run_id = i, av_state = ''REJECTED'', av_approver = Some approver,
         av_reason = reason, av_recorded_at = now\<rparr>]"
proof -
  let ?f = "\<lambda>w. w\<lparr>rw_approval_state := ''REJECTED'', rw_approval_approver := Some approver,
      rw_approval_reason := reason, rw_approval_decided_at := Some now\<rparr>"
  have k: "keeps_run_id ?f" by (simp add: keeps_run_id_def)
  have ne: "filter (bound_to i None) (db_runs s) \<noteq> []"
    using bound_to_Nil [OF assms(1), of i None] assms(2) by simp
  let ?s = "commit ((update_runs (bound_to i None) ?f s)\<lparr>db_events := db_events s
      @ [\<lparr>av_run_id = i, av_state = ''REJECTED'', av_approver = Some approver, av_reason = reason,
          av_recorded_at = now\<rparr>]\<rparr>)"
  have s: "snd (service_set_run_approval now fs production i ''REJECTED'' approver reason s) = ?s"
    using ne by (simp add: service_set_run_approval_def approval_check_def set_run_approval_def Let_def
        split: option.split)
  have "find_run ?s i = Some (?f w)"
    using assms(2) find_run_mem [OF assms(2)] by (simp add: find_run_def find_run_updated [OF k] bound_to_def)
  moreover have "db_events ?s = db_events s @ [\<lparr>av_run_id = i, av_state = ''REJECTED'', av_approver = Some approver,
      av_reason = reason, av_recorded_at = now\<rparr>]" by simp
  ultimately show ?thesis unfolding s by (auto simp: approval_columns_def)
qed

text \<open>The run that has only been created.\<close>
lemma rejection_always_lands_witness:
  "\<exists>s' w'. snd (service_set_run_approval ''t1'' sample_fs True ''r1'' ''REJECTED'' ''bob'' None sample_created) = s'
     \<and> find_run s' ''r1'' = Some w' \<and> approval_columns w' = (''REJECTED'', Some ''bob'', None, Some ''t1'')"
  using rejection_always_lands [OF store_invD(1) [OF reachable_inv [OF sample_reachable(1)]] sample_find(1),
      of "''t1''" sample_fs True "''bob''" None] by blast

subsection \<open>Export\<close>

lemma raised_Inr [simp]: "raised r = Inr x \<longleftrightarrow> r = Inr x"
  by (cases r) (simp_all add: raised_def)

lemma check_sizes_bound:
  "check_sizes limit sofar files = Inr () \<Longrightarrow> sofar \<le> limit \<Longrightarrow> sofar + sum_list (map (file_size \<circ> snd) files) \<le> limit"
  by (induction limit sofar files rule: check_sizes.induct) (auto simp: Let_def split: if_splits)

lemma download_Inr:
  assumes "download_generated now max_files max_bytes fs fs' i s = Inr entries"
  shows "\<exists>run p bundle. service_get_run i s = Inr run \<and> rr_approval_state run = ''APPROVED''
    \<and> certified_run run \<and> run_generated_path run s = Inr (Some p)
    \<and> read_verified_bundle (fs' p) (rr_generated_seal run) (Some max_files) (Some max_bytes) = Inr bundle
    \<and> entries = sort_key fst bundle"
  using assms require_verified_iff
  by (auto simp: download_generated_def bind_res_eq_Inr Let_def split: option.splits if_splits)

text \<open>C12: what an export serves: the run is approved, its verdict is VERIFIED over admissible evidence, the
  archive keeps the limits, and when the run's seal was computed from a bundle, the archive holds exactly
  the files of that bundle with their bytes, or a SHA-256 collision - however the tree on disk changed
  between the two walks over it.\<close>
theorem export_is_the_sealed_bundle:
  assumes "download_generated now max_files max_bytes fs fs' i s = Inr entries"
    and "service_get_run i s = Inr run" "run_generated_path run s = Inr (Some p)"
    and "compute_generated_seal t (Directory fs0) = Inr seal" "rr_generated_seal run = Some seal"
    and "distinct (map fst fs0)" "distinct (map fst (tree_files (fs' p)))"
  shows "rr_approval_state run = ''APPROVED'' \<and> certified_run run
    \<and> length entries \<le> max_files \<and> sum_list (map (length \<circ> snd) entries) \<le> max_bytes
    \<and> (map_of entries = map_of (contents fs0) \<or> collision entries (contents fs0))"
proof -
  from download_Inr [OF assms(1)] assms(2,3) obtain bs
    where ok: "rr_approval_state run = ''APPROVED''" "certified_run run"
      and r: "read_verified_bundle (fs' p) (Some seal) (Some max_files) (Some max_bytes) = Inr bs"
      and e: "entries = sort_key fst bs"
    using assms(5) by auto
  from assms(4) have s: "seal = json_dumps (seal_document t (map (map_prod id sha256_hex) (contents fs0)))"
    by (simp add: compute_Inr)
  from read_bundle_Inr [OF r] obtain files where f: "fs' p = Directory files" "bs = contents files"
    and h: "map_of (sort_key fst (map (map_prod id sha256_hex) (contents fs0))) = map_of (map (map_prod id sha256_hex) bs)"
    and l: "length bs \<le> max_files" "sum_list (map (length \<circ> snd) bs) \<le> max_bytes"
    unfolding s parse_computed [OF assms(6)] by auto
  have d: "distinct (map fst (map (map_prod id sha256_hex) (contents fs0)))" using assms(6) by simp
  have db: "distinct (map fst bs)" using assms(7) f by (simp add: tree_files_def)
  have m: "map_of entries = map_of bs" unfolding e by (rule map_of_sorted [OF db])
  have "map_of bs = map_of (contents fs0) \<or> collision bs (contents fs0)"
    using same_hashes [of bs "contents fs0"] h unfolding map_of_sorted [OF d] by simp
  then have "map_of entries = map_of (contents fs0) \<or> collision entries (contents fs0)"
    unfolding collision_def m .
  moreover have "sum_list (map (length \<circ> snd) entries) = sum_list (map (length \<circ> snd) bs)"
    unfolding e by (metis mset_map mset_sort sum_mset_sum_list)
  ultimately show ?thesis using ok l by (simp add: e)
qed

text \<open>The export of the approved run.\<close>
lemma export_is_the_sealed_bundle_witness:
  "\<exists>v seal entries. download_generated ''t2'' 10 100 sample_fs sample_fs ''r1'' (approved_db v seal) = Inr entries
     \<and> length entries \<le> 10
     \<and> (map_of entries = map_of (contents sample_bundle) \<or> collision entries (contents sample_bundle))"
proof -
  obtain v ev ve where v: "vd_state v = VERIFIED" "storable_verdict v" "run_params (finished_run v) = Inr (ev, ve, None)"
    "vd_evidence_manifest_hash v = str_hash (manifest_hash sample_manifest)" using sample_verdict by blast
  obtain seal where s: "compute_generated_seal ''t'' (Directory sample_bundle) = Inr seal" using sample_seal by blast
  from decided_readable [OF v(3,2,1,4) approved_store(1) [OF v(3)]]
  obtain run where run: "service_get_run ''r1'' (approved_db v seal) = Inr run" "certified_run run"
    "rr_approval_state run = ''APPROVED''" "rr_generated_seal run = Some seal" "rr_application_id run = ''a1''"
    "\<forall>s. run_generated_path run s = Inr (Some ''/out'')" by blast
  have app: "\<exists>app. service_get_application ''a1'' (approved_db v seal) = Inr app"
    by (simp add: service_get_application_def get_application_def find_app_def approved_store(2) [OF v(3)]
        app_params_def sample_application_def app_from_row_def decode_encode_str_list)
  have seal: "seal = json_dumps (seal_document ''t'' (map (map_prod id sha256_hex) (contents sample_bundle)))"
    using s by (simp add: compute_Inr)
  have rd: "read_files (Some 100) 0 sample_bundle = Inr (contents sample_bundle)"
    by (simp add: sample_bundle_def contents_def)
  have d: "distinct (map fst (map (map_prod id sha256_hex) (contents sample_bundle)))"
    using sample_bundle_distinct by simp
  have b: "read_verified_bundle (Directory sample_bundle) (Some seal) (Some 10) (Some 100) = Inr (contents sample_bundle)"
    using rd map_of_sorted [OF d]
    by (simp add: read_verified_bundle_def seal parse_computed [OF sample_bundle_distinct] check_count_def
        differing_Nil sample_bundle_def [THEN arg_cong, of length])
  have rv: "require_verified_evidence ''t2'' ''exported'' run = Inr ()" using run(2) require_verified_iff by blast
  have c: "check_count (Some 10) (length sample_bundle) = Inr ()" "check_sizes 100 0 sample_bundle = Inr ()"
    by (simp_all add: check_count_def sample_bundle_def)
  obtain app where "service_get_application ''a1'' (approved_db v seal) = Inr app" using app by blast
  then have dl: "download_generated ''t2'' 10 100 sample_fs sample_fs ''r1'' (approved_db v seal)
      = Inr (sort_key fst (contents sample_bundle))"
    using run rv b c by (simp add: download_generated_def sample_fs_def tree_files_def raised_def Let_def)
  have "run_generated_path run (approved_db v seal) = Inr (Some ''/out'')" using run(6) by blast
  from export_is_the_sealed_bundle [OF dl run(1) this s run(4) sample_bundle_distinct] sample_bundle_distinct dl
  show ?thesis by (intro exI [of _ v] exI [of _ seal] exI [of _ "sort_key fst (contents sample_bundle)"])
    (simp add: sample_fs_def tree_files_def)
qed

subsection \<open>A refusal that is not a conflict\<close>

definition unproven_claim :: "verdict \<Rightarrow> run_record" where
  "unproven_claim v = sample_run\<lparr>rr_stage := COMPLETED, rr_verdict := Some (v\<lparr>vd_state := VERIFIED\<rparr>)\<rparr>"

text \<open>An approval of a run that claims VERIFIED without evidence is refused with status 500, not with
  the 409 the gate promises for every refusal.\<close>
theorem unproven_claim_is_a_server_error:
  "\<exists>c d. require_verified_evidence now action (unproven_claim v) = Inl (Api c d) \<and> status_code c = 500"
  by (simp add: require_verified_evidence_def check_evidence_verdict_consistency_def unproven_claim_def
      sample_run_def raise_api_def)

end
