(* ===== verification/ContentStore.thy ===== *)
theory ContentStore
  imports Evidence
begin

text \<open>
  Content-addressed storage of evidence artifacts (\<open>ContentAddressedStorage\<close> of
  \<open>engine/evidence/models.py\<close>). The interface its users rely on is the locale
  \<open>content_store\<close>: reading an address just written gives the content, other addresses keep
  theirs. What follows for whole histories of writes is proved once in the locale.
\<close>

record cas =
  cas_store :: "string \<rightharpoonup> bytes"

definition cas_empty :: cas where
  "cas_empty = \<lparr>cas_store = Map.empty\<rparr>"

definition cas_put :: "bytes \<Rightarrow> cas \<Rightarrow> content_hash \<times> cas" where
  "cas_put content s =
     (let h = hash_from_bytes content
      in (h, s\<lparr>cas_store := (cas_store s)(digest h \<mapsto> content)\<rparr>))"

definition cas_retrieve :: "cas \<Rightarrow> content_hash \<Rightarrow> bytes option" where
  "cas_retrieve s h = cas_store s (digest h)"

definition cas_exists :: "cas \<Rightarrow> content_hash \<Rightarrow> bool" where
  "cas_exists s h = (cas_store s (digest h) \<noteq> None)"

definition cas_verify :: "cas \<Rightarrow> content_hash \<Rightarrow> bool" where
  "cas_verify s h = (case cas_retrieve s h of None \<Rightarrow> False | Some c \<Rightarrow> hash_verify h c)"

subsection \<open>The interface\<close>

locale content_store =
  fixes init :: 's
    and put :: "bytes \<Rightarrow> 's \<Rightarrow> content_hash \<times> 's"
    and get :: "'s \<Rightarrow> content_hash \<Rightarrow> bytes option"
    and addr :: "bytes \<Rightarrow> content_hash"
  assumes put_addr: "fst (put b s) = addr b"
    and get_put: "get (snd (put b s)) (addr b) = Some b"
    and get_put_other: "h \<noteq> addr b \<Longrightarrow> get (snd (put b s)) h = get s h"
    and get_init: "get init h = None"
begin

fun puts :: "bytes list \<Rightarrow> 's \<Rightarrow> 's" where
  "puts [] s = s"
| "puts (b # bs) s = puts bs (snd (put b s))"

lemma get_puts_member: "get (puts bs s) h = Some c \<Longrightarrow> c \<in> set bs \<and> addr c = h \<or> get s h = Some c"
proof (induction bs arbitrary: s)
  case (Cons b bs)
  then have "c \<in> set bs \<and> addr c = h \<or> get (snd (put b s)) h = Some c" by simp
  then show ?case
    by (cases "h = addr b") (auto simp: get_put get_put_other)
qed simp

lemma get_puts_keeps: "get s h \<noteq> None \<Longrightarrow> get (puts bs s) h \<noteq> None"
proof (induction bs arbitrary: s)
  case (Cons b bs)
  then show ?case by (cases "h = addr b") (auto simp: get_put get_put_other)
qed simp

lemma get_puts_stored: "b \<in> set bs \<Longrightarrow> get (puts bs s) (addr b) \<noteq> None"
proof (induction bs arbitrary: s)
  case (Cons a bs)
  then show ?case
    using get_puts_keeps [of "snd (put a s)" "addr a" bs] by (auto simp: get_put)
qed simp

text \<open>Only a collision of addresses can lose stored content.\<close>

lemma stored_or_collision:
  assumes "b \<in> set bs"
  shows "get (puts bs init) (addr b) = Some b \<or>
    (\<exists>c \<in> set bs. c \<noteq> b \<and> addr c = addr b \<and> get (puts bs init) (addr b) = Some c)"
proof -
  from get_puts_stored [OF assms] obtain c where c: "get (puts bs init) (addr b) = Some c" by blast
  from get_puts_member [OF this] have "c \<in> set bs" "addr c = addr b" by (auto simp: get_init)
  with c show ?thesis by auto
qed

end

lemma digest_inject [simp]: "digest g = digest h \<longleftrightarrow> g = h"
  by (cases g; cases h) simp

interpretation cs: content_store cas_empty cas_put cas_retrieve hash_from_bytes
  by unfold_locales (simp_all add: cas_put_def cas_retrieve_def cas_empty_def Let_def)

text \<open>The state after storing a list of contents in order.\<close>

fun cas_puts :: "bytes list \<Rightarrow> cas \<Rightarrow> cas" where
  "cas_puts [] s = s"
| "cas_puts (b # bs) s = cas_puts bs (snd (cas_put b s))"

lemma cas_puts_eq: "cas_puts bs s = cs.puts bs s"
  by (induction bs arbitrary: s) simp_all

lemma cas_exists_iff: "cas_exists s h \<longleftrightarrow> cas_retrieve s h \<noteq> None"
  by (simp add: cas_exists_def cas_retrieve_def)

end
