(* ===== verification/CobolText.thy ===== *)
theory CobolText
  imports Prelude
begin

text \<open>
  Text as the transformation reads it: upper case, decimal digit strings and their values, quotes.
\<close>

subsection \<open>Upper case\<close>

text \<open>\<open>str.upper()\<close> on 8-bit text. Two characters (U+00B5 and U+00FF) have an upper case outside it and
  are left as they are; none of the words the code compares with contains them.\<close>

definition upper_char :: "char \<Rightarrow> string" where
  "upper_char c =
     (let n = of_char c :: nat in
      if 97 \<le> n \<and> n \<le> 122 \<or> 224 \<le> n \<and> n \<le> 254 \<and> n \<noteq> 247 then [char_of (n - 32)]
      else if n = 223 then ''SS'' else [c])"

definition upper :: "string \<Rightarrow> string" where
  "upper s = concat (map upper_char s)"

lemma upper_Nil [simp]: "upper [] = []"
  by (simp add: upper_def)

lemma upper_Cons: "upper (c # s) = upper_char c @ upper s"
  by (simp add: upper_def)

lemma upper_append: "upper (s @ t) = upper s @ upper t"
  by (simp add: upper_def)

lemma upper_digit: "is_digit c \<Longrightarrow> upper_char c = [c]"
  by (auto simp: is_digit_def upper_char_def Let_def)

lemma upper_digits: "\<forall>c \<in> set s. is_digit c \<Longrightarrow> upper s = s"
  by (induction s) (auto simp: upper_Cons upper_digit)

subsection \<open>Digits\<close>

definition all_digits :: "string \<Rightarrow> bool" where
  "all_digits s \<longleftrightarrow> list_all is_digit s"

lemma all_digits_simps [simp]:
  "all_digits []" "all_digits (c # s) \<longleftrightarrow> is_digit c \<and> all_digits s"
  "all_digits (s @ t) \<longleftrightarrow> all_digits s \<and> all_digits t"
  by (simp_all add: all_digits_def)

lemma all_digits_iff: "all_digits s \<longleftrightarrow> (\<forall>c \<in> set s. is_digit c)"
  by (simp add: all_digits_def list_all_iff)

lemma all_digits_replicate [simp]: "all_digits (replicate n c) \<longleftrightarrow> n = 0 \<or> is_digit c"
  by (auto simp: all_digits_iff)

lemma all_digits_take: "all_digits s \<Longrightarrow> all_digits (take n s)" "all_digits s \<Longrightarrow> all_digits (drop n s)"
  by (auto simp: all_digits_iff dest: in_set_takeD in_set_dropD)

lemma is_digit_zero [simp]: "is_digit (CHR ''0'')"
  by (simp add: is_digit_def)

lemma digit_val_zero [simp]: "digit_val (CHR ''0'') = 0"
  by (simp add: digit_val_def)

lemma digit_not_space: "is_digit c \<Longrightarrow> \<not> is_space c"
  by (auto simp: is_digit_def is_space_def)

abbreviation decimal :: "string \<Rightarrow> nat" where
  "decimal \<equiv> digits_val 0"

lemma digits_val_acc: "digits_val acc s = acc * 10 ^ length s + decimal s"
proof (induction s arbitrary: acc)
  case (Cons c s)
  from Cons [of "10 * acc + digit_val c"] Cons [of "digit_val c"] show ?case
    by (simp add: algebra_simps)
qed simp

lemma decimal_append: "decimal (s @ t) = decimal s * 10 ^ length t + decimal t"
  by (simp add: digits_val_append digits_val_acc [of "decimal s"])

lemma decimal_Cons [simp]: "decimal (c # s) = digit_val c * 10 ^ length s + decimal s"
  by (simp add: digits_val_acc [of "digit_val c"])

declare digits_val.simps(2) [simp del]

lemma digit_val_less: "is_digit c \<Longrightarrow> digit_val c < 10"
  by (auto simp: is_digit_def digit_val_def)

lemma decimal_less: "all_digits s \<Longrightarrow> decimal s < 10 ^ length s"
proof (induction s)
  case (Cons c s)
  then have "digit_val c * 10 ^ length s + decimal s < (digit_val c + 1) * 10 ^ length s" by simp
  also have "\<dots> \<le> 10 * 10 ^ length s" using Cons.prems digit_val_less [of c] by (intro mult_right_mono) auto
  finally show ?case by simp
qed simp

text \<open>Keeping the last digits is the remainder, dropping the last digits the quotient.\<close>

lemma decimal_last: "all_digits s \<Longrightarrow> n \<le> length s \<Longrightarrow> decimal (drop (length s - n) s) = decimal s mod 10 ^ n"
proof -
  assume s: "all_digits s" "n \<le> length s"
  have "decimal s = decimal (take (length s - n) s @ drop (length s - n) s)" by simp
  also have "\<dots> = decimal (take (length s - n) s) * 10 ^ n + decimal (drop (length s - n) s)"
    using s(2) by (simp only: decimal_append) simp
  finally show ?thesis using decimal_less [OF all_digits_take(2) [OF s(1)], of "length s - n"] s(2) by simp
qed

lemma decimal_take: "all_digits s \<Longrightarrow> n \<le> length s \<Longrightarrow> decimal (take n s) = decimal s div 10 ^ (length s - n)"
proof -
  assume s: "all_digits s" "n \<le> length s"
  have "decimal s = decimal (take n s) * 10 ^ (length s - n) + decimal (drop n s)"
    using decimal_append [of "take n s" "drop n s"] by simp
  then show ?thesis using decimal_less [OF all_digits_take(2) [OF s(1)], of n] by simp
qed

lemma decimal_zeros: "decimal (replicate n (CHR ''0'')) = 0"
  by (induction n) simp_all

subsection \<open>Stripping\<close>

definition lstrip_char :: "char \<Rightarrow> string \<Rightarrow> string" where
  "lstrip_char c s = dropWhile (\<lambda>x. x = c) s"

definition rstrip_char :: "char \<Rightarrow> string \<Rightarrow> string" where
  "rstrip_char c s = rev (dropWhile (\<lambda>x. x = c) (rev s))"

definition is_quote :: "char \<Rightarrow> bool" where
  "is_quote c \<longleftrightarrow> c = CHR 0x22 \<or> c = CHR 0x27"

text \<open>\<open>s.ljust(n)\<close> and \<open>s.rjust(n)\<close>.\<close>

definition ljust :: "nat \<Rightarrow> char \<Rightarrow> string \<Rightarrow> string" where
  "ljust n c s = s @ replicate (n - length s) c"

definition rjust :: "nat \<Rightarrow> char \<Rightarrow> string \<Rightarrow> string" where
  "rjust n c s = replicate (n - length s) c @ s"

lemma length_just [simp]: "length (ljust n c s) = max n (length s)" "length (rjust n c s) = max n (length s)"
  by (auto simp: ljust_def rjust_def max_def)

subsection \<open>Slices\<close>

text \<open>\<open>s[-n:]\<close>, which is the whole string for \<open>n = 0\<close>.\<close>

definition last_digits :: "nat \<Rightarrow> string \<Rightarrow> string" where
  "last_digits n s = (if n = 0 then s else drop (length s - n) s)"

text \<open>\<open>s[i:i + n]\<close>.\<close>

definition slice :: "nat \<Rightarrow> nat \<Rightarrow> string \<Rightarrow> string" where
  "slice i n s = take n (drop i s)"

lemma length_slice: "i + n \<le> length s \<Longrightarrow> length (slice i n s) = n"
  by (simp add: slice_def)

text \<open>\<open>s[:n].ljust(n)\<close>, as every alphanumeric move pads and truncates.\<close>

definition fit :: "nat \<Rightarrow> string \<Rightarrow> string" where
  "fit n s = ljust n (CHR '' '') (take n s)"

lemma length_fit [simp]: "length (fit n s) = n"
  by (simp add: fit_def)

text \<open>\<open>str.isdigit\<close> for the code points below 256: the superscripts count as digits.\<close>

definition digit_like :: "char \<Rightarrow> bool" where
  "digit_like c \<longleftrightarrow> is_digit c \<or> (of_char c :: nat) \<in> {178, 179, 185}"

definition isdigit :: "string \<Rightarrow> bool" where
  "isdigit s \<longleftrightarrow> s \<noteq> [] \<and> list_all digit_like s"

lemma digit_like_digit: "is_digit c \<Longrightarrow> digit_like c"
  by (simp add: digit_like_def)

end
