(* ===== verification/Numeric.thy ===== *)
theory Numeric
  imports CobolText Comparators
begin

text \<open>
  Numeric literals (\<open>engine/transformation/numeric_semantics.py\<close>): which spellings are numeric literals,
  the canonical Java literal of one, the value a PIC stores, the suffix a large literal needs and the
  format of a numeric DISPLAY. A \<open>NumericValueError\<close> is a \<open>ValueError\<close>. Text is 8-bit, so the only digits
  \<open>\d\<close> matches are ASCII ones.
\<close>

definition zero_figurative :: "string list" where
  "zero_figurative = [''ZERO'', ''ZEROS'', ''ZEROES'', ''ALL ZERO'', ''ALL ZEROS'', ''ALL ZEROES'']"

definition invalid_numeric_figurative :: "string list" where
  "invalid_numeric_figurative = [''SPACE'', ''SPACES'', ''LOW-VALUE'', ''LOW-VALUES'', ''HIGH-VALUE'',
     ''HIGH-VALUES'', ''NULL'', ''NULLS'', ''QUOTE'', ''QUOTES'']"

definition strip_quotes :: "string \<Rightarrow> string" where
  "strip_quotes text = strip (strip_by is_quote (strip text))"

subsection \<open>Literals\<close>

definition is_sign :: "char \<Rightarrow> bool" where
  "is_sign c \<longleftrightarrow> c = CHR ''+'' \<or> c = CHR ''-''"

text \<open>The pattern without its sign: digits with an optional fraction, or a fraction alone.\<close>

definition numeric_body :: "string \<Rightarrow> bool" where
  "numeric_body s =
     (let ds = takeWhile is_digit s; rest = dropWhile is_digit s in
      (if ds \<noteq> [] then rest = [] \<or> hd rest = CHR ''.'' \<and> all_digits (tl rest)
       else rest \<noteq> [] \<and> hd rest = CHR ''.'' \<and> tl rest \<noteq> [] \<and> all_digits (tl rest)))"

definition numeric_spelling :: "string \<Rightarrow> bool" where
  "numeric_spelling s = numeric_body (if s \<noteq> [] \<and> is_sign (hd s) then tl s else s)"

text \<open>The end anchor also matches before a final line feed.\<close>

definition is_numeric_literal :: "string \<Rightarrow> bool" where
  "is_numeric_literal text \<longleftrightarrow>
     numeric_spelling text \<or> text \<noteq> [] \<and> last text = CHR 0x0A \<and> numeric_spelling (butlast text)"

text \<open>\<open>body.split(".", 1)\<close> and \<open>body.partition(".")\<close>: before and after the first point.\<close>

definition split_point :: "string \<Rightarrow> string \<times> string" where
  "split_point s = (takeWhile (\<lambda>c. c \<noteq> CHR ''.'') s, tl (dropWhile (\<lambda>c. c \<noteq> CHR ''.'') s))"

definition or_zero :: "string \<Rightarrow> string" where
  "or_zero s = (if s = [] then ''0'' else s)"

definition normalize_numeric_literal :: "string \<Rightarrow> py_error + string" where
  "normalize_numeric_literal text =
     (let stripped = strip_quotes text; up = join '' '' (split_words (upper stripped)) in
      if up \<in> set zero_figurative then Inr ''0''
      else if up \<in> set invalid_numeric_figurative \<or> \<not> is_numeric_literal stripped
      then Inl (ValueError (''cannot normalize non-numeric numeric literal '' @ repr_str text))
      else
        let sgn' = (if hd stripped = CHR ''-'' then ''-'' else []);
            body = (if is_sign (hd stripped) then tl stripped else stripped);
            int_part = or_zero (lstrip_char (CHR ''0'') (fst (split_point body)));
            frac_part = snd (split_point body)
        in if frac_part = [] then Inr (sgn' @ int_part)
           else Inr (sgn' @ int_part @ ''.'' @ or_zero (rstrip_char (CHR ''0'') frac_part)))"

subsection \<open>PIC storage\<close>

definition normalize_value_for_pic :: "string \<Rightarrow> nat \<Rightarrow> nat \<Rightarrow> bool \<Rightarrow> py_error + string" where
  "normalize_value_for_pic text integer_digits decimal_digits is_signed =
     (let stripped = strip_quotes text in
      if (stripped = [] \<or> is_sign (hd stripped)) \<and> is_numeric_literal stripped \<and> \<not> is_signed
      then Inl (ValueError (''signed numeric literal '' @ repr_str text
             @ '' cannot be the VALUE of an unsigned PIC (GnuCOBOL: data item not signed)''))
      else bind_res (normalize_numeric_literal text) (\<lambda>normalized.
        let neg = (normalized \<noteq> [] \<and> hd normalized = CHR ''-'');
            sgn' = (if neg then ''-'' else []);
            body = (if neg then tl normalized else normalized);
            frac_part = take decimal_digits (snd (split_point body));
            int_part = fst (split_point body);
            int_part' = (if integer_digits < length int_part then last_digits integer_digits int_part
                         else int_part)
        in if decimal_digits = 0 then Inr (sgn' @ int_part')
           else Inr (sgn' @ int_part' @ ''.'' @ ljust decimal_digits (CHR ''0'') frac_part)))"

subsection \<open>Java spellings\<close>

definition java_int_max :: int where
  "java_int_max = 2147483647"

definition java_int_min :: int where
  "java_int_min = - 2147483648"

text \<open>\<open>int(s)\<close> of text: as for bytes, but the white space it strips is that of text.\<close>

definition int_of_text :: "string \<Rightarrow> int option" where
  "int_of_text s =
     (let t = strip s;
          neg = (t \<noteq> [] \<and> hd t = CHR ''-'');
          body = (if t \<noteq> [] \<and> is_sign (hd t) then tl t else t);
          ds = filter is_digit body
      in if digit_groups body \<and> length ds \<le> 4300
         then Some (if neg then - int (decimal ds) else int (decimal ds))
         else None)"

definition java_integral_suffix :: "string \<Rightarrow> string" where
  "java_integral_suffix canonical =
     (let is_signed = (canonical \<noteq> [] \<and> is_sign (hd canonical));
          neg = (canonical \<noteq> [] \<and> hd canonical = CHR ''-'');
          body = (if is_signed then tl canonical else canonical)
      in if CHR ''.'' \<in> set body then []
         else (case int_of_text body of
                 None \<Rightarrow> []
               | Some v \<Rightarrow> let value = (if neg then - v else v) in
                   if java_int_max < value \<or> value < java_int_min then ''L'' else []))"

definition display_format_spec :: "int \<Rightarrow> int \<Rightarrow> bool \<Rightarrow> py_error + string" where
  "display_format_spec integer_digits decimal_digits is_signed =
     (if integer_digits < 0 \<or> decimal_digits < 0
      then Inl (ValueError ''integer_digits and decimal_digits must be >= 0'')
      else if integer_digits = 0 \<and> decimal_digits = 0
      then Inl (ValueError ''a numeric format spec needs at least one digit position'')
      else
        let sign_columns = (if is_signed then 1 else 0) in
        if decimal_digits = 0
        then let width = integer_digits + sign_columns in
             Inr ((if is_signed then ''%+0'' else ''%0'') @ show_int width @ ''d'')
        else let width = integer_digits + decimal_digits + 1 + sign_columns in
             Inr (''%'' @ (if is_signed then ''+'' else []) @ ''0'' @ show_int width @ ''.''
                  @ show_int decimal_digits @ ''f''))"

definition is_fractional_format_spec :: "string \<Rightarrow> bool" where
  "is_fractional_format_spec spec =
     (let t = rev (dropWhile is_space (rev spec)) in t \<noteq> [] \<and> last t = CHR ''f'')"

end
