(* ===== verification/NumericFacts.thy ===== *)
theory NumericFacts
  imports Numeric
begin

text \<open>
  What the literal rules compute. A literal with a sign, integer digits \<open>I\<close> and fraction digits \<open>F\<close> is
  the text \<open>s I . F\<close>; its canonical text keeps the value, and a PIC stores the integer digits modulo
  their number and the fraction cut to its scale.
\<close>

subsection \<open>Reading a literal\<close>

definition sign_text :: "string \<Rightarrow> bool" where
  "sign_text s \<longleftrightarrow> s \<in> {[], ''+'', ''-''}"

lemma sign_not_digit: "is_digit c \<Longrightarrow> \<not> is_sign c" "is_digit c \<Longrightarrow> c \<noteq> CHR ''.''"
  "is_digit c \<Longrightarrow> c \<noteq> CHR ''-''" "is_digit c \<Longrightarrow> \<not> is_quote c"
  by (auto simp: is_digit_def is_sign_def is_quote_def)

definition literal_char :: "char \<Rightarrow> bool" where
  "literal_char c \<longleftrightarrow> is_digit c \<or> is_sign c \<or> c = CHR ''.''"

lemma literal_char_props: "literal_char c \<Longrightarrow> \<not> is_space c" "literal_char c \<Longrightarrow> \<not> is_quote c"
  "literal_char c \<Longrightarrow> upper_char c = [c]" "literal_char c \<Longrightarrow> c \<noteq> CHR 0x0A"
  by (auto simp: literal_char_def is_sign_def is_quote_def is_space_def upper_char_def is_digit_def Let_def)

lemma strip_quotes_id: "\<forall>c \<in> set s. literal_char c \<Longrightarrow> strip_quotes s = s"
proof -
  assume a: "\<forall>c \<in> set s. literal_char c"
  have "strip s = s" by (rule strip_by_id) (use a literal_char_props(1) in \<open>auto\<close>)
  moreover have "strip_by is_quote s = s" by (rule strip_by_id) (use a literal_char_props(2) in \<open>auto\<close>)
  ultimately show ?thesis by (simp add: strip_quotes_def)
qed

lemma words_of_run: "\<forall>c \<in> set s. \<not> is_space c \<Longrightarrow> words_of acc s = (if acc @ s = [] then [] else [acc @ s])"
  by (induction s arbitrary: acc) auto

lemma upper_literal: "\<forall>c \<in> set s. literal_char c \<Longrightarrow> join '' '' (split_words (upper s)) = s"
proof -
  assume a: "\<forall>c \<in> set s. literal_char c"
  have "upper s = s" using a by (induction s) (auto simp: upper_Cons literal_char_props)
  then show ?thesis using words_of_run [of s "[]"] a literal_char_props(1) by (auto simp: split_words_def)
qed

lemma not_figurative: "\<forall>c \<in> set s. literal_char c \<Longrightarrow> s \<notin> set zero_figurative \<and> s \<notin> set invalid_numeric_figurative"
  by (auto simp: zero_figurative_def invalid_numeric_figurative_def literal_char_def is_digit_def is_sign_def)

lemma takeWhile_digits: "all_digits s \<Longrightarrow> takeWhile is_digit (s @ CHR ''.'' # t) = s"
  "all_digits s \<Longrightarrow> dropWhile is_digit (s @ CHR ''.'' # t) = CHR ''.'' # t"
  by (induction s) (auto simp: is_digit_def)

lemma split_digits: "all_digits s \<Longrightarrow> split_point (s @ CHR ''.'' # t) = (s, t)"
  "all_digits s \<Longrightarrow> split_point s = (s, [])"
proof -
  assume d: "all_digits s"
  then have n: "\<forall>c \<in> set s. c \<noteq> CHR ''.''" by (auto simp: all_digits_iff is_digit_def)
  then have "takeWhile (\<lambda>c. c \<noteq> CHR ''.'') (s @ CHR ''.'' # t) = s"
    "tl (dropWhile (\<lambda>c. c \<noteq> CHR ''.'') (s @ CHR ''.'' # t)) = t"
    "takeWhile (\<lambda>c. c \<noteq> CHR ''.'') s = s" "tl (dropWhile (\<lambda>c. c \<noteq> CHR ''.'') s) = []"
    by (induction s) (simp_all split: if_splits)
  then show "split_point (s @ CHR ''.'' # t) = (s, t)" "split_point s = (s, [])"
    unfolding split_point_def by (simp_all only:)
qed

lemma numeric_body_iff:
  "numeric_body s \<longleftrightarrow> all_digits s \<and> s \<noteq> [] \<or>
    (\<exists>i f. s = i @ CHR ''.'' # f \<and> all_digits i \<and> all_digits f \<and> (i \<noteq> [] \<or> f \<noteq> []))"
proof
  let ?ds = "takeWhile is_digit s" and ?rest = "dropWhile is_digit s"
  have ds: "all_digits ?ds" by (auto simp: all_digits_iff dest: set_takeWhileD)
  assume b: "numeric_body s"
  show "all_digits s \<and> s \<noteq> [] \<or>
    (\<exists>i f. s = i @ CHR ''.'' # f \<and> all_digits i \<and> all_digits f \<and> (i \<noteq> [] \<or> f \<noteq> []))"
  proof (cases ?rest)
    case Nil
    then have "s = ?ds" by (metis append_Nil2 takeWhile_dropWhile_id)
    then show ?thesis using b Nil ds by (auto simp: numeric_body_def Let_def)
  next
    case (Cons c f)
    with b have "c = CHR ''.''" "all_digits f" "?ds \<noteq> [] \<or> f \<noteq> []"
      by (auto simp: numeric_body_def Let_def split: if_splits)
    moreover have "s = ?ds @ c # f" using Cons by (metis takeWhile_dropWhile_id)
    ultimately show ?thesis using ds by blast
  qed
next
  assume "all_digits s \<and> s \<noteq> [] \<or>
    (\<exists>i f. s = i @ CHR ''.'' # f \<and> all_digits i \<and> all_digits f \<and> (i \<noteq> [] \<or> f \<noteq> []))"
  then show "numeric_body s"
  proof
    assume a: "all_digits s \<and> s \<noteq> []"
    then have "takeWhile is_digit s = s" "dropWhile is_digit s = []"
      by (auto simp: all_digits_iff)
    then show ?thesis using a unfolding numeric_body_def Let_def by (simp only:) simp
  next
    assume "\<exists>i f. s = i @ CHR ''.'' # f \<and> all_digits i \<and> all_digits f \<and> (i \<noteq> [] \<or> f \<noteq> [])"
    then obtain i f where p: "s = i @ CHR ''.'' # f" "all_digits i" "all_digits f" "i \<noteq> [] \<or> f \<noteq> []" by blast
    then show ?thesis unfolding numeric_body_def Let_def p(1) takeWhile_digits [OF p(2)] by simp
  qed
qed

text \<open>The text of a literal: sign, integer digits and, when there is a point, fraction digits.\<close>

definition literal_text :: "string \<Rightarrow> string \<Rightarrow> string option \<Rightarrow> string" where
  "literal_text s i f = s @ i @ (case f of None \<Rightarrow> [] | Some ds \<Rightarrow> CHR ''.'' # ds)"

definition literal_parts :: "string \<Rightarrow> string \<Rightarrow> string option \<Rightarrow> bool" where
  "literal_parts s i f \<longleftrightarrow> sign_text s \<and> all_digits i \<and>
     (case f of None \<Rightarrow> i \<noteq> [] | Some ds \<Rightarrow> all_digits ds \<and> (i \<noteq> [] \<or> ds \<noteq> []))"

lemma literal_chars: "literal_parts s i f \<Longrightarrow> \<forall>c \<in> set (literal_text s i f). literal_char c"
  by (auto simp: literal_parts_def literal_text_def sign_text_def literal_char_def is_sign_def all_digits_iff
      split: option.splits)

lemma literal_nonempty: "literal_parts s i f \<Longrightarrow> literal_text s i f \<noteq> []"
  by (auto simp: literal_parts_def literal_text_def split: option.splits)

lemma literal_sign:
  assumes "literal_parts s i f"
  shows "is_sign (hd (literal_text s i f)) \<longleftrightarrow> s \<noteq> []"
    and "hd (literal_text s i f) = CHR ''-'' \<longleftrightarrow> s = ''-''"
    and "s \<noteq> [] \<Longrightarrow> tl (literal_text s i f) = literal_text [] i f"
proof -
  have d: "s = [] \<Longrightarrow> hd (literal_text s i f) = CHR ''.'' \<or> is_digit (hd (literal_text s i f))"
    using assms by (cases i) (auto simp: literal_parts_def literal_text_def split: option.splits)
  show "is_sign (hd (literal_text s i f)) \<longleftrightarrow> s \<noteq> []"
    and "hd (literal_text s i f) = CHR ''-'' \<longleftrightarrow> s = ''-''"
    and "s \<noteq> [] \<Longrightarrow> tl (literal_text s i f) = literal_text [] i f"
    using d assms by (auto simp: literal_parts_def sign_text_def literal_text_def is_sign_def is_digit_def)
qed

lemma literal_spelling: "literal_parts s i f \<Longrightarrow> is_numeric_literal (literal_text s i f)"
proof -
  assume p: "literal_parts s i f"
  have "numeric_body (literal_text [] i f)"
    using p by (auto simp: numeric_body_iff literal_parts_def literal_text_def split: option.splits)
  then show ?thesis
    using literal_sign [OF p] literal_nonempty [OF p]
    by (cases "s = []") (simp_all add: is_numeric_literal_def numeric_spelling_def)
qed

text \<open>Every numeric spelling is such a text.\<close>

lemma spelling_parts:
  assumes "numeric_spelling t"
  shows "\<exists>s i f. literal_parts s i f \<and> t = literal_text s i f"
proof -
  have body: "\<exists>i f. literal_parts s i f \<and> s @ b = literal_text s i f" if "numeric_body b" "sign_text s" for s b
  proof -
    from that(1) consider "all_digits b" "b \<noteq> []"
      | i f where "b = i @ CHR ''.'' # f" "all_digits i" "all_digits f" "i \<noteq> [] \<or> f \<noteq> []"
      unfolding numeric_body_iff by blast
    then show ?thesis
    proof cases
      case 1
      then show ?thesis using that(2)
        by (intro exI [of _ b] exI [of _ None]) (simp add: literal_parts_def literal_text_def)
    next
      case (2 i f)
      then show ?thesis using that(2)
        by (intro exI [of _ i] exI [of _ "Some f"]) (simp add: literal_parts_def literal_text_def)
    qed
  qed
  show ?thesis
  proof (cases "t \<noteq> [] \<and> is_sign (hd t)")
    case True
    then have "numeric_body (tl t)" "sign_text [hd t]" "t = [hd t] @ tl t"
      using assms by (auto simp: numeric_spelling_def sign_text_def is_sign_def)
    then show ?thesis using body by metis
  next
    case False
    then have "numeric_body t" using assms by (auto simp: numeric_spelling_def split: if_splits)
    then show ?thesis using body [of t "[]"] by (auto simp: sign_text_def)
  qed
qed


subsection \<open>Stripping zeroes\<close>



lemma strip_digits: "all_digits s \<Longrightarrow> all_digits (lstrip_char c s)" "all_digits s \<Longrightarrow> all_digits (rstrip_char c s)"
  by (auto simp: all_digits_iff lstrip_char_def rstrip_char_def dest: set_dropWhileD)

lemma or_zero_digits: "all_digits s \<Longrightarrow> all_digits (or_zero s)"
  by (simp add: or_zero_def)

lemma or_zero_nonempty [simp]: "or_zero s \<noteq> []"
  by (simp add: or_zero_def)

lemma decimal_or_zero [simp]: "decimal (or_zero s) = decimal s"
  by (simp add: or_zero_def)


text \<open>The same fraction, cut or padded to a scale: \<open>f * 10 ^ d div 10 ^ length f\<close>.\<close>

definition scaled :: "nat \<Rightarrow> string \<Rightarrow> string" where
  "scaled d f = ljust d (CHR ''0'') (take d f)"



lemma scaled_length [simp]: "length (scaled d f) = d"
  by (simp add: scaled_def ljust_def)




subsection \<open>What the rules return\<close>

definition minus_of :: "string \<Rightarrow> string" where
  "minus_of s = (if s = ''-'' then ''-'' else [])"

definition canonical_fraction :: "string option \<Rightarrow> string option" where
  "canonical_fraction f =
     (case f of None \<Rightarrow> None
      | Some ds \<Rightarrow> if ds = [] then None else Some (or_zero (rstrip_char (CHR ''0'') ds)))"

definition fraction_digits :: "string option \<Rightarrow> string" where
  "fraction_digits f = (case f of None \<Rightarrow> [] | Some ds \<Rightarrow> ds)"

lemma literal_split:
  "literal_parts s i f \<Longrightarrow> split_point (literal_text [] i f) = (i, fraction_digits f)"
  by (auto simp: literal_parts_def literal_text_def fraction_digits_def split_digits split: option.splits)

lemma normalize_literal:
  assumes "literal_parts s i f"
  shows "normalize_numeric_literal (literal_text s i f)
    = Inr (literal_text (minus_of s) (or_zero (lstrip_char (CHR ''0'') i)) (canonical_fraction f))"
proof -
  let ?t = "literal_text s i f"
  have c: "strip_quotes ?t = ?t" "join '' '' (split_words (upper ?t)) = ?t"
    "?t \<notin> set zero_figurative" "?t \<notin> set invalid_numeric_figurative"
    using strip_quotes_id upper_literal not_figurative literal_chars [OF assms] by blast+
  have b: "(if is_sign (hd ?t) then tl ?t else ?t) = literal_text [] i f"
    using literal_sign [OF assms] by (cases "s = []") (auto simp: literal_text_def)
  show ?thesis
    unfolding normalize_numeric_literal_def Let_def c(1,2) b literal_split [OF assms]
    using c literal_spelling [OF assms] literal_sign(2) [OF assms]
    by (auto simp: minus_of_def literal_text_def canonical_fraction_def fraction_digits_def split: option.splits)
qed

lemma canonical_parts:
  assumes "literal_parts s i f"
  shows "literal_parts (minus_of s) (or_zero (lstrip_char (CHR ''0'') i)) (canonical_fraction f)"
  using assms by (auto simp: literal_parts_def sign_text_def minus_of_def canonical_fraction_def
      or_zero_digits strip_digits split: option.splits)






text \<open>A storage text can carry leading zeroes. A picture of three integer digits stores 1009 as \<open>009\<close>,
  which is an octal spelling (and for 8 and 9 no spelling at all) of a Java literal, and a picture with
  no integer digit keeps every integer digit of the literal.\<close>
theorem pic_value_leading_zeros:
  "normalize_value_for_pic ''1009'' 3 0 False = Inr ''009'' \<and>
   normalize_value_for_pic ''12.34'' 0 2 False = Inr ''12.34''"
  by code_simp

text \<open>The canonical text: no plus sign, no leading zero and no trailing zero of the fraction, except a
  single zero digit.\<close>

definition canonical_literal :: "string \<Rightarrow> bool" where
  "canonical_literal r \<longleftrightarrow>
     (\<exists>s i f. r = literal_text s i f \<and> literal_parts s i f \<and> s \<noteq> ''+'' \<and> i \<noteq> []
        \<and> (hd i = CHR ''0'' \<longrightarrow> i = ''0'')
        \<and> (case f of None \<Rightarrow> True | Some ds \<Rightarrow> ds \<noteq> [] \<and> (last ds = CHR ''0'' \<longrightarrow> ds = ''0'')))"

lemma lstrip_hd: "lstrip_char c s \<noteq> [] \<Longrightarrow> hd (lstrip_char c s) \<noteq> c"
  using hd_dropWhile [of "\<lambda>x. x = c" s] by (simp only: lstrip_char_def) simp

lemma rstrip_last: "rstrip_char c s \<noteq> [] \<Longrightarrow> last (rstrip_char c s) \<noteq> c"
  using lstrip_hd [of c "rev s"] by (simp add: rstrip_char_def lstrip_char_def last_rev)

lemma canonical_zero: "canonical_literal ''0''"
  unfolding canonical_literal_def
  by (intro exI [of _ "[]"] exI [of _ "''0''"] exI [of _ None])
    (simp add: literal_parts_def literal_text_def sign_text_def)

lemma canonical_of_literal:
  assumes "literal_parts s i f"
  shows "canonical_literal (literal_text (minus_of s) (or_zero (lstrip_char (CHR ''0'') i)) (canonical_fraction f))"
proof -
  have "last (or_zero (rstrip_char (CHR ''0'') ds)) = CHR ''0'' \<longrightarrow> or_zero (rstrip_char (CHR ''0'') ds) = ''0''" for ds
    using rstrip_last [of "CHR ''0''" ds] by (auto simp: or_zero_def)
  then have f: "case canonical_fraction f of None \<Rightarrow> True | Some ds \<Rightarrow> ds \<noteq> [] \<and> (last ds = CHR ''0'' \<longrightarrow> ds = ''0'')"
    by (cases f) (simp_all add: canonical_fraction_def)
  moreover have "hd (or_zero (lstrip_char (CHR ''0'') i)) = CHR ''0'' \<longrightarrow> or_zero (lstrip_char (CHR ''0'') i) = ''0''"
    using lstrip_hd [of "CHR ''0''" i] by (auto simp: or_zero_def)
  moreover have "minus_of s \<noteq> ''+''" by (simp add: minus_of_def)
  ultimately show ?thesis
    unfolding canonical_literal_def using canonical_parts [OF assms] or_zero_nonempty by blast
qed

lemma canonical_fixed: "canonical_literal r \<Longrightarrow> normalize_numeric_literal r = Inr r"
proof -
  assume "canonical_literal r"
  then obtain s i f where r: "r = literal_text s i f" "literal_parts s i f" "s \<noteq> ''+''" "i \<noteq> []"
    "hd i = CHR ''0'' \<Longrightarrow> i = ''0''"
    "\<And>ds. f = Some ds \<Longrightarrow> ds \<noteq> [] \<and> (last ds = CHR ''0'' \<longrightarrow> ds = ''0'')"
    unfolding canonical_literal_def by (auto split: option.splits)
  have "minus_of s = s" using r(2,3) by (auto simp: minus_of_def literal_parts_def sign_text_def)
  moreover have "or_zero (lstrip_char (CHR ''0'') i) = i"
    using r(4,5) by (cases i) (auto simp: or_zero_def lstrip_char_def)
  moreover have "or_zero (rstrip_char (CHR ''0'') ds) = ds" if "f = Some ds" for ds
    using r(6) [OF that] by (cases ds rule: rev_cases) (auto simp: or_zero_def rstrip_char_def)
  then have "canonical_fraction f = f"
    using r(6) by (auto simp: canonical_fraction_def split: option.splits)
  ultimately show ?thesis using normalize_literal [OF r(2)] r(1) by simp
qed

lemma strip_quotes_last: "strip_quotes t \<noteq> [] \<Longrightarrow> \<not> is_space (last (strip_quotes t))"
proof -
  assume "strip_quotes t \<noteq> []"
  then have "dropWhile is_space (rev (dropWhile is_space (strip_by is_quote (strip t)))) \<noteq> []"
    by (simp add: strip_quotes_def strip_by_def)
  from hd_dropWhile [OF this] show ?thesis by (simp add: strip_quotes_def strip_by_def last_rev)
qed

lemma normalize_inr:
  assumes "normalize_numeric_literal t = Inr r"
  shows "r = ''0'' \<or> (\<exists>s i f. literal_parts s i f \<and> strip_quotes t = literal_text s i f \<and>
    normalize_numeric_literal t = normalize_numeric_literal (literal_text s i f))"
proof (cases "join '' '' (split_words (upper (strip_quotes t))) \<in> set zero_figurative")
  case True
  then show ?thesis using assms by (simp add: normalize_numeric_literal_def Let_def)
next
  case False
  then have "is_numeric_literal (strip_quotes t)"
    using assms by (auto simp: normalize_numeric_literal_def Let_def split: if_splits)
  then have "numeric_spelling (strip_quotes t)"
    using strip_quotes_last [of t] by (auto simp: is_numeric_literal_def is_space_def)
  from spelling_parts [OF this] obtain s i f where
    p: "literal_parts s i f" "strip_quotes t = literal_text s i f" by blast
  have "strip_quotes (literal_text s i f) = literal_text s i f"
    using strip_quotes_id literal_chars [OF p(1)] by blast
  moreover have "x = Inr r \<Longrightarrow> x = Inr r" for x :: "py_error + string" .
  ultimately have "normalize_numeric_literal t = normalize_numeric_literal (literal_text s i f)"
    using assms p(2) normalize_literal [OF p(1)] False
    by (auto simp: normalize_numeric_literal_def Let_def split: if_splits)
  then show ?thesis using p by blast
qed

text \<open>A canonical text is a fixed point. What \<open>normalize_numeric_literal\<close> returns, for any input it
  accepts, is a decimal literal without a plus sign, leading zeroes or trailing fraction zeroes, and
  normalising it again returns it unchanged.\<close>
theorem normalize_canonical:
  assumes "normalize_numeric_literal t = Inr r"
  shows "canonical_literal r \<and> normalize_numeric_literal r = Inr r"
proof -
  have "canonical_literal r"
    using normalize_inr [OF assms]
  proof
    assume "\<exists>s i f. literal_parts s i f \<and> strip_quotes t = literal_text s i f \<and>
      normalize_numeric_literal t = normalize_numeric_literal (literal_text s i f)"
    then obtain s i f where "literal_parts s i f"
      "normalize_numeric_literal t = normalize_numeric_literal (literal_text s i f)" by blast
    then show ?thesis using assms canonical_of_literal normalize_literal by fastforce
  qed (simp add: canonical_zero)
  then show ?thesis using canonical_fixed by blast
qed

theorem normalize_canonical_witness:
  "normalize_numeric_literal ''+007.50'' = Inr ''7.5'' \<and> normalize_numeric_literal ''7.5'' = Inr ''7.5''"
proof -
  have a: "normalize_numeric_literal ''+007.50'' = Inr ''7.5''" by code_simp
  show ?thesis using a normalize_canonical [OF a] by blast
qed


subsection \<open>The suffix of a large literal\<close>

lemma int_of_digits:
  "all_digits s \<Longrightarrow> s \<noteq> [] \<Longrightarrow> int_of_text s = (if length s \<le> 4300 then Some (int (decimal s)) else None)"
proof -
  assume s: "all_digits s" "s \<noteq> []"
  have c: "is_digit (hd s)" "is_digit (last s)" using s by (auto simp: all_digits_iff)
  then have "strip s = s" using digit_not_space by (intro strip_by_id) auto
  moreover have "filter is_digit s = s" using s(1) by (simp add: all_digits_iff)
  ultimately show ?thesis
    using s c sign_not_digit(1,3) [OF c(1)] digit_groups_digits [OF s [unfolded all_digits_def]] by (simp add: int_of_text_def Let_def)
qed

text \<open>The suffix of an integral literal. A literal of at most 4300 digits gets the suffix \<open>L\<close> exactly
  when its value is outside the range of a Java \<open>int\<close>, so the most negative value has none; longer
  literals, which \<open>int()\<close> refuses, and fractional ones never have one.\<close>
theorem integral_suffix:
  assumes "literal_parts s i f"
  shows "java_integral_suffix (literal_text s i f) =
    (case f of Some _ \<Rightarrow> []
     | None \<Rightarrow> (let v = (if s = ''-'' then - int (decimal i) else int (decimal i)) in
         if length i \<le> 4300 \<and> (v < - (2 ^ 31) \<or> 2 ^ 31 \<le> v) then ''L'' else []))"
proof -
  let ?t = "literal_text s i f"
  have b: "(if ?t \<noteq> [] \<and> is_sign (hd ?t) then tl ?t else ?t) = literal_text [] i f"
    using literal_sign [OF assms] literal_nonempty [OF assms] by (cases "s = []") (auto simp: literal_text_def)
  have neg: "(?t \<noteq> [] \<and> hd ?t = CHR ''-'') = (s = ''-'')"
    using literal_sign(2) [OF assms] literal_nonempty [OF assms] by simp
  show ?thesis
  proof (cases f)
    case None
    then have i: "all_digits i" "i \<noteq> []" using assms by (simp_all add: literal_parts_def)
    moreover have "CHR ''.'' \<notin> set i" using i(1) by (auto simp: all_digits_iff is_digit_def)
    moreover have "literal_text [] i f = i" using None by (simp add: literal_text_def)
    ultimately show ?thesis
      unfolding java_integral_suffix_def Let_def b neg using None int_of_digits [OF i]
      by (auto simp: java_int_max_def java_int_min_def)
  next
    case (Some ds)
    then have "CHR ''.'' \<in> set (literal_text [] i f)" by (simp add: literal_text_def)
    then show ?thesis unfolding java_integral_suffix_def Let_def b using Some by simp
  qed
qed

theorem integral_suffix_witness:
  "java_integral_suffix (literal_text ''-'' ''2147483648'' None) = [] \<and>
   java_integral_suffix (literal_text [] ''2147483648'' None) = ''L''"
  using integral_suffix [of "''-''" "''2147483648''" None] integral_suffix [of "[]" "''2147483648''" None]
  by (simp add: literal_parts_def sign_text_def is_digit_def digit_val_def)

end
