(* ===== verification/Figurative.thy ===== *)
theory Figurative
  imports CobolText
begin

text \<open>
  Figurative constants (\<open>engine/transformation/figurative.py\<close>): which operands spell one, and the
  characters one supplies for a receiving item of a given width. Kinds are strings as in the code, so
  that an unknown kind is a value.
\<close>

subsection \<open>Tables\<close>

definition canonical_figuratives :: "string dict" where
  "canonical_figuratives =
     [(''ZERO'', ''ZERO''), (''ZEROS'', ''ZERO''), (''ZERO-ZERO-ZERO'', ''ZERO''), (''ZEROES'', ''ZERO''),
      (''SPACE'', ''SPACES''), (''SPACES'', ''SPACES''), (''QUOTE'', ''QUOTES''), (''QUOTES'', ''QUOTES''),
      (''LOW-VALUE'', ''LOW-VALUE''), (''LOW-VALUES'', ''LOW-VALUE''),
      (''HIGH-VALUE'', ''HIGH-VALUE''), (''HIGH-VALUES'', ''HIGH-VALUE'')]"

definition fill_characters :: "char dict" where
  "fill_characters =
     [(''SPACES'', CHR '' ''), (''QUOTES'', CHR 0x22), (''LOW-VALUE'', CHR 0x00), (''HIGH-VALUE'', CHR 0xFF)]"

subsection \<open>Recognition\<close>

text \<open>The text opens and closes with the quote and is at least two characters long.\<close>

definition quoted_by :: "char \<Rightarrow> string \<Rightarrow> bool" where
  "quoted_by q s \<longleftrightarrow> 2 \<le> length s \<and> hd s = q \<and> last s = q"

text \<open>What follows the word \<open>ALL\<close> and its white space, in any case.\<close>

definition after_all :: "string \<Rightarrow> string option" where
  "after_all s =
     (if upper (take 3 s) = ''ALL'' \<and> drop 3 s \<noteq> [] \<and> is_space (hd (drop 3 s))
      then Some (dropWhile is_space (drop 3 s)) else None)"

text \<open>A literal with a non-empty body that does not contain its own quote.\<close>

definition literal_pattern :: "char \<Rightarrow> string \<Rightarrow> string option" where
  "literal_pattern q s =
     (let inner = butlast (tl s) in
      if quoted_by q s \<and> inner \<noteq> [] \<and> q \<notin> set inner then Some inner else None)"

definition all_literal :: "string \<Rightarrow> string option" where
  "all_literal s =
     (case after_all s of None \<Rightarrow> None
      | Some body \<Rightarrow> (case literal_pattern (CHR 0x22) body of
                        Some p \<Rightarrow> Some p | None \<Rightarrow> literal_pattern (CHR 0x27) body))"

definition all_figurative_word :: "string \<Rightarrow> string option" where
  "all_figurative_word s =
     (case after_all s of None \<Rightarrow> None
      | Some body \<Rightarrow> if upper body \<in> fst ` set canonical_figuratives then Some (upper body) else None)"

definition is_reserved_figurative :: "string \<Rightarrow> bool" where
  "is_reserved_figurative token \<longleftrightarrow> upper (strip token) \<in> fst ` set canonical_figuratives"

text \<open>The callers of the model give a text (never \<open>None\<close>).\<close>

definition parse_figurative_constant :: "string \<Rightarrow> (string \<times> string option) option" where
  "parse_figurative_constant text =
     (let stripped = strip text in
      if stripped = [] then None
      else if quoted_by (CHR 0x22) stripped \<or> quoted_by (CHR 0x27) stripped then None
      else case map_of canonical_figuratives (upper stripped) of
        Some kind \<Rightarrow> Some (kind, None)
      | None \<Rightarrow>
          (case all_literal stripped of
             Some p \<Rightarrow> Some (''ALL'', Some p)
           | None \<Rightarrow>
               (case all_figurative_word stripped of
                  Some word \<Rightarrow> map_option (\<lambda>k. (k, None)) (map_of canonical_figuratives word)
                | None \<Rightarrow> None)))"

definition is_figurative_constant :: "string \<Rightarrow> bool" where
  "is_figurative_constant text \<longleftrightarrow> is_reserved_figurative text"

subsection \<open>Filling\<close>

definition figurative_fill_char :: "string \<Rightarrow> char option" where
  "figurative_fill_char kind = map_of fill_characters kind"

definition figurative_is_numeric :: "string \<Rightarrow> bool" where
  "figurative_is_numeric kind \<longleftrightarrow> kind = ''ZERO''"

text \<open>\<open>pattern * n\<close>.\<close>

definition repeat_text :: "nat \<Rightarrow> string \<Rightarrow> string" where
  "repeat_text n s = concat (replicate n s)"

definition figurative_to_width :: "string \<Rightarrow> string option \<Rightarrow> nat \<Rightarrow> string option" where
  "figurative_to_width kind fill width =
     (if width = 0 then None
      else if kind = ''ALL'' then
        (case fill of None \<Rightarrow> None
         | Some pattern \<Rightarrow>
             if pattern = [] then None
             else Some (take width (repeat_text (width div length pattern + 1) pattern)))
      else if kind = ''ZERO'' then Some (replicate width (CHR ''0''))
      else map_option (replicate width) (figurative_fill_char kind))"

subsection \<open>Width and repetition\<close>

lemma length_repeat [simp]: "length (repeat_text n s) = n * length s"
  by (simp add: repeat_text_def length_concat sum_list_replicate)

lemma nth_repeat: "i < n * length s \<Longrightarrow> repeat_text n s ! i = s ! (i mod length s)"
proof (induction n arbitrary: i)
  case (Suc n)
  have r: "repeat_text (Suc n) s = s @ repeat_text n s" by (simp add: repeat_text_def)
  show ?case
  proof (cases "i < length s")
    case False
    then have "repeat_text n s ! (i - length s) = s ! ((i - length s) mod length s)"
      using Suc.prems by (intro Suc.IH) auto
    then show ?thesis using False by (simp add: r nth_append le_mod_geq)
  qed (simp add: r nth_append)
qed simp

lemma pattern_fits: "0 < k \<Longrightarrow> w \<le> (w div k + 1) * k" for w k :: nat
  using dividend_less_div_times [of k w] by simp

lemma canonical_fills:
  "map_of canonical_figuratives w = Some k \<Longrightarrow>
   k \<noteq> ''ALL'' \<and> (k = ''ZERO'' \<or> (\<exists>c. figurative_fill_char k = Some c))"
  by (auto simp: canonical_figuratives_def figurative_fill_char_def fill_characters_def split: if_splits)

lemma parsed_kinds:
  assumes "parse_figurative_constant t = Some (k, f)"
  shows "k = ''ALL'' \<and> (\<exists>p. f = Some p \<and> p \<noteq> []) \<or>
    f = None \<and> k \<noteq> ''ALL'' \<and> (k = ''ZERO'' \<or> (\<exists>c. figurative_fill_char k = Some c))"
  using assms canonical_fills
  by (auto simp: parse_figurative_constant_def Let_def all_literal_def literal_pattern_def
      split: if_splits option.splits)

text \<open>A figurative constant fills the receiver. Whatever spelling is recognised, the text supplied
  for a receiver of positive width is defined, has exactly that width and repeats one pattern with its
  last copy cut: the literal after \<open>ALL\<close>, or a single character.\<close>
theorem figurative_fills_width:
  assumes "parse_figurative_constant t = Some (k, f)" "0 < w"
  shows "\<exists>s p. figurative_to_width k f w = Some s \<and> length s = w \<and> p \<noteq> [] \<and>
    (case f of Some q \<Rightarrow> p = q | None \<Rightarrow> length p = 1) \<and> (\<forall>i < w. s ! i = p ! (i mod length p))"
proof -
  have one: "\<exists>s p. Some (replicate w c) = Some s \<and> length s = w \<and> p \<noteq> [] \<and> length p = 1 \<and>
      (\<forall>i < w. s ! i = p ! (i mod length p))" for c :: char
    by (intro exI [of _ "replicate w c"] exI [of _ "[c]"]) simp
  from parsed_kinds [OF assms(1)] show ?thesis
  proof (elim disjE conjE exE)
    fix p assume p: "k = ''ALL''" "f = Some p" "p \<noteq> []"
    let ?s = "take w (repeat_text (w div length p + 1) p)"
    have fit: "w \<le> (w div length p + 1) * length p" using p(3) by (intro pattern_fits) simp
    then have "length ?s = w" "\<forall>i < w. ?s ! i = p ! (i mod length p)"
      using nth_repeat [of _ "w div length p + 1" p] by (simp_all add: min_def)
    then show ?thesis using p assms(2)
      by (intro exI [of _ ?s] exI [of _ p]) (simp add: figurative_to_width_def)
  next
    assume "f = None" "k = ''ZERO''"
    then show ?thesis using assms(2) one by (simp add: figurative_to_width_def)
  next
    fix c assume "f = None" "k \<noteq> ''ALL''" "figurative_fill_char k = Some c"
    then show ?thesis using assms(2) one
      by (auto simp: figurative_to_width_def figurative_fill_char_def fill_characters_def)
  qed
qed

theorem figurative_fills_width_witness:
  "parse_figurative_constant '' all 'ABC' '' = Some (''ALL'', Some ''ABC'') \<and>
   figurative_to_width ''ALL'' (Some ''ABC'') 7 = Some ''ABCABCA'' \<and>
   (\<exists>s. figurative_to_width ''ALL'' (Some ''ABC'') 7 = Some s \<and> length s = 7)"
proof -
  have a: "parse_figurative_constant '' all 'ABC' '' = Some (''ALL'', Some ''ABC'')" by code_simp
  have b: "figurative_to_width ''ALL'' (Some ''ABC'') 7 = Some ''ABCABCA''" by code_simp
  show ?thesis using a b figurative_fills_width [OF a, of 7] by auto
qed

end
