(* ===== verification/DataItems.thy ===== *)
theory DataItems
  imports CobolText
begin

text \<open>
  The data division (\<open>DataItem\<close> of \<open>engine/transformation/ir.py\<close>): a tree of data descriptions. The
  code tells items apart by object identity in one place (\<open>iter_data_items\<close>), so an item carries its
  identity \<open>obj\<close>. Lengths and scales are counts.
\<close>

datatype pic_type = ALPHANUMERIC | NUMERIC

datatype data_item = DataItem
  (obj: nat)
  (item_name: string)
  (item_level: nat)
  (item_pic_type: pic_type)
  (pic_length: nat)
  (decimal_places: nat)
  (has_sign: bool)
  (item_value: "string option")
  (occurs: "nat option")
  (occurs_depending_on: "string option")
  (redefines: "string option")
  (usage: "string option")
  (children: "data_item list")

subsection \<open>Properties\<close>

definition is_alphanumeric :: "data_item \<Rightarrow> bool" where
  "is_alphanumeric item \<longleftrightarrow> item_pic_type item = ALPHANUMERIC"

definition is_numeric :: "data_item \<Rightarrow> bool" where
  "is_numeric item \<longleftrightarrow> item_pic_type item = NUMERIC"

definition is_condition_name :: "data_item \<Rightarrow> bool" where
  "is_condition_name item \<longleftrightarrow> item_level item = 88"

definition is_decimal :: "data_item \<Rightarrow> bool" where
  "is_decimal item \<longleftrightarrow> 0 < decimal_places item"

definition integer_digits :: "data_item \<Rightarrow> int" where
  "integer_digits item = int (pic_length item) - int (decimal_places item)"

definition format_width :: "data_item \<Rightarrow> nat" where
  "format_width item = pic_length item"

text \<open>Truth of an optional text: present and not empty.\<close>

definition truthy :: "string option \<Rightarrow> bool" where
  "truthy v \<longleftrightarrow> v \<noteq> None \<and> v \<noteq> Some []"

text \<open>The text of an optional text, as \<open>v or ""\<close> has it.\<close>

definition text_or :: "string \<Rightarrow> string option \<Rightarrow> string" where
  "text_or d v = (case v of None \<Rightarrow> d | Some [] \<Rightarrow> d | Some (c # s) \<Rightarrow> c # s)"

lemma alphanumeric_iff [simp]: "is_alphanumeric item \<longleftrightarrow> \<not> is_numeric item"
  by (cases "item_pic_type item") (simp_all add: is_numeric_def is_alphanumeric_def)

lemma size_children: "size_list size (children item) < Suc (size item + k)"
  by (cases item) simp

subsection \<open>Walking the tree\<close>

text \<open>Every item, depth first.\<close>

function subtree :: "data_item list \<Rightarrow> data_item list" where
  "subtree [] = []"
| "subtree (n # ns) = n # subtree (children n) @ subtree ns"
  by pat_completeness auto
termination by (relation "measure (size_list size)") (simp_all add: size_children)

text \<open>\<open>iter_data_items\<close>: each object once, with the identities seen so far.\<close>

function walk_items :: "nat list \<Rightarrow> data_item list \<Rightarrow> nat list \<times> data_item list" where
  "walk_items seen [] = (seen, [])"
| "walk_items seen (n # ns) =
     (if obj n \<in> set seen then walk_items seen ns
      else let (s1, xs) = walk_items (obj n # seen) (children n); (s2, ys) = walk_items s1 ns
           in (s2, n # xs @ ys))"
  by pat_completeness auto
termination by (relation "measure (size_list size \<circ> snd)") (simp_all add: size_children)

definition iter_data_items :: "data_item list \<Rightarrow> data_item list" where
  "iter_data_items items = snd (walk_items [] items)"

definition is_group :: "data_item \<Rightarrow> bool" where
  "is_group item \<longleftrightarrow> item_level item \<noteq> 88 \<and> (\<exists>c \<in> set (children item). item_level c \<noteq> 88)"

text \<open>The item of that name when there is exactly one, in any case.\<close>

definition find_item :: "data_item list \<Rightarrow> string \<Rightarrow> data_item option" where
  "find_item items name =
     (let key = upper (strip name);
          found = filter (\<lambda>i. upper (item_name i) = key) (iter_data_items items)
      in if length (remdups (map obj found)) = 1 then Some (hd found) else None)"

end
