(* ===== verification/Overlays.thy ===== *)
theory Overlays
  imports Figurative DataItems "HOL-Library.AList"
begin

text \<open>
  REDEFINES overlays (\<open>engine/transformation/redefines.py\<close>): which redefining items share their base's
  storage as certified views, with what offset and initial bytes, and which are reported. A dictionary
  is an association list updated in place, as a Python \<open>dict\<close> keeps the place of a key it replaces.
\<close>

record redefines_view =
  rv_name :: string
  rv_base :: string
  rv_length :: nat
  rv_initial :: string
  rv_offset :: nat
  rv_numeric :: bool

record redefines_plan =
  plan_views :: "redefines_view dict"
  plan_problems :: "string dict"
  plan_hidden :: "string list"

definition set_default :: "string \<Rightarrow> 'v \<Rightarrow> 'v dict \<Rightarrow> 'v dict" where
  "set_default k v d = (case map_of d k of None \<Rightarrow> d @ [(k, v)] | Some _ \<Rightarrow> d)"

subsection \<open>The certified subset\<close>

text \<open>The rejection reason of an item outside the subset.\<close>

definition is_certified_member :: "data_item \<Rightarrow> string option" where
  "is_certified_member item =
     (if children item \<noteq> [] then Some (item_name item @ '' is a group'')
      else if occurs item \<noteq> None then Some (item_name item @ '' has OCCURS'')
      else if truthy (usage item)
      then Some (item_name item @ '' declares USAGE '' @ the (usage item))
      else if is_numeric item \<and> (has_sign item \<or> decimal_places item \<noteq> 0)
      then Some (item_name item @ '' is a signed or scaled numeric; its stored encoding ''
             @ ''(sign overpunch, implied point) is not a certified overlay'')
      else if pic_length item = 0 then Some (item_name item @ '' has no PIC width'')
      else None)"

text \<open>The leaves of a redefining group with their offsets, or a rejection reason.\<close>

fun group_members_from :: "nat \<Rightarrow> data_item list \<Rightarrow> string + (data_item \<times> nat) list" where
  "group_members_from offset [] = Inr []"
| "group_members_from offset (child # rest) =
     (if is_condition_name child then group_members_from offset rest
      else case is_certified_member child of
        Some reason \<Rightarrow> Inl reason
      | None \<Rightarrow> bind_res (group_members_from (offset + pic_length child) rest) (\<lambda>members.
          Inr ((if upper (item_name child) \<noteq> ''FILLER'' then [(child, offset)] else []) @ members)))"

definition group_members :: "data_item \<Rightarrow> string + (data_item \<times> nat) list" where
  "group_members item = group_members_from 0 (children item)"

subsection \<open>Initial bytes\<close>

definition alphanumeric_initial :: "data_item \<Rightarrow> string" where
  "alphanumeric_initial item =
     (if truthy (item_value item) then
        let v = the (item_value item) in
        case parse_figurative_constant v of
          Some (k, f) \<Rightarrow>
            (case figurative_to_width k f (pic_length item) of
               None \<Rightarrow> replicate (pic_length item) (CHR '' '')
             | Some filled \<Rightarrow> fit (pic_length item) filled)
        | None \<Rightarrow> fit (pic_length item) (strip_by is_quote v)
      else replicate (pic_length item) (CHR '' ''))"

definition initial_bytes :: "data_item \<Rightarrow> string option" where
  "initial_bytes item =
     (if \<not> is_numeric item then Some (alphanumeric_initial item)
      else
        let raw0 = strip (text_or ''0'' (item_value item));
            raw = (if parse_figurative_constant raw0 \<noteq> None then ''0'' else raw0)
        in if \<not> isdigit raw then None
           else Some (rjust (pic_length item) (CHR ''0'') (last_digits (pic_length item) raw)))"

subsection \<open>The plan\<close>

text \<open>The first item of each name; the subtree of a condition name is not visited.\<close>

function index_names :: "data_item dict \<Rightarrow> data_item list \<Rightarrow> data_item dict" where
  "index_names d [] = d"
| "index_names d (n # ns) =
     (if is_condition_name n then index_names d ns
      else index_names (index_names (set_default (upper (item_name n)) n d) (children n)) ns)"
  by pat_completeness auto
termination by (relation "measure (size_list size \<circ> snd)") (simp_all add: size_children)

definition hide :: "data_item \<Rightarrow> string list" where
  "hide item = map (upper \<circ> item_name) (subtree [item])"

definition members_of :: "data_item \<Rightarrow> string + (data_item \<times> nat) list" where
  "members_of item =
     (if children item \<noteq> [] then group_members item
      else case is_certified_member item of Some reason \<Rightarrow> Inl reason | None \<Rightarrow> Inr [(item, 0)])"

definition overlay_width :: "data_item \<Rightarrow> nat" where
  "overlay_width item =
     (if children item \<noteq> []
      then sum_list (map pic_length (filter (\<lambda>c. \<not> is_condition_name c) (children item)))
      else pic_length item)"

definition bad_digits :: "string \<Rightarrow> data_item \<times> nat \<Rightarrow> bool" where
  "bad_digits initial m \<longleftrightarrow> is_numeric (fst m) \<and> \<not> isdigit (slice (snd m) (pic_length (fst m)) initial)"

text \<open>The checks of one redefining item against its base, in order: the base's initial bytes and the
  members with their offsets, or the reason.\<close>

definition overlay_of :: "data_item \<Rightarrow> data_item \<Rightarrow> string + (string \<times> (data_item \<times> nat) list)" where
  "overlay_of item base =
     (if truthy (redefines base)
      then Inl (''chained REDEFINES on '' @ item_name item @ '' (base '' @ item_name base
             @ '' itself redefines another item)'')
      else case is_certified_member base of
        Some reason \<Rightarrow> Inl reason
      | None \<Rightarrow> bind_res (members_of item) (\<lambda>members.
          if pic_length base < overlay_width item
          then Inl (''redefining item '' @ item_name item @ '' is wider than its base '' @ item_name base)
          else case initial_bytes base of
            None \<Rightarrow> Inl (''base '' @ item_name base @ '' has a VALUE that is not its digits'')
          | Some initial \<Rightarrow>
              (case List.find (bad_digits initial) members of
                 Some m \<Rightarrow> Inl (''numeric view '' @ item_name (fst m)
                             @ '' starts on bytes that are not digits'')
               | None \<Rightarrow> Inr (initial, members))))"

definition base_view :: "data_item \<Rightarrow> string \<Rightarrow> redefines_view" where
  "base_view base initial = \<lparr>rv_name = item_name base, rv_base = item_name base,
     rv_length = pic_length base, rv_initial = initial, rv_offset = 0, rv_numeric = is_numeric base\<rparr>"

definition member_view :: "data_item \<Rightarrow> string \<Rightarrow> data_item \<times> nat \<Rightarrow> redefines_view" where
  "member_view base initial m = (let (member, offset) = m in
     \<lparr>rv_name = item_name member, rv_base = item_name base, rv_length = pic_length member,
      rv_initial = slice offset (pic_length member) initial, rv_offset = offset,
      rv_numeric = is_numeric member\<rparr>)"

definition reject :: "string \<Rightarrow> string \<Rightarrow> data_item \<Rightarrow> redefines_plan \<Rightarrow> redefines_plan" where
  "reject key reason item plan =
     plan\<lparr>plan_problems := AList.update key reason (plan_problems plan),
          plan_hidden := plan_hidden plan @ hide item\<rparr>"

definition overlay_step :: "data_item dict \<Rightarrow> string \<Rightarrow> redefines_plan \<Rightarrow> redefines_plan" where
  "overlay_step by_name key plan =
     (case map_of by_name key of
        None \<Rightarrow> plan
      | Some item \<Rightarrow>
          if \<not> truthy (redefines item) then plan
          else
            let base_key = upper (the (redefines item)) in
            case map_of by_name base_key of
              None \<Rightarrow> reject key (''REDEFINES '' @ the (redefines item) @ '' on '' @ item_name item
                        @ '' does not resolve to a data item'') item plan
            | Some base \<Rightarrow>
                (case overlay_of item base of
                   Inl reason \<Rightarrow>
                     let plan' = reject key reason item plan in
                     plan'\<lparr>plan_problems := set_default base_key reason (plan_problems plan')\<rparr>
                 | Inr (initial, members) \<Rightarrow>
                     plan\<lparr>plan_views := fold (\<lambda>m. AList.update (upper (item_name (fst m)))
                              (member_view base initial m)) members
                              (AList.update base_key (base_view base initial) (plan_views plan)),
                          plan_hidden := plan_hidden plan @ (if children item \<noteq> [] then [key] else [])\<rparr>))"

text \<open>A chain is all-or-nothing: a reported redefinition takes every view of its base with it.\<close>

definition unsupported_bases :: "data_item dict \<Rightarrow> string dict \<Rightarrow> string list" where
  "unsupported_bases by_name problems =
     concat (map (\<lambda>(key, reason). case map_of by_name key of
         Some item \<Rightarrow> if truthy (redefines item) then [upper (the (redefines item))] else []
       | None \<Rightarrow> []) problems)"

definition chain_reason :: "redefines_view \<Rightarrow> string" where
  "chain_reason view = ''REDEFINES chain of '' @ rv_base view @ '' contains an uncertified view''"

definition close_chains :: "data_item dict \<Rightarrow> redefines_plan \<Rightarrow> redefines_plan" where
  "close_chains by_name plan =
     (let bad = (\<lambda>kv. upper (rv_base (snd kv)) \<in> set (unsupported_bases by_name (plan_problems plan)));
          problems = fold (\<lambda>kv. set_default (fst kv) (chain_reason (snd kv)))
                       (filter bad (plan_views plan)) (plan_problems plan)
      in \<lparr>plan_views = filter (\<lambda>kv. \<not> bad kv) (plan_views plan),
          plan_problems = problems,
          plan_hidden = plan_hidden plan @ concat (map (\<lambda>kv.
             case map_of by_name (fst kv) of Some item \<Rightarrow> hide item | None \<Rightarrow> []) problems)\<rparr>)"

definition build_redefines_plan :: "data_item list \<Rightarrow> redefines_plan" where
  "build_redefines_plan items =
     (let by_name = index_names [] items in
      close_chains by_name (fold (overlay_step by_name) (sort (map fst by_name))
        \<lparr>plan_views = [], plan_problems = [], plan_hidden = []\<rparr>))"

definition overlay_members :: "redefines_plan \<Rightarrow> redefines_view list" where
  "overlay_members plan = map snd (plan_views plan)"

definition java_name :: "redefines_view \<Rightarrow> string" where
  "java_name view = map (\<lambda>c. if c = CHR ''-'' then CHR ''_'' else c) (rv_name view)"

end
