(* ===== verification/OverlayFacts.thy ===== *)
theory OverlayFacts
  imports Overlays
begin

text \<open>
  What an overlay plan promises. Every view lies inside the storage of a base item and starts on the
  matching slice of the base's initial bytes; a rejected redefinition leaves no view on its base. The
  last theorems show redefinitions the analysis accepts although it cannot keep their storage shared.
\<close>

subsection \<open>Dictionaries\<close>

lemma update_mem: "x \<in> set (AList.update k v d) \<Longrightarrow> x = (k, v) \<or> x \<in> set d"
  by (induction d) (auto split: if_splits)

lemma update_keys: "fst ` set (AList.update k v d) = insert k (fst ` set d)"
  by (induction d) auto

lemma set_default_mem: "x \<in> set (set_default k v d) \<Longrightarrow> x = (k, v) \<or> x \<in> set d"
  by (auto simp: set_default_def split: option.splits)

lemma set_default_keys: "fst ` set (set_default k v d) = insert k (fst ` set d)"
proof (cases "map_of d k")
  case (Some w)
  then have "k \<in> fst ` set d" using map_of_SomeD [OF Some] by force
  then show ?thesis using Some by (simp add: set_default_def insert_absorb)
qed (simp add: set_default_def)

lemma fold_update_mem:
  "x \<in> set (fold (\<lambda>m. AList.update (f m) (g m)) ms d) \<Longrightarrow> (\<exists>m \<in> set ms. x = (f m, g m)) \<or> x \<in> set d"
  by (induction ms arbitrary: d) (auto dest: update_mem)

lemma fold_default_keys:
  "fst ` set (fold (\<lambda>kv. set_default (f kv) (g kv)) kvs d) = f ` set kvs \<union> fst ` set d"
  by (induction kvs arbitrary: d) (simp_all add: set_default_keys)

lemma accepted_views_mem:
  "kv \<in> set (fold (\<lambda>m. AList.update (upper (item_name (fst m))) (member_view base s m)) ms (AList.update b v d)) \<Longrightarrow>
   kv = (b, v) \<or> kv \<in> set d \<or> (\<exists>m \<in> set ms. kv = (upper (item_name (fst m)), member_view base s m))"
  using fold_update_mem [of kv "\<lambda>m. upper (item_name (fst m))" "member_view base s" ms "AList.update b v d"]
    update_mem [of kv b v d] by blast

definition keyed :: "data_item dict \<Rightarrow> bool" where
  "keyed d \<longleftrightarrow> (\<forall>x \<in> set d. fst x = upper (item_name (snd x)))"

lemma keyed_default: "keyed d \<Longrightarrow> keyed (set_default (upper (item_name n)) n d)"
  unfolding keyed_def using set_default_mem [of _ "upper (item_name n)" n d] by fastforce

lemma index_names_keys: "keyed d \<Longrightarrow> keyed (index_names d ns)"
proof (induction d ns rule: index_names.induct)
  case (2 d n ns)
  show ?case
  proof (cases "is_condition_name n")
    case True
    then show ?thesis using 2 by simp
  next
    case False
    then show ?thesis using 2(3) [OF False 2(2) [OF False keyed_default [OF 2(4)]]] by simp
  qed
qed simp

abbreviation names_of :: "data_item list \<Rightarrow> data_item dict" where
  "names_of items \<equiv> index_names [] items"

lemma names_of_key: "map_of (names_of items) k = Some i \<Longrightarrow> k = upper (item_name i)"
  using index_names_keys [of "[]" items] map_of_SomeD [of "names_of items" k i] by (fastforce simp: keyed_def)

subsection \<open>One redefinition\<close>

lemma certified_width: "is_certified_member item = None \<Longrightarrow> 0 < pic_length item"
  by (auto simp: is_certified_member_def split: if_splits)

lemma group_members_placed:
  "group_members_from off cs = Inr ms \<Longrightarrow>
   \<forall>(m, i) \<in> set ms. is_certified_member m = None \<and>
     i + pic_length m \<le> off + sum_list (map pic_length (filter (\<lambda>c. \<not> is_condition_name c) cs))"
proof (induction off cs arbitrary: ms rule: group_members_from.induct)
  case (2 off c cs)
  show ?case
  proof (cases "is_condition_name c")
    case True
    then show ?thesis using 2 by auto
  next
    case False
    then obtain ms' where c: "is_certified_member c = None"
      and ms': "group_members_from (off + pic_length c) cs = Inr ms'"
      and ms: "ms = (if upper (item_name c) \<noteq> ''FILLER'' then [(c, off)] else []) @ ms'"
      using 2(3) by (auto simp: bind_res_eq_Inr split: option.splits)
    show ?thesis using 2(2) [OF False c ms'] False c ms by auto
  qed
qed simp

lemma members_placed:
  "members_of item = Inr ms \<Longrightarrow>
   \<forall>(m, i) \<in> set ms. is_certified_member m = None \<and> i + pic_length m \<le> overlay_width item"
  using group_members_placed [of 0 "children item" ms]
  by (auto simp: members_of_def group_members_def overlay_width_def split: if_splits option.splits)

lemma initial_bytes_length: "initial_bytes item = Some s \<Longrightarrow> 0 < pic_length item \<Longrightarrow> length s = pic_length item"
  by (auto simp: initial_bytes_def alphanumeric_initial_def last_digits_def Let_def
      split: if_splits option.splits)

lemma isdigit_last: "isdigit s \<Longrightarrow> 0 < n \<Longrightarrow> isdigit (rjust n (CHR ''0'') (last_digits n s))"
  using set_drop_subset [of "length s - n" s]
  by (auto simp: isdigit_def rjust_def last_digits_def list_all_iff digit_like_digit)

lemma initial_bytes_digits:
  "initial_bytes item = Some s \<Longrightarrow> is_numeric item \<Longrightarrow> 0 < pic_length item \<Longrightarrow> isdigit s"
  using isdigit_last by (auto simp: initial_bytes_def Let_def split: if_splits)

lemma overlay_of_accepts:
  assumes "overlay_of item base = Inr (s, ms)"
  shows "\<not> truthy (redefines base)" "is_certified_member base = None" "members_of item = Inr ms"
    "overlay_width item \<le> pic_length base" "initial_bytes base = Some s" "\<forall>m \<in> set ms. \<not> bad_digits s m"
  using assms by (auto simp: overlay_of_def bind_res_eq_Inr find_None_iff split: if_splits option.splits)

text \<open>An item that must be reported: its REDEFINES does not resolve, or a check fails.\<close>

definition rejected :: "data_item dict \<Rightarrow> data_item \<Rightarrow> bool" where
  "rejected by_name item \<longleftrightarrow> truthy (redefines item) \<and>
     (case map_of by_name (upper (the (redefines item))) of
        None \<Rightarrow> True
      | Some base \<Rightarrow> (case overlay_of item base of Inl _ \<Rightarrow> True | Inr _ \<Rightarrow> False))"

lemma step_skips:
  "map_of by_name key = None \<Longrightarrow> overlay_step by_name key plan = plan"
  "map_of by_name key = Some item \<Longrightarrow> \<not> truthy (redefines item) \<Longrightarrow> overlay_step by_name key plan = plan"
  by (simp_all add: overlay_step_def)

lemma step_accepts:
  assumes "map_of by_name key = Some item" "truthy (redefines item)"
    "map_of by_name (upper (the (redefines item))) = Some base" "overlay_of item base = Inr (s, ms)"
  shows "plan_problems (overlay_step by_name key plan) = plan_problems plan"
    "plan_views (overlay_step by_name key plan) =
       fold (\<lambda>m. AList.update (upper (item_name (fst m))) (member_view base s m)) ms
         (AList.update (upper (the (redefines item))) (base_view base s) (plan_views plan))"
  using assms by (simp_all add: overlay_step_def Let_def)

lemma step_rejects:
  assumes "map_of by_name key = Some item" "rejected by_name item"
  shows "plan_views (overlay_step by_name key plan) = plan_views plan \<and>
    insert key (fst ` set (plan_problems plan)) \<subseteq> fst ` set (plan_problems (overlay_step by_name key plan))"
proof (cases "map_of by_name (upper (the (redefines item)))")
  case None
  then obtain reason where "overlay_step by_name key plan = reject key reason item plan"
    using assms by (simp add: overlay_step_def rejected_def Let_def)
  then show ?thesis by (simp add: reject_def update_keys)
next
  case (Some base)
  then obtain reason where "overlay_of item base = Inl reason"
    using assms(2) by (auto simp: rejected_def split: sum.splits)
  then have "overlay_step by_name key plan =
    (let plan' = reject key reason item plan
     in plan'\<lparr>plan_problems := set_default (upper (the (redefines item))) reason (plan_problems plan')\<rparr>)"
    using assms Some by (simp add: overlay_step_def rejected_def Let_def)
  then show ?thesis by (auto simp: Let_def reject_def set_default_keys update_keys)
qed

text \<open>A key is skipped, rejected or accepted.\<close>

lemma step_cases:
  obtains "overlay_step by_name key plan = plan"
    | item where "map_of by_name key = Some item" "rejected by_name item"
    | item base s ms where "map_of by_name key = Some item" "truthy (redefines item)"
      "map_of by_name (upper (the (redefines item))) = Some base" "overlay_of item base = Inr (s, ms)"
proof (cases "\<exists>item. map_of by_name key = Some item \<and> truthy (redefines item)")
  case True
  then obtain item where i: "map_of by_name key = Some item" "truthy (redefines item)" by blast
  show ?thesis
  proof (cases "rejected by_name item")
    case False
    then obtain base s ms where "map_of by_name (upper (the (redefines item))) = Some base"
      "overlay_of item base = Inr (s, ms)"
      using i(2) by (auto simp: rejected_def split: option.splits sum.splits)
    with i show ?thesis by (rule that(3))
  qed (use i that(2) in blast)
next
  case False
  then show ?thesis using that(1) step_skips by (cases "map_of by_name key") auto
qed

subsection \<open>Views\<close>

text \<open>A view lies inside its base's storage and starts on its slice of the base's initial bytes, which
  are digits when the view is numeric.\<close>

definition view_placed :: "data_item \<Rightarrow> redefines_view \<Rightarrow> bool" where
  "view_placed base v \<longleftrightarrow>
     (\<exists>initial. initial_bytes base = Some initial \<and> length initial = pic_length base \<and>
        0 < rv_length v \<and> rv_offset v + rv_length v \<le> pic_length base \<and>
        rv_initial v = slice (rv_offset v) (rv_length v) initial \<and>
        (rv_numeric v \<longrightarrow> isdigit (rv_initial v)))"

definition view_ok :: "data_item dict \<Rightarrow> string \<times> redefines_view \<Rightarrow> bool" where
  "view_ok by_name kv \<longleftrightarrow> fst kv = upper (rv_name (snd kv)) \<and>
     (\<exists>base. map_of by_name (upper (rv_base (snd kv))) = Some base \<and> \<not> truthy (redefines base) \<and>
        is_certified_member base = None \<and> view_placed base (snd kv))"

lemma base_view_placed:
  "overlay_of item base = Inr (s, ms) \<Longrightarrow> view_placed base (base_view base s)"
  using overlay_of_accepts [of item base s ms] certified_width [of base] initial_bytes_length [of base s]
    initial_bytes_digits [of base s]
  by (auto simp: view_placed_def base_view_def slice_def)

lemma member_view_placed:
  assumes "overlay_of item base = Inr (s, ms)" "m \<in> set ms"
  shows "view_placed base (member_view base s m)"
proof -
  note a = overlay_of_accepts [OF assms(1)]
  obtain c i where m: "m = (c, i)" by (cases m)
  have "is_certified_member c = None" "i + pic_length c \<le> pic_length base"
    using members_placed [OF a(3)] assms(2) a(4) by (auto simp: m)
  then show ?thesis
    using a(5,6) assms(2) certified_width [OF a(2)] certified_width [of c] initial_bytes_length [OF a(5)]
    by (auto simp: view_placed_def member_view_def m bad_digits_def)
qed

lemma views_of_step:
  assumes "\<forall>k i. map_of by_name k = Some i \<longrightarrow> k = upper (item_name i)"
    and "\<forall>kv \<in> set (plan_views plan). view_ok by_name kv"
  shows "\<forall>kv \<in> set (plan_views (overlay_step by_name key plan)). view_ok by_name kv"
proof -
  have new: "view_ok by_name (k, v)"
    if o: "overlay_of item base = Inr (s, ms)" and b: "map_of by_name b = Some base"
      and kv: "(k, v) = (b, base_view base s) \<or>
        (\<exists>m \<in> set ms. (k, v) = (upper (item_name (fst m)), member_view base s m))" for item base s ms b k v
  proof -
    have "b = upper (item_name base)" using assms(1) b by blast
    moreover have "rv_name (member_view base s m) = item_name (fst m)" "rv_base (member_view base s m) = item_name base" for m
      by (auto simp: member_view_def split: prod.splits)
    ultimately show ?thesis
      using kv b overlay_of_accepts(1,2) [OF o] base_view_placed [OF o] member_view_placed [OF o]
      by (auto simp: view_ok_def base_view_def)
  qed
  show ?thesis
  proof (cases rule: step_cases [of by_name key plan])
    case (3 item base s ms)
    show ?thesis
    proof
      fix kv assume "kv \<in> set (plan_views (overlay_step by_name key plan))"
      then have "kv = (upper (the (redefines item)), base_view base s) \<or> kv \<in> set (plan_views plan) \<or>
          (\<exists>m \<in> set ms. kv = (upper (item_name (fst m)), member_view base s m))"
        unfolding step_accepts(2) [OF 3] by (blast dest: accepted_views_mem)
      then show "view_ok by_name kv"
        using assms(2) new [OF 3(4,3), of "fst kv" "snd kv"] by auto
    qed
  qed (use assms(2) step_rejects in simp_all)
qed

lemma views_of_steps:
  assumes "\<forall>k i. map_of by_name k = Some i \<longrightarrow> k = upper (item_name i)"
    and "\<forall>kv \<in> set (plan_views plan). view_ok by_name kv"
  shows "\<forall>kv \<in> set (plan_views (fold (overlay_step by_name) keys plan)). view_ok by_name kv"
  using assms(2)
proof (induction keys arbitrary: plan)
  case (Cons k keys)
  then show ?case using Cons.IH [OF views_of_step [OF assms(1) Cons.prems]] by simp
qed simp

text \<open>C32: every view of a plan lies inside a base. The view is filed under its own name, its base is a
  certified item that redefines nothing, its bytes lie inside the base's width, it starts on the slice
  of the base's initial bytes at its offset, and a numeric view starts on digits.\<close>
theorem views_inside_their_base:
  "\<forall>kv \<in> set (plan_views (build_redefines_plan items)). view_ok (names_of items) kv"
proof -
  have "\<forall>kv \<in> set (plan_views (fold (overlay_step (names_of items)) (sort (map fst (names_of items)))
      \<lparr>plan_views = [], plan_problems = [], plan_hidden = []\<rparr>)). view_ok (names_of items) kv"
    by (rule views_of_steps) (use names_of_key in auto)
  then show ?thesis by (simp add: build_redefines_plan_def close_chains_def Let_def)
qed

subsection \<open>Rejected chains\<close>

lemma step_keys: "fst ` set (plan_problems plan) \<subseteq> fst ` set (plan_problems (overlay_step by_name key plan))"
proof (cases rule: step_cases [of by_name key plan])
  case (2 item)
  from step_rejects [OF this] show ?thesis by blast
next
  case (3 item base s ms)
  from step_accepts(1) [OF this] show ?thesis by simp
qed simp

lemma steps_keys: "fst ` set (plan_problems plan) \<subseteq> fst ` set (plan_problems (fold (overlay_step by_name) keys plan))"
proof (induction keys arbitrary: plan)
  case (Cons k keys)
  show ?case using step_keys [of plan by_name k] Cons.IH [of "overlay_step by_name k plan"] by simp
qed simp

lemma rejected_steps:
  assumes "map_of by_name key = Some item" "rejected by_name item" "key \<in> set keys"
  shows "key \<in> fst ` set (plan_problems (fold (overlay_step by_name) keys plan))"
proof -
  obtain ks1 ks2 where "keys = ks1 @ key # ks2" using assms(3) by (meson split_list)
  then show ?thesis
    using step_rejects [OF assms(1,2), of "fold (overlay_step by_name) ks1 plan"]
      steps_keys [of "overlay_step by_name key (fold (overlay_step by_name) ks1 plan)" by_name ks2]
    by (simp add: subset_iff)
qed

lemma unsupported_mem:
  "key \<in> fst ` set problems \<Longrightarrow> map_of by_name key = Some item \<Longrightarrow> truthy (redefines item) \<Longrightarrow>
   upper (the (redefines item)) \<in> set (unsupported_bases by_name problems)"
  by (force simp: unsupported_bases_def)

text \<open>A chain is all-or-nothing. An item whose REDEFINES does not resolve or fails a check is
  reported, none of its names is declared, and no view of the storage it redefines is kept.\<close>
theorem rejected_chain_has_no_view:
  assumes "map_of (names_of items) key = Some item" "rejected (names_of items) item"
  shows "key \<in> fst ` set (plan_problems (build_redefines_plan items)) \<and>
    set (hide item) \<subseteq> set (plan_hidden (build_redefines_plan items)) \<and>
    (\<forall>v \<in> set (overlay_members (build_redefines_plan items)).
       upper (rv_base v) \<noteq> upper (the (redefines item)))"
proof -
  let ?n = "names_of items"
  let ?p = "fold (overlay_step ?n) (sort (map fst ?n)) \<lparr>plan_views = [], plan_problems = [], plan_hidden = []\<rparr>"
  have "key \<in> set (sort (map fst ?n))" using map_of_SomeD [OF assms(1)] by force
  from rejected_steps [OF assms this] have key: "key \<in> fst ` set (plan_problems ?p)" .
  have "truthy (redefines item)" using assms(2) by (simp add: rejected_def)
  from unsupported_mem [OF key assms(1) this] have
    "upper (the (redefines item)) \<in> set (unsupported_bases ?n (plan_problems ?p))" .
  moreover have "key \<in> fst ` set (plan_problems (close_chains ?n ?p))"
    using key by (simp add: close_chains_def Let_def fold_default_keys)
  moreover have "set (hide item) \<subseteq> set (plan_hidden (close_chains ?n ?p))"
    using calculation(2) assms(1) by (force simp: close_chains_def Let_def)
  ultimately show ?thesis
    by (auto simp: build_redefines_plan_def overlay_members_def close_chains_def Let_def)
qed


subsection \<open>Sample declarations\<close>

definition sample_item :: "nat \<Rightarrow> string \<Rightarrow> nat \<Rightarrow> nat \<Rightarrow> string option \<Rightarrow> data_item list \<Rightarrow> data_item" where
  "sample_item i name level n redef cs =
     DataItem i name level ALPHANUMERIC n 0 False None None None redef None cs"

text \<open>\<open>01 A PIC X(4)\<close> redefined by a narrower and by a wider item.\<close>

definition sample_chain :: "data_item list" where
  "sample_chain = [sample_item 1 ''A'' 1 4 None [], sample_item 2 ''B'' 1 4 (Some ''A'') [],
     sample_item 3 ''C'' 1 6 (Some ''A'') []]"

text \<open>\<open>01 B REDEFINES A PIC X(4)\<close> with a condition name, and a group with a leaf that redefines another.\<close>

definition sample_condition :: "data_item list" where
  "sample_condition = [sample_item 1 ''A'' 1 4 None [],
     sample_item 2 ''B'' 1 4 (Some ''A'') [sample_item 3 ''B-OK'' 88 0 None []]]"

definition sample_nested :: "data_item list" where
  "sample_nested = [sample_item 1 ''A'' 1 4 None [],
     sample_item 2 ''B'' 1 0 (Some ''A'')
       [sample_item 3 ''X'' 5 2 None [], sample_item 4 ''Y'' 5 2 (Some ''X'') []]]"

text \<open>\<open>01 D PIC 9(8)\<close> redefined by the group of a year, a month and a day.\<close>

definition sample_digits :: "nat \<Rightarrow> string \<Rightarrow> nat \<Rightarrow> data_item" where
  "sample_digits i name n = DataItem i name 5 NUMERIC n 0 False (Some ''20250131'') None None None None []"

definition sample_date :: "data_item list" where
  "sample_date = [sample_digits 1 ''D'' 8,
     sample_item 2 ''P'' 1 0 (Some ''D'')
       [sample_digits 3 ''YYYY'' 4, sample_digits 4 ''MM'' 2, sample_digits 5 ''DD'' 2]]"

theorem views_inside_their_base_witness:
  "map (\<lambda>v. (rv_name v, rv_offset v, rv_initial v)) (overlay_members (build_redefines_plan sample_date))
     = [(''D'', 0, ''20250131''), (''YYYY'', 0, ''2025''), (''MM'', 4, ''01''), (''DD'', 6, ''31'')] \<and>
   view_ok (names_of sample_date) (last (plan_views (build_redefines_plan sample_date)))"
proof -
  have m: "map (\<lambda>v. (rv_name v, rv_offset v, rv_initial v)) (overlay_members (build_redefines_plan sample_date))
     = [(''D'', 0, ''20250131''), (''YYYY'', 0, ''2025''), (''MM'', 4, ''01''), (''DD'', 6, ''31'')]"
    by code_simp
  then have "plan_views (build_redefines_plan sample_date) \<noteq> []" by (auto simp: overlay_members_def)
  then show ?thesis using m views_inside_their_base [of sample_date] last_in_set by blast
qed

theorem rejected_chain_has_no_view_witness:
  "map_of (names_of sample_chain) ''C'' = Some (sample_item 3 ''C'' 1 6 (Some ''A'') []) \<and>
   rejected (names_of sample_chain) (sample_item 3 ''C'' 1 6 (Some ''A'') []) \<and>
   ''A'' \<notin> (\<lambda>v. upper (rv_base v)) ` set (overlay_members (build_redefines_plan sample_chain))"
proof -
  have m: "map_of (names_of sample_chain) ''C'' = Some (sample_item 3 ''C'' 1 6 (Some ''A'') [])"
    and r: "rejected (names_of sample_chain) (sample_item 3 ''C'' 1 6 (Some ''A'') [])" by code_simp+
  have "upper (the (redefines (sample_item 3 ''C'' 1 6 (Some ''A'') []))) = ''A''" by code_simp
  then show ?thesis using m r rejected_chain_has_no_view [OF m r] by auto
qed

text \<open>A redefining item with a condition name loses its view. \<open>01 B REDEFINES A PIC X(4)\<close> followed by
  a level 88 is treated as a group without leaves: nothing is reported, \<open>B\<close> is hidden, so it is not
  declared, and no view stands for it.\<close>
theorem condition_name_drops_the_view:
  "plan_problems (build_redefines_plan sample_condition) = [] \<and>
   ''B'' \<in> set (plan_hidden (build_redefines_plan sample_condition)) \<and>
   map rv_name (overlay_members (build_redefines_plan sample_condition)) = [''A'']"
  by code_simp

text \<open>A redefinition inside a redefining group detaches its leaves. With \<open>B\<close> over \<open>A\<close> and the leaf \<open>Y\<close>
  of \<open>B\<close> over the leaf \<open>X\<close>, nothing is reported, and the plan has \<open>X\<close> and \<open>Y\<close> share a storage of their own:
  no view of \<open>A\<close> other than itself is left.\<close>
theorem nested_redefinition_detaches_leaves:
  "plan_problems (build_redefines_plan sample_nested) = [] \<and>
   map (\<lambda>v. (rv_name v, rv_base v)) (overlay_members (build_redefines_plan sample_nested))
     = [(''A'', ''A''), (''X'', ''X''), (''Y'', ''X'')]"
  by code_simp

end
