(* ===== verification/GroupStorage.thy ===== *)
theory GroupStorage
  imports Figurative DataItems
begin

text \<open>
  Group views (\<open>engine/transformation/group_storage.py\<close>): the layout of a group of DISPLAY leaves, and
  which reads of a group and moves into or out of one are certified. A layout or its problem is a sum,
  \<open>Inl\<close> the problem.
\<close>

record group_leaf =
  gl_name :: "string option"
  gl_offset :: nat
  gl_length :: nat
  gl_numeric :: bool
  gl_constant :: "string option"

record group_layout_rec =
  gy_name :: string
  gy_leaves :: "group_leaf list"

definition layout_length :: "group_layout_rec \<Rightarrow> nat" where
  "layout_length l = sum_list (map gl_length (gy_leaves l))"

text \<open>An empty name is none.\<close>

definition leaf_names :: "group_layout_rec \<Rightarrow> string list" where
  "leaf_names l = concat (map (\<lambda>x. case gl_name x of None \<Rightarrow> [] | Some n \<Rightarrow> if n = [] then [] else [upper n])
     (gy_leaves l))"

definition writable :: "group_layout_rec \<Rightarrow> bool" where
  "writable l \<longleftrightarrow> (\<forall>x \<in> set (gy_leaves l). truthy (gl_name x) \<and> \<not> gl_numeric x)"

subsection \<open>FILLER\<close>

definition printable_figuratives :: "string list" where
  "printable_figuratives = [''SPACES'', ''ZERO'', ''QUOTES'', ''ALL'']"

definition printable_fill :: "string \<Rightarrow> nat \<Rightarrow> string option" where
  "printable_fill text width =
     (case parse_figurative_constant text of
        None \<Rightarrow> None
      | Some (k, f) \<Rightarrow> if k \<notin> set printable_figuratives then None else figurative_to_width k f width)"

definition is_quoted :: "string \<Rightarrow> bool" where
  "is_quoted text \<longleftrightarrow>
     (let t = strip text in 2 \<le> length t \<and> hd t = last t \<and> is_quote (hd t))"

definition filler_constant :: "data_item \<Rightarrow> string option" where
  "filler_constant item =
     (case item_value item of
        None \<Rightarrow> Some (replicate (pic_length item) (CHR '' ''))
      | Some v \<Rightarrow>
          let raw = strip v in
          map_option (fit (pic_length item))
            (if 2 \<le> length raw \<and> hd raw = last raw \<and> is_quote (hd raw) then Some (butlast (tl raw))
             else printable_fill raw (pic_length item)))"

subsection \<open>Layout\<close>

text \<open>Names the leaf checks look at: every name of the tree, and the names something redefines.\<close>

definition all_names :: "data_item list \<Rightarrow> string list" where
  "all_names items = map (upper \<circ> item_name) (iter_data_items items)"

definition redefined_names :: "data_item list \<Rightarrow> string list" where
  "redefined_names items =
     map (\<lambda>i. upper (the (redefines i))) (filter (\<lambda>i. truthy (redefines i)) (iter_data_items items))"

text \<open>The truth of an OCCURS clause: a count other than zero, or a controlling item.\<close>

definition has_occurs :: "data_item \<Rightarrow> bool" where
  "has_occurs item \<longleftrightarrow> occurs item \<noteq> None \<and> occurs item \<noteq> Some 0"

definition leaf_of :: "string list \<Rightarrow> nat \<Rightarrow> data_item \<Rightarrow> string + group_leaf" where
  "leaf_of names offset item =
     (let leaf = (\<lambda>n num c. Inr \<lparr>gl_name = n, gl_offset = offset, gl_length = pic_length item,
                     gl_numeric = num, gl_constant = c\<rparr>) in
      if pic_length item = 0 then Inl (item_name item @ '' has no PIC'')
      else if upper (item_name item) = ''FILLER'' then
        (if \<not> is_alphanumeric item then Inl ''FILLER must be PIC X''
         else case filler_constant item of
           None \<Rightarrow> Inl (''FILLER VALUE '' @ the (item_value item) @ '' is not certified'')
         | Some c \<Rightarrow> leaf None False (Some c))
      else if count_list names (upper (item_name item)) \<noteq> 1
      then Inl (item_name item @ '' is not uniquely named'')
      else if is_alphanumeric item then leaf (Some (item_name item)) False None
      else if is_numeric item \<and> \<not> has_sign item \<and> decimal_places item = 0 \<and> pic_length item \<le> 18
      then leaf (Some (item_name item)) True None
      else Inl (item_name item @ '' is not PIC X or an unsigned integer PIC 9(1..18)''))"

text \<open>\<open>visit\<close> over the items from an offset: the leaves in storage order and the offset after them.\<close>

function visit_items :: "string list \<Rightarrow> string list \<Rightarrow> nat \<Rightarrow> data_item list \<Rightarrow> string + (group_leaf list \<times> nat)" where
  "visit_items names redefd offset [] = Inr ([], offset)"
| "visit_items names redefd offset (item # rest) =
     (if item_level item = 88 then visit_items names redefd offset rest
      else if has_occurs item \<or> truthy (occurs_depending_on item) then Inl (item_name item @ '' has OCCURS'')
      else if truthy (redefines item) \<or> upper (item_name item) \<in> set redefd
      then Inl (item_name item @ '' takes part in REDEFINES'')
      else if truthy (usage item) then Inl (item_name item @ '' has USAGE '' @ the (usage item))
      else if is_group item then
        (case visit_items names redefd offset (children item) of
           Inl e \<Rightarrow> Inl e
         | Inr (ls, offset1) \<Rightarrow>
             bind_res (visit_items names redefd offset1 rest) (\<lambda>(ls', end). Inr (ls @ ls', end)))
      else
        (case leaf_of names offset item of
           Inl e \<Rightarrow> Inl e
         | Inr leaf \<Rightarrow>
             bind_res (visit_items names redefd (offset + pic_length item) rest) (\<lambda>(ls, end). Inr (leaf # ls, end))))"
  by pat_completeness auto
termination by (relation "measure (\<lambda>(_, _, _, items). size_list size items)") (simp_all add: size_children)

definition group_layout :: "data_item list \<Rightarrow> string \<Rightarrow> string + group_layout_rec" where
  "group_layout items name =
     (case find_item items name of
        None \<Rightarrow> Inl (name @ '' is not a uniquely named group item'')
      | Some grp \<Rightarrow>
          let redefd = redefined_names items in
          if \<not> is_group grp then Inl (name @ '' is not a uniquely named group item'')
          else if truthy (redefines grp) \<or> upper (item_name grp) \<in> set redefd
          then Inl (item_name grp @ '' takes part in REDEFINES'')
          else if has_occurs grp \<or> truthy (usage grp)
          then Inl (item_name grp @ '' has OCCURS or USAGE'')
          else bind_res (visit_items (all_names items) redefd 0 (children grp)) (\<lambda>(leaves, _).
            if leaves = [] then Inl (item_name grp @ '' has no elementary items'')
            else Inr \<lparr>gy_name = item_name grp, gy_leaves = leaves\<rparr>))"

subsection \<open>Reads and moves\<close>

text \<open>\<open>text.strip().rstrip(".")\<close> up to the first parenthesis, and whether there is one.\<close>

definition base_ref :: "string \<Rightarrow> string \<times> bool" where
  "base_ref ref =
     (let text = rstrip_char (CHR ''.'') (strip ref) in
      (upper (strip (takeWhile (\<lambda>c. c \<noteq> CHR ''('') text)), CHR ''('' \<in> set text))"

definition problem_of :: "string + 'a \<Rightarrow> string option" where
  "problem_of r = (case r of Inl e \<Rightarrow> Some e | Inr _ \<Rightarrow> None)"

definition group_reference_problem :: "data_item list \<Rightarrow> string \<Rightarrow> string option" where
  "group_reference_problem items ref =
     (let (name, qualified) = base_ref ref in
      if qualified then Some (''subscripted or reference-modified group '' @ name)
      else problem_of (group_layout items name))"

definition group_item :: "data_item list \<Rightarrow> string \<Rightarrow> data_item option" where
  "group_item items name =
     (case find_item items name of Some i \<Rightarrow> if is_group i then Some i else None | None \<Rightarrow> None)"

definition not_certified_source :: "string \<Rightarrow> string \<Rightarrow> string option" where
  "not_certified_source source target_name =
     Some (''MOVE source '' @ source @ '' into group '' @ target_name @ '' is not certified'')"

definition move_into_group :: "data_item list \<Rightarrow> string \<Rightarrow> string \<Rightarrow> bool \<Rightarrow> string option" where
  "move_into_group items source target_name target_qualified =
     (if target_qualified then Some (''subscripted or reference-modified group '' @ target_name)
      else case group_layout items target_name of
        Inl problem \<Rightarrow> Some problem
      | Inr layout \<Rightarrow>
          if \<not> writable layout
          then Some (''MOVE into group '' @ target_name @ '' needs every subordinate item to be a named PIC X field'')
          else if is_quoted source \<or> printable_fill source 1 \<noteq> None then None
          else
            let (source_name, source_qualified) = base_ref source in
            case find_item items source_name of
              None \<Rightarrow> not_certified_source source target_name
            | Some source_item \<Rightarrow>
                if source_qualified then not_certified_source source target_name
                else if is_group source_item then
                  (case group_layout items source_name of
                     Inl problem \<Rightarrow> Some problem
                   | Inr source_layout \<Rightarrow>
                       if set (leaf_names source_layout) \<inter> set (leaf_names layout) \<noteq> {}
                       then Some (''MOVE between overlapping groups '' @ source_name @ '' and '' @ target_name)
                       else None)
                else if is_alphanumeric source_item \<and> 0 < pic_length source_item
                        \<and> source_name \<notin> set (leaf_names layout) then None
                else not_certified_source source target_name)"

definition move_from_group :: "data_item list \<Rightarrow> string \<Rightarrow> string \<Rightarrow> data_item option \<Rightarrow> string \<Rightarrow> bool \<Rightarrow> string option" where
  "move_from_group items source target target_item target_name target_qualified =
     (let source_name = fst (base_ref source) in
      case group_item items source_name of
        None \<Rightarrow> None
      | Some source_item \<Rightarrow>
          (case group_reference_problem items source of
             Some problem \<Rightarrow> Some problem
           | None \<Rightarrow>
               if (case target_item of
                     None \<Rightarrow> True
                   | Some t \<Rightarrow> target_qualified \<or> \<not> is_alphanumeric t \<or> pic_length t = 0
                       \<or> (case group_layout items source_name of
                            Inl _ \<Rightarrow> False | Inr l \<Rightarrow> target_name \<in> set (leaf_names l)))
               then Some (''MOVE of group '' @ source_name @ '' into '' @ target @ '' is not certified'')
               else None))"

definition group_move_problem :: "data_item list \<Rightarrow> string \<Rightarrow> string \<Rightarrow> string option" where
  "group_move_problem items source target =
     (let (target_name, target_qualified) = base_ref target in
      case group_item items target_name of
        Some _ \<Rightarrow> move_into_group items source target_name target_qualified
      | None \<Rightarrow> move_from_group items source target (find_item items target_name) target_name target_qualified)"

end
