(* ===== verification/GroupFacts.thy ===== *)
theory GroupFacts
  imports GroupStorage "HOL-Library.Sublist"
begin

text \<open>
  What a certified group layout promises: its leaves tile the group's storage without gaps, are named
  apart, and hold only what the code can move through them.
\<close>

subsection \<open>Every object once\<close>

lemma subtree_append [simp]: "subtree (xs @ ys) = subtree xs @ subtree ys"
  by (induction xs) simp_all

lemma in_subtree: "n \<in> set ns \<Longrightarrow> n \<in> set (subtree ns)"
  by (induction ns) auto

lemma subtree_children: "n \<in> set (subtree ns) \<Longrightarrow> c \<in> set (children n) \<Longrightarrow> c \<in> set (subtree ns)"
  by (induction ns rule: subtree.induct) (auto intro: in_subtree)

lemma subtree_closed: "n \<in> set (subtree ns) \<Longrightarrow> set (subtree (children n)) \<subseteq> set (subtree ns)"
  by (induction ns rule: subtree.induct) auto

text \<open>The identities seen after a walk are those before and those of the items it returned.\<close>

text \<open>One step of the walk.\<close>

lemma walk_Cons:
  assumes "walk_items seen (n # ns) = (s, xs)" "obj n \<notin> set seen"
  obtains s1 ys zs where "walk_items (obj n # seen) (children n) = (s1, ys)" "walk_items s1 ns = (s, zs)"
    "xs = n # ys @ zs"
proof -
  obtain s1 ys s2 zs where w: "walk_items (obj n # seen) (children n) = (s1, ys)" "walk_items s1 ns = (s2, zs)"
    by (metis surj_pair)
  then have "s = s2" "xs = n # ys @ zs" using assms by simp_all
  then show ?thesis using that w by blast
qed

lemma walk_seen: "walk_items seen ns = (s, xs) \<Longrightarrow> set s = set seen \<union> obj ` set xs \<and> set xs \<subseteq> set (subtree ns)"
proof (induction seen ns arbitrary: s xs rule: walk_items.induct)
  case (2 seen n ns)
  show ?case
  proof (cases "obj n \<in> set seen")
    case True
    then have "walk_items seen ns = (s, xs)" using 2(4) by simp
    from 2(1) [OF True this] show ?thesis by auto
  next
    case False
    from walk_Cons [OF 2(4) False] obtain s1 ys zs where
      w: "walk_items (obj n # seen) (children n) = (s1, ys)" "walk_items s1 ns = (s, zs)" "xs = n # ys @ zs" .
    from 2(2) [OF False w(1)] 2(3) [OF False w(1) [symmetric] refl w(2)] show ?thesis
      unfolding w(3) by auto
  qed
qed simp

text \<open>An object is closed under a set of identities when those of its children are in it.\<close>

definition closed_under :: "nat set \<Rightarrow> data_item \<Rightarrow> bool" where
  "closed_under S n \<longleftrightarrow> (\<forall>c \<in> set (children n). obj c \<in> S)"

lemma closed_under_mono: "closed_under S n \<Longrightarrow> S \<subseteq> T \<Longrightarrow> closed_under T n"
  by (auto simp: closed_under_def)

lemma walk_closed:
  assumes "inj_on obj U" "\<forall>n \<in> U. set (children n) \<subseteq> U"
  shows "walk_items seen ns = (s, xs) \<Longrightarrow> set ns \<subseteq> U \<Longrightarrow>
    \<forall>x \<in> U. obj x \<in> set seen \<longrightarrow> x \<in> A \<or> closed_under (set seen) x \<Longrightarrow>
    obj ` set ns \<subseteq> set s \<and> (\<forall>x \<in> U. obj x \<in> set s \<longrightarrow> x \<in> A \<or> closed_under (set s) x)"
proof (induction seen ns arbitrary: s xs A rule: walk_items.induct)
  case (2 seen n ns)
  show ?case
  proof (cases "obj n \<in> set seen")
    case True
    then have w: "walk_items seen ns = (s, xs)" using 2(4) by simp
    then have "obj n \<in> set s" using True walk_seen by blast
    then show ?thesis using 2(1) [OF True w _ 2(6)] 2(5) by simp
  next
    case False
    from walk_Cons [OF 2(4) False] obtain s1 ys zs where
      w: "walk_items (obj n # seen) (children n) = (s1, ys)" "walk_items s1 ns = (s, zs)" .
    have u: "n \<in> U" "set (children n) \<subseteq> U" "set ns \<subseteq> U" using 2(5) assms(2) by auto
    have "\<forall>x \<in> U. obj x \<in> set (obj n # seen) \<longrightarrow> x \<in> insert n A \<or> closed_under (set (obj n # seen)) x"
      using 2(6) u(1) assms(1) closed_under_mono [of "set seen" _ "set (obj n # seen)"]
      by (auto simp: inj_on_def)
    from 2(2) [OF False w(1) u(2) this] have
      i: "obj ` set (children n) \<subseteq> set s1"
      "\<forall>x \<in> U. obj x \<in> set s1 \<longrightarrow> x \<in> insert n A \<or> closed_under (set s1) x" by blast+
    then have "\<forall>x \<in> U. obj x \<in> set s1 \<longrightarrow> x \<in> A \<or> closed_under (set s1) x"
      by (auto simp: closed_under_def)
    from 2(3) [OF False w(1) [symmetric] refl w(2) u(3) this] show ?thesis
      using walk_seen [OF w(1)] walk_seen [OF w(2)] by auto
  qed
qed simp

lemma iter_covers:
  assumes "inj_on obj (set (subtree items))"
  shows "set (iter_data_items items) = set (subtree items)"
proof
  obtain s xs where w: "walk_items [] items = (s, xs)" by (metis surj_pair)
  note seen = walk_seen [OF w]
  show "set (iter_data_items items) \<subseteq> set (subtree items)"
    using seen by (simp add: iter_data_items_def w)
  have c: "obj ` set items \<subseteq> set s" "\<forall>x \<in> set (subtree items). obj x \<in> set s \<longrightarrow> closed_under (set s) x"
  proof -
    have "\<forall>n \<in> set (subtree items). set (children n) \<subseteq> set (subtree items)" "set items \<subseteq> set (subtree items)"
      using subtree_children in_subtree by blast+
    from walk_closed [OF assms this(1) w this(2), of "{}"] show
      "obj ` set items \<subseteq> set s" "\<forall>x \<in> set (subtree items). obj x \<in> set s \<longrightarrow> closed_under (set s) x" by simp_all
  qed
  have "set ns \<subseteq> set (subtree items) \<Longrightarrow> obj ` set ns \<subseteq> set s \<Longrightarrow> obj ` set (subtree ns) \<subseteq> set s" for ns
  proof (induction ns rule: subtree.induct)
    case (2 n ns)
    then have "set (children n) \<subseteq> set (subtree items)" "obj ` set (children n) \<subseteq> set s"
      using c(2) subtree_children by (auto simp: closed_under_def)
    then show ?case using 2 by auto
  qed simp
  then have "obj ` set (subtree items) \<subseteq> set s" using c(1) in_subtree by blast
  then have sub: "obj ` set (subtree items) \<subseteq> obj ` set xs" using seen by simp
  show "set (subtree items) \<subseteq> set (iter_data_items items)"
  proof
    fix x assume x: "x \<in> set (subtree items)"
    then obtain y where "y \<in> set xs" "obj y = obj x" using sub by (auto simp: image_iff)
    then show "x \<in> set (iter_data_items items)"
      using x assms seen inj_onD [OF assms, of y x] by (auto simp: iter_data_items_def w)
  qed
qed


subsection \<open>Layouts\<close>

lemma count_one_unique:
  "count_list (map f xs) (f x) = 1 \<Longrightarrow> x \<in> set xs \<Longrightarrow> y \<in> set xs \<Longrightarrow> f x = f y \<Longrightarrow> x = y"
proof (induction xs)
  case (Cons z zs)
  have "count_list (map f zs) k = 0 \<longleftrightarrow> k \<notin> f ` set zs" for k by (simp add: count_list_0_iff)
  then show ?case using Cons by (auto split: if_splits) (metis image_eqI)+
qed simp

fun contiguous :: "nat \<Rightarrow> group_leaf list \<Rightarrow> bool" where
  "contiguous off [] = True"
| "contiguous off (l # ls) = (gl_offset l = off \<and> contiguous (off + gl_length l) ls)"

lemma contiguous_append:
  "contiguous off (ls @ ms) \<longleftrightarrow> contiguous off ls \<and> contiguous (off + sum_list (map gl_length ls)) ms"
  by (induction ls arbitrary: off) (simp_all add: add.assoc)

lemma contiguous_iff:
  "contiguous off ls \<longleftrightarrow> (\<forall>i < length ls. gl_offset (ls ! i) = off + sum_list (map gl_length (take i ls)))"
  by (induction ls arbitrary: off) (simp_all add: All_less_Suc2 add.assoc)

text \<open>The items that take storage, in order: condition names aside, each group before its own items.\<close>

function stored_items :: "data_item list \<Rightarrow> data_item list" where
  "stored_items [] = []"
| "stored_items (item # rest) =
     (if item_level item = 88 then stored_items rest
      else item # (if is_group item then stored_items (children item) else []) @ stored_items rest)"
  by pat_completeness auto
termination by (relation "measure (size_list size)") (simp_all add: size_children)

text \<open>An item with storage of its own, laid out in its usual form.\<close>

definition plain_item :: "string list \<Rightarrow> data_item \<Rightarrow> bool" where
  "plain_item redefd item \<longleftrightarrow>
     \<not> has_occurs item \<and> \<not> truthy (occurs_depending_on item) \<and> \<not> truthy (redefines item) \<and>
     upper (item_name item) \<notin> set redefd \<and> \<not> truthy (usage item)"

text \<open>The leaf of an elementary item: a FILLER is a \<open>PIC X\<close> and becomes the constant characters of its length;
  a named item is a \<open>PIC X\<close>, or an unsigned integer of at most 18 digits, and no other item has its name.\<close>

definition leaf_from :: "string list \<Rightarrow> data_item \<Rightarrow> group_leaf \<Rightarrow> bool" where
  "leaf_from names item l \<longleftrightarrow>
     0 < pic_length item \<and> gl_length l = pic_length item \<and>
     (if upper (item_name item) = ''FILLER''
      then is_alphanumeric item \<and> gl_name l = None \<and> \<not> gl_numeric l \<and>
           (\<exists>c. filler_constant item = Some c \<and> length c = pic_length item \<and> gl_constant l = Some c)
      else count_list names (upper (item_name item)) = 1 \<and> gl_name l = Some (item_name item) \<and> gl_constant l = None \<and>
           (if is_alphanumeric item then \<not> gl_numeric l
            else gl_numeric l \<and> is_numeric item \<and> \<not> has_sign item \<and> decimal_places item = 0 \<and> pic_length item \<le> 18))"

lemma filler_length: "filler_constant item = Some c \<Longrightarrow> length c = pic_length item"
  by (auto simp: filler_constant_def Let_def split: option.splits if_splits)

lemma leaf_of_iff: "leaf_of names off item = Inr l \<longleftrightarrow> leaf_from names item l \<and> gl_offset l = off"
  by (cases l) (auto simp: leaf_of_def leaf_from_def Let_def filler_length split: option.splits)

lemma leaf_of_name:
  assumes "leaf_of names off item = Inr l"
  shows "gl_name l = None \<or> gl_name l = Some (item_name item) \<and> count_list names (upper (item_name item)) = 1"
  using assms by (auto simp: leaf_of_iff leaf_from_def split: if_splits)

lemma visit_Nil: "visit_items names redefd off [] = Inr (ls, e) \<longleftrightarrow> ls = [] \<and> e = off"
  by auto

lemma visit_elementary:
  assumes "item_level item \<noteq> 88" "\<not> is_group item"
  shows "visit_items names redefd off (item # rest) = Inr (ls, e) \<longleftrightarrow> plain_item redefd item \<and>
    (\<exists>l ls'. ls = l # ls' \<and> leaf_from names item l \<and> gl_offset l = off \<and>
       visit_items names redefd (off + gl_length l) rest = Inr (ls', e))"
proof -
  have "visit_items names redefd off (item # rest) = Inr (ls, e) \<longleftrightarrow> plain_item redefd item \<and>
    (\<exists>l ls'. ls = l # ls' \<and> leaf_of names off item = Inr l \<and>
       visit_items names redefd (off + pic_length item) rest = Inr (ls', e))"
    using assms by (auto simp: plain_item_def bind_res_eq_Inr split: sum.splits prod.splits)
  moreover have "gl_length l = pic_length item" if "leaf_from names item l" for l
    using that by (simp add: leaf_from_def)
  ultimately show ?thesis by (auto simp: leaf_of_iff)
qed

lemma visit_group:
  assumes "is_group item"
  shows "visit_items names redefd off (item # rest) = Inr (ls, e) \<longleftrightarrow> plain_item redefd item \<and>
    (\<exists>us off' vs. ls = us @ vs \<and> visit_items names redefd off (children item) = Inr (us, off') \<and>
       visit_items names redefd off' rest = Inr (vs, e))"
  using assms by (auto simp: plain_item_def is_group_def bind_res_eq_Inr split: sum.splits prod.splits)

lemma list_all2_split:
  "list_all2 P (xs @ ys) zs \<longleftrightarrow> (\<exists>us vs. zs = us @ vs \<and> list_all2 P xs us \<and> list_all2 P ys vs)"
  unfolding list_all2_append1 using list_all2_lengthD by metis

lemma visit_items_iff:
  "visit_items names redefd off items = Inr (ls, e) \<longleftrightarrow>
   (\<forall>i \<in> set (stored_items items). plain_item redefd i) \<and>
   list_all2 (leaf_from names) (filter (\<lambda>i. \<not> is_group i) (stored_items items)) ls \<and>
   contiguous off ls \<and> e = off + sum_list (map gl_length ls)"
proof (induction items arbitrary: off ls e rule: stored_items.induct)
  case 1
  show ?case by (auto simp: visit_Nil)
next
  case (2 item rest)
  consider "item_level item = 88" | "item_level item \<noteq> 88" "\<not> is_group item" | "item_level item \<noteq> 88" "is_group item" by blast
  then show ?case
  proof cases
    case 1
    then show ?thesis using 2(1) by simp
  next
    case b: 2
    show ?thesis unfolding visit_elementary [OF b] 2(3) [OF b(1)] using b
      by (auto simp: list_all2_Cons1 add.assoc)
  next
    case g: 3
    show ?thesis unfolding visit_group [OF g(2)] 2(2) [OF g] 2(3) [OF g(1)] using g
      by (auto simp: list_all2_split contiguous_append add.assoc) blast
  qed
qed

text \<open>The named leaves are items of the group, in order, whose names occur once.\<close>

definition named_by :: "string list \<Rightarrow> data_item list \<Rightarrow> group_leaf list \<Rightarrow> data_item list \<Rightarrow> bool" where
  "named_by names items ls ns \<longleftrightarrow> subseq ns (subtree items) \<and>
     map (\<lambda>n. Some (item_name n)) ns = filter (\<lambda>x. x \<noteq> None) (map gl_name ls) \<and>
     (\<forall>n \<in> set ns. count_list names (upper (item_name n)) = 1)"

lemma leaf_names_map:
  "map (\<lambda>n. Some (item_name n)) ns = filter (\<lambda>x. x \<noteq> None) (map gl_name ls) \<Longrightarrow>
   leaf_names \<lparr>gy_name = g, gy_leaves = ls\<rparr> = map (upper \<circ> item_name) (filter (\<lambda>n. item_name n \<noteq> []) ns)"
proof (induction ls arbitrary: ns)
  case (Cons l ls)
  show ?case
  proof (cases "gl_name l")
    case None
    then show ?thesis using Cons by (simp add: leaf_names_def)
  next
    case (Some n)
    with Cons.prems obtain m ms where "ns = m # ms" "item_name m = n"
      "map (\<lambda>n. Some (item_name n)) ms = filter (\<lambda>x. x \<noteq> None) (map gl_name ls)" by auto
    then show ?thesis using Cons.IH [of ms] Some by (simp add: leaf_names_def)
  qed
qed (simp add: leaf_names_def)

lemma subseq_distinct: "subseq xs ys \<Longrightarrow> distinct ys \<Longrightarrow> distinct xs"
  by (induction rule: list_emb.induct) (auto dest: list_emb_set)

lemma named_by_append:
  "named_by names (children item) ls ns \<Longrightarrow> named_by names rest ms ns' \<Longrightarrow>
   named_by names (item # rest) (ls @ ms) (ns @ ns')"
  by (auto simp: named_by_def intro: list_emb_append_mono list_emb_Cons)

lemma named_by_skip: "named_by names rest ls ns \<Longrightarrow> named_by names (item # rest) ls ns"
  by (auto simp: named_by_def intro: list_emb_append2 list_emb_Cons)

lemma named_by_leaf:
  assumes "leaf_of names off item = Inr l" "named_by names rest ls ns"
  shows "\<exists>ns'. named_by names (item # rest) (l # ls) ns'"
proof (cases "gl_name l")
  case None
  then show ?thesis using named_by_skip [OF assms(2)] by (auto simp: named_by_def)
next
  case (Some n)
  then have "n = item_name item" "count_list names (upper (item_name item)) = 1"
    using leaf_of_name [OF assms(1)] by simp_all
  then have "named_by names (item # rest) (l # ls) (item # ns)"
    using assms(2) Some by (auto simp: named_by_def intro: list_emb_append2)
  then show ?thesis ..
qed

lemma visit_Cons:
  assumes "visit_items names redefd off (item # rest) = Inr (ls, e)" "item_level item \<noteq> 88"
  obtains ls1 off1 ls2 where "visit_items names redefd off (children item) = Inr (ls1, off1)"
      "visit_items names redefd off1 rest = Inr (ls2, e)" "ls = ls1 @ ls2"
    | leaf ls2 where "leaf_of names off item = Inr leaf"
      "visit_items names redefd (off + pic_length item) rest = Inr (ls2, e)" "ls = leaf # ls2"
  using assms by (auto simp: bind_res_eq_Inr split: if_splits sum.splits prod.splits)

lemma visit_items_named:
  "visit_items names redefd off items = Inr (ls, e) \<Longrightarrow>
   \<exists>ns. named_by names items ls ns"
proof (induction items arbitrary: off ls e rule: subtree.induct)
  case 1
  then show ?case by (auto simp: named_by_def)
next
  case (2 item rest)
  note inner = 2(1) and after = 2(2) and run = 2(3)
  show ?case
  proof (cases "item_level item = 88")
    case True
    with run have "visit_items names redefd off rest = Inr (ls, e)" by simp
    from after [OF this] show ?thesis using named_by_skip by blast
  next
    case False
    from visit_Cons [OF run this] show ?thesis
    proof cases
      case (1 ls1 off1 ls2)
      from inner [OF 1(1)] after [OF 1(2)] obtain ns1 ns2 where
        "named_by names (children item) ls1 ns1" "named_by names rest ls2 ns2" by blast
      from named_by_append [OF this] 1(3) show ?thesis by blast
    next
      case (2 leaf ls2)
      from after [OF 2(2)] obtain ns where "named_by names rest ls2 ns" by blast
      from named_by_leaf [OF 2(1) this] 2(3) show ?thesis by blast
    qed
  qed
qed

lemma find_item_mem:
  assumes "find_item items name = Some i"
  shows "i \<in> set (iter_data_items items)"
proof -
  let ?f = "filter (\<lambda>i. upper (item_name i) = upper (strip name)) (iter_data_items items)"
  have "i = hd ?f" "?f \<noteq> []"
    using assms by (auto simp: find_item_def Let_def split: if_splits)
  then have "i \<in> set ?f" using list.set_sel(1) by metis
  then show ?thesis by simp
qed

lemma group_layout_visit:
  assumes "group_layout items name = Inr l"
  obtains grp e where "find_item items name = Some grp" "is_group grp" "gy_leaves l \<noteq> []"
    "visit_items (all_names items) (redefined_names items) 0 (children grp) = Inr (gy_leaves l, e)"
  using assms by (auto simp: group_layout_def Let_def bind_res_eq_Inr split: option.splits if_splits)

lemma group_layout_Inr:
  "group_layout items name = Inr l \<longleftrightarrow>
   (\<exists>grp e. find_item items name = Some grp \<and> is_group grp \<and> \<not> has_occurs grp \<and> \<not> truthy (usage grp) \<and>
      \<not> truthy (redefines grp) \<and> upper (item_name grp) \<notin> set (redefined_names items) \<and>
      gy_name l = item_name grp \<and> gy_leaves l \<noteq> [] \<and>
      visit_items (all_names items) (redefined_names items) 0 (children grp) = Inr (gy_leaves l, e))"
  by (cases l) (auto simp: group_layout_def Let_def bind_res_eq_Inr split: option.splits)

text \<open>C34: When a group has a layout, and which. The group is a uniquely named group item without OCCURS, USAGE or
  REDEFINES, and so is every item that takes storage in it; its leaves are those of its elementary items, one
  each, in order: a FILLER is \<open>PIC X\<close> and stands for its constant characters, any other item is uniquely named
  and is \<open>PIC X\<close> or an unsigned integer of at most 18 digits; each leaf has the length of its item, starts where
  the leaves before it end, and there is at least one. Every such group has that layout, and no other.\<close>
theorem layout_tiles:
  "group_layout items name = Inr l \<longleftrightarrow>
   (\<exists>grp. find_item items name = Some grp \<and> is_group grp \<and> \<not> has_occurs grp \<and> \<not> truthy (usage grp) \<and>
      \<not> truthy (redefines grp) \<and> upper (item_name grp) \<notin> set (redefined_names items) \<and> gy_name l = item_name grp \<and>
      (\<forall>i \<in> set (stored_items (children grp)). plain_item (redefined_names items) i) \<and>
      list_all2 (leaf_from (all_names items)) (filter (\<lambda>i. \<not> is_group i) (stored_items (children grp))) (gy_leaves l) \<and>
      (\<forall>k < length (gy_leaves l). gl_offset (gy_leaves l ! k) = sum_list (map gl_length (take k (gy_leaves l)))) \<and>
      gy_leaves l \<noteq> [])"
  unfolding group_layout_Inr visit_items_iff contiguous_iff by auto

text \<open>The leaves are named apart. When objects are told apart by identity and the group holds each of
  its items once, no two leaves of a certified layout have the same name in any case, and no name of a
  leaf is used by another item of the data division.\<close>

theorem layout_names_distinct:
  assumes "group_layout items name = Inr l" "find_item items name = Some grp"
    and "inj_on obj (set (subtree items))" "distinct (map obj (subtree (children grp)))"
  shows "distinct (leaf_names l) \<and>
    (\<forall>n \<in> set (leaf_names l). \<exists>!i. i \<in> set (subtree items) \<and> upper (item_name i) = n)"
proof -
  from group_layout_visit [OF assms(1)] assms(2) obtain e where
    v: "visit_items (all_names items) (redefined_names items) 0 (children grp) = Inr (gy_leaves l, e)" by auto
  from visit_items_named [OF v] obtain ns where
    n: "named_by (all_names items) (children grp) (gy_leaves l) ns" by blast
  have unique: "i = j" if "count_list (all_names items) (upper (item_name i)) = 1"
    "i \<in> set (subtree items)" "j \<in> set (subtree items)" "upper (item_name i) = upper (item_name j)" for i j
    using count_one_unique [of "upper \<circ> item_name" "iter_data_items items" i j] that iter_covers [OF assms(3)]
    by (simp add: all_names_def)
  have grp: "grp \<in> set (subtree items)"
    using find_item_mem [OF assms(2)] iter_covers [OF assms(3)] by simp
  have nt: "subseq ns (subtree (children grp))" using n by (simp add: named_by_def)
  have "set ns \<subseteq> set (subtree (children grp))" using list_emb_set [OF nt] by blast
  then have sub: "set ns \<subseteq> set (subtree items)" "distinct ns"
    using subseq_distinct [OF nt distinct_map [THEN iffD1, OF assms(4), THEN conjunct1]] subtree_closed [OF grp] by simp_all
  have c: "count_list (all_names items) (upper (item_name i)) = 1" if "i \<in> set ns" for i
    using n that by (simp add: named_by_def)
  have names: "leaf_names l = map (upper \<circ> item_name) (filter (\<lambda>n. item_name n \<noteq> []) ns)"
    using leaf_names_map [of ns "gy_leaves l" "gy_name l"] n
    by (simp add: named_by_def leaf_names_def)
  have "inj_on (upper \<circ> item_name) (set ns)"
    using unique [OF c] sub(1) by (auto simp: inj_on_def)
  then have "distinct (leaf_names l)"
    unfolding names distinct_map using sub(2) inj_on_subset by fastforce
  moreover have "\<exists>!i. i \<in> set (subtree items) \<and> upper (item_name i) = n" if "n \<in> set (leaf_names l)" for n
  proof -
    from that obtain i where i: "i \<in> set ns" "n = upper (item_name i)" by (auto simp: names)
    then have s: "i \<in> set (subtree items)" using sub(1) by blast
    show ?thesis
    proof (rule ex1I [of _ i])
      fix j assume "j \<in> set (subtree items) \<and> upper (item_name j) = n"
      then have "j \<in> set (subtree items)" "upper (item_name i) = upper (item_name j)" using i(2) by simp_all
      from unique [OF c [OF i(1)] s this] show "j = i" by (rule sym)
    qed (use s i(2) in simp)
  qed
  ultimately show ?thesis by blast
qed


subsection \<open>Moves\<close>

text \<open>A source a MOVE into a group may name: without subscript or reference modification, a group whose layout
  shares no leaf with the target, or a text item that is no leaf of the target.\<close>

definition movable_item :: "data_item list \<Rightarrow> string \<Rightarrow> group_layout_rec \<Rightarrow> bool" where
  "movable_item items source l \<longleftrightarrow> CHR ''('' \<notin> set source \<and>
     (case find_item items (fst (base_ref source)) of
        None \<Rightarrow> False
      | Some i \<Rightarrow>
          if is_group i
          then (\<exists>l'. group_layout items (fst (base_ref source)) = Inr l' \<and> set (leaf_names l') \<inter> set (leaf_names l) = {})
          else is_alphanumeric i \<and> 0 < pic_length i \<and> fst (base_ref source) \<notin> set (leaf_names l))"

text \<open>A target a MOVE from a group may name: a text item, not subscripted, that is no leaf of the source.\<close>

definition receiving_item :: "data_item list \<Rightarrow> string \<Rightarrow> group_layout_rec \<Rightarrow> bool" where
  "receiving_item items target l \<longleftrightarrow> CHR ''('' \<notin> set target \<and>
     (case find_item items (fst (base_ref target)) of
        None \<Rightarrow> False
      | Some i \<Rightarrow> is_alphanumeric i \<and> 0 < pic_length i \<and> fst (base_ref target) \<notin> set (leaf_names l))"

text \<open>Neither the white space nor the final points of a reference hold its parenthesis.\<close>

lemma qualified_iff: "snd (base_ref ref) \<longleftrightarrow> CHR ''('' \<in> set ref"
proof -
  have drop: "c \<in> set (dropWhile P xs) \<longleftrightarrow> c \<in> set xs" if "\<not> P c" for P xs and c :: char
    using that by (induction xs) auto
  show ?thesis by (simp add: base_ref_def Let_def rstrip_char_def lstrip_char_def strip_by_def drop is_space_def)
qed

lemma move_into_iff:
  "move_into_group items source tn tq = None \<longleftrightarrow> \<not> tq \<and>
   (\<exists>l. group_layout items tn = Inr l \<and> writable l \<and>
      (is_quoted source \<or> printable_fill source 1 \<noteq> None \<or> movable_item items source l))"
proof (cases "group_layout items tn")
  case (Inr l)
  obtain sn sq where s: "base_ref source = (sn, sq)" by (metis surj_pair)
  have q: "sq \<longleftrightarrow> CHR ''('' \<in> set source" using qualified_iff [of source] by (simp add: s)
  show ?thesis
  proof (cases "find_item items sn")
    case None
    then show ?thesis by (simp add: move_into_group_def movable_item_def not_certified_source_def Inr s)
  next
    case (Some i)
    then show ?thesis
      by (cases "group_layout items sn")
        (simp_all add: move_into_group_def movable_item_def not_certified_source_def Inr s flip: q)
  qed
qed (simp add: move_into_group_def)

lemma move_from_iff:
  assumes "group_item items (fst (base_ref source)) = Some grp"
  shows "move_from_group items source target (find_item items tn) tn tq = None \<longleftrightarrow>
    \<not> snd (base_ref source) \<and> (\<exists>l. group_layout items (fst (base_ref source)) = Inr l \<and> \<not> tq \<and>
      (case find_item items tn of None \<Rightarrow> False
       | Some i \<Rightarrow> is_alphanumeric i \<and> 0 < pic_length i \<and> tn \<notin> set (leaf_names l)))"
proof -
  obtain sn sq where s: "base_ref source = (sn, sq)" by (metis surj_pair)
  show ?thesis using assms
    by (cases "group_layout items sn"; cases "find_item items tn")
      (auto simp: move_from_group_def s group_reference_problem_def problem_of_def)
qed

text \<open>C33: Exactly which moves that involve a group are accepted. A MOVE into a group is accepted when neither the
  target nor, unless it is a literal, the source is subscripted or reference-modified, the target has a layout
  of named text leaves only, and the source is a quoted literal, a figurative constant with printable
  characters, a group with a layout that shares no leaf with the target, or a text item that is no leaf of it.
  A MOVE from a group into anything else is accepted when neither name is subscripted or reference-modified, the
  group has a layout, and the target is a text item that is no leaf of it.\<close>
theorem certified_group_move:
  "group_move_problem items source target = None \<longleftrightarrow>
   (if group_item items (fst (base_ref target)) \<noteq> None
    then CHR ''('' \<notin> set target \<and>
      (\<exists>l. group_layout items (fst (base_ref target)) = Inr l \<and>
        (\<forall>x \<in> set (gy_leaves l). truthy (gl_name x) \<and> \<not> gl_numeric x) \<and>
        (is_quoted source \<or> printable_fill source 1 \<noteq> None \<or> movable_item items source l))
    else if group_item items (fst (base_ref source)) \<noteq> None
    then CHR ''('' \<notin> set source \<and>
      (\<exists>l. group_layout items (fst (base_ref source)) = Inr l \<and> receiving_item items target l)
    else True)"
proof -
  obtain tn tq where t: "base_ref target = (tn, tq)" by (metis surj_pair)
  have q: "tq \<longleftrightarrow> CHR ''('' \<in> set target" using qualified_iff [of target] by (simp add: t)
  show ?thesis
  proof (cases "group_item items tn")
    case (Some g)
    then show ?thesis by (simp add: group_move_problem_def t move_into_iff writable_def flip: q)
  next
    case None
    then have m: "group_move_problem items source target = move_from_group items source target (find_item items tn) tn tq"
      by (simp add: group_move_problem_def t)
    show ?thesis
    proof (cases "group_item items (fst (base_ref source))")
      case None
      then show ?thesis using \<open>group_item items tn = None\<close> by (simp add: m move_from_group_def t)
    next
      case (Some g)
      show ?thesis unfolding m move_from_iff [OF Some] qualified_iff
        using Some None by (auto simp: t q receiving_item_def split: option.split)
    qed
  qed
qed

subsection \<open>A sample record\<close>

definition sample_field :: "nat \<Rightarrow> string \<Rightarrow> nat \<Rightarrow> pic_type \<Rightarrow> nat \<Rightarrow> data_item list \<Rightarrow> data_item" where
  "sample_field i name level pic n cs = DataItem i name level pic n 0 False None None None None None cs"

text \<open>\<open>01 REC. 05 CODE PIC X(3). 05 FILLER PIC X(2). 05 QTY PIC 9(4).\<close> and a record of two texts.\<close>

definition sample_record :: "data_item list" where
  "sample_record =
     [sample_field 1 ''REC'' 1 ALPHANUMERIC 0
        [sample_field 2 ''CODE'' 5 ALPHANUMERIC 3 [], sample_field 3 ''FILLER'' 5 ALPHANUMERIC 2 [],
         sample_field 4 ''QTY'' 5 NUMERIC 4 []],
      sample_field 5 ''OUT'' 1 ALPHANUMERIC 0
        [sample_field 6 ''O1'' 5 ALPHANUMERIC 4 [], sample_field 7 ''O2'' 5 ALPHANUMERIC 5 []]]"

definition sample_layout :: group_layout_rec where
  "sample_layout = \<lparr>gy_name = ''REC'', gy_leaves =
     [\<lparr>gl_name = Some ''CODE'', gl_offset = 0, gl_length = 3, gl_numeric = False, gl_constant = None\<rparr>,
      \<lparr>gl_name = None, gl_offset = 3, gl_length = 2, gl_numeric = False, gl_constant = Some ''  ''\<rparr>,
      \<lparr>gl_name = Some ''QTY'', gl_offset = 5, gl_length = 4, gl_numeric = True, gl_constant = None\<rparr>]\<rparr>"

theorem layout_tiles_witness:
  "group_layout sample_record ''rec'' = Inr sample_layout \<and> gl_offset (gy_leaves sample_layout ! 2) = 5 \<and>
   list_all2 (leaf_from (all_names sample_record)) (children (hd sample_record)) (gy_leaves sample_layout)"
proof -
  have l: "group_layout sample_record ''rec'' = Inr sample_layout" by code_simp
  have n: "2 < length (gy_leaves sample_layout)" "sum_list (map gl_length (take 2 (gy_leaves sample_layout))) = 5"
    by code_simp+
  have f: "find_item sample_record ''rec'' = Some (hd sample_record)" by code_simp
  have s: "filter (\<lambda>i. \<not> is_group i) (stored_items (children (hd sample_record))) = children (hd sample_record)"
    by (simp add: sample_record_def sample_field_def is_group_def)
  show ?thesis using l layout_tiles [of sample_record "''rec''" sample_layout] n f by (auto simp: s)
qed

theorem layout_names_distinct_witness:
  "group_layout sample_record ''rec'' = Inr sample_layout \<and> distinct (leaf_names sample_layout)"
proof -
  have l: "group_layout sample_record ''rec'' = Inr sample_layout" by code_simp
  have f: "find_item sample_record ''rec'' = Some (hd sample_record)" by code_simp
  have "distinct (map obj (subtree sample_record))" by code_simp
  then have o: "inj_on obj (set (subtree sample_record))" by (simp add: distinct_map)
  have d: "distinct (map obj (subtree (children (hd sample_record))))" by code_simp
  show ?thesis using l layout_names_distinct [OF l f o d] by blast
qed

text \<open>The whole group moves; a reference-modified part of it does not, nor the group onto itself.\<close>
theorem certified_group_move_witness:
  "group_move_problem sample_record ''REC'' ''OUT'' = None \<and>
   group_move_problem sample_record ''REC(1:3)'' ''OUT'' \<noteq> None \<and>
   group_move_problem sample_record ''REC'' ''REC'' \<noteq> None \<and>
   (\<exists>l. group_layout sample_record ''OUT'' = Inr l \<and> (\<forall>x \<in> set (gy_leaves l). \<not> gl_numeric x))"
proof -
  have m: "group_move_problem sample_record ''REC'' ''OUT'' = None"
    "group_move_problem sample_record ''REC'' ''REC'' \<noteq> None" by code_simp+
  have b: "base_ref ''OUT'' = (''OUT'', False)" by code_simp
  have g: "group_item sample_record ''OUT'' = Some (last sample_record)" by code_simp
  have p: "\<not> is_quoted ''REC(1:3)''" "printable_fill ''REC(1:3)'' 1 = None" by code_simp+
  show ?thesis
    using m certified_group_move [of sample_record "''REC''" "''OUT''"]
      certified_group_move [of sample_record "''REC(1:3)''" "''OUT''"] g p
    by (auto simp: b movable_item_def)
qed

end
