(* ===== verification/Execution.thy ===== *)
theory Execution
  imports Comparators
begin

text \<open>
  Executions and captured artifacts (\<open>engine/oracle/adapter.py\<close>, \<open>engine/candidate/adapter.py\<close>,
  \<open>engine/execution/artifacts.py\<close>): what an adapter returns, the execution evidence made of it, and the
  capture of one observed output as an artifact. The containers an adapter runs are not part of the
  repository, so results are arguments; \<open>now\<close> is the clock.
\<close>

subsection \<open>Execution results\<close>

record execution_result =
  er_execution_id :: execution_id
  er_run_id :: run_id
  er_status :: adapter_status
  er_exit_code :: "int option"
  er_stdout :: bytes
  er_stderr :: bytes
  er_start_time :: string
  er_end_time :: string
  er_termination_status :: string
  er_timeout_applied :: bool
  er_timeout_duration :: "int option"
  er_generated_files :: "bytes dict option"
  er_image_digest :: "string option"

record oracle_execution_result = execution_result +
  or_oracle_id :: string
  or_source_before :: "content_hash option"
  or_source_after :: "content_hash option"
  or_compilation_diagnostics :: "string dict option"

text \<open>\<open>generated_files or {}\<close>.\<close>

definition generated_files :: "('a) execution_result_scheme \<Rightarrow> bytes dict" where
  "generated_files r = (case er_generated_files r of None \<Rightarrow> [] | Some d \<Rightarrow> d)"

definition execution_evidence_of ::
  "('a) execution_result_scheme \<Rightarrow> string \<Rightarrow> string \<Rightarrow> content_hash \<Rightarrow> content_hash \<Rightarrow> string dict option
     \<Rightarrow> execution_evidence" where
  "execution_evidence_of r runtime_id command before after diagnostics =
     \<lparr>ex_id = er_execution_id r, ex_run_id = er_run_id r, ex_runtime_id = runtime_id,
      ex_command = command, ex_working_directory = ''/workspace'', ex_environment_variables = [],
      ex_start_time = er_start_time r, ex_end_time = er_end_time r, ex_exit_code = er_exit_code r,
      ex_stdout_hash = hash_from_bytes (er_stdout r), ex_stderr_hash = hash_from_bytes (er_stderr r),
      ex_generated_files = map (\<lambda>(path, content). (path, hash_from_bytes content)) (generated_files r),
      ex_source_before = before, ex_source_after = after,
      ex_termination_status = er_termination_status r, ex_timeout_applied = er_timeout_applied r,
      ex_timeout_duration = er_timeout_duration r, ex_compilation_diagnostics = diagnostics,
      ex_workload_id = None, ex_image_digest = er_image_digest r, ex_phase = ''EXECUTE''\<rparr>"

definition hash_or_empty :: "content_hash option \<Rightarrow> content_hash" where
  "hash_or_empty h = (case h of None \<Rightarrow> hash_from_string [] | Some x \<Rightarrow> x)"

definition oracle_to_execution_evidence :: "oracle_execution_result \<Rightarrow> execution_evidence" where
  "oracle_to_execution_evidence r =
     execution_evidence_of r (''oracle-'' @ or_oracle_id r) ''oracle execution''
       (hash_or_empty (or_source_before r)) (hash_or_empty (or_source_after r)) (or_compilation_diagnostics r)"

definition candidate_to_execution_evidence :: "execution_result \<Rightarrow> execution_evidence" where
  "candidate_to_execution_evidence r =
     execution_evidence_of r ''candidate-java'' ''javac + java execution''
       (hash_from_string []) (hash_from_string []) None"

subsection \<open>Captured artifacts\<close>

record captured_artifact =
  cap_artifact :: artifact_identity
  cap_content :: "bytes option"
  cap_content_hash :: content_hash
  cap_size_bytes :: int
  cap_execution_id :: execution_id
  cap_time :: string

definition to_evidence :: "captured_artifact \<Rightarrow> artifact_evidence" where
  "to_evidence c = \<lparr>ae_artifact = cap_artifact c, ae_execution_id = cap_execution_id c,
     ae_capture_time = cap_time c, ae_content_hash = cap_content_hash c,
     ae_size_bytes = cap_size_bytes c, ae_record_count = None\<rparr>"

text \<open>What every capture does with the bytes: the identity, with their hash and size, and the record.\<close>

definition captured ::
  "string \<Rightarrow> execution_id \<Rightarrow> string \<Rightarrow> string \<Rightarrow> string \<Rightarrow> string \<Rightarrow> int option \<Rightarrow> bytes option
     \<Rightarrow> py_error + captured_artifact" where
  "captured now exec artifact_id artifact_type logical_name producer_role record_count content =
     (let bytes = (case content of None \<Rightarrow> [] | Some b \<Rightarrow> b); h = hash_from_bytes bytes in
      bind_res (mk_artifact_identity
        \<lparr>ai_id = artifact_id, ai_type = artifact_type, ai_logical_name = logical_name,
         ai_role = producer_role, ai_content_hash = h, ai_size_bytes = int (length bytes),
         ai_record_count = record_count\<rparr>) (\<lambda>artifact.
      Inr \<lparr>cap_artifact = artifact, cap_content = content, cap_content_hash = h,
           cap_size_bytes = int (length bytes), cap_execution_id = exec, cap_time = now\<rparr>))"

definition capture_stdout :: "string \<Rightarrow> execution_id \<Rightarrow> bytes \<Rightarrow> string \<Rightarrow> string \<Rightarrow> py_error + captured_artifact" where
  "capture_stdout now exec content logical_name producer_role =
     captured now exec (''stdout-'' @ exec) ''STDOUT'' logical_name producer_role None (Some content)"

definition capture_stderr :: "string \<Rightarrow> execution_id \<Rightarrow> bytes \<Rightarrow> string \<Rightarrow> string \<Rightarrow> py_error + captured_artifact" where
  "capture_stderr now exec content logical_name producer_role =
     captured now exec (''stderr-'' @ exec) ''STDERR'' logical_name producer_role None (Some content)"

definition capture_exit_status :: "string \<Rightarrow> execution_id \<Rightarrow> int \<Rightarrow> string \<Rightarrow> py_error + captured_artifact" where
  "capture_exit_status now exec exit_code producer_role =
     captured now exec (''exit-'' @ exec) ''EXIT_STATUS'' ''exit_status'' producer_role None
       (Some (show_int exit_code))"

definition capture_text_file_from_bytes ::
  "string \<Rightarrow> execution_id \<Rightarrow> bytes \<Rightarrow> string \<Rightarrow> string \<Rightarrow> py_error + captured_artifact" where
  "capture_text_file_from_bytes now exec content logical_name producer_role =
     captured now exec (''text-'' @ logical_name @ ''-'' @ exec) ''TEXT_FILE'' logical_name producer_role
       None (Some content)"

definition capture_fixed_record ::
  "string \<Rightarrow> execution_id \<Rightarrow> bytes \<Rightarrow> string \<Rightarrow> string \<Rightarrow> int option \<Rightarrow> py_error + captured_artifact" where
  "capture_fixed_record now exec content logical_name producer_role record_length =
     (let whole = (\<lambda>count. captured now exec (''fixed-'' @ logical_name @ ''-'' @ exec) ''FIXED_RECORD''
                      logical_name producer_role count (Some content));
          size = int (length content)
      in case record_length of
           None \<Rightarrow> whole None
         | Some n \<Rightarrow>
             if n \<le> 0 then whole None
             else if size mod n \<noteq> 0
             then Inl (ValueError (''Content length '' @ show_int size @ '' not divisible by record_length ''
                    @ show_int n))
             else whole (Some (size div n)))"

definition capture_business_invariant ::
  "string \<Rightarrow> execution_id \<Rightarrow> bytes \<Rightarrow> string \<Rightarrow> string \<Rightarrow> py_error + captured_artifact" where
  "capture_business_invariant now exec content logical_name producer_role =
     captured now exec (''invariant-'' @ logical_name @ ''-'' @ exec) ''BUSINESS_INVARIANT'' logical_name
       producer_role None (Some content)"

definition capture_missing ::
  "string \<Rightarrow> execution_id \<Rightarrow> string \<Rightarrow> string \<Rightarrow> string \<Rightarrow> py_error + captured_artifact" where
  "capture_missing now exec artifact_type logical_name producer_role =
     captured now exec (''missing-'' @ logical_name @ ''-'' @ exec) artifact_type logical_name producer_role
       (if artifact_type = ''FIXED_RECORD'' then Some 0 else None) None"

text \<open>What a successful capture holds.\<close>

lemma captured_fields:
  "captured now exec i t n p rc c = Inr x \<Longrightarrow>
   cap_content x = c \<and> ai_id (cap_artifact x) = i \<and> ai_type (cap_artifact x) = t \<and>
   ai_record_count (cap_artifact x) = rc"
  by (auto simp: captured_def mk_artifact_identity_def Let_def split: if_splits)

lemmas capture_defs = capture_stdout_def capture_stderr_def capture_exit_status_def
  capture_text_file_from_bytes_def capture_business_invariant_def capture_missing_def

end
