(* ===== verification/IndexedRecords.thy ===== *)
theory IndexedRecords
  imports Prelude
begin

unbundle bit_operations_syntax

text \<open>
  Logical records of INDEXED and RELATIVE files (\<open>engine/comparators/indexed_records.py\<close>): the reader of
  GnuCOBOL's Berkeley DB B-tree, the readers of the slot file and of the generated runtime's emulations,
  and the canonical text of a record list. The recursion over the pages is a loop over a stack of child
  pointers, visited in the same order. Text is kept as its UTF-8 bytes, whose validity is checked where
  the code decodes; only ASCII digits count as digits.
\<close>

subsection \<open>Reading numbers\<close>

text \<open>What a reader raises: its own refusal, or the error of a built-in it calls.\<close>

datatype image_error =
    UnreadableImage string
  | StructError
  | UnicodeDecodeError
  | IntValueError

definition byte_at :: "bytes \<Rightarrow> nat \<Rightarrow> nat" where
  "byte_at buf i = of_char (buf ! i)"

definition u16 :: "bytes \<Rightarrow> nat \<Rightarrow> image_error + nat" where
  "u16 buf i = (if i + 2 \<le> length buf then Inr (byte_at buf i + 256 * byte_at buf (i + 1)) else Inl StructError)"

text \<open>A little-endian number of \<open>n\<close> bytes.\<close>

fun little_endian :: "bytes \<Rightarrow> nat" where
  "little_endian [] = 0"
| "little_endian (b # bs) = of_char b + 256 * little_endian bs"

definition u32 :: "bytes \<Rightarrow> nat \<Rightarrow> image_error + nat" where
  "u32 buf i = (if i + 4 \<le> length buf then Inr (little_endian (take 4 (drop i buf))) else Inl StructError)"

definition u64 :: "bytes \<Rightarrow> nat \<Rightarrow> image_error + nat" where
  "u64 buf i = (if i + 8 \<le> length buf then Inr (little_endian (take 8 (drop i buf))) else Inl StructError)"

subsection \<open>The Berkeley DB B-tree\<close>

definition btree_magic :: nat where "btree_magic = 340322"
definition btree_version :: nat where "btree_version = 9"
definition meta_type :: nat where "meta_type = 9"
definition internal_page :: nat where "internal_page = 3"
definition leaf_page :: nat where "leaf_page = 5"
definition keydata :: nat where "keydata = 1"
definition deleted_bit :: nat where "deleted_bit = 128"
definition header_size :: nat where "header_size = 26"

definition page_of :: "bytes \<Rightarrow> nat \<Rightarrow> nat \<Rightarrow> image_error + bytes" where
  "page_of img page_size number =
     (if \<not> (0 < number \<and> number < length img div page_size)
      then Inl (UnreadableImage (''page '' @ show_nat number @ '' outside the file''))
      else
        let data = take page_size (drop (number * page_size) img) in
        bind_res (u32 data 8) (\<lambda>named.
          if named \<noteq> number
          then Inl (UnreadableImage (''page '' @ show_nat number @ '' header names page '' @ show_nat named))
          else Inr data))"

definition item_offsets :: "nat \<Rightarrow> bytes \<Rightarrow> image_error + nat list" where
  "item_offsets page_size data =
     bind_res (u16 data 20) (\<lambda>entries.
     bind_res (traverse (\<lambda>i. u16 data (header_size + 2 * i)) [0..<entries]) (\<lambda>offsets.
       if \<exists>j \<in> set offsets. \<not> (header_size + 2 * entries \<le> j \<and> j < page_size - 3)
       then Inl (UnreadableImage ''item offset outside the page'')
       else Inr offsets))"

text \<open>The pairs of key and data items of a leaf, skipping the deleted ones.\<close>

fun leaf_records :: "nat \<Rightarrow> bytes \<Rightarrow> nat list \<Rightarrow> image_error + bytes list" where
  "leaf_records page_size data (key_at # data_at # rest) =
     (let key_type = byte_at data (key_at + 2); data_type = byte_at data (data_at + 2) in
      if (key_type OR data_type) AND deleted_bit \<noteq> 0 then leaf_records page_size data rest
      else if key_type \<noteq> keydata \<or> data_type \<noteq> keydata
      then Inl (UnreadableImage (''item types '' @ show_nat key_type @ ''/'' @ show_nat data_type
             @ '' (overflow or duplicates) not certified''))
      else bind_res (u16 data data_at) (\<lambda>n.
        if page_size < data_at + 3 + n then Inl (UnreadableImage ''data item runs past the page'')
        else bind_res (leaf_records page_size data rest) (\<lambda>rs. Inr (take n (drop (data_at + 3) data) # rs))))"
| "leaf_records page_size data _ = Inr []"

lemma page_in_file: "page_of img page_size number = Inr data \<Longrightarrow> 0 < number \<and> number < length img div page_size"
  by (simp add: page_of_def split: if_splits)

text \<open>Pages of the file still unvisited.\<close>

definition unvisited :: "bytes \<Rightarrow> nat \<Rightarrow> nat list \<Rightarrow> nat set" where
  "unvisited img page_size seen = {0<..<length img div page_size} - set seen"

lemma visit_shrinks:
  assumes "number \<notin> set seen" "page_of img page_size number = Inr data"
  shows "card (unvisited img page_size (number # seen)) < card (unvisited img page_size seen)"
proof (rule psubset_card_mono)
  show "finite (unvisited img page_size seen)" by (simp add: unvisited_def)
  have "number \<in> {0<..<length img div page_size} - set seen"
    using assms(1) page_in_file [OF assms(2)] by (simp only: Diff_iff greaterThanLessThan_iff) blast
  then show "unvisited img page_size (number # seen) \<subset> unvisited img page_size seen"
    unfolding unvisited_def list.set by blast
qed

text \<open>The walk. The stack holds where the child pointers to visit are, next first; \<open>seen\<close> the pages
  visited. A page number outside the file is refused before its page is read.\<close>

function walk_pages ::
  "bytes \<Rightarrow> nat \<Rightarrow> (bytes \<times> nat) list \<Rightarrow> nat list \<Rightarrow> bytes list \<Rightarrow> image_error + bytes list" where
  "walk_pages img page_size [] seen records = Inr records"
| "walk_pages img page_size ((parent, pointer) # stack) seen records =
     (case u32 parent pointer of
        Inl e \<Rightarrow> Inl e
      | Inr number \<Rightarrow>
          if number \<in> set seen
          then Inl (UnreadableImage (''page '' @ show_nat number @ '' reached twice''))
          else (case page_of img page_size number of
            Inl e \<Rightarrow> Inl e
          | Inr data \<Rightarrow>
              let kind = byte_at data 25 in
              if kind = internal_page then
                (case item_offsets page_size data of
                   Inl e \<Rightarrow> Inl e
                 | Inr offsets \<Rightarrow> walk_pages img page_size
                     (map (\<lambda>i. (data, i + 4)) offsets @ stack) (number # seen) records)
              else if kind \<noteq> leaf_page
              then Inl (UnreadableImage (''page '' @ show_nat number @ '' has type '' @ show_nat kind))
              else
                (case item_offsets page_size data of
                   Inl e \<Rightarrow> Inl e
                 | Inr offsets \<Rightarrow>
                     if length offsets mod 2 \<noteq> 0
                     then Inl (UnreadableImage (''leaf page '' @ show_nat number @ '' has an unpaired key''))
                     else (case leaf_records page_size data offsets of
                       Inl e \<Rightarrow> Inl e
                     | Inr rs \<Rightarrow> walk_pages img page_size stack (number # seen) (records @ rs)))))"
  by pat_completeness auto
termination
  by (relation "measure (\<lambda>(img, n, _, seen, _). card (unvisited img n seen))", simp)
    (simp only: in_measure split_conv, rule visit_shrinks, assumption, assumption)+

definition bdb_btree_records :: "bytes \<Rightarrow> image_error + bytes list" where
  "bdb_btree_records img =
     (if length img < 512 \<or> u32 img 12 \<noteq> Inr btree_magic
      then Inl (UnreadableImage ''not a little-endian Berkeley DB B-tree'')
      else bind_res (u32 img 16) (\<lambda>version.
        if version \<noteq> btree_version
        then Inl (UnreadableImage (''B-tree version '' @ show_nat version @ '' not certified''))
        else bind_res (u32 img 20) (\<lambda>page_size.
          if page_size < 512 \<or> page_size AND (page_size - 1) \<noteq> 0 \<or> length img mod page_size \<noteq> 0
          then Inl (UnreadableImage (''bad page size '' @ show_nat page_size))
          else if byte_at img 24 \<noteq> 0 then Inl (UnreadableImage ''encrypted database'')
          else if byte_at img 25 \<noteq> meta_type
          then Inl (UnreadableImage (''page 0 has type '' @ show_nat (byte_at img 25) @ '', not B-tree metadata''))
          else walk_pages img page_size [(img, 88)] [] [])))"


subsection \<open>UTF-8 text\<close>

definition in_range :: "nat \<Rightarrow> nat \<Rightarrow> char \<Rightarrow> bool" where
  "in_range lo hi c \<longleftrightarrow> lo \<le> (of_char c :: nat) \<and> (of_char c :: nat) \<le> hi"

abbreviation continuation :: "char \<Rightarrow> bool" where
  "continuation \<equiv> in_range 128 191"

text \<open>Whether \<open>decode("utf-8")\<close> accepts the bytes: shortest forms, no surrogates, at most U+10FFFF.\<close>

fun utf8_valid :: "bytes \<Rightarrow> bool" where
  "utf8_valid [] = True"
| "utf8_valid (a # bs) =
     (if in_range 0 127 a then utf8_valid bs
      else (case bs of
        [] \<Rightarrow> False
      | b # cs \<Rightarrow>
          if in_range 194 223 a then continuation b \<and> utf8_valid cs
          else (case cs of
            [] \<Rightarrow> False
          | c # ds \<Rightarrow>
              if in_range 224 239 a
              then continuation b \<and> continuation c \<and> (in_range 224 224 a \<longrightarrow> in_range 160 191 b)
                \<and> (in_range 237 237 a \<longrightarrow> in_range 128 159 b) \<and> utf8_valid ds
              else (case ds of
                [] \<Rightarrow> False
              | d # es \<Rightarrow>
                  in_range 240 244 a \<and> continuation b \<and> continuation c \<and> continuation d
                  \<and> (in_range 240 240 a \<longrightarrow> in_range 144 191 b)
                  \<and> (in_range 244 244 a \<longrightarrow> in_range 128 143 b) \<and> utf8_valid es))))"

text \<open>The number of code points of valid text.\<close>

definition text_length :: "bytes \<Rightarrow> nat" where
  "text_length s = length (filter (\<lambda>c. \<not> continuation c) s)"

text \<open>\<open>text.split("\n")\<close>, never empty.\<close>

fun split_lines :: "string \<Rightarrow> string list" where
  "split_lines [] = [[]]"
| "split_lines (c # s) =
     (if c = CHR 0x0A then [] # split_lines s
      else (case split_lines s of [] \<Rightarrow> [[c]] | l # ls \<Rightarrow> (c # l) # ls))"

text \<open>\<open>line.partition("\x01")\<close>: the parts around the separator, when it occurs.\<close>

definition partition_soh :: "string \<Rightarrow> (string \<times> string) option" where
  "partition_soh line =
     (if CHR 0x01 \<in> set line
      then Some (takeWhile (\<lambda>c. c \<noteq> CHR 0x01) line, tl (dropWhile (\<lambda>c. c \<noteq> CHR 0x01) line))
      else None)"

text \<open>\<open>s.isdigit()\<close>, then \<open>int(s)\<close>, which refuses more than 4300 digits.\<close>

definition plain_digits :: "string \<Rightarrow> bool" where
  "plain_digits s \<longleftrightarrow> s \<noteq> [] \<and> list_all is_digit s"

definition int_digits :: "string \<Rightarrow> image_error + nat" where
  "int_digits s = (if length s \<le> 4300 then Inr (digits_val 0 s) else Inl IntValueError)"

subsection \<open>The generated emulations\<close>

fun emulated_lines :: "nat \<Rightarrow> string list \<Rightarrow> image_error + bytes list" where
  "emulated_lines key_length [] = Inr []"
| "emulated_lines key_length (line # rest) =
     (case partition_soh line of
        None \<Rightarrow> Inl (UnreadableImage ''malformed emulation record line'')
      | Some (key, data) \<Rightarrow>
          if text_length key \<noteq> key_length then Inl (UnreadableImage ''malformed emulation record line'')
          else bind_res (emulated_lines key_length rest) (\<lambda>rs. Inr ((key @ data) # rs)))"

definition emulated_index_records :: "bytes \<Rightarrow> image_error + bytes list" where
  "emulated_index_records img =
     (if \<not> utf8_valid img then Inl UnicodeDecodeError
      else
        let lines = split_lines img; header = hd lines in
        if \<not> starts_with ''K'' header \<or> \<not> plain_digits (tl header)
        then Inl (UnreadableImage ''not a generated INDEXED emulation file'')
        else bind_res (int_digits (tl header)) (\<lambda>key_length.
          if last lines \<noteq> [] then Inl (UnreadableImage ''emulation file does not end with a newline'')
          else emulated_lines key_length (butlast (tl lines))))"

fun emulated_slots :: "nat option \<Rightarrow> string list \<Rightarrow> image_error + (nat \<times> bytes) list" where
  "emulated_slots prev [] = Inr []"
| "emulated_slots prev (line # rest) =
     (case partition_soh line of
        None \<Rightarrow> Inl (UnreadableImage ''malformed emulation record line'')
      | Some (rrn, record') \<Rightarrow>
          if \<not> plain_digits rrn then Inl (UnreadableImage ''malformed emulation record line'')
          else bind_res (int_digits rrn) (\<lambda>n.
            if n < 1 then Inl (UnreadableImage ''malformed emulation record line'')
            else if (case prev of None \<Rightarrow> False | Some m \<Rightarrow> n \<le> m)
            then Inl (UnreadableImage ''emulation records out of RRN order'')
            else bind_res (emulated_slots (Some n) rest) (\<lambda>rs. Inr ((n, record') # rs))))"

definition emulated_relative_records :: "bytes \<Rightarrow> image_error + (nat \<times> bytes) list" where
  "emulated_relative_records img =
     (if \<not> utf8_valid img then Inl UnicodeDecodeError
      else
        let lines = split_lines img in
        if hd lines \<noteq> ''R'' \<or> last lines \<noteq> []
        then Inl (UnreadableImage ''not a generated RELATIVE emulation file'')
        else emulated_slots None (butlast (tl lines)))"

subsection \<open>The slot file\<close>

definition slot_sizes :: "bytes \<Rightarrow> nat \<Rightarrow> nat list" where
  "slot_sizes img slot = map (\<lambda>i. little_endian (take 8 (drop (i * slot) img))) [0..<length img div slot]"

definition slot_layouts :: "bytes \<Rightarrow> (nat \<times> nat list) list" where
  "slot_layouts img =
     concat (map (\<lambda>n.
       let slot = 8 + n; sizes = slot_sizes img slot in
       if length img mod slot = 0 \<and> (\<forall>k \<in> set sizes. k = 0 \<or> k = n) \<and> n \<in> set sizes
       then [(slot, sizes)] else []) [1..<length img - 7])"

definition gnucobol_relative_records :: "bytes \<Rightarrow> image_error + (nat \<times> bytes) list" where
  "gnucobol_relative_records img =
     (if img = [] then Inr []
      else case slot_layouts img of
        [(slot, sizes)] \<Rightarrow>
          Inr (concat (map (\<lambda>(index, k).
            if k = 0 then [] else [(index + 1, take k (drop (index * slot + 8) img))]) (enum sizes)))
      | [] \<Rightarrow> Inl (UnreadableImage ''no RELATIVE slot layout fits the image'')
      | _ \<Rightarrow> Inl (UnreadableImage ''several RELATIVE slot layouts fit the image''))"

subsection \<open>Canonical text\<close>

text \<open>The hex digits, a tab, the bytes with every character that is not printable shown as a dot, and a
  line feed.\<close>

definition canonical_line :: "bytes \<Rightarrow> bytes" where
  "canonical_line r = concat (map hex2 r) @ [CHR 0x09]
     @ map (\<lambda>b. if ascii_printable b then b else CHR ''.'') r @ [CHR 0x0A]"

definition canonical_records :: "bytes list \<Rightarrow> bytes" where
  "canonical_records rs = concat (map canonical_line rs)"

text \<open>The lines of \<open>canonical_records\<close> have no other line break, so \<open>splitlines\<close> gives one per record.\<close>

definition canonical_relative_records :: "(nat \<times> bytes) list \<Rightarrow> bytes" where
  "canonical_relative_records rs = concat (map (\<lambda>(rrn, r). show_nat rrn @ [CHR 0x09] @ canonical_line r) rs)"

end
