(* ===== verification/Decimals.thy ===== *)
theory Decimals
  imports CobolText
begin

text \<open>
  \<open>decimal.Decimal\<close> as the business invariants use it: reading text, equality, addition and division by a
  power of ten in the default context of 28 digits, and the two text forms. A finite value is its sign,
  its coefficient and its exponent.
\<close>

record dec =
  dec_neg :: bool
  dec_coef :: nat
  dec_exp :: int

definition dec_of_int :: "int \<Rightarrow> dec" where
  "dec_of_int i = \<lparr>dec_neg = (i < 0), dec_coef = nat \<bar>i\<bar>, dec_exp = 0\<rparr>"

subsection \<open>Values\<close>

definition dec_signed :: "dec \<Rightarrow> int" where
  "dec_signed d = (if dec_neg d then - int (dec_coef d) else int (dec_coef d))"

text \<open>The coefficient at a smaller exponent.\<close>

definition dec_at :: "int \<Rightarrow> dec \<Rightarrow> int" where
  "dec_at e d = dec_signed d * 10 ^ nat (dec_exp d - e)"

definition dec_eq :: "dec \<Rightarrow> dec \<Rightarrow> bool" where
  "dec_eq a b = (let e = min (dec_exp a) (dec_exp b) in dec_at e a = dec_at e b)"

subsection \<open>The context: 28 digits, half even\<close>

definition dec_precision :: nat where
  "dec_precision = 28"

definition half_even :: "nat \<Rightarrow> nat \<Rightarrow> nat" where
  "half_even n m =
     (let q = n div m; r = n mod m in
      if m < 2 * r \<or> 2 * r = m \<and> odd q then q + 1 else q)"

definition dec_round :: "bool \<Rightarrow> nat \<Rightarrow> int \<Rightarrow> dec" where
  "dec_round neg c e =
     (let n = length (show_nat c) in
      if n \<le> dec_precision then \<lparr>dec_neg = neg, dec_coef = c, dec_exp = e\<rparr>
      else
        let k = n - dec_precision; q = half_even c (10 ^ k) in
        if q = 10 ^ dec_precision
        then \<lparr>dec_neg = neg, dec_coef = 10 ^ (dec_precision - 1), dec_exp = e + int k + 1\<rparr>
        else \<lparr>dec_neg = neg, dec_coef = q, dec_exp = e + int k\<rparr>)"

definition dec_add :: "dec \<Rightarrow> dec \<Rightarrow> dec" where
  "dec_add a b =
     (let e = min (dec_exp a) (dec_exp b); s = dec_at e a + dec_at e b in
      dec_round (if s = 0 then dec_neg a \<and> dec_neg b else s < 0) (nat \<bar>s\<bar>) e)"

text \<open>Removes trailing zeros of the coefficient while the exponent is below \<open>ideal\<close>.\<close>

function drop_zeros :: "int \<Rightarrow> nat \<Rightarrow> int \<Rightarrow> nat \<times> int" where
  "drop_zeros ideal c e =
     (if e < ideal \<and> c mod 10 = 0 then drop_zeros ideal (c div 10) (e + 1) else (c, e))"
  by pat_completeness auto
termination
  by (relation "measure (\<lambda>(ideal, c, e). nat (ideal - e))") auto

declare drop_zeros.simps [simp del]

text \<open>\<open>d / Decimal(10) ** n\<close> for \<open>n > 0\<close> and a \<open>d\<close> of at most 28 digits. The power has the coefficient 10 to
  the power n and the exponent 0 as far as 28 digits go, and overflows above the largest exponent.\<close>

definition dec_shift :: "nat \<Rightarrow> dec \<Rightarrow> py_error + dec" where
  "dec_shift n d =
     (if 999999 < n then Inl ArithmeticError
      else
        let ideal = dec_exp d - int (n - (dec_precision - 1));
            (c, e) = (if dec_coef d = 0 then (0, ideal) else drop_zeros ideal (dec_coef d) (dec_exp d - int n))
        in Inr \<lparr>dec_neg = dec_neg d, dec_coef = c, dec_exp = e\<rparr>)"

subsection \<open>Text\<close>

definition zeros :: "nat \<Rightarrow> string" where
  "zeros n = replicate n (CHR ''0'')"

text \<open>The digits with the point after \<open>dot\<close> of them.\<close>

definition dec_digits :: "string \<Rightarrow> int \<Rightarrow> string" where
  "dec_digits ds dot =
     (if dot \<le> 0 then ''0.'' @ zeros (nat (- dot)) @ ds
      else if int (length ds) \<le> dot then ds @ zeros (nat (dot - int (length ds)))
      else take (nat dot) ds @ ''.'' @ drop (nat dot) ds)"

definition dec_sign :: "dec \<Rightarrow> string" where
  "dec_sign d = (if dec_neg d then ''-'' else [])"

text \<open>\<open>format(d, "f")\<close>.\<close>

definition dec_format :: "dec \<Rightarrow> string" where
  "dec_format d =
     dec_sign d
     @ (if dec_coef d = 0 \<and> 0 < dec_exp d then ''0''
        else let ds = show_nat (dec_coef d) in dec_digits ds (int (length ds) + dec_exp d))"

text \<open>\<open>str(d)\<close>.\<close>

definition dec_str :: "dec \<Rightarrow> string" where
  "dec_str d =
     (let ds = show_nat (dec_coef d); left = int (length ds) + dec_exp d;
          dot = (if dec_exp d \<le> 0 \<and> - 6 < left then left else 1);
          x = left - dot
      in dec_sign d @ dec_digits ds dot
         @ (if x = 0 then [] else ''E'' @ (if 0 \<le> x then ''+'' else []) @ show_int x))"

text \<open>\<open>Decimal(s)\<close>: a finite value, an infinity or a NaN, or one of the two errors it raises.\<close>

datatype dec_reading = Finite dec | NotFinite | BadSyntax | BadRange

definition lower_ascii :: "string \<Rightarrow> string" where
  "lower_ascii s = map (\<lambda>c. if 65 \<le> (of_char c :: nat) \<and> (of_char c :: nat) \<le> 90 then char_of (of_char c + 32 :: nat) else c) s"

definition is_special :: "string \<Rightarrow> bool" where
  "is_special s =
     (let t = lower_ascii s in
      t = ''inf'' \<or> t = ''infinity''
      \<or> starts_with ''nan'' t \<and> all_digits (drop 3 t) \<or> starts_with ''snan'' t \<and> all_digits (drop 4 t))"

text \<open>The exponent part, or nothing.\<close>

definition read_exponent :: "string \<Rightarrow> int option" where
  "read_exponent s =
     (case s of
        [] \<Rightarrow> Some 0
      | c # r \<Rightarrow>
          if c \<noteq> CHR ''e'' \<and> c \<noteq> CHR ''E'' then None
          else
            let ds = (if r \<noteq> [] \<and> hd r \<in> {CHR ''+'', CHR ''-''} then tl r else r) in
            if ds = [] \<or> \<not> all_digits ds then None
            else Some (if hd r = CHR ''-'' then - int (decimal ds) else int (decimal ds)))"

definition dec_in_range :: "dec \<Rightarrow> bool" where
  "dec_in_range d \<longleftrightarrow> dec_exp d + int (length (show_nat (dec_coef d))) - 1 \<le> 999999999999999999
     \<and> - 1999999999999999997 \<le> dec_exp d"

definition decimal_of_text :: "string \<Rightarrow> dec_reading" where
  "decimal_of_text s =
     (let t = filter (\<lambda>c. c \<noteq> CHR ''_'') (strip s);
          neg = (t \<noteq> [] \<and> hd t = CHR ''-'');
          body = (if t \<noteq> [] \<and> hd t \<in> {CHR ''+'', CHR ''-''} then tl t else t);
          ip = takeWhile is_digit body;
          r = dropWhile is_digit body;
          has_point = (r \<noteq> [] \<and> hd r = CHR ''.'');
          fp = (if has_point then takeWhile is_digit (tl r) else []);
          ex = (if has_point then dropWhile is_digit (tl r) else r)
      in if is_special body then NotFinite
         else if ip @ fp = [] then BadSyntax
         else
           (case read_exponent ex of
              None \<Rightarrow> BadSyntax
            | Some e \<Rightarrow>
                let d = \<lparr>dec_neg = neg, dec_coef = decimal (ip @ fp), dec_exp = e - int (length fp)\<rparr> in
                if dec_in_range d then Finite d else BadRange))"

end
