(* ===== verification/PyValues.thy ===== *)
theory PyValues
  imports Decimals JsonParseFacts
begin

text \<open>
  The Python values a business invariant can expect or observe, with \<open>==\<close>, \<open>repr\<close> and \<open>type(v).__name__\<close>;
  \<open>json.loads\<close> with \<open>parse_float=Decimal\<close>; and the canonical JSON of
  \<open>engine/verification/business_invariants.py\<close> (\<open>canonical_value\<close>, \<open>_canonical_json\<close>). A float is given by
  its \<open>repr\<close>; the only ones that are read are NaN and the infinities. Mappings have string keys. \<open>Foreign\<close> is
  a value of any other type, given by the name of the type.
\<close>

datatype py =
    PNone
  | PBool bool
  | PInt int
  | PDec dec
  | PFloat string
  | PStr string
  | PBytes bytes
  | PList "py list"
  | PTuple "py list"
  | PDict "(string \<times> py) list"
  | Foreign string

fun py_type_name :: "py \<Rightarrow> string" where
  "py_type_name PNone = ''NoneType''"
| "py_type_name (PBool _) = ''bool''"
| "py_type_name (PInt _) = ''int''"
| "py_type_name (PDec _) = ''Decimal''"
| "py_type_name (PFloat _) = ''float''"
| "py_type_name (PStr _) = ''str''"
| "py_type_name (PBytes _) = ''bytes''"
| "py_type_name (PList _) = ''list''"
| "py_type_name (PTuple _) = ''tuple''"
| "py_type_name (PDict _) = ''dict''"
| "py_type_name (Foreign n) = n"

subsection \<open>Text of a value\<close>

definition show_item :: "string \<times> string \<Rightarrow> string" where
  "show_item p = repr_str (fst p) @ '': '' @ snd p"

primrec value_repr :: "py \<Rightarrow> string" where
  "value_repr PNone = ''None''"
| "value_repr (PBool b) = (if b then ''True'' else ''False'')"
| "value_repr (PInt i) = show_int i"
| "value_repr (PDec d) = ''Decimal('' @ repr_str (dec_str d) @ '')''"
| "value_repr (PFloat s) = s"
| "value_repr (PStr s) = repr_str s"
| "value_repr (PBytes b) = str_bytes b"
| "value_repr (PList xs) = ''['' @ join '', '' (map value_repr xs) @ '']''"
| "value_repr (PTuple xs) =
     ''('' @ join '', '' (map value_repr xs) @ (if length xs = 1 then '','' else []) @ '')''"
| "value_repr (PDict fs) = ''{'' @ join '', '' (map show_item (map (map_prod id value_repr) fs)) @ ''}''"
| "value_repr (Foreign n) = ''<'' @ n @ ''>''"

definition value_str :: "py \<Rightarrow> string" where
  "value_str v = (case v of PStr s \<Rightarrow> s | PDec d \<Rightarrow> dec_str d | _ \<Rightarrow> value_repr v)"

subsection \<open>Equality\<close>

text \<open>The numbers among the values; a \<open>bool\<close> is the integer 0 or 1.\<close>

fun number_of :: "py \<Rightarrow> dec option" where
  "number_of (PBool b) = Some (dec_of_int (if b then 1 else 0))"
| "number_of (PInt i) = Some (dec_of_int i)"
| "number_of (PDec d) = Some d"
| "number_of _ = None"

text \<open>\<open>a == b\<close>: numbers by value across their types, a list never equal to a tuple, mappings by key.\<close>

fun py_eq :: "py \<Rightarrow> py \<Rightarrow> bool"
  and py_eq_list :: "py list \<Rightarrow> py list \<Rightarrow> bool"
  and py_eq_members :: "(string \<times> py) list \<Rightarrow> (string \<times> py) list \<Rightarrow> bool" where
  "py_eq (PList xs) w = (case w of PList ys \<Rightarrow> py_eq_list xs ys | _ \<Rightarrow> False)"
| "py_eq (PTuple xs) w = (case w of PTuple ys \<Rightarrow> py_eq_list xs ys | _ \<Rightarrow> False)"
| "py_eq (PDict fs) w = (case w of PDict gs \<Rightarrow> length fs = length gs \<and> py_eq_members fs gs | _ \<Rightarrow> False)"
| "py_eq (PFloat s) w = (w = PFloat s \<and> s \<noteq> ''nan'')"
| "py_eq v w =
     (case (number_of v, number_of w) of
        (Some a, Some b) \<Rightarrow> dec_eq a b
      | (None, None) \<Rightarrow> v = w
      | _ \<Rightarrow> False)"
| "py_eq_list [] ys = (ys = [])"
| "py_eq_list (x # xs) ys = (case ys of [] \<Rightarrow> False | y # ys' \<Rightarrow> py_eq x y \<and> py_eq_list xs ys')"
| "py_eq_members [] gs = True"
| "py_eq_members ((k, v) # fs) gs =
     ((case map_of gs k of None \<Rightarrow> False | Some w \<Rightarrow> py_eq v w) \<and> py_eq_members fs gs)"

text \<open>Equality and hashing agree on what can be an element of a set; lists and dicts cannot.\<close>

definition hashable :: "py \<Rightarrow> bool" where
  "hashable v = (case v of PList _ \<Rightarrow> False | PDict _ \<Rightarrow> False | _ \<Rightarrow> True)"

subsection \<open>\<open>json.loads(text, parse_float=Decimal)\<close>\<close>

datatype load_error = NotJson | TooManyDigits | BadDecimal | NotRepresented | NoFuel

definition load_error_of :: "json_error \<Rightarrow> load_error" where
  "load_error_of e = (case e of Malformed \<Rightarrow> NotJson | Beyond \<Rightarrow> NotRepresented | OutOfFuel \<Rightarrow> NoFuel)"

definition read_str :: "string \<Rightarrow> load_error + (string \<times> string)" where
  "read_str s = (case parse_str s of Inl e \<Rightarrow> Inl (load_error_of e) | Inr x \<Rightarrow> Inr x)"

text \<open>The fraction and the exponent that follow the integer digits.\<close>

definition fraction_part :: "string \<Rightarrow> string" where
  "fraction_part s =
     (case s of
        c # d # r \<Rightarrow> if c = CHR ''.'' \<and> is_digit d then c # takeWhile is_digit (d # r) else []
      | _ \<Rightarrow> [])"

definition exponent_part :: "string \<Rightarrow> string" where
  "exponent_part s =
     (case s of
        c # d # r \<Rightarrow>
          if c \<noteq> CHR ''e'' \<and> c \<noteq> CHR ''E'' then []
          else if is_digit d then c # takeWhile is_digit (d # r)
          else if (d = CHR ''+'' \<or> d = CHR ''-'') \<and> r \<noteq> [] \<and> is_digit (hd r) then c # d # takeWhile is_digit r
          else []
      | _ \<Rightarrow> [])"

definition read_number :: "string \<Rightarrow> load_error + (py \<times> string)" where
  "read_number s =
     (if starts_with ''NaN'' s then Inr (PFloat ''nan'', drop 3 s)
      else if starts_with ''Infinity'' s then Inr (PFloat ''inf'', drop 8 s)
      else if starts_with ''-Infinity'' s then Inr (PFloat ''-inf'', drop 9 s)
      else
        let sign = (if starts_with ''-'' s then ''-'' else []);
            t = drop (length sign) s;
            ds = (if starts_with ''0'' t then ''0'' else takeWhile is_digit t);
            u = drop (length ds) t;
            fp = fraction_part u;
            ex = exponent_part (drop (length fp) u);
            rest = drop (length ex) (drop (length fp) u)
        in if ds = [] then Inl NotJson
           else if fp = [] \<and> ex = [] then
             (if int_digit_limit < length ds then Inl TooManyDigits
              else Inr (PInt (if sign = [] then int (digits_val 0 ds) else - int (digits_val 0 ds)), rest))
           else
             (case decimal_of_text (sign @ ds @ fp @ ex) of
                Finite d \<Rightarrow> Inr (PDec d, rest)
              | _ \<Rightarrow> Inl BadDecimal))"

fun read_value :: "nat \<Rightarrow> string \<Rightarrow> load_error + (py \<times> string)"
  and read_items :: "nat \<Rightarrow> string \<Rightarrow> load_error + (py list \<times> string)"
  and read_members :: "nat \<Rightarrow> string \<Rightarrow> load_error + ((string \<times> py) list \<times> string)" where
  "read_value 0 s = Inl NoFuel"
| "read_value (Suc k) s =
     (case s of
        [] \<Rightarrow> Inl NotJson
      | c # cs \<Rightarrow>
          if c = CHR 0x22 then bind_res (read_str cs) (\<lambda>(t, r). Inr (PStr t, r))
          else if c = CHR ''{'' then
            (let t = skip_space cs in
             if starts_with ''}'' t then Inr (PDict [], tl t)
             else bind_res (read_members k t) (\<lambda>(ps, r). Inr (PDict (dict_of_pairs ps), r)))
          else if c = CHR ''['' then
            (let t = skip_space cs in
             if starts_with '']'' t then Inr (PList [], tl t)
             else bind_res (read_items k t) (\<lambda>(xs, r). Inr (PList xs, r)))
          else if starts_with ''null'' s then Inr (PNone, drop 4 s)
          else if starts_with ''true'' s then Inr (PBool True, drop 4 s)
          else if starts_with ''false'' s then Inr (PBool False, drop 5 s)
          else read_number s)"
| "read_items 0 s = Inl NoFuel"
| "read_items (Suc k) s =
     bind_res (read_value k s) (\<lambda>(x, r).
       let t = skip_space r in
       if starts_with '']'' t then Inr ([x], tl t)
       else if starts_with '','' t
       then bind_res (read_items k (skip_space (tl t))) (\<lambda>(xs, r'). Inr (x # xs, r'))
       else Inl NotJson)"
| "read_members 0 s = Inl NoFuel"
| "read_members (Suc k) s =
     (if \<not> starts_with [CHR 0x22] s then Inl NotJson
      else bind_res (read_str (tl s)) (\<lambda>(key, r).
        let t = skip_space r in
        if \<not> starts_with '':'' t then Inl NotJson
        else bind_res (read_value k (skip_space (tl t))) (\<lambda>(x, r').
          let t' = skip_space r' in
          if starts_with ''}'' t' then Inr ([(key, x)], tl t')
          else if starts_with '','' t'
          then bind_res (read_members k (skip_space (tl t'))) (\<lambda>(ps, r''). Inr ((key, x) # ps, r''))
          else Inl NotJson)))"

definition loads_decimal :: "string \<Rightarrow> load_error + py" where
  "loads_decimal s =
     (let t = skip_space s in
      bind_res (read_value (2 * length t + 1) t) (\<lambda>(v, r).
        if skip_space r = [] then Inr v else Inl NotJson))"

subsection \<open>Canonical JSON\<close>

definition hex_bytes :: "bytes \<Rightarrow> string" where
  "hex_bytes b = concat (map hex2 b)"

definition sequence :: "('e + 'a) list \<Rightarrow> 'e + 'a list" where
  "sequence = traverse id"

definition sequence_members :: "(string \<times> ('e + 'a)) list \<Rightarrow> 'e + (string \<times> 'a) list" where
  "sequence_members = traverse (\<lambda>(k, m). bind_res m (\<lambda>v. Inr (k, v)))"

text \<open>\<open>canonical_value\<close>: bytes and decimals are marked objects, mappings are rebuilt in key order.\<close>

primrec canonical_value :: "py \<Rightarrow> py_error + json" where
  "canonical_value PNone = Inr JNull"
| "canonical_value (PBool b) = Inr (JBool b)"
| "canonical_value (PInt i) = Inr (JInt i)"
| "canonical_value (PDec d) = Inr (JObj [(''$decimal'', JStr (dec_format d))])"
| "canonical_value (PFloat s) = Inl (ValueError ''unsupported canonical value type float'')"
| "canonical_value (PStr s) = Inr (JStr s)"
| "canonical_value (PBytes b) = Inr (JObj [(''$bytes_hex'', JStr (hex_bytes b))])"
| "canonical_value (PList xs) = bind_res (sequence (map canonical_value xs)) (\<lambda>vs. Inr (JList vs))"
| "canonical_value (PTuple xs) = bind_res (sequence (map canonical_value xs)) (\<lambda>vs. Inr (JList vs))"
| "canonical_value (PDict fs) =
     bind_res (sequence_members (sort_key fst (map (map_prod id canonical_value) fs)))
       (\<lambda>ps. Inr (JObj (dict_of_pairs ps)))"
| "canonical_value (Foreign n) = Inl (ValueError (''unsupported canonical value type '' @ n))"

text \<open>String literals with \<open>ensure_ascii=False\<close>.\<close>

definition esc_char_raw :: "char \<Rightarrow> string" where
  "esc_char_raw c = (if 127 \<le> (of_char c :: nat) then [c] else esc_char c)"

definition dump_str_raw :: "string \<Rightarrow> string" where
  "dump_str_raw s = [CHR 0x22] @ concat (map esc_char_raw s) @ [CHR 0x22]"

abbreviation dump_compact :: "json \<Rightarrow> string" where
  "dump_compact \<equiv> dump_with '','' '':'' dump_str_raw"

text \<open>An integer has a text up to Python's limit of digits.\<close>

primrec printable_ints :: "json \<Rightarrow> bool" where
  "printable_ints JNull = True"
| "printable_ints (JBool b) = True"
| "printable_ints (JInt i) = int_ok i"
| "printable_ints (JStr s) = True"
| "printable_ints (JList xs) = list_all id (map printable_ints xs)"
| "printable_ints (JObj fs) = list_all snd (map (map_prod id printable_ints) fs)"

definition int_limit_error :: py_error where
  "int_limit_error = ValueError ''Exceeds the limit (4300 digits) for integer string conversion''"

text \<open>An integer in an f-string, and a value in an f-string (\<open>{v}\<close>) or with its \<open>repr\<close> (\<open>{v!r}\<close>): past the
  limit of digits of an integer the formatting raises.\<close>

primrec printable_value :: "py \<Rightarrow> bool" where
  "printable_value PNone = True"
| "printable_value (PBool b) = True"
| "printable_value (PInt i) = int_ok i"
| "printable_value (PDec d) = True"
| "printable_value (PFloat s) = True"
| "printable_value (PStr s) = True"
| "printable_value (PBytes b) = True"
| "printable_value (PList xs) = list_all id (map printable_value xs)"
| "printable_value (PTuple xs) = list_all id (map printable_value xs)"
| "printable_value (PDict fs) = list_all snd (map (map_prod id printable_value) fs)"
| "printable_value (Foreign n) = True"

definition format_int :: "int \<Rightarrow> py_error + string" where
  "format_int i = (if int_ok i then Inr (show_int i) else Inl int_limit_error)"

definition format_value :: "py \<Rightarrow> py_error + string" where
  "format_value v = (if printable_value v then Inr (value_str v) else Inl int_limit_error)"

definition format_repr :: "py \<Rightarrow> py_error + string" where
  "format_repr v = (if printable_value v then Inr (value_repr v) else Inl int_limit_error)"

definition canonical_json :: "json \<Rightarrow> py_error + string" where
  "canonical_json v =
     (if printable_ints v then Inr (dump_compact (sort_keys v))
      else Inl int_limit_error)"

text \<open>A value that was read, as \<open>json.dumps\<close> takes it: a \<open>Decimal\<close> is not serializable.\<close>

primrec json_of_py :: "py \<Rightarrow> py_error + json" where
  "json_of_py PNone = Inr JNull"
| "json_of_py (PBool b) = Inr (JBool b)"
| "json_of_py (PInt i) = Inr (JInt i)"
| "json_of_py (PDec d) = Inl TypeError"
| "json_of_py (PFloat s) = Inl OutsideModel"
| "json_of_py (PStr s) = Inr (JStr s)"
| "json_of_py (PBytes b) = Inl TypeError"
| "json_of_py (PList xs) = bind_res (sequence (map json_of_py xs)) (\<lambda>vs. Inr (JList vs))"
| "json_of_py (PTuple xs) = bind_res (sequence (map json_of_py xs)) (\<lambda>vs. Inr (JList vs))"
| "json_of_py (PDict fs) = bind_res (sequence_members (map (map_prod id json_of_py) fs)) (\<lambda>ps. Inr (JObj ps))"
| "json_of_py (Foreign n) = Inl TypeError"

text \<open>The value a JSON text without floats stands for.\<close>

primrec py_of_json :: "json \<Rightarrow> py" where
  "py_of_json JNull = PNone"
| "py_of_json (JBool b) = PBool b"
| "py_of_json (JInt i) = PInt i"
| "py_of_json (JStr s) = PStr s"
| "py_of_json (JList xs) = PList (map py_of_json xs)"
| "py_of_json (JObj fs) = PDict (map (map_prod id py_of_json) fs)"

end
