(* ===== verification/BusinessInvariants.thy ===== *)
theory BusinessInvariants
  imports PyValues Comparators
begin

text \<open>
  Declared business invariants (\<open>engine/verification/business_invariants.py\<close>): the declaration with its
  checks, the evaluation of one execution's observation, the canonical report, its admission, and the
  comparator of two reports (\<open>engine/comparators/framework.py\<close> \<open>BusinessInvariantComparator\<close>). Attributes
  the annotations type are given by these types; \<open>expected\<close> is any value. The messages of the \<open>json\<close> module
  are an argument.
\<close>

subsection \<open>Vocabulary\<close>

datatype invariant_phase = PRECONDITION | POSTCONDITION | ERROR_BEHAVIOR

fun phase_value :: "invariant_phase \<Rightarrow> string" where
  "phase_value PRECONDITION = ''PRECONDITION''"
| "phase_value POSTCONDITION = ''POSTCONDITION''"
| "phase_value ERROR_BEHAVIOR = ''ERROR_BEHAVIOR''"

definition phase_values :: "string list" where
  "phase_values = map phase_value [PRECONDITION, POSTCONDITION, ERROR_BEHAVIOR]"

datatype invariant_kind =
    EXIT_CODE | EXACT_LINES | LINE_COUNT | RECORD_COUNT | FIXED_FIELD_EQUALS | FIXED_FIELD_TOTAL | JSON_FIELD_EQUALS

fun kind_value :: "invariant_kind \<Rightarrow> string" where
  "kind_value EXIT_CODE = ''EXIT_CODE''"
| "kind_value EXACT_LINES = ''EXACT_LINES''"
| "kind_value LINE_COUNT = ''LINE_COUNT''"
| "kind_value RECORD_COUNT = ''RECORD_COUNT''"
| "kind_value FIXED_FIELD_EQUALS = ''FIXED_FIELD_EQUALS''"
| "kind_value FIXED_FIELD_TOTAL = ''FIXED_FIELD_TOTAL''"
| "kind_value JSON_FIELD_EQUALS = ''JSON_FIELD_EQUALS''"

definition kind_values :: "string list" where
  "kind_values = map kind_value
     [EXIT_CODE, EXACT_LINES, LINE_COUNT, RECORD_COUNT, FIXED_FIELD_EQUALS, FIXED_FIELD_TOTAL, JSON_FIELD_EQUALS]"

datatype invariant_source = STDOUT | STDERR | EXIT_STATUS | FILE | INPUT

fun source_value :: "invariant_source \<Rightarrow> string" where
  "source_value STDOUT = ''STDOUT''"
| "source_value STDERR = ''STDERR''"
| "source_value EXIT_STATUS = ''EXIT_STATUS''"
| "source_value FILE = ''FILE''"
| "source_value INPUT = ''INPUT''"

definition source_values :: "string list" where
  "source_values = map source_value [STDOUT, STDERR, EXIT_STATUS, FILE, INPUT]"

definition text_sources :: "invariant_source list" where
  "text_sources = [STDOUT, STDERR, FILE, INPUT]"

definition file_sources :: "invariant_source list" where
  "file_sources = [FILE, INPUT]"

subsection \<open>Declarations\<close>

text \<open>Whether an expected value can be compared deterministically.\<close>

fun check_items :: "string \<Rightarrow> nat \<Rightarrow> (string \<Rightarrow> py_error + unit) list \<Rightarrow> py_error + unit" where
  "check_items path i [] = Inr ()"
| "check_items path i (f # fs) =
     bind_res (f (path @ ''['' @ show_nat i @ '']'')) (\<lambda>_. check_items path (Suc i) fs)"

fun check_members :: "string \<Rightarrow> (string \<times> (string \<Rightarrow> py_error + unit)) list \<Rightarrow> py_error + unit" where
  "check_members path [] = Inr ()"
| "check_members path ((k, f) # fs) = bind_res (f (path @ ''.'' @ k)) (\<lambda>_. check_members path fs)"

primrec validate_json_value :: "py \<Rightarrow> string \<Rightarrow> py_error + unit" where
  "validate_json_value PNone path = Inr ()"
| "validate_json_value (PBool b) path = Inr ()"
| "validate_json_value (PInt i) path = Inr ()"
| "validate_json_value (PDec d) path = Inr ()"
| "validate_json_value (PFloat s) path = Inl (ValueError (path
     @ '' must not be a float; express decimals as strings for exact Decimal comparison''))"
| "validate_json_value (PStr s) path = Inr ()"
| "validate_json_value (PBytes b) path = Inr ()"
| "validate_json_value (PList xs) path = check_items path 0 (map validate_json_value xs)"
| "validate_json_value (PTuple xs) path = check_items path 0 (map validate_json_value xs)"
| "validate_json_value (PDict fs) path = check_members path (map (map_prod id validate_json_value) fs)"
| "validate_json_value (Foreign n) path = Inl (ValueError (path @ '' has unsupported type '' @ n))"

record business_invariant =
  bi_id :: string
  bi_kind :: invariant_kind
  bi_source :: invariant_source
  bi_expected :: py
  bi_phase :: invariant_phase
  bi_source_name :: "string option"
  bi_record_length :: "int option"
  bi_offset :: "int option"
  bi_length :: "int option"
  bi_record_index :: "int option"
  bi_decimal_places :: int
  bi_json_path :: "string option"
  bi_description :: string

definition require :: "bool \<Rightarrow> string \<Rightarrow> py_error + unit" where
  "require ok message = (if ok then Inr () else Inl (ValueError message))"

definition is_blank :: "string option \<Rightarrow> bool" where
  "is_blank s = (case s of None \<Rightarrow> True | Some t \<Rightarrow> strip t = [])"

definition require_source :: "business_invariant \<Rightarrow> invariant_source list \<Rightarrow> py_error + unit" where
  "require_source b allowed =
     require (bi_source b \<in> set allowed)
       (kind_value (bi_kind b) @ '' source must be one of '' @ show_str_list (sort (map source_value allowed))
        @ '', got '' @ source_value (bi_source b))"

definition require_source_name :: "business_invariant \<Rightarrow> py_error + unit" where
  "require_source_name b =
     require (bi_source b \<in> set file_sources \<longrightarrow> \<not> is_blank (bi_source_name b))
       (kind_value (bi_kind b) @ '' source '' @ source_value (bi_source b) @ '' requires source_name'')"

definition require_file_source :: "business_invariant \<Rightarrow> py_error + unit" where
  "require_file_source b = bind_res (require_source b file_sources) (\<lambda>_. require_source_name b)"

definition is_positive :: "int option \<Rightarrow> bool" where
  "is_positive n = (case n of None \<Rightarrow> False | Some i \<Rightarrow> 0 < i)"

definition is_non_negative :: "int option \<Rightarrow> bool" where
  "is_non_negative n = (case n of None \<Rightarrow> False | Some i \<Rightarrow> 0 \<le> i)"

definition require_record_length :: "business_invariant \<Rightarrow> py_error + unit" where
  "require_record_length b =
     require (is_positive (bi_record_length b)) (kind_value (bi_kind b) @ '' requires record_length > 0'')"

definition window_end :: "business_invariant \<Rightarrow> int" where
  "window_end b = the (bi_offset b) + the (bi_length b)"

text \<open>The text of the refusal has three integers.\<close>

definition window_exceeds :: "business_invariant \<Rightarrow> py_error + unit" where
  "window_exceeds b =
     bind_res (format_int (the (bi_offset b))) (\<lambda>first.
     bind_res (format_int (window_end b)) (\<lambda>last.
     bind_res (format_int (the (bi_record_length b))) (\<lambda>bound.
     Inl (ValueError (kind_value (bi_kind b) @ '' window ['' @ first @ '','' @ last
       @ '') exceeds record_length '' @ bound)))))"

definition require_field_window :: "business_invariant \<Rightarrow> py_error + unit" where
  "require_field_window b =
     (let k = kind_value (bi_kind b) in
      bind_res (require (is_non_negative (bi_offset b)) (k @ '' requires offset >= 0'')) (\<lambda>_.
      bind_res (require (is_positive (bi_length b)) (k @ '' requires length > 0'')) (\<lambda>_.
      if bi_record_length b = None then Inl AssertionError
      else bind_res (if window_end b \<le> the (bi_record_length b) then Inr () else window_exceeds b) (\<lambda>_.
      require (bi_record_index b = None \<or> is_non_negative (bi_record_index b))
        ''record_index must be an int >= 0 or None''))))"

text \<open>The attributes that differ from their default, with their value, in the order of the check.\<close>

definition given_attributes :: "business_invariant \<Rightarrow> (string \<times> py) list" where
  "given_attributes b =
     (let num = (\<lambda>n v. case v of None \<Rightarrow> [] | Some i \<Rightarrow> [(n, PInt i)]);
          txt = (\<lambda>n v. case v of None \<Rightarrow> [] | Some s \<Rightarrow> [(n, PStr s)])
      in txt ''source_name'' (bi_source_name b) @ num ''record_length'' (bi_record_length b)
         @ num ''offset'' (bi_offset b) @ num ''length'' (bi_length b)
         @ num ''record_index'' (bi_record_index b) @ txt ''json_path'' (bi_json_path b)
         @ (if bi_decimal_places b \<noteq> 0 then [(''decimal_places'', PInt (bi_decimal_places b))] else []))"

definition reject_irrelevant_fields :: "business_invariant \<Rightarrow> string list \<Rightarrow> py_error + unit" where
  "reject_irrelevant_fields b allowed =
     (case filter (\<lambda>a. fst a \<notin> set allowed) (given_attributes b) of
        [] \<Rightarrow> Inr ()
      | (n, v) # _ \<Rightarrow>
          bind_res (format_repr v) (\<lambda>t.
          Inl (ValueError (kind_value (bi_kind b) @ '' does not accept '' @ n @ ''='' @ t))))"

text \<open>The steps of a dotted path: names, each with indexes in brackets; a line feed may end a component.\<close>

datatype json_token = TName string | TIndex nat

definition is_name_start :: "char \<Rightarrow> bool" where
  "is_name_start c = (let n = (of_char c :: nat) in 65 \<le> n \<and> n \<le> 90 \<or> 97 \<le> n \<and> n \<le> 122 \<or> n = 95)"

definition is_name_char :: "char \<Rightarrow> bool" where
  "is_name_char c = (is_name_start c \<or> is_digit c)"

text \<open>The indexes that follow a name; the first argument bounds their number by the length of the text.\<close>

fun index_tokens :: "nat \<Rightarrow> string \<Rightarrow> string list option" where
  "index_tokens k [] = Some []"
| "index_tokens 0 (c # r) = None"
| "index_tokens (Suc k) (c # r) =
     (if c = CHR 0x0A \<and> r = [] then Some []
      else if c \<noteq> CHR ''['' then None
      else
        let ds = takeWhile is_digit r; t = dropWhile is_digit r in
        if ds = [] \<or> \<not> starts_with '']'' t then None
        else map_option (\<lambda>ixs. ds # ixs) (index_tokens k (tl t)))"

definition component_tokens :: "string \<Rightarrow> py_error + json_token list" where
  "component_tokens s =
     (let name = takeWhile is_name_char s; r = dropWhile is_name_char s in
      case (if name = [] \<or> \<not> is_name_start (hd name) then None else index_tokens (length r) r) of
        None \<Rightarrow> Inl (ValueError (''invalid json_path component '' @ repr_str s
                  @ ''; expected name or name[index]''))
      | Some ixs \<Rightarrow>
          if \<exists>ds \<in> set ixs. int_digit_limit < length ds
          then Inl int_limit_error
          else Inr (TName name # map (\<lambda>ds. TIndex (digits_val 0 ds)) ixs))"

text \<open>\<open>s.split(".")\<close>.\<close>

fun split_dots :: "string \<Rightarrow> string list" where
  "split_dots [] = [[]]"
| "split_dots (c # s) =
     (if c = CHR ''.'' then [] # split_dots s
      else (case split_dots s of [] \<Rightarrow> [[c]] | p # ps \<Rightarrow> (c # p) # ps))"

definition json_tokens :: "string \<Rightarrow> py_error + json_token list" where
  "json_tokens path = bind_res (traverse component_tokens (split_dots path)) (\<lambda>ts. Inr (concat ts))"

text \<open>\<open>_expected_decimal\<close>: the total as \<open>Decimal(str(expected))\<close>.\<close>

definition expected_decimal :: "py \<Rightarrow> py_error + dec" where
  "expected_decimal v =
     (let refuse = (\<lambda>t. Inl (ValueError (''FIXED_FIELD_TOTAL expected '' @ value_repr v @ '' is not a valid decimal: '' @ t)))
      in case v of
           PDec d \<Rightarrow> Inr d
         | PInt i \<Rightarrow>
             if int_ok i then Inr (dec_of_int i)
             else Inl int_limit_error
         | _ \<Rightarrow>
             (case decimal_of_text (value_str v) of
                Finite d \<Rightarrow> Inr d
              | NotFinite \<Rightarrow> Inl (ValueError ''FIXED_FIELD_TOTAL expected must be finite'')
              | BadSyntax \<Rightarrow> refuse (''[<class '' @ repr_str ''decimal.ConversionSyntax'' @ ''>]'')
              | BadRange \<Rightarrow> refuse (''[<class '' @ repr_str ''decimal.InvalidOperation'' @ ''>]'')))"

definition sequence_items :: "py \<Rightarrow> py list option" where
  "sequence_items v = (case v of PList xs \<Rightarrow> Some xs | PTuple xs \<Rightarrow> Some xs | _ \<Rightarrow> None)"

definition is_count :: "py \<Rightarrow> bool" where
  "is_count v = (case v of PInt i \<Rightarrow> 0 \<le> i | _ \<Rightarrow> False)"

definition is_integer :: "py \<Rightarrow> bool" where
  "is_integer v = (case v of PInt _ \<Rightarrow> True | _ \<Rightarrow> False)"

fun is_text_value :: "py \<Rightarrow> bool" where
  "is_text_value (PStr _) = True"
| "is_text_value _ = False"

text \<open>\<open>__post_init__\<close>, kind by kind; the value it returns has its normalised expectation.\<close>

definition check_exit_code :: "business_invariant \<Rightarrow> py_error + business_invariant" where
  "check_exit_code b =
     bind_res (require_source b [EXIT_STATUS]) (\<lambda>_.
     bind_res (require (is_integer (bi_expected b))
       (''EXIT_CODE expected must be an int, got '' @ py_type_name (bi_expected b))) (\<lambda>_.
     bind_res (reject_irrelevant_fields b []) (\<lambda>_. Inr b)))"

definition check_exact_lines :: "business_invariant \<Rightarrow> py_error + business_invariant" where
  "check_exact_lines b =
     bind_res (require_source b text_sources) (\<lambda>_.
     bind_res (require_source_name b) (\<lambda>_.
     case sequence_items (bi_expected b) of
       None \<Rightarrow> Inl (ValueError ''EXACT_LINES expected must be a sequence of strings'')
     | Some lines \<Rightarrow>
         bind_res (require (list_all is_text_value lines) ''EXACT_LINES expected entries must be strings'') (\<lambda>_.
         bind_res (reject_irrelevant_fields b [''source_name'']) (\<lambda>_. Inr (b\<lparr>bi_expected := PTuple lines\<rparr>)))))"

definition check_line_count :: "business_invariant \<Rightarrow> py_error + business_invariant" where
  "check_line_count b =
     bind_res (require_source b text_sources) (\<lambda>_.
     bind_res (require_source_name b) (\<lambda>_.
     bind_res (require (is_count (bi_expected b)) ''LINE_COUNT expected must be an int >= 0'') (\<lambda>_.
     bind_res (reject_irrelevant_fields b [''source_name'']) (\<lambda>_. Inr b))))"

definition check_record_count :: "business_invariant \<Rightarrow> py_error + business_invariant" where
  "check_record_count b =
     bind_res (require_file_source b) (\<lambda>_.
     bind_res (require_record_length b) (\<lambda>_.
     bind_res (require (is_count (bi_expected b)) ''RECORD_COUNT expected must be an int >= 0'') (\<lambda>_.
     bind_res (reject_irrelevant_fields b [''source_name'', ''record_length'']) (\<lambda>_. Inr b))))"

definition window_fields :: "string list" where
  "window_fields = [''source_name'', ''record_length'', ''offset'', ''length'', ''record_index'']"

definition check_field_equals :: "business_invariant \<Rightarrow> py_error + business_invariant" where
  "check_field_equals b =
     bind_res (require_file_source b) (\<lambda>_.
     bind_res (require_record_length b) (\<lambda>_.
     bind_res (require_field_window b) (\<lambda>_.
     bind_res (case bi_expected b of
                 PStr s \<Rightarrow> Inr (PBytes (utf8_encode s))
               | PBytes c \<Rightarrow> Inr (PBytes c)
               | _ \<Rightarrow> Inl (ValueError ''FIXED_FIELD_EQUALS expected must be bytes or a string'')) (\<lambda>v.
     bind_res (reject_irrelevant_fields b window_fields) (\<lambda>_. Inr (b\<lparr>bi_expected := v\<rparr>))))))"

fun is_total :: "py \<Rightarrow> bool" where
  "is_total (PStr _) = True"
| "is_total (PInt _) = True"
| "is_total (PDec _) = True"
| "is_total _ = False"

definition check_field_total :: "business_invariant \<Rightarrow> py_error + business_invariant" where
  "check_field_total b =
     bind_res (require_file_source b) (\<lambda>_.
     bind_res (require_record_length b) (\<lambda>_.
     bind_res (require_field_window b) (\<lambda>_.
     bind_res (require (is_total (bi_expected b))
       ''FIXED_FIELD_TOTAL expected must be an exact decimal string, int or Decimal'') (\<lambda>_.
     bind_res (require (0 \<le> bi_decimal_places b) ''decimal_places must be an int >= 0'') (\<lambda>_.
     bind_res (expected_decimal (bi_expected b)) (\<lambda>_.
     bind_res (reject_irrelevant_fields b (window_fields @ [''decimal_places''])) (\<lambda>_. Inr b)))))))"

definition check_json_field :: "business_invariant \<Rightarrow> py_error + business_invariant" where
  "check_json_field b =
     bind_res (require_source b [FILE, STDOUT, STDERR]) (\<lambda>_.
     bind_res (require_source_name b) (\<lambda>_.
     bind_res (require (\<not> is_blank (bi_json_path b)) ''JSON_FIELD_EQUALS requires json_path'') (\<lambda>_.
     bind_res (json_tokens (the (bi_json_path b))) (\<lambda>_.
     bind_res (validate_json_value (bi_expected b) ''JSON_FIELD_EQUALS.expected'') (\<lambda>_.
     bind_res (reject_irrelevant_fields b [''source_name'', ''json_path'']) (\<lambda>_. Inr b))))))"

definition mk_business_invariant :: "business_invariant \<Rightarrow> py_error + business_invariant" where
  "mk_business_invariant b =
     bind_res (require (strip (bi_id b) \<noteq> []) ''invariant_id cannot be empty'') (\<lambda>_.
     case bi_kind b of
       EXIT_CODE \<Rightarrow> check_exit_code b
     | EXACT_LINES \<Rightarrow> check_exact_lines b
     | LINE_COUNT \<Rightarrow> check_line_count b
     | RECORD_COUNT \<Rightarrow> check_record_count b
     | FIXED_FIELD_EQUALS \<Rightarrow> check_field_equals b
     | FIXED_FIELD_TOTAL \<Rightarrow> check_field_total b
     | JSON_FIELD_EQUALS \<Rightarrow> check_json_field b)"

text \<open>\<open>to_canonical_dict\<close>.\<close>

definition canonical_declaration :: "business_invariant \<Rightarrow> py_error + json" where
  "canonical_declaration b =
     bind_res (canonical_value (bi_expected b)) (\<lambda>e. Inr (JObj
       [(''invariant_id'', JStr (bi_id b)), (''kind'', JStr (kind_value (bi_kind b))),
        (''source'', JStr (source_value (bi_source b))), (''phase'', JStr (phase_value (bi_phase b))),
        (''source_name'', j_opt JStr (bi_source_name b)), (''expected'', e),
        (''record_length'', j_opt JInt (bi_record_length b)), (''offset'', j_opt JInt (bi_offset b)),
        (''length'', j_opt JInt (bi_length b)), (''record_index'', j_opt JInt (bi_record_index b)),
        (''decimal_places'', JInt (bi_decimal_places b)), (''json_path'', j_opt JStr (bi_json_path b)),
        (''description'', JStr (bi_description b))]))"

text \<open>SHA-256 of a list in canonical JSON.\<close>

definition digest_of :: "json list \<Rightarrow> py_error + string" where
  "digest_of vs = bind_res (canonical_json (JList vs)) (\<lambda>t. Inr (sha256_hex (utf8_encode t)))"

definition canonical_declarations :: "business_invariant list \<Rightarrow> py_error + json list" where
  "canonical_declarations bs = traverse canonical_declaration (sort_key bi_id bs)"

definition invariant_definition_digest :: "business_invariant list \<Rightarrow> py_error + string" where
  "invariant_definition_digest bs = bind_res (canonical_declarations bs) digest_of"

end
