(* ===== verification/InvariantReports.thy ===== *)
theory InvariantReports
  imports BusinessInvariants
begin

text \<open>
  Evaluation and reports of business invariants (\<open>engine/verification/business_invariants.py\<close>): each declared
  invariant against one observation, the canonical report, the admission of a report, and the comparator of
  two reports. The invariants are those the constructor returns. The texts of the \<open>json\<close> module's errors
  are the argument \<open>explain\<close>. Reasons are f-strings of the source: printing an integer of more than 4300 digits
  raises \<open>ValueError\<close>, as in Python, so the operations that print one return a sum.
\<close>

subsection \<open>Observations and outcomes\<close>

record observation =
  ob_exit_code :: "int option"
  ob_stdout :: bytes
  ob_stderr :: bytes
  ob_files :: "bytes dict"
  ob_inputs :: "bytes dict"

record invariant_outcome =
  io_id :: string
  io_phase :: invariant_phase
  io_kind :: invariant_kind
  io_passed :: bool
  io_expected :: py
  io_observed :: py
  io_reason :: string

definition outcome :: "business_invariant \<Rightarrow> bool \<Rightarrow> py \<Rightarrow> string \<Rightarrow> invariant_outcome" where
  "outcome b passed observed reason =
     \<lparr>io_id = bi_id b, io_phase = bi_phase b, io_kind = bi_kind b, io_passed = passed,
      io_expected = bi_expected b, io_observed = observed, io_reason = reason\<rparr>"

definition bytes_marker :: "bytes \<Rightarrow> py" where
  "bytes_marker b = PDict [(''$bytes_hex'', PStr (hex_bytes b))]"

subsection \<open>Reading the source\<close>

text \<open>\<open>content.decode("utf-8")\<close>, \<open>None\<close> when it is not UTF-8.\<close>

definition decoded_source :: "bytes \<Rightarrow> py_error + string option" where
  "decoded_source b =
     (case utf8_decode b of
        Inr s \<Rightarrow> Inr (Some s)
      | Inl Malformed \<Rightarrow> Inr None
      | Inl _ \<Rightarrow> Inl OutsideModel)"

definition read_source :: "business_invariant \<Rightarrow> observation \<Rightarrow> py_error + (bytes option \<times> string)" where
  "read_source b ob =
     (if bi_source b = STDOUT then Inr (Some (ob_stdout ob), ''STDOUT'')
      else if bi_source b = STDERR then Inr (Some (ob_stderr ob), ''STDERR'')
      else (case bi_source_name b of
        None \<Rightarrow> Inl AssertionError
      | Some n \<Rightarrow>
          if bi_source b = FILE then Inr (map_of (ob_files ob) n, ''FILE:'' @ n)
          else if bi_source b = INPUT then Inr (map_of (ob_inputs ob) n, ''INPUT:'' @ n)
          else Inr (None, source_value (bi_source b))))"

text \<open>\<open>str.splitlines\<close> of 8-bit text.\<close>

definition is_line_break :: "char \<Rightarrow> bool" where
  "is_line_break c = (let n = (of_char c :: nat) in 10 \<le> n \<and> n \<le> 13 \<or> 28 \<le> n \<and> n \<le> 30 \<or> n = 133)"

fun text_lines :: "string \<Rightarrow> string list" where
  "text_lines [] = []"
| "text_lines (c # s) =
     (if c = CHR 0x0D \<and> s \<noteq> [] \<and> hd s = CHR 0x0A then [] # text_lines (tl s)
      else if is_line_break c then [] # text_lines s
      else (case text_lines s of [] \<Rightarrow> [[c]] | l # ls \<Rightarrow> (c # l) # ls))"

definition split_records :: "bytes \<Rightarrow> nat \<Rightarrow> bytes list" where
  "split_records content n = map (\<lambda>i. take n (drop (i * n) content)) [0..<length content div n]"

definition field_of :: "business_invariant \<Rightarrow> bytes \<Rightarrow> bytes" where
  "field_of b r = take (nat (the (bi_length b))) (drop (nat (the (bi_offset b))) r)"

text \<open>The text of a field as an exact signed integer.\<close>

definition numeric_token :: "bytes \<Rightarrow> string option" where
  "numeric_token b =
     (if \<not> list_all (\<lambda>c. (of_char c :: nat) < 128) b then None
      else
        let t = strip b; ds = (if t \<noteq> [] \<and> hd t \<in> {CHR ''+'', CHR ''-''} then tl t else t)
        in if ds \<noteq> [] \<and> all_digits ds then Some t else None)"

subsection \<open>Evaluation\<close>

text \<open>A reason that quotes a declared integer or the exit code formats it, and so raises above Python's limit
  of digits; the lengths and positions of content that exists are far below it.\<close>

definition evaluate_exit_code :: "business_invariant \<Rightarrow> observation \<Rightarrow> py_error + invariant_outcome" where
  "evaluate_exit_code b ob =
     (case ob_exit_code ob of
        None \<Rightarrow> Inr (outcome b False (PStr ''MISSING'') ''execution reported no exit code'')
      | Some c \<Rightarrow>
          if py_eq (PInt c) (bi_expected b) then Inr (outcome b True (PInt c) ''exit code matched'')
          else
            bind_res (format_int c) (\<lambda>actual.
            bind_res (format_value (bi_expected b)) (\<lambda>expected.
            Inr (outcome b False (PInt c) (''exit code '' @ actual @ '' != expected '' @ expected)))))"

definition evaluate_lines :: "business_invariant \<Rightarrow> bytes \<Rightarrow> string \<Rightarrow> py_error + invariant_outcome" where
  "evaluate_lines b content label =
     bind_res (decoded_source content) (\<lambda>decoded. case decoded of
       None \<Rightarrow> Inr (outcome b False (bytes_marker content)
                 (label @ '' is not valid UTF-8; exact line comparison refused''))
     | Some s \<Rightarrow>
         let lines = text_lines s; n = int (length lines) in
         if bi_kind b = EXACT_LINES then
           Inr (if py_eq (PTuple (map PStr lines)) (bi_expected b)
                then outcome b True (PList (map PStr lines)) (label @ '' lines matched exactly'')
                else outcome b False (PList (map PStr lines))
                       (label @ '' lines differ from the declared exact sequence''))
         else if bi_expected b = PInt n then Inr (outcome b True (PInt n) (label @ '' line count matched''))
         else
           bind_res (format_value (bi_expected b)) (\<lambda>expected.
           Inr (outcome b False (PInt n) (label @ '' has '' @ show_int n @ '' line(s), expected '' @ expected))))"

text \<open>The content in whole records, or why it has none.\<close>

definition not_divisible :: "business_invariant \<Rightarrow> bytes \<Rightarrow> string \<Rightarrow> nat \<Rightarrow> py_error + invariant_outcome" where
  "not_divisible b content label n =
     bind_res (format_int (int n)) (\<lambda>record_length.
     Inr (outcome b False (PInt (int (length content)))
       (label @ '' length '' @ show_nat (length content) @ '' is not divisible by record_length '' @ record_length)))"

definition evaluate_record_count ::
  "business_invariant \<Rightarrow> bytes \<Rightarrow> string \<Rightarrow> nat \<Rightarrow> py_error + invariant_outcome" where
  "evaluate_record_count b content label n =
     (let k = int (length content div n) in
      if length content mod n \<noteq> 0 then not_divisible b content label n
      else if bi_expected b = PInt k then Inr (outcome b True (PInt k) (label @ '' record count matched''))
      else
        bind_res (format_value (bi_expected b)) (\<lambda>expected.
        Inr (outcome b False (PInt k) (label @ '' has '' @ show_int k @ '' record(s), expected '' @ expected))))"

definition checked_indexes :: "business_invariant \<Rightarrow> bytes list \<Rightarrow> nat list" where
  "checked_indexes b rs = (case bi_record_index b of Some i \<Rightarrow> [nat i] | None \<Rightarrow> [0..<length rs])"

definition out_of_range :: "business_invariant \<Rightarrow> string \<Rightarrow> nat \<Rightarrow> nat \<Rightarrow> py_error + invariant_outcome" where
  "out_of_range b label n i =
     bind_res (format_int (int i)) (\<lambda>index.
     Inr (outcome b False (PInt (int n))
       (''record_index '' @ index @ '' is out of range for '' @ show_nat n @ '' record(s) in '' @ label)))"

definition show_nats :: "nat list \<Rightarrow> string" where
  "show_nats ns = ''['' @ join '', '' (map show_nat ns) @ '']''"

definition evaluate_field_equals ::
  "business_invariant \<Rightarrow> bytes \<Rightarrow> string \<Rightarrow> nat \<Rightarrow> py_error + invariant_outcome" where
  "evaluate_field_equals b content label n =
     (let rs = split_records content n; indexes = checked_indexes b rs;
          mismatched = filter (\<lambda>i. PBytes (field_of b (rs ! i)) \<noteq> bi_expected b) indexes;
          observed = (if bi_record_index b \<noteq> None then bytes_marker (field_of b (rs ! hd indexes))
                      else PDict [(''records_checked'', PInt (int (length indexes))),
                                  (''mismatched'', PList (map (\<lambda>i. PInt (int i)) mismatched))])
      in if length content mod n \<noteq> 0 then not_divisible b content label n
         else if rs = [] then Inr (outcome b False (PInt 0) (label @ '' contains no complete records''))
         else
           (case List.find (\<lambda>i. length rs \<le> i) indexes of
              Some i \<Rightarrow> out_of_range b label (length rs) i
            | None \<Rightarrow>
                if mismatched = [] then Inr (outcome b True observed (label @ '' fixed field matched exactly''))
                else Inr (outcome b False observed
                       (label @ '' fixed field differs at record(s) '' @ show_nats mismatched))))"

text \<open>The sum of the fields, or the record that has none.\<close>

datatype field_failure = NoRecord nat | NoInteger nat bytes

fun sum_fields :: "(bytes \<Rightarrow> bytes) \<Rightarrow> bytes list \<Rightarrow> dec \<Rightarrow> nat list \<Rightarrow> field_failure + dec" where
  "sum_fields field rs acc [] = Inr acc"
| "sum_fields field rs acc (i # is) =
     (if length rs \<le> i then Inl (NoRecord i)
      else (case numeric_token (field (rs ! i)) of
              None \<Rightarrow> Inl (NoInteger i (field (rs ! i)))
            | Some t \<Rightarrow>
                (case decimal_of_text t of
                   Finite d \<Rightarrow> sum_fields field rs (dec_add acc d) is
                 | _ \<Rightarrow> Inl (NoInteger i (field (rs ! i))))))"

definition evaluate_field_total :: "business_invariant \<Rightarrow> bytes \<Rightarrow> string \<Rightarrow> nat \<Rightarrow> py_error + invariant_outcome" where
  "evaluate_field_total b content label n =
     (let rs = split_records content n in
      if length content mod n \<noteq> 0 then not_divisible b content label n
      else if rs = [] then Inr (outcome b False (PInt 0) (label @ '' contains no complete records''))
      else (case sum_fields (field_of b) rs (dec_of_int 0) (checked_indexes b rs) of
        Inl (NoRecord i) \<Rightarrow> out_of_range b label (length rs) i
      | Inl (NoInteger i f) \<Rightarrow>
          Inr (outcome b False (bytes_marker f)
            (label @ '' record '' @ show_nat i @ '' field is not an exact signed integer''))
      | Inr s \<Rightarrow>
          bind_res (if bi_decimal_places b \<noteq> 0 then dec_shift (nat (bi_decimal_places b)) s else Inr s) (\<lambda>t.
          bind_res (expected_decimal (bi_expected b)) (\<lambda>e.
          let observed = PDict [(''$decimal'', PStr (dec_format t))] in
          Inr (if dec_eq t e then outcome b True observed (label @ '' fixed-field total matched'')
               else outcome b False observed (label @ '' fixed-field total '' @ dec_format t
                      @ '' != expected '' @ dec_format e))))))"

text \<open>Past the platform's word of 64 bits an index is refused before it is looked up.\<close>

definition no_such_index :: "nat \<Rightarrow> string" where
  "no_such_index i =
     (if i < 2 ^ 63 then ''list index out of range''
      else ''cannot fit '' @ repr_str ''int'' @ '' into an index-sized integer'')"

fun resolve_json_path :: "py \<Rightarrow> json_token list \<Rightarrow> string + py" where
  "resolve_json_path v [] = Inr v"
| "resolve_json_path v (TIndex i # ts) =
     (case v of
        PList xs \<Rightarrow> if i < length xs then resolve_json_path (xs ! i) ts else Inl (no_such_index i)
      | _ \<Rightarrow> Inl (''cannot index non-list with ['' @ show_nat i @ '']''))"
| "resolve_json_path v (TName k # ts) =
     (case v of
        PDict fs \<Rightarrow> (case map_of fs k of Some w \<Rightarrow> resolve_json_path w ts | None \<Rightarrow> Inl (repr_str k))
      | _ \<Rightarrow> Inl (''cannot read '' @ repr_str k @ '' from non-object''))"

definition equals_text :: "dec \<Rightarrow> string \<Rightarrow> bool" where
  "equals_text d s = (case decimal_of_text s of Finite e \<Rightarrow> dec_eq d e | _ \<Rightarrow> False)"

text \<open>Equality where an expected string can stand for a decimal.\<close>

definition json_equal :: "py \<Rightarrow> py \<Rightarrow> bool" where
  "json_equal actual expected =
     (case actual of
        PDec d \<Rightarrow>
          (case expected of
             PDec e \<Rightarrow> dec_eq d e
           | PInt i \<Rightarrow> dec_eq d (dec_of_int i)
           | PStr s \<Rightarrow> equals_text d s
           | _ \<Rightarrow> False)
      | PInt n \<Rightarrow>
          (case expected of
             PDec e \<Rightarrow> dec_eq (dec_of_int n) e
           | PStr s \<Rightarrow> equals_text (dec_of_int n) s
           | _ \<Rightarrow> py_eq actual expected)
      | _ \<Rightarrow> py_eq actual expected)"

definition load_raise :: "load_error \<Rightarrow> py_error" where
  "load_raise e = (case e of TooManyDigits \<Rightarrow> int_limit_error | BadDecimal \<Rightarrow> ArithmeticError | _ \<Rightarrow> OutsideModel)"

definition evaluate_json_field ::
  "(bytes \<Rightarrow> string) \<Rightarrow> business_invariant \<Rightarrow> bytes \<Rightarrow> string \<Rightarrow> py_error + invariant_outcome" where
  "evaluate_json_field explain b content label =
     bind_res (decoded_source content) (\<lambda>decoded. case decoded of
       None \<Rightarrow> Inr (outcome b False (bytes_marker content) (label @ '' is not valid UTF-8 JSON''))
     | Some s \<Rightarrow>
         (case loads_decimal s of
            Inl NotJson \<Rightarrow>
              Inr (outcome b False (PStr ''MALFORMED_JSON'') (label @ '' is not valid JSON: '' @ explain content))
          | Inl e \<Rightarrow> Inl (load_raise e)
          | Inr document \<Rightarrow>
              let path = the (bi_json_path b) in
              bind_res (json_tokens path) (\<lambda>tokens. Inr (
                case resolve_json_path document tokens of
                  Inl t \<Rightarrow> outcome b False (PStr ''MISSING_PATH'')
                             (''json_path '' @ repr_str path @ '' not found in '' @ label @ '': '' @ t)
                | Inr actual \<Rightarrow>
                    if json_equal actual (bi_expected b) then outcome b True actual (label @ '' JSON field matched'')
                    else outcome b False actual (label @ '' JSON field differs at '' @ path)))))"

definition evaluate_one ::
  "(bytes \<Rightarrow> string) \<Rightarrow> observation \<Rightarrow> business_invariant \<Rightarrow> py_error + invariant_outcome" where
  "evaluate_one explain ob b =
     (if bi_kind b = EXIT_CODE then evaluate_exit_code b ob
      else bind_res (read_source b ob) (\<lambda>(source, label). case source of
        None \<Rightarrow> Inr (outcome b False (PStr ''MISSING'') (''declared source '' @ label @ '' is missing''))
      | Some content \<Rightarrow>
          if bi_kind b \<in> {EXACT_LINES, LINE_COUNT} then evaluate_lines b content label
          else if bi_kind b = JSON_FIELD_EQUALS then evaluate_json_field explain b content label
          else (case bi_record_length b of
            None \<Rightarrow> Inl AssertionError
          | Some n \<Rightarrow>
              if bi_kind b = RECORD_COUNT then evaluate_record_count b content label (nat n)
              else if bi_kind b = FIXED_FIELD_EQUALS then evaluate_field_equals b content label (nat n)
              else evaluate_field_total b content label (nat n))))"

definition duplicates :: "string list \<Rightarrow> string list" where
  "duplicates names = sort (remdups (filter (\<lambda>n. 1 < count_list names n) names))"

definition evaluate_invariants ::
  "(bytes \<Rightarrow> string) \<Rightarrow> business_invariant list \<Rightarrow> observation \<Rightarrow> py_error + invariant_outcome list" where
  "evaluate_invariants explain bs ob =
     (let ds = duplicates (map bi_id bs) in
      if ds \<noteq> [] then Inl (ValueError (''Duplicate invariant_id(s): '' @ show_str_list ds))
      else traverse (evaluate_one explain ob) (sort_key bi_id bs))"

subsection \<open>Reports\<close>

record invariant_report =
  rp_digest :: string
  rp_definitions :: "json list"
  rp_outcomes :: "invariant_outcome list"

definition overall :: "invariant_outcome list \<Rightarrow> string" where
  "overall outcomes = (if outcomes \<noteq> [] \<and> list_all io_passed outcomes then ''PASS'' else ''FAIL'')"

definition outcome_json :: "invariant_outcome \<Rightarrow> py_error + json" where
  "outcome_json i =
     bind_res (canonical_value (io_expected i)) (\<lambda>e.
     bind_res (canonical_value (io_observed i)) (\<lambda>v. Inr (JObj
       [(''invariant_id'', JStr (io_id i)), (''phase'', JStr (phase_value (io_phase i))),
        (''kind'', JStr (kind_value (io_kind i))), (''passed'', JBool (io_passed i)),
        (''expected'', e), (''observed'', v), (''reason'', JStr (io_reason i))])))"

definition build_report ::
  "(bytes \<Rightarrow> string) \<Rightarrow> business_invariant list \<Rightarrow> observation \<Rightarrow> py_error + invariant_report" where
  "build_report explain bs ob =
     (if bs = [] then Inl (ValueError (''Cannot build a business-invariant report with no invariants: ''
                            @ ''an empty report never certifies equivalence''))
      else
        bind_res (canonical_declarations bs) (\<lambda>definitions.
        bind_res (digest_of definitions) (\<lambda>digest.
        bind_res (evaluate_invariants explain bs ob) (\<lambda>outcomes.
        Inr \<lparr>rp_digest = digest, rp_definitions = definitions, rp_outcomes = outcomes\<rparr>))))"

definition report_json :: "invariant_report \<Rightarrow> py_error + json" where
  "report_json r =
     bind_res (traverse outcome_json (rp_outcomes r)) (\<lambda>outcomes. Inr (JObj
       [(''schema_version'', JStr ''1.0''), (''definition_digest'', JStr (rp_digest r)),
        (''definitions'', JList (rp_definitions r)), (''overall'', JStr (overall (rp_outcomes r))),
        (''evaluated_count'', JInt (int (length (rp_outcomes r)))),
        (''failed_count'', JInt (int (length (filter (\<lambda>i. \<not> io_passed i) (rp_outcomes r))))),
        (''outcomes'', JList outcomes)]))"

definition report_bytes :: "invariant_report \<Rightarrow> py_error + bytes" where
  "report_bytes r = bind_res (report_json r) (\<lambda>v. bind_res (canonical_json v) (\<lambda>t. Inr (utf8_encode t)))"

subsection \<open>Admission\<close>

type_synonym members = "(string \<times> py) list"

record admitted_report =
  ad_digest :: string
  ad_definitions :: "members list"
  ad_overall :: string
  ad_outcomes :: "members list"

definition get :: "members \<Rightarrow> string \<Rightarrow> py" where
  "get fs k = (case map_of fs k of None \<Rightarrow> PNone | Some v \<Rightarrow> v)"

text \<open>\<open>v in {...}\<close> for a set of strings.\<close>

definition in_values :: "py \<Rightarrow> string list \<Rightarrow> py_error + bool" where
  "in_values v values = (if hashable v then Inr (\<exists>s \<in> set values. v = PStr s) else Inl TypeError)"

definition require_value :: "py \<Rightarrow> string list \<Rightarrow> string \<Rightarrow> py_error + unit" where
  "require_value v values message = bind_res (in_values v values) (\<lambda>ok. require ok (message @ value_repr v))"

definition definition_fields :: "string list" where
  "definition_fields =
     [''invariant_id'', ''kind'', ''source'', ''phase'', ''source_name'', ''expected'', ''record_length'', ''offset'',
      ''length'', ''record_index'', ''decimal_places'', ''json_path'', ''description'']"

definition outcome_fields :: "string list" where
  "outcome_fields = [''invariant_id'', ''phase'', ''kind'', ''passed'', ''expected'', ''observed'', ''reason'']"

text \<open>An entry that is an object with exactly these fields.\<close>

definition entry_with :: "string \<Rightarrow> string list \<Rightarrow> py \<Rightarrow> py_error + members" where
  "entry_with what required v =
     (case v of
        PDict fs \<Rightarrow>
          let given = map fst fs in
          if set given \<noteq> set required
          then Inl (ValueError (what @ '' fields mismatch: missing=''
                 @ show_str_list (sort (filter (\<lambda>k. k \<notin> set given) required))
                 @ '' extra='' @ show_str_list (sort (filter (\<lambda>k. k \<notin> set required) given))))
          else Inr fs
      | _ \<Rightarrow> Inl (ValueError (what @ '' entries must be JSON objects'')))"

definition admit_definition :: "py \<Rightarrow> py_error + members" where
  "admit_definition v =
     bind_res (entry_with ''definition'' definition_fields v) (\<lambda>fs.
     bind_res (require_value (get fs ''kind'') kind_values ''invalid definition kind '') (\<lambda>_.
     bind_res (require_value (get fs ''source'') source_values ''invalid definition source '') (\<lambda>_.
     bind_res (require_value (get fs ''phase'') phase_values ''invalid definition phase '') (\<lambda>_. Inr fs))))"

definition admit_outcome :: "py \<Rightarrow> py_error + members" where
  "admit_outcome v =
     bind_res (entry_with ''outcome'' outcome_fields v) (\<lambda>fs.
     bind_res (require (is_text_value (get fs ''reason'')) ''outcome reason must be a string'') (\<lambda>_. Inr fs))"

definition is_bool :: "py \<Rightarrow> bool" where
  "is_bool v = (case v of PBool _ \<Rightarrow> True | _ \<Rightarrow> False)"

definition check_outcome :: "members \<Rightarrow> py_error + unit" where
  "check_outcome fs =
     bind_res (require_value (get fs ''phase'') phase_values ''invalid outcome phase '') (\<lambda>_.
     bind_res (require_value (get fs ''kind'') kind_values ''invalid outcome kind '') (\<lambda>_.
     require (is_bool (get fs ''passed'')) ''outcome passed must be a boolean''))"

definition entry_id :: "members \<Rightarrow> string" where
  "entry_id fs = value_str (get fs ''invariant_id'')"

definition outcome_passed :: "members \<Rightarrow> bool" where
  "outcome_passed fs = (get fs ''passed'' = PBool True)"

definition load_report :: "(bytes \<Rightarrow> string) \<Rightarrow> bytes \<Rightarrow> py_error + members" where
  "load_report explain content =
     (let invalid = Inl (ValueError (''business-invariant report is not valid JSON: '' @ explain content)) in
      bind_res (decoded_source content) (\<lambda>decoded. case decoded of
        None \<Rightarrow> invalid
      | Some s \<Rightarrow>
          (case loads_decimal s of
             Inl NotJson \<Rightarrow> invalid
           | Inl e \<Rightarrow> Inl (load_raise e)
           | Inr (PDict fs) \<Rightarrow> Inr fs
           | Inr _ \<Rightarrow> Inl (ValueError ''business-invariant report must be a JSON object''))))"

definition nonempty_list :: "py \<Rightarrow> string \<Rightarrow> py_error + py list" where
  "nonempty_list v message =
     (case v of PList (x # xs) \<Rightarrow> Inr (x # xs) | _ \<Rightarrow> Inl (ValueError message))"

definition check_digest :: "py \<Rightarrow> py_error + string" where
  "check_digest v =
     (case v of
        PStr d \<Rightarrow>
          if length d = 64 then Inr d else Inl (ValueError ''business-invariant report has an invalid definition_digest'')
      | _ \<Rightarrow> Inl (ValueError ''business-invariant report has an invalid definition_digest''))"

definition check_overall :: "py \<Rightarrow> py_error + string" where
  "check_overall v =
     (if v = PStr ''PASS'' then Inr ''PASS'' else if v = PStr ''FAIL'' then Inr ''FAIL''
      else Inl (ValueError (''invalid overall status '' @ value_repr v)))"

definition admit_report :: "(bytes \<Rightarrow> string) \<Rightarrow> bytes \<Rightarrow> py_error + admitted_report" where
  "admit_report explain content =
     bind_res (load_report explain content) (\<lambda>doc.
     bind_res (require (get doc ''schema_version'' = PStr ''1.0'')
       (''unsupported business-invariant report schema_version '' @ value_repr (get doc ''schema_version''))) (\<lambda>_.
     bind_res (nonempty_list (get doc ''definitions'') ''business-invariant report declares no definitions'') (\<lambda>defs.
     bind_res (nonempty_list (get doc ''outcomes'') ''business-invariant report declares no outcomes'') (\<lambda>outs.
     bind_res (check_digest (get doc ''definition_digest'')) (\<lambda>digest.
     bind_res (check_overall (get doc ''overall'')) (\<lambda>status.
     bind_res (traverse admit_definition defs) (\<lambda>definitions.
     bind_res (traverse (\<lambda>fs. json_of_py (PDict fs)) definitions) (\<lambda>texts.
     bind_res (digest_of texts) (\<lambda>recomputed.
     bind_res (require (recomputed = digest)
       ''business-invariant report definition_digest does not match its definitions'') (\<lambda>_.
     bind_res (traverse admit_outcome outs) (\<lambda>outcomes.
     bind_res (require (sort (map entry_id definitions) = sort (map entry_id outcomes))
       ''business-invariant report outcomes do not match declared invariants exactly'') (\<lambda>_.
     bind_res (traverse check_outcome outcomes) (\<lambda>_.
     let computed = (if list_all outcome_passed outcomes then ''PASS'' else ''FAIL'') in
     bind_res (require (computed = status)
       (''business-invariant report overall='' @ repr_str status @ '' contradicts its outcomes ('' @ computed @ '')'')) (\<lambda>_.
     Inr \<lparr>ad_digest = digest, ad_definitions = definitions, ad_overall = status, ad_outcomes = outcomes\<rparr>))))))))))))))"

subsection \<open>The comparator\<close>

definition invariant_comparator_id :: comparator_id where
  "invariant_comparator_id = \<lparr>cid_id = ''BUSINESS_INVARIANT_COMPARATOR'', cid_version = ''1.0.0''\<rparr>"

definition failed_outcomes :: "string \<Rightarrow> string \<Rightarrow> admitted_report \<Rightarrow> comparison_difference list" where
  "failed_outcomes side lower_side r =
     map (\<lambda>fs. difference (lower_side @ '':'' @ value_str (get fs ''invariant_id'')) (value_str (get fs ''expected''))
             (value_str (get fs ''observed''))
             (side @ '' invariant '' @ value_repr (get fs ''invariant_id'') @ '' ('' @ value_str (get fs ''phase'')
              @ '') failed: '' @ value_str (get fs ''reason'')))
       (filter (\<lambda>fs. \<not> outcome_passed fs) (ad_outcomes r))"

definition compare_admitted ::
  "artifact_identity \<Rightarrow> artifact_identity \<Rightarrow> admitted_report \<Rightarrow> admitted_report \<Rightarrow> comparator_result" where
  "compare_admitted oa ca oracle candidate =
     (if ad_digest oracle \<noteq> ad_digest candidate
         \<or> \<not> py_eq_list (map PDict (ad_definitions oracle)) (map PDict (ad_definitions candidate))
      then mk_result invariant_comparator_id oa ca INCONCLUSIVE
             [difference ''business_invariant_definitions'' (ad_digest oracle) (ad_digest candidate)
                (''Oracle and candidate business-invariant reports were evaluated against different declarations; ''
                 @ ''equivalence is not decidable'')] []
      else if ad_overall oracle = ''PASS'' \<and> ad_overall candidate = ''PASS''
      then mk_result invariant_comparator_id oa ca MATCH [] []
      else mk_result invariant_comparator_id oa ca MISMATCH
             (failed_outcomes ''Oracle'' ''oracle'' oracle @ failed_outcomes ''Candidate'' ''candidate'' candidate) [])"

definition admit_pair ::
  "(bytes \<Rightarrow> string) \<Rightarrow> bytes \<Rightarrow> bytes \<Rightarrow> py_error + (admitted_report \<times> admitted_report)" where
  "admit_pair explain oc cc =
     bind_res (admit_report explain oc) (\<lambda>o'.
     bind_res (admit_report explain cc) (\<lambda>c. Inr (o', c)))"

definition business_invariant_compare :: "(bytes \<Rightarrow> string) \<Rightarrow> compare_fn" where
  "business_invariant_compare explain oa oc ca cc norm ord fp =
     (if norm \<noteq> None \<and> norm \<noteq> Some []
      then Inl (ValueError (''BUSINESS_INVARIANT comparison does not accept normalization: ''
             @ value_repr (PTuple (map PStr (the norm)))))
      else if ord \<noteq> ''SEQUENTIAL''
      then Inl (ValueError (''BUSINESS_INVARIANT comparison only supports SEQUENTIAL ordering, got '' @ repr_str ord))
      else (case handle_missing invariant_comparator_id oa ca oc cc fp of
        Some r \<Rightarrow> Inr r
      | None \<Rightarrow>
          (case admit_pair explain (the oc) (the cc) of
             Inl (ValueError t) \<Rightarrow>
               Inr ((mk_result invariant_comparator_id oa ca INCONCLUSIVE
                 [difference ''business_invariant_report'' ''self-consistent canonical report''
                    ''malformed or inconsistent report'' (''Business-invariant report failed admission: '' @ t)] [])
                 \<lparr>cr_failure_policy := (case fp of None \<Rightarrow> [] | Some p \<Rightarrow> p)\<rparr>)
           | Inl e \<Rightarrow> Inl e
           | Inr (oracle, candidate) \<Rightarrow> Inr (compare_admitted oa ca oracle candidate))))"

end
