(* ===== verification/Pipeline.thy ===== *)
theory Pipeline
  imports Execution IndexedRecords Verdict InvariantReports
begin

text \<open>
  The validation pipeline (\<open>engine/pipeline.py\<close>) from the two execution results on: which observations
  are compared, with which comparator and under which policy, the evidence made of them, and the
  verdict. What the pipeline reads from the file system (source and candidate identities, the names of
  keyed files and the effect channels found in the source text) is an argument, and so are the texts of
  the \<open>json\<close> module's errors, which a comparison of invariant reports can quote.
\<close>

subsection \<open>Declarations\<close>

text \<open>\<open>WorkloadArtifact\<close>: the policies are given by the one attribute the pipeline reads of each.\<close>

record workload_artifact =
  wa_logical_name :: string
  wa_artifact_type :: string
  wa_comparator_id :: string
  wa_output_path :: "string option"
  wa_normalization :: "string list option"
  wa_ordering :: "string option"
  wa_failure :: "string option"
  wa_record_length :: "int option"

definition declared_types :: "string list" where
  "declared_types = [''STDOUT'', ''STDERR'', ''EXIT_STATUS'', ''TEXT_FILE'', ''FIXED_RECORD'']"

definition mk_workload_artifact :: "workload_artifact \<Rightarrow> py_error + workload_artifact" where
  "mk_workload_artifact a =
     (if wa_artifact_type a \<notin> set declared_types
      then Inl (ValueError (''Invalid artifact_type='' @ repr_str (wa_artifact_type a) @ ''. Valid: ''
             @ show_str_list (sort declared_types)))
      else if wa_artifact_type a \<in> {''TEXT_FILE'', ''FIXED_RECORD''} \<and> wa_output_path a = None
      then Inl (ValueError (''artifact_type='' @ repr_str (wa_artifact_type a) @ '' requires output_path''))
      else if wa_artifact_type a = ''FIXED_RECORD'' \<and> (\<exists>n. wa_record_length a = Some n \<and> n \<le> 0)
      then Inl (ValueError (''record_length must be > 0, got '' @ show_int (the (wa_record_length a))))
      else Inr a)"

definition plain_artifact :: "string \<Rightarrow> string \<Rightarrow> string \<Rightarrow> string option \<Rightarrow> string option \<Rightarrow> workload_artifact" where
  "plain_artifact logical_name artifact_type comparator out_path failure =
     \<lparr>wa_logical_name = logical_name, wa_artifact_type = artifact_type, wa_comparator_id = comparator,
      wa_output_path = out_path, wa_normalization = None, wa_ordering = None, wa_failure = failure,
      wa_record_length = None\<rparr>"

text \<open>A name not in use yet, by appending \<open>-required\<close> as often as needed.\<close>

lemma longer_names_shrink:
  "n \<in> set names \<Longrightarrow> card {m \<in> set names. length (n @ ''-required'') \<le> length m}
    < card {m \<in> set names. length n \<le> length m}"
proof (rule psubset_card_mono)
  assume n: "n \<in> set names"
  have "n \<in> {m \<in> set names. length n \<le> length m}" "n \<notin> {m \<in> set names. length (n @ ''-required'') \<le> length m}"
    using n by simp_all
  moreover have "{m \<in> set names. length (n @ ''-required'') \<le> length m} \<subseteq> {m \<in> set names. length n \<le> length m}"
    by auto
  ultimately show "{m \<in> set names. length (n @ ''-required'') \<le> length m} \<subset> {m \<in> set names. length n \<le> length m}"
    by blast
qed simp

function fresh_name :: "string list \<Rightarrow> string \<Rightarrow> string" where
  "fresh_name names n = (if n \<in> set names then fresh_name names (n @ ''-required'') else n)"
  by pat_completeness auto
termination
  by (relation "measure (\<lambda>(names, n). card {m \<in> set names. length n \<le> length m})", simp)
    (simp only: in_measure split_conv longer_names_shrink)

declare fresh_name.simps [simp del]

definition required_observations :: "(string \<times> string \<times> string) list" where
  "required_observations =
     [(''STDOUT'', ''stdout'', ''stdout-exact''), (''STDERR'', ''stderr'', ''stderr-exact''),
      (''EXIT_STATUS'', ''exit-status'', ''exit-status-exact'')]"

text \<open>Stdout, stderr and exit status are compared whether declared or not.\<close>

fun add_required :: "(string \<times> string \<times> string) list \<Rightarrow> string list \<Rightarrow> workload_artifact list \<Rightarrow> workload_artifact list" where
  "add_required [] names artifacts = artifacts"
| "add_required ((t, n, c) # rest) names artifacts =
     (if \<exists>a \<in> set artifacts. wa_artifact_type a = t then add_required rest names artifacts
      else
        let name = fresh_name names n in
        add_required rest (name # names) (artifacts @ [plain_artifact name t c None None]))"

definition compared_artifacts :: "workload_artifact list \<Rightarrow> workload_artifact list" where
  "compared_artifacts declared = add_required required_observations (map wa_logical_name declared) declared"

subsection \<open>Extraction and capture\<close>

definition extract_artifact_content ::
  "string \<Rightarrow> string option \<Rightarrow> ('a) execution_result_scheme \<Rightarrow> bytes option" where
  "extract_artifact_content artifact_type output_path r =
     (if artifact_type = ''STDOUT'' then Some (er_stdout r)
      else if artifact_type = ''STDERR'' then Some (er_stderr r)
      else if artifact_type = ''EXIT_STATUS''
      then Some (show_int (case er_exit_code r of None \<Rightarrow> - 1 | Some c \<Rightarrow> c))
      else if artifact_type \<in> {''TEXT_FILE'', ''FIXED_RECORD''}
      then (if is_truthy output_path then map_of (generated_files r) (the output_path) else None)
      else None)"

definition capture_artifact ::
  "string \<Rightarrow> string \<Rightarrow> execution_id \<Rightarrow> bytes option \<Rightarrow> string \<Rightarrow> string \<Rightarrow> int option \<Rightarrow> py_error + captured_artifact" where
  "capture_artifact now artifact_type exec content logical_name producer_role record_length =
     (case content of
        None \<Rightarrow> capture_missing now exec artifact_type logical_name producer_role
      | Some b \<Rightarrow>
          if artifact_type = ''STDOUT'' then capture_stdout now exec b logical_name producer_role
          else if artifact_type = ''STDERR'' then capture_stderr now exec b logical_name producer_role
          else if artifact_type = ''EXIT_STATUS'' then
            (case int_of_bytes b of
               None \<Rightarrow> Inl (ValueError ''invalid literal for int()'')
             | Some c \<Rightarrow> capture_exit_status now exec c producer_role)
          else if artifact_type = ''TEXT_FILE''
          then capture_text_file_from_bytes now exec b logical_name producer_role
          else if artifact_type = ''FIXED_RECORD''
          then capture_fixed_record now exec b logical_name producer_role record_length
          else Inl (ValueError (''Unsupported artifact_type: '' @ artifact_type)))"

subsection \<open>Comparison evidence\<close>

type_synonym compared = "captured_artifact \<times> captured_artifact \<times> comparison_evidence"

definition make_comparison_evidence ::
  "run_id \<Rightarrow> string \<Rightarrow> string \<Rightarrow> captured_artifact \<Rightarrow> captured_artifact \<Rightarrow> comparator_result \<Rightarrow> comparison_evidence" where
  "make_comparison_evidence run logical_name artifact_type oracle_ca candidate_ca r =
     \<lparr>ce_id = ''comp-'' @ logical_name @ ''-'' @ run, ce_run_id = run,
      ce_comparator_id = cid_id (cr_comparator_id r), ce_comparator_version = cid_version (cr_comparator_id r),
      ce_oracle_artifact_id = ai_id (cap_artifact oracle_ca),
      ce_candidate_artifact_id = ai_id (cap_artifact candidate_ca),
      ce_artifact_type = artifact_type, ce_result = result_value (cr_result r),
      ce_normalization_applied = cr_normalization r, ce_differences = map cd_description (cr_differences r),
      ce_field_level_results = [],
      ce_content_hash = hash_from_string (json_dumps (JObj
        [(''result'', JStr (result_value (cr_result r))),
         (''differences'', JList (map (\<lambda>d. JObj
            [(''location'', JStr (cd_location d)), (''expected'', JStr (cd_expected d)),
             (''actual'', JStr (cd_actual d))]) (cr_differences r)))])),
      ce_ordering_applied = cr_ordering r, ce_failure_policy = cr_failure_policy r, ce_workload_id = None\<rparr>"

text \<open>INCONCLUSIVE evidence with one difference, bound to a comparator.\<close>

definition inconclusive_comparison ::
  "run_id \<Rightarrow> string \<Rightarrow> string \<Rightarrow> captured_artifact \<Rightarrow> captured_artifact \<Rightarrow> comparator_id \<Rightarrow> string \<Rightarrow> comparison_evidence" where
  "inconclusive_comparison run logical_name artifact_type oracle_ca candidate_ca cid diff =
     \<lparr>ce_id = ''comp-'' @ logical_name @ ''-'' @ run, ce_run_id = run,
      ce_comparator_id = cid_id cid, ce_comparator_version = cid_version cid,
      ce_oracle_artifact_id = ai_id (cap_artifact oracle_ca),
      ce_candidate_artifact_id = ai_id (cap_artifact candidate_ca),
      ce_artifact_type = artifact_type, ce_result = ''INCONCLUSIVE'', ce_normalization_applied = [],
      ce_differences = [diff], ce_field_level_results = [],
      ce_content_hash = hash_from_string (json_dumps (JObj
        [(''result'', JStr ''INCONCLUSIVE''), (''differences'', JList [JStr diff])])),
      ce_ordering_applied = ''SEQUENTIAL'', ce_failure_policy = [], ce_workload_id = None\<rparr>"

text \<open>The comparison a registered comparator makes.\<close>

fun compare_with :: "(bytes \<Rightarrow> string) \<Rightarrow> comparator \<Rightarrow> compare_fn" where
  "compare_with explain StdoutComparator = stdout_compare"
| "compare_with explain StderrComparator = stderr_compare"
| "compare_with explain ExitStatusComparator = exit_status_compare"
| "compare_with explain TextFileComparator = text_file_compare"
| "compare_with explain FixedRecordComparator = fixed_record_compare"
| "compare_with explain BusinessInvariantComparator = business_invariant_compare explain"


subsection \<open>Declared artifacts\<close>

text \<open>The arguments every step shares: the run, the clock, the registry, the two results and the texts
  of malformed JSON.\<close>

record comparison_context =
  cx_now :: string
  cx_run_id :: run_id
  cx_registry :: registry
  cx_oracle :: oracle_execution_result
  cx_candidate :: execution_result
  cx_explain :: "bytes \<Rightarrow> string"

definition capture_pair ::
  "comparison_context \<Rightarrow> string \<Rightarrow> string \<Rightarrow> int option \<Rightarrow> bytes option \<Rightarrow> bytes option
     \<Rightarrow> py_error + (captured_artifact \<times> captured_artifact)" where
  "capture_pair cx artifact_type logical_name record_length oc cc =
     bind_res (capture_artifact (cx_now cx) artifact_type (er_execution_id (cx_oracle cx)) oc logical_name
       ''ORACLE'' record_length) (\<lambda>oracle_ca.
     bind_res (capture_artifact (cx_now cx) artifact_type (er_execution_id (cx_candidate cx)) cc logical_name
       ''CANDIDATE'' record_length) (\<lambda>candidate_ca. Inr (oracle_ca, candidate_ca)))"

text \<open>The comparator of the type, refused when the declaration names another one.\<close>

definition bound_comparator :: "registry \<Rightarrow> workload_artifact \<Rightarrow> py_error + comparator" where
  "bound_comparator registry a =
     (case registry_get registry (wa_artifact_type a) of
        None \<Rightarrow> Inl (ValueError (''No comparator registered for artifact_type='' @ repr_str (wa_artifact_type a)))
      | Some comparator \<Rightarrow>
          let declared_id = strip (wa_comparator_id a);
              resolved = resolve_comparator_id (Some declared_id);
              registered = cid_id (comparator_ident comparator)
          in if declared_id \<noteq> [] \<and> resolved \<noteq> registered
             then Inl (ValueError (''Comparator binding mismatch for artifact_type='' @ repr_str (wa_artifact_type a)
                    @ '': declaration '' @ repr_str declared_id @ '' resolves to '' @ repr_str resolved
                    @ '' but registry provides '' @ repr_str registered))
             else Inr comparator)"

definition compare_declared :: "comparison_context \<Rightarrow> workload_artifact \<Rightarrow> py_error + compared" where
  "compare_declared cx a =
     (let oc = extract_artifact_content (wa_artifact_type a) (wa_output_path a) (cx_oracle cx);
          cc = extract_artifact_content (wa_artifact_type a) (wa_output_path a) (cx_candidate cx)
      in bind_res (capture_pair cx (wa_artifact_type a) (wa_logical_name a) (wa_record_length a) oc cc)
           (\<lambda>(oracle_ca, candidate_ca).
         bind_res (bound_comparator (cx_registry cx) a) (\<lambda>comparator.
         bind_res (compare_with (cx_explain cx) comparator
             (cap_artifact oracle_ca) (cap_content oracle_ca) (cap_artifact candidate_ca) (cap_content candidate_ca)
             (Some (case wa_normalization a of None \<Rightarrow> [] | Some ns \<Rightarrow> ns))
             (case wa_ordering a of None \<Rightarrow> ''SEQUENTIAL'' | Some ord \<Rightarrow> ord) (wa_failure a)) (\<lambda>r.
         Inr (oracle_ca, candidate_ca,
              make_comparison_evidence (cx_run_id cx) (wa_logical_name a) (wa_artifact_type a) oracle_ca candidate_ca r)))))"

subsection \<open>Undeclared files\<close>

text \<open>The files either execution wrote whose path no declaration names, in order.\<close>

definition declared_paths :: "workload_artifact list \<Rightarrow> string list" where
  "declared_paths declared = map (the \<circ> wa_output_path) (filter (\<lambda>a. is_truthy (wa_output_path a)) declared)"

definition undeclared_files :: "workload_artifact list \<Rightarrow> bytes dict \<Rightarrow> bytes dict \<Rightarrow> string list" where
  "undeclared_files declared og cg =
     sort (filter (\<lambda>n. n \<notin> set (declared_paths declared)) (remdups (map fst og @ map fst cg)))"

text \<open>\<open>name.rsplit("/", 1)[-1]\<close>.\<close>

definition base_name :: "string \<Rightarrow> string" where
  "base_name s = rev (takeWhile (\<lambda>c. c \<noteq> CHR ''/'') (rev s))"

text \<open>Names of keyed files, by organisation, as the source's SELECT clauses give them.\<close>

record keyed_files =
  kf_indexed :: "string list"
  kf_relative :: "string list"

definition is_emulated_image :: "keyed_files \<Rightarrow> string \<Rightarrow> bool" where
  "is_emulated_image kf name \<longleftrightarrow>
     (\<exists>k \<in> set (kf_indexed kf @ kf_relative kf). base_name name = k \<or> starts_with (k @ ''.'') (base_name name))"

text \<open>The contents of a file compared byte-exactly: one-sided files are mismatches.\<close>

definition compare_file ::
  "comparison_context \<Rightarrow> comparator \<Rightarrow> string \<Rightarrow> bytes option \<Rightarrow> bytes option \<Rightarrow> py_error + compared" where
  "compare_file cx comparator name oc cc =
     (let logical_name = ''generated-file:'' @ name in
      bind_res (capture_pair cx ''TEXT_FILE'' logical_name None oc cc) (\<lambda>(oracle_ca, candidate_ca).
      bind_res (compare_with (cx_explain cx) comparator
          (cap_artifact oracle_ca) (cap_content oracle_ca) (cap_artifact candidate_ca) (cap_content candidate_ca)
          (Some []) ''SEQUENTIAL'' (Some ''FAILED'')) (\<lambda>r.
      Inr (oracle_ca, candidate_ca,
           make_comparison_evidence (cx_run_id cx) logical_name ''TEXT_FILE'' oracle_ca candidate_ca r))))"

subsection \<open>Keyed files by their records\<close>

text \<open>The canonical records of both images; \<open>None\<close> when one is refused. Any other error of a reader is not
  handled, and stops the run.\<close>

datatype image_outcome = Records bytes bytes | Refused | Escaped image_error

definition read_pair ::
  "('r \<Rightarrow> bytes) \<Rightarrow> (image_error + 'r) \<Rightarrow> (image_error + 'r) \<Rightarrow> image_outcome" where
  "read_pair canonical o' c =
     (case o' of
        Inl (UnreadableImage _) \<Rightarrow> Refused
      | Inl e \<Rightarrow> Escaped e
      | Inr rs \<Rightarrow>
          (case c of
             Inl (UnreadableImage _) \<Rightarrow> Refused
           | Inl e \<Rightarrow> Escaped e
           | Inr ss \<Rightarrow> Records (canonical rs) (canonical ss)))"

text \<open>The suffix of the emulation of a file of exactly one keyed organisation.\<close>

definition image_suffix :: "keyed_files \<Rightarrow> string \<Rightarrow> string option" where
  "image_suffix kf name =
     (let i = base_name name \<in> set (kf_indexed kf); r = base_name name \<in> set (kf_relative kf) in
      if i \<and> \<not> r then Some ''.idx'' else if r \<and> \<not> i then Some ''.rel'' else None)"

definition read_images :: "string \<Rightarrow> bytes \<Rightarrow> bytes \<Rightarrow> image_outcome" where
  "read_images suffix oracle_image candidate_image =
     (if suffix = ''.idx''
      then read_pair canonical_records (bdb_btree_records oracle_image) (emulated_index_records candidate_image)
      else read_pair canonical_relative_records (gnucobol_relative_records oracle_image)
             (emulated_relative_records candidate_image))"

text \<open>The images of one keyed file: those handled with their comparison, when each is on its own side only
  and both decode.\<close>

definition compare_records_of ::
  "comparison_context \<Rightarrow> comparator \<Rightarrow> keyed_files \<Rightarrow> string
     \<Rightarrow> (image_error + py_error) + (string list \<times> compared list)" where
  "compare_records_of cx comparator kf name =
     (let og = generated_files (cx_oracle cx); cg = generated_files (cx_candidate cx) in
      case image_suffix kf name of
        None \<Rightarrow> Inr ([], [])
      | Some suffix \<Rightarrow>
          let img = name @ suffix in
          (case (map_of og name, map_of cg img) of
             (Some oracle_image, Some candidate_image) \<Rightarrow>
               if name \<in> fst ` set cg \<or> img \<in> fst ` set og then Inr ([], [])
               else (case read_images suffix oracle_image candidate_image of
                  Refused \<Rightarrow> Inr ([], [])
                | Escaped e \<Rightarrow> Inl (Inl e)
                | Records o' c \<Rightarrow>
                    (case compare_file cx comparator (name @ ''#records'') (Some o') (Some c) of
                       Inl e \<Rightarrow> Inl (Inr e)
                     | Inr x \<Rightarrow> Inr ([name, img], [x])))
           | _ \<Rightarrow> Inr ([], [])))"

definition compare_file_records ::
  "comparison_context \<Rightarrow> comparator \<Rightarrow> keyed_files \<Rightarrow> string list
     \<Rightarrow> (image_error + py_error) + (string list \<times> compared list)" where
  "compare_file_records cx comparator kf emulated =
     bind_res (traverse (compare_records_of cx comparator kf) emulated) (\<lambda>parts.
       Inr (concat (map fst parts), concat (map snd parts)))"

definition emulated_difference :: "string \<Rightarrow> string" where
  "emulated_difference name = name @ '': on-disk image of an INDEXED/RELATIVE file; the ''
     @ ''Java file organisation is an emulation, so its bytes are ''
     @ ''not comparable and its record content is not compared''"

text \<open>An image whose records were not compared stays inconclusive.\<close>

definition leave_inconclusive ::
  "comparison_context \<Rightarrow> comparator \<Rightarrow> string \<Rightarrow> bytes option \<Rightarrow> bytes option \<Rightarrow> py_error + compared" where
  "leave_inconclusive cx comparator name oc cc =
     (let logical_name = ''generated-file:'' @ name in
      bind_res (capture_pair cx ''TEXT_FILE'' logical_name None oc cc) (\<lambda>(oracle_ca, candidate_ca).
      Inr (oracle_ca, candidate_ca,
           inconclusive_comparison (cx_run_id cx) logical_name ''TEXT_FILE'' oracle_ca candidate_ca
             (comparator_ident comparator) (emulated_difference name))))"

definition compare_undeclared ::
  "comparison_context \<Rightarrow> comparator \<Rightarrow> keyed_files \<Rightarrow> string \<Rightarrow> py_error + compared" where
  "compare_undeclared cx comparator kf name =
     (let oc = map_of (generated_files (cx_oracle cx)) name; cc = map_of (generated_files (cx_candidate cx)) name in
      if is_emulated_image kf name then leave_inconclusive cx comparator name oc cc
      else compare_file cx comparator name oc cc)"

text \<open>All files no declaration names: first the keyed files that can be compared by their records, then
  the rest.\<close>

definition run_error :: "py_error + 'a \<Rightarrow> (image_error + py_error) + 'a" where
  "run_error r = (case r of Inl e \<Rightarrow> Inl (Inr e) | Inr x \<Rightarrow> Inr x)"

definition compare_all_undeclared ::
  "comparison_context \<Rightarrow> keyed_files \<Rightarrow> string list \<Rightarrow> (image_error + py_error) + compared list" where
  "compare_all_undeclared cx kf names =
     (if names = [] then Inr []
      else case registry_get (cx_registry cx) ''TEXT_FILE'' of
        None \<Rightarrow> Inl (Inr (ValueError (''No comparator registered for artifact_type='' @ repr_str ''TEXT_FILE''
                 @ '': undeclared generated files cannot be compared'')))
      | Some comparator \<Rightarrow>
          bind_res (compare_file_records cx comparator kf (filter (is_emulated_image kf) names))
            (\<lambda>(handled, by_records).
          bind_res (run_error (traverse (compare_undeclared cx comparator kf)
              (filter (\<lambda>n. n \<notin> set handled) names))) (\<lambda>rest.
          Inr (by_records @ rest))))"

subsection \<open>Business invariants\<close>

text \<open>The registry of a pipeline: the given one or a new one, with the comparator of the invariants when some are
  declared.\<close>

definition pipeline_registry :: "registry option \<Rightarrow> bool \<Rightarrow> py_error + registry" where
  "pipeline_registry given has_invariants =
     bind_res (case given of
         Some r \<Rightarrow> Inr r
       | None \<Rightarrow> if has_invariants then create_verification_registry else create_default_registry) (\<lambda>r.
     if has_invariants then register_business_invariant_comparator r else Inr r)"

definition observation_of :: "('a) execution_result_scheme \<Rightarrow> bytes dict \<Rightarrow> observation" where
  "observation_of r inputs =
     \<lparr>ob_exit_code = er_exit_code r, ob_stdout = er_stdout r, ob_stderr = er_stderr r,
      ob_files = generated_files r, ob_inputs = inputs\<rparr>"

text \<open>The captured report of one side.\<close>

definition capture_report ::
  "comparison_context \<Rightarrow> business_invariant list \<Rightarrow> observation \<Rightarrow> execution_id \<Rightarrow> string \<Rightarrow> py_error + captured_artifact" where
  "capture_report cx rules ob exec producer_role =
     bind_res (build_report (cx_explain cx) rules ob) (\<lambda>r.
     bind_res (report_bytes r) (\<lambda>content.
     capture_business_invariant (cx_now cx) exec content ''business-invariants'' producer_role))"

definition compare_invariants ::
  "comparison_context \<Rightarrow> business_invariant list \<Rightarrow> bytes dict \<Rightarrow> py_error + compared list" where
  "compare_invariants cx rules inputs =
     (if rules = [] then Inr []
      else
          (case registry_get (cx_registry cx) ''BUSINESS_INVARIANT'' of
             None \<Rightarrow> Inl (ValueError (''No comparator registered for artifact_type='' @ repr_str ''BUSINESS_INVARIANT''
                      @ '': business invariants are declared but the verification comparator is unavailable''))
           | Some comparator \<Rightarrow>
               bind_res (capture_report cx rules (observation_of (cx_oracle cx) inputs)
                 (er_execution_id (cx_oracle cx)) ''ORACLE'') (\<lambda>oracle_ca.
               bind_res (capture_report cx rules (observation_of (cx_candidate cx) inputs)
                 (er_execution_id (cx_candidate cx)) ''CANDIDATE'') (\<lambda>candidate_ca.
               bind_res (compare_with (cx_explain cx) comparator
                 (cap_artifact oracle_ca) (cap_content oracle_ca) (cap_artifact candidate_ca) (cap_content candidate_ca)
                 None ''SEQUENTIAL'' None) (\<lambda>r.
               Inr [(oracle_ca, candidate_ca, make_comparison_evidence (cx_run_id cx) ''business-invariants''
                      ''BUSINESS_INVARIANT'' oracle_ca candidate_ca r)])))))"

subsection \<open>The evidence of a run\<close>

definition run_declaration_driven ::
  "comparison_context \<Rightarrow> workload_artifact list \<Rightarrow> keyed_files \<Rightarrow> business_invariant list \<Rightarrow> bytes dict
     \<Rightarrow> (image_error + py_error) + (artifact_evidence list \<times> comparison_evidence list)" where
  "run_declaration_driven cx declared kf invariants inputs =
     bind_res (run_error (traverse (compare_declared cx) (compared_artifacts declared))) (\<lambda>observed.
     bind_res (compare_all_undeclared cx kf (undeclared_files declared
         (generated_files (cx_oracle cx)) (generated_files (cx_candidate cx)))) (\<lambda>files.
     bind_res (run_error (compare_invariants cx invariants inputs)) (\<lambda>rules.
       let all = observed @ files @ rules in
       Inr (map (\<lambda>(o', _, _). to_evidence o') all @ map (\<lambda>(_, c, _). to_evidence c) all,
            map (\<lambda>(_, _, e). e) all))))"


subsection \<open>Unobserved effects\<close>

text \<open>The channels no comparator observes, with their names; which of them the source text has is an
  argument.\<close>

definition effect_channels :: "string dict" where
  "effect_channels =
     [(''DATABASE_STATE'', ''database-state''), (''TRANSACTION_EFFECTS'', ''transaction-effects''),
      (''MESSAGE_QUEUE_EFFECTS'', ''message-queue-effects'')]"

definition effect_difference :: "string \<Rightarrow> string \<Rightarrow> string" where
  "effect_difference artifact_type logical_name = artifact_type @ '': the program has '' @ logical_name
     @ '' that no comparator observes; equivalence of those effects is unproven''"

definition effect_comparison ::
  "run_id \<Rightarrow> workload_id \<Rightarrow> string \<Rightarrow> string \<Rightarrow> captured_artifact \<Rightarrow> captured_artifact \<Rightarrow> comparison_evidence" where
  "effect_comparison run workload artifact_type logical_name oracle_marker candidate_marker =
     (inconclusive_comparison run logical_name artifact_type oracle_marker candidate_marker
        \<lparr>cid_id = ''unobserved-effect'', cid_version = ''1.0.0''\<rparr> (effect_difference artifact_type logical_name))
      \<lparr>ce_workload_id := Some workload\<rparr>"

definition effect_evidence ::
  "string \<Rightarrow> run_id \<Rightarrow> workload_id \<Rightarrow> execution_id \<Rightarrow> execution_id \<Rightarrow> string \<times> string \<Rightarrow> py_error + compared" where
  "effect_evidence now run workload oexec cexec channel =
     (let (artifact_type, logical_name) = channel in
      bind_res (capture_missing now oexec artifact_type logical_name ''ORACLE'') (\<lambda>oracle_marker.
      bind_res (capture_missing now cexec artifact_type logical_name ''CANDIDATE'') (\<lambda>candidate_marker.
      Inr (oracle_marker, candidate_marker,
           effect_comparison run workload artifact_type logical_name oracle_marker candidate_marker))))"

definition unobserved_effect_evidence ::
  "string \<Rightarrow> run_id \<Rightarrow> workload_id \<Rightarrow> execution_id \<Rightarrow> execution_id \<Rightarrow> string list
     \<Rightarrow> py_error + (artifact_evidence list \<times> comparison_evidence list)" where
  "unobserved_effect_evidence now run workload oexec cexec found =
     bind_res (traverse (effect_evidence now run workload oexec cexec)
         (sort_key fst (filter (\<lambda>ch. fst ch \<in> set found) effect_channels))) (\<lambda>all.
       Inr (concat (map (\<lambda>(o', c, _). [to_evidence o', to_evidence c]) all), map (\<lambda>(_, _, e). e) all))"

subsection \<open>The run\<close>

text \<open>What became of the candidate: the result of its execution, or a build that failed, for want of
  infrastructure or not, with its messages.\<close>

datatype build_outcome = Executed execution_result | BuildFailed bool "string list"

fun candidate_result :: "string \<Rightarrow> run_id \<Rightarrow> build_outcome \<Rightarrow> execution_result" where
  "candidate_result now run (Executed r) = r"
| "candidate_result now run (BuildFailed infrastructure errors) =
     \<lparr>er_execution_id = ''candidate-'' @ run @ ''-compile-fail'', er_run_id = run,
      er_status = ADAPTER_FAILED, er_exit_code = (if infrastructure then None else Some 1), er_stdout = [],
      er_stderr = utf8_encode (join ''; '' errors), er_start_time = now, er_end_time = now,
      er_termination_status = (if infrastructure then ''error'' else ''nonzero_exit''),
      er_timeout_applied = False, er_timeout_duration = None, er_generated_files = None,
      er_image_digest = None\<rparr>"

definition build_phase :: "build_outcome \<Rightarrow> string" where
  "build_phase b = (case b of Executed _ \<Rightarrow> ''EXECUTE'' | BuildFailed _ _ \<Rightarrow> ''BUILD'')"

text \<open>What the run reads from its configuration, the file system and the adapters.\<close>

record run_inputs =
  ri_run_id :: run_id
  ri_workload_id :: workload_id
  ri_declared :: "workload_artifact list"
  ri_registry :: registry
  ri_source :: source_identity
  ri_candidate :: candidate_identity
  ri_oracle_identity :: oracle_identity
  ri_tree_before :: content_hash
  ri_tree_after :: content_hash
  ri_compiler_version :: string
  ri_java_version :: "string option"
  ri_network_policy :: string
  ri_resource_limits :: "string dict"
  ri_lane :: string
  ri_stdin :: "bytes option"
  ri_input_hashes :: "content_hash dict"
  ri_keyed :: keyed_files
  ri_effects :: "string list"
  ri_invariants :: "business_invariant list"
  ri_input_files :: "bytes dict"
  ri_explain :: "bytes \<Rightarrow> string"

definition environment_identities :: "run_inputs \<Rightarrow> environment_identity list" where
  "environment_identities ri =
     [\<lparr>env_runtime_id = ''oracle-gnucobol-3.1.2'', env_java_version = None,
       env_cobol_compiler = Some (ri_compiler_version ri), env_os_base = Some ''gnucobol-ocesql'',
       env_network_policy = ''none'',
       env_resource_limits = [(''memory'', ''512m''), (''cpus'', ''1.0''), (''pids_limit'', ''256'')]\<rparr>,
      \<lparr>env_runtime_id = ''candidate-java'', env_java_version = ri_java_version ri,
       env_cobol_compiler = None, env_os_base = Some (ri_lane ri),
       env_network_policy = ri_network_policy ri, env_resource_limits = ri_resource_limits ri\<rparr>]"

definition run_manifest ::
  "string \<Rightarrow> run_inputs \<Rightarrow> execution_evidence \<Rightarrow> execution_evidence \<Rightarrow> artifact_evidence list
     \<Rightarrow> comparison_evidence list \<Rightarrow> evidence_manifest" where
  "run_manifest now ri oracle_evidence candidate_evidence artifacts comparisons = seal_manifest
     \<lparr>em_version = ''1.0'', em_run_id = ri_run_id ri, em_workload_id = ri_workload_id ri,
      em_source = ri_source ri, em_candidate = Some (ri_candidate ri), em_oracle = Some (ri_oracle_identity ri),
      em_environments = environment_identities ri,
      em_input = \<lparr>in_id = ''input-'' @ ri_run_id ri,
        in_stdin_hash = Some (hash_from_bytes (case ri_stdin ri of None \<Rightarrow> [] | Some b \<Rightarrow> b)),
        in_files = ri_input_hashes ri\<rparr>,
      em_executions = [oracle_evidence, candidate_evidence], em_artifacts = artifacts,
      em_comparisons = comparisons, em_verdict = None, em_created_at = now, em_sealed_hash = None\<rparr>"

definition run_evidence ::
  "string \<Rightarrow> run_inputs \<Rightarrow> oracle_execution_result \<Rightarrow> build_outcome \<Rightarrow> (image_error + py_error) + evidence_manifest" where
  "run_evidence now ri oracle_result build =
     (let candidate = candidate_result now (ri_run_id ri) build;
          oracle_evidence = (oracle_to_execution_evidence oracle_result)\<lparr>ex_workload_id := Some (ri_workload_id ri)\<rparr>;
          candidate_evidence = (candidate_to_execution_evidence candidate)
            \<lparr>ex_workload_id := Some (ri_workload_id ri), ex_source_before := ri_tree_before ri,
             ex_source_after := ri_tree_after ri, ex_phase := build_phase build\<rparr>;
          cx = \<lparr>cx_now = now, cx_run_id = ri_run_id ri, cx_registry = ri_registry ri,
                cx_oracle = oracle_result, cx_candidate = candidate,
                cx_explain = ri_explain ri\<rparr>
      in bind_res (run_declaration_driven cx (ri_declared ri) (ri_keyed ri) (ri_invariants ri) (ri_input_files ri))
           (\<lambda>(artifacts, comparisons).
         bind_res (run_error (unobserved_effect_evidence now (ri_run_id ri) (ri_workload_id ri)
             (er_execution_id oracle_result) (er_execution_id candidate) (ri_effects ri)))
           (\<lambda>(effect_artifacts, effect_comparisons).
         Inr (run_manifest now ri oracle_evidence candidate_evidence (artifacts @ effect_artifacts)
           (map (\<lambda>c. c\<lparr>ce_workload_id := Some (ri_workload_id ri)\<rparr>) comparisons @ effect_comparisons)))))"

text \<open>\<open>run\<close>: the manifest, then admission and derivation.\<close>

definition run_pipeline ::
  "string \<Rightarrow> run_inputs \<Rightarrow> oracle_execution_result \<Rightarrow> build_outcome
     \<Rightarrow> (image_error + py_error) + (evidence_manifest \<times> verdict)" where
  "run_pipeline now ri oracle_result build =
     bind_res (run_evidence now ri oracle_result build) (\<lambda>m.
     bind_res (run_error (admit_and_derive now now m)) (\<lambda>v. Inr (m, v)))"

end
