(* ===== verification/IndexedRecordFacts.thy ===== *)
theory IndexedRecordFacts
  imports IndexedRecords
begin

text \<open>
  What comparing keyed files by their records rests on: equal canonical text means equal records, and
  the slot reader returns exactly the live slots of the image in order. A code whose items can be read
  back one at a time from the front of the text makes its concatenation injective.
\<close>

subsection \<open>Uniquely readable items\<close>

locale item_code =
  fixes enc :: "'a \<Rightarrow> string"
  assumes nonempty: "enc x \<noteq> []"
    and readable: "enc x @ s = enc y @ t \<Longrightarrow> x = y \<and> s = t"
begin

lemma concat_inj: "concat (map enc xs) = concat (map enc ys) \<Longrightarrow> xs = ys"
proof (induction xs arbitrary: ys)
  case Nil
  then show ?case using nonempty by (cases ys) auto
next
  case (Cons x xs)
  then obtain y ys' where y: "ys = y # ys'" using nonempty by (cases ys) auto
  with Cons.prems readable [of x _ y] have "x = y" "concat (map enc xs) = concat (map enc ys')" by auto
  then show ?case using Cons.IH y by blast
qed

lemma concat_eq_iff: "concat (map enc xs) = concat (map enc ys) \<longleftrightarrow> xs = ys"
  using concat_inj by blast

end

lemma hex2_range: "c \<in> set (hex2 b) \<Longrightarrow> c \<in> set ''0123456789abcdef''"
proof -
  have "hex_char n \<in> set ''0123456789abcdef''" if "n < 16" for n
    unfolding hex_char_def using that nth_mem [of n "''0123456789abcdef''"] by simp
  then have "hex_char (of_char b div 16) \<in> set ''0123456789abcdef''"
    "hex_char (of_char b mod 16) \<in> set ''0123456789abcdef''"
    using nat_of_char_less_256 [of b] mod_less_divisor [of 16 "of_char b"]
    by (simp_all only: less_mult_imp_div_less)
  moreover assume "c \<in> set (hex2 b)"
  ultimately show ?thesis unfolding hex2_def Let_def list.set by blast
qed

lemma hex_char_inj: "m < 16 \<Longrightarrow> n < 16 \<Longrightarrow> hex_char m = hex_char n \<Longrightarrow> m = n"
  using nth_eq_iff_index_eq [of "''0123456789abcdef''" m n] by (simp add: hex_char_def)

lemma hex2_inj: "hex2 a = hex2 b \<Longrightarrow> a = b"
proof -
  assume "hex2 a = hex2 b"
  then have "hex_char (of_char a div 16) = hex_char (of_char b div 16)"
    "hex_char (of_char a mod 16) = hex_char (of_char b mod 16)" by (simp_all add: hex2_def Let_def)
  then have "(of_char a :: nat) div 16 = of_char b div 16" "(of_char a :: nat) mod 16 = of_char b mod 16"
    using hex_char_inj nat_of_char_less_256 [of a] nat_of_char_less_256 [of b]
    by (simp_all add: less_mult_imp_div_less)
  then have "(of_char a :: nat) = of_char b" by (metis div_mult_mod_eq)
  then show ?thesis by simp
qed

interpretation hexa: item_code hex2
proof
  show "hex2 x \<noteq> []" for x by (simp add: hex2_def Let_def)
  show "hex2 x @ s = hex2 y @ t \<Longrightarrow> x = y \<and> s = t" for x y s t
  proof -
    assume e: "hex2 x @ s = hex2 y @ t"
    have "length (hex2 x) = length (hex2 y)" by (simp add: hex2_def Let_def)
    then have "hex2 x = hex2 y" "s = t" using e by simp_all
    then show "x = y \<and> s = t" using hex2_inj by blast
  qed
qed

text \<open>Text up to a mark that it does not contain.\<close>

lemma mark_split: "c \<notin> set s \<Longrightarrow> c \<notin> set t \<Longrightarrow> s @ c # u = t @ c # v \<Longrightarrow> s = t \<and> u = v"
proof -
  assume a: "c \<notin> set s" "c \<notin> set t" "s @ c # u = t @ c # v"
  have tw: "takeWhile (\<lambda>d. d \<noteq> c) (w @ c # x) = w" if "c \<notin> set w" for w x
    using that by (induction w) auto
  have "s = t" using tw [OF a(1), of u] tw [OF a(2), of v] a(3) by simp
  then show ?thesis using a(3) by simp
qed

interpretation line: item_code canonical_line
proof
  show "canonical_line r \<noteq> []" for r by (simp add: canonical_line_def)
  show "canonical_line q @ s = canonical_line r @ t \<Longrightarrow> q = r \<and> s = t" for q r s t
  proof -
    have tab: "CHR 0x09 \<notin> set (concat (map hex2 w))" for w
      using hex2_range by (fastforce simp: set_eq_iff)
    assume "canonical_line q @ s = canonical_line r @ t"
    then have e: "concat (map hex2 q) @ CHR 0x09 # map (\<lambda>b. if ascii_printable b then b else CHR ''.'') q @ CHR 0x0A # s
      = concat (map hex2 r) @ CHR 0x09 # map (\<lambda>b. if ascii_printable b then b else CHR ''.'') r @ CHR 0x0A # t"
      by (simp add: canonical_line_def)
    from mark_split [OF tab tab e] have "q = r" using hexa.concat_inj by blast
    then show "q = r \<and> s = t" using e by simp
  qed
qed

definition relative_line :: "nat \<times> bytes \<Rightarrow> bytes" where
  "relative_line x = show_nat (fst x) @ [CHR 0x09] @ canonical_line (snd x)"

interpretation slot: item_code relative_line
proof
  show "relative_line x \<noteq> []" for x by (simp add: relative_line_def)
  show "relative_line x @ s = relative_line y @ t \<Longrightarrow> x = y \<and> s = t" for x y s t
  proof -
    have tab: "CHR 0x09 \<notin> set (show_nat n)" for n
      using show_nat_digits [of n] by (auto simp: is_digit_def)
    assume "relative_line x @ s = relative_line y @ t"
    then have "show_nat (fst x) @ CHR 0x09 # canonical_line (snd x) @ s =
        show_nat (fst y) @ CHR 0x09 # canonical_line (snd y) @ t" by (simp add: relative_line_def)
    from mark_split [OF tab tab this] show "x = y \<and> s = t"
      using show_nat_inj line.readable by (metis prod.collapse)
  qed
qed

lemma canonical_records_iff: "canonical_records rs = canonical_records ss \<longleftrightarrow> rs = ss"
  by (simp add: canonical_records_def line.concat_eq_iff)

lemma canonical_relative_iff: "canonical_relative_records qs = canonical_relative_records ts \<longleftrightarrow> qs = ts"
proof -
  have "canonical_relative_records qs = concat (map relative_line qs)" for qs
    unfolding canonical_relative_records_def by (rule arg_cong [of _ _ concat]) (auto simp: relative_line_def)
  then show ?thesis by (simp add: slot.concat_eq_iff)
qed

text \<open>Equal canonical text means equal records. Two lists of records with the same canonical text are
  equal, and so are two lists of numbered records, whose relative record numbers count.\<close>
theorem canonical_text_unambiguous:
  "(canonical_records rs = canonical_records ss) = (rs = ss) \<and>
   (canonical_relative_records qs = canonical_relative_records ts) = (qs = ts)"
  using canonical_records_iff canonical_relative_iff by blast

subsection \<open>The slot reader\<close>

lemma slot_layouts_mem:
  "(k, sizes) \<in> set (slot_layouts img) \<Longrightarrow>
   \<exists>n. 0 < n \<and> k = 8 + n \<and> length img mod k = 0 \<and> sizes = slot_sizes img k \<and> (\<forall>m \<in> set sizes. m = 0 \<or> m = n)"
  by (auto simp: slot_layouts_def Let_def split: if_splits)

text \<open>The size field of a slot and the record area behind it.\<close>

definition slot_size :: "bytes \<Rightarrow> nat \<Rightarrow> nat \<Rightarrow> nat" where
  "slot_size img n i = little_endian (take 8 (drop (i * (8 + n)) img))"

definition slot_record :: "bytes \<Rightarrow> nat \<Rightarrow> nat \<Rightarrow> bytes" where
  "slot_record img n i = take n (drop (i * (8 + n) + 8) img)"

lemma enum_map_upt: "enum (map f [0..<k]) = map (\<lambda>i. (i, f i)) [0..<k]"
  by (simp add: enumerate_eq_zip zip_map2 zip_same_conv_map comp_def)

lemma live_slots:
  "\<forall>i \<in> set is. f i = 0 \<or> f i = n \<Longrightarrow> 0 < n \<Longrightarrow>
   concat (map (\<lambda>(index, k). if k = 0 then [] else [(index + 1, take k (drop (index * w + 8) img))])
     (map (\<lambda>i. (i, f i)) is))
   = map (\<lambda>i. (i + 1, take n (drop (i * w + 8) img))) (filter (\<lambda>i. f i = n) is)"
  by (induction "is") auto

text \<open>The slot reader returns the live slots. When the reader of a RELATIVE file returns on an image
  that is not empty, there is one record length \<open>n\<close> for which the image is a sequence of slots, and the
  result is, in slot order, the number and the whole record area of exactly the slots whose size field
  is \<open>n\<close>; every other size field is 0.\<close>
theorem slot_reader_live:
  assumes "gnucobol_relative_records img = Inr rs" "img \<noteq> []"
  shows "\<exists>n. 0 < n \<and> length img mod (8 + n) = 0 \<and>
    (\<forall>i < length img div (8 + n). slot_size img n i = 0 \<or> slot_size img n i = n) \<and>
    rs = map (\<lambda>i. (i + 1, slot_record img n i))
           (filter (\<lambda>i. slot_size img n i = n) [0..<length img div (8 + n)])"
proof -
  obtain k sizes where l: "slot_layouts img = [(k, sizes)]"
    and rs: "rs = concat (map (\<lambda>(index, m). if m = 0 then [] else [(index + 1, take m (drop (index * k + 8) img))])
      (enum sizes))"
    using assms by (auto simp: gnucobol_relative_records_def split: list.splits)
  from slot_layouts_mem [of k sizes img] l obtain n where
    n: "0 < n" "k = 8 + n" "length img mod k = 0" "sizes = slot_sizes img k" "\<forall>m \<in> set sizes. m = 0 \<or> m = n" by auto
  have sz: "sizes = map (slot_size img n) [0..<length img div k]"
    by (simp add: n(2,4) slot_sizes_def slot_size_def)
  then have z: "\<forall>i \<in> set [0..<length img div k]. slot_size img n i = 0 \<or> slot_size img n i = n"
    using n(5) by simp
  have "rs = map (\<lambda>i. (i + 1, slot_record img n i)) (filter (\<lambda>i. slot_size img n i = n) [0..<length img div k])"
    unfolding rs sz enum_map_upt live_slots [OF z n(1)] by (simp add: slot_record_def n(2))
  then show ?thesis using n z by (intro exI [of _ n]) simp
qed


text \<open>Two slots of record length 2, the second one empty.\<close>

definition sample_slots :: bytes where
  "sample_slots = [CHR 0x02, CHR 0x00, CHR 0x00, CHR 0x00, CHR 0x00, CHR 0x00, CHR 0x00, CHR 0x00, CHR ''A'', CHR ''B'',
     CHR 0x00, CHR 0x00, CHR 0x00, CHR 0x00, CHR 0x00, CHR 0x00, CHR 0x00, CHR 0x00, CHR 0x00, CHR 0x00]"

theorem slot_reader_live_witness:
  "gnucobol_relative_records sample_slots = Inr [(1, ''AB'')] \<and>
   (\<exists>n. 0 < n \<and> [(1, ''AB'')] = map (\<lambda>i. (i + 1, slot_record sample_slots n i))
      (filter (\<lambda>i. slot_size sample_slots n i = n) [0..<length sample_slots div (8 + n)]))"
proof -
  have u: "[0..<2] = [0, 1]" "[Suc 0..<13] = [1, 2, 3, 4, 5, 6, 7, 8, 9, 10, 11, 12]" by (simp_all add: upt_rec)
  have len: "length sample_slots = 20" by (simp add: sample_slots_def)
  have "slot_sizes sample_slots 10 = [2, 0]" "slot_sizes sample_slots 20 = [2]"
    unfolding slot_sizes_def len by (simp_all add: u sample_slots_def)
  then have "slot_layouts sample_slots = [(10, [2, 0])]"
    by (simp add: slot_layouts_def len u)
  then have r: "gnucobol_relative_records sample_slots = Inr [(1, ''AB'')]"
    by (simp add: gnucobol_relative_records_def sample_slots_def)
  have "sample_slots \<noteq> []" by (simp add: sample_slots_def)
  from slot_reader_live [OF r this] obtain n where "0 < n"
    "[(1, ''AB'')] = map (\<lambda>i. (i + 1, slot_record sample_slots n i))
      (filter (\<lambda>i. slot_size sample_slots n i = n) [0..<length sample_slots div (8 + n)])" by (elim exE conjE)
  then show ?thesis using r by (intro conjI exI [of _ n])
qed

subsection \<open>Images that escape the refusal\<close>

text \<open>A B-tree of one page of 512 bytes besides the metadata, whose page claims 65535 items.\<close>

definition sample_meta :: bytes where
  "sample_meta = replicate 12 (CHR 0x00) @ [CHR 0x62, CHR 0x31, CHR 0x05, CHR 0x00, CHR 0x09, CHR 0x00, CHR 0x00, CHR 0x00,
       CHR 0x00, CHR 0x02, CHR 0x00, CHR 0x00, CHR 0x00, CHR 0x09] @ replicate 62 (CHR 0x00)
     @ [CHR 0x01, CHR 0x00, CHR 0x00, CHR 0x00] @ replicate 420 (CHR 0x00)"

definition sample_page :: bytes where
  "sample_page = replicate 8 (CHR 0x00) @ [CHR 0x01, CHR 0x00, CHR 0x00, CHR 0x00] @ replicate 8 (CHR 0x00)
     @ [CHR 0xFF, CHR 0xFF, CHR 0x00, CHR 0x00, CHR 0x01, CHR 0x05] @ replicate 486 (CHR 0x00)"

lemma traverse_error:
  "(\<And>x e'. x \<in> set xs \<Longrightarrow> f x = Inl e' \<Longrightarrow> e' = e) \<Longrightarrow> \<exists>x \<in> set xs. f x = Inl e \<Longrightarrow> traverse f xs = Inl e"
proof (induction xs)
  case (Cons x xs)
  show ?case
  proof (cases "f x")
    case (Inl e')
    then show ?thesis using Cons.prems(1) [of x e'] by simp
  next
    case (Inr y)
    then have "\<exists>x \<in> set xs. f x = Inl e" using Cons.prems(2) by auto
    then have "traverse f xs = Inl e" using Cons.prems(1) [OF list.set_intros(2)] by (intro Cons.IH)
    then show ?thesis using Inr by simp
  qed
qed simp

lemma item_table_overrun:
  assumes "u16 data 20 = Inr n" "length data < header_size + 2 * n" "0 < n"
  shows "item_offsets k data = Inl StructError"
proof -
  have "\<exists>i \<in> set [0..<n]. u16 data (header_size + 2 * i) = Inl StructError"
    using assms(2,3) by (intro bexI [of _ "n - 1"]) (auto simp: u16_def)
  then have "traverse (\<lambda>i. u16 data (header_size + 2 * i)) [0..<n] = Inl StructError"
    by (intro traverse_error) (auto simp: u16_def split: if_splits)
  then show ?thesis using assms(1) by (simp add: item_offsets_def)
qed

lemma sample_page_read: "page_of (sample_meta @ sample_page) 512 1 = Inr sample_page"
  by (simp add: page_of_def sample_meta_def sample_page_def u32_def)

lemma sample_btree_struct_error: "bdb_btree_records (sample_meta @ sample_page) = Inl StructError"
proof -
  have len: "length sample_meta = 512" "length sample_page = 512" by (simp_all add: sample_meta_def sample_page_def)
  have head: "u32 (sample_meta @ sample_page) 12 = Inr 340322" "u32 (sample_meta @ sample_page) 16 = Inr 9"
    "u32 (sample_meta @ sample_page) 20 = Inr 512" "u32 (sample_meta @ sample_page) 88 = Inr 1"
    "byte_at (sample_meta @ sample_page) 24 = 0" "byte_at (sample_meta @ sample_page) 25 = 9"
    by (simp_all add: u32_def sample_meta_def byte_at_def nth_append)
  have page: "byte_at sample_page 25 = 5" "u16 sample_page 20 = Inr 65535"
    by (simp_all add: sample_page_def byte_at_def u16_def nth_append)
  have "item_offsets 512 sample_page = Inl StructError"
    using item_table_overrun [OF page(2), of 512] by (simp add: len header_size_def)
  moreover have "(512 :: nat) AND 511 = 0" by code_simp
  ultimately show ?thesis
    using head page sample_page_read
    by (simp add: bdb_btree_records_def len btree_magic_def btree_version_def meta_type_def internal_page_def leaf_page_def)
qed

text \<open>A malformed image can raise more than the refusal the caller handles. A page whose item count
  runs past it raises the error of \<open>struct\<close>, an emulation file that is not UTF-8 a decoding error;
  neither is an \<open>UnreadableImage\<close>, so the comparison stops instead of staying inconclusive.\<close>
theorem malformed_images_escape:
  "bdb_btree_records (sample_meta @ sample_page) = Inl StructError \<and>
   emulated_index_records [CHR ''K'', CHR 0xFF] = Inl UnicodeDecodeError"
  using sample_btree_struct_error by (simp add: emulated_index_records_def in_range_def)

end
