(* ===== verification/PyValueFacts.thy ===== *)
theory PyValueFacts
  imports PyValues
begin

text \<open>
  The decimal-aware reader agrees with \<open>json.loads\<close> on every text without floats, and canonical JSON is read
  back to the value it was made of. Equality is reflexive on what is read.
\<close>

subsection \<open>The two readers\<close>

lemma read_str_parse: "parse_str s = Inr x \<Longrightarrow> read_str s = Inr x"
  by (simp add: read_str_def)

lemma no_float_tail: "\<not> is_float_tail r \<Longrightarrow> fraction_part r = [] \<and> exponent_part r = []"
  by (cases r rule: remdups_adj.cases) (auto simp: is_float_tail_def fraction_part_def exponent_part_def)

lemma parse_nat_Inr:
  assumes "parse_nat t = Inr (n, r)"
  shows "\<exists>ds. ds = (if starts_with ''0'' t then ''0'' else takeWhile is_digit t) \<and> ds \<noteq> [] \<and> r = drop (length ds) t
    \<and> \<not> is_float_tail r \<and> length ds \<le> int_digit_limit \<and> n = digits_val 0 ds"
proof -
  obtain c cs where t: "t = c # cs" "is_digit c" using assms by (auto simp: parse_nat_def split: list.splits if_splits)
  have s: "starts_with ''0'' t \<longleftrightarrow> c = CHR ''0''" using t by (auto simp: starts_with_def)
  show ?thesis using assms t s by (auto simp: parse_nat_def Let_def split: if_splits)
qed

lemma read_number_parse:
  assumes "parse_number s = Inr (v, r)"
  shows "read_number s = Inr (py_of_json v, r)"
proof -
  obtain c cs where s: "s = c # cs" using assms by (auto simp: parse_number_def split: list.splits)
  show ?thesis
  proof (cases "c = CHR ''-''")
    case True
    then obtain n where n: "parse_nat cs = Inr (n, r)" "v = JInt (- int n)" "\<not> starts_with ''Infinity'' cs"
      using assms s by (auto simp: parse_number_def bind_res_eq_Inr split: if_splits)
    have "\<not> starts_with ''NaN'' s" "\<not> starts_with ''Infinity'' s" "\<not> starts_with ''-Infinity'' s" "starts_with ''-'' s"
      using n(3) by (simp_all add: s True starts_with_def)
    with parse_nat_Inr [OF n(1)] no_float_tail [of r] n(2) show ?thesis
      by (auto simp: read_number_def s True Let_def)
  next
    case False
    then obtain n where n: "parse_nat s = Inr (n, r)" "v = JInt (int n)" "\<not> starts_with ''NaN'' s"
      "\<not> starts_with ''Infinity'' s"
      using assms s by (auto simp: parse_number_def bind_res_eq_Inr split: if_splits)
    have "\<not> starts_with ''-Infinity'' s" "\<not> starts_with ''-'' s"
      using False by (auto simp: s starts_with_def)
    with parse_nat_Inr [OF n(1)] no_float_tail [of r] n show ?thesis
      by (auto simp: read_number_def Let_def)
  qed
qed

lemma map_prod_dict_set: "map (map_prod id f) (dict_set k v d) = dict_set k (f v) (map (map_prod id f) d)"
  by (induction d) auto

lemma map_prod_dict_of_pairs: "map (map_prod id f) (dict_of_pairs ps) = dict_of_pairs (map (map_prod id f) ps)"
proof -
  have "map (map_prod id f) (foldl (\<lambda>d (k, v). dict_set k v d) d ps)
      = foldl (\<lambda>d (k, v). dict_set k v d) (map (map_prod id f) d) (map (map_prod id f) ps)" for d
    by (induction ps arbitrary: d) (auto simp: map_prod_dict_set split: prod.splits)
  from this [of "[]"] show ?thesis by (simp add: dict_of_pairs_def)
qed

lemma read_parse:
  "parse_value k s = Inr (v, r) \<Longrightarrow> read_value k s = Inr (py_of_json v, r)"
  "parse_items k s = Inr (xs, r) \<Longrightarrow> read_items k s = Inr (map py_of_json xs, r)"
  "parse_members k s = Inr (ps, r) \<Longrightarrow> read_members k s = Inr (map (map_prod id py_of_json) ps, r)"
proof (induction k s and k s and k s arbitrary: v r and xs r and ps r
    rule: parse_value_parse_items_parse_members.induct)
  case (2 k s)
  obtain c cs where s: "s = c # cs" using 2(3) by (auto split: list.splits)
  consider "c = CHR 0x22" | "c = CHR ''{''" | "c = CHR ''[''" | "starts_with ''null'' s" | "starts_with ''true'' s"
    | "starts_with ''false'' s"
    | "c \<noteq> CHR 0x22" "c \<noteq> CHR ''{''" "c \<noteq> CHR ''[''" "\<not> starts_with ''null'' s" "\<not> starts_with ''true'' s"
      "\<not> starts_with ''false'' s" by blast
  then show ?case
  proof cases
    case 1
    then show ?thesis using 2(3) by (auto simp: s bind_res_eq_Inr read_str_parse)
  next
    case c: 2
    then show ?thesis using 2(1) [OF s, simplified] 2(3)
      by (auto simp: s bind_res_eq_Inr Let_def map_prod_dict_of_pairs [unfolded id_def] id_def split: if_splits)
  next
    case 3
    then show ?thesis using 2(2) [OF s, simplified] 2(3)
      by (auto simp: s bind_res_eq_Inr Let_def split: if_splits)
  next
    case 7
    then show ?thesis using 2(3) read_number_parse [of s v r] by (simp add: s)
  qed (use 2(3) in \<open>auto simp: s starts_with_def\<close>)
next
  case (4 k s)
  then show ?case by (fastforce simp: bind_res_eq_Inr Let_def split: if_splits)
next
  case (6 k s)
  then show ?case by (fastforce simp: bind_res_eq_Inr Let_def read_str_parse split: if_splits)
qed simp_all

lemma loads_decimal_loads: "json_loads s = Inr v \<Longrightarrow> loads_decimal s = Inr (py_of_json v)"
proof -
  assume a: "json_loads s = Inr v"
  let ?t = "skip_space s"
  obtain r where r: "parse_value (2 * length ?t + 1) ?t = Inr (v, r)" "skip_space r = []"
    using a by (auto simp: json_loads_def Let_def bind_res_eq_Inr simp del: parse_value.simps split: if_splits)
  from read_parse(1) [OF r(1)] r(2) show "loads_decimal s = Inr (py_of_json v)"
    unfolding loads_decimal_def Let_def by (simp only: bind_res_simps split_conv refl if_True)
qed

subsection \<open>Reading canonical JSON\<close>

lemma parse_esc_char_raw:
  "parse_chars (Suc k) (esc_char_raw c @ r) = bind_res (parse_chars k r) (\<lambda>(s, r'). Inr (c # s, r'))"
proof (cases "127 \<le> (of_char c :: nat)")
  case True
  then have "c \<noteq> CHR 0x22" "c \<noteq> CHR 0x5C" by auto
  with True show ?thesis by (simp add: esc_char_raw_def)
qed (simp add: esc_char_raw_def parse_esc_char)

lemma parse_chars_raw:
  "length s < k \<Longrightarrow> parse_chars k (concat (map esc_char_raw s) @ CHR 0x22 # r) = Inr (s, r)"
proof (induction s arbitrary: k)
  case Nil
  then show ?case by (cases k) simp_all
next
  case (Cons c s)
  then obtain j where "k = Suc j" "length s < j" by (cases k) auto
  with Cons.IH [of j] show ?case using parse_esc_char_raw [of j c] by simp
qed

lemma length_esc_raw: "length s \<le> length (concat (map esc_char_raw s))"
proof (induction s)
  case (Cons c s)
  have "esc_char_raw c \<noteq> []" using hd_esc_char [of c] by (auto simp: esc_char_raw_def)
  then obtain x xs where "esc_char_raw c = x # xs" by (cases "esc_char_raw c") auto
  with Cons show ?case by simp
qed simp

interpretation compact_writer: json_writer "'',''" "'':''" dump_str_raw
proof unfold_locales
  show "parse_str (tl (dump_str_raw s @ r)) = Inr (s, r)" for s r
    unfolding parse_str_def dump_str_raw_def using length_esc_raw [of s] by (simp add: parse_chars_raw)
qed (auto simp: dump_str_raw_def)

lemma printable_list: "printable_ints (JList xs) \<longleftrightarrow> (\<forall>x \<in> set xs. printable_ints x)"
  by (simp add: list.pred_set)

lemma printable_obj: "printable_ints (JObj fs) \<longleftrightarrow> (\<forall>p \<in> set fs. printable_ints (snd p))"
  by (auto simp: list.pred_set)

declare printable_ints.simps(5,6) [simp del]

lemma json_ok_printable: "json_ok v \<longleftrightarrow> printable_ints v \<and> distinct_keys v"
proof (induction v)
  case (JList xs)
  then show ?case by (auto simp: json_ok_list printable_list distinct_keys_list)
next
  case (JObj fs)
  then have "\<forall>p \<in> set fs. json_ok (snd p) \<longleftrightarrow> printable_ints (snd p) \<and> distinct_keys (snd p)" by force
  then show ?case by (auto simp: json_ok_obj printable_obj distinct_keys_obj)
qed simp_all

lemma canonical_json_read:
  assumes "canonical_json v = Inr t" "distinct_keys v"
  shows "loads_decimal t = Inr (py_of_json (sort_keys v))"
proof -
  have t: "t = dump_compact (sort_keys v)" and "printable_ints v"
    using assms(1) by (auto simp: canonical_json_def split: if_splits)
  then have "json_ok v" using assms(2) by (simp add: json_ok_printable)
  then have "json_ok (sort_keys v)" by (simp only: json_ok_sort_keys)
  then show ?thesis unfolding t by (intro loads_decimal_loads compact_writer.loads_wr)
qed

lemma sequence_Inr: "sequence (map f xs) = Inr ys \<longleftrightarrow> traverse f xs = Inr ys"
  by (induction xs arbitrary: ys) (auto simp: sequence_def bind_res_eq_Inr)

lemma sequence_members_Inr:
  "sequence_members ms = Inr ps \<longleftrightarrow> list_all2 (\<lambda>m p. fst p = fst m \<and> snd m = Inr (snd p)) ms ps"
  unfolding sequence_members_def traverse_Inr_iff
  by (intro iffI; erule list_all2_mono) (auto simp: bind_res_eq_Inr split: prod.splits)

lemma dict_set_keys: "fst ` set (dict_set k v d) = insert k (fst ` set d)"
  by (induction k v d rule: dict_set.induct) auto

lemma distinct_dict_set: "distinct (map fst d) \<Longrightarrow> distinct (map fst (dict_set k v d))"
  by (induction d) (auto simp: dict_set_keys)

lemma dict_set_values: "snd ` set (dict_set k v d) \<subseteq> insert v (snd ` set d)"
  by (induction k v d rule: dict_set.induct) auto

lemma dict_of_pairs_props:
  "distinct (map fst (dict_of_pairs ps))" "snd ` set (dict_of_pairs ps) \<subseteq> snd ` set ps"
proof -
  have "distinct (map fst d) \<Longrightarrow> distinct (map fst (foldl (\<lambda>d (k, v). dict_set k v d) d ps))
      \<and> snd ` set (foldl (\<lambda>d (k, v). dict_set k v d) d ps) \<subseteq> snd ` set d \<union> snd ` set ps" for d
  proof (induction ps arbitrary: d)
    case (Cons p ps)
    obtain k v where p: "p = (k, v)" by fastforce
    have d: "distinct (map fst (dict_set k v d))" using Cons.prems by (rule distinct_dict_set)
    from Cons.IH [OF d] dict_set_values [of k v d] show ?case unfolding p by simp blast
  qed simp
  from this [of "[]"] show "distinct (map fst (dict_of_pairs ps))" "snd ` set (dict_of_pairs ps) \<subseteq> snd ` set ps"
    by (auto simp: dict_of_pairs_def)
qed

lemma sequence_source:
  assumes "sequence (map f xs) = Inr ys" "y \<in> set ys"
  obtains x where "x \<in> set xs" "f x = Inr y"
  using list_all2_source [of _ xs ys y] assms by (auto simp: sequence_Inr traverse_Inr_iff)

lemma sequence_members_source:
  assumes "sequence_members ms = Inr ps" "p \<in> set ps"
  obtains m where "m \<in> set ms" "fst m = fst p" "snd m = Inr (snd p)"
  using list_all2_source [OF assms(1) [unfolded sequence_members_Inr] assms(2)] by auto

lemma canonical_value_keys: "canonical_value v = Inr j \<Longrightarrow> distinct_keys j"
proof (induction v arbitrary: j)
  case (PList xs)
  then obtain ys where ys: "sequence (map canonical_value xs) = Inr ys" "j = JList ys" by (auto simp: bind_res_eq_Inr)
  have "distinct_keys y" if y: "y \<in> set ys" for y
    using sequence_source [OF ys(1) y] PList.IH by blast
  then show ?case by (simp add: ys distinct_keys_list)
next
  case (PTuple xs)
  then obtain ys where ys: "sequence (map canonical_value xs) = Inr ys" "j = JList ys" by (auto simp: bind_res_eq_Inr)
  have "distinct_keys y" if y: "y \<in> set ys" for y
    using sequence_source [OF ys(1) y] PTuple.IH by blast
  then show ?case by (simp add: ys distinct_keys_list)
next
  case (PDict fs)
  then obtain ps where ps: "sequence_members (sort_key fst (map (map_prod id canonical_value) fs)) = Inr ps"
    and j: "j = JObj (dict_of_pairs ps)" by (auto simp: bind_res_eq_Inr)
  have "distinct_keys (snd p)" if p: "p \<in> set ps" for p
  proof -
    obtain m where m: "m \<in> set (sort_key fst (map (map_prod id canonical_value) fs))" "snd m = Inr (snd p)"
      by (rule sequence_members_source [OF ps p])
    then obtain f where f: "f \<in> set fs" "snd m = canonical_value (snd f)" by auto
    show ?thesis
    proof (rule PDict.IH)
      show "f \<in> set fs" "snd f \<in> Basic_BNFs.snds f" "canonical_value (snd f) = Inr (snd p)"
        using f m(2) by (simp_all add: snds.simps)
    qed
  qed
  then have "\<forall>p \<in> set (dict_of_pairs ps). distinct_keys (snd p)" using dict_of_pairs_props(2) [of ps] by fastforce
  then show ?case using dict_of_pairs_props(1) [of ps] by (simp add: j distinct_keys_obj)
qed (auto simp: distinct_keys_obj)

lemma json_of_py_of_json: "json_of_py (py_of_json v) = Inr v"
proof (induction v)
  case (JList xs)
  then have "traverse (json_of_py \<circ> py_of_json) xs = Inr xs" by (simp add: traverse_Inr_iff list_all2_same)
  then show ?case using sequence_Inr [of "json_of_py \<circ> py_of_json" xs xs] by simp
next
  case (JObj fs)
  have "json_of_py (py_of_json (snd p)) = Inr (snd p)" if "p \<in> set fs" for p
    using JObj.IH [OF that, of "snd p"] by (simp add: snds.simps)
  then have "sequence_members (map (map_prod id json_of_py) (map (map_prod id py_of_json) fs)) = Inr fs"
    by (simp add: sequence_members_Inr list.rel_map list_all2_same)
  then show ?case by simp
qed simp_all

lemma dec_eq_refl: "dec_eq d d"
  by (simp add: dec_eq_def Let_def)

lemma py_eq_list_all2: "py_eq_list xs ys \<longleftrightarrow> list_all2 py_eq xs ys"
  by (induction xs arbitrary: ys) (auto simp: list_all2_Cons1 split: list.splits)

lemma py_eq_members_all:
  "py_eq_members fs gs \<longleftrightarrow> (\<forall>p \<in> set fs. \<exists>w. map_of gs (fst p) = Some w \<and> py_eq (snd p) w)"
  by (induction fs) (auto split: option.splits)

lemma py_eq_refl: "distinct_keys v \<Longrightarrow> py_eq (py_of_json v) (py_of_json v)"
proof (induction v)
  case (JList xs)
  then show ?case by (simp add: distinct_keys_list py_eq_list_all2 list.rel_map list_all2_same)
next
  case (JObj fs)
  have "\<exists>w. map_of (map (map_prod id py_of_json) fs) (fst p) = Some w \<and> py_eq (snd p) w"
    if p: "p \<in> set (map (map_prod id py_of_json) fs)" for p
  proof -
    have "distinct (map fst (map (map_prod id py_of_json) fs))" using JObj.prems by (simp add: distinct_keys_obj comp_def)
    then have "map_of (map (map_prod id py_of_json) fs) (fst p) = Some (snd p)" using p by simp
    moreover have "py_eq (snd p) (snd p)" using JObj p by (force simp: distinct_keys_obj)
    ultimately show ?thesis by blast
  qed
  then show ?case by (simp add: py_eq_members_all)
qed (simp_all add: dec_eq_refl)

lemma sort_keys_list: "sort_keys (JList xs) = JList (map sort_keys xs)"
  by simp

lemma canonical_json_sort_keys: "canonical_json (sort_keys v) = canonical_json v"
proof -
  have "printable_ints (sort_keys v) = printable_ints v"
  proof (induction v)
    case (JObj fs)
    then show ?case by (force simp: printable_obj)
  qed (simp_all add: printable_list)
  then show ?thesis by (simp add: canonical_json_def sort_keys_idem)
qed

end
