(* ===== verification/InvariantFacts.thy ===== *)
theory InvariantFacts
  imports InvariantReports PyValueFacts
begin

text \<open>
  What the business-invariant layer guarantees: the shape of accepted declarations, the meaning of a passed
  outcome, the round trip of a report through its bytes and its admission, and when the comparator matches.
\<close>

subsection \<open>Reading objects back\<close>

definition sorted_members :: "(string \<times> json) list \<Rightarrow> members" where
  "sorted_members fs = map (map_prod id py_of_json) (sort_key fst (map (map_prod id sort_keys) fs))"

lemma py_of_sorted_obj: "py_of_json (sort_keys (JObj fs)) = PDict (sorted_members fs)"
  by (simp add: sorted_members_def)

lemma get_members_of:
  assumes "distinct (map fst fs)" "map_of fs k = Some v"
  shows "get (sorted_members fs) k = py_of_json (sort_keys v)"
proof -
  have "map_of (sort_key fst (map (map_prod id sort_keys) fs)) = map_of (map (map_prod id sort_keys) fs)"
    using assms(1) by (intro ext map_of_sort_key) (simp add: comp_def)
  then show ?thesis using assms(2) unfolding get_def sorted_members_def
    by (simp only: map_of_map_prod option.map option.case)
qed

lemma members_of_keys: "set (map fst (sorted_members fs)) = fst ` set fs"
  by (simp add: sorted_members_def image_image)

lemma py_of_sorted_atoms [simp]: "py_of_json (sort_keys (j_opt JStr s)) = (case s of None \<Rightarrow> PNone | Some t \<Rightarrow> PStr t)"
  by (cases s) (simp_all add: j_opt_def)

lemma distinct_keys_sort_keys: "distinct_keys v \<Longrightarrow> distinct_keys (sort_keys v)"
proof (induction v)
  case (JObj fs)
  let ?d = "sort_key fst (map (map_prod id sort_keys) fs)"
  have "distinct (map fst (sort_key fst xs)) = distinct (map fst xs)" for xs :: "(string \<times> json) list"
    by (simp add: distinct_map)
  then have "distinct (map fst ?d)" using JObj.prems by (simp add: distinct_keys_obj)
  moreover have "distinct_keys (snd p)" if p: "p \<in> set ?d" for p
  proof -
    from p obtain q where q: "q \<in> set fs" "snd p = sort_keys (snd q)" by auto
    have "distinct_keys (snd q)" using JObj.prems q(1) unfolding distinct_keys_obj by blast
    then show ?thesis using JObj.IH [OF q(1), of "snd q"] q(2) by (simp add: snds.simps)
  qed
  ultimately show ?case unfolding sort_keys.simps distinct_keys_obj by blast
qed (simp_all add: distinct_keys_list)

subsection \<open>One declaration, one outcome\<close>

lemma in_values_member [simp]: "s \<in> set values \<Longrightarrow> in_values (PStr s) values = Inr True"
  by (simp add: in_values_def hashable_def)

lemma value_members [simp]:
  "kind_value k \<in> set kind_values" "phase_value p \<in> set phase_values" "source_value s \<in> set source_values"
proof -
  show "kind_value k \<in> set kind_values" by (cases k) (simp_all add: kind_values_def)
  show "phase_value p \<in> set phase_values" by (cases p) (simp_all add: phase_values_def)
  show "source_value s \<in> set source_values" by (cases s) (simp_all add: source_values_def)
qed

lemma admit_canonical_declaration:
  assumes "canonical_declaration b = Inr d"
  shows "\<exists>fs. d = JObj fs \<and> distinct_keys d \<and> admit_definition (py_of_json (sort_keys d)) = Inr (sorted_members fs) \<and>
    entry_id (sorted_members fs) = bi_id b"
proof -
  obtain e where e: "canonical_value (bi_expected b) = Inr e" using assms by (auto simp: canonical_declaration_def bind_res_eq_Inr)
  define fs where "fs = [(''invariant_id'', JStr (bi_id b)), (''kind'', JStr (kind_value (bi_kind b))),
        (''source'', JStr (source_value (bi_source b))), (''phase'', JStr (phase_value (bi_phase b))),
        (''source_name'', j_opt JStr (bi_source_name b)), (''expected'', e),
        (''record_length'', j_opt JInt (bi_record_length b)), (''offset'', j_opt JInt (bi_offset b)),
        (''length'', j_opt JInt (bi_length b)), (''record_index'', j_opt JInt (bi_record_index b)),
        (''decimal_places'', JInt (bi_decimal_places b)), (''json_path'', j_opt JStr (bi_json_path b)),
        (''description'', JStr (bi_description b))]"
  have d: "d = JObj fs" using assms e by (simp add: canonical_declaration_def fs_def)
  have dist: "distinct (map fst fs)" by (simp add: fs_def)
  have keys: "fst ` set fs = set definition_fields" by (auto simp: fs_def definition_fields_def)
  have opt: "distinct_keys (j_opt JStr s)" "distinct_keys (j_opt JInt i)" for s i
    by (cases s; simp add: j_opt_def) (cases i; simp add: j_opt_def)
  have dk: "distinct_keys d"
    using canonical_value_keys [OF e] by (simp add: d distinct_keys_obj dist) (simp add: fs_def opt)
  have m: "map_of fs ''invariant_id'' = Some (JStr (bi_id b))"
    "map_of fs ''kind'' = Some (JStr (kind_value (bi_kind b)))"
    "map_of fs ''source'' = Some (JStr (source_value (bi_source b)))"
    "map_of fs ''phase'' = Some (JStr (phase_value (bi_phase b)))"
    by (simp_all add: fs_def)
  note g = m [THEN get_members_of [OF dist], simplified]
  have "entry_with ''definition'' definition_fields (PDict (sorted_members fs)) = Inr (sorted_members fs)"
    using members_of_keys [of fs] keys by (simp add: entry_with_def Let_def)
  then have "admit_definition (py_of_json (sort_keys d)) = Inr (sorted_members fs)"
    by (simp only: d py_of_sorted_obj admit_definition_def) (simp add: require_value_def require_def g)
  then show ?thesis using d dk by (intro exI [of _ fs]) (simp add: entry_id_def g value_str_def)
qed

lemma admit_outcome_json:
  assumes "outcome_json i = Inr d"
  shows "\<exists>fs. d = JObj fs \<and> distinct_keys d \<and> admit_outcome (py_of_json (sort_keys d)) = Inr (sorted_members fs) \<and>
    entry_id (sorted_members fs) = io_id i \<and> check_outcome (sorted_members fs) = Inr () \<and>
    outcome_passed (sorted_members fs) = io_passed i"
proof -
  obtain e v where e: "canonical_value (io_expected i) = Inr e" and v: "canonical_value (io_observed i) = Inr v"
    using assms by (auto simp: outcome_json_def bind_res_eq_Inr)
  define fs where "fs = [(''invariant_id'', JStr (io_id i)), (''phase'', JStr (phase_value (io_phase i))),
        (''kind'', JStr (kind_value (io_kind i))), (''passed'', JBool (io_passed i)),
        (''expected'', e), (''observed'', v), (''reason'', JStr (io_reason i))]"
  have d: "d = JObj fs" using assms e v by (simp add: outcome_json_def fs_def)
  have dist: "distinct (map fst fs)" by (simp add: fs_def)
  have keys: "fst ` set fs = set outcome_fields" by (auto simp: fs_def outcome_fields_def)
  have dk: "distinct_keys d"
    using canonical_value_keys [OF e] canonical_value_keys [OF v]
    by (simp add: d distinct_keys_obj dist) (simp add: fs_def)
  have m: "map_of fs ''invariant_id'' = Some (JStr (io_id i))"
    "map_of fs ''kind'' = Some (JStr (kind_value (io_kind i)))"
    "map_of fs ''phase'' = Some (JStr (phase_value (io_phase i)))"
    "map_of fs ''passed'' = Some (JBool (io_passed i))"
    "map_of fs ''reason'' = Some (JStr (io_reason i))"
    by (simp_all add: fs_def)
  note g = m [THEN get_members_of [OF dist], simplified]
  have "entry_with ''outcome'' outcome_fields (PDict (sorted_members fs)) = Inr (sorted_members fs)"
    using members_of_keys [of fs] keys by (simp add: entry_with_def Let_def)
  then have "admit_outcome (py_of_json (sort_keys d)) = Inr (sorted_members fs)"
    by (simp only: d py_of_sorted_obj admit_outcome_def) (simp add: require_def g)
  moreover have "check_outcome (sorted_members fs) = Inr ()"
    by (simp add: check_outcome_def require_value_def require_def g is_bool_def)
  ultimately show ?thesis using d dk by (intro exI [of _ fs]) (simp add: entry_id_def outcome_passed_def g value_str_def)
qed

subsection \<open>Evaluation\<close>

definition outcome_of :: "business_invariant \<Rightarrow> invariant_outcome \<Rightarrow> bool" where
  "outcome_of b i \<longleftrightarrow> io_id i = bi_id b \<and> io_kind i = bi_kind b \<and> io_phase i = bi_phase b \<and> io_expected i = bi_expected b"

lemma outcome_of_outcome [simp]: "outcome_of b (outcome b p v r)"
  by (simp add: outcome_of_def outcome_def)

lemma io_passed_outcome [simp]: "io_passed (outcome b p v r) = p"
  by (simp add: outcome_def)

text \<open>A call that returns only outcomes of \<open>b\<close>.\<close>

definition yields :: "business_invariant \<Rightarrow> py_error + invariant_outcome \<Rightarrow> bool" where
  "yields b m \<longleftrightarrow> (\<forall>i. m = Inr i \<longrightarrow> outcome_of b i)"

lemma yields_simps [simp]: "yields b (Inl e)" "yields b (Inr i) \<longleftrightarrow> outcome_of b i"
  by (simp_all add: yields_def)

lemma yields_bind: "(\<And>x. m = Inr x \<Longrightarrow> yields b (f x)) \<Longrightarrow> yields b (bind_res m f)"
  by (cases m) simp_all

lemma refusals_yield [simp]: "yields b (not_divisible b c l n)" "yields b (out_of_range b l n i)"
  by (simp_all add: not_divisible_def out_of_range_def yields_bind)

lemma evaluate_record_count_of: "yields b (evaluate_record_count b c l n)"
  by (simp add: evaluate_record_count_def Let_def yields_bind)

lemma evaluate_field_equals_of: "yields b (evaluate_field_equals b c l n)"
  by (simp add: evaluate_field_equals_def Let_def split: option.split)

lemma evaluate_exit_code_of: "yields b (evaluate_exit_code b ob)"
  by (simp add: evaluate_exit_code_def yields_bind split: option.split)

lemma evaluate_lines_of: "yields b (evaluate_lines b c l)"
  unfolding evaluate_lines_def Let_def by (intro yields_bind) (simp add: yields_bind split: option.split)

lemma evaluate_field_total_of: "yields b (evaluate_field_total b c l n)"
proof -
  have "yields b (if ok then Inr (outcome b True v t) else Inr (outcome b False v u))" for ok v t u by simp
  then show ?thesis unfolding evaluate_field_total_def Let_def
    by (auto intro!: yields_bind split: sum.split field_failure.split)
qed

lemmas evaluations_yield = evaluate_record_count_of evaluate_field_equals_of evaluate_exit_code_of
  evaluate_lines_of evaluate_field_total_of

lemma evaluate_json_field_of: "yields b (evaluate_json_field x b c l)"
  unfolding evaluate_json_field_def Let_def
  by (intro yields_bind) (auto intro!: yields_bind split: option.split sum.split load_error.split)

lemma evaluate_one_yields: "yields b (evaluate_one x ob b)"
  unfolding evaluate_one_def
  by (auto intro!: yields_bind evaluations_yield evaluate_json_field_of split: option.split)

lemma evaluate_one_of: "evaluate_one x ob b = Inr i \<Longrightarrow> outcome_of b i"
  using evaluate_one_yields [of b x ob] by (simp add: yields_def)

text \<open>An invariant holds of an observation when its evaluation returns and passes.\<close>

definition holds :: "(bytes \<Rightarrow> string) \<Rightarrow> observation \<Rightarrow> business_invariant \<Rightarrow> bool" where
  "holds x ob b \<longleftrightarrow> (case evaluate_one x ob b of Inl _ \<Rightarrow> False | Inr i \<Rightarrow> io_passed i)"

lemma duplicates_Nil: "duplicates names = [] \<longleftrightarrow> distinct names"
proof -
  have "sort xs = [] \<longleftrightarrow> xs = []" for xs :: "string list" by (metis length_0_conv length_sort)
  then have "duplicates names = [] \<longleftrightarrow> (\<forall>n \<in> set names. count_list names n \<le> 1)"
    by (simp add: duplicates_def filter_empty_conv remdups_eq_nil_iff not_less)
  also have "\<dots> \<longleftrightarrow> distinct names"
  proof (induction names)
    case (Cons y ys)
    have "(\<forall>n \<in> set (y # ys). count_list (y # ys) n \<le> 1) \<longleftrightarrow> y \<notin> set ys \<and> (\<forall>n \<in> set ys. count_list ys n \<le> 1)"
      by (auto simp: count_list_0_iff)
    then show ?case using Cons.IH by simp
  qed simp
  finally show ?thesis .
qed

lemma evaluated:
  assumes "evaluate_invariants x bs ob = Inr is"
  shows "traverse (evaluate_one x ob) (sort_key bi_id bs) = Inr is"
    "list_all io_passed is \<longleftrightarrow> (\<forall>b \<in> set bs. holds x ob b)"
    "map io_id is = map bi_id (sort_key bi_id bs)" "distinct (map bi_id bs)"
proof -
  show t: "traverse (evaluate_one x ob) (sort_key bi_id bs) = Inr is"
    using assms by (auto simp: evaluate_invariants_def Let_def split: if_splits)
  then have a: "list_all2 (\<lambda>b i. evaluate_one x ob b = Inr i) (sort_key bi_id bs) is" by (simp add: traverse_Inr_iff)
  have "list_all io_passed is \<longleftrightarrow> (\<forall>b \<in> set (sort_key bi_id bs). holds x ob b)"
    using a by (induction rule: list_all2_induct) (auto simp: holds_def)
  then show "list_all io_passed is \<longleftrightarrow> (\<forall>b \<in> set bs. holds x ob b)" by simp
  show "map io_id is = map bi_id (sort_key bi_id bs)"
    using a by (induction rule: list_all2_induct) (auto simp: outcome_of_def dest!: evaluate_one_of)
  show "distinct (map bi_id bs)"
    using assms by (simp add: evaluate_invariants_def Let_def duplicates_Nil split: if_splits)
qed

subsection \<open>A report and its admission\<close>

fun json_fields :: "json \<Rightarrow> (string \<times> json) list" where
  "json_fields (JObj fs) = fs"
| "json_fields _ = []"

lemma definitions_admitted:
  assumes "canonical_declarations bs = Inr ds"
  shows "traverse admit_definition (map (\<lambda>d. py_of_json (sort_keys d)) ds) = Inr (map (sorted_members \<circ> json_fields) ds)"
    "traverse (\<lambda>fs. json_of_py (PDict fs)) (map (sorted_members \<circ> json_fields) ds) = Inr (map sort_keys ds)"
    "map entry_id (map (sorted_members \<circ> json_fields) ds) = map bi_id (sort_key bi_id bs)"
    "\<forall>d \<in> set ds. distinct_keys d" "length ds = length bs"
    "map PDict (map (sorted_members \<circ> json_fields) ds) = map (\<lambda>d. py_of_json (sort_keys d)) ds"
proof -
  have a: "list_all2 (\<lambda>b d. canonical_declaration b = Inr d) (sort_key bi_id bs) ds"
    using assms by (simp add: canonical_declarations_def traverse_Inr_iff)
  have e: "\<exists>b. canonical_declaration b = Inr d" if "d \<in> set ds" for d
    using list_all2_source [OF a that] by blast
  have p: "PDict (sorted_members (json_fields d)) = py_of_json (sort_keys d) \<and> distinct_keys d \<and>
      admit_definition (py_of_json (sort_keys d)) = Inr (sorted_members (json_fields d))" if "d \<in> set ds" for d
    using e [OF that] admit_canonical_declaration [of _ d] py_of_sorted_obj by fastforce
  show "traverse admit_definition (map (\<lambda>d. py_of_json (sort_keys d)) ds) = Inr (map (sorted_members \<circ> json_fields) ds)"
    using p by (induction ds) simp_all
  have "traverse (\<lambda>fs. json_of_py (PDict fs)) (map (sorted_members \<circ> json_fields) xs) = Inr (map sort_keys xs)"
    if "set xs \<subseteq> set ds" for xs
    using that p by (induction xs) (simp_all del: json_of_py.simps add: json_of_py_of_json)
  then show "traverse (\<lambda>fs. json_of_py (PDict fs)) (map (sorted_members \<circ> json_fields) ds) = Inr (map sort_keys ds)" by simp
  show "map entry_id (map (sorted_members \<circ> json_fields) ds) = map bi_id (sort_key bi_id bs)"
    using a by (induction rule: list_all2_induct) (auto dest!: admit_canonical_declaration)
  show "\<forall>d \<in> set ds. distinct_keys d" using p by blast
  show "length ds = length bs" using list_all2_lengthD [OF a] by simp
  show "map PDict (map (sorted_members \<circ> json_fields) ds) = map (\<lambda>d. py_of_json (sort_keys d)) ds" using p by simp
qed

lemma outcomes_admitted:
  assumes "traverse outcome_json is = Inr os"
  shows "traverse admit_outcome (map (\<lambda>d. py_of_json (sort_keys d)) os) = Inr (map (sorted_members \<circ> json_fields) os)"
    "traverse check_outcome (map (sorted_members \<circ> json_fields) os) = Inr (map (\<lambda>_. ()) os)"
    "map entry_id (map (sorted_members \<circ> json_fields) os) = map io_id is"
    "list_all outcome_passed (map (sorted_members \<circ> json_fields) os) = list_all io_passed is"
    "\<forall>d \<in> set os. distinct_keys d" "length os = length is"
proof -
  have a: "list_all2 (\<lambda>i d. outcome_json i = Inr d) is os" using assms by (simp add: traverse_Inr_iff)
  have p: "distinct_keys d \<and> admit_outcome (py_of_json (sort_keys d)) = Inr (sorted_members (json_fields d)) \<and>
      check_outcome (sorted_members (json_fields d)) = Inr ()" if "d \<in> set os" for d
    using list_all2_source [OF a that] admit_outcome_json [of _ d] by fastforce
  show "traverse admit_outcome (map (\<lambda>d. py_of_json (sort_keys d)) os) = Inr (map (sorted_members \<circ> json_fields) os)"
    using p by (induction os) simp_all
  have "traverse check_outcome (map (sorted_members \<circ> json_fields) xs) = Inr (map (\<lambda>_. ()) xs)" if "set xs \<subseteq> set os" for xs
    using that p by (induction xs) simp_all
  then show "traverse check_outcome (map (sorted_members \<circ> json_fields) os) = Inr (map (\<lambda>_. ()) os)" by simp
  show "map entry_id (map (sorted_members \<circ> json_fields) os) = map io_id is"
    using a by (induction rule: list_all2_induct) (auto dest!: admit_outcome_json)
  show "list_all outcome_passed (map (sorted_members \<circ> json_fields) os) = list_all io_passed is"
    using a by (induction rule: list_all2_induct) (auto dest!: admit_outcome_json)
  show "\<forall>d \<in> set os. distinct_keys d" using p by blast
  show "length os = length is" using list_all2_lengthD [OF a] by simp
qed

lemma digest_of_sorted: "digest_of (map sort_keys vs) = digest_of vs"
  using canonical_json_sort_keys [of "JList vs"] by (simp add: digest_of_def)

lemma digest_of_length: "digest_of vs = Inr d \<Longrightarrow> length d = 64"
  by (auto simp: digest_of_def bind_res_eq_Inr)

lemma decode_text_encode: "decoded_source (utf8_encode s) = Inr (Some s)"
  by (simp add: decoded_source_def utf8_decode_encode)

text \<open>What a built report becomes through its bytes and its admission.\<close>

definition admitted_of :: "invariant_report \<Rightarrow> json list \<Rightarrow> admitted_report" where
  "admitted_of r os =
     \<lparr>ad_digest = rp_digest r, ad_definitions = map (sorted_members \<circ> json_fields) (rp_definitions r),
      ad_overall = overall (rp_outcomes r), ad_outcomes = map (sorted_members \<circ> json_fields) os\<rparr>"

lemma report_admitted:
  assumes b: "build_report x bs ob = Inr r" and c: "report_bytes r = Inr c"
  shows "\<exists>os. admit_report y c = Inr (admitted_of r os)"
proof -
  obtain ds dg "is" where ne: "bs \<noteq> []" and ds: "canonical_declarations bs = Inr ds" and dg: "digest_of ds = Inr dg"
    and is': "evaluate_invariants x bs ob = Inr is"
    and r: "r = \<lparr>rp_digest = dg, rp_definitions = ds, rp_outcomes = is\<rparr>"
    using b by (auto simp: build_report_def bind_res_eq_Inr split: if_splits)
  obtain os v t where os: "traverse outcome_json is = Inr os" and v: "report_json r = Inr v"
    and t: "canonical_json v = Inr t" and c': "c = utf8_encode t"
    using c r by (auto simp: report_bytes_def report_json_def bind_res_eq_Inr)
  note D = definitions_admitted [OF ds] and O = outcomes_admitted [OF os] and E = evaluated [OF is']
  define fs where "fs = [(''schema_version'', JStr ''1.0''), (''definition_digest'', JStr dg),
        (''definitions'', JList ds), (''overall'', JStr (overall is)),
        (''evaluated_count'', JInt (int (length is))),
        (''failed_count'', JInt (int (length (filter (\<lambda>i. \<not> io_passed i) is)))),
        (''outcomes'', JList os)]"
  have v': "v = JObj fs" using v os by (simp add: report_json_def r fs_def)
  have dist: "distinct (map fst fs)" by (simp add: fs_def)
  have dk: "distinct_keys v" using D(4) O(5) by (simp add: v' distinct_keys_obj dist) (simp add: fs_def distinct_keys_list)
  have load: "load_report y c = Inr (sorted_members fs)"
    using canonical_json_read [OF t dk] py_of_sorted_obj [of fs]
    by (simp add: load_report_def c' decode_text_encode v' del: sort_keys.simps py_of_json.simps)
  have m: "map_of fs ''schema_version'' = Some (JStr ''1.0'')" "map_of fs ''definition_digest'' = Some (JStr dg)"
    "map_of fs ''definitions'' = Some (JList ds)" "map_of fs ''overall'' = Some (JStr (overall is))"
    "map_of fs ''outcomes'' = Some (JList os)" by (simp_all add: fs_def)
  note g = m [THEN get_members_of [OF dist], simplified]
  have len: "length is = length bs" using arg_cong [OF E(3), of length] by simp
  have nd: "ds \<noteq> []" "os \<noteq> []" "is \<noteq> []" using ne len D(5) O(6) by auto
  have nl: "nonempty_list (get (sorted_members fs) ''definitions'') msg = Inr (map (\<lambda>d. py_of_json (sort_keys d)) ds)"
    "nonempty_list (get (sorted_members fs) ''outcomes'') msg' = Inr (map (\<lambda>d. py_of_json (sort_keys d)) os)" for msg msg'
    using nd by (simp_all add: g nonempty_list_def comp_def split: list.split)
  have ids: "sort (map entry_id (map (sorted_members \<circ> json_fields) ds)) = sort (map entry_id (map (sorted_members \<circ> json_fields) os))"
    unfolding D(3) O(3) E(3) ..
  have st: "check_overall (get (sorted_members fs) ''overall'') = Inr (overall is)"
    by (simp add: g check_overall_def overall_def)
  have cd: "check_digest (get (sorted_members fs) ''definition_digest'') = Inr dg"
    using digest_of_length [OF dg] by (simp add: g check_digest_def)
  have ov: "(if list_all outcome_passed (map (sorted_members \<circ> json_fields) os) then ''PASS'' else ''FAIL'') = overall is"
    unfolding O(4) using nd by (simp add: overall_def)
  have "admit_report y c = Inr (admitted_of r os)"
    unfolding admit_report_def load bind_res_simps Let_def nl st cd D(1,2) O(1,2) ids digest_of_sorted dg ov
    by (simp add: g(1) require_def admitted_of_def r)
  then show ?thesis by blast
qed

subsection \<open>The comparator on two built reports\<close>

lemma handle_missing_present [simp]: "handle_missing cid oa ca (Some a) (Some b) fp = None"
  by (simp add: handle_missing_def Let_def)

lemma built_report_parts:
  assumes "build_report x bs ob = Inr r"
  shows "canonical_declarations bs = Inr (rp_definitions r)" "digest_of (rp_definitions r) = Inr (rp_digest r)"
    "overall (rp_outcomes r) = ''PASS'' \<longleftrightarrow> (\<forall>b \<in> set bs. holds x ob b)"
proof -
  obtain ds dg "is" where ne: "bs \<noteq> []" and ds: "canonical_declarations bs = Inr ds" and dg: "digest_of ds = Inr dg"
    and is': "evaluate_invariants x bs ob = Inr is"
    and r: "r = \<lparr>rp_digest = dg, rp_definitions = ds, rp_outcomes = is\<rparr>"
    using assms by (auto simp: build_report_def bind_res_eq_Inr split: if_splits)
  show "canonical_declarations bs = Inr (rp_definitions r)" "digest_of (rp_definitions r) = Inr (rp_digest r)"
    using ds dg by (simp_all add: r)
  have "is \<noteq> []" using ne arg_cong [OF evaluated(3) [OF is'], of length] by auto
  then show "overall (rp_outcomes r) = ''PASS'' \<longleftrightarrow> (\<forall>b \<in> set bs. holds x ob b)"
    using evaluated(2) [OF is'] by (simp add: r overall_def)
qed

lemma compare_reports:
  assumes r1: "build_report x bs ob1 = Inr r1" "report_bytes r1 = Inr c1"
    and r2: "build_report x bs ob2 = Inr r2" "report_bytes r2 = Inr c2"
  shows "\<exists>r. business_invariant_compare x oa (Some c1) ca (Some c2) None ''SEQUENTIAL'' fp = Inr r \<and>
    (if \<forall>b \<in> set bs. holds x ob1 b \<and> holds x ob2 b then r = mk_result invariant_comparator_id oa ca MATCH [] []
     else cr_result r = MISMATCH)"
proof -
  obtain os1 os2 where a: "admit_report x c1 = Inr (admitted_of r1 os1)" "admit_report x c2 = Inr (admitted_of r2 os2)"
    using report_admitted [OF r1] report_admitted [OF r2] by blast
  note p1 = built_report_parts [OF r1(1)] and p2 = built_report_parts [OF r2(1)]
  have d: "rp_definitions r1 = rp_definitions r2" "rp_digest r1 = rp_digest r2" using p1(1,2) p2(1,2) by simp_all
  have "\<forall>v \<in> set (rp_definitions r2). distinct_keys (sort_keys v)"
    using definitions_admitted(4) [OF p2(1)] distinct_keys_sort_keys by blast
  then have "py_eq_list (map (\<lambda>d. py_of_json (sort_keys d)) (rp_definitions r2)) (map (\<lambda>d. py_of_json (sort_keys d)) (rp_definitions r2))"
    by (simp add: py_eq_list_all2 list.rel_map list_all2_same py_eq_refl)
  then have e: "py_eq_list (map PDict (ad_definitions (admitted_of r1 os1))) (map PDict (ad_definitions (admitted_of r2 os2)))"
    unfolding admitted_of_def admitted_report.simps d(1) definitions_admitted(6) [OF p2(1)] .
  show ?thesis
    by (simp add: business_invariant_compare_def admit_pair_def a compare_admitted_def e mk_result_def)
      (auto simp: admitted_of_def d(2) p1(3) p2(3))
qed

end
