(* ===== verification/PipelineFacts.thy ===== *)
theory PipelineFacts
  imports Pipeline ComparatorFacts VerdictFacts IndexedRecordFacts InvariantFacts
begin

text \<open>
  What a VERIFIED run has observed. Every comparison of the run is a match, so the comparators' contracts
  turn the verdict into statements about the two executions: their streams, their exit codes and the
  files they wrote.
\<close>

subsection \<open>Comparisons of a run\<close>

lemma run_error_Inr [simp]: "run_error r = Inr x \<longleftrightarrow> r = Inr x"
  by (simp add: run_error_def split: sum.splits)

text \<open>The observations, undeclared files and rules a run compares.\<close>

lemma run_declaration_parts:
  assumes "run_declaration_driven cx declared kf invariants inputs = Inr (artifacts, comparisons)"
  obtains observed files rules where
    "traverse (compare_declared cx) (compared_artifacts declared) = Inr observed"
    "compare_all_undeclared cx kf (undeclared_files declared (generated_files (cx_oracle cx))
       (generated_files (cx_candidate cx))) = Inr files"
    "compare_invariants cx invariants inputs = Inr rules"
    "comparisons = map (\<lambda>(_, _, e). e) (observed @ files @ rules)"
  using assms by (auto simp: run_declaration_driven_def bind_res_eq_Inr Let_def)

definition run_context :: "string \<Rightarrow> run_inputs \<Rightarrow> oracle_execution_result \<Rightarrow> build_outcome \<Rightarrow> comparison_context" where
  "run_context now ri oracle_result build =
     \<lparr>cx_now = now, cx_run_id = ri_run_id ri, cx_registry = ri_registry ri, cx_oracle = oracle_result,
      cx_candidate = candidate_result now (ri_run_id ri) build, cx_explain = ri_explain ri\<rparr>"

lemma run_context_simps [simp]:
  "cx_oracle (run_context now ri o' b) = o'" "cx_registry (run_context now ri o' b) = ri_registry ri"
  "cx_candidate (run_context now ri o' b) = candidate_result now (ri_run_id ri) b"
  by (simp_all add: run_context_def)

lemma run_evidence_parts:
  assumes "run_evidence now ri oracle_result build = Inr m"
  obtains artifacts comparisons effect_artifacts effects where
    "run_declaration_driven (run_context now ri oracle_result build) (ri_declared ri) (ri_keyed ri) (ri_invariants ri) (ri_input_files ri)
       = Inr (artifacts, comparisons)"
    "unobserved_effect_evidence now (ri_run_id ri) (ri_workload_id ri) (er_execution_id oracle_result)
       (er_execution_id (candidate_result now (ri_run_id ri) build)) (ri_effects ri) = Inr (effect_artifacts, effects)"
    "em_comparisons m = map (\<lambda>c. c\<lparr>ce_workload_id := Some (ri_workload_id ri)\<rparr>) comparisons @ effects"
    "map ex_phase (em_executions m) = [''EXECUTE'', build_phase build]"
    "map ex_termination_status (em_executions m)
       = [er_termination_status oracle_result, er_termination_status (candidate_result now (ri_run_id ri) build)]"
    "map is_candidate_run (em_executions m) = [False, True]"
  using assms
  by (auto simp: run_evidence_def run_context_def run_manifest_def seal_manifest_def bind_res_eq_Inr Let_def
      oracle_to_execution_evidence_def candidate_to_execution_evidence_def execution_evidence_of_def
      is_candidate_run_def starts_with_def)

lemma run_verified:
  assumes "run_pipeline now ri oracle_result build = Inr (m, v)" "vd_state v = VERIFIED"
  shows "run_evidence now ri oracle_result build = Inr m" "admissible m" "certifiable m"
  using assms admit_and_derive_verified [of now now m] by (auto simp: run_pipeline_def bind_res_eq_Inr)

text \<open>A failed build is recorded in the phase BUILD, which is not an execution of the candidate.\<close>

lemma executed_when_verified:
  assumes "run_pipeline now ri oracle_result build = Inr (m, v)" "vd_state v = VERIFIED"
  shows "\<exists>candidate. build = Executed candidate"
proof -
  note v = run_verified [OF assms]
  from run_evidence_parts [OF v(1)] have
    p: "map ex_phase (em_executions m) = [''EXECUTE'', build_phase build]"
    "map is_candidate_run (em_executions m) = [False, True]" by blast+
  have "\<exists>e \<in> set (em_executions m). is_candidate_run e \<and> ex_phase e = ''EXECUTE''"
    using v(2) unfolding admissible_def by blast
  then have "build_phase build = ''EXECUTE''"
    using p by (auto simp: map_eq_Cons_conv)
  then show ?thesis by (cases build) (simp_all add: build_phase_def)
qed

text \<open>In a VERIFIED run every pair the run compared is a match.\<close>

lemma verified_all_match:
  assumes "run_pipeline now ri oracle_result build = Inr (m, v)" "vd_state v = VERIFIED"
  obtains observed files rules where
    "traverse (compare_declared (run_context now ri oracle_result build)) (compared_artifacts (ri_declared ri)) = Inr observed"
    "compare_all_undeclared (run_context now ri oracle_result build) (ri_keyed ri)
       (undeclared_files (ri_declared ri) (generated_files oracle_result)
         (generated_files (candidate_result now (ri_run_id ri) build))) = Inr files"
    "compare_invariants (run_context now ri oracle_result build) (ri_invariants ri) (ri_input_files ri) = Inr rules"
    "\<forall>(_, _, e) \<in> set (observed @ files @ rules). ce_result e = ''MATCH''"
proof -
  note v = run_verified [OF assms]
  from run_evidence_parts [OF v(1)] obtain artifacts comparisons effects where
    d: "run_declaration_driven (run_context now ri oracle_result build) (ri_declared ri) (ri_keyed ri) (ri_invariants ri) (ri_input_files ri)
       = Inr (artifacts, comparisons)"
    and c: "em_comparisons m = map (\<lambda>c. c\<lparr>ce_workload_id := Some (ri_workload_id ri)\<rparr>) comparisons @ effects" .
  have all: "\<forall>e \<in> set (em_comparisons m). ce_result e = ''MATCH''"
    using v(3) unfolding certifiable_def by (elim conjE)
  have "ce_result e = ''MATCH''" if "e \<in> set comparisons" for e
  proof -
    have "e\<lparr>ce_workload_id := Some (ri_workload_id ri)\<rparr> \<in> set (em_comparisons m)"
      unfolding c set_append set_map using that by blast
    with all have "ce_result (e\<lparr>ce_workload_id := Some (ri_workload_id ri)\<rparr>) = ''MATCH''" by blast
    then show ?thesis by simp
  qed
  moreover from run_declaration_parts [OF d] obtain observed files rules where
    o: "traverse (compare_declared (run_context now ri oracle_result build)) (compared_artifacts (ri_declared ri)) = Inr observed"
      "compare_all_undeclared (run_context now ri oracle_result build) (ri_keyed ri)
       (undeclared_files (ri_declared ri) (generated_files oracle_result)
         (generated_files (candidate_result now (ri_run_id ri) build))) = Inr files"
      "compare_invariants (run_context now ri oracle_result build) (ri_invariants ri) (ri_input_files ri) = Inr rules"
    and e: "comparisons = map (\<lambda>(_, _, e). e) (observed @ files @ rules)"
    unfolding run_context_simps .
  ultimately have "\<forall>(_, _, e) \<in> set (observed @ files @ rules). ce_result e = ''MATCH''"
    unfolding e by fastforce
  with o show thesis by (rule that)
qed

lemma verified_matches:
  assumes "run_pipeline now ri oracle_result build = Inr (m, v)" "vd_state v = VERIFIED"
  obtains observed files where
    "traverse (compare_declared (run_context now ri oracle_result build)) (compared_artifacts (ri_declared ri)) = Inr observed"
    "compare_all_undeclared (run_context now ri oracle_result build) (ri_keyed ri)
       (undeclared_files (ri_declared ri) (generated_files oracle_result)
         (generated_files (candidate_result now (ri_run_id ri) build))) = Inr files"
    "\<forall>(_, _, e) \<in> set (observed @ files). ce_result e = ''MATCH''"
proof -
  from verified_all_match [OF assms] obtain observed files rules where
    o: "traverse (compare_declared (run_context now ri oracle_result build)) (compared_artifacts (ri_declared ri)) = Inr observed"
    "compare_all_undeclared (run_context now ri oracle_result build) (ri_keyed ri)
       (undeclared_files (ri_declared ri) (generated_files oracle_result)
         (generated_files (candidate_result now (ri_run_id ri) build))) = Inr files"
    and m: "\<forall>(_, _, e) \<in> set (observed @ files @ rules). ce_result e = ''MATCH''" .
  from m have "\<forall>(_, _, e) \<in> set (observed @ files). ce_result e = ''MATCH''" unfolding set_append by blast
  with o show thesis by (rule that)
qed


subsection \<open>One comparison\<close>

text \<open>The registries a pipeline creates dispatch every observed type to its own comparator.\<close>

definition standard_registry :: "registry \<Rightarrow> bool" where
  "standard_registry r \<longleftrightarrow> create_default_registry = Inr r \<or> create_verification_registry = Inr r"

lemma standard_registry_get:
  assumes "standard_registry r"
  shows "registry_get r ''STDOUT'' = Some StdoutComparator" "registry_get r ''STDERR'' = Some StderrComparator"
    "registry_get r ''EXIT_STATUS'' = Some ExitStatusComparator"
    "registry_get r ''TEXT_FILE'' = Some TextFileComparator"
    "registry_get r ''FIXED_RECORD'' = Some FixedRecordComparator"
  using assms
  by (auto simp: standard_registry_def create_default_registry_def create_verification_registry_def register_def
      is_registered_def registry_get_def Let_def)

text \<open>The pair a comparison is about, its comparator's result and the evidence.\<close>

lemma compare_declared_parts:
  assumes "compare_declared cx a = Inr (oc, cc, e)"
  obtains comparator r where
    "capture_pair cx (wa_artifact_type a) (wa_logical_name a) (wa_record_length a)
       (extract_artifact_content (wa_artifact_type a) (wa_output_path a) (cx_oracle cx))
       (extract_artifact_content (wa_artifact_type a) (wa_output_path a) (cx_candidate cx)) = Inr (oc, cc)"
    "bound_comparator (cx_registry cx) a = Inr comparator"
    "compare_with (cx_explain cx) comparator (cap_artifact oc) (cap_content oc) (cap_artifact cc)
       (cap_content cc) (Some (case wa_normalization a of None \<Rightarrow> [] | Some ns \<Rightarrow> ns))
       (case wa_ordering a of None \<Rightarrow> ''SEQUENTIAL'' | Some ord \<Rightarrow> ord) (wa_failure a) = Inr r"
    "ce_result e = result_value (cr_result r)"
  using assms by (auto simp: compare_declared_def make_comparison_evidence_def bind_res_eq_Inr Let_def)

lemma bound_comparator_get: "bound_comparator r a = Inr c \<Longrightarrow> registry_get r (wa_artifact_type a) = Some c"
  by (auto simp: bound_comparator_def Let_def split: option.splits if_splits)

lemma result_value_match [simp]: "result_value r = ''MATCH'' \<longleftrightarrow> r = MATCH"
  by (cases r) simp_all

lemma capture_pair_streams:
  assumes "capture_pair cx t n rl (Some x) (Some y) = Inr (oc, cc)" "t = ''STDOUT'' \<or> t = ''STDERR'' \<or> t = ''TEXT_FILE''"
  shows "cap_content oc = Some x" "cap_content cc = Some y"
  using assms by (auto simp: capture_pair_def capture_artifact_def capture_defs bind_res_eq_Inr dest!: captured_fields)

text \<open>A stream artifact that matches: both sides are equal once prepared under the declared policy.\<close>

lemma stream_match:
  assumes "compare_declared cx a = Inr (oc, cc, e)" "ce_result e = ''MATCH''" "standard_registry (cx_registry cx)"
    and "wa_artifact_type a = ''STDOUT'' \<and> xs = er_stdout (cx_oracle cx) \<and> ys = er_stdout (cx_candidate cx) \<or>
         wa_artifact_type a = ''STDERR'' \<and> xs = er_stderr (cx_oracle cx) \<and> ys = er_stderr (cx_candidate cx)"
  shows "prepared xs (case wa_normalization a of None \<Rightarrow> [] | Some ns \<Rightarrow> ns)
      (case wa_ordering a of None \<Rightarrow> ''SEQUENTIAL'' | Some ord \<Rightarrow> ord)
    = prepared ys (case wa_normalization a of None \<Rightarrow> [] | Some ns \<Rightarrow> ns)
      (case wa_ordering a of None \<Rightarrow> ''SEQUENTIAL'' | Some ord \<Rightarrow> ord)"
proof -
  from compare_declared_parts [OF assms(1)] obtain comparator r where
    cap: "capture_pair cx (wa_artifact_type a) (wa_logical_name a) (wa_record_length a)
       (extract_artifact_content (wa_artifact_type a) (wa_output_path a) (cx_oracle cx))
       (extract_artifact_content (wa_artifact_type a) (wa_output_path a) (cx_candidate cx)) = Inr (oc, cc)"
    and b: "bound_comparator (cx_registry cx) a = Inr comparator"
    and r: "compare_with (cx_explain cx) comparator (cap_artifact oc) (cap_content oc) (cap_artifact cc)
       (cap_content cc) (Some (case wa_normalization a of None \<Rightarrow> [] | Some ns \<Rightarrow> ns))
       (case wa_ordering a of None \<Rightarrow> ''SEQUENTIAL'' | Some ord \<Rightarrow> ord) (wa_failure a) = Inr r"
    and e: "ce_result e = result_value (cr_result r)" .
  have m: "cr_result r = MATCH" using e assms(2) result_value_match by metis
  have x: "extract_artifact_content (wa_artifact_type a) (wa_output_path a) (cx_oracle cx) = Some xs"
    "extract_artifact_content (wa_artifact_type a) (wa_output_path a) (cx_candidate cx) = Some ys"
    using assms(4) by (auto simp: extract_artifact_content_def)
  have c: "cap_content oc = Some xs" "cap_content cc = Some ys"
    using capture_pair_streams [OF cap [unfolded x]] assms(4) by auto
  have "comparator = StdoutComparator \<or> comparator = StderrComparator"
    using bound_comparator_get [OF b] standard_registry_get [OF assms(3)] assms(4) by auto
  then obtain cid loc desc where "text_compare cid loc desc (cap_artifact oc) (Some xs) (cap_artifact cc) (Some ys)
      (Some (case wa_normalization a of None \<Rightarrow> [] | Some ns \<Rightarrow> ns))
      (case wa_ordering a of None \<Rightarrow> ''SEQUENTIAL'' | Some ord \<Rightarrow> ord) (wa_failure a) = Inr r"
    using r c by (auto simp: stdout_compare_def stderr_compare_def)
  from text_compare_match [OF this] m show ?thesis by simp
qed

lemma prepared_plain [simp]: "prepared xs [] ''SEQUENTIAL'' = Inr xs"
  by (simp add: prepared_def apply_ordering_def)

text \<open>A file compared outside the declarations that matches: both sides wrote it with the same bytes.\<close>

lemma file_match:
  assumes "compare_file cx TextFileComparator name oc cc = Inr (x, y, e)" "ce_result e = ''MATCH''"
  shows "\<exists>b. oc = Some b \<and> cc = Some b"
proof -
  obtain r where
    cap: "capture_pair cx ''TEXT_FILE'' (''generated-file:'' @ name) None oc cc = Inr (x, y)"
    and r: "text_file_compare (cap_artifact x) (cap_content x) (cap_artifact y) (cap_content y) (Some []) ''SEQUENTIAL''
      (Some ''FAILED'') = Inr r" and m: "cr_result r = MATCH"
    using assms by (auto simp: compare_file_def make_comparison_evidence_def bind_res_eq_Inr Let_def)
  have content: "cap_content x = oc" "cap_content y = cc"
    using cap by (auto simp: capture_pair_def capture_artifact_def capture_defs bind_res_eq_Inr
        split: option.splits dest!: captured_fields)
  have "oc \<noteq> None \<and> cc \<noteq> None"
    using r m content handle_missing_Some(4) [of text_file_id "cap_artifact x" "cap_artifact y" oc cc "Some ''FAILED''"]
    by (auto simp: text_file_compare_def text_compare_def split: option.splits)
  then obtain b c where bc: "oc = Some b" "cc = Some c" by blast
  have "text_compare text_file_id ''file_content'' ''TEXT_FILE content differs'' (cap_artifact x) (Some b)
      (cap_artifact y) (Some c) (Some []) ''SEQUENTIAL'' (Some ''FAILED'') = Inr r"
    using r content bc by (simp add: text_file_compare_def)
  from text_compare_match [OF this] m bc show ?thesis by simp
qed


subsection \<open>Streams and exit codes\<close>

lemma fresh_name_fresh: "fresh_name names n \<notin> set names"
  by (induction names n rule: fresh_name.induct) (subst fresh_name.simps, simp)

text \<open>Every required observation is compared, as declared or byte-exactly.\<close>

lemma add_required_keeps: "set artifacts \<subseteq> set (add_required req names artifacts)"
  by (induction req names artifacts rule: add_required.induct) (auto simp: Let_def)

lemma add_required_adds:
  "(t, n, c) \<in> set req \<Longrightarrow> \<forall>a \<in> set artifacts. wa_artifact_type a \<noteq> t \<Longrightarrow> distinct (map fst req) \<Longrightarrow>
   \<exists>name. plain_artifact name t c None None \<in> set (add_required req names artifacts)"
proof (induction req names artifacts rule: add_required.induct)
  case (2 t' n' c' rest names artifacts)
  show ?case
  proof (cases "t' = t")
    case True
    then have "(t, n, c) = (t', n', c')" using 2(3,5) by force
    then have "plain_artifact (fresh_name names n) t c None None
        \<in> set (add_required ((t', n', c') # rest) names artifacts)"
      using 2(4) add_required_keeps by (fastforce simp: Let_def)
    then show ?thesis by blast
  next
    case False
    then have r: "(t, n, c) \<in> set rest" "distinct (map fst rest)" using 2(3,5) by auto
    show ?thesis
    proof (cases "\<exists>a \<in> set artifacts. wa_artifact_type a = t'")
      case True
      then show ?thesis using 2(1) [OF True r(1) 2(4) r(2)] by simp
    next
      case no: False
      have "\<forall>a \<in> set (artifacts @ [plain_artifact (fresh_name names n') t' c' None None]). wa_artifact_type a \<noteq> t"
        using 2(4) False by (simp add: plain_artifact_def)
      then show ?thesis using 2(2) [OF no refl r(1) _ r(2)] no by (simp add: Let_def)
    qed
  qed
qed simp

lemma compared_declared: "a \<in> set declared \<Longrightarrow> a \<in> set (compared_artifacts declared)"
  unfolding compared_artifacts_def using add_required_keeps by blast

lemma compared_required:
  assumes "(t, n, c) \<in> set required_observations" "\<forall>a \<in> set declared. wa_artifact_type a \<noteq> t"
  shows "\<exists>name. plain_artifact name t c None None \<in> set (compared_artifacts declared)"
  unfolding compared_artifacts_def
  by (rule add_required_adds [OF assms]) (simp add: required_observations_def)

definition policy_norm :: "workload_artifact \<Rightarrow> string list" where
  "policy_norm a = (case wa_normalization a of None \<Rightarrow> [] | Some ns \<Rightarrow> ns)"

definition policy_order :: "workload_artifact \<Rightarrow> string" where
  "policy_order a = (case wa_ordering a of None \<Rightarrow> ''SEQUENTIAL'' | Some ord \<Rightarrow> ord)"

text \<open>Two outputs agree under the declarations of their type: under each declared policy, and byte for byte
  when there is none.\<close>

definition agree_under :: "workload_artifact list \<Rightarrow> string \<Rightarrow> bytes \<Rightarrow> bytes \<Rightarrow> bool" where
  "agree_under declared t xs ys \<longleftrightarrow>
     (\<forall>a \<in> set declared. wa_artifact_type a = t \<longrightarrow>
        prepared xs (policy_norm a) (policy_order a) = prepared ys (policy_norm a) (policy_order a)) \<and>
     ((\<forall>a \<in> set declared. wa_artifact_type a \<noteq> t) \<longrightarrow> xs = ys)"

lemma int_of_show_nat:
  "int_of_bytes (show_nat n) = (if length (show_nat n) \<le> 4300 then Some (int n) else None)"
  "int_of_bytes (CHR ''-'' # show_nat n) = (if length (show_nat n) \<le> 4300 then Some (- int n) else None)"
proof -
  let ?s = "show_nat n"
  have d: "list_all is_digit ?s" using show_nat_digits by (simp add: list_all_iff)
  have ends: "is_digit (hd ?s)" "is_digit (last ?s)" using show_nat_digits [of n] by auto
  have space: "\<not> is_space_byte c" if "is_digit c" for c using that by (auto simp: is_digit_def is_space_byte_def Let_def)
  have "strip_bytes ?s = ?s" "strip_bytes (CHR ''-'' # ?s) = CHR ''-'' # ?s"
    using ends space by (auto intro!: strip_by_id simp: is_space_byte_def)
  moreover have "filter is_digit ?s = ?s" using show_nat_digits by simp
  moreover have "hd ?s \<noteq> CHR ''-''" "hd ?s \<noteq> CHR ''+''" using ends(1) by (auto simp: is_digit_def)
  ultimately show "int_of_bytes ?s = (if length ?s \<le> 4300 then Some (int n) else None)"
    "int_of_bytes (CHR ''-'' # ?s) = (if length ?s \<le> 4300 then Some (- int n) else None)"
    using digit_groups_digits [OF d] by (simp_all add: int_of_bytes_def Let_def digits_val_show_nat)
qed

lemma int_of_show_int: "int_of_bytes (show_int i) = Some j \<Longrightarrow> j = i"
  using int_of_show_nat(1) [of "nat i"] int_of_show_nat(2) [of "nat (- i)"]
  by (auto simp: show_int_def split: if_splits)

definition observed_exit :: "('a) execution_result_scheme \<Rightarrow> int" where
  "observed_exit r = (case er_exit_code r of None \<Rightarrow> - 1 | Some c \<Rightarrow> c)"

lemma capture_exit: "capture_artifact now ''EXIT_STATUS'' exec (Some (show_int i)) n p rl = Inr x \<Longrightarrow>
  cap_content x = Some (show_int i) \<and> int_of_bytes (show_int i) = Some i"
  using int_of_show_int [of i]
  by (auto simp: capture_artifact_def capture_defs split: option.splits dest!: captured_fields)

text \<open>An exit status that matches: both exit codes are equal, where a missing one counts as -1.\<close>

lemma exit_match:
  assumes "compare_declared cx a = Inr (oc, cc, e)" "ce_result e = ''MATCH''" "standard_registry (cx_registry cx)"
    and "wa_artifact_type a = ''EXIT_STATUS''"
  shows "observed_exit (cx_oracle cx) = observed_exit (cx_candidate cx)"
proof -
  let ?i = "observed_exit (cx_oracle cx)" and ?j = "observed_exit (cx_candidate cx)"
  from compare_declared_parts [OF assms(1)] obtain comparator r where
    cap: "capture_pair cx (wa_artifact_type a) (wa_logical_name a) (wa_record_length a)
       (extract_artifact_content (wa_artifact_type a) (wa_output_path a) (cx_oracle cx))
       (extract_artifact_content (wa_artifact_type a) (wa_output_path a) (cx_candidate cx)) = Inr (oc, cc)"
    and b: "bound_comparator (cx_registry cx) a = Inr comparator"
    and r: "compare_with (cx_explain cx) comparator (cap_artifact oc) (cap_content oc) (cap_artifact cc)
       (cap_content cc) (Some (case wa_normalization a of None \<Rightarrow> [] | Some ns \<Rightarrow> ns))
       (case wa_ordering a of None \<Rightarrow> ''SEQUENTIAL'' | Some ord \<Rightarrow> ord) (wa_failure a) = Inr r"
    and e: "ce_result e = result_value (cr_result r)" .
  have m: "cr_result r = MATCH" using e assms(2) result_value_match by metis
  have "capture_artifact (cx_now cx) ''EXIT_STATUS'' (er_execution_id (cx_oracle cx)) (Some (show_int ?i))
      (wa_logical_name a) ''ORACLE'' (wa_record_length a) = Inr oc"
    "capture_artifact (cx_now cx) ''EXIT_STATUS'' (er_execution_id (cx_candidate cx)) (Some (show_int ?j))
      (wa_logical_name a) ''CANDIDATE'' (wa_record_length a) = Inr cc"
    using cap assms(4)
    by (auto simp: capture_pair_def extract_artifact_content_def observed_exit_def bind_res_eq_Inr)
  from this [THEN capture_exit] have
    c: "cap_content oc = Some (show_int ?i)" "cap_content cc = Some (show_int ?j)"
    and i: "int_of_bytes (show_int ?i) = Some ?i" "int_of_bytes (show_int ?j) = Some ?j" by blast+
  have "comparator = ExitStatusComparator"
    using bound_comparator_get [OF b] standard_registry_get(3) [OF assms(3)] assms(4) by simp
  then show ?thesis
    using r m c i by (auto simp: exit_status_compare_def handle_missing_def split: if_splits)
qed

lemma agree_stream:
  assumes "traverse (compare_declared cx) (compared_artifacts declared) = Inr observed"
    "\<forall>(_, _, e) \<in> set observed. ce_result e = ''MATCH''" "standard_registry (cx_registry cx)"
    and "t = ''STDOUT'' \<and> xs = er_stdout (cx_oracle cx) \<and> ys = er_stdout (cx_candidate cx) \<or>
         t = ''STDERR'' \<and> xs = er_stderr (cx_oracle cx) \<and> ys = er_stderr (cx_candidate cx)"
  shows "agree_under declared t xs ys"
proof -
  have one: "prepared xs (policy_norm a) (policy_order a) = prepared ys (policy_norm a) (policy_order a)"
    if "a \<in> set (compared_artifacts declared)" "wa_artifact_type a = t" for a
  proof -
    from traverse_mem [OF assms(1) that(1)] assms(2) obtain oc cc e where
      "compare_declared cx a = Inr (oc, cc, e)" "ce_result e = ''MATCH''" by auto
    from stream_match [OF this assms(3), of xs ys] assms(4) that(2) show ?thesis
      unfolding policy_norm_def policy_order_def by blast
  qed
  have "xs = ys" if none: "\<forall>a \<in> set declared. wa_artifact_type a \<noteq> t"
  proof -
    have "\<exists>n c. (t, n, c) \<in> set required_observations" using assms(4) by (auto simp: required_observations_def)
    then obtain name c where "plain_artifact name t c None None \<in> set (compared_artifacts declared)"
      using compared_required [OF _ none] by blast
    from one [OF this] show ?thesis by (simp add: plain_artifact_def policy_norm_def policy_order_def)
  qed
  then show ?thesis using one compared_declared by (auto simp: agree_under_def)
qed

lemma exit_agrees:
  assumes "traverse (compare_declared cx) (compared_artifacts declared) = Inr observed"
    "\<forall>(_, _, e) \<in> set observed. ce_result e = ''MATCH''" "standard_registry (cx_registry cx)"
  shows "observed_exit (cx_oracle cx) = observed_exit (cx_candidate cx)"
proof -
  obtain a where a: "a \<in> set (compared_artifacts declared)" "wa_artifact_type a = ''EXIT_STATUS''"
  proof (cases "\<forall>a \<in> set declared. wa_artifact_type a \<noteq> ''EXIT_STATUS''")
    case True
    then show ?thesis
      using compared_required [of "''EXIT_STATUS''" "''exit-status''" "''exit-status-exact''" declared] that
      by (force simp: required_observations_def plain_artifact_def)
  qed (use compared_declared that in blast)
  from traverse_mem [OF assms(1) a(1)] assms(2) obtain oc cc e where
    "compare_declared cx a = Inr (oc, cc, e)" "ce_result e = ''MATCH''" by auto
  from exit_match [OF this assms(3) a(2)] show ?thesis .
qed

text \<open>C3: a VERIFIED run has equal streams and exit codes. The candidate was built and executed, its stdout
  and stderr agree with the oracle's under every policy declared for them, and byte for byte when none
  is declared, and the exit codes are equal.\<close>
theorem verified_streams_agree:
  assumes "run_pipeline now ri oracle_result build = Inr (m, v)" "vd_state v = VERIFIED"
    "standard_registry (ri_registry ri)"
  shows "\<exists>candidate. build = Executed candidate \<and>
    agree_under (ri_declared ri) ''STDOUT'' (er_stdout oracle_result) (er_stdout candidate) \<and>
    agree_under (ri_declared ri) ''STDERR'' (er_stderr oracle_result) (er_stderr candidate) \<and>
    observed_exit oracle_result = observed_exit candidate"
proof -
  let ?cx = "run_context now ri oracle_result build"
  from verified_matches [OF assms(1,2)] obtain observed files where
    o: "traverse (compare_declared ?cx) (compared_artifacts (ri_declared ri)) = Inr observed"
    and m: "\<forall>(_, _, e) \<in> set (observed @ files). ce_result e = ''MATCH''" .
  from m have m: "\<forall>(_, _, e) \<in> set observed. ce_result e = ''MATCH''" by simp
  have reg: "standard_registry (cx_registry ?cx)" using assms(3) by simp
  obtain candidate where b: "build = Executed candidate"
    using executed_when_verified [OF assms(1,2)] by blast
  have "agree_under (ri_declared ri) ''STDOUT'' (er_stdout oracle_result) (er_stdout candidate)"
    by (rule agree_stream [OF o m reg]) (simp add: b)
  moreover have "agree_under (ri_declared ri) ''STDERR'' (er_stderr oracle_result) (er_stderr candidate)"
    by (rule agree_stream [OF o m reg]) (simp add: b)
  moreover have "observed_exit oracle_result = observed_exit candidate"
    using exit_agrees [OF o m reg] by (simp add: b)
  ultimately show ?thesis using b by blast
qed


subsection \<open>Files\<close>

text \<open>Two images of a keyed file hold the same records.\<close>

definition same_records :: "string \<Rightarrow> bytes \<Rightarrow> bytes \<Rightarrow> bool" where
  "same_records suffix x y \<longleftrightarrow>
     (if suffix = ''.idx'' then \<exists>rs. bdb_btree_records x = Inr rs \<and> emulated_index_records y = Inr rs
      else \<exists>rs. gnucobol_relative_records x = Inr rs \<and> emulated_relative_records y = Inr rs)"

lemma read_pair_Records:
  "read_pair canonical o' c = Records x y \<Longrightarrow> \<exists>rs ss. o' = Inr rs \<and> c = Inr ss \<and> x = canonical rs \<and> y = canonical ss"
  by (auto simp: read_pair_def split: sum.splits image_error.splits)

lemma read_images_same: "read_images suffix x y = Records z z \<Longrightarrow> same_records suffix x y"
  using canonical_records_iff canonical_relative_iff
  by (fastforce simp: read_images_def same_records_def split: if_splits dest!: read_pair_Records)

text \<open>A file is the image of a keyed file, on its own side only, whose records are the same on both.\<close>

definition same_keyed_records :: "keyed_files \<Rightarrow> bytes dict \<Rightarrow> bytes dict \<Rightarrow> string \<Rightarrow> bool" where
  "same_keyed_records kf og cg name \<longleftrightarrow>
     (\<exists>n suffix x y. name \<in> {n, n @ suffix} \<and> image_suffix kf n = Some suffix \<and>
        map_of og n = Some x \<and> map_of cg (n @ suffix) = Some y \<and>
        map_of cg n = None \<and> map_of og (n @ suffix) = None \<and> same_records suffix x y)"

lemma compare_records_match:
  assumes "compare_records_of cx TextFileComparator kf n = Inr (handled, cs)" "name \<in> set handled"
    and "\<forall>(_, _, e) \<in> set cs. ce_result e = ''MATCH''"
  shows "same_keyed_records kf (generated_files (cx_oracle cx)) (generated_files (cx_candidate cx)) name"
proof -
  let ?og = "generated_files (cx_oracle cx)" and ?cg = "generated_files (cx_candidate cx)"
  obtain suffix where s: "image_suffix kf n = Some suffix"
    using assms(1,2) by (cases "image_suffix kf n") (auto simp: compare_records_of_def Let_def)
  obtain x where x: "map_of ?og n = Some x"
    using assms(1,2) s by (cases "map_of ?og n") (auto simp: compare_records_of_def Let_def)
  obtain y where y: "map_of ?cg (n @ suffix) = Some y"
    using assms(1,2) s x by (cases "map_of ?cg (n @ suffix)") (auto simp: compare_records_of_def Let_def)
  have own: "n \<notin> fst ` set ?cg" "n @ suffix \<notin> fst ` set ?og"
    using assms(1,2) s x y by (auto simp: compare_records_of_def Let_def split: if_splits)
  obtain o' c where r: "read_images suffix x y = Records o' c"
    using assms(1,2) s x y own
    by (cases "read_images suffix x y") (auto simp: compare_records_of_def Let_def split: if_splits)
  obtain p where p: "compare_file cx TextFileComparator (n @ ''#records'') (Some o') (Some c) = Inr p"
    "handled = [n, n @ suffix]" "cs = [p]"
    using assms(1,2) s x y own r by (auto simp: compare_records_of_def Let_def split: if_splits sum.splits)
  obtain oca cca e where e: "p = (oca, cca, e)" by (metis surj_pair)
  have "ce_result e = ''MATCH''" using assms(3) p(3) e by simp
  from file_match [OF p(1) [unfolded e] this] have "o' = c" by simp
  then have "same_records suffix x y" using read_images_same r by blast
  then show ?thesis
    using assms(2) p(2) s x y own unfolding same_keyed_records_def
    by (intro exI [of _ n] exI [of _ suffix] exI [of _ x] exI [of _ y]) (auto simp: map_of_eq_None_iff)
qed

lemma undeclared_match:
  assumes "compare_all_undeclared cx kf names = Inr files" "\<forall>(_, _, e) \<in> set files. ce_result e = ''MATCH''"
    and "standard_registry (cx_registry cx)" "name \<in> set names"
  shows "(\<exists>b. map_of (generated_files (cx_oracle cx)) name = Some b \<and>
              map_of (generated_files (cx_candidate cx)) name = Some b)
    \<or> same_keyed_records kf (generated_files (cx_oracle cx)) (generated_files (cx_candidate cx)) name"
proof -
  have n: "names \<noteq> []" using assms(4) by auto
  obtain parts rest where
    parts: "traverse (compare_records_of cx TextFileComparator kf) (filter (is_emulated_image kf) names) = Inr parts"
    and rest: "traverse (compare_undeclared cx TextFileComparator kf)
      (filter (\<lambda>n. n \<notin> set (concat (map fst parts))) names) = Inr rest"
    and files: "files = concat (map snd parts) @ rest"
    using assms(1) n standard_registry_get(4) [OF assms(3)]
    by (auto simp: compare_all_undeclared_def compare_file_records_def bind_res_eq_Inr)
  show ?thesis
  proof (cases "name \<in> set (concat (map fst parts))")
    case True
    then obtain handled cs where h: "(handled, cs) \<in> set parts" "name \<in> set handled" by auto
    obtain k where "compare_records_of cx TextFileComparator kf k = Inr (handled, cs)"
      using traverse_source [OF parts h(1)] by blast
    moreover have "\<forall>(_, _, e) \<in> set cs. ce_result e = ''MATCH''" using assms(2) files h(1) by fastforce
    ultimately show ?thesis using compare_records_match h(2) by blast
  next
    case False
    then obtain oc cc e where c: "compare_undeclared cx TextFileComparator kf name = Inr (oc, cc, e)"
      and e: "(oc, cc, e) \<in> set rest"
      using traverse_mem [OF rest, of name] assms(4) by auto
    have m: "ce_result e = ''MATCH''" using assms(2) files e by fastforce
    show ?thesis
    proof (cases "is_emulated_image kf name")
      case True
      then have "ce_result e = ''INCONCLUSIVE''"
        using c by (auto simp: compare_undeclared_def leave_inconclusive_def inconclusive_comparison_def bind_res_eq_Inr Let_def)
      with m show ?thesis by simp
    next
      case no: False
      then have "compare_file cx TextFileComparator name (map_of (generated_files (cx_oracle cx)) name)
          (map_of (generated_files (cx_candidate cx)) name) = Inr (oc, cc, e)"
        using c by (simp add: compare_undeclared_def Let_def)
      from file_match [OF this m] show ?thesis by blast
    qed
  qed
qed

text \<open>A file its declaration compares: both sides wrote it, as a text that is equal under the declared policy or
  as records with the same bytes.\<close>

definition file_agrees :: "workload_artifact \<Rightarrow> bytes dict \<Rightarrow> bytes dict \<Rightarrow> string \<Rightarrow> bool" where
  "file_agrees a og cg name \<longleftrightarrow>
     (\<exists>x y. map_of og name = Some x \<and> map_of cg name = Some y \<and>
        (if wa_artifact_type a = ''TEXT_FILE''
         then prepared x (policy_norm a) (policy_order a) = prepared y (policy_norm a) (policy_order a)
         else x = y))"

lemma capture_fixed_content: "capture_fixed_record now exec c n p rl = Inr x \<Longrightarrow> cap_content x = Some c"
  by (auto simp: capture_fixed_record_def Let_def split: option.splits if_splits dest!: captured_fields)

lemma capture_file_content:
  assumes "capture_artifact now t exec oc n p rl = Inr x" "t = ''TEXT_FILE'' \<or> t = ''FIXED_RECORD''"
  shows "cap_content x = oc"
proof (cases oc)
  case None
  then show ?thesis using assms by (auto simp: capture_artifact_def capture_defs dest!: captured_fields)
next
  case (Some c)
  then have "capture_text_file_from_bytes now exec c n p = Inr x \<or> capture_fixed_record now exec c n p rl = Inr x"
    using assms unfolding capture_artifact_def by auto
  then show ?thesis using Some capture_fixed_content by (auto simp: capture_text_file_from_bytes_def dest!: captured_fields)
qed

lemma capture_pair_file:
  assumes "capture_pair cx t n rl oc cc = Inr (x, y)" "t = ''TEXT_FILE'' \<or> t = ''FIXED_RECORD''"
  shows "cap_content x = oc" "cap_content y = cc"
  using assms capture_file_content by (auto simp: capture_pair_def bind_res_eq_Inr)

lemma declared_file_match:
  assumes "compare_declared cx a = Inr (oc, cc, e)" "ce_result e = ''MATCH''" "standard_registry (cx_registry cx)"
    and "wa_artifact_type a = ''TEXT_FILE'' \<or> wa_artifact_type a = ''FIXED_RECORD''" "wa_output_path a = Some name" "name \<noteq> []"
  shows "file_agrees a (generated_files (cx_oracle cx)) (generated_files (cx_candidate cx)) name"
proof -
  let ?x = "map_of (generated_files (cx_oracle cx)) name" and ?y = "map_of (generated_files (cx_candidate cx)) name"
  from compare_declared_parts [OF assms(1)] obtain comparator r where
    cap: "capture_pair cx (wa_artifact_type a) (wa_logical_name a) (wa_record_length a)
       (extract_artifact_content (wa_artifact_type a) (wa_output_path a) (cx_oracle cx))
       (extract_artifact_content (wa_artifact_type a) (wa_output_path a) (cx_candidate cx)) = Inr (oc, cc)"
    and b: "bound_comparator (cx_registry cx) a = Inr comparator"
    and r: "compare_with (cx_explain cx) comparator (cap_artifact oc) (cap_content oc) (cap_artifact cc)
       (cap_content cc) (Some (case wa_normalization a of None \<Rightarrow> [] | Some ns \<Rightarrow> ns))
       (case wa_ordering a of None \<Rightarrow> ''SEQUENTIAL'' | Some ord \<Rightarrow> ord) (wa_failure a) = Inr r"
    and e: "ce_result e = result_value (cr_result r)" .
  have m: "cr_result r = MATCH" using e assms(2) result_value_match by metis
  have "extract_artifact_content (wa_artifact_type a) (wa_output_path a) q = map_of (generated_files q) name"
    for q :: "'q execution_result_scheme"
    using assms(4-6) by (auto simp: extract_artifact_content_def is_truthy_def)
  with capture_pair_file [OF cap assms(4)] have c: "cap_content oc = ?x" "cap_content cc = ?y" by simp_all
  show ?thesis
  proof (cases "wa_artifact_type a = ''TEXT_FILE''")
    case True
    then have t: "text_compare text_file_id ''file_content'' ''TEXT_FILE content differs'' (cap_artifact oc) ?x
        (cap_artifact cc) ?y (Some (policy_norm a)) (policy_order a) (wa_failure a) = Inr r"
      using r c bound_comparator_get [OF b] standard_registry_get(4) [OF assms(3)]
      by (simp add: text_file_compare_def policy_norm_def policy_order_def)
    have "\<not> (?x = None \<or> ?y = None)" by (rule notI) (use typed_comparator.missing [OF text_compare_contract t] m in blast)
    then show ?thesis using t text_compare_match m True by (auto simp: file_agrees_def)
  next
    case False
    then have t: "fixed_record_compare (cap_artifact oc) ?x (cap_artifact cc) ?y (Some (policy_norm a)) (policy_order a)
        (wa_failure a) = Inr r"
      using r c bound_comparator_get [OF b] standard_registry_get(5) [OF assms(3)] assms(4)
      by (simp add: policy_norm_def policy_order_def)
    have "\<not> (?x = None \<or> ?y = None)" by (rule notI) (use fixed_record_cmp.missing [OF t] m in blast)
    then obtain x y where xy: "?x = Some x" "?y = Some y" by auto
    from t m have "x = y" unfolding xy
      using fixed_record_match_iff [of "cap_artifact oc" x "cap_artifact cc" y "Some (policy_norm a)" "policy_order a" "wa_failure a"]
      by auto
    then show ?thesis using xy False by (simp add: file_agrees_def)
  qed
qed

text \<open>C2: A VERIFIED run has equal files. Every file that either execution wrote and whose path no declaration
  names exists on both sides with the same bytes, unless it is the image of a keyed file that only one side has in
  this form, and then both images decode to the same records. Every file that a declaration of a TEXT_FILE or a
  FIXED_RECORD names exists on both sides and agrees under the declared policy, for a FIXED_RECORD byte for byte.
  What this leaves out is a path that only the declaration of a stream or of the exit status names; such a file is
  not compared (\<open>stream_output_path_hides_file\<close>).\<close>
theorem verified_files_agree:
  assumes "run_pipeline now ri oracle_result (Executed candidate) = Inr (m, v)" "vd_state v = VERIFIED"
    "standard_registry (ri_registry ri)"
  shows "(name \<in> fst ` set (generated_files oracle_result) \<union> fst ` set (generated_files candidate)
      \<and> name \<notin> set (declared_paths (ri_declared ri)) \<longrightarrow>
        (\<exists>b. map_of (generated_files oracle_result) name = Some b \<and> map_of (generated_files candidate) name = Some b)
        \<or> same_keyed_records (ri_keyed ri) (generated_files oracle_result) (generated_files candidate) name)
    \<and> (\<forall>a \<in> set (ri_declared ri).
        wa_artifact_type a \<in> {''TEXT_FILE'', ''FIXED_RECORD''} \<and> wa_output_path a = Some name \<and> name \<noteq> [] \<longrightarrow>
        file_agrees a (generated_files oracle_result) (generated_files candidate) name)"
proof -
  let ?cx = "run_context now ri oracle_result (Executed candidate)"
  from verified_matches [OF assms(1,2)] obtain observed files where
    o: "traverse (compare_declared ?cx) (compared_artifacts (ri_declared ri)) = Inr observed"
    and f: "compare_all_undeclared ?cx (ri_keyed ri) (undeclared_files (ri_declared ri) (generated_files oracle_result)
         (generated_files (candidate_result now (ri_run_id ri) (Executed candidate)))) = Inr files"
    and m: "\<forall>(_, _, e) \<in> set (observed @ files). ce_result e = ''MATCH''" .
  have reg: "standard_registry (cx_registry ?cx)" using assms(3) by simp
  have declared: "file_agrees a (generated_files oracle_result) (generated_files candidate) name"
    if a: "a \<in> set (ri_declared ri)" "wa_artifact_type a = ''TEXT_FILE'' \<or> wa_artifact_type a = ''FIXED_RECORD''"
      "wa_output_path a = Some name" "name \<noteq> []" for a
  proof -
    have "\<forall>(_, _, e) \<in> set observed. ce_result e = ''MATCH''" using m by simp
    with traverse_mem [OF o compared_declared [OF a(1)]] obtain oc cc e where
      "compare_declared ?cx a = Inr (oc, cc, e)" "ce_result e = ''MATCH''" by auto
    from declared_file_match [OF this reg a(2-4)] show ?thesis by simp
  qed
  have "(\<exists>b. map_of (generated_files oracle_result) name = Some b \<and> map_of (generated_files candidate) name = Some b)
      \<or> same_keyed_records (ri_keyed ri) (generated_files oracle_result) (generated_files candidate) name"
    if n: "name \<in> fst ` set (generated_files oracle_result) \<union> fst ` set (generated_files candidate)"
      "name \<notin> set (declared_paths (ri_declared ri))"
  proof -
    have "name \<in> set (undeclared_files (ri_declared ri) (generated_files oracle_result) (generated_files candidate))"
      using n by (simp add: undeclared_files_def)
    moreover have "\<forall>(_, _, e) \<in> set files. ce_result e = ''MATCH''" using m by simp
    ultimately show ?thesis
      using undeclared_match [of ?cx "ri_keyed ri" _ files name] f reg by simp
  qed
  then show ?thesis using declared by blast
qed


subsection \<open>Effects\<close>

text \<open>A VERIFIED run has no unobserved effect. When the source text has a channel no comparator
  observes (database, transaction monitor, message queue), the run is not VERIFIED.\<close>
theorem verified_has_no_unobserved_effect:
  assumes "run_pipeline now ri oracle_result build = Inr (m, v)" "vd_state v = VERIFIED"
  shows "set (ri_effects ri) \<inter> fst ` set effect_channels = {}"
proof (rule ccontr)
  assume "set (ri_effects ri) \<inter> fst ` set effect_channels \<noteq> {}"
  then obtain ch where ch: "ch \<in> set (sort_key fst (filter (\<lambda>ch. fst ch \<in> set (ri_effects ri)) effect_channels))"
    by auto
  note v = run_verified [OF assms]
  from run_evidence_parts [OF v(1)] obtain comparisons effect_artifacts effects where
    u: "unobserved_effect_evidence now (ri_run_id ri) (ri_workload_id ri) (er_execution_id oracle_result)
       (er_execution_id (candidate_result now (ri_run_id ri) build)) (ri_effects ri) = Inr (effect_artifacts, effects)"
    and c: "em_comparisons m = map (\<lambda>c. c\<lparr>ce_workload_id := Some (ri_workload_id ri)\<rparr>) comparisons @ effects" .
  obtain all where all: "traverse (effect_evidence now (ri_run_id ri) (ri_workload_id ri) (er_execution_id oracle_result)
       (er_execution_id (candidate_result now (ri_run_id ri) build)))
       (sort_key fst (filter (\<lambda>ch. fst ch \<in> set (ri_effects ri)) effect_channels)) = Inr all"
    "effects = map (\<lambda>(_, _, e). e) all"
    using u by (auto simp: unobserved_effect_evidence_def bind_res_eq_Inr)
  from traverse_mem [OF all(1) ch] obtain o' c' e where e: "(o', c', e) \<in> set all"
    "effect_evidence now (ri_run_id ri) (ri_workload_id ri) (er_execution_id oracle_result)
       (er_execution_id (candidate_result now (ri_run_id ri) build)) ch = Inr (o', c', e)" by auto
  have "ce_result e = ''INCONCLUSIVE''"
    using e(2) by (cases ch)
      (auto simp: effect_evidence_def effect_comparison_def inconclusive_comparison_def bind_res_eq_Inr)
  moreover have "e \<in> set (em_comparisons m)" using e(1) by (force simp: c all(2))
  ultimately show False using v(3) unfolding certifiable_def by fastforce
qed


subsection \<open>Business invariants\<close>

lemma capture_report_content:
  assumes "capture_report cx rules ob exec role = Inr ca"
  obtains r content where "build_report (cx_explain cx) rules ob = Inr r" "report_bytes r = Inr content"
    "cap_content ca = Some content"
  using assms by (auto simp: capture_report_def bind_res_eq_Inr capture_business_invariant_def dest!: captured_fields)

lemma invariant_registry:
  "standard_registry r \<Longrightarrow> registry_get r ''BUSINESS_INVARIANT'' = Some c \<Longrightarrow> c = BusinessInvariantComparator"
  by (auto simp: standard_registry_def create_default_registry_def create_verification_registry_def register_def
      is_registered_def registry_get_def Let_def)

lemma pipeline_registry_standard: "pipeline_registry None rules = Inr r \<Longrightarrow> standard_registry r"
  by (cases rules) (auto simp: pipeline_registry_def standard_registry_def bind_res_eq_Inr create_verification_registry_def
      create_default_registry_def register_business_invariant_comparator_def register_def is_registered_def Let_def)

lemma matching_invariants:
  assumes "compare_invariants cx rules inputs = Inr cs" "\<forall>(_, _, e) \<in> set cs. ce_result e = ''MATCH''"
    "standard_registry (cx_registry cx)" "b \<in> set rules"
  shows "holds (cx_explain cx) (observation_of (cx_oracle cx) inputs) b \<and>
    holds (cx_explain cx) (observation_of (cx_candidate cx) inputs) b"
proof -
  have ne: "rules \<noteq> []" using assms(4) by auto
  then obtain comparator oca cca r where
    g: "registry_get (cx_registry cx) ''BUSINESS_INVARIANT'' = Some comparator"
    and o: "capture_report cx rules (observation_of (cx_oracle cx) inputs) (er_execution_id (cx_oracle cx)) ''ORACLE'' = Inr oca"
    and c: "capture_report cx rules (observation_of (cx_candidate cx) inputs) (er_execution_id (cx_candidate cx)) ''CANDIDATE'' = Inr cca"
    and r: "compare_with (cx_explain cx) comparator (cap_artifact oca) (cap_content oca) (cap_artifact cca) (cap_content cca)
      None ''SEQUENTIAL'' None = Inr r"
    and cs: "cs = [(oca, cca, make_comparison_evidence (cx_run_id cx) ''business-invariants'' ''BUSINESS_INVARIANT'' oca cca r)]"
    using assms(1) by (auto simp: compare_invariants_def bind_res_eq_Inr split: option.splits)
  have "result_value (cr_result r) = ''MATCH''" using assms(2) by (simp add: cs make_comparison_evidence_def)
  then have m: "cr_result r = MATCH" by (cases "cr_result r") simp_all
  obtain r1 c1 where 1: "build_report (cx_explain cx) rules (observation_of (cx_oracle cx) inputs) = Inr r1" "report_bytes r1 = Inr c1"
    "cap_content oca = Some c1" by (rule capture_report_content [OF o])
  obtain r2 c2 where 2: "build_report (cx_explain cx) rules (observation_of (cx_candidate cx) inputs) = Inr r2" "report_bytes r2 = Inr c2"
    "cap_content cca = Some c2" by (rule capture_report_content [OF c])
  from compare_reports [OF 1(1,2) 2(1,2), of "cap_artifact oca" "cap_artifact cca" None] r m
    invariant_registry [OF assms(3) g] assms(4)
  show ?thesis by (auto simp: 1(3) 2(3) split: if_splits)
qed

text \<open>C4: Business rules hold in a VERIFIED run: every declared invariant evaluates to passed on the oracle's
  observation and, independently, on the candidate's. Two sides that break a rule alike are never VERIFIED.\<close>
theorem verified_invariants_hold:
  assumes "run_pipeline now ri oracle_result build = Inr (m, v)" "vd_state v = VERIFIED"
    "standard_registry (ri_registry ri)" "b \<in> set (ri_invariants ri)"
  shows "\<exists>candidate. build = Executed candidate \<and>
    holds (ri_explain ri) (observation_of oracle_result (ri_input_files ri)) b \<and>
    holds (ri_explain ri) (observation_of candidate (ri_input_files ri)) b"
proof -
  let ?cx = "run_context now ri oracle_result build"
  from verified_all_match [OF assms(1,2)] obtain observed files rules where
    c: "compare_invariants ?cx (ri_invariants ri) (ri_input_files ri) = Inr rules"
    and m: "\<forall>(_, _, e) \<in> set (observed @ files @ rules). ce_result e = ''MATCH''" .
  from m have m: "\<forall>(_, _, e) \<in> set rules. ce_result e = ''MATCH''" unfolding set_append by blast
  obtain candidate where "build = Executed candidate" using executed_when_verified [OF assms(1,2)] by blast
  with matching_invariants [OF c m _ assms(4)] assms(3) show ?thesis by (simp add: run_context_def)
qed

end
