(* ===== verification/DecimalFacts.thy ===== *)
theory DecimalFacts
  imports Complex_Main Decimals
begin

text \<open>
  What decimal arithmetic computes: equality is equality of the rational values, sums of integers are exact
  below the 28 digits of the context, and the division by a power of ten is exact.
\<close>

definition dec_value :: "dec \<Rightarrow> rat" where
  "dec_value d = of_int (dec_signed d) * 10 powi dec_exp d"

lemma powi_nat_add: "(10::rat) powi (int n + e) = 10 ^ n * 10 powi e"
  by (simp add: power_int_add)

lemma dec_at_value: "e \<le> dec_exp d \<Longrightarrow> of_int (dec_at e d) * 10 powi e = dec_value d"
proof -
  assume a: "e \<le> dec_exp d"
  have "(10::rat) powi dec_exp d = 10 powi (int (nat (dec_exp d - e)) + e)" using a by simp
  also have "\<dots> = 10 ^ nat (dec_exp d - e) * 10 powi e" by (rule powi_nat_add)
  finally show ?thesis by (simp add: dec_value_def dec_at_def)
qed

lemma dec_eq_value: "dec_eq a b \<longleftrightarrow> dec_value a = dec_value b"
proof -
  let ?e = "min (dec_exp a) (dec_exp b)"
  have "dec_eq a b \<longleftrightarrow> (of_int (dec_at ?e a) :: rat) * 10 powi ?e = of_int (dec_at ?e b) * 10 powi ?e"
    by (simp add: dec_eq_def Let_def)
  then show ?thesis by (simp add: dec_at_value)
qed

lemma show_nat_short: "c < 10 ^ n \<Longrightarrow> 0 < n \<Longrightarrow> length (show_nat c) \<le> n"
proof (induction c arbitrary: n rule: show_nat.induct)
  case (1 c)
  show ?case
  proof (cases "c < 10")
    case True
    then show ?thesis using 1(3) by (subst show_nat.simps) simp
  next
    case False
    then obtain m where m: "n = Suc m" "0 < m" using 1(2,3) by (cases n; cases "n = 1") auto
    have "c div 10 < 10 ^ m" using 1(2) m by (simp add: div_less_iff_less_mult mult.commute)
    from 1(1) [OF False this m(2)] False m show ?thesis by (subst show_nat.simps) simp
  qed
qed

lemma dec_round_small:
  "c < 10 ^ 28 \<Longrightarrow> dec_round neg c e = \<lparr>dec_neg = neg, dec_coef = c, dec_exp = e\<rparr>"
  using show_nat_short [of c 28] by (simp add: dec_round_def dec_precision_def)

text \<open>Integers: exponent 0.\<close>

lemma dec_add_exact:
  assumes "dec_exp a = 0" "dec_exp b = 0" "\<bar>dec_signed a + dec_signed b\<bar> < 10 ^ 28"
  shows "dec_exp (dec_add a b) = 0 \<and> dec_signed (dec_add a b) = dec_signed a + dec_signed b"
proof -
  let ?s = "dec_signed a + dec_signed b"
  have "nat \<bar>?s\<bar> < 10 ^ 28" using assms(3) by (simp add: nat_less_iff)
  then have "dec_add a b = \<lparr>dec_neg = (if ?s = 0 then dec_neg a \<and> dec_neg b else ?s < 0), dec_coef = nat \<bar>?s\<bar>, dec_exp = 0\<rparr>"
    using assms(1,2) by (simp add: dec_add_def Let_def dec_at_def dec_round_small)
  then show ?thesis by (auto simp: dec_signed_def)
qed

lemma drop_zeros_value:
  "drop_zeros ideal c e = (c', e') \<Longrightarrow> (of_nat c' :: rat) * 10 powi e' = of_nat c * 10 powi e"
proof (induction ideal c e rule: drop_zeros.induct)
  case (1 ideal c e)
  show ?case
  proof (cases "e < ideal \<and> c mod 10 = 0")
    case True
    then have "drop_zeros ideal (c div 10) (e + 1) = (c', e')" using 1(2) by (subst (asm) drop_zeros.simps) simp
    then have "(of_nat c' :: rat) * 10 powi e' = of_nat (c div 10) * 10 powi (e + 1)" using 1(1) True by blast
    also have "\<dots> = of_nat (c div 10 * 10) * 10 powi e" by (simp add: power_int_add)
    also have "c div 10 * 10 = c" using True by auto
    finally show ?thesis .
  next
    case False
    then show ?thesis using 1(2) by (subst (asm) drop_zeros.simps) auto
  qed
qed

lemma dec_shift_value:
  assumes "n \<le> 999999"
  shows "\<exists>t. dec_shift n d = Inr t \<and> dec_value t = dec_value d / 10 ^ n"
proof -
  define ideal where "ideal = dec_exp d - int (n - (dec_precision - 1))"
  obtain c e where ce: "(if dec_coef d = 0 then (0, ideal) else drop_zeros ideal (dec_coef d) (dec_exp d - int n)) = (c, e)"
    by fastforce
  have "(of_nat c :: rat) * 10 powi e = of_nat (dec_coef d) * 10 powi (dec_exp d - int n)"
    using ce drop_zeros_value [of ideal "dec_coef d" "dec_exp d - int n" c e] by (cases "dec_coef d = 0") auto
  also have "\<dots> = of_nat (dec_coef d) * 10 powi dec_exp d / 10 ^ n" by (simp add: power_int_diff)
  finally have v: "(of_nat c :: rat) * 10 powi e = of_nat (dec_coef d) * 10 powi dec_exp d / 10 ^ n" .
  have "dec_shift n d = Inr \<lparr>dec_neg = dec_neg d, dec_coef = c, dec_exp = e\<rparr>"
    using assms unfolding dec_shift_def Let_def ideal_def [symmetric] ce by simp
  moreover have "dec_value \<lparr>dec_neg = dec_neg d, dec_coef = c, dec_exp = e\<rparr> = dec_value d / 10 ^ n"
    using v by (simp add: dec_value_def dec_signed_def)
  ultimately show ?thesis by blast
qed

text \<open>The text of a signed integer.\<close>

lemma decimal_of_digits:
  assumes "ds \<noteq> []" "all_digits ds" "decimal ds < 10 ^ 100"
  shows "\<exists>d. decimal_of_text ds = Finite d \<and> dec_exp d = 0 \<and> dec_signed d = int (decimal ds)"
    "\<exists>d. decimal_of_text (CHR ''-'' # ds) = Finite d \<and> dec_exp d = 0 \<and> dec_signed d = - int (decimal ds)"
    "\<exists>d. decimal_of_text (CHR ''+'' # ds) = Finite d \<and> dec_exp d = 0 \<and> dec_signed d = int (decimal ds)"
proof -
  have sp: "\<not> is_space c" if "c \<in> set ds \<union> {CHR ''-'', CHR ''+''}" for c
    using that assms(2) digit_not_space by (auto simp: all_digits_iff is_space_def)
  have st: "strip ds = ds" "strip (CHR ''-'' # ds) = CHR ''-'' # ds" "strip (CHR ''+'' # ds) = CHR ''+'' # ds"
    using sp assms(1) by (intro strip_by_id; simp)+
  have us: "filter (\<lambda>c. c \<noteq> CHR ''_'') ds = ds"
    using assms(2) by (intro filter_True) (auto simp: all_digits_iff is_digit_def)
  have hd: "hd ds \<noteq> CHR ''-'' \<and> hd ds \<noteq> CHR ''+''" using assms(1,2) by (cases ds) (auto simp: is_digit_def)
  have tw: "takeWhile is_digit ds = ds" "dropWhile is_digit ds = []"
    using assms(2) by (simp_all add: all_digits_iff)
  have sv: "\<not> is_special ds"
  proof -
    obtain c cs where c: "ds = c # cs" "is_digit c" using assms(1,2) by (cases ds) auto
    then have "lower_ascii ds = c # lower_ascii cs" by (auto simp: lower_ascii_def is_digit_def)
    then show ?thesis using c(2) by (auto simp: is_special_def Let_def starts_with_def is_digit_def)
  qed
  have rg: "dec_in_range \<lparr>dec_neg = neg, dec_coef = decimal ds, dec_exp = 0\<rparr>" for neg
    using show_nat_short [OF assms(3)] by (simp add: dec_in_range_def)
  note all = decimal_of_text_def Let_def st us tw sv rg read_exponent_def dec_signed_def
  show "\<exists>d. decimal_of_text ds = Finite d \<and> dec_exp d = 0 \<and> dec_signed d = int (decimal ds)"
    "\<exists>d. decimal_of_text (CHR ''-'' # ds) = Finite d \<and> dec_exp d = 0 \<and> dec_signed d = - int (decimal ds)"
    "\<exists>d. decimal_of_text (CHR ''+'' # ds) = Finite d \<and> dec_exp d = 0 \<and> dec_signed d = int (decimal ds)"
    using assms(1) hd by (simp_all add: all)
qed

end
