(* ===== verification/InvariantProperties.thy ===== *)
theory InvariantProperties
  imports InvariantFacts DecimalFacts ComparatorFacts
begin

text \<open>
  The guarantees of declared business invariants: what the constructor accepts, exactly when an evaluation
  raises and which error, when a fixed-field total is exact, and what a MATCH of two reports means.
\<close>

subsection \<open>Accepted declarations\<close>

definition well_windowed :: "business_invariant \<Rightarrow> bool" where
  "well_windowed b \<longleftrightarrow> (\<exists>n o' l. bi_record_length b = Some n \<and> bi_offset b = Some o' \<and> bi_length b = Some l
     \<and> 0 \<le> o' \<and> 0 < l \<and> o' + l \<le> n) \<and> (\<forall>i. bi_record_index b = Some i \<longrightarrow> 0 \<le> i)"

definition well_sourced :: "invariant_source list \<Rightarrow> business_invariant \<Rightarrow> bool" where
  "well_sourced allowed b \<longleftrightarrow> bi_source b \<in> set allowed \<and>
     (bi_source b \<in> set file_sources \<longrightarrow> (\<exists>n. bi_source_name b = Some n \<and> strip n \<noteq> []))"

text \<open>A value that can be compared deterministically: no float and no value of a foreign type at any depth.\<close>

primrec comparable_value :: "py \<Rightarrow> bool" where
  "comparable_value PNone = True"
| "comparable_value (PBool b) = True"
| "comparable_value (PInt i) = True"
| "comparable_value (PDec d) = True"
| "comparable_value (PFloat s) = False"
| "comparable_value (PStr s) = True"
| "comparable_value (PBytes b) = True"
| "comparable_value (PList xs) = list_all id (map comparable_value xs)"
| "comparable_value (PTuple xs) = list_all id (map comparable_value xs)"
| "comparable_value (PDict fs) = list_all snd (map (map_prod id comparable_value) fs)"
| "comparable_value (Foreign n) = False"

fun well_declared_kind :: "invariant_kind \<Rightarrow> business_invariant \<Rightarrow> bool" where
  "well_declared_kind EXIT_CODE b \<longleftrightarrow> bi_source b = EXIT_STATUS \<and> (\<exists>i. bi_expected b = PInt i)"
| "well_declared_kind EXACT_LINES b \<longleftrightarrow> well_sourced text_sources b \<and> (\<exists>ls. bi_expected b = PTuple (map PStr ls))"
| "well_declared_kind LINE_COUNT b \<longleftrightarrow> well_sourced text_sources b \<and> (\<exists>i. bi_expected b = PInt i \<and> 0 \<le> i)"
| "well_declared_kind RECORD_COUNT b \<longleftrightarrow> well_sourced file_sources b \<and> (\<exists>n. bi_record_length b = Some n \<and> 0 < n)
     \<and> (\<exists>i. bi_expected b = PInt i \<and> 0 \<le> i)"
| "well_declared_kind FIXED_FIELD_EQUALS b \<longleftrightarrow> well_sourced file_sources b \<and> well_windowed b \<and> (\<exists>c. bi_expected b = PBytes c)"
| "well_declared_kind FIXED_FIELD_TOTAL b \<longleftrightarrow> well_sourced file_sources b \<and> well_windowed b \<and> 0 \<le> bi_decimal_places b
     \<and> ((\<exists>s. bi_expected b = PStr s) \<or> (\<exists>i. bi_expected b = PInt i) \<or> (\<exists>d. bi_expected b = PDec d))
     \<and> (\<exists>d. expected_decimal (bi_expected b) = Inr d)"
| "well_declared_kind JSON_FIELD_EQUALS b \<longleftrightarrow> well_sourced [FILE, STDOUT, STDERR] b
     \<and> (\<exists>p ts. bi_json_path b = Some p \<and> strip p \<noteq> [] \<and> json_tokens p = Inr ts) \<and> comparable_value (bi_expected b)"

text \<open>The attributes a kind reads; every other optional attribute has its default.\<close>

fun relevant_attributes :: "invariant_kind \<Rightarrow> string list" where
  "relevant_attributes EXIT_CODE = []"
| "relevant_attributes EXACT_LINES = [''source_name'']"
| "relevant_attributes LINE_COUNT = [''source_name'']"
| "relevant_attributes RECORD_COUNT = [''source_name'', ''record_length'']"
| "relevant_attributes FIXED_FIELD_EQUALS = [''source_name'', ''record_length'', ''offset'', ''length'', ''record_index'']"
| "relevant_attributes FIXED_FIELD_TOTAL =
     [''source_name'', ''record_length'', ''offset'', ''length'', ''record_index'', ''decimal_places'']"
| "relevant_attributes JSON_FIELD_EQUALS = [''source_name'', ''json_path'']"

definition only_uses :: "string list \<Rightarrow> business_invariant \<Rightarrow> bool" where
  "only_uses names b \<longleftrightarrow>
     (''source_name'' \<in> set names \<or> bi_source_name b = None) \<and>
     (''record_length'' \<in> set names \<or> bi_record_length b = None) \<and>
     (''offset'' \<in> set names \<or> bi_offset b = None) \<and>
     (''length'' \<in> set names \<or> bi_length b = None) \<and>
     (''record_index'' \<in> set names \<or> bi_record_index b = None) \<and>
     (''json_path'' \<in> set names \<or> bi_json_path b = None) \<and>
     (''decimal_places'' \<in> set names \<or> bi_decimal_places b = 0)"

definition well_declared :: "business_invariant \<Rightarrow> bool" where
  "well_declared b \<longleftrightarrow> strip (bi_id b) \<noteq> [] \<and> well_declared_kind (bi_kind b) b \<and> only_uses (relevant_attributes (bi_kind b)) b"

text \<open>The expectation as it is stored: a sequence of lines is a tuple, the text of a field its UTF-8 bytes.\<close>

definition stored_expectation :: "business_invariant \<Rightarrow> py" where
  "stored_expectation b =
     (case (bi_kind b, bi_expected b) of
        (EXACT_LINES, PList xs) \<Rightarrow> PTuple xs
      | (FIXED_FIELD_EQUALS, PStr s) \<Rightarrow> PBytes (utf8_encode s)
      | (_, v) \<Rightarrow> v)"

text \<open>The messages need no simplification.\<close>

lemma require_weak_cong [cong]: "ok = ok' \<Longrightarrow> require ok m = require ok' m"
  by simp

lemma require_Inr [simp]: "require ok m = Inr u \<longleftrightarrow> ok"
  by (simp add: require_def)

lemma not_blank: "\<not> is_blank s \<longleftrightarrow> (\<exists>t. s = Some t \<and> strip t \<noteq> [])"
  by (cases s) (simp_all add: is_blank_def)

lemma positive_iff: "is_positive n \<longleftrightarrow> (\<exists>i. n = Some i \<and> 0 < i)" "is_non_negative n \<longleftrightarrow> (\<exists>i. n = Some i \<and> 0 \<le> i)"
  by (auto simp: is_positive_def is_non_negative_def split: option.splits)

lemma require_sourced:
  "require_source b allowed = Inr () \<and> require_source_name b = Inr () \<longleftrightarrow> well_sourced allowed b"
  by (simp only: require_source_def require_source_name_def well_sourced_def not_blank require_Inr)

lemma require_file_source_Inr: "require_file_source b = Inr () \<longleftrightarrow> well_sourced file_sources b"
  by (simp add: require_file_source_def bind_res_eq_Inr require_sourced)

lemma require_record_length_Inr: "require_record_length b = Inr () \<longleftrightarrow> (\<exists>n. bi_record_length b = Some n \<and> 0 < n)"
  by (simp add: require_record_length_def positive_iff)

lemma window_exceeds_fails [simp]: "window_exceeds b \<noteq> Inr u"
  by (simp add: window_exceeds_def bind_res_eq_Inr)

lemma require_field_window_Inr: "require_field_window b = Inr () \<longleftrightarrow> well_windowed b"
  by (auto simp: require_field_window_def Let_def bind_res_eq_Inr positive_iff well_windowed_def window_end_def
      split: if_splits)

lemma window_length: "well_windowed b \<Longrightarrow> \<exists>n. bi_record_length b = Some n \<and> 0 < n"
  by (auto simp: well_windowed_def)

lemma text_values: "list_all is_text_value xs \<longleftrightarrow> (\<exists>ls. xs = map PStr ls)"
proof (induction xs)
  case (Cons x xs)
  then show ?case by (cases x) (auto simp: Cons_eq_map_conv intro: exI [of _ "s # ls" for s ls])
qed simp

lemma given_optional:
  "(\<forall>a \<in> set (case v of None \<Rightarrow> [] | Some i \<Rightarrow> [(n, f i)]). fst a \<in> names) \<longleftrightarrow> n \<in> names \<or> v = None"
  "(\<forall>a \<in> set (if c then [(n, t)] else []). fst a \<in> names) \<longleftrightarrow> n \<in> names \<or> \<not> c"
  by (auto split: option.split)

lemma reject_Inr: "reject_irrelevant_fields b names = Inr () \<longleftrightarrow> only_uses names b"
proof -
  have "reject_irrelevant_fields b names = Inr () \<longleftrightarrow> (\<forall>a \<in> set (given_attributes b). fst a \<in> set names)"
    by (cases "filter (\<lambda>a. fst a \<notin> set names) (given_attributes b)")
      (auto simp: reject_irrelevant_fields_def filter_empty_conv bind_res_eq_Inr dest!: Cons_eq_filterD [OF sym])
  also have "\<dots> \<longleftrightarrow> only_uses names b"
    unfolding given_attributes_def only_uses_def Let_def set_append ball_Un given_optional not_not ..
  finally show ?thesis .
qed

lemma check_items_validate:
  assumes "\<And>x p. x \<in> set xs \<Longrightarrow> validate_json_value x p = Inr () \<longleftrightarrow> comparable_value x"
  shows "check_items path i (map validate_json_value xs) = Inr () \<longleftrightarrow> list_all id (map comparable_value xs)"
  using assms by (induction xs arbitrary: i) (auto simp: bind_res_eq_Inr)

lemma check_members_validate:
  assumes "\<And>k x p. (k, x) \<in> set fs \<Longrightarrow> validate_json_value x p = Inr () \<longleftrightarrow> comparable_value x"
  shows "check_members path (map (map_prod id validate_json_value) fs) = Inr ()
    \<longleftrightarrow> list_all snd (map (map_prod id comparable_value) fs)"
  using assms by (induction fs) (force simp: bind_res_eq_Inr)+

lemma validate_json_value_Inr: "validate_json_value v path = Inr () \<longleftrightarrow> comparable_value v"
proof (induction v arbitrary: path)
  case (PList xs)
  then show ?case by (simp add: check_items_validate)
next
  case (PTuple xs)
  then show ?case by (simp add: check_items_validate)
next
  case (PDict fs)
  have "validate_json_value x p = Inr () \<longleftrightarrow> comparable_value x" if "(k, x) \<in> set fs" for k x p
    using PDict.IH [OF that, of x p] by (simp add: snds.simps)
  then show ?case by (simp add: check_members_validate)
qed simp_all

lemmas check_rules = bind_res_eq_Inr require_file_source_Inr require_record_length_Inr require_field_window_Inr
  reject_Inr validate_json_value_Inr not_blank

text \<open>What each kind's checks accept, and what they return.\<close>

lemma check_exit_code_Inr:
  "check_exit_code b = Inr b' \<longleftrightarrow> b' = b \<and> well_declared_kind EXIT_CODE b \<and> only_uses [] b"
  by (auto simp: check_exit_code_def check_rules require_source_def is_integer_def split: py.splits)

lemma check_line_count_Inr:
  "check_line_count b = Inr b' \<longleftrightarrow> b' = b \<and> well_declared_kind LINE_COUNT b \<and> only_uses [''source_name''] b"
  using require_sourced [of b text_sources]
  by (auto simp: check_line_count_def check_rules is_count_def split: py.splits)

lemma check_record_count_Inr:
  "check_record_count b = Inr b' \<longleftrightarrow>
   b' = b \<and> well_declared_kind RECORD_COUNT b \<and> only_uses [''source_name'', ''record_length''] b"
  by (auto simp: check_record_count_def check_rules is_count_def split: py.splits)

lemma is_total_iff: "is_total v \<longleftrightarrow> (\<exists>s. v = PStr s) \<or> (\<exists>i. v = PInt i) \<or> (\<exists>d. v = PDec d)"
  by (cases v) simp_all

lemma check_field_total_Inr:
  "check_field_total b = Inr b' \<longleftrightarrow>
   b' = b \<and> well_declared_kind FIXED_FIELD_TOTAL b \<and> only_uses (window_fields @ [''decimal_places'']) b"
  by (auto simp: check_field_total_def check_rules is_total_iff window_length)

lemma check_json_field_Inr:
  "check_json_field b = Inr b' \<longleftrightarrow>
   b' = b \<and> well_declared_kind JSON_FIELD_EQUALS b \<and> only_uses [''source_name'', ''json_path''] b"
  using require_sourced [of b "[FILE, STDOUT, STDERR]"] by (auto simp: check_json_field_def check_rules)

lemma only_uses_expected [simp]: "only_uses names (b\<lparr>bi_expected := v\<rparr>) \<longleftrightarrow> only_uses names b"
  by (simp add: only_uses_def)

lemma well_placed_expected [simp]:
  "well_sourced allowed (b\<lparr>bi_expected := v\<rparr>) \<longleftrightarrow> well_sourced allowed b"
  "well_windowed (b\<lparr>bi_expected := v\<rparr>) \<longleftrightarrow> well_windowed b"
  by (simp_all add: well_sourced_def well_windowed_def)

lemma check_exact_lines_Inr:
  assumes "bi_kind b = EXACT_LINES"
  shows "check_exact_lines b = Inr b' \<longleftrightarrow> b' = b\<lparr>bi_expected := stored_expectation b\<rparr> \<and> well_declared_kind EXACT_LINES b'
    \<and> only_uses [''source_name''] b'"
  using require_sourced [of b text_sources] assms
  by (auto simp: check_exact_lines_def check_rules text_values sequence_items_def stored_expectation_def split: py.splits)

lemma check_field_equals_Inr:
  assumes "bi_kind b = FIXED_FIELD_EQUALS"
  shows "check_field_equals b = Inr b' \<longleftrightarrow> b' = b\<lparr>bi_expected := stored_expectation b\<rparr>
    \<and> well_declared_kind FIXED_FIELD_EQUALS b' \<and> only_uses window_fields b'"
  using assms by (auto simp: check_field_equals_def check_rules stored_expectation_def window_length split: py.splits)

lemma constructed_iff:
  "mk_business_invariant b = Inr b' \<longleftrightarrow> b' = b\<lparr>bi_expected := stored_expectation b\<rparr> \<and> well_declared b'"
proof -
  have id: "b\<lparr>bi_expected := stored_expectation b\<rparr> = b" if "bi_kind b \<notin> {EXACT_LINES, FIXED_FIELD_EQUALS}"
    using that by (cases "bi_kind b") (simp_all add: stored_expectation_def)
  show ?thesis
    by (cases "bi_kind b")
      (auto simp: mk_business_invariant_def check_rules well_declared_def window_fields_def id check_exit_code_Inr
        check_exact_lines_Inr check_line_count_Inr check_record_count_Inr check_field_equals_Inr check_field_total_Inr
        check_json_field_Inr simp del: well_declared_kind.simps)
qed

lemma stored_again: "stored_expectation (b\<lparr>bi_expected := stored_expectation b\<rparr>) = stored_expectation b"
  by (auto simp: stored_expectation_def split: invariant_kind.splits py.splits)

text \<open>A constructed invariant is a fixed point of the constructor.\<close>

lemma constructed_again: "mk_business_invariant b = Inr b' \<Longrightarrow> mk_business_invariant b' = Inr b'"
  by (auto simp: constructed_iff stored_again)

subsection \<open>Errors of an evaluation\<close>







lemma py_eq_int [simp]: "py_eq (PInt i) (PInt j) \<longleftrightarrow> i = j"
  by (auto simp: dec_eq_def dec_of_int_def dec_at_def dec_signed_def)

lemma format_Inl [simp]:
  "format_int i = Inl e \<longleftrightarrow> e = int_limit_error \<and> \<not> int_ok i"
  "format_value (PInt i) = Inl e \<longleftrightarrow> e = int_limit_error \<and> \<not> int_ok i"
  by (auto simp: format_int_def format_value_def)





















subsection \<open>Fixed-field totals\<close>

text \<open>The integer the text of a field denotes.\<close>

definition field_int :: "bytes \<Rightarrow> int option" where
  "field_int f = map_option (\<lambda>t.
     if hd t = CHR ''-'' then - int (decimal (tl t)) else if hd t = CHR ''+'' then int (decimal (tl t)) else int (decimal t))
     (numeric_token f)"

lemma field_int_dec:
  assumes "field_int f = Some v" "\<bar>v\<bar> < 10 ^ 100"
  shows "\<exists>t d. numeric_token f = Some t \<and> decimal_of_text t = Finite d \<and> dec_exp d = 0 \<and> dec_signed d = v"
proof -
  obtain t where t: "numeric_token f = Some t"
    and v: "v = (if hd t = CHR ''-'' then - int (decimal (tl t)) else if hd t = CHR ''+'' then int (decimal (tl t)) else int (decimal t))"
    using assms(1) by (auto simp: field_int_def)
  define ds where "ds = (if t \<noteq> [] \<and> hd t \<in> {CHR ''+'', CHR ''-''} then tl t else t)"
  have ds: "ds \<noteq> []" "all_digits ds" using t by (auto simp: numeric_token_def Let_def ds_def split: if_splits)
  then obtain c r where c: "t = c # r" by (cases t) (auto simp: ds_def)
  have small: "decimal ds < 10 ^ 100"
    using assms(2) v by (auto simp: ds_def c split: if_splits simp del: decimal_Cons)
  note d = decimal_of_digits [OF ds small]
  consider "c = CHR ''-''" | "c = CHR ''+''" | "c \<noteq> CHR ''-''" "c \<noteq> CHR ''+''" by blast
  then have "\<exists>d. decimal_of_text t = Finite d \<and> dec_exp d = 0 \<and> dec_signed d = v"
    by cases (use d v in \<open>simp_all add: ds_def c del: decimal_Cons\<close>)
  then show ?thesis using t by blast
qed

definition total_of :: "(bytes \<Rightarrow> bytes) \<Rightarrow> bytes list \<Rightarrow> nat list \<Rightarrow> int" where
  "total_of field rs ixs = sum_list (map (\<lambda>i. the (field_int (field (rs ! i)))) ixs)"

lemma sum_fields_exact:
  assumes "\<forall>i \<in> set ixs. i < length rs \<and> field_int (field (rs ! i)) \<noteq> None"
    and "dec_exp acc = 0" "\<forall>k \<le> length ixs. \<bar>dec_signed acc + total_of field rs (take k ixs)\<bar> < 10 ^ 28"
  shows "\<exists>t. sum_fields field rs acc ixs = Inr t \<and> dec_exp t = 0 \<and> dec_signed t = dec_signed acc + total_of field rs ixs"
  using assms
proof (induction ixs arbitrary: acc)
  case Nil
  then show ?case by (simp add: total_of_def)
next
  case (Cons i ixs)
  obtain v where v: "field_int (field (rs ! i)) = Some v" "i < length rs" using Cons.prems(1) by auto
  have t0: "\<bar>dec_signed acc\<bar> < 10 ^ 28" using Cons.prems(3) [rule_format, of 0] by (simp add: total_of_def)
  have t1: "\<bar>dec_signed acc + v\<bar> < 10 ^ 28" using Cons.prems(3) [rule_format, of 1] v by (simp add: total_of_def)
  have "\<bar>v\<bar> < 2 * 10 ^ 28" using t0 t1 by linarith
  then have "\<bar>v\<bar> < 10 ^ 100" by simp
  then obtain t d where d: "numeric_token (field (rs ! i)) = Some t" "decimal_of_text t = Finite d" "dec_exp d = 0" "dec_signed d = v"
    using field_int_dec [OF v(1)] by blast
  have a: "dec_exp (dec_add acc d) = 0 \<and> dec_signed (dec_add acc d) = dec_signed acc + v"
    using dec_add_exact [OF Cons.prems(2) d(3)] t1 d(4) by simp
  have "\<forall>k \<le> length ixs. \<bar>dec_signed (dec_add acc d) + total_of field rs (take k ixs)\<bar> < 10 ^ 28"
  proof (intro allI impI)
    fix k assume "k \<le> length ixs"
    then have "\<bar>dec_signed acc + total_of field rs (take (Suc k) (i # ixs))\<bar> < 10 ^ 28"
      using Cons.prems(3) [rule_format, of "Suc k"] by simp
    then show "\<bar>dec_signed (dec_add acc d) + total_of field rs (take k ixs)\<bar> < 10 ^ 28"
      using a v by (simp add: total_of_def algebra_simps)
  qed
  then obtain s where "sum_fields field rs (dec_add acc d) ixs = Inr s" "dec_exp s = 0"
    "dec_signed s = dec_signed acc + v + total_of field rs ixs"
    using Cons.IH [of "dec_add acc d"] Cons.prems(1) a by auto
  then show ?case using v d by (simp add: total_of_def)
qed

lemma total_evaluated:
  assumes "expected_decimal (bi_expected b) = Inr e" "0 \<le> bi_decimal_places b" "bi_decimal_places b \<le> 999999"
    and "n dvd length content" "split_records content n = rs" "rs \<noteq> []" "checked_indexes b rs = ixs"
    and "\<forall>i \<in> set ixs. i < length rs \<and> field_int (field_of b (rs ! i)) \<noteq> None"
    and "\<forall>k \<le> length ixs. \<bar>total_of (field_of b) rs (take k ixs)\<bar> < 10 ^ 28"
  shows "\<exists>i. evaluate_field_total b content label n = Inr i \<and>
    (io_passed i \<longleftrightarrow> of_int (total_of (field_of b) rs ixs) = dec_value e * 10 ^ nat (bi_decimal_places b))"
proof -
  have z: "dec_signed (dec_of_int 0) = 0" "dec_exp (dec_of_int 0) = 0" by (simp_all add: dec_signed_def dec_of_int_def)
  obtain s where s: "sum_fields (field_of b) rs (dec_of_int 0) ixs = Inr s" "dec_exp s = 0"
    "dec_signed s = total_of (field_of b) rs ixs"
    using sum_fields_exact [OF assms(8) z(2)] assms(9) z(1) by auto
  let ?p = "nat (bi_decimal_places b)"
  have sv: "dec_value s = of_int (total_of (field_of b) rs ixs)" by (simp add: dec_value_def s)
  have "?p \<le> 999999" using assms(3) by simp
  then obtain t where t: "(if bi_decimal_places b \<noteq> 0 then dec_shift ?p s else Inr s) = Inr t" "dec_value t = dec_value s / 10 ^ ?p"
    using dec_shift_value [of ?p s] by (cases "bi_decimal_places b = 0") auto
  have "evaluate_field_total b content label n =
      Inr (if dec_eq t e then outcome b True (PDict [(''$decimal'', PStr (dec_format t))]) (label @ '' fixed-field total matched'')
           else outcome b False (PDict [(''$decimal'', PStr (dec_format t))]) (label @ '' fixed-field total '' @ dec_format t
                      @ '' != expected '' @ dec_format e))"
    using assms(4,6) unfolding evaluate_field_total_def assms(1,5,7) Let_def s(1) sum.case t(1) bind_res_simps by simp
  moreover have "dec_eq t e \<longleftrightarrow> of_int (total_of (field_of b) rs ixs) = dec_value e * 10 ^ ?p"
    unfolding dec_eq_value t(2) sv by (simp add: field_simps)
  ultimately show ?thesis by simp
qed

subsection \<open>Guarantees\<close>

text \<open>C28: The constructor of a business invariant accepts exactly the declarations that are well formed for their
  kind, and stores them with their expectation normalised: a non-empty id, a permitted source with the name of
  its file, a window inside the record and a record index that is not negative, an expectation of the kind's
  type (comparable, without floats, for JSON), and no attribute the kind would ignore.\<close>
theorem constructed_invariants_are_typed:
  "mk_business_invariant b = Inr b' \<longleftrightarrow> b' = b\<lparr>bi_expected := stored_expectation b\<rparr> \<and> well_declared b'"
  by (rule constructed_iff)


text \<open>C27: Fixed-field totals are exact within the precision of the arithmetic: when every checked record holds an
  integer and no partial sum reaches 29 digits, the invariant passes exactly when the sum of the integers is
  the expected decimal, shifted by the declared number of places.\<close>
theorem field_totals_are_exact:
  assumes "expected_decimal (bi_expected b) = Inr e" "0 \<le> bi_decimal_places b" "bi_decimal_places b \<le> 999999"
    and "n dvd length content" "split_records content n = rs" "rs \<noteq> []" "checked_indexes b rs = ixs"
    and "\<forall>i \<in> set ixs. i < length rs \<and> field_int (field_of b (rs ! i)) \<noteq> None"
    and "\<forall>k \<le> length ixs. \<bar>total_of (field_of b) rs (take k ixs)\<bar> < 10 ^ 28"
  shows "\<exists>i. evaluate_field_total b content label n = Inr i \<and>
    (io_passed i \<longleftrightarrow> of_int (total_of (field_of b) rs ixs) = dec_value e * 10 ^ nat (bi_decimal_places b))"
  using assms by (rule total_evaluated)

text \<open>C16: Two reports of the same declared rules are compared for what they say: from their bytes alone, the
  comparator returns MATCH when every rule holds of both observations and MISMATCH when one fails on a side,
  even when it fails alike on both, and it is never inconclusive.\<close>
theorem reports_match_iff_rules_hold:
  assumes "build_report x bs ob1 = Inr r1" "report_bytes r1 = Inr c1"
    and "build_report x bs ob2 = Inr r2" "report_bytes r2 = Inr c2"
  shows "\<exists>r. business_invariant_compare x oa (Some c1) ca (Some c2) None ''SEQUENTIAL'' fp = Inr r \<and>
    cr_result r = (if \<forall>b \<in> set bs. holds x ob1 b \<and> holds x ob2 b then MATCH else MISMATCH)"
  using compare_reports [OF assms, of oa ca fp] by (auto simp: mk_result_def split: if_splits)

lemma admitted_report_consistent:
  assumes "admit_report x c = Inr a"
  shows "mset (map entry_id (ad_definitions a)) = mset (map entry_id (ad_outcomes a))"
    "ad_overall a = ''PASS'' \<longleftrightarrow> list_all outcome_passed (ad_outcomes a)"
    "\<exists>vs. traverse (\<lambda>fs. json_of_py (PDict fs)) (ad_definitions a) = Inr vs \<and> digest_of vs = Inr (ad_digest a)"
    "ad_definitions a \<noteq> []"
proof -
  from assms obtain doc ds os vs where
    n: "nonempty_list (get doc ''definitions'') ''business-invariant report declares no definitions'' = Inr ds"
    and d: "traverse admit_definition ds = Inr (ad_definitions a)"
    and v: "traverse (\<lambda>fs. json_of_py (PDict fs)) (ad_definitions a) = Inr vs" "digest_of vs = Inr (ad_digest a)"
    and s: "sort (map entry_id (ad_definitions a)) = sort (map entry_id (ad_outcomes a))"
    and o: "(if list_all outcome_passed (ad_outcomes a) then ''PASS'' else ''FAIL'') = ad_overall a"
    unfolding admit_report_def Let_def by (auto simp only: bind_res_eq_Inr require_Inr admitted_report.select_convs sum.inject)
  show "mset (map entry_id (ad_definitions a)) = mset (map entry_id (ad_outcomes a))" using s by (metis mset_sort)
  show "ad_overall a = ''PASS'' \<longleftrightarrow> list_all outcome_passed (ad_outcomes a)" using o by (auto split: if_splits)
  show "\<exists>vs. traverse (\<lambda>fs. json_of_py (PDict fs)) (ad_definitions a) = Inr vs \<and> digest_of vs = Inr (ad_digest a)"
    using v by blast
  have "ds \<noteq> []" using n by (auto simp: nonempty_list_def split: py.splits list.splits)
  moreover have "length ds = length (ad_definitions a)" using d by (auto simp: traverse_Inr_iff dest: list_all2_lengthD)
  ultimately show "ad_definitions a \<noteq> []" by auto
qed

text \<open>C26: Nothing but consistent reports of passed rules can match. For any two contents, a MATCH of the invariant
  comparator means that both were admitted with the same digest, the SHA-256 of the definitions each declares,
  that each has exactly one outcome for every definition, and that every outcome on both sides is passed.\<close>
theorem matching_reports_all_passed:
  assumes "business_invariant_compare x oa oc ca cc policy ordered fp = Inr r" "cr_result r = MATCH"
  shows "\<exists>p q a b. oc = Some p \<and> cc = Some q \<and> admit_report x p = Inr a \<and> admit_report x q = Inr b \<and>
    ad_digest a = ad_digest b \<and> ad_definitions a \<noteq> [] \<and>
    (\<exists>vs. traverse (\<lambda>fs. json_of_py (PDict fs)) (ad_definitions a) = Inr vs \<and> digest_of vs = Inr (ad_digest a)) \<and>
    mset (map entry_id (ad_definitions a)) = mset (map entry_id (ad_outcomes a)) \<and>
    mset (map entry_id (ad_definitions b)) = mset (map entry_id (ad_outcomes b)) \<and>
    list_all outcome_passed (ad_outcomes a @ ad_outcomes b)"
proof (cases "handle_missing invariant_comparator_id oa ca oc cc fp")
  case (Some m)
  then have "cr_result m = MATCH" using assms by (auto simp: business_invariant_compare_def split: if_splits)
  then show ?thesis using Some by (auto simp: handle_missing_def mk_result_def Let_def split: if_splits)
next
  case None
  then obtain p q where p: "oc = Some p" "cc = Some q" by auto
  then obtain a b where ab: "admit_report x p = Inr a" "admit_report x q = Inr b" and c: "r = compare_admitted oa ca a b"
    using assms None by (auto simp: business_invariant_compare_def admit_pair_def bind_res_def mk_result_def
        split: if_splits sum.splits py_error.splits)
  have d: "ad_digest a = ad_digest b" "ad_overall a = ''PASS''" "ad_overall b = ''PASS''"
    using assms(2) by (auto simp: c compare_admitted_def mk_result_def split: if_splits)
  show ?thesis
    using p ab d admitted_report_consistent [OF ab(1)] admitted_report_consistent [OF ab(2)] by auto
qed

end
