(* ===== verification/InvariantSamples.thy ===== *)
theory InvariantSamples
  imports InvariantProperties
begin

text \<open>
  The guarantees of business invariants on concrete declarations, and what the checks let through: totals beyond
  the precision of the arithmetic, booleans that equal integers, tuples that equal nothing.
\<close>

subsection \<open>An exit code\<close>

text \<open>One declared invariant: the program ends with exit code 0.\<close>

definition sample_rule :: business_invariant where
  "sample_rule = \<lparr>bi_id = ''R1'', bi_kind = EXIT_CODE, bi_source = EXIT_STATUS, bi_expected = PInt 0,
     bi_phase = POSTCONDITION, bi_source_name = None, bi_record_length = None, bi_offset = None, bi_length = None,
     bi_record_index = None, bi_decimal_places = 0, bi_json_path = None, bi_description = []\<rparr>"

text \<open>Both sides report the same outcome of the invariant.\<close>

definition sample_declaration :: json where
  "sample_declaration = JObj
     [(''invariant_id'', JStr ''R1''), (''kind'', JStr ''EXIT_CODE''), (''source'', JStr ''EXIT_STATUS''),
      (''phase'', JStr ''POSTCONDITION''), (''source_name'', JNull), (''expected'', JInt 0), (''record_length'', JNull),
      (''offset'', JNull), (''length'', JNull), (''record_index'', JNull), (''decimal_places'', JInt 0),
      (''json_path'', JNull), (''description'', JStr [])]"

definition sample_report :: invariant_report where
  "sample_report =
     \<lparr>rp_digest = sha256_hex (utf8_encode (dump_compact (sort_keys (JList [sample_declaration])))),
      rp_definitions = [sample_declaration],
      rp_outcomes = [outcome sample_rule True (PInt 0) ''exit code matched'']\<rparr>"

definition sample_report_bytes :: bytes where
  "sample_report_bytes = (case report_bytes sample_report of Inr c \<Rightarrow> c | Inl _ \<Rightarrow> [])"

lemma int_ok_digit: "0 \<le> i \<Longrightarrow> i < 10 \<Longrightarrow> int_ok i"
  by (simp add: int_ok_def int_digit_limit_def show_nat.simps)

lemma printable_lists: "printable_ints (JList []) = True" "printable_ints (JList (v # vs)) = (printable_ints v \<and> printable_ints (JList vs))"
  "printable_ints (JObj []) = True" "printable_ints (JObj ((k, v) # fs)) = (printable_ints v \<and> printable_ints (JObj fs))"
  by (simp_all add: printable_list printable_obj)

lemma sample_report_returns: "report_bytes sample_report = Inr sample_report_bytes"
proof -
  have "\<exists>v. report_json sample_report = Inr v \<and> printable_ints v"
    by (simp add: report_json_def sample_report_def outcome_json_def outcome_def sample_rule_def printable_lists int_ok_digit
        sample_declaration_def)
  then have "\<exists>c. report_bytes sample_report = Inr c" by (auto simp: report_bytes_def canonical_json_def)
  then show ?thesis by (auto simp: sample_report_bytes_def)
qed

lemma sample_evaluated: "ob_exit_code ob = Some 0 \<Longrightarrow> evaluate_one x ob sample_rule = Inr (outcome sample_rule True (PInt 0) ''exit code matched'')"
  by (simp add: evaluate_one_def evaluate_exit_code_def sample_rule_def dec_eq_refl)

lemma sample_build: "ob_exit_code ob = Some 0 \<Longrightarrow> build_report x [sample_rule] ob = Inr sample_report"
proof -
  assume ob: "ob_exit_code ob = Some 0"
  have d: "canonical_declaration sample_rule = Inr sample_declaration"
    by (simp add: canonical_declaration_def sample_rule_def sample_declaration_def j_opt_def)
  have "digest_of [sample_declaration] = Inr (sha256_hex (utf8_encode (dump_compact (sort_keys (JList [sample_declaration])))))"
    by (simp add: digest_of_def canonical_json_def printable_lists sample_declaration_def int_ok_digit
        del: sort_keys.simps dump_with.simps)
  then show ?thesis
    by (simp add: build_report_def canonical_declarations_def d evaluate_invariants_def duplicates_def
        sample_evaluated [OF ob] sample_report_def del: sort_keys.simps dump_with.simps)
qed

lemma sample_holds: "ob_exit_code ob = Some 0 \<Longrightarrow> holds x ob sample_rule"
  by (simp add: holds_def sample_evaluated)

lemma sample_observed:
  "ob_exit_code \<lparr>ob_exit_code = Some 0, ob_stdout = out, ob_stderr = [], ob_files = [], ob_inputs = []\<rparr> = Some 0"
  by simp

lemma reports_match_iff_rules_hold_witness:
  "\<forall>oa. \<exists>r. business_invariant_compare (\<lambda>_. []) oa (Some sample_report_bytes) oa (Some sample_report_bytes) None ''SEQUENTIAL'' None = Inr r
    \<and> cr_result r = MATCH"
proof
  fix oa :: artifact_identity
  note b1 = sample_build [OF sample_observed [of "''A''"]] and b2 = sample_build [OF sample_observed [of "''B''"]]
  from reports_match_iff_rules_hold [OF b1 sample_report_returns b2 sample_report_returns, where x = "\<lambda>_. []" and oa = oa and ca = oa and fp = None]
  show "\<exists>r. business_invariant_compare (\<lambda>_. []) oa (Some sample_report_bytes) oa (Some sample_report_bytes) None ''SEQUENTIAL'' None = Inr r
    \<and> cr_result r = MATCH"
    using sample_holds [OF sample_observed] by (auto split: if_splits)
qed

lemma matching_reports_all_passed_witness:
  "\<exists>a. admit_report (\<lambda>_. []) sample_report_bytes = Inr a \<and> list_all outcome_passed (ad_outcomes a)"
proof -
  note b1 = sample_build [OF sample_observed [of "''A''"]] and b2 = sample_build [OF sample_observed [of "''B''"]]
  fix oa :: artifact_identity
  have h: "\<forall>b \<in> set [sample_rule]. holds (\<lambda>_. []) ob b \<and> holds (\<lambda>_. []) ob' b"
    if "ob_exit_code ob = Some 0" "ob_exit_code ob' = Some 0" for ob ob' using that by (simp add: sample_holds)
  obtain r where r: "business_invariant_compare (\<lambda>_. []) oa (Some sample_report_bytes) oa (Some sample_report_bytes) None ''SEQUENTIAL'' None = Inr r"
    "cr_result r = MATCH"
    using compare_reports [OF b1 sample_report_returns b2 sample_report_returns, where x = "\<lambda>_. []" and oa = oa and ca = oa and fp = None]
      h [OF sample_observed sample_observed] by (auto simp: mk_result_def split: if_splits)
  show ?thesis using matching_reports_all_passed [OF r] by auto
qed

subsection \<open>A total\<close>

definition total_rule :: "py \<Rightarrow> int \<Rightarrow> int \<Rightarrow> business_invariant" where
  "total_rule expected n places = \<lparr>bi_id = ''T'', bi_kind = FIXED_FIELD_TOTAL, bi_source = FILE, bi_expected = expected,
     bi_phase = POSTCONDITION, bi_source_name = Some ''out.dat'', bi_record_length = Some n, bi_offset = Some 0,
     bi_length = Some n, bi_record_index = None, bi_decimal_places = places, bi_json_path = None, bi_description = []\<rparr>"

lemma sample_total_text: "decimal_of_text ''0.07'' = Finite \<lparr>dec_neg = False, dec_coef = 7, dec_exp = - 2\<rparr>"
  by code_simp


text \<open>An attribute the kind would ignore is refused, whatever its value.\<close>

lemma irrelevant_attribute_refused:
  "mk_business_invariant (sample_rule\<lparr>bi_record_length := Some 4\<rparr>)
     = Inl (ValueError ''EXIT_CODE does not accept record_length=4'')"
proof -
  have "strip ''R1'' \<noteq> []" "show_int 4 = ''4''" by code_simp+
  then show ?thesis
    by (simp add: mk_business_invariant_def sample_rule_def check_exit_code_def require_source_def require_def is_integer_def
        reject_irrelevant_fields_def given_attributes_def format_repr_def int_ok_digit)
qed

text \<open>An expectation beyond Python's limit of digits is accepted; the failing rule raises instead of reporting.\<close>

lemma long_expectation_raises:
  assumes "\<not> int_ok i" "ob_exit_code ob = Some 0"
  shows "mk_business_invariant (sample_rule\<lparr>bi_expected := PInt i\<rparr>) = Inr (sample_rule\<lparr>bi_expected := PInt i\<rparr>)"
    "evaluate_one x ob (sample_rule\<lparr>bi_expected := PInt i\<rparr>) = Inl int_limit_error"
proof -
  have "strip ''R1'' \<noteq> []" by code_simp
  then show "mk_business_invariant (sample_rule\<lparr>bi_expected := PInt i\<rparr>) = Inr (sample_rule\<lparr>bi_expected := PInt i\<rparr>)"
    by (simp add: mk_business_invariant_def sample_rule_def check_exit_code_def require_source_def require_def is_integer_def
        reject_irrelevant_fields_def given_attributes_def)
  have "i \<noteq> 0" using assms(1) int_ok_digit [of 0] by auto
  then have "\<not> py_eq (PInt 0) (PInt i)" by (simp del: py_eq.simps)
  then show "evaluate_one x ob (sample_rule\<lparr>bi_expected := PInt i\<rparr>) = Inl int_limit_error"
    using assms int_ok_digit [of 0]
    by (simp add: evaluate_one_def evaluate_exit_code_def sample_rule_def format_int_def format_value_def)
qed

lemma sample_fields: "split_records ''0012-005'' 4 = [''0012'', ''-005'']"
  "field_of (total_rule v 4 places) ''0012'' = ''0012''" "field_of (total_rule v 4 places) ''-005'' = ''-005''"
  "field_int ''0012'' = Some 12" "field_int ''-005'' = Some (- 5)"
proof -
  show "split_records ''0012-005'' 4 = [''0012'', ''-005'']" "field_int ''0012'' = Some 12" "field_int ''-005'' = Some (- 5)"
    by code_simp+
qed (simp_all add: field_of_def total_rule_def)

text \<open>Records 12 and -5 with two decimal places sum to 0.07.\<close>

lemma field_totals_are_exact_witness:
  "\<exists>i. evaluate_field_total (total_rule (PStr ''0.07'') 4 2) ''0012-005'' ''FILE:out.dat'' 4 = Inr i \<and> io_passed i"
proof -
  let ?b = "total_rule (PStr ''0.07'') 4 2"
  have e: "expected_decimal (bi_expected ?b) = Inr \<lparr>dec_neg = False, dec_coef = 7, dec_exp = - 2\<rparr>"
    by (simp add: total_rule_def expected_decimal_def value_str_def sample_total_text)
  have c: "checked_indexes ?b [''0012'', ''-005''] = [0, 1]"
    by (simp add: checked_indexes_def total_rule_def numeral_2_eq_2)
  have s: "\<forall>k \<le> length [0, 1::nat]. \<bar>total_of (field_of ?b) [''0012'', ''-005''] (take k [0, 1])\<bar> < 10 ^ 28"
    by (auto simp: total_of_def sample_fields le_Suc_eq numeral_2_eq_2)
  have p: "bi_decimal_places ?b = 2" by (simp add: total_rule_def)
  have "length ''0012-005'' = 4 * 2" by simp
  then have d: "4 dvd length ''0012-005''" by (rule dvdI)
  from field_totals_are_exact [OF e _ _ d sample_fields(1) _ c _ s, of "''FILE:out.dat''"]
  show ?thesis
    by (simp add: p sample_fields total_of_def dec_value_def dec_signed_def power_int_def power2_eq_square)
qed


subsection \<open>What passes or stops without being exact\<close>

text \<open>A total of 29 digits is rounded to 28 before it is compared: a field that holds 10 ^ 28 + 1 meets the
  expectation 10 ^ 28.\<close>

definition ten_28 :: string where
  "ten_28 = ''10000000000000000000000000000''"

definition ten_28_1 :: string where
  "ten_28_1 = ''10000000000000000000000000001''"

lemma long_digits: "ten_28 \<noteq> []" "all_digits ten_28" "ten_28_1 \<noteq> []" "all_digits ten_28_1"
  "numeric_token ten_28_1 = Some ten_28_1" "length ten_28_1 = 29"
  by code_simp+

lemma long_values: "decimal ten_28 = 10 ^ 28" "decimal ten_28_1 = 10 ^ 28 + 1"
  by (simp_all add: ten_28_def ten_28_1_def digit_val_def)

lemma rounded_sum: "dec_round False (10 ^ 28 + 1) 0 = \<lparr>dec_neg = False, dec_coef = 10 ^ 27, dec_exp = 1\<rparr>"
  by (simp add: dec_round_def show_nat.simps half_even_def Let_def dec_precision_def)

lemma rounded_total_passes:
  "\<exists>i. evaluate_field_total (total_rule (PStr ten_28) 29 0) ten_28_1 ''FILE:out.dat'' 29 = Inr i \<and> io_passed i"
  "field_int ten_28_1 = Some (10 ^ 28 + 1)"
proof -
  let ?b = "total_rule (PStr ten_28) 29 0"
  obtain e where e: "decimal_of_text ten_28 = Finite e" "dec_exp e = 0" "dec_signed e = 10 ^ 28"
    using decimal_of_digits(1) [OF long_digits(1,2)] long_values(1) by auto
  obtain d where d: "decimal_of_text ten_28_1 = Finite d" "dec_exp d = 0" "dec_signed d = 10 ^ 28 + 1"
    using decimal_of_digits(1) [OF long_digits(3,4)] long_values(2) by auto
  have x: "expected_decimal (bi_expected ?b) = Inr e" by (simp add: total_rule_def expected_decimal_def value_str_def e)
  have r: "split_records ten_28_1 29 = [ten_28_1]" by (simp add: split_records_def long_digits)
  have c: "checked_indexes ?b [ten_28_1] = [0]" by (simp add: checked_indexes_def total_rule_def)
  have f: "field_of ?b ten_28_1 = ten_28_1" by (simp add: field_of_def total_rule_def long_digits)
  have "dec_add (dec_of_int 0) d = dec_round False (10 ^ 28 + 1) 0"
    using d(2,3) by (simp add: dec_add_def dec_at_def dec_of_int_def dec_signed_def [of "\<lparr>dec_neg = n, dec_coef = c, dec_exp = x\<rparr>" for n c x] Let_def)
  then have a: "dec_add (dec_of_int 0) d = \<lparr>dec_neg = False, dec_coef = 10 ^ 27, dec_exp = 1\<rparr>"
    by (simp only: rounded_sum)
  have q: "dec_eq \<lparr>dec_neg = False, dec_coef = 10 ^ 27, dec_exp = 1\<rparr> e"
    using e(2,3) by (simp add: dec_eq_def dec_at_def Let_def dec_signed_def [of "\<lparr>dec_neg = n, dec_coef = c, dec_exp = x\<rparr>" for n c x])
  have p: "bi_decimal_places ?b = 0" by (simp add: total_rule_def)
  show "\<exists>i. evaluate_field_total ?b ten_28_1 ''FILE:out.dat'' 29 = Inr i \<and> io_passed i"
    unfolding evaluate_field_total_def Let_def r c x
    by (simp add: long_digits f d a p q [simplified])
  show "field_int ten_28_1 = Some (10 ^ 28 + 1)"
    unfolding field_int_def long_digits option.map long_values by (simp add: ten_28_1_def)
qed

text \<open>An integer meets a boolean expectation and a boolean an integer one; an expected tuple meets no list.\<close>

lemma boolean_meets_integer:
  "json_equal (PInt 1) (PBool True)" "json_equal (PBool True) (PInt 1)" "\<not> json_equal (PList xs) (PTuple ys)"
  by (simp_all add: json_equal_def dec_eq_refl)

text \<open>A NaN at the path of an invariant is evaluated and then stops the report, on whichever side it is.\<close>

lemma nan_stops_report:
  "loads_decimal ''NaN'' = Inr (PFloat ''nan'')"
  "outcome_json (outcome (sample_rule\<lparr>bi_expected := PInt 0\<rparr>) p (PFloat ''nan'') r)
     = Inl (ValueError ''unsupported canonical value type float'')"
proof -
  show "loads_decimal ''NaN'' = Inr (PFloat ''nan'')" by code_simp
qed (simp add: outcome_json_def outcome_def)

end
