(* ===== verification/PipelineSamples.thy ===== *)
theory PipelineSamples
  imports PipelineFacts InvariantSamples
begin

text \<open>
  A run that is VERIFIED, evaluated on concrete executions: both programs print \<open>OK\<close>, end with code 0 and
  write \<open>log.txt\<close>. It is the input of the witnesses of the properties of VERIFIED runs, and it shows what
  an output path on a stream declaration hides.
\<close>

definition sample_result :: "execution_id \<Rightarrow> string \<Rightarrow> bytes dict \<Rightarrow> execution_result" where
  "sample_result i status out =
     \<lparr>er_execution_id = i, er_run_id = ''run-1'', er_status = SUCCEEDED, er_exit_code = Some 0, er_stdout = ''OK'', er_stderr = [],
      er_start_time = ''t0'', er_end_time = ''t1'', er_termination_status = status, er_timeout_applied = False,
      er_timeout_duration = None, er_generated_files = Some out, er_image_digest = None\<rparr>"

definition sample_oracle_result :: "bytes dict \<Rightarrow> oracle_execution_result" where
  "sample_oracle_result out = execution_result.extend (sample_result ''oracle-1'' ''normal'' out)
     \<lparr>or_oracle_id = ''gnucobol'', or_source_before = None, or_source_after = None,
      or_compilation_diagnostics = None\<rparr>"

definition sample_registry :: registry where
  "sample_registry =
     [(''STDOUT'', StdoutComparator), (''STDERR'', StderrComparator), (''EXIT_STATUS'', ExitStatusComparator),
      (''TEXT_FILE'', TextFileComparator), (''FIXED_RECORD'', FixedRecordComparator),
      (''BUSINESS_INVARIANT'', BusinessInvariantComparator)]"

text \<open>The standard output is declared with an output path, which only files have.\<close>

definition sample_inputs :: run_inputs where
  "sample_inputs =
     \<lparr>ri_run_id = ''run-1'', ri_workload_id = ''w-1'',
      ri_declared = [plain_artifact ''out'' ''STDOUT'' ''stdout-exact'' (Some ''out.dat'') None],
      ri_registry = sample_registry,
      ri_source = \<lparr>si_id = ''s'', si_hash = sample_hash, si_file_count = 1, si_total_size = 9\<rparr>,
      ri_candidate = \<lparr>ca_id = ''c'', ca_hash = sample_hash, ca_source_hash = sample_hash,
                        ca_file_count = 1, ca_total_size = 9\<rparr>,
      ri_oracle_identity = sample_oracle, ri_tree_before = sample_hash, ri_tree_after = sample_hash,
      ri_compiler_version = ''3.2'', ri_java_version = None, ri_network_policy = ''none'',
      ri_resource_limits = [], ri_lane = ''l'', ri_stdin = None, ri_input_hashes = [],
      ri_keyed = \<lparr>kf_indexed = [], kf_relative = []\<rparr>, ri_effects = [], ri_invariants = [sample_rule],
      ri_input_files = [], ri_explain = (\<lambda>_. [])\<rparr>"

lemma sample_standard_registry: "standard_registry sample_registry"
  by (simp add: standard_registry_def create_verification_registry_def create_default_registry_def register_def
      is_registered_def registry_get_def sample_registry_def Let_def)

definition sample_oracle_run :: oracle_execution_result where
  "sample_oracle_run = sample_oracle_result [(''log.txt'', ''L''), (''out.dat'', ''1'')]"

definition sample_candidate_run :: execution_result where
  "sample_candidate_run = sample_result ''candidate-1'' ''normal'' [(''log.txt'', ''L''), (''out.dat'', ''2'')]"

lemma certifiable_seal [simp]: "certifiable (seal_manifest m) = certifiable m"
  by (simp add: certifiable_def seal_manifest_def)

lemmas sample_run_defs = sample_inputs_def sample_oracle_run_def sample_candidate_run_def sample_oracle_result_def
  sample_result_def execution_result.defs generated_files_def

lemma comparison_evidence_fields [simp]:
  "ce_run_id (make_comparison_evidence run n t oc cc r) = run"
  "ce_comparator_id (make_comparison_evidence run n t oc cc r) = cid_id (cr_comparator_id r)"
  "ce_oracle_artifact_id (make_comparison_evidence run n t oc cc r) = ai_id (cap_artifact oc)"
  "ce_candidate_artifact_id (make_comparison_evidence run n t oc cc r) = ai_id (cap_artifact cc)"
  "ce_artifact_type (make_comparison_evidence run n t oc cc r) = t"
  "ce_result (make_comparison_evidence run n t oc cc r) = result_value (cr_result r)"
  "ce_differences (make_comparison_evidence run n t oc cc r) = map cd_description (cr_differences r)"
  by (simp_all add: make_comparison_evidence_def)

text \<open>What a capture of given bytes returns.\<close>

definition capture_of :: "execution_id \<Rightarrow> string \<Rightarrow> string \<Rightarrow> string \<Rightarrow> string \<Rightarrow> bytes \<Rightarrow> captured_artifact" where
  "capture_of exec i t n role b =
     \<lparr>cap_artifact = \<lparr>ai_id = i, ai_type = t, ai_logical_name = n, ai_role = role,
        ai_content_hash = hash_from_bytes b, ai_size_bytes = int (length b), ai_record_count = None\<rparr>,
      cap_content = Some b, cap_content_hash = hash_from_bytes b, cap_size_bytes = int (length b),
      cap_execution_id = exec, cap_time = ''t2''\<rparr>"

lemma capture_of_fields [simp]:
  "cap_content (capture_of exec i t n role b) = Some b" "cap_execution_id (capture_of exec i t n role b) = exec"
  "ai_id (cap_artifact (capture_of exec i t n role b)) = i" "ai_type (cap_artifact (capture_of exec i t n role b)) = t"
  "ai_role (cap_artifact (capture_of exec i t n role b)) = role"
  by (simp_all add: capture_of_def)

lemma captured_capture_of [simp]:
  "t \<in> set valid_artifact_types \<Longrightarrow> role = ''ORACLE'' \<or> role = ''CANDIDATE'' \<Longrightarrow>
   captured ''t2'' exec i t n role None (Some b) = Inr (capture_of exec i t n role b)"
  by (auto simp: captured_def mk_artifact_identity_def capture_of_def Let_def)

text \<open>The comparison of two equal contents.\<close>

definition matching :: "comparator_id \<Rightarrow> string \<Rightarrow> string \<Rightarrow> string \<Rightarrow> string \<Rightarrow> string \<Rightarrow> bytes \<Rightarrow> compared" where
  "matching cid t k n i j b =
     (let x = capture_of ''oracle-1'' i t n ''ORACLE'' b; y = capture_of ''candidate-1'' j t n ''CANDIDATE'' b in
      (x, y, make_comparison_evidence ''run-1'' k t x y
         (mk_result cid (cap_artifact x) (cap_artifact y) MATCH [] [])))"

lemma sample_compared: "compared_artifacts (ri_declared sample_inputs) =
   [plain_artifact ''out'' ''STDOUT'' ''stdout-exact'' (Some ''out.dat'') None,
    plain_artifact ''stderr'' ''STDERR'' ''stderr-exact'' None None,
    plain_artifact ''exit-status'' ''EXIT_STATUS'' ''exit-status-exact'' None None]"
  by (simp add: compared_artifacts_def sample_inputs_def required_observations_def Let_def plain_artifact_def
    fresh_name.simps)

lemma zero_text: "show_int 0 = ''0''" "int_of_bytes ''0'' = Some 0"
  by code_simp+

lemma sample_ids: "strip ''stdout-exact'' = ''stdout-exact''" "strip ''stderr-exact'' = ''stderr-exact''"
  "strip ''exit-status-exact'' = ''exit-status-exact''" "resolve_comparator_id (Some ''stdout-exact'') = ''STDOUT_COMPARATOR''"
  "resolve_comparator_id (Some ''stderr-exact'') = ''STDERR_COMPARATOR''"
  "resolve_comparator_id (Some ''exit-status-exact'') = ''EXIT_STATUS_COMPARATOR''"
  by code_simp+

definition sample_context :: comparison_context where
  "sample_context = run_context ''t2'' sample_inputs sample_oracle_run (Executed sample_candidate_run)"

lemma text_compare_equal: "text_compare cid l d oa (Some b) ca (Some b) (Some []) ''SEQUENTIAL'' fp
   = Inr (mk_result cid oa ca MATCH [] [])"
  by (simp add: text_compare_def handle_missing_def prepared_def apply_ordering_def mk_result_def)

lemma exit_compare_equal: "exit_status_compare oa (Some ''0'') ca (Some ''0'') policy ord fp
   = Inr (mk_result exit_status_id oa ca MATCH [] [])"
  by (simp add: exit_status_compare_def handle_missing_def zero_text)

lemma sample_context_fields:
  "cx_now sample_context = ''t2''" "cx_run_id sample_context = ''run-1''" "cx_registry sample_context = sample_registry"
  "er_stdout (cx_oracle sample_context) = ''OK''" "er_stdout (cx_candidate sample_context) = ''OK''"
  "er_stderr (cx_oracle sample_context) = []" "er_stderr (cx_candidate sample_context) = []"
  "er_exit_code (cx_oracle sample_context) = Some 0" "er_exit_code (cx_candidate sample_context) = Some 0"
  "er_execution_id (cx_oracle sample_context) = ''oracle-1''"
  "er_execution_id (cx_candidate sample_context) = ''candidate-1''"
  "generated_files (cx_oracle sample_context) = [(''log.txt'', ''L''), (''out.dat'', ''1'')]"
  "generated_files (cx_candidate sample_context) = [(''log.txt'', ''L''), (''out.dat'', ''2'')]"
  by (simp_all add: sample_context_def sample_run_defs run_context_def)

lemma sample_bound:
  "bound_comparator sample_registry (plain_artifact n ''STDOUT'' ''stdout-exact'' p f) = Inr StdoutComparator"
  "bound_comparator sample_registry (plain_artifact n ''STDERR'' ''stderr-exact'' p f) = Inr StderrComparator"
  "bound_comparator sample_registry (plain_artifact n ''EXIT_STATUS'' ''exit-status-exact'' p f) = Inr ExitStatusComparator"
  by (simp_all add: bound_comparator_def plain_artifact_def sample_registry_def registry_get_def sample_ids
      stdout_id_def stderr_id_def exit_status_id_def)

lemma plain_fields:
  "wa_artifact_type (plain_artifact n t c p f) = t" "wa_logical_name (plain_artifact n t c p f) = n"
  "wa_normalization (plain_artifact n t c p f) = None" "wa_ordering (plain_artifact n t c p f) = None"
  by (simp_all add: plain_artifact_def)

lemma sample_declared: "traverse (compare_declared sample_context) (compared_artifacts (ri_declared sample_inputs)) = Inr
   [matching stdout_id ''STDOUT'' ''out'' ''out'' ''stdout-oracle-1'' ''stdout-candidate-1'' ''OK'',
    matching stderr_id ''STDERR'' ''stderr'' ''stderr'' ''stderr-oracle-1'' ''stderr-candidate-1'' [],
    matching exit_status_id ''EXIT_STATUS'' ''exit-status'' ''exit_status'' ''exit-oracle-1'' ''exit-candidate-1'' ''0'']"
  unfolding sample_compared
  apply (simp add: compare_declared_def plain_fields extract_artifact_content_def sample_context_fields zero_text
     capture_pair_def capture_artifact_def capture_defs valid_artifact_types_def sample_bound stdout_compare_def stderr_compare_def
     text_compare_equal exit_compare_equal matching_def Let_def)
  done

text \<open>The one file no declaration names.\<close>

lemma sample_undeclared: "undeclared_files (ri_declared sample_inputs) (generated_files (cx_oracle sample_context))
   (generated_files (cx_candidate sample_context)) = [''log.txt'']"
  by (simp add: undeclared_files_def declared_paths_def sample_inputs_def plain_artifact_def sample_context_fields is_truthy_def)

lemma sample_files: "compare_all_undeclared sample_context (ri_keyed sample_inputs) [''log.txt''] = Inr
   [matching text_file_id ''TEXT_FILE'' ''generated-file:log.txt'' ''generated-file:log.txt''
      ''text-generated-file:log.txt-oracle-1'' ''text-generated-file:log.txt-candidate-1'' ''L'']"
proof -
  have kf: "is_emulated_image (ri_keyed sample_inputs) n = False" for n
    by (simp add: is_emulated_image_def sample_inputs_def)
  have r: "registry_get sample_registry ''TEXT_FILE'' = Some TextFileComparator"
    by (rule standard_registry_get(4) [OF sample_standard_registry])
  show ?thesis
    by (simp add: compare_all_undeclared_def compare_file_records_def compare_undeclared_def kf r sample_context_fields
        compare_file_def capture_pair_def capture_artifact_def capture_defs valid_artifact_types_def
        text_file_compare_def text_compare_equal run_error_def matching_def Let_def)
qed

lemma sample_invariants: "compare_invariants sample_context [sample_rule] [] = Inr
   [matching invariant_comparator_id ''BUSINESS_INVARIANT'' ''business-invariants'' ''business-invariants''
      ''invariant-business-invariants-oracle-1'' ''invariant-business-invariants-candidate-1'' sample_report_bytes]"
proof -
  let ?o = "observation_of (cx_oracle sample_context) []" and ?c = "observation_of (cx_candidate sample_context) []"
  have e: "ob_exit_code ?o = Some 0" "ob_exit_code ?c = Some 0" by (simp_all add: observation_of_def sample_context_fields)
  have r: "registry_get sample_registry ''BUSINESS_INVARIANT'' = Some BusinessInvariantComparator"
    by (simp add: registry_get_def sample_registry_def)
  have "business_invariant_compare x oa (Some sample_report_bytes) ca (Some sample_report_bytes) None ''SEQUENTIAL'' None
      = Inr (mk_result invariant_comparator_id oa ca MATCH [] [])" for x oa ca
    using compare_reports [OF sample_build [OF e(1)] sample_report_returns sample_build [OF e(2)] sample_report_returns,
        of x oa ca None] sample_holds [OF e(1), of x] sample_holds [OF e(2), of x] by (auto split: if_splits)
  then show ?thesis
    by (simp add: compare_invariants_def capture_report_def sample_context_fields r sample_build e sample_report_returns
        capture_defs valid_artifact_types_def matching_def Let_def)
qed

definition sample_pairs :: "compared list" where
  "sample_pairs =
     [matching stdout_id ''STDOUT'' ''out'' ''out'' ''stdout-oracle-1'' ''stdout-candidate-1'' ''OK'',
      matching stderr_id ''STDERR'' ''stderr'' ''stderr'' ''stderr-oracle-1'' ''stderr-candidate-1'' [],
      matching exit_status_id ''EXIT_STATUS'' ''exit-status'' ''exit_status'' ''exit-oracle-1'' ''exit-candidate-1'' ''0'',
      matching text_file_id ''TEXT_FILE'' ''generated-file:log.txt'' ''generated-file:log.txt''
        ''text-generated-file:log.txt-oracle-1'' ''text-generated-file:log.txt-candidate-1'' ''L'',
      matching invariant_comparator_id ''BUSINESS_INVARIANT'' ''business-invariants'' ''business-invariants''
        ''invariant-business-invariants-oracle-1'' ''invariant-business-invariants-candidate-1'' sample_report_bytes]"

lemma sample_driven:
  "run_declaration_driven sample_context (ri_declared sample_inputs) (ri_keyed sample_inputs) [sample_rule] [] =
   Inr (map (\<lambda>(o', _, _). to_evidence o') sample_pairs @ map (\<lambda>(_, c, _). to_evidence c) sample_pairs,
        map (\<lambda>(_, _, e). e) sample_pairs)"
  by (simp add: run_declaration_driven_def sample_declared sample_undeclared sample_files run_error_def
      sample_invariants sample_pairs_def Let_def)

definition sample_run_manifest :: evidence_manifest where
  "sample_run_manifest = run_manifest ''t2'' sample_inputs
     ((oracle_to_execution_evidence sample_oracle_run)\<lparr>ex_workload_id := Some ''w-1''\<rparr>)
     ((candidate_to_execution_evidence sample_candidate_run)\<lparr>ex_workload_id := Some ''w-1'',
        ex_source_before := sample_hash, ex_source_after := sample_hash, ex_phase := ''EXECUTE''\<rparr>)
     (map (\<lambda>(o', _, _). to_evidence o') sample_pairs @ map (\<lambda>(_, c, _). to_evidence c) sample_pairs)
     (map (\<lambda>c. c\<lparr>ce_workload_id := Some ''w-1''\<rparr>) (map (\<lambda>(_, _, e). e) sample_pairs))"

lemma sample_run_evidence:
  "run_evidence ''t2'' sample_inputs sample_oracle_run (Executed sample_candidate_run) = Inr sample_run_manifest"
proof -
  have cx: "\<lparr>cx_now = ''t2'', cx_run_id = ''run-1'', cx_registry = sample_registry, cx_oracle = sample_oracle_run,
      cx_candidate = sample_candidate_run, cx_explain = (\<lambda>_. [])\<rparr> = sample_context"
    by (simp add: sample_context_def run_context_def sample_inputs_def)
  have inputs: "ri_run_id sample_inputs = ''run-1''" "ri_workload_id sample_inputs = ''w-1''"
    "ri_registry sample_inputs = sample_registry" "ri_explain sample_inputs = (\<lambda>_. [])"
    "ri_invariants sample_inputs = [sample_rule]" "ri_input_files sample_inputs = []" "ri_effects sample_inputs = []"
    "ri_tree_before sample_inputs = sample_hash" "ri_tree_after sample_inputs = sample_hash"
    by (simp_all add: sample_inputs_def)
  show ?thesis
    by (simp add: run_evidence_def Let_def inputs cx sample_driven unobserved_effect_evidence_def run_error_def
        sample_run_manifest_def build_phase_def)
qed

lemmas sample_manifest_fields = sample_run_manifest_def run_manifest_def oracle_to_execution_evidence_def
  candidate_to_execution_evidence_def execution_evidence_of_def sample_run_defs sample_pairs_def matching_def
  to_evidence_def mk_result_def

text \<open>Evidence of pairs whose ids are all different passes the checks of artifacts and comparisons.\<close>

definition bound_pair :: "compared \<Rightarrow> bool" where
  "bound_pair p = (case p of (x, y, e) \<Rightarrow>
     ai_role (cap_artifact x) = ''ORACLE'' \<and> ai_role (cap_artifact y) = ''CANDIDATE'' \<and>
     ai_type (cap_artifact x) = ce_artifact_type e \<and> ai_type (cap_artifact y) = ce_artifact_type e \<and>
     ce_oracle_artifact_id e = ai_id (cap_artifact x) \<and> ce_candidate_artifact_id e = ai_id (cap_artifact y) \<and>
     comparator_bound e \<and> ce_result e = ''MATCH'' \<and> ce_differences e = [])"

definition pair_artifacts :: "compared list \<Rightarrow> artifact_evidence list" where
  "pair_artifacts ps = map (\<lambda>(x, _, _). to_evidence x) ps @ map (\<lambda>(_, y, _). to_evidence y) ps"

definition pair_ids :: "compared list \<Rightarrow> string list" where
  "pair_ids ps = map (\<lambda>(x, _, _). ai_id (cap_artifact x)) ps @ map (\<lambda>(_, y, _). ai_id (cap_artifact y)) ps"

lemma pair_artifact_ids: "map (\<lambda>a. ai_id (ae_artifact a)) (pair_artifacts ps) = pair_ids ps"
  by (simp add: pair_artifacts_def pair_ids_def to_evidence_def case_prod_beta comp_def)

lemma artifact_by_id_distinct:
  assumes "distinct (map (\<lambda>a. ai_id (ae_artifact a)) (em_artifacts m))" "a \<in> set (em_artifacts m)"
  shows "artifact_by_id m (ai_id (ae_artifact a)) = Some (ae_artifact a)"
proof -
  from dict_comp_get_mem [OF assms(2), of "\<lambda>a. ai_id (ae_artifact a)" ae_artifact] obtain b where
    "b \<in> set (em_artifacts m)" "ai_id (ae_artifact b) = ai_id (ae_artifact a)"
    "artifact_by_id m (ai_id (ae_artifact a)) = Some (ae_artifact b)" unfolding artifact_by_id_def by blast
  with assms show ?thesis by (metis distinct_map inj_onD)
qed

lemma well_paired_bound:
  assumes "em_artifacts m = pair_artifacts ps" "distinct (pair_ids ps)" "\<forall>p \<in> set ps. bound_pair p" "(x, y, e) \<in> set ps"
  shows "well_paired m (e\<lparr>ce_workload_id := w\<rparr>)"
proof -
  have d: "distinct (map (\<lambda>a. ai_id (ae_artifact a)) (em_artifacts m))"
    unfolding assms(1) pair_artifact_ids by (rule assms(2))
  have mem: "to_evidence x \<in> set (em_artifacts m)" "to_evidence y \<in> set (em_artifacts m)"
    using assms(4) by (force simp: assms(1) pair_artifacts_def)+
  have i: "artifact_by_id m (ai_id (cap_artifact x)) = Some (cap_artifact x)"
    "artifact_by_id m (ai_id (cap_artifact y)) = Some (cap_artifact y)"
    using artifact_by_id_distinct [OF d mem(1)] artifact_by_id_distinct [OF d mem(2)] by (simp_all add: to_evidence_def)
  have b: "bound_pair (x, y, e)" using assms(3,4) by blast
  then have "ai_role (cap_artifact x) \<noteq> ai_role (cap_artifact y)" by (simp add: bound_pair_def)
  then have "ai_id (cap_artifact x) \<noteq> ai_id (cap_artifact y)" using i by (metis option.inject)
  moreover have "artifact_by_id m (ce_oracle_artifact_id e) = Some (cap_artifact x)"
    "artifact_by_id m (ce_candidate_artifact_id e) = Some (cap_artifact y)"
    using b i by (simp_all add: bound_pair_def)
  ultimately show ?thesis using b by (simp add: well_paired_def bound_pair_def)
qed

lemma comparator_bound_workload [simp]: "comparator_bound (e\<lparr>ce_workload_id := w\<rparr>) = comparator_bound e"
  by (simp add: comparator_bound_def cong: option.case_cong)

lemma matching_bound: "map_of canonical_comparator_ids t = Some (cid_id cid) \<Longrightarrow> map_of comparator_id_aliases (cid_id cid) = None \<Longrightarrow>
   bound_pair (matching cid t k n i j b)"
  by (simp add: matching_def bound_pair_def comparator_bound_def mk_result_def dict_get_def Let_def)

lemma sample_pairs_bound: "\<forall>p \<in> set sample_pairs. bound_pair p"
  unfolding sample_pairs_def
  by (simp add: matching_bound stdout_id_def stderr_id_def text_file_id_def exit_status_id_def
      invariant_comparator_id_def canonical_comparator_ids_def comparator_id_aliases_def)

lemma sample_pairs_ids: "distinct (pair_ids sample_pairs)"
  by (simp add: pair_ids_def sample_pairs_def matching_def Let_def)

lemma sample_certifiable_run: "certifiable sample_run_manifest"
  unfolding sample_run_manifest_def run_manifest_def certifiable_seal
  by (simp add: sample_manifest_fields certifiable_def usable_execution_def supported_types_def is_oracle_run_def
      is_candidate_run_def starts_with_def Let_def)

lemma sample_pairs_fields: "(x, y, e) \<in> set sample_pairs \<Longrightarrow>
  cap_execution_id x = ''oracle-1'' \<and> cap_execution_id y = ''candidate-1'' \<and> ce_run_id e = ''run-1''"
  by (auto simp: sample_pairs_def matching_def Let_def)

lemma sample_run_admissible: "admissible sample_run_manifest"
proof -
  let ?m = "sample_run_manifest"
  have f: "em_run_id ?m = ''run-1''" "em_workload_id ?m = ''w-1''" "em_artifacts ?m = pair_artifacts sample_pairs"
    "em_comparisons ?m = map (\<lambda>(_, _, e). e\<lparr>ce_workload_id := Some ''w-1''\<rparr>) sample_pairs"
    "em_oracle ?m = Some sample_oracle" "em_candidate ?m = Some (ri_candidate sample_inputs)"
    "ca_source_hash (ri_candidate sample_inputs) = si_hash (em_source ?m)"
    by (simp_all add: sample_run_manifest_def run_manifest_def seal_manifest_def sample_inputs_def
        pair_artifacts_def case_prod_beta comp_def)
  obtain x y where ex: "em_executions ?m = [x, y]" "ex_id x = ''oracle-1''" "ex_id y = ''candidate-1''"
    "is_oracle_run x" "\<not> is_candidate_run x" "is_candidate_run y" "\<not> is_oracle_run y" "ex_phase y = ''EXECUTE''"
    "\<not> exit_status_observed x" "\<not> exit_status_observed y"
    "admissible_execution ?m x" "admissible_execution ?m y"
    unfolding admissible_execution_def f
    by (simp add: sample_run_manifest_def run_manifest_def seal_manifest_def oracle_to_execution_evidence_def
        candidate_to_execution_evidence_def execution_evidence_of_def sample_oracle_run_def sample_candidate_run_def
        sample_oracle_result_def sample_result_def execution_result.defs exit_status_observed_def
        is_oracle_run_def is_candidate_run_def starts_with_def hash_or_empty_def)
  have seal: "em_sealed_hash ?m = Some (graph_hash ?m)"
    unfolding sample_run_manifest_def run_manifest_def by simp
  have art: "\<forall>a \<in> set (em_artifacts ?m). admissible_artifact ?m a"
  proof
    fix a assume "a \<in> set (em_artifacts ?m)"
    then obtain x y e where p: "(x, y, e) \<in> set sample_pairs" "a = to_evidence x \<or> a = to_evidence y"
      by (auto simp: f pair_artifacts_def)
    then have "bound_pair (x, y, e)" using sample_pairs_bound by blast
    then have "ai_id (ae_artifact a) \<in> {ce_oracle_artifact_id e, ce_candidate_artifact_id e}"
      using p(2) by (auto simp: bound_pair_def to_evidence_def)
    moreover have "e\<lparr>ce_workload_id := Some ''w-1''\<rparr> \<in> set (em_comparisons ?m)" using p(1) by (force simp: f)
    moreover have "ae_execution_id a \<in> {''oracle-1'', ''candidate-1''}"
      using p(2) sample_pairs_fields [OF p(1)] by (auto simp: to_evidence_def)
    ultimately show "admissible_artifact ?m a"
      unfolding admissible_artifact_def ex(1) using ex(2,3)
      by (intro conjI bexI [of _ "e\<lparr>ce_workload_id := Some ''w-1''\<rparr>"]) auto
  qed
  have cmp: "\<forall>c \<in> set (em_comparisons ?m). admissible_comparison ?m c"
  proof
    fix c assume "c \<in> set (em_comparisons ?m)"
    then obtain x y e where p: "(x, y, e) \<in> set sample_pairs" "c = e\<lparr>ce_workload_id := Some ''w-1''\<rparr>"
      by (auto simp: f)
    then have "bound_pair (x, y, e)" using sample_pairs_bound by blast
    then show "admissible_comparison ?m c"
      unfolding admissible_comparison_def f p(2)
      using well_paired_bound [OF f(3) sample_pairs_ids sample_pairs_bound p(1)] sample_pairs_fields [OF p(1)]
      by (simp add: bound_pair_def)
  qed
  obtain a b where "a \<in> set (em_artifacts ?m)" "ae_execution_id a = ''oracle-1''"
    "b \<in> set (em_artifacts ?m)" "ae_execution_id b = ''candidate-1''"
    by (simp add: f pair_artifacts_def sample_pairs_def matching_def to_evidence_def Let_def) force
  then have "captured_from is_oracle_run ?m" "captured_from is_candidate_run ?m"
    unfolding captured_from_def ex(1) using ex(2-7) by force+
  then show ?thesis
    unfolding admissible_def using f ex seal art cmp by auto
qed

lemma sample_run_verified:
  "\<exists>v. run_pipeline ''t2'' sample_inputs sample_oracle_run (Executed sample_candidate_run) = Inr (sample_run_manifest, v)
     \<and> vd_state v = VERIFIED"
  using admit_and_derive_verified [of "''t2''" "''t2''" sample_run_manifest] sample_run_admissible sample_certifiable_run
  by (auto simp: run_pipeline_def sample_run_evidence run_error_def)


subsection \<open>The properties of VERIFIED runs on the sample\<close>

lemma sample_registry_standard: "standard_registry (ri_registry sample_inputs)"
  using sample_standard_registry by (simp add: sample_inputs_def)

lemma verified_streams_agree_witness:
  "\<exists>candidate. Executed sample_candidate_run = Executed candidate \<and>
    agree_under (ri_declared sample_inputs) ''STDOUT'' (er_stdout sample_oracle_run) (er_stdout candidate) \<and>
    agree_under (ri_declared sample_inputs) ''STDERR'' (er_stderr sample_oracle_run) (er_stderr candidate) \<and>
    observed_exit sample_oracle_run = observed_exit candidate"
  using sample_run_verified verified_streams_agree [OF _ _ sample_registry_standard] by blast

lemma verified_files_agree_witness:
  "''log.txt'' \<notin> set (declared_paths (ri_declared sample_inputs)) \<and>
   ((\<exists>b. map_of (generated_files sample_oracle_run) ''log.txt'' = Some b \<and>
        map_of (generated_files sample_candidate_run) ''log.txt'' = Some b)
    \<or> same_keyed_records (ri_keyed sample_inputs) (generated_files sample_oracle_run)
        (generated_files sample_candidate_run) ''log.txt'')"
proof -
  have n: "''log.txt'' \<in> fst ` set (generated_files sample_oracle_run) \<union> fst ` set (generated_files sample_candidate_run)"
    by (simp add: sample_run_defs)
  have d: "''log.txt'' \<notin> set (declared_paths (ri_declared sample_inputs))"
    by (simp add: declared_paths_def sample_inputs_def plain_artifact_def is_truthy_def)
  obtain m v where r: "run_pipeline ''t2'' sample_inputs sample_oracle_run (Executed sample_candidate_run) = Inr (m, v)"
    "vd_state v = VERIFIED" using sample_run_verified by blast
  from verified_files_agree [OF r sample_registry_standard, of "''log.txt''"] n d show ?thesis by blast
qed

lemma verified_has_no_unobserved_effect_witness:
  "set (ri_effects sample_inputs) \<inter> fst ` set effect_channels = {}"
  using sample_run_verified verified_has_no_unobserved_effect by blast

lemma verified_invariants_hold_witness:
  "holds (ri_explain sample_inputs) (observation_of sample_oracle_run (ri_input_files sample_inputs)) sample_rule \<and>
   holds (ri_explain sample_inputs) (observation_of sample_candidate_run (ri_input_files sample_inputs)) sample_rule"
proof -
  have "sample_rule \<in> set (ri_invariants sample_inputs)" by (simp add: sample_inputs_def)
  then show ?thesis
    using sample_run_verified verified_invariants_hold [OF _ _ sample_registry_standard] by blast
qed

text \<open>An output path on the declaration of a stream hides the file of that name. The path is only
  meant for files, but it is not refused for STDOUT, and every declared path is left out of the comparison
  of undeclared files: the sample run is VERIFIED although the two programs wrote different \<open>out.dat\<close>.\<close>
theorem stream_output_path_hides_file:
  "mk_workload_artifact (hd (ri_declared sample_inputs)) = Inr (hd (ri_declared sample_inputs)) \<and>
   (\<exists>m v. run_pipeline ''t2'' sample_inputs sample_oracle_run (Executed sample_candidate_run) = Inr (m, v)
     \<and> vd_state v = VERIFIED) \<and>
   map_of (generated_files sample_oracle_run) ''out.dat'' = Some ''1'' \<and>
   map_of (generated_files sample_candidate_run) ''out.dat'' = Some ''2''"
proof (intro conjI)
  show "mk_workload_artifact (hd (ri_declared sample_inputs)) = Inr (hd (ri_declared sample_inputs))"
    by (simp add: mk_workload_artifact_def sample_inputs_def plain_artifact_def declared_types_def)
  show "\<exists>m v. run_pipeline ''t2'' sample_inputs sample_oracle_run (Executed sample_candidate_run) = Inr (m, v)
     \<and> vd_state v = VERIFIED"
    using sample_run_verified by blast
qed (simp_all add: sample_run_defs)

end
