(* ===== verification/Ingestion.thy ===== *)
theory Ingestion
  imports Numeric "HOL-Library.AList"
begin

text \<open>
  Ingestion of an uploaded archive (\<open>api/ingestion.py\<close> \<open>ingest_zip\<close>, \<open>api/limits.py\<close>): the limits, the
  checks of every entry before anything is written, and the extraction into a fresh workspace. What the
  \<open>zipfile\<close> module reads from the archive (the entries of its directory and the bytes of an entry, or its
  refusal) and the name the operating system gives the new workspace are arguments. File names are
  POSIX paths of 8-bit text. Durable workspaces are trees of files and directories by name.
\<close>

subsection \<open>Limits\<close>

text \<open>\<open>env_int_limit\<close>: a positive integer of the environment, or the default.\<close>

definition env_int_limit :: "string dict \<Rightarrow> string \<Rightarrow> nat \<Rightarrow> nat" where
  "env_int_limit env name fallback =
     (case map_of env name of
        None \<Rightarrow> fallback
      | Some raw \<Rightarrow>
          if strip raw = [] then fallback
          else (case int_of_text raw of
                  None \<Rightarrow> fallback
                | Some v \<Rightarrow> if 0 < v then nat v else fallback))"

record zip_limits =
  max_archive :: nat
  max_entries :: nat
  max_extracted :: nat
  max_ratio :: nat

definition zip_limits_of :: "string dict \<Rightarrow> zip_limits" where
  "zip_limits_of env =
     \<lparr>max_archive = env_int_limit env ''CONTROL_PLANE_MAX_ZIP_ARCHIVE_BYTES'' (50 * 1024 * 1024),
      max_entries = env_int_limit env ''CONTROL_PLANE_MAX_ZIP_ENTRIES'' 1000,
      max_extracted = env_int_limit env ''CONTROL_PLANE_MAX_TOTAL_EXTRACTED_BYTES'' (200 * 1024 * 1024),
      max_ratio = env_int_limit env ''CONTROL_PLANE_MAX_ZIP_COMPRESSION_RATIO'' 100\<rparr>"

subsection \<open>Names\<close>

text \<open>The alphabet of application ids; the end anchor also matches before a final line feed.\<close>

definition is_alnum :: "char \<Rightarrow> bool" where
  "is_alnum c = (let n = (of_char c :: nat) in
     48 \<le> n \<and> n \<le> 57 \<or> 65 \<le> n \<and> n \<le> 90 \<or> 97 \<le> n \<and> n \<le> 122)"

definition safe_id_text :: "string \<Rightarrow> bool" where
  "safe_id_text s \<longleftrightarrow>
     s \<noteq> [] \<and> is_alnum (hd s) \<and> length s \<le> 128
     \<and> list_all (\<lambda>c. is_alnum c \<or> c \<in> {CHR ''.'', CHR ''_'', CHR ''-''}) (tl s)"

definition safe_application_id :: "string \<Rightarrow> bool" where
  "safe_application_id s \<longleftrightarrow>
     safe_id_text s \<or> s \<noteq> [] \<and> last s = CHR 0x0A \<and> safe_id_text (butlast s)"

definition forward :: "string \<Rightarrow> string" where
  "forward name = map (\<lambda>c. if c = CHR 0x5C then CHR ''/'' else c) name"

definition is_letter :: "char \<Rightarrow> bool" where
  "is_letter c = (let n = (of_char c :: nat) in 65 \<le> n \<and> n \<le> 90 \<or> 97 \<le> n \<and> n \<le> 122)"

definition is_traversal :: "string \<Rightarrow> bool" where
  "is_traversal name \<longleftrightarrow>
     (let normalized = forward name in
      normalized = [] \<or> hd normalized = CHR ''/''
      \<or> (2 \<le> length normalized \<and> is_letter (hd normalized) \<and> normalized ! 1 = CHR '':'')
      \<or> ''..'' \<in> set (split_slash normalized))"

text \<open>\<open>str.casefold\<close> of 8-bit text. U+00B5 folds to a character outside it and is left as it is: no other
  8-bit character folds to that one.\<close>

definition casefold_char :: "char \<Rightarrow> string" where
  "casefold_char c =
     (let n = of_char c :: nat in
      if 65 \<le> n \<and> n \<le> 90 \<or> 192 \<le> n \<and> n \<le> 222 \<and> n \<noteq> 215 then [char_of (n + 32)]
      else if n = 223 then ''ss'' else [c])"

definition casefold :: "string \<Rightarrow> string" where
  "casefold s = concat (map casefold_char s)"

definition collision_key :: "string \<Rightarrow> string" where
  "collision_key name = casefold (forward name)"

subsection \<open>Archive entries\<close>

record zip_entry =
  ze_filename :: string
  ze_file_size :: nat
  ze_compress_size :: nat
  ze_external_attr :: nat

text \<open>The upper half of the attributes is the mode; its top four bits, octal 17, are 12 for a symbolic link.\<close>

definition is_symlink :: "zip_entry \<Rightarrow> bool" where
  "is_symlink info \<longleftrightarrow> take_bit 4 (drop_bit 12 (drop_bit 16 (ze_external_attr info))) = 10"

definition is_dir :: "zip_entry \<Rightarrow> bool" where
  "is_dir info \<longleftrightarrow> ze_filename info \<noteq> [] \<and> last (ze_filename info) = CHR ''/''"

datatype ingestion_error =
    UnsafeApplicationId
  | ArchiveTooLarge nat
  | TooManyEntries nat
  | UnsafeEntryPath string
  | SymlinkEntry string
  | DuplicateEntry string string
  | InvalidRatio string nat nat
  | RatioExceeded string nat
  | ExtractedTooLarge nat
  | EscapesWorkspace string
  | InvalidArchive
  | ExtractionFailed

text \<open>The checks of a file entry: its name and its declared expansion. The quotient is a float in the code;
  it decides like the product as long as the declared size is below \<open>2 ^ 53\<close>.\<close>

definition check_file_entry :: "nat \<Rightarrow> string dict \<Rightarrow> zip_entry \<Rightarrow> ingestion_error + string dict" where
  "check_file_entry ratio seen info =
     (let key = collision_key (ze_filename info) in
      case map_of seen key of
        Some prior \<Rightarrow> Inl (DuplicateEntry (ze_filename info) prior)
      | None \<Rightarrow>
          if 0 < ze_file_size info \<and> ze_compress_size info = 0
          then Inl (InvalidRatio (ze_filename info) (ze_file_size info) (ze_compress_size info))
          else if 0 < ze_file_size info \<and> ratio * ze_compress_size info < ze_file_size info
          then Inl (RatioExceeded (ze_filename info) ratio)
          else Inr ((key, ze_filename info) # seen))"

fun check_entries :: "zip_limits \<Rightarrow> nat \<Rightarrow> string dict \<Rightarrow> zip_entry list \<Rightarrow> ingestion_error + unit" where
  "check_entries lim so_far seen [] = Inr ()"
| "check_entries lim so_far seen (info # rest) =
     (if is_traversal (ze_filename info) then Inl (UnsafeEntryPath (ze_filename info))
      else if is_symlink info then Inl (SymlinkEntry (ze_filename info))
      else bind_res (if is_dir info then Inr seen else check_file_entry (max_ratio lim) seen info) (\<lambda>seen'.
        if max_extracted lim < so_far + ze_file_size info then Inl (ExtractedTooLarge (max_extracted lim))
        else check_entries lim (so_far + ze_file_size info) seen' rest))"

subsection \<open>Extraction\<close>

text \<open>A path is the list of its components below the root. \<open>Path.joinpath\<close> drops empty and \<open>.\<close> components
  and starts again at the root for an absolute name; \<open>resolve\<close> removes \<open>..\<close>.\<close>

definition join_path :: "path_parts \<Rightarrow> string \<Rightarrow> path_parts" where
  "join_path w name = (if starts_with ''/'' name then name_parts name else w @ name_parts name)"

definition resolve :: "path_parts \<Rightarrow> path_parts" where
  "resolve ps = foldl (\<lambda>acc p. if p = ''..'' then butlast acc else acc @ [p]) [] ps"

definition is_relative_to :: "path_parts \<Rightarrow> path_parts \<Rightarrow> bool" where
  "is_relative_to p w \<longleftrightarrow> take (length w) p = w"

text \<open>A file system: the contents of files and the directories, by resolved path. The root is a directory.\<close>

record file_tree =
  ft_files :: "(path_parts \<times> bytes) list"
  ft_dirs :: "path_parts list"

definition proper_prefixes :: "path_parts \<Rightarrow> path_parts list" where
  "proper_prefixes p = map (\<lambda>n. take n p) [0..<length p]"

definition has_file :: "file_tree \<Rightarrow> path_parts \<Rightarrow> bool" where
  "has_file t p \<longleftrightarrow> p \<in> fst ` set (ft_files t)"

definition has_dir :: "file_tree \<Rightarrow> path_parts \<Rightarrow> bool" where
  "has_dir t p \<longleftrightarrow> p = [] \<or> p \<in> set (ft_dirs t)"

text \<open>\<open>mkdir(parents=True, exist_ok=True)\<close>; a file in the way is an \<open>OSError\<close>.\<close>

definition make_dirs :: "path_parts \<Rightarrow> file_tree \<Rightarrow> ingestion_error + file_tree" where
  "make_dirs p t =
     (if \<exists>q \<in> set (p # proper_prefixes p). has_file t q then Inl ExtractionFailed
      else Inr (t\<lparr>ft_dirs := ft_dirs t @ filter (\<lambda>q. \<not> has_dir t q) (proper_prefixes p @ [p])\<rparr>))"

text \<open>\<open>open(target, "wb")\<close> and the copy: replaces a file that exists.\<close>

definition write_file :: "path_parts \<Rightarrow> bytes \<Rightarrow> file_tree \<Rightarrow> ingestion_error + file_tree" where
  "write_file p content t =
     (if has_dir t p then Inl ExtractionFailed
      else Inr (t\<lparr>ft_files := AList.update p content (ft_files t)\<rparr>))"

text \<open>What \<open>zipfile\<close> gives for an entry: a refusal to open it, or the bytes read until the end or until an
  exception. An exception is a \<open>BadZipFile\<close> or another one.\<close>

datatype read_failure = BadZip | OtherFailure

datatype entry_content = NotOpened read_failure | Opened bytes "read_failure option"

type_synonym entry_reader = "zip_entry \<Rightarrow> entry_content"

definition failure_of :: "read_failure \<Rightarrow> ingestion_error" where
  "failure_of f = (case f of BadZip \<Rightarrow> InvalidArchive | OtherFailure \<Rightarrow> ExtractionFailed)"

text \<open>A step that can fail returns the error, if any, and the tree it leaves either way.\<close>

type_synonym extraction = "ingestion_error option \<times> file_tree"

definition attempt :: "(ingestion_error + file_tree) \<Rightarrow> file_tree \<Rightarrow> (file_tree \<Rightarrow> extraction) \<Rightarrow> extraction" where
  "attempt r t next = (case r of Inl e \<Rightarrow> (Some e, t) | Inr t1 \<Rightarrow> next t1)"

definition copy_entry :: "entry_content \<Rightarrow> path_parts \<Rightarrow> file_tree \<Rightarrow> extraction" where
  "copy_entry content target t =
     (case content of
        NotOpened f \<Rightarrow> (Some (failure_of f), t)
      | Opened b f \<Rightarrow> attempt (write_file target b t) t (\<lambda>t1. (map_option failure_of f, t1)))"

definition extract_entry :: "entry_reader \<Rightarrow> path_parts \<Rightarrow> file_tree \<Rightarrow> zip_entry \<Rightarrow> extraction" where
  "extract_entry reader w t info =
     (let target = resolve (join_path w (ze_filename info)) in
      if \<not> is_relative_to target w then (Some (EscapesWorkspace (ze_filename info)), t)
      else if is_dir info then attempt (make_dirs target t) t (\<lambda>t1. (None, t1))
      else attempt (make_dirs (butlast target) t) t (copy_entry (reader info) target))"

fun extract_entries :: "entry_reader \<Rightarrow> path_parts \<Rightarrow> file_tree \<Rightarrow> zip_entry list \<Rightarrow> extraction" where
  "extract_entries reader w t [] = (None, t)"
| "extract_entries reader w t (info # rest) =
     (case extract_entry reader w t info of
        (Some e, t1) \<Rightarrow> (Some e, t1)
      | (None, t1) \<Rightarrow> extract_entries reader w t1 rest)"

subsection \<open>Ingestion\<close>

text \<open>The archive as \<open>zipfile\<close> sees it: its length, its entries or a refusal, and their contents.\<close>

record archive =
  ar_length :: nat
  ar_infolist :: "read_failure + zip_entry list"
  ar_reader :: entry_reader

definition unpack :: "zip_limits \<Rightarrow> archive \<Rightarrow> path_parts \<Rightarrow> file_tree \<Rightarrow> extraction" where
  "unpack lim a w t =
     (case ar_infolist a of
        Inl f \<Rightarrow> (Some (failure_of f), t)
      | Inr members \<Rightarrow>
          if max_entries lim < length members then (Some (TooManyEntries (max_entries lim)), t)
          else (case check_entries lim 0 [] members of
                  Inl e \<Rightarrow> (Some e, t)
                | Inr _ \<Rightarrow> extract_entries (ar_reader a) w t members))"

text \<open>\<open>shutil.rmtree(workspace)\<close>.\<close>

definition remove_tree :: "path_parts \<Rightarrow> file_tree \<Rightarrow> file_tree" where
  "remove_tree w t =
     t\<lparr>ft_files := filter (\<lambda>f. \<not> is_relative_to (fst f) w) (ft_files t),
       ft_dirs := filter (\<lambda>p. \<not> is_relative_to p w) (ft_dirs t)\<rparr>"

text \<open>\<open>w\<close> is the directory \<open>new_workspace\<close> makes; a rejected archive removes it again.\<close>

definition ingest_zip ::
  "zip_limits \<Rightarrow> string \<Rightarrow> archive \<Rightarrow> path_parts \<Rightarrow> file_tree \<Rightarrow> (ingestion_error + path_parts) \<times> file_tree" where
  "ingest_zip lim application_id a w t =
     (if \<not> safe_application_id application_id then (Inl UnsafeApplicationId, t)
      else if max_archive lim < ar_length a then (Inl (ArchiveTooLarge (max_archive lim)), t)
      else
        case unpack lim a w (t\<lparr>ft_dirs := ft_dirs t @ [w]\<rparr>) of
          (Some e, t1) \<Rightarrow> (Inl e, remove_tree w t1)
        | (None, t1) \<Rightarrow> (Inr w, t1))"

end
