(* ===== verification/IngestionFacts.thy ===== *)
theory IngestionFacts
  imports Ingestion
begin

text \<open>
  What ingestion guarantees: the limits bound what is extracted, nothing is written outside the workspace,
  the extracted files are the entries of the archive, and a rejected archive leaves the tree unchanged.
\<close>

subsection \<open>Accepted entries\<close>

definition file_entries :: "zip_entry list \<Rightarrow> zip_entry list" where
  "file_entries members = filter (\<lambda>e. \<not> is_dir e) members"

text \<open>What the checks let through.\<close>

definition acceptable :: "zip_limits \<Rightarrow> zip_entry \<Rightarrow> bool" where
  "acceptable lim e \<longleftrightarrow> \<not> is_traversal (ze_filename e) \<and> \<not> is_symlink e \<and>
     (\<not> is_dir e \<longrightarrow> ze_file_size e \<le> max_ratio lim * ze_compress_size e)"

lemma check_file_entry_Inr:
  "check_file_entry ratio seen info = Inr seen' \<Longrightarrow>
   collision_key (ze_filename info) \<notin> fst ` set seen \<and>
   seen' = (collision_key (ze_filename info), ze_filename info) # seen \<and>
   ze_file_size info \<le> ratio * ze_compress_size info"
  by (auto simp: check_file_entry_def Let_def map_of_eq_None_iff split: option.splits if_splits)

lemma check_entries_Inr:
  "check_entries lim so_far seen members = Inr () \<Longrightarrow> distinct (map fst seen) \<Longrightarrow>
   (\<forall>e \<in> set members. acceptable lim e) \<and>
   (members \<noteq> [] \<longrightarrow> so_far + sum_list (map ze_file_size members) \<le> max_extracted lim) \<and>
   distinct (map fst seen @ map (\<lambda>e. collision_key (ze_filename e)) (file_entries members))"
proof (induction lim so_far seen members rule: check_entries.induct)
  case (2 lim so_far seen info rest)
  show ?case
  proof (cases "is_dir info")
    case True
    then have "check_entries lim (so_far + ze_file_size info) seen rest = Inr ()"
      and "so_far + ze_file_size info \<le> max_extracted lim"
      and "acceptable lim info" using 2(2) by (auto simp: acceptable_def split: if_splits)
    then show ?thesis using 2(1) [of seen] 2(2,3) True by (cases rest) (auto simp: file_entries_def split: if_splits)
  next
    case False
    then obtain seen' where s: "check_file_entry (max_ratio lim) seen info = Inr seen'"
      and r: "check_entries lim (so_far + ze_file_size info) seen' rest = Inr ()"
      and b: "so_far + ze_file_size info \<le> max_extracted lim"
      and n: "\<not> is_traversal (ze_filename info)" "\<not> is_symlink info"
      using 2(2) by (auto simp: bind_res_eq_Inr split: if_splits)
    note c = check_file_entry_Inr [OF s]
    have "distinct (map fst seen')" using c 2(3) by simp
    with 2(1) [OF n, of seen'] r b False s have
      "(\<forall>e \<in> set rest. acceptable lim e)"
      "rest \<noteq> [] \<longrightarrow> so_far + ze_file_size info + sum_list (map ze_file_size rest) \<le> max_extracted lim"
      "distinct (map fst seen' @ map (\<lambda>e. collision_key (ze_filename e)) (file_entries rest))" by auto
    moreover have "acceptable lim info" using c n by (simp add: acceptable_def)
    moreover have "file_entries (info # rest) = info # file_entries rest" using False by (simp add: file_entries_def)
    ultimately show ?thesis using c b by (cases "rest = []") auto
  qed
qed (simp add: file_entries_def)

subsection \<open>Paths\<close>

lemma split_slash_Cons_ex: "\<exists>p ps. split_slash s = p # ps"
  by (cases s) (auto split: list.splits)

text \<open>A component without a backslash is also a component of the name with forward slashes.\<close>

lemma split_forward:
  assumes "split_slash s = h # t" "split_slash (forward s) = h' # t'"
  shows "(CHR 0x5C \<notin> set h \<longrightarrow> h' = h) \<and> (\<forall>p \<in> set t. CHR 0x5C \<notin> set p \<longrightarrow> p \<in> set t')"
  using assms
proof (induction s arbitrary: h t h' t')
  case (Cons c s)
  obtain g u where g: "split_slash s = g # u" using split_slash_Cons_ex by blast
  obtain g' u' where g': "split_slash (forward s) = g' # u'" using split_slash_Cons_ex by blast
  note IH = Cons.IH [OF g g']
  have f: "forward (c # s) = (if c = CHR 0x5C then CHR ''/'' else c) # forward s" by (simp add: forward_def)
  consider "c = CHR ''/''" | "c = CHR 0x5C" | "c \<noteq> CHR ''/''" "c \<noteq> CHR 0x5C" by blast
  then show ?case
  proof cases
    case 1
    then have "h = []" "t = g # u" "h' = []" "t' = g' # u'" using Cons.prems g g' unfolding f by auto
    then show ?thesis using IH by auto
  next
    case 2
    then have "h = c # g" "t = u" "h' = []" "t' = g' # u'" using Cons.prems g g' unfolding f by auto
    then show ?thesis using IH 2 by auto
  next
    case 3
    then have "h = c # g" "t = u" "h' = c # g'" "t' = u'" using Cons.prems g g' unfolding f by auto
    then show ?thesis using IH by auto
  qed
qed (simp add: forward_def)

lemma no_parent_component: "\<not> is_traversal name \<Longrightarrow> ''..'' \<notin> set (split_slash name)"
proof -
  assume "\<not> is_traversal name"
  then have n: "''..'' \<notin> set (split_slash (forward name))" by (simp add: is_traversal_def Let_def)
  obtain h t where h: "split_slash name = h # t" using split_slash_Cons_ex by blast
  obtain h' t' where h': "split_slash (forward name) = h' # t'" using split_slash_Cons_ex by blast
  from split_forward [OF h h'] n h h' show ?thesis by auto
qed

lemma resolve_plain: "''..'' \<notin> set ps \<Longrightarrow> resolve ps = ps"
proof -
  have "''..'' \<notin> set ps \<Longrightarrow> foldl (\<lambda>acc p. if p = ''..'' then butlast acc else acc @ [p]) acc ps = acc @ ps" for acc
    by (induction ps arbitrary: acc) auto
  then show "''..'' \<notin> set ps \<Longrightarrow> resolve ps = ps" by (simp add: resolve_def)
qed

lemma relative_iff: "is_relative_to p w \<longleftrightarrow> (\<exists>q. p = w @ q)"
  unfolding is_relative_to_def by (metis append_eq_conv_conj append_take_drop_id)

text \<open>The target of an accepted entry lies below the workspace.\<close>

lemma accepted_target:
  assumes "\<not> is_traversal name" "''..'' \<notin> set w"
  shows "resolve (join_path w name) = w @ name_parts name"
proof -
  have "\<not> starts_with ''/'' name"
    using assms(1) by (cases name) (auto simp: is_traversal_def forward_def starts_with_def Let_def)
  moreover have "''..'' \<notin> set (w @ name_parts name)"
    using no_parent_component [OF assms(1)] assms(2) by (auto simp: name_parts_def)
  ultimately show ?thesis by (simp add: join_path_def resolve_plain)
qed

subsection \<open>Extraction\<close>

text \<open>The workspace and its ancestors are directories.\<close>

definition anchored :: "path_parts \<Rightarrow> file_tree \<Rightarrow> bool" where
  "anchored w t \<longleftrightarrow> (\<forall>q \<in> set (w # proper_prefixes w). has_dir t q)"

text \<open>What a successful extraction writes, in the order of the archive.\<close>

definition entry_bytes :: "entry_reader \<Rightarrow> zip_entry \<Rightarrow> bytes" where
  "entry_bytes reader e = (case reader e of Opened b _ \<Rightarrow> b | NotOpened _ \<Rightarrow> [])"

definition extracted_files :: "entry_reader \<Rightarrow> path_parts \<Rightarrow> zip_entry list \<Rightarrow> (path_parts \<times> bytes) list" where
  "extracted_files reader w members =
     map (\<lambda>e. (w @ name_parts (ze_filename e), entry_bytes reader e)) (file_entries members)"

definition overwrite :: "(path_parts \<times> bytes) list \<Rightarrow> (path_parts \<times> bytes) list \<Rightarrow> (path_parts \<times> bytes) list" where
  "overwrite new old = fold (\<lambda>f. AList.update (fst f) (snd f)) new old"

lemma make_dirs_Inr:
  assumes "make_dirs (w @ q) t = Inr t1" "anchored w t"
  shows "anchored w t1 \<and> remove_tree w t1 = remove_tree w t \<and> ft_files t1 = ft_files t"
proof -
  have t1: "t1 = t\<lparr>ft_dirs := ft_dirs t @ filter (\<lambda>q. \<not> has_dir t q) (proper_prefixes (w @ q) @ [w @ q])\<rparr>"
    using assms(1) by (simp add: make_dirs_def split: if_splits)
  have "is_relative_to p w" if "p \<in> set (proper_prefixes (w @ q) @ [w @ q])" "\<not> has_dir t p" for p
  proof -
    from that(1) consider "p = w @ q" | n where "n < length (w @ q)" "p = take n (w @ q)"
      by (auto simp: proper_prefixes_def)
    then show ?thesis
    proof cases
      case (2 n)
      show ?thesis
      proof (cases "n < length w")
        case True
        then have "p \<in> set (proper_prefixes w)" using 2 by (auto simp: proper_prefixes_def)
        then show ?thesis using assms(2) that(2) by (simp add: anchored_def)
      qed (use 2 in \<open>simp add: is_relative_to_def\<close>)
    qed (simp add: is_relative_to_def)
  qed
  then have "filter (\<lambda>p. \<not> is_relative_to p w) (filter (\<lambda>q. \<not> has_dir t q) (proper_prefixes (w @ q) @ [w @ q])) = []"
    by (simp only: filter_empty_conv) auto
  then show ?thesis using assms(2) unfolding t1 by (auto simp: anchored_def has_dir_def remove_tree_def)
qed

lemma filter_update:
  "\<not> P k \<Longrightarrow> filter (\<lambda>f. P (fst f)) (AList.update k v al) = filter (\<lambda>f. P (fst f)) al"
  by (induction al) auto

lemma write_file_Inr:
  assumes "write_file (w @ q) content t = Inr t1" "anchored w t"
  shows "anchored w t1 \<and> remove_tree w t1 = remove_tree w t \<and> ft_files t1 = AList.update (w @ q) content (ft_files t)"
proof -
  have t1: "t1 = t\<lparr>ft_files := AList.update (w @ q) content (ft_files t)\<rparr>"
    using assms(1) by (simp add: write_file_def split: if_splits)
  have "filter (\<lambda>f. \<not> is_relative_to (fst f) w) (AList.update (w @ q) content (ft_files t))
      = filter (\<lambda>f. \<not> is_relative_to (fst f) w) (ft_files t)"
    by (rule filter_update [where P = "\<lambda>p. \<not> is_relative_to p w"]) (simp add: is_relative_to_def)
  then show ?thesis using assms(2) unfolding t1 by (simp add: anchored_def has_dir_def remove_tree_def)
qed

text \<open>A file entry has a name that does not end in a slash, so its directory is still below the workspace.\<close>

lemma extract_entry_step:
  assumes "\<not> is_traversal (ze_filename e)" "''..'' \<notin> set w" "anchored w t" "w \<noteq> []"
    "extract_entry reader w t e = (r, t1)"
  shows "anchored w t1 \<and> remove_tree w t1 = remove_tree w t \<and>
    (r = None \<longrightarrow> ft_files t1 = overwrite (extracted_files reader w [e]) (ft_files t))"
proof -
  define q where "q = name_parts (ze_filename e)"
  have target: "resolve (join_path w (ze_filename e)) = w @ q"
    using accepted_target [OF assms(1,2)] by (simp add: q_def)
  have below: "is_relative_to (w @ q) w" by (simp add: is_relative_to_def)
  show ?thesis
  proof (cases "is_dir e")
    case True
    then have "extract_entry reader w t e = attempt (make_dirs (w @ q) t) t (\<lambda>t1. (None, t1))"
      using below by (simp add: extract_entry_def target Let_def)
    then show ?thesis
      using assms(3,5) make_dirs_Inr [OF _ assms(3)] True
      by (auto simp: attempt_def extracted_files_def file_entries_def overwrite_def split: sum.splits)
  next
    case False
    then have x: "extract_entry reader w t e = attempt (make_dirs (butlast (w @ q)) t) t (copy_entry (reader e) (w @ q))"
      using below by (simp add: extract_entry_def target Let_def)
    show ?thesis
    proof (cases "make_dirs (butlast (w @ q)) t")
      case (Inl err)
      then show ?thesis using assms(3,5) x by (auto simp: attempt_def)
    next
      case (Inr t2)
      have t2: "anchored w t2 \<and> remove_tree w t2 = remove_tree w t \<and> ft_files t2 = ft_files t"
      proof (cases "q = []")
        case True
        have "set (proper_prefixes w) \<supseteq> set (butlast w # proper_prefixes (butlast w))"
          using assms(4) by (auto simp: proper_prefixes_def butlast_conv_take take_take intro!: image_eqI)
        then have "\<forall>p \<in> set (proper_prefixes (butlast w) @ [butlast w]). has_dir t p"
          using assms(3) by (auto simp: anchored_def)
        then have "filter (\<lambda>q. \<not> has_dir t q) (proper_prefixes (butlast w) @ [butlast w]) = []"
          by (simp only: filter_empty_conv) blast
        then have "t2 = t" using Inr True by (simp add: make_dirs_def split: if_splits)
        then show ?thesis using assms(3) by simp
      next
        case False
        then show ?thesis using make_dirs_Inr [OF _ assms(3), of "butlast q"] Inr by (simp add: butlast_append)
      qed
      then show ?thesis
        using assms(5) x Inr False write_file_Inr [of w q _ t2]
        by (auto simp: attempt_def copy_entry_def extracted_files_def file_entries_def overwrite_def entry_bytes_def q_def
              split: sum.splits entry_content.splits)
    qed
  qed
qed

lemma overwrite_append: "overwrite (xs @ ys) al = overwrite ys (overwrite xs al)"
  by (simp add: overwrite_def)

lemma extract_entries_step:
  assumes "\<forall>e \<in> set members. \<not> is_traversal (ze_filename e)" "''..'' \<notin> set w" "anchored w t" "w \<noteq> []"
    "extract_entries reader w t members = (r, t1)"
  shows "remove_tree w t1 = remove_tree w t \<and>
    (r = None \<longrightarrow> ft_files t1 = overwrite (extracted_files reader w members) (ft_files t))"
  using assms
proof (induction members arbitrary: t)
  case Nil
  then show ?case by (simp add: extracted_files_def file_entries_def overwrite_def)
next
  case (Cons e rest)
  obtain r2 t2 where e: "extract_entry reader w t e = (r2, t2)" by fastforce
  note step = extract_entry_step [OF _ Cons.prems(2,3,4) e]
  have split: "extracted_files reader w (e # rest) = extracted_files reader w [e] @ extracted_files reader w rest"
    by (simp add: extracted_files_def file_entries_def)
  show ?case
  proof (cases r2)
    case None
    then show ?thesis using Cons.IH [of t2] Cons.prems e step by (simp add: split overwrite_append)
  next
    case (Some err)
    then show ?thesis using Cons.prems e step by auto
  qed
qed

subsection \<open>The tree an extraction leaves\<close>

definition stored_bytes :: "path_parts \<Rightarrow> (path_parts \<times> bytes) list \<Rightarrow> nat" where
  "stored_bytes w files = sum_list (map (\<lambda>f. length (snd f)) (filter (\<lambda>f. is_relative_to (fst f) w) files))"

lemma stored_bytes_update: "stored_bytes w (AList.update p b al) \<le> stored_bytes w al + length b"
  by (induction al) (auto simp: stored_bytes_def)

lemma stored_bytes_overwrite:
  "stored_bytes w (overwrite new al) \<le> stored_bytes w al + sum_list (map (\<lambda>f. length (snd f)) new)"
proof (induction new arbitrary: al)
  case (Cons f new)
  have "stored_bytes w (overwrite (f # new) al) = stored_bytes w (overwrite new (AList.update (fst f) (snd f) al))"
    by (simp add: overwrite_def)
  then show ?case using Cons [of "AList.update (fst f) (snd f) al"] stored_bytes_update [of w "fst f" "snd f" al] by simp
qed (simp add: overwrite_def)

lemma map_of_overwrite: "map_of (overwrite new al) = map_of al ++ map_of (rev new)"
proof (induction new arbitrary: al)
  case (Cons f new)
  have "overwrite (f # new) al = overwrite new (AList.update (fst f) (snd f) al)" by (simp add: overwrite_def)
  then show ?case using Cons [of "AList.update (fst f) (snd f) al"]
    by (simp add: update_conv' map_add_def fun_eq_iff split: option.splits)
qed (simp add: overwrite_def)

text \<open>A new workspace: its ancestors are directories and nothing of the tree is inside it.\<close>

definition fresh_workspace :: "path_parts \<Rightarrow> file_tree \<Rightarrow> bool" where
  "fresh_workspace w t \<longleftrightarrow>
     w \<noteq> [] \<and> ''..'' \<notin> set w \<and> list_all (has_dir t) (proper_prefixes w)
     \<and> list_all (\<lambda>p. \<not> is_relative_to p w) (map fst (ft_files t) @ ft_dirs t)"

lemma fresh_start:
  assumes "fresh_workspace w t"
  shows "anchored w (t\<lparr>ft_dirs := ft_dirs t @ [w]\<rparr>)" "remove_tree w (t\<lparr>ft_dirs := ft_dirs t @ [w]\<rparr>) = t"
    "stored_bytes w (ft_files t) = 0"
proof -
  have f: "\<forall>f \<in> set (ft_files t). \<not> is_relative_to (fst f) w" and d: "\<forall>p \<in> set (ft_dirs t). \<not> is_relative_to p w"
    using assms by (auto simp: fresh_workspace_def list_all_iff)
  show "anchored w (t\<lparr>ft_dirs := ft_dirs t @ [w]\<rparr>)"
    using assms by (auto simp: fresh_workspace_def list_all_iff anchored_def has_dir_def)
  show "remove_tree w (t\<lparr>ft_dirs := ft_dirs t @ [w]\<rparr>) = t"
    using f d by (simp add: remove_tree_def is_relative_to_def filter_True)
  show "stored_bytes w (ft_files t) = 0" using f by (simp add: stored_bytes_def filter_False)
qed

text \<open>The two ends of an ingestion.\<close>

lemma ingest_zip_run:
  assumes "ingest_zip lim i a w t = (r, t1)" "fresh_workspace w t"
  shows "(case r of Inl e \<Rightarrow> t1 = t | Inr p \<Rightarrow> p = w \<and> remove_tree w t1 = t)"
proof -
  define t0 where "t0 = t\<lparr>ft_dirs := ft_dirs t @ [w]\<rparr>"
  note start = fresh_start [OF assms(2), folded t0_def]
  have w: "w \<noteq> []" "''..'' \<notin> set w" using assms(2) by (simp_all add: fresh_workspace_def)
  obtain o1 t2 where u: "unpack lim a w t0 = (o1, t2)" by fastforce
  have "remove_tree w t2 = t"
  proof (cases "\<exists>members. ar_infolist a = Inr members \<and> check_entries lim 0 [] members = Inr () \<and>
      extract_entries (ar_reader a) w t0 members = (o1, t2)")
    case True
    then obtain members where c: "check_entries lim 0 [] members = Inr ()"
      and x: "extract_entries (ar_reader a) w t0 members = (o1, t2)" by blast
    have "\<forall>e \<in> set members. \<not> is_traversal (ze_filename e)"
      using check_entries_Inr [OF c] by (auto simp: acceptable_def)
    then show ?thesis using extract_entries_step [OF _ w(2) start(1) w(1) x] start(2) by simp
  next
    case False
    then have "t2 = t0" using u by (auto simp: unpack_def split: sum.splits if_splits)
    then show ?thesis using start(2) by simp
  qed
  then show ?thesis using assms(1) u by (auto simp: ingest_zip_def t0_def split: if_splits option.splits)
qed

lemma ingest_zip_accepted:
  assumes "ingest_zip lim i a w t = (Inr p, t1)" "fresh_workspace w t"
  obtains members where "ar_infolist a = Inr members" "ar_length a \<le> max_archive lim" "length members \<le> max_entries lim"
    "check_entries lim 0 [] members = Inr ()"
    "ft_files t1 = overwrite (extracted_files (ar_reader a) w members) (ft_files t)"
proof -
  define t0 where "t0 = t\<lparr>ft_dirs := ft_dirs t @ [w]\<rparr>"
  note start = fresh_start [OF assms(2), folded t0_def]
  have w: "w \<noteq> []" "''..'' \<notin> set w" using assms(2) by (simp_all add: fresh_workspace_def)
  have "unpack lim a w t0 = (None, t1)" and len: "ar_length a \<le> max_archive lim"
    using assms(1) by (auto simp: ingest_zip_def t0_def split: if_splits prod.splits option.splits)
  then obtain members where m: "ar_infolist a = Inr members" "length members \<le> max_entries lim"
    and c: "check_entries lim 0 [] members = Inr ()"
    and x: "extract_entries (ar_reader a) w t0 members = (None, t1)"
    by (auto simp: unpack_def split: sum.splits if_splits)
  have "\<forall>e \<in> set members. \<not> is_traversal (ze_filename e)"
    using check_entries_Inr [OF c] by (auto simp: acceptable_def)
  then have "ft_files t1 = overwrite (extracted_files (ar_reader a) w members) (ft_files t0)"
    using extract_entries_step [OF _ w(2) start(1) w(1) x] by simp
  with m c len that show thesis by (simp add: t0_def)
qed

subsection \<open>Guarantees\<close>

text \<open>C18: An accepted archive is within every limit: its own length, its number of entries, the declared
  expansion of each file entry, and - when the reader never returns more than the declared size of an entry,
  which is what \<open>zipfile\<close> does - the bytes it leaves in the new workspace.\<close>
theorem ingest_bounds:
  assumes "fresh_workspace w t"
    and "\<forall>e. length (entry_bytes (ar_reader a) e) \<le> ze_file_size e"
    and "ingest_zip lim i a w t = (Inr p, t1)"
  shows "ar_length a \<le> max_archive lim \<and>
    (\<exists>members. ar_infolist a = Inr members \<and> length members \<le> max_entries lim \<and>
       (\<forall>e \<in> set (file_entries members). ze_file_size e \<le> max_ratio lim * ze_compress_size e)) \<and>
    stored_bytes w (ft_files t1) \<le> max_extracted lim"
proof -
  from assms(3,1) obtain members where m: "ar_infolist a = Inr members" "ar_length a \<le> max_archive lim"
    "length members \<le> max_entries lim" and c: "check_entries lim 0 [] members = Inr ()"
    and f: "ft_files t1 = overwrite (extracted_files (ar_reader a) w members) (ft_files t)"
    by (rule ingest_zip_accepted)
  note ok = check_entries_Inr [OF c]
  have "sum_list (map (\<lambda>f. length (snd f)) (extracted_files (ar_reader a) w members)) \<le> sum_list (map ze_file_size members)"
    using assms(2) by (induction members) (auto simp: extracted_files_def file_entries_def intro: add_mono trans_le_add2)
  also have "\<dots> \<le> max_extracted lim" using ok by (cases members) auto
  finally have "stored_bytes w (ft_files t1) \<le> max_extracted lim"
    using stored_bytes_overwrite [of w "extracted_files (ar_reader a) w members" "ft_files t"] fresh_start(3) [OF assms(1)]
    unfolding f by simp
  moreover have "\<forall>e \<in> set (file_entries members). ze_file_size e \<le> max_ratio lim * ze_compress_size e"
    using ok by (auto simp: acceptable_def file_entries_def)
  ultimately show ?thesis using m by blast
qed

text \<open>C17: Ingestion is confined to its workspace and all or nothing: a rejected archive, wherever it failed, leaves
  the whole tree as it was; an accepted one returns the workspace, and the tree without it is the old tree.\<close>
theorem ingest_confined:
  assumes "fresh_workspace w t"
  shows "case ingest_zip lim i a w t of
      (Inl e, t1) \<Rightarrow> t1 = t
    | (Inr p, t1) \<Rightarrow> p = w \<and> remove_tree w t1 = t"
  using ingest_zip_run [OF _ assms, of lim i a] by (auto split: prod.split sum.split)

text \<open>C25: The files of an accepted archive are its file entries: every path below the workspace holds the bytes of
  the last entry for it, every other file is untouched, and no two entries have names that agree up to the
  separator and the letter case.\<close>
theorem ingest_extracts:
  assumes "fresh_workspace w t"
    and "ingest_zip lim i a w t = (Inr p, t1)"
  shows "\<exists>members. ar_infolist a = Inr members \<and>
    map_of (ft_files t1) = map_of (ft_files t) ++ map_of (rev (extracted_files (ar_reader a) w members)) \<and>
    distinct (map (\<lambda>e. collision_key (ze_filename e)) (file_entries members))"
proof -
  from assms(2,1) obtain members where m: "ar_infolist a = Inr members"
    and c: "check_entries lim 0 [] members = Inr ()"
    and f: "ft_files t1 = overwrite (extracted_files (ar_reader a) w members) (ft_files t)"
    by (rule ingest_zip_accepted)
  from check_entries_Inr [OF c] have "distinct (map (\<lambda>e. collision_key (ze_filename e)) (file_entries members))" by simp
  then show ?thesis using m f by (simp add: map_of_overwrite)
qed

subsection \<open>Samples\<close>

definition sample_limits :: zip_limits where
  "sample_limits = \<lparr>max_archive = 1000, max_entries = 3, max_extracted = 10, max_ratio = 4\<rparr>"

definition sample_entry :: "string \<Rightarrow> nat \<Rightarrow> nat \<Rightarrow> zip_entry" where
  "sample_entry name declared packed =
     \<lparr>ze_filename = name, ze_file_size = declared, ze_compress_size = packed, ze_external_attr = 0\<rparr>"

definition sample_reader :: entry_reader where
  "sample_reader e = Opened (replicate (ze_file_size e) CHR ''A'') None"

definition sample_archive :: "zip_entry list \<Rightarrow> archive" where
  "sample_archive members = \<lparr>ar_length = 500, ar_infolist = Inr members, ar_reader = sample_reader\<rparr>"

definition sample_workspace :: path_parts where
  "sample_workspace = [''d'', ''w'']"

definition sample_tree :: file_tree where
  "sample_tree = \<lparr>ft_files = [([''d'', ''x''], ''1'')], ft_dirs = [[''d'']]\<rparr>"

lemmas sample_defs = sample_limits_def sample_entry_def sample_reader_def sample_archive_def sample_workspace_def sample_tree_def

lemma sample_fresh: "fresh_workspace sample_workspace sample_tree"
  by code_simp

definition sample_members :: "zip_entry list" where
  "sample_members = [sample_entry ''s/'' 0 0, sample_entry ''s/A.cbl'' 3 1, sample_entry ''b.cpy'' 2 2]"

definition sample_extraction :: file_tree where
  "sample_extraction = \<lparr>ft_files = [([''d'', ''x''], ''1''), ([''d'', ''w'', ''s'', ''A.cbl''], ''AAA''), ([''d'', ''w'', ''b.cpy''], ''AA'')],
     ft_dirs = [[''d''], [''d'', ''w''], [''d'', ''w'', ''s'']]\<rparr>"

lemma sample_not_symlink: "\<not> is_symlink (sample_entry n k j)"
  by (simp add: is_symlink_def sample_entry_def)

lemma sample_entry_sel: "ze_filename (sample_entry n k j) = n" "ze_file_size (sample_entry n k j) = k"
  "ze_compress_size (sample_entry n k j) = j" "is_dir (sample_entry n k j) = (n \<noteq> [] \<and> last n = CHR ''/'')"
  by (simp_all add: sample_entry_def is_dir_def)

lemma sample_names:
  "\<not> is_traversal ''s/''" "\<not> is_traversal ''s/A.cbl''" "\<not> is_traversal ''b.cpy''" "\<not> is_traversal ''a.cbl''"
  "\<not> is_traversal ''A.CBL''" "\<not> is_traversal ''s/a.cbl''" "\<not> is_traversal ''s//a.cbl''"
  "collision_key ''s/A.cbl'' = ''s/a.cbl''" "collision_key ''b.cpy'' = ''b.cpy''" "collision_key ''a.cbl'' = ''a.cbl''"
  "collision_key ''A.CBL'' = ''a.cbl''" "collision_key ''s/a.cbl'' = ''s/a.cbl''" "collision_key ''s//a.cbl'' = ''s//a.cbl''"
  "safe_application_id ''APP1''"
  by code_simp+

text \<open>Evaluation of the checks of a sample archive.\<close>

lemmas sample_checks = sample_not_symlink sample_entry_sel sample_names check_file_entry_def Let_def sample_limits_def bind_res_def

lemma sample_ingest_steps:
  assumes "check_entries sample_limits 0 [] members = Inr ()" "length members \<le> 3"
    and "extract_entries sample_reader sample_workspace (sample_tree\<lparr>ft_dirs := ft_dirs sample_tree @ [sample_workspace]\<rparr>) members
      = (None, t1)"
  shows "ingest_zip sample_limits ''APP1'' (sample_archive members) sample_workspace sample_tree = (Inr sample_workspace, t1)"
  using assms by (simp add: ingest_zip_def unpack_def sample_archive_def sample_limits_def sample_names)

lemma sample_ingest:
  "ingest_zip sample_limits ''APP1'' (sample_archive sample_members) sample_workspace sample_tree
     = (Inr sample_workspace, sample_extraction)"
  by (rule sample_ingest_steps, simp add: sample_members_def sample_checks, simp add: sample_members_def, code_simp)

lemma sample_reader_bounded: "\<forall>e. length (entry_bytes (ar_reader (sample_archive members)) e) \<le> ze_file_size e"
  by (simp add: entry_bytes_def sample_archive_def sample_reader_def)

text \<open>An accepted archive within the limits.\<close>
theorem ingest_bounds_witness:
  "stored_bytes sample_workspace (ft_files sample_extraction) = 5 \<and> stored_bytes sample_workspace (ft_files sample_extraction) \<le> max_extracted sample_limits"
proof
  show "stored_bytes sample_workspace (ft_files sample_extraction) = 5" by code_simp
  show "stored_bytes sample_workspace (ft_files sample_extraction) \<le> max_extracted sample_limits"
    using ingest_bounds [OF sample_fresh sample_reader_bounded sample_ingest] by simp
qed

text \<open>A repeated name fails after the checks of a first entry; the tree is the one before.\<close>
theorem ingest_confined_witness:
  "\<exists>e. ingest_zip sample_limits ''APP1'' (sample_archive [sample_entry ''a.cbl'' 2 1, sample_entry ''A.CBL'' 2 1])
     sample_workspace sample_tree = (Inl e, sample_tree)"
proof -
  have "fst (ingest_zip sample_limits ''APP1'' (sample_archive [sample_entry ''a.cbl'' 2 1, sample_entry ''A.CBL'' 2 1])
     sample_workspace sample_tree) = Inl (DuplicateEntry ''A.CBL'' ''a.cbl'')"
    by (simp add: ingest_zip_def unpack_def sample_archive_def sample_checks)
  with ingest_confined [OF sample_fresh, of sample_limits "''APP1''" "sample_archive [sample_entry ''a.cbl'' 2 1, sample_entry ''A.CBL'' 2 1]"]
  show ?thesis by (auto split: prod.splits)
qed

text \<open>Both sources of the sample archive are in the workspace.\<close>
theorem ingest_extracts_witness:
  "map_of (ft_files sample_extraction) [''d'', ''w'', ''s'', ''A.cbl''] = Some ''AAA'' \<and>
   map_of (ft_files sample_extraction) [''d'', ''x''] = Some ''1''"
proof -
  have m: "ar_infolist (sample_archive sample_members) = Inr sample_members" by (simp add: sample_archive_def)
  have "map_of (ft_files sample_extraction) = map_of (ft_files sample_tree) ++
      map_of (rev (extracted_files (ar_reader (sample_archive sample_members)) sample_workspace sample_members))"
    using ingest_extracts [OF sample_fresh sample_ingest] m by auto
  moreover have "(map_of (ft_files sample_tree) ++
      map_of (rev (extracted_files (ar_reader (sample_archive sample_members)) sample_workspace sample_members)))
      [''d'', ''w'', ''s'', ''A.cbl''] = Some ''AAA''"
    "(map_of (ft_files sample_tree) ++
      map_of (rev (extracted_files (ar_reader (sample_archive sample_members)) sample_workspace sample_members)))
      [''d'', ''x''] = Some ''1''" by code_simp+
  ultimately show ?thesis by simp
qed

text \<open>Two spellings of one path pass the collision check, and the second entry replaces the first.\<close>

definition respelled_members :: "zip_entry list" where
  "respelled_members = [sample_entry ''s/a.cbl'' 1 1, sample_entry ''s//a.cbl'' 2 1]"

lemma respelled_names_overwrite:
  "\<exists>t1. ingest_zip sample_limits ''APP1'' (sample_archive respelled_members) sample_workspace sample_tree
     = (Inr sample_workspace, t1) \<and> map_of (ft_files t1) [''d'', ''w'', ''s'', ''a.cbl''] = Some ''AA''"
proof -
  define x where "x = extract_entries sample_reader sample_workspace
    (sample_tree\<lparr>ft_dirs := ft_dirs sample_tree @ [sample_workspace]\<rparr>) respelled_members"
  have "fst x = None" "map_of (ft_files (snd x)) [''d'', ''w'', ''s'', ''a.cbl''] = Some ''AA''"
    unfolding x_def by code_simp+
  moreover have "check_entries sample_limits 0 [] respelled_members = Inr ()"
    by (simp add: respelled_members_def sample_checks)
  ultimately show ?thesis
    using sample_ingest_steps [of respelled_members "snd x"] by (cases x) (simp add: x_def respelled_members_def)
qed

text \<open>The id pattern ends in \<open>$\<close>, which also matches before a final line feed.\<close>

lemma line_feed_id_is_safe: "safe_application_id (''APP1'' @ [CHR 0x0A])"
  by code_simp

end
