(* ===== verification/Workload.thy ===== *)
theory Workload
  imports Pipeline Ingestion ApiErrors
begin

text \<open>
  Workload declarations (\<open>engine/workload.py\<close>) and the certification contract of a run
  (\<open>api/workload_contract.py\<close>). A declaration names the artifacts a run compares, its inputs and its business
  invariants; the contract of a run is the declaration of a trusted fixture or the explicit default. What the
  repository's fixture directory holds (which fixtures have a \<open>workload.py\<close>, what importing it defines, what
  calling a factory does, the source files) is the argument \<open>fx\<close>. An exception's type name and text are
  strings of that argument too.
\<close>

subsection \<open>Declarations\<close>

record workload_input =
  wi_logical_name :: string
  wi_container_path :: string
  wi_source_path :: string

definition mk_workload_input :: "workload_input \<Rightarrow> py_error + workload_input" where
  "mk_workload_input i =
     (if wi_logical_name i = [] then Inl (ValueError ''logical_name cannot be empty'')
      else if wi_container_path i = [] then Inl (ValueError ''container_path cannot be empty'')
      else if wi_source_path i = [] then Inl (ValueError ''source_path cannot be empty'')
      else Inr i)"

record workload_definition =
  wd_id :: string
  wd_description :: string
  wd_artifacts :: "workload_artifact list"
  wd_inputs :: "workload_input list"
  wd_invariants :: "business_invariant list"

definition reject_duplicates :: "string \<Rightarrow> string \<Rightarrow> string list \<Rightarrow> py_error + unit" where
  "reject_duplicates before behind names =
     (let ds = duplicates names in
      if ds \<noteq> [] then Inl (ValueError (before @ show_str_list ds @ behind)) else Inr ())"

definition mk_workload_definition :: "workload_definition \<Rightarrow> py_error + workload_definition" where
  "mk_workload_definition d =
     (if wd_artifacts d = [] then Inl (ValueError ''At least one artifact must be declared'')
      else
        bind_res (reject_duplicates ''Duplicate artifact logical_name(s): '' [] (map wa_logical_name (wd_artifacts d))) (\<lambda>_.
        bind_res (reject_duplicates ''Duplicate input logical_name(s): '' [] (map wi_logical_name (wd_inputs d))) (\<lambda>_.
        bind_res (reject_duplicates ''Duplicate input container_path(s): '' [] (map wi_container_path (wd_inputs d))) (\<lambda>_.
        bind_res (reject_duplicates ''Duplicate input file name(s) '' '': staged inputs are keyed by file name''
            (map (\<lambda>i. path_name (wi_source_path i)) (wd_inputs d))) (\<lambda>_.
        bind_res (reject_duplicates ''Duplicate invariant_id(s): '' [] (map bi_id (wd_invariants d))) (\<lambda>_.
        if wd_invariants d \<noteq> [] \<and> ''business-invariants'' \<in> set (map wa_logical_name (wd_artifacts d))
        then Inl (ValueError (''artifact logical_name '' @ repr_str ''business-invariants''
               @ '' is reserved for derived business-invariant reports''))
        else Inr d))))))"

definition get_artifact :: "workload_definition \<Rightarrow> string \<Rightarrow> py_error + workload_artifact" where
  "get_artifact d name =
     (case find (\<lambda>a. wa_logical_name a = name) (wd_artifacts d) of
        Some a \<Rightarrow> Inr a
      | None \<Rightarrow> Inl (KeyError (''No artifact with logical_name='' @ repr_str name)))"

subsection \<open>The default contract\<close>

record certification_contract =
  ct_workload_id :: string
  ct_contract_id :: string
  ct_workload :: workload_definition
  ct_artifact_types :: "string list"

definition default_contract_id :: string where
  "default_contract_id = ''default:stdout-exit-status''"

definition default_artifact_types :: "string list" where
  "default_artifact_types = [''STDOUT'', ''EXIT_STATUS'']"

definition contract_source :: "certification_contract \<Rightarrow> string" where
  "contract_source c =
     (if starts_with ''declared:'' (ct_contract_id c) then ''declared''
      else if starts_with ''default:'' (ct_contract_id c) then ''default''
      else ''unknown'')"

text \<open>An exception of a constructor passes through the contract's functions.\<close>

definition py_raises :: "py_error + 'a \<Rightarrow> exn + 'a" where
  "py_raises r = (case r of Inl e \<Rightarrow> Inl (Py e) | Inr x \<Rightarrow> Inr x)"

definition default_workload :: "string \<Rightarrow> string \<Rightarrow> py_error + workload_definition" where
  "default_workload workload_id description =
     bind_res (mk_workload_artifact (plain_artifact ''stdout'' ''STDOUT'' ''stdout-exact'' None None)) (\<lambda>out.
     bind_res (mk_workload_artifact (plain_artifact ''exit-status'' ''EXIT_STATUS'' ''exit-status-exact'' None None)) (\<lambda>status.
     mk_workload_definition
       \<lparr>wd_id = workload_id,
        wd_description = (if description = [] then ''API-driven workload for '' @ workload_id else description),
        wd_artifacts = [out, status], wd_inputs = [], wd_invariants = []\<rparr>))"

definition default_contract :: "string \<Rightarrow> string \<Rightarrow> exn + certification_contract" where
  "default_contract workload_id description =
     bind_res (py_raises (default_workload workload_id description)) (\<lambda>workload. Inr
       \<lparr>ct_workload_id = workload_id, ct_contract_id = default_contract_id, ct_workload = workload,
        ct_artifact_types = default_artifact_types\<rparr>)"

subsection \<open>The fixture registry\<close>

text \<open>What calling a factory does, an attribute of a declaration module (a function has the name of the
  module that defines it), and what importing the module does.\<close>

datatype call_outcome =
    Raises string string
  | ReturnsOther string
  | ReturnsWorkload workload_definition

datatype module_attribute = Function string call_outcome | OtherCallable call_outcome | NotCallable

datatype import_outcome = NoLoader | ImportFails string string | Imported "module_attribute dict"

type_synonym source_files = "(string \<times> bytes) list"

text \<open>By the name of a directory of the registry: whether it has a \<open>workload.py\<close>, its import, its \<open>cobol\<close>
  files; by path, the regular files below an uploaded source when that is a directory.\<close>

record fixture_registry =
  fx_declares :: "string \<Rightarrow> bool"
  fx_import :: "string \<Rightarrow> import_outcome"
  fx_cobol :: "string \<Rightarrow> source_files option"
  fx_uploaded :: "string \<Rightarrow> source_files option"

definition is_word_char :: "char \<Rightarrow> bool" where
  "is_word_char c \<longleftrightarrow> is_alnum c \<or> c = CHR ''_''"

definition safe_workload_id :: "string \<Rightarrow> bool" where
  "safe_workload_id s \<longleftrightarrow>
     s \<noteq> [] \<and> is_word_char (hd s) \<and> list_all (\<lambda>c. is_word_char c \<or> c = CHR ''.'' \<or> c = CHR ''-'') (tl s)"

definition underscored :: "string \<Rightarrow> string" where
  "underscored s = map (\<lambda>c. if c = CHR ''-'' then CHR ''_'' else c) s"

definition factory_candidates :: "string \<Rightarrow> string list" where
  "factory_candidates workload_id =
     (underscored workload_id @ ''_workload'')
     # (if starts_with ''workload_'' workload_id then [drop (length ''workload_'') workload_id @ ''_workload''] else [])"

definition declaration_module :: "string \<Rightarrow> string" where
  "declaration_module workload_id = ''api_fixture_workload_'' @ underscored workload_id"

definition load_declaration_module :: "fixture_registry \<Rightarrow> string \<Rightarrow> string \<Rightarrow> exn + module_attribute dict" where
  "load_declaration_module fx workload_id dir =
     (case fx_import fx dir of
        NoLoader \<Rightarrow> raise_api ServiceError
          (''Workload declaration workload.py for '' @ repr_str workload_id @ '' could not be loaded'')
      | ImportFails ty txt \<Rightarrow> raise_api ServiceError
          (''Workload declaration for '' @ repr_str workload_id @ '' failed to import: '' @ ty @ '': '' @ txt)
      | Imported attrs \<Rightarrow> Inr attrs)"

fun callable :: "module_attribute \<Rightarrow> call_outcome option" where
  "callable (Function m out) = Some out"
| "callable (OtherCallable out) = Some out"
| "callable NotCallable = None"

fun first_callable :: "module_attribute dict \<Rightarrow> string list \<Rightarrow> call_outcome option" where
  "first_callable attrs [] = None"
| "first_callable attrs (name # names) =
     (case Option.bind (map_of attrs name) callable of
        Some out \<Rightarrow> Some out
      | None \<Rightarrow> first_callable attrs names)"

definition ends_with :: "string \<Rightarrow> string \<Rightarrow> bool" where
  "ends_with p s = starts_with (rev p) (rev s)"

fun defined_factory :: "string \<Rightarrow> string \<times> module_attribute \<Rightarrow> call_outcome option" where
  "defined_factory own (name, Function m out) = (if ends_with ''_workload'' name \<and> m = own then Some out else None)"
| "defined_factory own (name, _) = None"

definition find_factory :: "module_attribute dict \<Rightarrow> string \<Rightarrow> exn + call_outcome" where
  "find_factory attrs workload_id =
     (case first_callable attrs (factory_candidates workload_id) of
        Some out \<Rightarrow> Inr out
      | None \<Rightarrow>
          (let defined = List.map_filter (defined_factory (declaration_module workload_id)) (sort_key fst attrs) in
           if length defined = 1 then Inr (hd defined)
           else if defined = []
           then raise_api ServiceError (''Workload declaration for '' @ repr_str workload_id
                  @ '' defines no '' @ repr_str ''*_workload'' @ '' factory'')
           else raise_api ServiceError (''Workload declaration for '' @ repr_str workload_id @ '' is ambiguous: ''
                  @ show_nat (length defined) @ '' '' @ repr_str ''*_workload'' @ '' factories found'')))"

definition registry_directories :: "string \<Rightarrow> string list" where
  "registry_directories workload_id =
     workload_id # (if starts_with ''workload-'' workload_id then [] else [''workload-'' @ workload_id])"

fun called :: "string \<Rightarrow> call_outcome \<Rightarrow> exn + workload_definition" where
  "called workload_id (Raises ty txt) = raise_api ServiceError
     (''Workload declaration factory for '' @ repr_str workload_id @ '' raised '' @ ty @ '': '' @ txt)"
| "called workload_id (ReturnsOther ty) = raise_api ServiceError
     (''Workload declaration for '' @ repr_str workload_id @ '' returned '' @ ty @ '', expected WorkloadDefinition'')"
| "called workload_id (ReturnsWorkload d) = Inr d"

definition load_declared_workload :: "fixture_registry \<Rightarrow> string \<Rightarrow> exn + workload_definition option" where
  "load_declared_workload fx workload_id =
     (if \<not> safe_workload_id workload_id
      then raise_api ServiceError (''Workload id '' @ repr_str workload_id
             @ '' contains characters that are not allowed in a fixture reference'')
      else (case find (fx_declares fx) (registry_directories workload_id) of
        None \<Rightarrow> Inr None
      | Some dir \<Rightarrow>
          bind_res (load_declaration_module fx workload_id dir) (\<lambda>attrs.
          bind_res (find_factory attrs workload_id) (\<lambda>factory.
          bind_res (called workload_id factory) (\<lambda>d. Inr (Some d))))))"

subsection \<open>Resolution\<close>

definition workload_py_name :: "fixture_registry \<Rightarrow> string \<Rightarrow> string" where
  "workload_py_name fx workload_id =
     (if fx_declares fx workload_id then workload_id else ''workload-'' @ workload_id)"

definition file_digests :: "source_files \<Rightarrow> string list" where
  "file_digests files = sort (map (\<lambda>(_, content). sha256_hex content) files)"

definition uploaded_source_matches_fixture :: "fixture_registry \<Rightarrow> string \<Rightarrow> string \<Rightarrow> bool" where
  "uploaded_source_matches_fixture fx workload_id uploaded \<longleftrightarrow>
     uploaded \<noteq> [] \<and>
     (case (fx_cobol fx (workload_py_name fx workload_id), fx_uploaded fx uploaded) of
        (Some expected, Some actual) \<Rightarrow> file_digests actual = file_digests expected
      | _ \<Rightarrow> False)"

definition resolve_certification_contract ::
  "fixture_registry \<Rightarrow> string \<Rightarrow> string \<Rightarrow> string option \<Rightarrow> exn + certification_contract" where
  "resolve_certification_contract fx workload_id description uploaded =
     bind_res (load_declared_workload fx workload_id) (\<lambda>declaration.
       case declaration of
         None \<Rightarrow> default_contract workload_id description
       | Some d \<Rightarrow>
           if (case uploaded of None \<Rightarrow> False | Some u \<Rightarrow> \<not> uploaded_source_matches_fixture fx workload_id u)
           then default_contract workload_id description
           else if wd_inputs d \<noteq> []
           then raise_api ServiceError (''Workload '' @ repr_str workload_id @ '' declares ''
                  @ show_nat (length (wd_inputs d)) @ '' input file(s); the control-plane API''
                  @ '' cannot stage fixture inputs, so this contract cannot be certified here'')
           else Inr
             \<lparr>ct_workload_id = workload_id, ct_contract_id = ''declared:'' @ workload_py_name fx workload_id,
              ct_workload = d, ct_artifact_types = map wa_artifact_type (wd_artifacts d)\<rparr>)"

end
