(* ===== verification/WorkloadFacts.thy ===== *)
theory WorkloadFacts
  imports Workload PipelineFacts
begin

text \<open>
  Properties of workload declarations and of the contract a run is certified under: what a constructed
  declaration guarantees, how an artifact is found, that a fixture which cannot be trusted is never replaced by
  the default, that the declared contract is bound to the fixture's source, and that the default contract
  compares byte for byte.
\<close>

subsection \<open>Declarations\<close>

definition well_formed_workload :: "workload_definition \<Rightarrow> bool" where
  "well_formed_workload d \<longleftrightarrow>
     wd_artifacts d \<noteq> [] \<and> distinct (map wa_logical_name (wd_artifacts d))
     \<and> distinct (map wi_logical_name (wd_inputs d)) \<and> distinct (map wi_container_path (wd_inputs d))
     \<and> distinct (map (\<lambda>i. path_name (wi_source_path i)) (wd_inputs d)) \<and> distinct (map bi_id (wd_invariants d))
     \<and> (wd_invariants d \<noteq> [] \<longrightarrow> ''business-invariants'' \<notin> set (map wa_logical_name (wd_artifacts d)))"

lemma reject_duplicates_Inr: "reject_duplicates b h names = Inr u \<longleftrightarrow> distinct names"
  by (simp add: reject_duplicates_def Let_def duplicates_Nil)

lemma mk_workload_definition_Inr: "mk_workload_definition d = Inr d' \<longleftrightarrow> d' = d \<and> well_formed_workload d"
  by (auto simp: mk_workload_definition_def well_formed_workload_def bind_res_eq_Inr reject_duplicates_Inr)

text \<open>The constructor of a workload declaration accepts exactly the well-formed ones, and returns them
  unchanged: at least one artifact, artifact names, input names, input paths, staged file names and invariant
  ids all distinct, and the name of the derived report free when invariants are declared. Every other
  declaration is a ValueError.\<close>
theorem constructed_workload:
  "case mk_workload_definition d of
     Inr d' \<Rightarrow> well_formed_workload d \<and> d' = d
   | Inl e \<Rightarrow> \<not> well_formed_workload d \<and> (\<exists>msg. e = ValueError msg)"
proof (cases "mk_workload_definition d")
  case (Inl e)
  then have "\<exists>msg. e = ValueError msg"
    by (auto simp: mk_workload_definition_def bind_res_eq_Inl reject_duplicates_def Let_def split: if_splits)
  with Inl mk_workload_definition_Inr [of d d] show ?thesis by simp
next
  case (Inr d')
  with mk_workload_definition_Inr [of d d'] show ?thesis by simp
qed

lemma find_named:
  assumes "distinct (map f xs)"
  shows "find (\<lambda>x. f x = n) xs = Some x \<longleftrightarrow> x \<in> set xs \<and> f x = n"
  using assms by (induction xs) auto

text \<open>In a constructed declaration a logical name finds its artifact and no other, and a name no artifact
  has is a KeyError.\<close>
theorem artifact_lookup:
  assumes "mk_workload_definition d = Inr d'"
  shows "(get_artifact d' name = Inr a \<longleftrightarrow> a \<in> set (wd_artifacts d) \<and> wa_logical_name a = name) \<and>
    (get_artifact d' name = Inl e \<longleftrightarrow> name \<notin> wa_logical_name ` set (wd_artifacts d)
       \<and> e = KeyError (''No artifact with logical_name='' @ repr_str name))"
proof -
  have d: "d' = d" "distinct (map wa_logical_name (wd_artifacts d))"
    using assms by (simp_all add: mk_workload_definition_Inr well_formed_workload_def)
  have "find (\<lambda>a. wa_logical_name a = name) (wd_artifacts d) = None \<longleftrightarrow> name \<notin> wa_logical_name ` set (wd_artifacts d)"
    by (auto simp: find_None_iff)
  with find_named [OF d(2), of name a] show ?thesis
    unfolding d(1) get_artifact_def by (auto split: option.splits)
qed

subsection \<open>The default contract\<close>

definition default_declaration :: "string \<Rightarrow> string \<Rightarrow> workload_definition" where
  "default_declaration workload_id description =
     \<lparr>wd_id = workload_id,
      wd_description = (if description = [] then ''API-driven workload for '' @ workload_id else description),
      wd_artifacts = [plain_artifact ''stdout'' ''STDOUT'' ''stdout-exact'' None None,
        plain_artifact ''exit-status'' ''EXIT_STATUS'' ''exit-status-exact'' None None],
      wd_inputs = [], wd_invariants = []\<rparr>"

definition default_certification :: "string \<Rightarrow> string \<Rightarrow> certification_contract" where
  "default_certification workload_id description =
     \<lparr>ct_workload_id = workload_id, ct_contract_id = default_contract_id,
      ct_workload = default_declaration workload_id description, ct_artifact_types = default_artifact_types\<rparr>"

lemma default_contract_eq: "default_contract workload_id description = Inr (default_certification workload_id description)"
proof -
  have "default_workload workload_id description = Inr (default_declaration workload_id description)"
    by (simp add: default_workload_def mk_workload_artifact_def plain_artifact_def declared_types_def
        mk_workload_definition_Inr well_formed_workload_def default_declaration_def)
  then show ?thesis by (simp add: default_contract_def py_raises_def default_certification_def)
qed

text \<open>The default contract always resolves, is named as the default, and is byte-exact: under its artifacts
  two outputs of any stream agree exactly when they are equal.\<close>
theorem default_contract_exact:
  "\<exists>c. default_contract workload_id description = Inr c \<and> contract_source c = ''default'' \<and>
     well_formed_workload (ct_workload c) \<and> ct_artifact_types c = map wa_artifact_type (wd_artifacts (ct_workload c)) \<and>
     (agree_under (wd_artifacts (ct_workload c)) t xs ys \<longleftrightarrow> xs = ys)"
proof -
  let ?c = "default_certification workload_id description"
  have "contract_source ?c = ''default''"
    by (simp add: contract_source_def default_certification_def default_contract_id_def starts_with_def)
  moreover have "well_formed_workload (ct_workload ?c)" "ct_artifact_types ?c = map wa_artifact_type (wd_artifacts (ct_workload ?c))"
    by (simp_all add: well_formed_workload_def default_certification_def default_declaration_def default_artifact_types_def plain_artifact_def)
  moreover have "agree_under (wd_artifacts (ct_workload ?c)) t xs ys \<longleftrightarrow> xs = ys"
    by (auto simp: agree_under_def default_certification_def default_declaration_def plain_artifact_def policy_norm_def policy_order_def)
  ultimately show ?thesis using default_contract_eq by blast
qed

subsection \<open>The declared contract\<close>

text \<open>The directory a declaration was found in, and the uploaded source that is bound to it.\<close>

lemma found_directory:
  assumes "find (fx_declares fx) (registry_directories i) = Some dir"
  shows "dir = workload_py_name fx i" "fx_declares fx dir"
  using assms by (auto simp: registry_directories_def workload_py_name_def split: if_splits)

definition bound_source :: "fixture_registry \<Rightarrow> string \<Rightarrow> string option \<Rightarrow> bool" where
  "bound_source fx dir uploaded \<longleftrightarrow>
     (case uploaded of None \<Rightarrow> True
      | Some u \<Rightarrow> \<exists>expected actual. u \<noteq> [] \<and> fx_cobol fx dir = Some expected \<and> fx_uploaded fx u = Some actual \<and>
          image_mset (\<lambda>(_, b). sha256_hex b) (mset actual) = image_mset (\<lambda>(_, b). sha256_hex b) (mset expected))"

lemma sort_eq_iff: "sort xs = sort ys \<longleftrightarrow> mset xs = mset ys"
  by (metis mset_sort properties_for_sort sorted_sort)

lemma same_digests:
  "file_digests actual = file_digests expected \<longleftrightarrow>
   image_mset (\<lambda>(_, b). sha256_hex b) (mset actual) = image_mset (\<lambda>(_, b). sha256_hex b) (mset expected)"
  unfolding file_digests_def sort_eq_iff mset_map by (rule refl)

lemma bound_source_iff:
  "bound_source fx (workload_py_name fx i) uploaded \<longleftrightarrow>
   (case uploaded of None \<Rightarrow> True | Some u \<Rightarrow> uploaded_source_matches_fixture fx i u)"
  by (auto simp: bound_source_def uploaded_source_matches_fixture_def same_digests split: option.splits)

text \<open>What a registry declares for a workload id: its directory, and the declaration its factory returned.\<close>

definition declares :: "fixture_registry \<Rightarrow> string \<Rightarrow> string \<Rightarrow> workload_definition \<Rightarrow> bool" where
  "declares fx i dir d \<longleftrightarrow>
     find (fx_declares fx) (registry_directories i) = Some dir \<and>
     (\<exists>attrs. fx_import fx dir = Imported attrs \<and> find_factory attrs i = Inr (ReturnsWorkload d))"

lemma load_declared_iff:
  "load_declared_workload fx i = Inr r \<longleftrightarrow> safe_workload_id i \<and>
     (case r of None \<Rightarrow> find (fx_declares fx) (registry_directories i) = None
      | Some d \<Rightarrow> \<exists>dir. declares fx i dir d)"
proof -
  have c: "called i f = Inr d \<longleftrightarrow> f = ReturnsWorkload d" for f d
    by (cases f) (auto simp: raise_api_def)
  show ?thesis
    by (cases r; cases "find (fx_declares fx) (registry_directories i)")
       (auto simp: load_declared_workload_def declares_def raise_api_def load_declaration_module_def bind_res_eq_Inr c
         split: import_outcome.splits)
qed

text \<open>C5: A certification contract is resolved fail closed. It is the explicit default only when the registry
  declares nothing for the id, or the fixture's declaration loaded and the uploaded source is not the
  fixture's; otherwise it is the declaration a trusted fixture returned, without inputs to stage, named after
  the fixture's directory, for exactly the fixture's source files. A fixture that exists and cannot be
  imported, has no or several factories, raises or returns something else never yields a contract.\<close>
theorem resolution_fails_closed:
  "resolve_certification_contract fx i description uploaded = Inr c \<longleftrightarrow>
     safe_workload_id i \<and>
     (find (fx_declares fx) (registry_directories i) = None \<and> c = default_certification i description \<or>
      (\<exists>dir d. declares fx i dir d \<and>
        (\<not> bound_source fx dir uploaded \<and> c = default_certification i description \<or>
         bound_source fx dir uploaded \<and> wd_inputs d = [] \<and>
         c = \<lparr>ct_workload_id = i, ct_contract_id = ''declared:'' @ dir, ct_workload = d,
              ct_artifact_types = map wa_artifact_type (wd_artifacts d)\<rparr>)))"
proof -
  have step: "resolve_certification_contract fx i description uploaded = Inr c \<longleftrightarrow>
      (\<exists>r. load_declared_workload fx i = Inr r \<and>
        (case r of None \<Rightarrow> c = default_certification i description
         | Some d \<Rightarrow>
            \<not> bound_source fx (workload_py_name fx i) uploaded \<and> c = default_certification i description \<or>
            bound_source fx (workload_py_name fx i) uploaded \<and> wd_inputs d = [] \<and>
            c = \<lparr>ct_workload_id = i, ct_contract_id = ''declared:'' @ workload_py_name fx i, ct_workload = d,
                 ct_artifact_types = map wa_artifact_type (wd_artifacts d)\<rparr>))"
    unfolding resolve_certification_contract_def bind_res_eq_Inr bound_source_iff default_contract_eq
    by (rule ex_cong1) (auto simp: raise_api_def split: option.splits)
  define p where "p = workload_py_name fx i"
  define D where "D d \<longleftrightarrow> declares fx i p d" for d
  have dir: "declares fx i dir d \<longleftrightarrow> dir = p \<and> D d" for dir d
    using found_directory unfolding D_def p_def by (auto simp: declares_def)
  show ?thesis
    unfolding step load_declared_iff split_option_ex option.case dir p_def [symmetric] by auto
qed

subsection \<open>Samples\<close>

definition pay_declaration :: workload_definition where
  "pay_declaration =
     \<lparr>wd_id = ''pay'', wd_description = ''Pay'',
      wd_artifacts = [plain_artifact ''out'' ''STDOUT'' ''stdout-exact'' None None,
        plain_artifact ''report'' ''TEXT_FILE'' ''text-file-exact'' (Some ''r.txt'') None],
      wd_inputs = [], wd_invariants = []\<rparr>"

definition pay_module :: "module_attribute dict" where
  "pay_module = [(''pay_workload'', Function ''api_fixture_workload_pay'' (ReturnsWorkload pay_declaration))]"

definition pay_registry :: fixture_registry where
  "pay_registry =
     \<lparr>fx_declares = (\<lambda>dir. dir = ''workload-pay''), fx_import = (\<lambda>_. Imported pay_module),
      fx_cobol = (\<lambda>_. Some [(''A.cbl'', ''a''), (''B.cpy'', ''b'')]),
      fx_uploaded = (\<lambda>u. if u = ''swapped'' then Some [(''A.cbl'', ''b''), (''B.cpy'', ''a'')] else None)\<rparr>"

lemma pay_names:
  "find (fx_declares pay_registry) (registry_directories ''pay'') = Some ''workload-pay''"
  "factory_candidates ''pay'' = [''pay_workload'']" "safe_workload_id ''pay''"
  by code_simp+

lemma pay_declares: "declares pay_registry ''pay'' ''workload-pay'' pay_declaration"
  by (simp add: declares_def pay_names find_factory_def) (simp add: pay_registry_def pay_module_def)

lemma pay_well_formed: "mk_workload_definition pay_declaration = Inr pay_declaration"
  by (simp add: mk_workload_definition_Inr well_formed_workload_def pay_declaration_def plain_artifact_def)

text \<open>The report of the sample declaration.\<close>
theorem artifact_lookup_witness:
  "get_artifact pay_declaration ''report'' = Inr (plain_artifact ''report'' ''TEXT_FILE'' ''text-file-exact'' (Some ''r.txt'') None)"
  using artifact_lookup [OF pay_well_formed, of "''report''"]
  by (simp add: pay_declaration_def plain_artifact_def)

text \<open>The digests of the uploaded files are compared without the files' names: a source whose members have
  swapped contents is still certified under the fixture's contract.\<close>

lemma swapped_source_is_declared:
  "\<exists>c. resolve_certification_contract pay_registry ''pay'' [] (Some ''swapped'') = Inr c \<and> contract_source c = ''declared''"
proof -
  have l: "load_declared_workload pay_registry ''pay'' = Inr (Some pay_declaration)"
    unfolding load_declared_iff using pay_names pay_declares by auto
  have "uploaded_source_matches_fixture pay_registry ''pay'' ''swapped''"
    by (simp add: uploaded_source_matches_fixture_def pay_registry_def same_digests)
  then show ?thesis
    using l by (simp add: resolve_certification_contract_def pay_declaration_def contract_source_def starts_with_def)
qed

text \<open>The second candidate strips the prefix \<open>workload_\<close> of the id, but the registry's directories start with
  \<open>workload-\<close>: the full name of a directory never selects the factory its short name selects.\<close>

lemma directory_name_misses_factory:
  "factory_candidates ''workload-pay'' = [''workload_pay_workload'']" "factory_candidates ''pay'' = [''pay_workload'']"
  by code_simp+

end
