(* ===== verification/Uploads.thy ===== *)
theory Uploads
  imports Ingestion ApiErrors
begin

text \<open>
  The upload of single files (\<open>api/service.py\<close>: \<open>_safe_relative_path\<close>, \<open>_validate_upload\<close>, \<open>_write_upload\<close>): the
  relative path of an entry name, the check of all names before anything is written, and the tree that is
  written into a fresh directory. An upload is a dictionary of names and contents. The tree is the one of
  \<open>Ingestion\<close>, with paths relative to the fresh directory; a refusal of the operating system is
  \<open>OSError\<close>, which the service does not handle.
\<close>

subsection \<open>Limits\<close>

text \<open>\<open>max(1, int(raw))\<close> of an environment variable, the default when it is unset, blank or no integer.\<close>

definition at_least_one :: "string option \<Rightarrow> int \<Rightarrow> int" where
  "at_least_one raw fallback =
     (case raw of
        None \<Rightarrow> fallback
      | Some t \<Rightarrow>
          if strip t = [] then fallback
          else (case int_of_text t of None \<Rightarrow> fallback | Some v \<Rightarrow> max 1 v))"

definition upload_file_limit :: "string option \<Rightarrow> int" where
  "upload_file_limit raw = at_least_one raw 1000"

subsection \<open>Names\<close>

definition is_control :: "char \<Rightarrow> bool" where
  "is_control c \<longleftrightarrow> (of_char c :: nat) < 32"

definition safe_relative_path :: "string \<Rightarrow> exn + path_parts" where
  "safe_relative_path name =
     (let raw = forward name; parts = name_parts raw in
      if list_ex is_control raw
      then raise_api ServiceError (''Upload entry '' @ repr_str name @ '' contains a control character'')
      else if CHR '':'' \<in> set raw
      then raise_api ServiceError (''Upload entry '' @ repr_str name @ '' contains a drive letter or '' @ repr_str '':'')
      else if parts = []
      then raise_api ServiceError (''Upload entry '' @ repr_str name @ '' has no usable file name'')
      else if ''..'' \<in> set parts
      then raise_api ServiceError (''Upload entry '' @ repr_str name @ '' contains a '' @ repr_str ''..'' @ '' segment'')
      else Inr parts)"

definition as_posix :: "path_parts \<Rightarrow> string" where
  "as_posix parts = join ''/'' parts"

text \<open>The names in order, with the names seen so far by their folded path.\<close>

fun resolve_names :: "string dict \<Rightarrow> string list \<Rightarrow> exn + (string \<times> path_parts) list" where
  "resolve_names seen [] = Inr []"
| "resolve_names seen (name # names) =
     bind_res (safe_relative_path name) (\<lambda>relative.
       let key = casefold (as_posix relative) in
       case map_of seen key of
         Some prior \<Rightarrow> raise_api ServiceError (''Upload entries '' @ repr_str prior @ '' and '' @ repr_str name
           @ '' resolve to the same path '' @ repr_str (as_posix relative)
           @ '' (names must be unique after separator normalization and case folding)'')
       | None \<Rightarrow> bind_res (resolve_names ((key, name) # seen) names) (\<lambda>rest. Inr ((name, relative) # rest)))"

definition validate_upload :: "string option \<Rightarrow> bytes dict \<Rightarrow> exn + (string \<times> path_parts) list" where
  "validate_upload limit files =
     (if files = [] then raise_api ServiceError ''No files supplied''
      else if upload_file_limit limit < int (length files)
      then raise_api ServiceError (''Too many files in one upload ('' @ show_nat (length files) @ '' > ''
             @ show_int (upload_file_limit limit) @ '')'')
      else resolve_names [] (map fst files))"

subsection \<open>Writing\<close>

definition os_refusal :: "ingestion_error + 'a \<Rightarrow> exn + 'a" where
  "os_refusal r = (case r of Inl _ \<Rightarrow> Inl (Py OSError) | Inr x \<Rightarrow> Inr x)"

definition write_entry :: "bytes dict \<Rightarrow> string \<times> path_parts \<Rightarrow> file_tree \<Rightarrow> exn + file_tree" where
  "write_entry files = (\<lambda>(name, relative) t.
     bind_res (os_refusal (make_dirs (butlast relative) t)) (\<lambda>t1.
     os_refusal (write_file relative (case map_of files name of Some b \<Rightarrow> b | None \<Rightarrow> []) t1)))"

fun write_entries :: "bytes dict \<Rightarrow> (string \<times> path_parts) list \<Rightarrow> file_tree \<Rightarrow> exn + file_tree" where
  "write_entries files [] t = Inr t"
| "write_entries files (e # es) t = bind_res (write_entry files e t) (write_entries files es)"

definition empty_tree :: file_tree where
  "empty_tree = \<lparr>ft_files = [], ft_dirs = []\<rparr>"

definition write_upload :: "string option \<Rightarrow> bytes dict \<Rightarrow> exn + file_tree" where
  "write_upload limit files =
     bind_res (validate_upload limit files) (\<lambda>resolved. write_entries files resolved empty_tree)"

end
