(* ===== verification/UploadFacts.thy ===== *)
theory UploadFacts
  imports Uploads IngestionFacts
begin

text \<open>
  What an accepted upload writes: the supplied contents, all of them, under names that stay inside the fresh
  directory and that no two entries share, even up to case.
\<close>

subsection \<open>Names\<close>

lemma split_slash_chars: "c \<in> set (split_slash s) \<Longrightarrow> set c \<subseteq> set s - {CHR ''/''}"
proof (induction s arbitrary: c)
  case (Cons x s)
  obtain p ps where p: "split_slash s = p # ps" using split_slash_Cons_ex by blast
  have h: "set d \<subseteq> set s - {CHR ''/''}" if "d = p \<or> d \<in> set ps" for d using Cons.IH [of d] p that by auto
  show ?case using Cons.prems p h by (fastforce split: if_splits)
qed simp

text \<open>A path that names a file below the directory it is relative to, whatever the platform.\<close>

definition plain_component :: "string \<Rightarrow> bool" where
  "plain_component c \<longleftrightarrow> c \<noteq> [] \<and> c \<noteq> ''.'' \<and> c \<noteq> ''..'' \<and> (\<forall>x \<in> set c. \<not> is_control x \<and> x \<notin> {CHR ''/'', CHR 0x5C, CHR '':''})"

definition confined :: "path_parts \<Rightarrow> bool" where
  "confined p \<longleftrightarrow> p \<noteq> [] \<and> list_all plain_component p"

lemma safe_relative_path_confined:
  assumes "safe_relative_path name = Inr p"
  shows "confined p"
proof -
  have p: "p = name_parts (forward name)" "p \<noteq> []" "''..'' \<notin> set p"
    and c: "\<not> list_ex is_control (forward name)" "CHR '':'' \<notin> set (forward name)"
    using assms by (auto simp: safe_relative_path_def Let_def raise_api_def split: if_splits)
  have "plain_component x" if x: "x \<in> set p" for x
  proof -
    have s: "set x \<subseteq> set (forward name) - {CHR ''/''}" and n: "x \<noteq> []" "x \<noteq> ''.''"
      using x split_slash_chars unfolding p(1) name_parts_def by auto
    have "CHR 0x5C \<notin> set (forward name)" by (auto simp: forward_def)
    then show ?thesis
      using s n c x p(3) by (auto simp: plain_component_def list_ex_iff)
  qed
  with p(2) show ?thesis by (simp add: confined_def list_all_iff)
qed

definition folded :: "path_parts \<Rightarrow> string" where
  "folded p = casefold (as_posix p)"

lemma resolve_names_Inr:
  "resolve_names seen names = Inr rs \<Longrightarrow> distinct (map fst seen) \<Longrightarrow>
    map fst rs = names \<and> (\<forall>(n, p) \<in> set rs. safe_relative_path n = Inr p)
    \<and> distinct (map fst seen @ map (\<lambda>r. folded (snd r)) rs)"
proof (induction seen names arbitrary: rs rule: resolve_names.induct)
  case (2 seen name names)
  from 2(2) obtain p rest where p: "safe_relative_path name = Inr p" "map_of seen (folded p) = None"
    and r: "resolve_names ((folded p, name) # seen) names = Inr rest" "rs = (name, p) # rest"
    by (auto simp: bind_res_eq_Inr Let_def folded_def raise_api_def split: option.splits)
  have n: "folded p \<notin> fst ` set seen" using p(2) by (simp add: map_of_eq_None_iff)
  have "map fst rest = names \<and> (\<forall>(n, p) \<in> set rest. safe_relative_path n = Inr p)
    \<and> distinct (map fst ((folded p, name) # seen) @ map (\<lambda>r. folded (snd r)) rest)"
    using 2(1) [OF refl p(2) [unfolded folded_def] r(1) [unfolded folded_def]] n 2(3) by (simp add: folded_def)
  with p n r show ?case by auto
qed simp

subsection \<open>Contents\<close>

lemma update_new: "k \<notin> fst ` set al \<Longrightarrow> AList.update k v al = al @ [(k, v)]"
  by (induction al) auto

lemma write_entry_Inr: "write_entry files e t = Inr t' \<Longrightarrow>
    ft_files t' = AList.update (snd e) (case map_of files (fst e) of Some b \<Rightarrow> b | None \<Rightarrow> []) (ft_files t)"
  by (cases e) (auto simp: write_entry_def bind_res_eq_Inr os_refusal_def make_dirs_def write_file_def
      split: sum.splits if_splits)

lemma write_entries_Inr:
  "write_entries files es t = Inr t' \<Longrightarrow> distinct (map fst (ft_files t) @ map snd es) \<Longrightarrow>
    ft_files t' = ft_files t @ map (\<lambda>(n, p). (p, case map_of files n of Some b \<Rightarrow> b | None \<Rightarrow> [])) es"
proof (induction es arbitrary: t)
  case (Cons e es)
  then obtain t1 where w: "write_entry files e t = Inr t1" "write_entries files es t1 = Inr t'"
    by (auto simp: bind_res_eq_Inr)
  have f: "ft_files t1 = ft_files t @ [(snd e, case map_of files (fst e) of Some b \<Rightarrow> b | None \<Rightarrow> [])]"
    using write_entry_Inr [OF w(1)] Cons.prems(2) by (simp add: update_new)
  then have "distinct (map fst (ft_files t1) @ map snd es)" using Cons.prems(2) by auto
  from Cons.IH [OF w(2) this] f show ?case by (cases e) simp
qed simp

text \<open>C19: An accepted upload is written completely and exactly: one file per entry, in their order, with the
  supplied bytes, under the path its own name stands for; every path is confined to the fresh directory, and the
  paths are distinct even when the file system ignores case. The number of files is positive and within the limit.\<close>
theorem upload_written:
  assumes "write_upload limit files = Inr t" "distinct (map fst files)"
  shows "map snd (ft_files t) = map snd files
    \<and> map (Inr \<circ> fst) (ft_files t) = map (safe_relative_path \<circ> fst) files
    \<and> list_all (confined \<circ> fst) (ft_files t) \<and> distinct (map (folded \<circ> fst) (ft_files t))
    \<and> 0 < length (ft_files t) \<and> int (length (ft_files t)) \<le> upload_file_limit limit"
proof -
  obtain rs where v: "files \<noteq> []" "int (length files) \<le> upload_file_limit limit"
    "resolve_names [] (map fst files) = Inr rs" and w: "write_entries files rs empty_tree = Inr t"
    using assms(1) by (auto simp: write_upload_def validate_upload_def bind_res_eq_Inr raise_api_def split: if_splits)
  have r: "map fst rs = map fst files" "\<forall>(n, p) \<in> set rs. safe_relative_path n = Inr p"
    "distinct (map (folded \<circ> snd) rs)"
    using resolve_names_Inr [OF v(3)] by (simp_all add: comp_def)
  then have "distinct (map snd rs)" by (simp add: distinct_map inj_on_def)
  then have f: "ft_files t = map (\<lambda>(n, p). (p, case map_of files n of Some b \<Rightarrow> b | None \<Rightarrow> [])) rs"
    using write_entries_Inr [OF w] by (simp add: empty_tree_def)
  have len: "length rs = length files" using r(1) map_eq_imp_length_eq by blast
  have "map snd (ft_files t) = map (\<lambda>n. case map_of files n of Some b \<Rightarrow> b | None \<Rightarrow> []) (map fst rs)"
    by (simp add: f case_prod_beta comp_def)
  also have "\<dots> = map snd files"
  proof -
    have "map_of files (fst x) = Some (snd x)" if "x \<in> set files" for x using assms(2) that by simp
    then show ?thesis by (simp add: r(1))
  qed
  finally have c: "map snd (ft_files t) = map snd files" .
  have "map (Inr \<circ> fst) (ft_files t) = map (safe_relative_path \<circ> fst) rs" using r(2) by (auto simp: f)
  also have "\<dots> = map safe_relative_path (map fst rs)" by simp
  finally have "map (Inr \<circ> fst) (ft_files t) = map (safe_relative_path \<circ> fst) files" by (simp add: r(1))
  moreover have "list_all (confined \<circ> fst) (ft_files t)"
    using r(2) safe_relative_path_confined by (fastforce simp: f list_all_iff)
  moreover have "distinct (map (folded \<circ> fst) (ft_files t))" using r(3) by (simp add: f comp_def case_prod_beta)
  ultimately show ?thesis using c v len by (simp add: f)
qed

text \<open>Two entries, one with a backslash and one with a superfluous component.\<close>

definition two_files :: "bytes dict" where
  "two_files = [(''src'' @ [CHR 0x5C] @ ''A.cob'', ''x''), (''copy/./A.cob'', ''y'')]"

definition two_files_tree :: file_tree where
  "two_files_tree = \<lparr>ft_files = [([''src'', ''A.cob''], ''x''), ([''copy'', ''A.cob''], ''y'')], ft_dirs = [[''src''], [''copy'']]\<rparr>"

lemma two_files_written: "write_upload None two_files = Inr two_files_tree"
  by code_simp

lemma upload_written_witness:
  "map (Inr \<circ> fst) (ft_files two_files_tree) = map (safe_relative_path \<circ> fst) two_files"
proof -
  have "distinct (map fst two_files)" by (simp add: two_files_def)
  from upload_written [OF two_files_written this] show ?thesis by simp
qed

text \<open>An entry that is a directory of another one passes the check of the names, and the write then raises an
  \<open>OSError\<close> that is not an error of the service.\<close>

lemma file_and_directory_raise: "write_upload None [(''a'', ''x''), (''a/b'', ''y'')] = Inl (Py OSError)"
  by code_simp

end
