(* ===== verification/Jobs.thy ===== *)
theory Jobs
  imports Gates Workload Uploads
begin

text \<open>
  Background jobs of the control plane (\<open>api/service.py\<close>): the slots of concurrent jobs, the directories a job
  works on, the contract it is certified under, the checks of a request, the paths a revalidation uses, and the
  records a failed and a completed run end with. Directories are named by their path, as in \<open>Gates\<close>. The dashes
  and the ellipsis of some messages have no 8-bit code: a dash is written as a hyphen, the ellipsis is left out.
\<close>

subsection \<open>Deployment and service\<close>

record deployment =
  de_job_limit :: "string option"
  de_upload_limit :: "string option"
  de_production :: bool
  de_fixtures :: fixture_registry

record service =
  sv_db :: db
  sv_active :: int
  sv_fs :: file_system

definition job_limit :: "string option \<Rightarrow> int" where
  "job_limit raw = at_least_one raw 4"

definition acquire_job_slot :: "deployment \<Rightarrow> service \<Rightarrow> exn + service" where
  "acquire_job_slot de s =
     (let limit = job_limit (de_job_limit de) in
      if limit \<le> sv_active s
      then raise_api BusyError (''Concurrent job limit reached ('' @ show_int limit
             @ ''); retry after the running jobs finish'')
      else Inr (s\<lparr>sv_active := sv_active s + 1\<rparr>))"

definition release_slot :: "service \<Rightarrow> service" where
  "release_slot s = s\<lparr>sv_active := sv_active s - 1\<rparr>"

definition job_slots :: "deployment \<Rightarrow> service \<Rightarrow> int \<times> int" where
  "job_slots de s = (sv_active s, job_limit (de_job_limit de))"

text \<open>A call of the store; the database it leaves counts also when it raises.\<close>

definition call :: "'a op \<Rightarrow> service \<Rightarrow> (exn + 'a) \<times> service" where
  "call f s = (let (r, d) = f (sv_db s) in (r, s\<lparr>sv_db := d\<rparr>))"

subsection \<open>Directories\<close>

definition is_directory :: "file_system \<Rightarrow> string \<Rightarrow> bool" where
  "is_directory fs p = (case fs p of Directory _ \<Rightarrow> True | _ \<Rightarrow> False)"

definition temp_prefixes :: "string list" where
  "temp_prefixes = [''cobol-'', ''java-'', ''ingest-'', ''pipeline-output-'']"

text \<open>\<open>_cleanup_temp_dir\<close>: only directories named like a workspace are removed, and failures are ignored.\<close>

definition cleanup_temp_dir :: "string option \<Rightarrow> service \<Rightarrow> service" where
  "cleanup_temp_dir workspace s =
     (case workspace of
        None \<Rightarrow> s
      | Some p \<Rightarrow>
          if is_directory (sv_fs s) p \<and> list_ex (\<lambda>x. starts_with x (path_name p)) temp_prefixes
          then s\<lparr>sv_fs := (sv_fs s)(p := Absent)\<rparr> else s)"

definition make_directory :: "string \<Rightarrow> (string \<times> regular_file) list \<Rightarrow> service \<Rightarrow> service" where
  "make_directory p files s = s\<lparr>sv_fs := (sv_fs s)(p := Directory files)\<rparr>"

text \<open>The regular files below an uploaded source, as the contract reads them.\<close>

definition readable_files :: "(string \<times> regular_file) list \<Rightarrow> source_files option" where
  "readable_files files =
     those (map (\<lambda>(p, f). case f of Readable b \<Rightarrow> Some (p, b) | Unreadable _ \<Rightarrow> None) files)"

definition registry_at :: "fixture_registry \<Rightarrow> file_system \<Rightarrow> fixture_registry" where
  "registry_at fx fs = fx\<lparr>fx_uploaded := (\<lambda>u. case fs u of Directory files \<Rightarrow> readable_files files | _ \<Rightarrow> None)\<rparr>"

text \<open>The digests of a source that is compared with a fixture's raise when one of its files cannot be read.\<close>

definition unreadable_source :: "fixture_registry \<Rightarrow> file_system \<Rightarrow> string \<Rightarrow> string \<Rightarrow> bool" where
  "unreadable_source fx fs workload_id u =
     (case (load_declared_workload fx workload_id, fx_cobol fx (workload_py_name fx workload_id), fs u) of
        (Inr (Some _), Some _, Directory files) \<Rightarrow> u \<noteq> [] \<and> readable_files files = None
      | _ \<Rightarrow> False)"

definition resolve_contract ::
  "deployment \<Rightarrow> service \<Rightarrow> application_record \<Rightarrow> string \<Rightarrow> exn + certification_contract" where
  "resolve_contract de s app source =
     (if unreadable_source (de_fixtures de) (sv_fs s) (ap_workload_id app) source then Inl (Py OSError)
      else resolve_certification_contract (registry_at (de_fixtures de) (sv_fs s)) (ap_workload_id app)
             (''API-driven workload for '' @ ap_name app) (Some source))"

subsection \<open>Checks of a request\<close>

definition supported_runtimes :: "string list" where
  "supported_runtimes = [''spring_boot'', ''plain_java'', ''jakarta_ee'', ''quarkus'', ''micronaut'']"

definition check_target_runtime :: "string \<Rightarrow> exn + unit" where
  "check_target_runtime t =
     (if t \<in> set supported_runtimes then Inr ()
      else raise_api ServiceError (''invalid target_runtime: '' @ repr_str t @ '' - supported target_runtime values: ''
             @ join '', '' (map repr_str supported_runtimes)))"

definition refuse_while_run_active :: "string \<Rightarrow> string \<Rightarrow> db \<Rightarrow> exn + unit" where
  "refuse_while_run_active app_id action s =
     bind_res (fst (list_runs_for_application app_id s)) (\<lambda>runs.
       case filter (\<lambda>r. rr_stage r \<notin> set terminal_stages) runs of
         [] \<Rightarrow> Inr ()
       | r # _ \<Rightarrow> raise_api ConflictError (''Cannot '' @ action @ '' while run '' @ rr_id r
                    @ '' is in progress; wait for it to complete or fail''))"

definition run_source :: "run_record \<Rightarrow> application_record \<Rightarrow> string option" where
  "run_source run app = (case rr_source_path run of Some p \<Rightarrow> Some p | None \<Rightarrow> ap_cobol_source_path app)"

text \<open>\<open>source or ""\<close>.\<close>

definition or_empty :: "string option \<Rightarrow> string" where
  "or_empty p = (case p of None \<Rightarrow> [] | Some x \<Rightarrow> x)"

definition is_given :: "string option \<Rightarrow> bool" where
  "is_given p \<longleftrightarrow> or_empty p \<noteq> []"

definition needs_generated :: string where
  "needs_generated = ''Re-validation needs the generated application; uploaded Java candidates are disabled in production deployments''"

definition revalidation_candidate :: "bool \<Rightarrow> application_record \<Rightarrow> exn + string option" where
  "revalidation_candidate production app =
     (if is_given (ap_generated_app_path app) then Inr (ap_generated_app_path app)
      else if production then raise_api ServiceError needs_generated
      else Inr (ap_java_candidate_path app))"

definition revalidation_paths ::
  "bool \<Rightarrow> run_record \<Rightarrow> application_record \<Rightarrow> exn + (string option \<times> string option)" where
  "revalidation_paths production run app =
     (case rr_source_path run of
        None \<Rightarrow>
          if is_given (ap_generated_app_path app) \<and> bundle_of_other_run (or_empty (ap_generated_app_path app)) (rr_id run)
          then raise_api ServiceError (''This run predates per-run paths and the application's latest generated ''
                 @ ''application belongs to another run; start a new modernization'')
          else bind_res (revalidation_candidate production app) (\<lambda>c. Inr (ap_cobol_source_path app, c))
      | Some source \<Rightarrow>
          if is_given (rr_generated_app_path run) then Inr (Some source, rr_generated_app_path run)
          else if production then raise_api ServiceError needs_generated
          else Inr (Some source, ap_java_candidate_path app))"

definition revalidation_target ::
  "bool \<Rightarrow> file_system \<Rightarrow> run_record \<Rightarrow> application_record \<Rightarrow> exn + (string \<times> string)" where
  "revalidation_target production fs run app =
     bind_res (revalidation_paths production run app) (\<lambda>(source, candidate).
       case (source, candidate) of
         (Some p, Some q) \<Rightarrow>
           if rr_source_path run \<noteq> None \<and> \<not> is_directory fs p
           then raise_api ServiceError (''The COBOL source of this run was replaced by a later upload; ''
                  @ ''start a new modernization to validate the current source'')
           else Inr (p, q)
       | _ \<Rightarrow> raise_api ServiceError ''Run lacks source or candidate paths for re-validation'')"

subsection \<open>Failures of a job\<close>

text \<open>An exception in a job: one of the service's own, or another one of which only the type is shown. The
  subclasses of \<open>OSError\<close> are not told apart.\<close>

datatype failure = Client detail | Internal string

fun error_type :: "py_error \<Rightarrow> string" where
  "error_type (ValueError _) = ''ValueError''"
| "error_type (AttributeError _) = ''AttributeError''"
| "error_type AssertionError = ''AssertionError''"
| "error_type TypeError = ''TypeError''"
| "error_type (KeyError _) = ''KeyError''"
| "error_type OSError = ''OSError''"
| "error_type OperationalError = ''OperationalError''"
| "error_type ArithmeticError = ''ArithmeticError''"
| "error_type OutsideModel = ''Exception''"

fun job_failure :: "exn \<Rightarrow> failure" where
  "job_failure (Api c d) = Client d"
| "job_failure (Py e) = Internal (error_type e)"
| "job_failure Unmodelled = Internal ''Exception''"

definition public_run_error :: "failure \<Rightarrow> string \<Rightarrow> string" where
  "public_run_error f i =
     (case f of
        Client d \<Rightarrow> dt_text d
      | Internal t \<Rightarrow> ''Internal error ('' @ t @ '') while processing run '' @ i @ ''; details are in the server log'')"

definition failed_run :: "string \<Rightarrow> string \<Rightarrow> run_record \<Rightarrow> run_record" where
  "failed_run now message run =
     run\<lparr>rr_stage := STAGE_FAILED, rr_error := Some message, rr_completed_at := Some now\<rparr>"

definition completed_run :: "string \<Rightarrow> run_record \<Rightarrow> run_record" where
  "completed_run now run = run\<lparr>rr_stage := COMPLETED, rr_completed_at := Some now\<rparr>"

end
