(* ===== verification/JobThreads.thy ===== *)
theory JobThreads
  imports Jobs
begin

text \<open>
  The threads of the control plane (\<open>api/service.py\<close>). A thread is a value that says where it stands;
  \<open>thread_step\<close> performs its next atomic action (one call of the store, one critical section of the lock, one
  read or write of the file system) and gives the threads that replace it. A job is a script of actions on the
  store and the file system (\<open>_generate_application\<close>, \<open>_run_validation\<close>). What the modernization and validation
  engines do in a job, the outcome of starting a thread and a locked database are the argument \<open>world\<close>. The
  pool of all threads, the calls of other clients and the restart of the process are the relation \<open>pool_step\<close>.
\<close>

subsection \<open>What the engines do\<close>

text \<open>The report of the modernization pipeline, the progress it announces, and the same for validation. A failure
  of the preparation is one of the candidate adapter or of the entry program; the files are what the build
  leaves in the directory of the candidate.\<close>

record engine_report =
  gr_success :: bool
  gr_errors :: "string list"
  gr_dir :: "string option"
  gr_entrypoint :: "string option"
  gr_discovered :: "string list"
  gr_program_ids :: "string list"
  gr_document :: json
  gr_limitations :: "string list"
  gr_recommendations :: "string list"
  gr_files :: "(string \<times> regular_file) list"

datatype generation = EngineRaised "string list" failure | EngineReported "string list" engine_report

record validation_outcome =
  vo_adapter :: "failure option"
  vo_prepare :: "failure option"
  vo_phases :: "string list"
  vo_files :: "(string \<times> regular_file) list option"
  vo_result :: "failure + (evidence_manifest \<times> verdict)"
  vo_proof :: "failure + json dict option"

text \<open>Everything a step takes from outside: the clock, the outcome of starting a thread and of taking the write
  lock, the discovery of a source, the engines, and what an upload extracts.\<close>

record world =
  wo_now :: string
  wo_launch :: "string option"
  wo_locked :: bool
  wo_discovery :: "json dict option"
  wo_generation :: generation
  wo_validation :: validation_outcome
  wo_detected :: string
  wo_extracted :: "exn + (string \<times> (string \<times> regular_file) list)"

text \<open>A call of the store that writes: it raises, and changes nothing, when the database is locked.\<close>

definition write_call :: "world \<Rightarrow> 'a op \<Rightarrow> service \<Rightarrow> (exn + 'a) \<times> service" where
  "write_call w f s = (if wo_locked w then (Inl (Py OperationalError), s) else call f s)"

subsection \<open>The actions of a job\<close>

datatype action =
    Snapshot "json dict option"
  | Progress run_stage
  | PlaceTree string "(string \<times> regular_file) list"
  | Report "json dict"
  | UpdateApplication "(string \<times> app_field) list"
  | SealBundle string
  | RecordBundle string "string option"
  | ResolveContract
  | Results evidence_manifest verdict
  | CheckConsistency
  | SaveRun
  | Fail failure

text \<open>The phases both pipelines announce; an unknown one is not recorded.\<close>

definition phase_stages :: "(string \<times> run_stage) list" where
  "phase_stages =
     map (\<lambda>s. (stage_value s, s)) [DISCOVERING, DISCOVERY_COMPLETED, ANALYZING, ANALYSIS_COMPLETED, PLANNING,
       PLAN_COMPLETED, TRANSFORMING, ASSEMBLING, ASSEMBLY_COMPLETED]"

definition validation_stages :: "(string \<times> run_stage) list" where
  "validation_stages =
     map (\<lambda>s. (stage_value s, s)) [EXECUTING_ORACLE, BUILDING, EXECUTING_GENERATED, COMPARING, VALIDATING_EVIDENCE]"

definition progress :: "(string \<times> run_stage) list \<Rightarrow> string list \<Rightarrow> action list" where
  "progress stages phases = map Progress (List.map_filter (map_of stages) phases)"

definition service_failure :: "string \<Rightarrow> failure" where
  "service_failure message = Client (api_detail ServiceError (Some message))"

text \<open>The report of the run with the entries of the pipeline's.\<close>

definition pipeline_entries :: "engine_report \<Rightarrow> json dict" where
  "pipeline_entries g =
     [(''pipeline_report'', gr_document g), (''limitations'', j_strs (gr_limitations g)),
      (''recommendations'', j_strs (gr_recommendations g))]"

definition merged_report :: "json dict option \<Rightarrow> json dict \<Rightarrow> json dict" where
  "merged_report old entries =
     foldl (\<lambda>d (k, v). dict_set k v d) (case old of None \<Rightarrow> [] | Some d \<Rightarrow> d) entries"

definition opt_field :: "string option \<Rightarrow> app_field" where
  "opt_field v = (case v of None \<Rightarrow> Null_field | Some t \<Rightarrow> Text_field t)"

definition generate_script :: "world \<Rightarrow> application_record \<Rightarrow> run_record \<Rightarrow> action list" where
  "generate_script w app run =
     (if ap_cobol_source_path app = None then [Fail (service_failure ''No COBOL source available for discovery'')]
      else (case wo_generation w of
        EngineRaised phases f \<Rightarrow> progress phase_stages phases @ [Fail f]
      | EngineReported phases g \<Rightarrow> progress phase_stages phases @
          (if \<not> gr_success g
           then [Fail (service_failure (''Pipeline generation failed: '' @ join ''; '' (gr_errors g)))]
           else if \<not> is_given (gr_dir g)
           then [Fail (service_failure (''Pipeline produced no generated project directory: ''
                  @ (if gr_limitations g = [] then ''unknown'' else join ''; '' (gr_limitations g))))]
           else
             let dir = or_empty (gr_dir g) in
             [PlaceTree dir (gr_files g), Report (merged_report (rr_report run) (pipeline_entries g)),
              UpdateApplication
                [(''discovered_program_ids'', List_field (gr_discovered g)), (''generated_app_path'', Text_field dir),
                 (''generated_entrypoint'', opt_field (gr_entrypoint g)),
                 (''generated_program_ids'', List_field (gr_program_ids g)), (''java_candidate_path'', Text_field dir)],
              SealBundle dir, RecordBundle dir (gr_entrypoint g)])))"

definition fail_if :: "failure option \<Rightarrow> action list" where
  "fail_if f = (case f of None \<Rightarrow> [] | Some x \<Rightarrow> [Fail x])"

definition validation_script :: "world \<Rightarrow> string \<Rightarrow> action list" where
  "validation_script w dir =
     (let v = wo_validation w in
      [ResolveContract] @ fail_if (vo_prepare v) @ progress validation_stages (vo_phases v)
      @ (case vo_files v of None \<Rightarrow> [] | Some files \<Rightarrow> [PlaceTree dir files])
      @ (case vo_result v of
           Inl f \<Rightarrow> [Fail f]
         | Inr (m, verdict) \<Rightarrow> [Results m verdict, CheckConsistency] @
             (case vo_proof v of
                Inl f \<Rightarrow> [Fail f]
              | Inr report \<Rightarrow> (case report of None \<Rightarrow> [] | Some d \<Rightarrow> [Report d]) @ [SealBundle dir, SaveRun])))"

text \<open>The discovery of the source is recorded first, when the run has a source.\<close>

definition snapshot_script :: "world \<Rightarrow> run_record \<Rightarrow> application_record \<Rightarrow> action list" where
  "snapshot_script w run app =
     (if run_source run app = None then [] else case wo_discovery w of None \<Rightarrow> [] | Some d \<Rightarrow> [Snapshot (Some d)])"

definition modernize_script :: "world \<Rightarrow> bool \<Rightarrow> application_record \<Rightarrow> run_record \<Rightarrow> action list" where
  "modernize_script w uploaded app run =
     snapshot_script w run app @
     (if uploaded
      then (case ap_java_candidate_path app of
              None \<Rightarrow> [Fail (service_failure ''No uploaded Java candidate available (internal/test-only path)'')]
            | Some dir \<Rightarrow> validation_script w dir)
      else
        generate_script w app run @ fail_if (vo_adapter (wo_validation w)) @
        (case wo_generation w of
           EngineReported _ g \<Rightarrow> validation_script w (or_empty (gr_dir g))
         | EngineRaised _ _ \<Rightarrow> []))"

definition revalidate_script ::
  "deployment \<Rightarrow> world \<Rightarrow> file_system \<Rightarrow> application_record \<Rightarrow> run_record \<Rightarrow> action list" where
  "revalidate_script de w fs app run =
     (case revalidation_target (de_production de) fs run app of
        Inl e \<Rightarrow> [Fail (job_failure e)]
      | Inr (_, dir) \<Rightarrow> fail_if (vo_adapter (wo_validation w)) @ validation_script w dir)"

text \<open>A step of a job that can fail: what it raised, the record of the run in memory, and the service after it.\<close>

type_synonym performed = "failure option \<times> run_record \<times> service"

definition or_fail :: "run_record \<Rightarrow> (exn + 'a) \<times> service \<Rightarrow> performed" where
  "or_fail run = (\<lambda>(r, s). (case r of Inl e \<Rightarrow> Some (job_failure e) | Inr _ \<Rightarrow> None, run, s))"

fun perform :: "deployment \<Rightarrow> world \<Rightarrow> application_record \<Rightarrow> action \<Rightarrow> run_record \<Rightarrow> service \<Rightarrow> performed" where
  "perform de w app (Snapshot d) run s =
     (case write_call w (set_run_discovery (rr_id run) d) s of
        (Inl e, s') \<Rightarrow> (None, run, s')
      | (Inr _, s') \<Rightarrow> (None, run\<lparr>rr_discovery_snapshot := d\<rparr>, s'))"
| "perform de w app (Progress st) run s =
     (let run' = run\<lparr>rr_stage := st\<rparr> in
      (None, run', snd (write_call w (update_run False run') s)))"
| "perform de w app (PlaceTree dir files) run s = (None, run, make_directory dir files s)"
| "perform de w app (Report d) run s = (None, run\<lparr>rr_report := Some d\<rparr>, s)"
| "perform de w app (UpdateApplication columns) run s =
     or_fail run (write_call w (update_application_fields (ap_id app) None columns) s)"
| "perform de w app (SealBundle dir) run s =
     (case compute_generated_seal (wo_now w) (sv_fs s dir) of
        Inl e \<Rightarrow> (Some (job_failure e), run, s)
      | Inr seal \<Rightarrow>
          (case write_call w (set_generated_seal (rr_id run) seal (Some (rr_generation run))) s of
             (Inl e, s') \<Rightarrow> (Some (job_failure e), run, s')
           | (Inr _, s') \<Rightarrow> (None, run\<lparr>rr_generated_seal := Some seal\<rparr>, s')))"
| "perform de w app (RecordBundle dir entrypoint) run s =
     (let run' = run\<lparr>rr_generated_app_path := Some dir, rr_generated_entrypoint := entrypoint\<rparr> in
      or_fail run' (write_call w (set_run_generated (rr_id run) (Some dir) entrypoint (Some (rr_generation run))) s))"
| "perform de w app ResolveContract run s =
     (case resolve_contract de s app (or_empty (run_source run app)) of
        Inl e \<Rightarrow> (Some (job_failure e), run, s)
      | Inr c \<Rightarrow> (None, run\<lparr>rr_contract := Some (ct_contract_id c)\<rparr>, s))"
| "perform de w app (Results m v) run s =
     (None, run\<lparr>rr_evidence_manifest := Some m, rr_verdict := Some v\<rparr>, s)"
| "perform de w app CheckConsistency run s = or_fail run (check_evidence_verdict_consistency run, s)"
| "perform de w app SaveRun run s = or_fail run (write_call w (update_run False run) s)"
| "perform de w app (Fail f) run s = (Some f, run, s)"

subsection \<open>The states of a thread\<close>

datatype job_kind = ModernizeJob string bool | RevalidateJob

datatype upload_kind = CobolSource | JavaCandidate

text \<open>What a request answers: a run, or that an application was changed.\<close>

datatype answer = RunAnswer "exn + run_record" | Accepted "exn + unit"

datatype thread =
    ModernizeRequest string bool string
  | ModernizeReserve run_record bool
  | ModernizeAdd run_record bool
  | ModernizeLaunch run_record bool
  | RevalidateRequest string
  | RevalidateLookup run_record
  | RevalidateReserve string string
  | RevalidateReset string string
  | RevalidateLaunch run_record
  | LaunchFailed run_record string
  | PersistFailed run_record nat answer
  | IngestRequest string
  | IngestReserve string
  | IngestExtract string
  | IngestName application_record string
  | IngestRecord application_record string "(string \<times> app_field) list"
  | IngestCleanup "string option"
  | UploadRequest upload_kind string "bytes dict" string
  | UploadWrite upload_kind string "bytes dict" string
  | UploadRecord upload_kind application_record string
  | UploadCleanup "string option"
  | Releasing answer
  | WorkerStart job_kind string
  | WorkerLoad job_kind run_record
  | WorkerRun run_record application_record "action list"
  | WorkerFinal run_record nat
  | WorkerExit "string option"
  | Answered answer
  | GaveUp string

text \<open>\<open>GaveUp i\<close> is what remains of a thread that ended without a terminal stage for run \<open>i\<close>; it takes no step.\<close>

definition is_request :: "thread \<Rightarrow> bool" where
  "is_request t = (case t of
     ModernizeRequest _ _ _ \<Rightarrow> True | RevalidateRequest _ \<Rightarrow> True | IngestRequest _ \<Rightarrow> True
   | UploadRequest _ _ _ _ \<Rightarrow> True | _ \<Rightarrow> False)"

subsection \<open>Helpers of the steps\<close>

definition new_run :: "string \<Rightarrow> string \<Rightarrow> application_record \<Rightarrow> run_record" where
  "new_run now i app =
     \<lparr>rr_id = i, rr_application_id = ap_id app, rr_workload_id = ap_workload_id app, rr_stage = CREATED,
      rr_created_at = now, rr_completed_at = None, rr_error = None, rr_evidence_manifest = None,
      rr_verdict = None, rr_report = None, rr_generation = 0, rr_contract = None,
      rr_approval_state = ''PENDING'', rr_approval_approver = None, rr_approval_reason = None,
      rr_approval_decided_at = None, rr_generated_seal = None, rr_last_stage = None,
      rr_source_path = ap_cobol_source_path app, rr_generated_app_path = None,
      rr_generated_entrypoint = None, rr_discovery_snapshot = None\<rparr>"

text \<open>The checks of \<open>modernize\<close> before a slot is taken.\<close>

definition modernize_preflight ::
  "deployment \<Rightarrow> string \<Rightarrow> string \<Rightarrow> bool \<Rightarrow> string \<Rightarrow> service \<Rightarrow> exn + run_record" where
  "modernize_preflight de now app_id uploaded i s =
     (if uploaded \<and> de_production de
      then raise_api ServiceError ''Uploaded Java candidate execution is disabled in production deployments''
      else bind_res (service_get_application app_id (sv_db s)) (\<lambda>app.
        if ap_cobol_source_path app = None
        then raise_api ServiceError ''No COBOL source uploaded for this application''
        else bind_res (check_target_runtime (ap_target_runtime app)) (\<lambda>_.
          bind_res (resolve_contract de s app (or_empty (ap_cobol_source_path app))) (\<lambda>_.
          Inr (new_run now i app)))))"

definition revalidate_preflight :: "deployment \<Rightarrow> run_record \<Rightarrow> service \<Rightarrow> exn + string" where
  "revalidate_preflight de run s =
     bind_res (service_get_application (rr_application_id run) (sv_db s)) (\<lambda>app.
     bind_res (revalidation_target (de_production de) (sv_fs s) run app) (\<lambda>(source, _).
     bind_res (resolve_contract de s app source) (\<lambda>c. Inr (ct_contract_id c))))"

definition launch_failure :: "string \<Rightarrow> string" where
  "launch_failure text = ''Failed to launch background worker: '' @ text"

text \<open>One attempt of \<open>_persist_final\<close>.\<close>

definition persist :: "world \<Rightarrow> run_record \<Rightarrow> service \<Rightarrow> bool \<times> service" where
  "persist w run s =
     (case write_call w (update_run False run) s of (Inr _, s') \<Rightarrow> (True, s') | (Inl _, s') \<Rightarrow> (False, s'))"

definition persist_attempts :: nat where
  "persist_attempts = 3"

text \<open>Whether a call that raised reset the run first.\<close>

definition was_reset :: "string \<Rightarrow> service \<Rightarrow> service \<Rightarrow> bool" where
  "was_reset i s s' \<longleftrightarrow> map_option rw_generation (find_run (sv_db s') i) \<noteq> map_option rw_generation (find_run (sv_db s) i)"

definition script_of ::
  "deployment \<Rightarrow> world \<Rightarrow> job_kind \<Rightarrow> file_system \<Rightarrow> application_record \<Rightarrow> run_record \<Rightarrow> action list" where
  "script_of de w k fs app run =
     (case k of
        ModernizeJob _ uploaded \<Rightarrow> modernize_script w uploaded app run
      | RevalidateJob \<Rightarrow> revalidate_script de w fs app run)"

definition job_application :: "job_kind \<Rightarrow> run_record \<Rightarrow> string" where
  "job_application k run = (case k of ModernizeJob app_id _ \<Rightarrow> app_id | RevalidateJob \<Rightarrow> rr_application_id run)"

text \<open>The name of an application after an ingestion: a detected name replaces a generic one; a given one is kept
  unless another application has it.\<close>

definition ingest_name :: "string \<Rightarrow> application_record \<Rightarrow> string option op" where
  "ingest_name detected app s =
     (if detected = [] \<or> detected = ''application'' then (Inr None, s)
      else if ap_name app = [] \<or> ap_name app = ''application''
      then (case unique_name detected s of (r, s') \<Rightarrow> (bind_res r (\<lambda>n. Inr (Some n)), s'))
      else (case find_application_by_name (ap_name app) s of
              (Inl e, s') \<Rightarrow> (Inl e, s')
            | (Inr None, s') \<Rightarrow> (Inr None, s')
            | (Inr (Some other), s') \<Rightarrow>
                if ap_id other = ap_id app then (Inr None, s')
                else (case unique_name (ap_name app) s' of (r, s2) \<Rightarrow> (bind_res r (\<lambda>n. Inr (Some n)), s2))))"

definition tree_entries :: "file_tree \<Rightarrow> (string \<times> regular_file) list" where
  "tree_entries t = map (\<lambda>(p, b). (as_posix p, Readable b)) (ft_files t)"

definition upload_column :: "upload_kind \<Rightarrow> string" where
  "upload_column k = (case k of CobolSource \<Rightarrow> ''cobol_source_path'' | JavaCandidate \<Rightarrow> ''java_candidate_path'')"

definition upload_action :: "upload_kind \<Rightarrow> string" where
  "upload_action k = (case k of CobolSource \<Rightarrow> ''replace the COBOL source'' | JavaCandidate \<Rightarrow> ''replace the Java candidate'')"

definition previous_upload :: "upload_kind \<Rightarrow> application_record \<Rightarrow> string option" where
  "previous_upload k app = (case k of CobolSource \<Rightarrow> ap_cobol_source_path app | JavaCandidate \<Rightarrow> ap_java_candidate_path app)"

definition refuse_upload :: "deployment \<Rightarrow> upload_kind \<Rightarrow> string \<Rightarrow> service \<Rightarrow> exn + unit" where
  "refuse_upload de k app_id s =
     (if k = JavaCandidate \<and> de_production de
      then raise_api ServiceError ''Uploaded Java candidates are disabled in production deployments''
      else refuse_while_run_active app_id (upload_action k) (sv_db s))"

subsection \<open>Steps\<close>

text \<open>A request that ends with an error before it holds a slot, and one that holds it.\<close>

abbreviation answer_run :: "exn + run_record \<Rightarrow> thread list" where
  "answer_run r \<equiv> [Answered (RunAnswer r)]"

abbreviation release_with :: "answer \<Rightarrow> thread list" where
  "release_with a \<equiv> [Releasing a]"

definition request_step :: "deployment \<Rightarrow> world \<Rightarrow> thread \<Rightarrow> service \<Rightarrow> thread list" where
  "request_step de w t s = (case t of
     ModernizeRequest a uploaded i \<Rightarrow>
       (case modernize_preflight de (wo_now w) a uploaded i s of
          Inl e \<Rightarrow> answer_run (Inl e) | Inr run \<Rightarrow> [ModernizeReserve run uploaded])
   | RevalidateRequest i \<Rightarrow>
       (case service_get_run i (sv_db s) of Inl e \<Rightarrow> answer_run (Inl e) | Inr run \<Rightarrow> [RevalidateLookup run])
   | RevalidateLookup run \<Rightarrow>
       (case revalidate_preflight de run s of
          Inl e \<Rightarrow> answer_run (Inl e) | Inr contract \<Rightarrow> [RevalidateReserve (rr_id run) contract])
   | IngestRequest a \<Rightarrow>
       (case refuse_while_run_active a ''re-ingest the application'' (sv_db s) of
          Inl e \<Rightarrow> [Answered (Accepted (Inl e))] | Inr _ \<Rightarrow> [IngestReserve a])
   | UploadRequest k a files ws \<Rightarrow>
       (case refuse_upload de k a s of
          Inl e \<Rightarrow> [Answered (Accepted (Inl e))] | Inr _ \<Rightarrow> [UploadWrite k a files ws])
   | _ \<Rightarrow> [t])"

text \<open>Taking a slot: where the request goes on, or its answer.\<close>

definition reserve_step :: "deployment \<Rightarrow> (exn \<Rightarrow> answer) \<Rightarrow> thread \<Rightarrow> service \<Rightarrow> thread list \<times> service" where
  "reserve_step de refused next s =
     (case acquire_job_slot de s of Inl e \<Rightarrow> ([Answered (refused e)], s) | Inr s' \<Rightarrow> ([next], s'))"

text \<open>Starting the worker thread of a run.\<close>

definition launch_step :: "world \<Rightarrow> job_kind \<Rightarrow> run_record \<Rightarrow> thread list" where
  "launch_step w k run =
     (case wo_launch w of
        None \<Rightarrow> [Answered (RunAnswer (Inr run)), WorkerStart k (rr_id run)]
      | Some t \<Rightarrow> [LaunchFailed run t])"

definition load_step :: "deployment \<Rightarrow> world \<Rightarrow> job_kind \<Rightarrow> run_record \<Rightarrow> service \<Rightarrow> thread list" where
  "load_step de w k run s =
     (let a = job_application k run;
          failing = (\<lambda>t. [WorkerFinal (failed_run (wo_now w) (''Application '' @ repr_str a @ t) run) persist_attempts])
      in case fst (get_application a (sv_db s)) of
           Inl _ \<Rightarrow> failing '' could not be loaded''
         | Inr None \<Rightarrow> failing '' not found''
         | Inr (Some app) \<Rightarrow> [WorkerRun run app (script_of de w k (sv_fs s) app run)])"

definition work_step ::
  "deployment \<Rightarrow> world \<Rightarrow> run_record \<Rightarrow> application_record \<Rightarrow> action list \<Rightarrow> service \<Rightarrow> thread list \<times> service" where
  "work_step de w run app script s =
     (case script of
        [] \<Rightarrow> ([WorkerFinal (completed_run (wo_now w) run) persist_attempts], s)
      | a # rest \<Rightarrow>
          (case perform de w app a run s of
             (None, run', s') \<Rightarrow> ([WorkerRun run' app rest], s')
           | (Some f, run', s') \<Rightarrow>
               ([WorkerFinal (failed_run (wo_now w) (public_run_error f (rr_id run)) run') persist_attempts], s')))"

text \<open>An attempt to persist a terminal stage: done, once more, or given up.\<close>

definition final_step ::
  "world \<Rightarrow> run_record \<Rightarrow> nat \<Rightarrow> thread list \<Rightarrow> (nat \<Rightarrow> thread) \<Rightarrow> thread list \<Rightarrow> service \<Rightarrow> thread list \<times> service" where
  "final_step w run n finished again lost s =
     (case persist w run s of
        (True, s') \<Rightarrow> (finished, s')
      | (False, s') \<Rightarrow> (if 1 < n then [again (n - 1)] else lost, s'))"

definition ingest_fields :: "string \<Rightarrow> string option \<Rightarrow> (string \<times> app_field) list" where
  "ingest_fields ws name =
     (''cobol_source_path'', Text_field ws) # (case name of None \<Rightarrow> [] | Some t \<Rightarrow> [(''name'', Text_field t)])"

definition ingest_step :: "world \<Rightarrow> thread \<Rightarrow> service \<Rightarrow> thread list \<times> service" where
  "ingest_step w t s = (case t of
     IngestExtract a \<Rightarrow>
       (case bind_res (service_get_application a (sv_db s)) (\<lambda>app. bind_res (wo_extracted w) (\<lambda>x. Inr (app, x))) of
          Inl e \<Rightarrow> (release_with (Accepted (Inl e)), s)
        | Inr (app, ws, files) \<Rightarrow> ([IngestName app ws], make_directory ws files s))
   | IngestName app ws \<Rightarrow>
       (case call (ingest_name (wo_detected w) app) s of
          (Inl e, s') \<Rightarrow> (release_with (Accepted (Inl e)), cleanup_temp_dir (Some ws) s')
        | (Inr name, s') \<Rightarrow> ([IngestRecord app ws (ingest_fields ws name)], s'))
   | IngestRecord app ws columns \<Rightarrow>
       (case write_call w (update_application_fields (ap_id app) None columns) s of
          (Inl e, s') \<Rightarrow> (release_with (Accepted (Inl e)), cleanup_temp_dir (Some ws) s')
        | (Inr _, s') \<Rightarrow> ([IngestCleanup (ap_cobol_source_path app)], s'))
   | IngestCleanup previous \<Rightarrow> (release_with (Accepted (Inr ())), cleanup_temp_dir previous s)
   | _ \<Rightarrow> ([t], s))"

definition upload_step :: "deployment \<Rightarrow> world \<Rightarrow> thread \<Rightarrow> service \<Rightarrow> thread list \<times> service" where
  "upload_step de w t s = (case t of
     UploadWrite k a files ws \<Rightarrow>
       (case bind_res (service_get_application a (sv_db s))
               (\<lambda>app. bind_res (write_upload (de_upload_limit de) files) (\<lambda>tree. Inr (app, tree))) of
          Inl e \<Rightarrow> ([Answered (Accepted (Inl e))], s)
        | Inr (app, tree) \<Rightarrow> ([UploadRecord k app ws], make_directory ws (tree_entries tree) s))
   | UploadRecord k app ws \<Rightarrow>
       (case write_call w (update_application_fields (ap_id app) None [(upload_column k, Text_field ws)]) s of
          (Inl e, s') \<Rightarrow> ([Answered (Accepted (Inl e))], s')
        | (Inr _, s') \<Rightarrow> ([UploadCleanup (previous_upload k app)], s'))
   | UploadCleanup previous \<Rightarrow> ([Answered (Accepted (Inr ()))], cleanup_temp_dir previous s)
   | _ \<Rightarrow> ([t], s))"

text \<open>The next atomic action of a thread: the threads that replace it, and the service after it.\<close>

fun thread_step :: "deployment \<Rightarrow> world \<Rightarrow> thread \<Rightarrow> service \<Rightarrow> thread list \<times> service" where
  "thread_step de w (ModernizeReserve run uploaded) s =
     reserve_step de (\<lambda>e. RunAnswer (Inl e)) (ModernizeAdd run uploaded) s"
| "thread_step de w (ModernizeAdd run uploaded) s =
     (case write_call w (add_run run) s of
        (Inl e, s') \<Rightarrow> (release_with (RunAnswer (Inl e)), s')
      | (Inr _, s') \<Rightarrow> ([ModernizeLaunch run uploaded], s'))"
| "thread_step de w (ModernizeLaunch run uploaded) s =
     (launch_step w (ModernizeJob (rr_application_id run) uploaded) run, s)"
| "thread_step de w (RevalidateReserve i contract) s =
     reserve_step de (\<lambda>e. RunAnswer (Inl e)) (RevalidateReset i contract) s"
| "thread_step de w (RevalidateReset i contract) s =
     (case write_call w (begin_revalidation (wo_now w) i (Some contract)) s of
        (Inl e, s') \<Rightarrow> (release_with (RunAnswer (Inl e)) @ (if was_reset i s s' then [GaveUp i] else []), s')
      | (Inr run, s') \<Rightarrow> ([RevalidateLaunch run], s'))"
| "thread_step de w (RevalidateLaunch run) s = (launch_step w RevalidateJob run, s)"
| "thread_step de w (LaunchFailed run t) s =
     ([PersistFailed (failed_run (wo_now w) (launch_failure t) run) persist_attempts
        (RunAnswer (raise_api ServiceError (launch_failure t)))], release_slot s)"
| "thread_step de w (PersistFailed run n a) s =
     final_step w run n [Answered a] (\<lambda>m. PersistFailed run m a) [GaveUp (rr_id run), Answered a] s"
| "thread_step de w (IngestReserve i) s = reserve_step de (\<lambda>e. Accepted (Inl e)) (IngestExtract i) s"
| "thread_step de w (IngestExtract i) s = ingest_step w (IngestExtract i) s"
| "thread_step de w (IngestName app ws) s = ingest_step w (IngestName app ws) s"
| "thread_step de w (IngestRecord app ws columns) s = ingest_step w (IngestRecord app ws columns) s"
| "thread_step de w (IngestCleanup previous) s = ingest_step w (IngestCleanup previous) s"
| "thread_step de w (UploadWrite k a files ws) s = upload_step de w (UploadWrite k a files ws) s"
| "thread_step de w (UploadRecord k app ws) s = upload_step de w (UploadRecord k app ws) s"
| "thread_step de w (UploadCleanup previous) s = upload_step de w (UploadCleanup previous) s"
| "thread_step de w (Releasing a) s = ([Answered a], release_slot s)"
| "thread_step de w (WorkerStart k i) s =
     ((case fst (get_run i (sv_db s)) of
         Inl _ \<Rightarrow> [WorkerExit (Some i)]
       | Inr None \<Rightarrow> [WorkerExit None]
       | Inr (Some run) \<Rightarrow> [WorkerLoad k run]), s)"
| "thread_step de w (WorkerLoad k run) s = (load_step de w k run s, s)"
| "thread_step de w (WorkerRun run app script) s = work_step de w run app script s"
| "thread_step de w (WorkerFinal run n) s =
     final_step w run n [WorkerExit None] (WorkerFinal run) [WorkerExit (Some (rr_id run))] s"
| "thread_step de w (WorkerExit lost) s = ((case lost of None \<Rightarrow> [] | Some i \<Rightarrow> [GaveUp i]), release_slot s)"
| "thread_step de w t s = (request_step de w t s, s)"

subsection \<open>The pool\<close>

text \<open>Calls of other clients that run next to the jobs: applications and approvals.\<close>

inductive client_call :: "db \<Rightarrow> db \<Rightarrow> bool" where
  client_add_application: "client_call d (snd (add_application a d))"
| client_update_application: "client_call d (snd (update_application a v d))"
| client_update_fields: "client_call d (snd (update_application_fields i v columns d))"
| client_approval: "client_call d (snd (set_run_approval now i decision approver reason v d))"

definition restarted :: "string \<Rightarrow> service \<Rightarrow> service" where
  "restarted now s = s\<lparr>sv_db := snd (mark_interrupted_runs now (rollback (sv_db s))), sv_active := 0\<rparr>"

inductive pool_step :: "deployment \<Rightarrow> thread list \<times> service \<Rightarrow> thread list \<times> service \<Rightarrow> bool" for de where
  pool_request: "is_request t \<Longrightarrow> pool_step de (ts, s) (ts @ [t], s)"
| pool_thread: "thread_step de w t s = (new, s') \<Longrightarrow> pool_step de (xs @ t # ys, s) (xs @ new @ ys, s')"
| pool_client: "client_call (sv_db s) d \<Longrightarrow> pool_step de (ts, s) (ts, s\<lparr>sv_db := d\<rparr>)"
| pool_restart: "pool_step de (ts, s) ([], restarted now s)"

definition first_start :: "file_system \<Rightarrow> thread list \<times> service" where
  "first_start fs = ([], \<lparr>sv_db = empty_db, sv_active = 0, sv_fs = fs\<rparr>)"

abbreviation pool_steps :: "deployment \<Rightarrow> thread list \<times> service \<Rightarrow> thread list \<times> service \<Rightarrow> bool" where
  "pool_steps de \<equiv> (pool_step de)\<^sup>*\<^sup>*"

definition pool_reachable :: "deployment \<Rightarrow> thread list \<times> service \<Rightarrow> bool" where
  "pool_reachable de p \<longleftrightarrow> (\<exists>fs. pool_steps de (first_start fs) p)"

end
