(* ===== verification/JobFacts.thy ===== *)
theory JobFacts
  imports JobThreads StoreProperties
begin

text \<open>
  What holds of the pool of threads in every state it can reach: the slots, the one thread that works on a run,
  and the histories of the store. The runs table is seen through \<open>attempt_of\<close>: of each run its attempt number and
  whether its stage is terminal.
\<close>

subsection \<open>Attempts\<close>

definition attempt_of :: "db \<Rightarrow> string \<Rightarrow> (int \<times> bool) option" where
  "attempt_of d i = map_option (\<lambda>w. (rw_generation w, is_terminal_text (rw_stage w))) (find_run d i)"

lemma attempt_same_runs: "db_runs d' = db_runs d \<Longrightarrow> attempt_of d' = attempt_of d"
  by (simp add: attempt_of_def find_run_def fun_eq_iff)

lemma attempt_commit [simp]: "attempt_of (commit d) = attempt_of d"
  by (rule attempt_same_runs) simp

lemma attempt_frame [simp]:
  "attempt_of (d\<lparr>db_events := e\<rparr>) = attempt_of d" "attempt_of (d\<lparr>db_apps := a\<rparr>) = attempt_of d"
  by (rule attempt_same_runs; simp)+

lemma attempt_update_runs:
  assumes "keeps_run_id f"
    and "\<And>w. find_run d i = Some w \<Longrightarrow> p w \<Longrightarrow>
      (rw_generation (f w), is_terminal_text (rw_stage (f w))) = (rw_generation w, is_terminal_text (rw_stage w))"
  shows "attempt_of (update_runs p f d) i = attempt_of d i"
  using assms(2) by (cases "find_run d i") (simp_all add: attempt_of_def find_run_def find_run_updated [OF assms(1)])

lemma attempt_rewritten:
  assumes "keeps_run_id f" "\<And>w. rw_generation (f w) = rw_generation w \<and> rw_stage (f w) = rw_stage w"
  shows "attempt_of (update_runs p f d) = attempt_of d"
  by (rule ext, rule attempt_update_runs [OF assms(1)]) (simp add: assms(2))

text \<open>Every run that is stored at some stage the service knows has one of these.\<close>

lemma attempt_Some: "attempt_of d i = Some (g, b) \<longleftrightarrow>
    (\<exists>w. find_run d i = Some w \<and> rw_generation w = g \<and> is_terminal_text (rw_stage w) = b)"
  by (auto simp: attempt_of_def)

lemma attempt_None: "attempt_of d i = None \<longleftrightarrow> find_run d i = None"
  by (simp add: attempt_of_def)

subsection \<open>What a call does to the attempts\<close>

named_theorems quiet \<open>calls that change no attempt\<close>

lemma add_application_quiet [quiet]: "attempt_of (snd (add_application a d)) = attempt_of d"
  by (simp add: add_application_def)

lemma update_app_where_quiet: "attempt_of (snd (update_app_where i e f d)) = attempt_of d"
  by (simp add: update_app_where_def Let_def split: option.split)

lemma update_application_quiet [quiet]: "attempt_of (snd (update_application a e d)) = attempt_of d"
  by (simp add: update_application_def update_app_where_quiet)

lemma update_fields_quiet [quiet]: "attempt_of (snd (update_application_fields i e cs d)) = attempt_of d"
  by (simp add: update_application_fields_def Let_def update_app_where_quiet)

lemma write_run_quiet:
  assumes "keeps_run_id f" "\<And>w. rw_generation (f w) = rw_generation w \<and> rw_stage (f w) = rw_stage w"
  shows "attempt_of (snd (write_run stale i e f d)) = attempt_of d"
  by (simp add: write_run_def attempt_rewritten [OF assms] split: option.split)

lemma set_generated_seal_quiet [quiet]: "attempt_of (snd (set_generated_seal i seal e d)) = attempt_of d"
  unfolding set_generated_seal_def by (rule write_run_quiet) (simp_all add: keeps_run_id_def)

lemma set_run_generated_quiet [quiet]: "attempt_of (snd (set_run_generated i p q e d)) = attempt_of d"
  unfolding set_run_generated_def set_run_columns_def by (rule write_run_quiet) (simp_all add: keeps_run_id_def)

lemma set_run_discovery_quiet [quiet]: "attempt_of (snd (set_run_discovery i snap d)) = attempt_of d"
proof -
  have "attempt_of (snd (set_run_columns i (\<lambda>w. w\<lparr>rw_discovery_json := t\<rparr>) None d)) = attempt_of d" for t
    unfolding set_run_columns_def by (rule write_run_quiet) (simp_all add: keeps_run_id_def)
  then show ?thesis by (simp add: set_run_discovery_def split: sum.split)
qed

lemma find_run_commit [simp]: "find_run (commit d) i = find_run d i"
  by (simp add: find_run_def)

lemma rollback_quiet:
  assumes "store_inv d"
  shows "attempt_of (rollback d) = attempt_of d"
proof
  fix i
  have r: "find (\<lambda>w. rw_id w = i) xs = None \<longleftrightarrow> i \<notin> rw_id ` set xs" for xs by (auto simp: find_None_iff)
  let ?k = "\<lambda>w. if rw_id w = i then [(rw_generation w, is_terminal_text (rw_stage w))] else []"
  have f: "map_option (\<lambda>w. (rw_generation w, is_terminal_text (rw_stage w))) (find (\<lambda>w. rw_id w = i) xs)
      = (case concat (map ?k xs) of [] \<Rightarrow> None | a # _ \<Rightarrow> Some a)" for xs
    by (induction xs) auto
  have "map ?k (db_runs d) = map ?k (db_committed d)"
    by (rule anchor_map [OF store_invD(5) [OF assms]]) simp
  then show "attempt_of (rollback d) i = attempt_of d i" by (simp add: attempt_of_def find_run_def f)
qed

lemma approval_quiet:
  assumes "store_inv d"
  shows "attempt_of (snd (set_run_approval now i st approver reason e d)) = attempt_of d"
proof -
  have "attempt_of (update_runs (bound_to i e) (\<lambda>w. w\<lparr>rw_approval_state := st, rw_approval_approver := a,
      rw_approval_reason := r, rw_approval_decided_at := n\<rparr>) d) = attempt_of d" for st a r n
    by (rule attempt_rewritten) (simp_all add: keeps_run_id_def)
  then show ?thesis
    using rollback_quiet [OF assms] by (simp add: set_run_approval_def Let_def split: option.split)
qed

text \<open>The calls of a worker and of a request on a run.\<close>

lemma update_run_attempt:
  assumes "update_run False r d = (res, d')"
  shows "case res of
      Inl _ \<Rightarrow> attempt_of d' = attempt_of d
    | Inr _ \<Rightarrow> attempt_of d' = (attempt_of d)(rr_id r \<mapsto> (rr_generation r, rr_stage r \<in> set terminal_stages))
        \<and> (\<exists>b. attempt_of d (rr_id r) = Some (rr_generation r, b) \<and> (b \<longrightarrow> rr_stage r \<in> set terminal_stages))"
proof (cases "d' = d \<and> (\<exists>e. res = Inl e)")
  case True
  then show ?thesis by auto
next
  case False
  let ?p = "\<lambda>x. rw_id x = rr_id r"
  obtain w cur where w: "find_run d (rr_id r) = Some w"
    and cur: "parse_stage (rw_stage w) ''persisted run stage'' = Inr cur"
    and gen: "rr_generation r = rw_generation w" and val: "is_valid_transition cur (rr_stage r)"
    using assms False by (auto simp: update_run_def Let_def raise_api_def split: option.splits sum.splits if_splits)
  let ?a = "last_stage_anchor (rr_stage r) (rw_last_stage w)"
  let ?s1 = "if ?a \<noteq> rw_last_stage w then update_runs ?p (\<lambda>x. x\<lparr>rw_last_stage := ?a\<rparr>) d else d"
  have s1: "attempt_of ?s1 = attempt_of d"
    by (simp add: attempt_rewritten keeps_run_id_def)
  have st: "rw_stage w = stage_value cur" by (rule parse_stage_Inr [OF cur])
  show ?thesis
  proof (cases "run_params r")
    case (Inl e)
    then show ?thesis using assms w cur gen val s1 by (auto simp: update_run_def Let_def)
  next
    case (Inr blobs)
    obtain ev ve rp where b: "blobs = (ev, ve, rp)" by (cases blobs) auto
    have k: "keeps_run_id (run_columns r blobs)" by (simp add: keeps_run_id_def run_columns_def b)
    have d': "d' = commit (update_runs ?p (run_columns r blobs) ?s1)" "res = Inr ()"
      using assms w cur gen val Inr by (auto simp: update_run_def Let_def)
    have "attempt_of (update_runs ?p (run_columns r blobs) ?s1)
        = (attempt_of d)(rr_id r \<mapsto> (rr_generation r, rr_stage r \<in> set terminal_stages))"
    proof
      fix i
      have f: "find_run (update_runs ?p (run_columns r blobs) ?s1) i
          = map_option (\<lambda>x. if rw_id x = rr_id r then run_columns r blobs x else x) (find_run ?s1 i)"
        by (simp only: find_run_def db_frame find_run_updated [OF k])
      show "attempt_of (update_runs ?p (run_columns r blobs) ?s1) i
          = ((attempt_of d)(rr_id r \<mapsto> (rr_generation r, rr_stage r \<in> set terminal_stages))) i"
      proof (cases "i = rr_id r")
        case True
        have "find_run ?s1 (rr_id r) \<noteq> None" using s1 w attempt_None by (metis option.distinct(1))
        then obtain x where x: "find_run ?s1 (rr_id r) = Some x" by blast
        with find_run_mem [OF x] show ?thesis
          unfolding attempt_of_def [of "update_runs _ _ _"] f
          by (simp add: True run_columns_def b is_terminal_text_iff)
      next
        case False
        have "attempt_of (update_runs ?p (run_columns r blobs) ?s1) i = attempt_of ?s1 i"
          by (rule attempt_update_runs [OF k]) (use False find_run_mem in auto)
        with s1 False show ?thesis by simp
      qed
    qed
    moreover have "attempt_of d (rr_id r) = Some (rr_generation r, cur \<in> set terminal_stages)"
      using w gen st by (simp add: attempt_of_def is_terminal_text_iff)
    moreover have "cur \<in> set terminal_stages \<Longrightarrow> rr_stage r \<in> set terminal_stages"
      using val by (auto simp: is_valid_transition_def split: if_splits)
    ultimately show ?thesis by (simp add: d')
  qed
qed

lemma add_run_attempt:
  assumes "add_run r d = (res, d')"
  shows "case res of
      Inl _ \<Rightarrow> d' = d
    | Inr _ \<Rightarrow> attempt_of d' = (attempt_of d)(rr_id r \<mapsto> (rr_generation r, rr_stage r \<in> set terminal_stages))
        \<and> attempt_of d (rr_id r) = None"
proof (cases res)
  case (Inl e)
  then show ?thesis using assms by (auto simp: add_run_def raise_api_def split: sum.splits if_splits)
next
  case (Inr x)
  with assms obtain blobs snap where none: "find_run d (rr_id r) = None"
    and d': "d' = commit (d\<lparr>db_runs := db_runs d @ [new_run_row r blobs snap]\<rparr>)"
    by (auto simp: add_run_def raise_api_def bind_res_eq_Inr split: sum.splits if_splits)
  obtain ev ve rp where b: "blobs = (ev, ve, rp)" by (cases blobs) auto
  have app: "find P (xs @ [y]) = (case find P xs of None \<Rightarrow> if P y then Some y else None | Some z \<Rightarrow> Some z)"
    for P xs and y :: run_row by (induction xs) auto
  have "attempt_of d' = (attempt_of d)(rr_id r \<mapsto> (rr_generation r, rr_stage r \<in> set terminal_stages))"
    using none unfolding attempt_of_def find_run_def d'
    by (auto simp: app new_run_row_def b is_terminal_text_iff fun_eq_iff split: option.split)
  with none Inr show ?thesis by (simp add: attempt_None)
qed

lemma begin_revalidation_rows:
  assumes "begin_revalidation now i contract d = (res, d')" "\<not> (d' = d \<and> (\<exists>e. res = Inl e))"
  obtains w cur where "find_run d i = Some w" "parse_stage (rw_stage w) ''persisted run stage'' = Inr cur"
    "cur \<in> set terminal_stages"
    "db_runs d' = db_runs (update_runs (\<lambda>x. rw_id x = i) (reset_row (rw_generation w + 1) contract) d)"
proof -
  obtain w cur where w: "find_run d i = Some w"
    and cur: "parse_stage (rw_stage w) ''persisted run stage'' = Inr cur" and t: "cur \<in> set terminal_stages"
    using assms
    by (auto simp: begin_revalidation_def Let_def raise_api_def split: option.splits sum.splits if_splits)
  moreover have "db_runs d' = db_runs (update_runs (\<lambda>x. rw_id x = i) (reset_row (rw_generation w + 1) contract) d)"
    using assms(1) w cur t by (auto simp: begin_revalidation_def Let_def split: option.splits if_splits)
  ultimately show thesis using that by blast
qed

lemma begin_revalidation_attempt:
  assumes "begin_revalidation now i contract d = (res, d')"
  shows "d' = d \<and> (\<exists>e. res = Inl e) \<or>
    (\<exists>g. attempt_of d i = Some (g, True) \<and> attempt_of d' = (attempt_of d)(i \<mapsto> (g + 1, False))
      \<and> (\<forall>r. res = Inr r \<longrightarrow> rr_id r = i \<and> rr_generation r = g + 1 \<and> rr_stage r = CREATED))"
proof (cases "d' = d \<and> (\<exists>e. res = Inl e)")
  case False
  from begin_revalidation_rows [OF assms False] obtain w cur where w: "find_run d i = Some w"
    and cur: "parse_stage (rw_stage w) ''persisted run stage'' = Inr cur" and t: "cur \<in> set terminal_stages"
    and runs: "db_runs d' = db_runs (update_runs (\<lambda>x. rw_id x = i) (reset_row (rw_generation w + 1) contract) d)" .
  let ?f = "reset_row (rw_generation w + 1) contract"
  let ?s1 = "update_runs (\<lambda>x. rw_id x = i) ?f d"
  have k: "keeps_run_id ?f" by (simp add: keeps_run_id_def reset_row_def)
  have find_s1: "find_run ?s1 j = map_option (\<lambda>x. if rw_id x = i then ?f x else x) (find_run d j)" for j
    by (simp only: find_run_def db_frame find_run_updated [OF k])
  have fi: "find_run d' i = Some (?f w)"
    using find_s1 [of i] w find_run_mem [OF w] runs by (simp add: find_run_def)
  have "attempt_of d' = (attempt_of d)(i \<mapsto> (rw_generation w + 1, False))"
  proof
    fix j
    show "attempt_of d' j = ((attempt_of d)(i \<mapsto> (rw_generation w + 1, False))) j"
    proof (cases "j = i")
      case True
      then show ?thesis using fi by (simp add: attempt_of_def reset_row_def is_terminal_text_def terminal_stages_def)
    next
      case False
      have "attempt_of d' j = attempt_of ?s1 j" using attempt_same_runs [OF runs] by simp
      also have "\<dots> = attempt_of d j" by (rule attempt_update_runs [OF k]) (use False find_run_mem in auto)
      finally show ?thesis using False by simp
    qed
  qed
  moreover have "attempt_of d i = Some (rw_generation w, True)"
    using w parse_stage_Inr [OF cur] t by (simp add: attempt_of_def is_terminal_text_iff)
  moreover have "rr_id r = i \<and> rr_generation r = rw_generation w + 1 \<and> rr_stage r = CREATED" if "res = Inr r" for r
  proof -
    have "find_run d' i = Some x \<Longrightarrow> res = run_from_row x" for x
      using assms w cur t by (auto simp: begin_revalidation_def Let_def find_run_def split: option.splits if_splits)
    with fi that have "run_from_row (?f w) = Inr r" by metis
    moreover have "stage_value st = ''CREATED'' \<Longrightarrow> st = CREATED" for st by (rule stage_value_inj) simp
    ultimately show ?thesis
      using find_run_mem [OF w]
      by (auto simp: run_from_row_def bind_res_eq_Inr reset_row_def dest!: parse_stage_Inr dest: sym)
  qed
  ultimately show ?thesis by blast
qed simp

lemma interrupted_attempt:
  assumes "runs_ok d"
  shows "attempt_of (snd (mark_interrupted_runs now d)) i = map_option (\<lambda>(g, b). (g, True)) (attempt_of d i)"
proof -
  let ?rows = "filter (\<lambda>w. \<not> is_terminal_text (rw_stage w)) (db_runs d)"
  let ?f = "\<lambda>w. w\<lparr>rw_stage := stage_value STAGE_FAILED, rw_completed_at := Some now,
      rw_error := Some ''Interrupted by process restart before completion''\<rparr>"
  have k: "keeps_run_id ?f" by (simp add: keeps_run_id_def)
  have f: "find_run (update_runs (\<lambda>w. rw_id w \<in> set (map rw_id ?rows)) ?f d) i
      = map_option (\<lambda>w. if rw_id w \<in> set (map rw_id ?rows) then ?f w else w) (find_run d i)"
    by (simp only: find_run_def db_frame find_run_updated [OF k])
  show ?thesis
  proof (cases "find_run d i")
    case None
    then show ?thesis using f by (simp add: mark_interrupted_runs_def Let_def attempt_of_def)
  next
    case (Some w)
    have t: "is_terminal_text (rw_stage w) \<or> rw_id w \<in> set (map rw_id ?rows)"
      using find_run_mem [OF Some] by auto
    have "is_terminal_text ''FAILED''" by (simp add: is_terminal_text_def terminal_stages_def)
    with Some t f show ?thesis
      by (cases "?rows = []") (auto simp: mark_interrupted_runs_def Let_def attempt_of_def)
  qed
qed

end
