(* ===== verification/JobPool.thy ===== *)
theory JobPool
  imports JobFacts
begin

text \<open>
  The invariant of the pool of threads: the slots in use are those the threads hold, a run is unfinished exactly
  while one thread owns it, and what a thread carries of a run is its current attempt. Each step of a thread is
  described by its effect (\<open>step_effect\<close>), the history of store calls it makes, and the slots it takes or
  returns; the three together keep the invariant.
\<close>

subsection \<open>What a thread holds and owns\<close>

definition holds_slot :: "thread \<Rightarrow> bool" where
  "holds_slot t = (case t of
     ModernizeAdd _ _ \<Rightarrow> True | ModernizeLaunch _ _ \<Rightarrow> True
   | RevalidateReset _ _ \<Rightarrow> True | RevalidateLaunch _ \<Rightarrow> True | LaunchFailed _ _ \<Rightarrow> True
   | IngestExtract _ \<Rightarrow> True | IngestName _ _ \<Rightarrow> True | IngestRecord _ _ _ \<Rightarrow> True | IngestCleanup _ \<Rightarrow> True
   | Releasing _ \<Rightarrow> True | WorkerStart _ _ \<Rightarrow> True | WorkerLoad _ _ \<Rightarrow> True | WorkerRun _ _ _ \<Rightarrow> True
   | WorkerFinal _ _ \<Rightarrow> True | WorkerExit _ \<Rightarrow> True
   | _ \<Rightarrow> False)"

definition slots :: "thread list \<Rightarrow> nat" where
  "slots ts = length (filter holds_slot ts)"

text \<open>The run whose current attempt a thread must bring to an end; a thread that gave up still owns it.\<close>

definition owned :: "thread \<Rightarrow> string option" where
  "owned t = (case t of
     ModernizeLaunch run _ \<Rightarrow> Some (rr_id run) | RevalidateLaunch run \<Rightarrow> Some (rr_id run)
   | LaunchFailed run _ \<Rightarrow> Some (rr_id run) | PersistFailed run _ _ \<Rightarrow> Some (rr_id run)
   | WorkerStart _ i \<Rightarrow> Some i | WorkerLoad _ run \<Rightarrow> Some (rr_id run) | WorkerRun run _ _ \<Rightarrow> Some (rr_id run)
   | WorkerFinal run _ \<Rightarrow> Some (rr_id run) | WorkerExit lost \<Rightarrow> lost | GaveUp i \<Rightarrow> Some i
   | _ \<Rightarrow> None)"

definition owners :: "thread list \<Rightarrow> string \<Rightarrow> nat" where
  "owners ts i = length (filter (\<lambda>t. owned t = Some i) ts)"

definition unfinished :: "db \<Rightarrow> string \<Rightarrow> nat" where
  "unfinished d i = (case attempt_of d i of Some (g, False) \<Rightarrow> 1 | _ \<Rightarrow> 0)"

definition current :: "db \<Rightarrow> run_record \<Rightarrow> bool" where
  "current d run \<longleftrightarrow> attempt_of d (rr_id run) = Some (rr_generation run, False)"

definition running :: "run_record \<Rightarrow> bool" where
  "running run \<longleftrightarrow> rr_stage run \<notin> set terminal_stages"

definition keeps_running :: "action \<Rightarrow> bool" where
  "keeps_running a = (case a of Progress st \<Rightarrow> st \<notin> set terminal_stages | _ \<Rightarrow> True)"

definition thread_ok :: "db \<Rightarrow> thread \<Rightarrow> bool" where
  "thread_ok d t = (case t of
     ModernizeReserve run _ \<Rightarrow> fresh_run run \<and> running run
   | ModernizeAdd run _ \<Rightarrow> fresh_run run \<and> running run
   | ModernizeLaunch run _ \<Rightarrow> current d run \<and> running run
   | RevalidateLaunch run \<Rightarrow> current d run \<and> running run
   | LaunchFailed run _ \<Rightarrow> current d run
   | WorkerLoad _ run \<Rightarrow> current d run \<and> running run
   | WorkerRun run _ script \<Rightarrow> current d run \<and> running run \<and> list_all keeps_running script
   | PersistFailed run _ _ \<Rightarrow> current d run \<and> \<not> running run
   | WorkerFinal run _ \<Rightarrow> current d run \<and> \<not> running run
   | WorkerStart _ i \<Rightarrow> unfinished d i = 1
   | WorkerExit lost \<Rightarrow> (\<forall>i. lost = Some i \<longrightarrow> unfinished d i = 1)
   | GaveUp i \<Rightarrow> unfinished d i = 1
   | _ \<Rightarrow> True)"

named_theorems pool_defs \<open>what a state of a thread holds, owns and carries\<close>

lemmas [pool_defs] = holds_slot_def owned_def thread_ok_def

lemma owners_simps [simp]:
  "owners [] i = 0" "owners (t # ts) i = (if owned t = Some i then 1 else 0) + owners ts i"
  "owners (ts @ us) i = owners ts i + owners us i"
  by (simp_all add: owners_def)

lemma slots_simps [simp]:
  "slots [] = 0" "slots (t # ts) = (if holds_slot t then 1 else 0) + slots ts" "slots (ts @ us) = slots ts + slots us"
  by (simp_all add: slots_def)

lemma unfinished_le: "unfinished d i \<le> 1"
  by (simp add: unfinished_def split: option.split bool.split)

lemma unfinished_eq: "unfinished d i = 1 \<longleftrightarrow> (\<exists>g. attempt_of d i = Some (g, False))"
  by (auto simp: unfinished_def split: option.splits bool.splits)

lemma unfinished_same: "attempt_of d' i = attempt_of d i \<Longrightarrow> unfinished d' i = unfinished d i"
  by (simp add: unfinished_def)

lemma current_unfinished: "current d run \<Longrightarrow> unfinished d (rr_id run) = 1"
  by (simp add: current_def unfinished_def)

lemma owned_unfinished: "thread_ok d t \<Longrightarrow> owned t = Some i \<Longrightarrow> unfinished d i = 1"
  by (cases t) (auto simp: pool_defs dest: current_unfinished)

text \<open>What a thread carries stays true as long as the attempts of the runs it owns stay the same.\<close>

lemma thread_ok_same: "thread_ok d t \<Longrightarrow> (\<And>i. owned t = Some i \<Longrightarrow> attempt_of d' i = attempt_of d i) \<Longrightarrow> thread_ok d' t"
  by (cases t) (auto simp: pool_defs current_def unfinished_def)

subsection \<open>Services\<close>

lemma call_eq: "call f s = (r, s') \<longleftrightarrow> f (sv_db s) = (r, sv_db s') \<and> s' = s\<lparr>sv_db := sv_db s'\<rparr>"
  by (cases "f (sv_db s)") (auto simp: call_def)

lemma call_frame [simp]: "sv_active (snd (call f s)) = sv_active s" "sv_db (snd (call f s)) = snd (f (sv_db s))"
  by (simp_all add: call_def split: prod.split)

lemma files_frame [simp]:
  "sv_active (make_directory p files s) = sv_active s" "sv_db (make_directory p files s) = sv_db s"
  "sv_active (cleanup_temp_dir q s) = sv_active s" "sv_db (cleanup_temp_dir q s) = sv_db s"
  "sv_active (release_slot s) = sv_active s - 1" "sv_db (release_slot s) = sv_db s"
  by (simp_all add: make_directory_def cleanup_temp_dir_def release_slot_def split: option.split)

text \<open>A call that writes leaves what the store leaves, or nothing when the database is locked.\<close>

lemma write_call_eq: "write_call w f s = (r, s') \<longleftrightarrow>
    (if wo_locked w then r = Inl (Py OperationalError) \<and> s' = s else call f s = (r, s'))"
  by (auto simp: write_call_def)

lemma write_call_frame: "write_call w f s = (r, s') \<Longrightarrow> sv_active s' = sv_active s \<and> sv_fs s' = sv_fs s
    \<and> (sv_db s' = sv_db s \<or> sv_db s' = snd (f (sv_db s)))"
  by (auto simp: write_call_def call_def split: prod.splits if_splits)

lemma quiet_write: "write_call w f s = (r, s') \<Longrightarrow> attempt_of (snd (f (sv_db s))) = attempt_of (sv_db s) \<Longrightarrow>
    attempt_of (sv_db s') = attempt_of (sv_db s) \<and> sv_active s' = sv_active s"
  using write_call_frame by metis

subsection \<open>The actions of a job\<close>

lemma update_run_keeps:
  assumes "current d run" "running run" "update_run False run d = (r, d')"
  shows "attempt_of d' = attempt_of d"
  using update_run_attempt [OF assms(3)] assms(1,2)
  by (cases r) (auto simp: current_def running_def fun_eq_iff)

text \<open>An action of a worker changes no attempt, and keeps the record it works on at its run, attempt and
  a stage that is not terminal.\<close>

lemma perform_keeps:
  assumes "current (sv_db s) run" "running run" "keeps_running a" "perform de w app a run s = (f, run', s')"
  shows "attempt_of (sv_db s') = attempt_of (sv_db s)" "rr_id run' = rr_id run" "rr_generation run' = rr_generation run"
    "running run'" "sv_active s' = sv_active s"
proof -
  have "attempt_of (sv_db s') = attempt_of (sv_db s) \<and> rr_id run' = rr_id run \<and> rr_generation run' = rr_generation run
    \<and> running run' \<and> sv_active s' = sv_active s"
  proof (cases a)
    case (Snapshot d)
    then show ?thesis using assms set_run_discovery_quiet
      by (auto simp: running_def split: prod.splits sum.splits dest: quiet_write)
  next
    case (Progress st)
    let ?r = "run\<lparr>rr_stage := st\<rparr>"
    have c: "current (sv_db s) ?r" "running ?r"
      using assms Progress by (simp_all add: current_def running_def keeps_running_def)
    have "attempt_of (snd (update_run False ?r (sv_db s))) = attempt_of (sv_db s)"
      by (cases "update_run False ?r (sv_db s)") (simp add: update_run_keeps [OF c])
    moreover obtain r t where w: "write_call w (update_run False ?r) s = (r, t)" by fastforce
    ultimately have "attempt_of (sv_db t) = attempt_of (sv_db s) \<and> sv_active t = sv_active s" using quiet_write by blast
    with assms Progress c w show ?thesis by (auto simp: Let_def)
  next
    case (UpdateApplication columns)
    then show ?thesis using assms update_fields_quiet
      by (auto simp: or_fail_def split: prod.splits dest: quiet_write)
  next
    case (SealBundle dir)
    then show ?thesis using assms set_generated_seal_quiet
      by (auto simp: running_def split: prod.splits sum.splits dest: quiet_write)
  next
    case (RecordBundle dir e)
    then show ?thesis using assms set_run_generated_quiet
      by (auto simp: or_fail_def Let_def running_def split: prod.splits dest: quiet_write)
  next
    case SaveRun
    have "attempt_of (snd (update_run False run (sv_db s))) = attempt_of (sv_db s)"
      by (cases "update_run False run (sv_db s)") (simp add: update_run_keeps [OF assms(1,2)])
    then show ?thesis using assms SaveRun
      by (auto simp: or_fail_def split: prod.splits dest: quiet_write)
  qed (use assms in \<open>auto simp: running_def or_fail_def split: sum.splits\<close>)
  then show "attempt_of (sv_db s') = attempt_of (sv_db s)" "rr_id run' = rr_id run" "rr_generation run' = rr_generation run"
    "running run'" "sv_active s' = sv_active s" by simp_all
qed

text \<open>No script announces a terminal stage.\<close>

lemma progress_running:
  assumes "list_all (\<lambda>(_, st). st \<notin> set terminal_stages) stages"
  shows "list_all keeps_running (progress stages phases)"
proof -
  have "st \<notin> set terminal_stages" if "map_of stages p = Some st" for p st
    using map_of_SomeD [OF that] assms by (auto simp: list_all_iff)
  then show ?thesis
    by (auto simp: progress_def list_all_iff keeps_running_def List.map_filter_def)
qed

lemma phases_running: "list_all keeps_running (progress phase_stages phases)"
  "list_all keeps_running (progress validation_stages phases)"
  by (rule progress_running; simp add: phase_stages_def validation_stages_def terminal_stages_def)+

lemma keeps_running_simps [simp]:
  "keeps_running (Progress st) \<longleftrightarrow> st \<notin> set terminal_stages" "keeps_running (Snapshot x)"
  "keeps_running (PlaceTree dir files)" "keeps_running (Report d)" "keeps_running (UpdateApplication c)"
  "keeps_running (SealBundle dir)" "keeps_running (RecordBundle dir e)" "keeps_running ResolveContract"
  "keeps_running (Results m v)" "keeps_running CheckConsistency" "keeps_running SaveRun" "keeps_running (Fail f)"
  by (simp_all add: keeps_running_def)

lemma script_running: "list_all keeps_running (script_of de w k fs app run)"
proof -
  have f: "list_all keeps_running (fail_if x)" for x by (simp add: fail_if_def split: option.split)
  have v: "list_all keeps_running (validation_script w dir)" for dir
    by (auto simp: validation_script_def Let_def f phases_running split: option.split sum.split prod.split)
  have g: "list_all keeps_running (generate_script w app run)"
    by (auto simp: generate_script_def Let_def phases_running split: generation.split)
  show ?thesis
    by (auto simp: script_of_def modernize_script_def revalidate_script_def snapshot_script_def f v g
        split: job_kind.split option.split generation.split sum.split prod.split)
qed

subsection \<open>The effect of a step\<close>

text \<open>A thread is replaced: the threads that own a run change exactly as the run is opened and finished, the new
  threads carry what is current, and only the runs the thread owns, and those that nobody owns, change.\<close>

definition step_effect :: "db \<Rightarrow> thread \<Rightarrow> thread list \<Rightarrow> db \<Rightarrow> bool" where
  "step_effect d t new d' \<longleftrightarrow>
     (\<forall>i. owners new i + unfinished d i = owners [t] i + unfinished d' i)
     \<and> (\<forall>u \<in> set new. thread_ok d' u)
     \<and> (\<forall>i. attempt_of d' i = attempt_of d i \<or> owned t = Some i \<or> unfinished d i = 0)"

lemma quiet_effect:
  assumes "attempt_of d' = attempt_of d" "\<And>i. owners new i = owners [t] i" "\<And>u. u \<in> set new \<Longrightarrow> thread_ok d u"
  shows "step_effect d t new d'"
proof -
  have "unfinished d' = unfinished d" using assms(1) by (simp add: fun_eq_iff unfinished_def)
  moreover have "thread_ok d' u" if "u \<in> set new" for u
    by (rule thread_ok_same [OF assms(3) [OF that]]) (simp add: assms(1))
  ultimately show ?thesis using assms by (simp add: step_effect_def)
qed

lemma unfinished_upd: "attempt_of d' = (attempt_of d)(i \<mapsto> (g, b)) \<Longrightarrow>
    unfinished d' j = (if j = i then (if b then 0 else 1) else unfinished d j)"
  by (simp add: unfinished_def split: bool.split)

text \<open>The last write of a run: it lands and the run is finished, or nothing changes.\<close>

lemma persist_attempt:
  assumes "persist w run s = (done, s')" "current (sv_db s) run" "\<not> running run"
  shows "attempt_of (sv_db s') = (if done then (attempt_of (sv_db s))(rr_id run \<mapsto> (rr_generation run, True)) else attempt_of (sv_db s))"
    "sv_active s' = sv_active s"
proof -
  have "attempt_of (sv_db s') = (if done then (attempt_of (sv_db s))(rr_id run \<mapsto> (rr_generation run, True))
      else attempt_of (sv_db s)) \<and> sv_active s' = sv_active s"
  proof (cases "wo_locked w")
    case False
    obtain r d where u: "update_run False run (sv_db s) = (r, d)" by fastforce
    show ?thesis
      using update_run_attempt [OF u] assms False u
      by (cases r) (auto simp: persist_def write_call_def call_def running_def)
  qed (use assms(1) in \<open>simp add: persist_def write_call_def\<close>)
  then show "attempt_of (sv_db s') = (if done then (attempt_of (sv_db s))(rr_id run \<mapsto> (rr_generation run, True)) else attempt_of (sv_db s))"
    "sv_active s' = sv_active s" by simp_all
qed

lemma finished_effect:
  assumes "current d run" "attempt_of d' = (attempt_of d)(rr_id run \<mapsto> (g, True))"
    "owned t = Some (rr_id run)" "\<And>i. owners new i = 0" "\<And>u. u \<in> set new \<Longrightarrow> owned u = None \<Longrightarrow> thread_ok d' u"
  shows "step_effect d t new d'"
proof -
  have "owned u = None" if "u \<in> set new" for u
  proof (cases "owned u")
    case (Some i)
    have "filter (\<lambda>t. owned t = Some i) new = []" using assms(4) [of i] unfolding owners_def by simp
    with that Some show ?thesis by (simp add: filter_empty_conv)
  qed
  then show ?thesis
    using assms current_unfinished [OF assms(1)] by (auto simp: step_effect_def unfinished_upd [OF assms(2)])
qed

lemma final_effect:
  assumes "final_step w run n finished again lost s = (new, s')" "current (sv_db s) run" "\<not> running run"
    and "owned t = Some (rr_id run)"
    and "\<And>i. owners finished i = 0" "\<And>m i. owners [again m] i = owners [t] i" "\<And>i. owners lost i = owners [t] i"
    and "\<And>d u. u \<in> set finished \<Longrightarrow> thread_ok d u"
    and "\<And>m. thread_ok (sv_db s) (again m)" "\<And>u. u \<in> set lost \<Longrightarrow> thread_ok (sv_db s) u"
  shows "step_effect (sv_db s) t new (sv_db s')"
proof -
  obtain landed where p: "persist w run s = (landed, s')" and new: "new = (if landed then finished else if 1 < n then [again (n - 1)] else lost)"
    using assms(1) by (auto simp: final_step_def split: prod.splits bool.splits if_splits)
  note a = persist_attempt [OF p assms(2,3)]
  show ?thesis
  proof (cases landed)
    case True
    then show ?thesis using a new assms by (auto intro: finished_effect [OF assms(2)])
  next
    case False
    with a new show ?thesis
      by (intro quiet_effect) (use assms(6,7,9,10) in \<open>auto split: if_splits\<close>)
  qed
qed

subsection \<open>The steps of each kind of thread\<close>

lemma running_created: "rr_stage run = CREATED \<Longrightarrow> running run"
  by (simp add: running_def terminal_stages_def)

lemma failed_not_running: "\<not> running (failed_run now m run)" "\<not> running (completed_run now run)"
  "current d (failed_run now m run) = current d run" "current d (completed_run now run) = current d run"
  "rr_id (failed_run now m run) = rr_id run" "rr_id (completed_run now run) = rr_id run"
  by (simp_all add: failed_run_def completed_run_def running_def terminal_stages_def current_def)

lemma request_effect: "step_effect (sv_db s) t (request_step de w t s) (sv_db s)" if "thread_ok (sv_db s) t"
proof (rule quiet_effect)
  fix i u
  show "owners (request_step de w t s) i = owners [t] i"
    by (cases t) (auto simp: request_step_def pool_defs split: sum.split)
  have new: "fresh_run run \<and> running run" if "modernize_preflight de now a uploaded i s = Inr run" for now a uploaded i run
    using that by (auto simp: modernize_preflight_def bind_res_eq_Inr new_run_def fresh_run_def running_def
        terminal_stages_def split: if_splits)
  show "thread_ok (sv_db s) u" if "u \<in> set (request_step de w t s)"
    using that \<open>thread_ok (sv_db s) t\<close> new
    by (cases t) (auto simp: request_step_def pool_defs split: sum.splits)
qed simp

lemma reserve_effect:
  assumes "reserve_step de refused next s = (new, s')" "owned t = None" "owned next = None" "thread_ok (sv_db s) next"
    and "\<And>e. owned (Answered (refused e)) = None \<and> thread_ok (sv_db s) (Answered (refused e))"
  shows "step_effect (sv_db s) t new (sv_db s')"
proof -
  have "sv_db s' = sv_db s" and "new = [next] \<or> (\<exists>e. new = [Answered (refused e)])"
    using assms(1) by (auto simp: reserve_step_def acquire_job_slot_def Let_def raise_api_def split: sum.splits if_splits)
  then show ?thesis by (intro quiet_effect) (use assms in auto)
qed

lemma add_effect:
  assumes "thread_step de w (ModernizeAdd run uploaded) s = (new, s')" "fresh_run run" "running run"
  shows "step_effect (sv_db s) (ModernizeAdd run uploaded) new (sv_db s')"
proof (cases "wo_locked w")
  case True
  then have "sv_db s' = sv_db s" "new = [Releasing (RunAnswer (Inl (Py OperationalError)))]"
    using assms(1) by (simp_all add: write_call_def)
  then show ?thesis by (intro quiet_effect) (simp_all add: pool_defs)
next
  case False
  obtain r d where c: "add_run run (sv_db s) = (r, d)" by fastforce
  show ?thesis
  proof (cases r)
    case (Inl e)
    then have "sv_db s' = sv_db s" "new = [Releasing (RunAnswer (Inl e))]"
      using assms(1) c add_run_attempt [OF c] False by (auto simp: write_call_def call_def)
    then show ?thesis by (intro quiet_effect) (simp_all add: pool_defs)
  next
    case (Inr x)
    let ?i = "rr_id run" and ?g = "rr_generation run"
    have new: "new = [ModernizeLaunch run uploaded]" "sv_db s' = d"
      using assms(1) c Inr False by (auto simp: write_call_def call_def)
    have a: "attempt_of d = (attempt_of (sv_db s))(?i \<mapsto> (?g, False))" "attempt_of (sv_db s) ?i = None"
      using add_run_attempt [OF c] Inr assms(3) by (simp_all add: running_def)
    have "unfinished (sv_db s) ?i = 0" using a(2) by (simp add: unfinished_def)
    then show ?thesis
      using assms(3) a(1) unfinished_upd [OF a(1)] by (auto simp: step_effect_def new pool_defs current_def)
  qed
qed

lemma reset_effect:
  assumes "thread_step de w (RevalidateReset i contract) s = (new, s')"
  shows "step_effect (sv_db s) (RevalidateReset i contract) new (sv_db s')"
proof (cases "wo_locked w")
  case True
  then have "sv_db s' = sv_db s" "new = [Releasing (RunAnswer (Inl (Py OperationalError)))]"
    using assms by (auto simp: write_call_def was_reset_def)
  then show ?thesis by (intro quiet_effect) (simp_all add: pool_defs)
next
  case False
  obtain r d where c: "begin_revalidation (wo_now w) i (Some contract) (sv_db s) = (r, d)" by fastforce
  have s': "s' = s\<lparr>sv_db := d\<rparr>" using assms c False by (cases r) (auto simp: write_call_def call_def)
  from begin_revalidation_attempt [OF c]
  consider (same) e where "d = sv_db s" "r = Inl e"
    | (reset) g where "attempt_of (sv_db s) i = Some (g, True)" "attempt_of d = (attempt_of (sv_db s))(i \<mapsto> (g + 1, False))"
        "\<forall>run. r = Inr run \<longrightarrow> rr_id run = i \<and> rr_generation run = g + 1 \<and> rr_stage run = CREATED" by blast
  then show ?thesis
  proof cases
    case same
    then have "new = [Releasing (RunAnswer (Inl e))]"
      using assms c False by (auto simp: write_call_def call_def was_reset_def)
    with same s' show ?thesis by (intro quiet_effect) (simp_all add: pool_defs)
  next
    case (reset g)
    have ch: "was_reset i s s'"
    proof -
      have "attempt_of (sv_db s) i = Some (g, True)" "attempt_of d i = Some (g + 1, False)" using reset by simp_all
      then show ?thesis by (auto simp: was_reset_def s' attempt_Some)
    qed
    have u: "unfinished (sv_db s) i = 0" using reset(1) by (simp add: unfinished_def)
    have new: "(\<exists>run. r = Inr run \<and> new = [RevalidateLaunch run]) \<or> (\<exists>e. new = [Releasing (RunAnswer (Inl e)), GaveUp i])"
      using assms c ch s' False by (cases r) (auto simp: write_call_def call_def)
    then show ?thesis
      using u reset(2,3) unfinished_upd [OF reset(2)]
      by (auto simp: step_effect_def s' pool_defs current_def running_created)
  qed
qed

lemma work_effect:
  assumes "work_step de w run app script s = (new, s')" "current (sv_db s) run" "running run"
    "list_all keeps_running script"
  shows "step_effect (sv_db s) (WorkerRun run app script) new (sv_db s')"
proof (cases script)
  case Nil
  then show ?thesis
    using assms by (intro quiet_effect) (auto simp: work_step_def pool_defs failed_not_running)
next
  case (Cons a rest)
  obtain f run' t where p: "perform de w app a run s = (f, run', t)" by (metis prod_cases3)
  note k = perform_keeps [OF assms(2,3) _ p]
  have a: "keeps_running a" using assms(4) Cons by simp
  have c: "current (sv_db s) run'" using assms(2) k(2,3) [OF a] by (simp add: current_def)
  show ?thesis
    using assms(1,4) k(1,2,4) [OF a] c
    by (intro quiet_effect) (auto simp: work_step_def Cons p pool_defs failed_not_running split: option.splits)
qed

lemma launch_effect:
  assumes "current (sv_db s) run" "owned t = Some (rr_id run)"
  shows "step_effect (sv_db s) t (launch_step w k run) (sv_db s)"
  using assms current_unfinished [OF assms(1)]
  by (intro quiet_effect) (auto simp: launch_step_def pool_defs split: option.splits)

lemma start_effect:
  assumes "thread_step de w (WorkerStart k i) s = (new, s')" "unfinished (sv_db s) i = 1"
  shows "step_effect (sv_db s) (WorkerStart k i) new (sv_db s')"
proof -
  obtain g where "attempt_of (sv_db s) i = Some (g, False)" using assms(2) unfinished_eq by blast
  then obtain row where row: "find_run (sv_db s) i = Some row" "rw_generation row = g" "\<not> is_terminal_text (rw_stage row)"
    unfolding attempt_Some by blast
  have d: "current (sv_db s) run \<and> running run \<and> rr_id run = i" if "run_from_row row = Inr run" for run
    using that row find_run_mem [OF row(1)]
    by (auto simp: run_from_row_def bind_res_eq_Inr running_def current_def attempt_of_def is_terminal_text_iff
        dest!: parse_stage_Inr)
  have new: "new = (case run_from_row row of Inl e \<Rightarrow> [WorkerExit (Some i)] | Inr run \<Rightarrow> [WorkerLoad k run])" "s' = s"
    using assms(1) row(1) by (auto simp: get_run_def split: sum.splits)
  show ?thesis
    using d assms(2) by (intro quiet_effect) (auto simp: new pool_defs split: sum.splits)
qed

lemma load_effect:
  assumes "current (sv_db s) run" "running run"
  shows "step_effect (sv_db s) (WorkerLoad k run) (load_step de w k run s) (sv_db s)"
  using assms
  by (intro quiet_effect)
     (auto simp: load_step_def Let_def pool_defs failed_not_running script_running split: sum.splits option.splits)

lemma ingest_name_quiet: "snd (ingest_name detected app d) = d"
  by (simp add: ingest_name_def unique_name_def find_application_by_name_def split: sum.split option.split)

lemma change_effect:
  assumes "ingest_step w t s = (new, s') \<or> upload_step de w t s = (new, s')" "owned t = None" "new \<noteq> [t]"
  shows "step_effect (sv_db s) t new (sv_db s')"
proof -
  have q: "attempt_of (sv_db s'') = attempt_of (sv_db s)"
    if "write_call w (update_application_fields a v c) s = (r, s'')" for r s'' a v c
    using quiet_write [OF that] update_fields_quiet by blast
  have n: "attempt_of (sv_db s'') = attempt_of (sv_db s)" if "call (ingest_name x y) s = (r, s'')" for r s'' x y
    using that ingest_name_quiet [of x y "sv_db s"] by (simp add: call_eq)
  have "attempt_of (sv_db s') = attempt_of (sv_db s)"
    using assms(1)
    by (cases t) (auto simp: ingest_step_def upload_step_def split: sum.splits prod.splits dest: q n)
  moreover have "owned u = None \<and> thread_ok d u" if "u \<in> set new" for u d
    using assms that
    by (cases t) (auto simp: ingest_step_def upload_step_def pool_defs split: sum.splits prod.splits)
  moreover from this have "owners new i = 0" for i by (auto simp: owners_def filter_empty_conv)
  ultimately show ?thesis using assms(2) by (intro quiet_effect) auto
qed

end
