(* ===== verification/JobInvariant.thy ===== *)
theory JobInvariant
  imports JobPool
begin

text \<open>
  Every step of the pool of threads makes at most one call of the store, accounts for its slot and has the
  effect \<open>JobPool\<close> describes; so the invariant of the pool holds of every state it can reach.
\<close>

subsection \<open>Every step makes at most one call of the store\<close>

text \<open>The records a thread writes: the one it ends a run with, or one at a stage that is not terminal.\<close>

definition may_write :: "thread \<Rightarrow> run_record \<Rightarrow> bool" where
  "may_write t r = (case t of WorkerFinal run _ \<Rightarrow> r = run | PersistFailed run _ _ \<Rightarrow> r = run | _ \<Rightarrow> running r)"

inductive job_call :: "thread \<Rightarrow> db \<Rightarrow> db \<Rightarrow> bool" for t where
  call_none: "job_call t d d"
| call_fields: "job_call t d (snd (update_application_fields i e cs d))"
| call_add: "fresh_run r \<Longrightarrow> running r \<Longrightarrow> job_call t d (snd (add_run r d))"
| call_update: "may_write t r \<Longrightarrow> job_call t d (snd (update_run False r d))"
| call_seal: "job_call t d (snd (set_generated_seal i seal e d))"
| call_generated: "job_call t d (snd (set_run_generated i p q e d))"
| call_discovery: "job_call t d (snd (set_run_discovery i snap d))"
| call_reset: "job_call t d (snd (begin_revalidation now i contract d))"

lemma job_call_eq: "write_call w f s = (r, s') \<Longrightarrow> job_call t (sv_db s) (snd (f (sv_db s))) \<Longrightarrow> job_call t (sv_db s) (sv_db s')"
  using write_call_frame call_none by metis

lemmas job_call_intros = job_call.intros

lemma perform_call:
  assumes "perform de w app a run s = (f, run', s')" "running run" "keeps_running a"
  shows "job_call (WorkerRun run0 app0 script) (sv_db s) (sv_db s')"
proof (cases a)
  case (Progress st)
  then have "may_write (WorkerRun run0 app0 script) (run\<lparr>rr_stage := st\<rparr>)"
    using assms(3) by (simp add: may_write_def running_def)
  then have u: "job_call (WorkerRun run0 app0 script) (sv_db s) (snd (update_run False (run\<lparr>rr_stage := st\<rparr>) (sv_db s)))"
    by (rule call_update)
  obtain r t where w: "write_call w (update_run False (run\<lparr>rr_stage := st\<rparr>)) s = (r, t)" by fastforce
  from job_call_eq [OF w u] show ?thesis using Progress assms(1) w by (auto simp: Let_def)
next
  case SaveRun
  have "may_write (WorkerRun run0 app0 script) run" using assms(2) by (simp add: may_write_def)
  with SaveRun assms(1) show ?thesis
    by (auto simp: or_fail_def split: prod.splits dest!: job_call_eq intro: job_call_intros)
qed (use assms(1) in \<open>auto simp: or_fail_def Let_def split: sum.splits prod.splits dest!: job_call_eq
  intro: job_call_intros\<close>)

lemma final_call:
  assumes "final_step w run n finished again lost s = (new, s')" "may_write t run"
  shows "job_call t (sv_db s) (sv_db s')"
proof -
  have "job_call t (sv_db s) (snd (update_run False run (sv_db s)))" using assms(2) by (rule call_update)
  then show ?thesis
    using assms(1)
    by (auto simp: final_step_def persist_def split: prod.splits bool.splits if_splits sum.splits
        dest!: job_call_eq intro: job_call_intros)
qed

lemma reserve_call: "reserve_step de refused next s = (new, s') \<Longrightarrow> job_call t (sv_db s) (sv_db s')"
  by (auto simp: reserve_step_def acquire_job_slot_def Let_def raise_api_def intro: call_none split: sum.splits if_splits)

lemma change_call:
  "ingest_step w t s = (new, s') \<or> upload_step de w t s = (new, s') \<Longrightarrow> job_call u (sv_db s) (sv_db s')"
proof -
  have n: "job_call u (sv_db s) (sv_db s'')" if "call (ingest_name x y) s = (r, s'')" for r s'' x y
    using that ingest_name_quiet [of x y "sv_db s"] by (simp add: call_eq call_none)
  have c: "job_call u (sv_db s) (sv_db s'')"
    if "write_call w (update_application_fields a v cs) s = (r, s'')" for r s'' a v cs
    using that by (rule job_call_eq) (rule call_fields)
  show "ingest_step w t s = (new, s') \<or> upload_step de w t s = (new, s') \<Longrightarrow> job_call u (sv_db s) (sv_db s')"
    by (cases t) (auto simp: ingest_step_def upload_step_def split: sum.splits prod.splits dest: n c intro: call_none)
qed

lemma thread_call:
  assumes "thread_step de w t s = (new, s')" "thread_ok (sv_db s) t"
  shows "job_call t (sv_db s) (sv_db s')"
proof (cases t)
  case (ModernizeAdd run uploaded)
  then have "fresh_run run" "running run" using assms(2) by (simp_all add: thread_ok_def)
  then show ?thesis using assms(1) ModernizeAdd
    by (auto split: prod.splits sum.splits dest!: job_call_eq intro: job_call_intros)
next
  case (RevalidateReset i contract)
  then show ?thesis using assms(1)
    by (auto split: prod.splits sum.splits dest!: job_call_eq intro: job_call_intros)
next
  case (WorkerRun run app script)
  then have "running run" "list_all keeps_running script" using assms(2) by (simp_all add: thread_ok_def)
  then show ?thesis using assms(1) WorkerRun
    by (cases script) (auto simp: work_step_def split: prod.splits option.splits dest: perform_call intro: call_none)
next
  case (WorkerFinal run n)
  then show ?thesis using assms(1) final_call [where t = t] by (auto simp: may_write_def)
next
  case (PersistFailed run n a)
  then show ?thesis using assms(1) final_call [where t = t] by (auto simp: may_write_def)
qed (use assms(1) in \<open>auto simp: request_step_def dest: change_call [OF disjI1] change_call [OF disjI2] reserve_call
  intro: call_none\<close>)

lemma call_is_history: "job_call t d d' \<Longrightarrow> store_steps d d'"
  by (induction rule: job_call.induct) (auto intro: store_step.intros)

lemma thread_history:
  assumes "thread_step de w t s = (new, s')" "thread_ok (sv_db s) t"
  shows "store_steps (sv_db s) (sv_db s')"
  by (rule call_is_history [OF thread_call [OF assms]])

lemma client_history: "client_call d d' \<Longrightarrow> store_steps d d'"
  by (induction rule: client_call.induct) (auto intro: store_step.intros)

lemma client_quiet: "client_call d d' \<Longrightarrow> store_inv d \<Longrightarrow> attempt_of d' = attempt_of d"
  by (induction rule: client_call.induct) (simp_all add: quiet approval_quiet)

lemma steps_inv: "store_steps d d' \<Longrightarrow> store_inv d \<Longrightarrow> store_inv d'"
  using steps_history by (auto simp: history_ok_def)

lemma restart_history: "store_steps (sv_db s) (sv_db (restarted now s))"
proof -
  have "store_steps (sv_db s) (rollback (sv_db s))" by (auto intro: store_step.intros)
  also have "store_step (rollback (sv_db s)) (sv_db (restarted now s))" by (simp add: restarted_def store_step.intros)
  finally show ?thesis .
qed

subsection \<open>Slots\<close>

lemma limit_positive: "1 \<le> job_limit raw"
  by (auto simp: job_limit_def at_least_one_def split: option.split)

lemma reserve_slots:
  assumes "reserve_step de refused next s = (new, s')" "\<not> holds_slot t" "holds_slot next"
  shows "sv_active s' + int (slots [t]) = sv_active s + int (slots new)
    \<and> (sv_active s \<le> job_limit (de_job_limit de) \<longrightarrow> sv_active s' \<le> job_limit (de_job_limit de))"
  using assms
  by (auto simp: reserve_step_def acquire_job_slot_def Let_def raise_api_def holds_slot_def
      split: sum.splits if_splits)

lemma perform_slots: "perform de w app a run s = (f, run', s') \<Longrightarrow> sv_active s' = sv_active s"
proof -
  have c: "sv_active s'' = sv_active s" if "write_call w g s = (r, s'')" for g :: "unit op" and r s''
    using write_call_frame [OF that] by simp
  have a: "sv_active s'' = sv_active s" if "write_call w g s = (r, s'')" for g :: "application_record op" and r s''
    using write_call_frame [OF that] by simp
  have u: "sv_active (snd (write_call w g s)) = sv_active s" for g :: "unit op"
    by (simp add: write_call_def)
  show "perform de w app a run s = (f, run', s') \<Longrightarrow> sv_active s' = sv_active s"
    by (cases a) (auto simp: or_fail_def Let_def u split: sum.splits prod.splits if_splits dest: c a)
qed

lemma persist_slots: "persist w run s = (b, s') \<Longrightarrow> sv_active s' = sv_active s"
  by (auto simp: persist_def split: prod.splits sum.splits dest: write_call_frame)

lemma thread_slots:
  assumes "thread_step de w t s = (new, s')"
  shows "sv_active s' + int (slots [t]) = sv_active s + int (slots new)
    \<and> (sv_active s \<le> job_limit (de_job_limit de) \<longrightarrow> sv_active s' \<le> job_limit (de_job_limit de))"
proof (cases t)
  case (ModernizeReserve run uploaded)
  have "reserve_step de (\<lambda>e. RunAnswer (Inl e)) (ModernizeAdd run uploaded) s = (new, s')" using assms ModernizeReserve by simp
  then show ?thesis by (rule reserve_slots) (simp_all add: holds_slot_def ModernizeReserve)
next
  case (RevalidateReserve i contract)
  have "reserve_step de (\<lambda>e. RunAnswer (Inl e)) (RevalidateReset i contract) s = (new, s')" using assms RevalidateReserve by simp
  then show ?thesis by (rule reserve_slots) (simp_all add: holds_slot_def RevalidateReserve)
next
  case (IngestReserve a)
  have "reserve_step de (\<lambda>e. Accepted (Inl e)) (IngestExtract a) s = (new, s')" using assms IngestReserve by simp
  then show ?thesis by (rule reserve_slots) (simp_all add: holds_slot_def IngestReserve)
next
  case (WorkerRun run app script)
  then show ?thesis using assms
    by (auto simp: work_step_def holds_slot_def split: list.splits prod.splits option.splits dest: perform_slots)
qed (use assms in \<open>auto simp: request_step_def launch_step_def load_step_def Let_def final_step_def ingest_step_def
  upload_step_def holds_slot_def write_call_def call_def split: sum.splits prod.splits option.splits bool.splits if_splits
  dest: persist_slots\<close>)

subsection \<open>The effect of every step\<close>

lemma thread_effect:
  assumes "thread_step de w t s = (new, s')" "thread_ok (sv_db s) t"
  shows "step_effect (sv_db s) t new (sv_db s')"
proof (cases t)
  case (ModernizeReserve run uploaded)
  then show ?thesis using assms by (intro reserve_effect) (auto simp: pool_defs)
next
  case (RevalidateReserve i contract)
  then show ?thesis using assms by (intro reserve_effect) (auto simp: pool_defs)
next
  case (IngestReserve a)
  then show ?thesis using assms by (intro reserve_effect) (auto simp: pool_defs)
next
  case (ModernizeAdd run uploaded)
  then show ?thesis using add_effect [of de w run uploaded s new s'] assms by (simp add: thread_ok_def del: thread_step.simps)
next
  case (RevalidateReset i contract)
  then show ?thesis using reset_effect [of de w i contract s new s'] assms by (simp del: thread_step.simps)
next
  case (ModernizeLaunch run uploaded)
  then show ?thesis using assms launch_effect [of s run t] by (auto simp: pool_defs)
next
  case (RevalidateLaunch run)
  then show ?thesis using assms launch_effect [of s run t] by (auto simp: pool_defs)
next
  case (LaunchFailed run m)
  then show ?thesis using assms by (intro quiet_effect) (auto simp: pool_defs failed_not_running)
next
  case (PersistFailed run n a)
  with assms have c: "current (sv_db s) run" "\<not> running run" by (simp_all add: thread_ok_def)
  have "final_step w run n [Answered a] (\<lambda>m. PersistFailed run m a) [GaveUp (rr_id run), Answered a] s = (new, s')"
    using assms(1) PersistFailed by simp
  then show ?thesis
    by (rule final_effect) (use c in \<open>auto simp: PersistFailed pool_defs current_unfinished\<close>)
next
  case (WorkerFinal run n)
  with assms have c: "current (sv_db s) run" "\<not> running run" by (simp_all add: thread_ok_def)
  have "final_step w run n [WorkerExit None] (WorkerFinal run) [WorkerExit (Some (rr_id run))] s = (new, s')"
    using assms(1) WorkerFinal by simp
  then show ?thesis
    by (rule final_effect) (use c in \<open>auto simp: WorkerFinal pool_defs current_unfinished\<close>)
next
  case (WorkerStart k i)
  then show ?thesis using start_effect [of de w k i s new s'] assms by (simp add: thread_ok_def del: thread_step.simps)
next
  case (WorkerLoad k run)
  then show ?thesis using assms load_effect by (auto simp: thread_ok_def)
next
  case (WorkerRun run app script)
  then show ?thesis using assms work_effect by (simp add: thread_ok_def)
next
  case (WorkerExit lost)
  then show ?thesis using assms by (intro quiet_effect) (auto simp: pool_defs split: option.splits)
next
  case (Releasing a)
  then show ?thesis using assms by (intro quiet_effect) (auto simp: pool_defs)
next
  case (IngestExtract a)
  then show ?thesis using assms change_effect [of w t s new s']
    by (auto simp: owned_def ingest_step_def split: prod.splits sum.splits)
next
  case (IngestName app ws)
  then show ?thesis using assms change_effect [of w t s new s']
    by (auto simp: owned_def ingest_step_def split: prod.splits sum.splits)
next
  case (IngestRecord app ws columns)
  then show ?thesis using assms change_effect [of w t s new s']
    by (auto simp: owned_def ingest_step_def split: prod.splits sum.splits)
next
  case (IngestCleanup p)
  then show ?thesis using assms by (intro quiet_effect) (auto simp: pool_defs ingest_step_def)
next
  case (UploadWrite k a files ws)
  then show ?thesis using assms change_effect [of w t s new s' de]
    by (auto simp: owned_def upload_step_def split: prod.splits sum.splits)
next
  case (UploadRecord k app ws)
  then show ?thesis using assms change_effect [of w t s new s' de]
    by (auto simp: owned_def upload_step_def split: prod.splits sum.splits)
next
  case (UploadCleanup p)
  then show ?thesis using assms by (intro quiet_effect) (auto simp: pool_defs upload_step_def)
qed (use request_effect [OF assms(2), of de w] assms(1) in auto)

subsection \<open>The invariant of the pool\<close>

definition pool_inv :: "deployment \<Rightarrow> thread list \<times> service \<Rightarrow> bool" where
  "pool_inv de = (\<lambda>(ts, s). reachable (sv_db s)
     \<and> (\<forall>i. owners ts i = unfinished (sv_db s) i) \<and> (\<forall>t \<in> set ts. thread_ok (sv_db s) t)
     \<and> sv_active s = int (slots ts) \<and> sv_active s \<le> job_limit (de_job_limit de))"

lemma pool_invD:
  assumes "pool_inv de (ts, s)"
  shows "reachable (sv_db s)" "store_inv (sv_db s)" "owners ts i = unfinished (sv_db s) i"
    "t \<in> set ts \<Longrightarrow> thread_ok (sv_db s) t" "sv_active s = int (slots ts)" "sv_active s \<le> job_limit (de_job_limit de)"
  using assms reachable_inv by (simp_all add: pool_inv_def)

lemma reachable_steps: "reachable d \<Longrightarrow> store_steps d d' \<Longrightarrow> reachable d'"
  by (simp add: reachable_def)

lemma others_keep:
  assumes inv: "pool_inv de (xs @ t # ys, s)" and e: "step_effect (sv_db s) t new d'" and u: "u \<in> set (xs @ ys)"
  shows "thread_ok d' u"
proof (rule thread_ok_same)
  show ok: "thread_ok (sv_db s) u" using u pool_invD(4) [OF inv] by auto
  fix i assume o: "owned u = Some i"
  have "unfinished (sv_db s) i = 1" by (rule owned_unfinished [OF ok o])
  moreover have "owned t \<noteq> Some i"
  proof
    assume "owned t = Some i"
    moreover have "1 \<le> owners (xs @ ys) i"
    proof -
      have "u \<in> set (filter (\<lambda>t. owned t = Some i) (xs @ ys))" using u o by auto
      then have "filter (\<lambda>t. owned t = Some i) (xs @ ys) \<noteq> []" by (metis empty_iff empty_set)
      then show ?thesis unfolding owners_def by (cases "filter (\<lambda>t. owned t = Some i) (xs @ ys)") simp_all
    qed
    ultimately have "2 \<le> owners (xs @ t # ys) i" by simp
    then show False using pool_invD(3) [OF inv, of i] unfinished_le [of "sv_db s" i] by simp
  qed
  ultimately show "attempt_of d' i = attempt_of (sv_db s) i" using e by (auto simp: step_effect_def)
qed

lemma thread_keeps_inv:
  assumes inv: "pool_inv de (xs @ t # ys, s)" and step: "thread_step de w t s = (new, s')"
  shows "pool_inv de (xs @ new @ ys, s')"
proof -
  have ok: "thread_ok (sv_db s) t" using pool_invD(4) [OF inv] by simp
  note e = thread_effect [OF step ok]
  have "reachable (sv_db s')" by (rule reachable_steps [OF pool_invD(1) [OF inv] thread_history [OF step ok]])
  moreover have "owners (xs @ new @ ys) i = unfinished (sv_db s') i" for i
  proof -
    have "owners new i + unfinished (sv_db s) i = owners [t] i + unfinished (sv_db s') i"
      using e unfolding step_effect_def by blast
    then show ?thesis using pool_invD(3) [OF inv, of i] by simp
  qed
  moreover have "thread_ok (sv_db s') u" if "u \<in> set (xs @ new @ ys)" for u
    using that e others_keep [OF inv e] by (auto simp: step_effect_def)
  moreover have "sv_active s' = int (slots (xs @ new @ ys))" "sv_active s' \<le> job_limit (de_job_limit de)"
    using thread_slots [OF step] pool_invD(5,6) [OF inv] by (auto split: if_splits)
  ultimately show ?thesis by (simp add: pool_inv_def)
qed

lemma requests_own_nothing: "is_request t \<Longrightarrow> owned t = None \<and> \<not> holds_slot t \<and> thread_ok d t"
  by (cases t) (auto simp: is_request_def pool_defs)

lemma step_keeps_inv:
  assumes "pool_step de p q" "pool_inv de p"
  shows "pool_inv de q"
  using assms
proof (induction rule: pool_step.induct)
  case (pool_request t ts s)
  then show ?case using requests_own_nothing [of t] by (auto simp: pool_inv_def)
next
  case (pool_thread w t s new s' xs ys)
  then show ?case using thread_keeps_inv by blast
next
  case (pool_client s d ts)
  note inv = pool_invD [OF pool_client.prems]
  have a: "attempt_of d = attempt_of (sv_db s)" by (rule client_quiet [OF pool_client.hyps inv(2)])
  have "thread_ok d t" if "t \<in> set ts" for t by (rule thread_ok_same [OF inv(4) [OF that]]) (simp add: a)
  moreover have "reachable d" by (rule reachable_steps [OF inv(1) client_history [OF pool_client.hyps]])
  ultimately show ?case using inv(3,5,6) by (simp add: pool_inv_def unfinished_same [of d _ "sv_db s"] a)
next
  case (pool_restart ts s now)
  note inv = pool_invD [OF pool_restart.prems]
  have "runs_ok (rollback (sv_db s))"
    using rollback_ok [OF inv(2)] by (simp add: step_ok_def store_invD(1))
  then have "unfinished (sv_db (restarted now s)) i = 0" for i
    by (auto simp: restarted_def unfinished_def interrupted_attempt split: option.split bool.split)
  then show ?case
    using reachable_steps [OF inv(1) restart_history] limit_positive [of "de_job_limit de"]
    by (auto simp: pool_inv_def restarted_def)
qed

lemma pool_reachable_inv:
  assumes "pool_reachable de p"
  shows "pool_inv de p"
proof -
  obtain fs where "pool_steps de (first_start fs) p" using assms by (auto simp: pool_reachable_def)
  then show ?thesis
  proof (induction rule: rtranclp_induct)
    case base
    show ?case
      using limit_positive [of "de_job_limit de"]
      by (simp add: pool_inv_def first_start_def reachable_def unfinished_def attempt_of_def find_run_def empty_db_def)
  next
    case (step p q)
    then show ?case using step_keeps_inv by blast
  qed
qed

end
