(* ===== verification/JobProperties.thy ===== *)
theory JobProperties
  imports JobInvariant "HOL-Library.Multiset"
begin

text \<open>
  What holds of every state the pool of threads can reach: the slots, single flight, the refinement of the store,
  the fate of the last write of a run, and the end of all jobs.
\<close>

subsection \<open>Properties of the pool\<close>

text \<open>C15: The slots in use, which \<open>/ready\<close> reports, are in every reachable state exactly the slots that requests
  and workers hold; they are never negative and never above the limit of the deployment.\<close>
theorem slots_accounted:
  assumes "pool_reachable de (ts, s)"
  shows "job_slots de s = (int (slots ts), job_limit (de_job_limit de)) \<and> int (slots ts) \<le> job_limit (de_job_limit de)"
  using pool_invD [OF pool_reachable_inv [OF assms]] by (simp add: job_slots_def)

text \<open>C7: Single flight: in every reachable state a stored run that is not terminal is owned by exactly one
  thread (which may have given up), and a terminal or unknown run by none. So no two workers race on one
  run, whatever requests, other clients and restarts do, and no run is forgotten.\<close>
theorem single_flight:
  assumes "pool_reachable de (ts, s)"
  shows "length (filter (\<lambda>t. owned t = Some i) ts) =
    (case find_run (sv_db s) i of None \<Rightarrow> 0 | Some w \<Rightarrow> if is_terminal_text (rw_stage w) then 0 else 1)"
  using pool_invD(3) [OF pool_reachable_inv [OF assms], of i]
  by (auto simp: owners_def unfinished_def attempt_of_def split: option.split)

text \<open>C14: The pool refines the store: whatever requests, workers, other clients and restarts do to the database
  is a history of calls of the store, from a reachable one, so that the laws of such histories hold of it.\<close>
theorem pool_refines_store:
  assumes "pool_reachable de (ts, s)" "pool_steps de (ts, s) (ts', s')"
  shows "reachable (sv_db s) \<and> store_steps (sv_db s) (sv_db s')"
proof -
  have "pool_inv de q \<and> store_steps (sv_db (snd p)) (sv_db (snd q))" if "pool_steps de p q" "pool_inv de p" for p q
    using that
  proof (induction rule: rtranclp_induct)
    case (step q r)
    then have inv: "pool_inv de q" and h: "store_steps (sv_db (snd p)) (sv_db (snd q))" by simp_all
    from step.hyps(2) have "store_steps (sv_db (snd q)) (sv_db (snd r))"
    proof (cases rule: pool_step.cases)
      case (pool_thread w t s new s' xs ys)
      then show ?thesis using thread_history [of de w t s new s'] pool_invD(4) [of de "xs @ t # ys" s t] inv by simp
    qed (simp_all add: client_history restart_history)
    with h step_keeps_inv [OF step.hyps(2) inv] show ?case by (meson rtranclp_trans)
  qed simp
  from this [OF assms(2) pool_reachable_inv [OF assms(1)]] pool_invD(1) [OF pool_reachable_inv [OF assms(1)]]
  show ?thesis by simp
qed

subsection \<open>The last write of a run\<close>

text \<open>The store accepts the terminal record of a worker: it still knows the run, at the attempt of the record, and
  the run has not ended otherwise.\<close>

definition accepts_final :: "db \<Rightarrow> run_record \<Rightarrow> bool" where
  "accepts_final d run \<longleftrightarrow> (\<exists>row. find_run d (rr_id run) = Some row \<and> rw_generation row = rr_generation run \<and>
     (is_terminal_text (rw_stage row) \<longrightarrow> rw_stage row = stage_value (rr_stage run)))"

lemma update_final:
  assumes "store_inv d" "rr_stage run \<in> set terminal_stages"
  shows "case run_params run of
      Inl _ \<Rightarrow> \<exists>e. update_run False run d = (Inl e, d)
    | Inr blobs \<Rightarrow>
        if accepts_final d run
        then update_run False run d = (Inr (), commit (update_runs (\<lambda>x. rw_id x = rr_id run) (run_columns run blobs) d))
        else \<exists>e. update_run False run d = (Inl e, d)"
proof (cases "find_run d (rr_id run)")
  case None
  then show ?thesis by (simp add: update_run_def accepts_final_def raise_api_def split: sum.split)
next
  case (Some row)
  obtain st where st: "rw_stage row = stage_value st" using store_invD(4) [OF assms(1)] find_run_mem [OF Some] by blast
  have anchor: "last_stage_anchor (rr_stage run) (rw_last_stage row) = rw_last_stage row"
    using assms(2) by (simp add: last_stage_anchor_def)
  have "is_valid_transition st (rr_stage run) \<longleftrightarrow> st \<notin> set terminal_stages \<or> st = rr_stage run"
    using assms(2) by (auto simp: is_valid_transition_def terminal_stages_def)
  then have "is_valid_transition st (rr_stage run) \<longleftrightarrow>
      (is_terminal_text (rw_stage row) \<longrightarrow> rw_stage row = stage_value (rr_stage run))"
    using stage_value_inj by (auto simp: st is_terminal_text_iff)
  then show ?thesis
    using Some by (auto simp: update_run_def accepts_final_def st parse_stage_value anchor raise_api_def Let_def split: sum.split)
qed

lemma stale_final:
  assumes "find_run d (rr_id run) = Some row" "rr_generation run < rw_generation row" "history_ok d d'"
  shows "\<not> accepts_final d' run"
proof -
  obtain x where "find_run d' (rr_id run) = Some x" "later_run row x" using assms(1,3) unfolding history_ok_def by blast
  then show ?thesis using assms(2) by (auto simp: accepts_final_def later_run_def)
qed

text \<open>C20: The last write of a run. One attempt of a worker to store a terminal record lands exactly when the database
  is not locked, the store accepts the record (the run is known, at the attempt of the record, and has not ended
  in another stage) and its documents can be encoded; then the run is committed with the columns of the record, no
  other run changes, and the worker is done. Otherwise nothing at all changes, and the worker tries again, or, when
  its attempts are used up, leaves with the run as lost. A record that a newer attempt has made stale is refused
  like this for good, at every later point of any history of the store.\<close>
theorem final_write_outcome:
  assumes "reachable (sv_db s)" "rr_stage run \<in> set terminal_stages"
  shows "(if \<not> wo_locked w \<and> accepts_final (sv_db s) run \<and> (\<exists>blobs. run_params run = Inr blobs)
      then \<exists>blobs row d. run_params run = Inr blobs \<and> find_run (sv_db s) (rr_id run) = Some row \<and>
        thread_step de w (WorkerFinal run n) s = ([WorkerExit None], s\<lparr>sv_db := d\<rparr>) \<and>
        find_run d (rr_id run) = Some (run_columns run blobs row) \<and>
        (\<forall>i. i \<noteq> rr_id run \<longrightarrow> find_run d i = find_run (sv_db s) i) \<and> db_committed d = db_runs d
      else thread_step de w (WorkerFinal run n) s =
        ([if 1 < n then WorkerFinal run (n - 1) else WorkerExit (Some (rr_id run))], s)) \<and>
    (\<forall>row u w k. find_run (sv_db s) (rr_id run) = Some row \<and> rr_generation run < rw_generation row \<and>
       store_steps (sv_db s) (sv_db u) \<longrightarrow>
       thread_step de w (WorkerFinal run k) u =
         ([if 1 < k then WorkerFinal run (k - 1) else WorkerExit (Some (rr_id run))], u))"
proof -
  have refused: "thread_step de w (WorkerFinal run k) u =
      ([if 1 < k then WorkerFinal run (k - 1) else WorkerExit (Some (rr_id run))], u)"
    if "store_inv (sv_db u)" "\<not> (\<not> wo_locked w \<and> accepts_final (sv_db u) run \<and> (\<exists>blobs. run_params run = Inr blobs))" for w k u
    using update_final [OF that(1) assms(2)] that(2)
    by (cases "wo_locked w")
      (auto simp: final_step_def persist_def write_call_def call_def split: sum.splits if_splits)
  have landed: "\<exists>blobs row d. run_params run = Inr blobs \<and> find_run (sv_db s) (rr_id run) = Some row \<and>
        thread_step de w (WorkerFinal run n) s = ([WorkerExit None], s\<lparr>sv_db := d\<rparr>) \<and>
        find_run d (rr_id run) = Some (run_columns run blobs row) \<and>
        (\<forall>i. i \<noteq> rr_id run \<longrightarrow> find_run d i = find_run (sv_db s) i) \<and> db_committed d = db_runs d"
    if l: "\<not> wo_locked w" "accepts_final (sv_db s) run" "run_params run = Inr blobs" for blobs
  proof -
    let ?d = "update_runs (\<lambda>x. rw_id x = rr_id run) (run_columns run blobs) (sv_db s)"
    obtain row where row: "find_run (sv_db s) (rr_id run) = Some row" using l(2) by (auto simp: accepts_final_def)
    have k: "keeps_run_id (run_columns run blobs)" by (simp add: keeps_run_id_def run_columns_def split_beta)
    have "update_run False run (sv_db s) = (Inr (), commit ?d)"
      using update_final [OF reachable_inv [OF assms(1)] assms(2)] l(2,3) by simp
    then have "thread_step de w (WorkerFinal run n) s = ([WorkerExit None], s\<lparr>sv_db := commit ?d\<rparr>)"
      using l(1) by (simp add: final_step_def persist_def write_call_def call_def)
    moreover have "find_run (commit ?d) i = (if i = rr_id run then Some (run_columns run blobs row) else find_run (sv_db s) i)" for i
    proof -
      have "find_run (commit ?d) i =
          map_option (\<lambda>x. if rw_id x = rr_id run then run_columns run blobs x else x) (find_run (sv_db s) i)"
        using find_run_updated [OF k] by (simp add: find_run_def)
      then show ?thesis using row find_run_mem [of "sv_db s" i] by (cases "find_run (sv_db s) i") (auto split: if_split)
    qed
    moreover have "db_committed (commit ?d) = db_runs (commit ?d)" by (simp add: commit_def)
    ultimately show ?thesis using l(3) row by (intro exI [of _ blobs] exI [of _ row] exI [of _ "commit ?d"]) simp
  qed
  have stale: "thread_step de w (WorkerFinal run k) u =
         ([if 1 < k then WorkerFinal run (k - 1) else WorkerExit (Some (rr_id run))], u)"
    if "find_run (sv_db s) (rr_id run) = Some row" "rr_generation run < rw_generation row" "store_steps (sv_db s) (sv_db u)" for row u w k
  proof (rule refused)
    have h: "history_ok (sv_db s) (sv_db u)" by (rule steps_history [OF that(3) reachable_inv [OF assms(1)]])
    then show "store_inv (sv_db u)" by (simp add: history_ok_def)
    show "\<not> (\<not> wo_locked w \<and> accepts_final (sv_db u) run \<and> (\<exists>blobs. run_params run = Inr blobs))"
      using stale_final [OF that(1,2) h] by blast
  qed
  show ?thesis using refused [OF reachable_inv [OF assms(1)], of w n] landed stale by (auto split: if_split)
qed

text \<open>In the pool, where a revalidation begins only on a run that has ended and a worker holds its run until then, the
  record of a worker is never stale: its last write fails only on a locked database or a document that cannot be
  encoded.\<close>
lemma pool_write_lands:
  assumes "pool_reachable de (ts, s)" "WorkerFinal run n \<in> set ts"
  shows "fst (persist w run s) \<longleftrightarrow> \<not> wo_locked w \<and> (\<exists>blobs. run_params run = Inr blobs)"
proof -
  note inv = pool_invD [OF pool_reachable_inv [OF assms(1)]]
  have "current (sv_db s) run" "\<not> running run" using inv(4) [OF assms(2)] by (simp_all add: thread_ok_def)
  then have a: "accepts_final (sv_db s) run" and t: "rr_stage run \<in> set terminal_stages"
    by (auto simp: current_def attempt_Some running_def accepts_final_def)
  show ?thesis
    using update_final [OF inv(2) t] a
    by (cases "run_params run") (auto simp: persist_def write_call_def call_def)
qed

subsection \<open>The end of all jobs\<close>

definition ended :: "thread \<Rightarrow> bool" where
  "ended t = (case t of Answered _ \<Rightarrow> True | GaveUp _ \<Rightarrow> True | _ \<Rightarrow> False)"

text \<open>A step of one of the threads that are there, without new requests.\<close>

inductive thread_move :: "deployment \<Rightarrow> thread list \<times> service \<Rightarrow> thread list \<times> service \<Rightarrow> bool" for de where
  thread_move: "\<not> ended t \<Longrightarrow> thread_step de w t s = (new, s') \<Longrightarrow> thread_move de (xs @ t # ys, s) (xs @ new @ ys, s')"

inductive_cases thread_moveE: "thread_move de p q"

text \<open>How far a thread is from its end, and how much of that stage is left.\<close>

fun rank :: "thread \<Rightarrow> nat \<times> nat" where
  "rank (ModernizeRequest _ _ _) = (9, 0)"
| "rank (ModernizeReserve _ _) = (8, 0)"
| "rank (ModernizeAdd _ _) = (7, 0)"
| "rank (ModernizeLaunch _ _) = (6, 0)"
| "rank (RevalidateRequest _) = (10, 0)"
| "rank (RevalidateLookup _) = (9, 0)"
| "rank (RevalidateReserve _ _) = (8, 0)"
| "rank (RevalidateReset _ _) = (7, 0)"
| "rank (RevalidateLaunch _) = (6, 0)"
| "rank (LaunchFailed _ _) = (3, 0)"
| "rank (PersistFailed _ n _) = (2, n)"
| "rank (IngestRequest _) = (9, 0)"
| "rank (IngestReserve _) = (8, 0)"
| "rank (IngestExtract _) = (7, 0)"
| "rank (IngestName _ _) = (6, 0)"
| "rank (IngestRecord _ _ _) = (5, 0)"
| "rank (IngestCleanup _) = (4, 0)"
| "rank (UploadRequest _ _ _ _) = (4, 0)"
| "rank (UploadWrite _ _ _ _) = (3, 0)"
| "rank (UploadRecord _ _ _) = (2, 0)"
| "rank (UploadCleanup _) = (1, 0)"
| "rank (Releasing _) = (1, 0)"
| "rank (WorkerStart _ _) = (5, 0)"
| "rank (WorkerLoad _ _) = (4, 0)"
| "rank (WorkerRun _ _ script) = (3, length script)"
| "rank (WorkerFinal _ n) = (2, n)"
| "rank (WorkerExit _) = (1, 0)"
| "rank (Answered _) = (0, 0)"
| "rank (GaveUp _) = (0, 0)"

definition nearer :: "((nat \<times> nat) \<times> (nat \<times> nat)) set" where
  "nearer = less_than <*lex*> less_than"

lemma rank_decreases:
  assumes "thread_step de w t s = (new, s')" "\<not> ended t" "u \<in> set new"
  shows "(rank u, rank t) \<in> nearer"
  using assms
  by (cases t) (auto simp: nearer_def ended_def request_step_def reserve_step_def launch_step_def load_step_def
      Let_def final_step_def work_step_def ingest_step_def upload_step_def
      split: sum.splits prod.splits option.splits list.splits bool.splits if_splits)

lemma moves_end: "wf {(q, p). thread_move de p q}"
proof (rule wf_subset)
  let ?m = "\<lambda>(ts, s). image_mset rank (mset ts)"
  show "wf (inv_image (mult nearer) ?m)" by (intro wf_inv_image wf_mult) (simp add: nearer_def wf_lex_prod)
  show "{(q, p). thread_move de p q} \<subseteq> inv_image (mult nearer) ?m"
  proof (clarify elim!: thread_moveE)
    fix w t new xs ys and s s' :: service
    assume step: "thread_step de w t s = (new, s')" "\<not> ended t"
    have "(image_mset rank (mset (xs @ ys)) + image_mset rank (mset new),
        image_mset rank (mset (xs @ ys)) + {#rank t#}) \<in> mult nearer"
      using rank_decreases [OF step] by (intro one_step_implies_mult) auto
    then show "((xs @ new @ ys, s'), xs @ t # ys, s) \<in> inv_image (mult nearer) ?m"
      by (simp add: ac_simps)
  qed
qed

lemma move_is_step: "thread_move de p q \<Longrightarrow> pool_step de p q"
  by (auto elim!: thread_moveE intro: pool_step.pool_thread)

lemma moves_reachable: "pool_reachable de p \<Longrightarrow> (thread_move de)\<^sup>*\<^sup>* p q \<Longrightarrow> pool_reachable de q"
  unfolding pool_reachable_def
  by (metis (no_types, lifting) mono_rtranclp move_is_step rtranclp_trans)

lemma stuck_iff: "(\<nexists>q. thread_move de (ts, s) q) \<longleftrightarrow> list_all ended ts"
proof
  assume stuck: "\<nexists>q. thread_move de (ts, s) q"
  have "ended t" if "t \<in> set ts" for t
  proof (rule ccontr)
    assume n: "\<not> ended t"
    from split_list [OF that] obtain xs ys where ts: "ts = xs @ t # ys" by blast
    obtain new s' where "thread_step de undefined t s = (new, s')" by fastforce
    from thread_move [OF n this, of xs ys] stuck ts show False by blast
  qed
  then show "list_all ended ts" by (simp add: list_all_iff)
qed (auto elim!: thread_moveE)

text \<open>All is at rest: every thread has ended, no slot is taken, and each run is terminal unless a thread gave it up.\<close>

definition at_rest :: "thread list \<times> service \<Rightarrow> bool" where
  "at_rest = (\<lambda>(ts, s). list_all ended ts \<and> sv_active s = 0
     \<and> (\<forall>i w. find_run (sv_db s) i = Some w \<longrightarrow> (is_terminal_text (rw_stage w) \<longleftrightarrow> GaveUp i \<notin> set ts)))"

lemma stuck_at_rest:
  assumes "pool_reachable de (ts, s)" "list_all ended ts"
  shows "at_rest (ts, s)"
proof -
  note inv = pool_invD [OF pool_reachable_inv [OF assms(1)]]
  have none: "\<not> holds_slot t \<and> (owned t = Some i \<longleftrightarrow> t = GaveUp i)" if "t \<in> set ts" for t i
  proof -
    have "ended t" using that assms(2) by (simp add: list_all_iff)
    then show ?thesis by (cases t) (auto simp: ended_def holds_slot_def owned_def)
  qed
  then have "slots ts = 0" by (simp add: slots_def filter_empty_conv)
  moreover have "is_terminal_text (rw_stage w) \<longleftrightarrow> GaveUp i \<notin> set ts" if "find_run (sv_db s) i = Some w" for i w
  proof -
    have "owners ts i = 0 \<longleftrightarrow> GaveUp i \<notin> set ts" using none by (auto simp: owners_def filter_empty_conv)
    moreover have "owners ts i = (if is_terminal_text (rw_stage w) then 0 else 1)"
      using that inv(3) [of i] by (simp add: unfinished_def attempt_of_def)
    ultimately show ?thesis by (simp split: if_splits)
  qed
  ultimately show ?thesis using inv(5) assms(2) by (simp add: at_rest_def)
qed

text \<open>C13: All jobs end: the threads of a reachable state, scheduled in any order and whatever the engines, the
  clock and the locks do, take finitely many steps, and where they stop every slot is free and every run is
  terminal but those whose thread gave up.\<close>
theorem jobs_come_to_rest:
  assumes "pool_reachable de p"
  shows "wf {(r, q). thread_move de q r} \<and>
    (\<forall>q. (thread_move de)\<^sup>*\<^sup>* p q \<longrightarrow> (\<exists>r. thread_move de q r) \<or> at_rest q)"
proof (intro conjI allI impI moves_end)
  fix q assume q: "(thread_move de)\<^sup>*\<^sup>* p q"
  obtain ts s where [simp]: "q = (ts, s)" by fastforce
  show "(\<exists>r. thread_move de q r) \<or> at_rest q"
    using stuck_iff [of de ts s] stuck_at_rest [of de ts s] moves_reachable [OF assms q] by auto
qed

end
