(* ===== verification/JobSamples.thy ===== *)
theory JobSamples
  imports JobProperties WorkloadFacts
begin

text \<open>
  A small deployment with one application: its modernization from the request to the end of the worker, as a
  schedule of the pool, and the interleaving of an ingestion with it.
\<close>

subsection \<open>A modernization\<close>

definition job_deployment :: deployment where
  "job_deployment = \<lparr>de_job_limit = None, de_upload_limit = None, de_production = True,
     de_fixtures = \<lparr>fx_declares = (\<lambda>_. False), fx_import = (\<lambda>_. NoLoader), fx_cobol = (\<lambda>_. None), fx_uploaded = (\<lambda>_. None)\<rparr>\<rparr>"

definition job_failure_seen :: failure where
  "job_failure_seen = Internal ''RuntimeError''"

definition job_world :: world where
  "job_world = \<lparr>wo_now = ''t'', wo_launch = None, wo_locked = False, wo_discovery = None,
     wo_generation = EngineRaised [] job_failure_seen,
     wo_validation = \<lparr>vo_adapter = None, vo_prepare = None, vo_phases = [], vo_files = None,
       vo_result = Inl job_failure_seen, vo_proof = Inr None\<rparr>,
     wo_detected = [], wo_extracted = Inr (''cobol-2'', [])\<rparr>"

definition job_app :: application_record where
  "job_app = sample_application\<lparr>ap_cobol_source_path := Some ''cobol-1''\<rparr>"

definition job_run :: run_record where
  "job_run = new_run ''t'' ''r1'' job_app"

definition job_loaded :: run_record where
  "job_loaded = job_run\<lparr>rr_last_stage := Some ''CREATED''\<rparr>"

definition job_last :: run_record where
  "job_last = failed_run ''t'' (public_run_error job_failure_seen ''r1'') job_loaded"

definition job_db :: db where
  "job_db = snd (add_application job_app empty_db)"

definition job_db_added :: db where
  "job_db_added = snd (add_run job_run job_db)"

definition job_db_failed :: db where
  "job_db_failed = snd (update_run False job_last job_db_added)"

definition job_service :: "db \<Rightarrow> int \<Rightarrow> service" where
  "job_service d n = \<lparr>sv_db = d, sv_active = n, sv_fs = (\<lambda>_. Directory [])\<rparr>"

definition job_answer :: thread where
  "job_answer = Answered (RunAnswer (Inr job_run))"

definition job_kind_seen :: job_kind where
  "job_kind_seen = ModernizeJob ''a1'' False"

definition job_row :: run_row where
  "job_row = new_run_row job_run (None, None, None) None"

lemma job_service_simps [simp]:
  "sv_db (job_service d n) = d" "sv_active (job_service d n) = n" "sv_fs (job_service d n) p = Directory []"
  "call f (job_service d n) = (fst (f d), job_service (snd (f d)) n)"
  "release_slot (job_service d n) = job_service d (n - 1)"
  by (simp_all add: job_service_def call_def release_slot_def split: prod.split)

lemma job_write [simp]: "write_call job_world f (job_service d n) = (fst (f d), job_service (snd (f d)) n)"
  by (simp add: write_call_def job_world_def)

lemma job_run_simps [simp]:
  "rr_id job_run = ''r1''" "rr_application_id job_run = ''a1''" "rr_id job_loaded = ''r1''"
  "rr_application_id job_loaded = ''a1''" "rr_source_path job_loaded = Some ''cobol-1''"
  by (simp_all add: job_run_def job_loaded_def new_run_def job_app_def sample_application_def)

lemma job_stored:
  "db_apps job_db = [app_params job_app]" "db_runs job_db = []"
  "db_apps job_db_added = [app_params job_app]" "db_runs job_db_added = [job_row]"
  "add_run job_run job_db = (Inr job_run, job_db_added)"
proof -
  show d: "db_apps job_db = [app_params job_app]" "db_runs job_db = []"
    by (simp_all add: job_db_def add_application_def empty_db_def find_app_def)
  have p: "run_params job_run = Inr (None, None, None)" "rr_discovery_snapshot job_run = None"
    by (simp_all add: run_params_def encode_opt_def encode_report_def job_run_def new_run_def)
  have a: "add_run job_run job_db = (Inr job_run, commit (job_db\<lparr>db_runs := [job_row]\<rparr>))"
    by (simp add: add_run_def p encode_snapshot_def find_run_def d job_row_def)
  then show "db_apps job_db_added = [app_params job_app]" "db_runs job_db_added = [job_row]"
    "add_run job_run job_db = (Inr job_run, job_db_added)" by (simp_all add: job_db_added_def d)
qed

lemma job_app_loaded: "db_apps d = [app_params job_app] \<Longrightarrow> get_application ''a1'' d = (Inr (Some job_app), d)"
  by (simp add: get_application_def find_app_def app_params_def job_app_def sample_application_def app_from_row_def
      decode_encode_str_list or_default_def)

lemma job_run_loaded: "get_run ''r1'' job_db_added = (Inr (Some job_loaded), job_db_added)"
  by (simp add: get_run_def find_run_def job_stored job_row_def new_run_row_def job_run_def new_run_def run_from_row_def
      parse_stage_def all_stages_def decode_snapshot_def decode_evidence_manifest_def decode_verdict_def decode_report_def
      decode_envelope_def job_app_def sample_application_def or_default_def job_loaded_def
      last_stage_anchor_def terminal_stages_def)

definition job_contract :: certification_contract where
  "job_contract = default_certification ''w1'' ''API-driven workload for Payroll''"

lemma contract_resolves: "resolve_contract job_deployment s job_app source = Inr job_contract"
  using default_contract_eq [of "''w1''"]
  by (simp add: resolve_contract_def unreadable_source_def registry_at_def job_deployment_def resolve_certification_contract_def
      load_declared_workload_def safe_workload_id_def is_word_char_def is_alnum_def registry_directories_def starts_with_def
      job_app_def sample_application_def job_contract_def split: sum.split)

lemma job_steps:
  "thread_step job_deployment job_world (ModernizeRequest ''a1'' False ''r1'') (job_service job_db n)
     = ([ModernizeReserve job_run False], job_service job_db n)"
  "thread_step job_deployment job_world (ModernizeReserve job_run False) (job_service d 0)
     = ([ModernizeAdd job_run False], job_service d 1)"
  "thread_step job_deployment job_world (ModernizeAdd job_run False) (job_service job_db n)
     = ([ModernizeLaunch job_run False], job_service job_db_added n)"
  "thread_step job_deployment job_world (ModernizeLaunch job_run False) s = ([job_answer, WorkerStart job_kind_seen ''r1''], s)"
  "thread_step job_deployment job_world (WorkerStart job_kind_seen ''r1'') (job_service job_db_added n)
     = ([WorkerLoad job_kind_seen job_loaded], job_service job_db_added n)"
  "thread_step job_deployment job_world (WorkerLoad job_kind_seen job_loaded) (job_service job_db_added n)
     = ([WorkerRun job_loaded job_app [Fail job_failure_seen]], job_service job_db_added n)"
  "thread_step job_deployment job_world (WorkerRun job_loaded job_app [Fail job_failure_seen]) s
     = ([WorkerFinal job_last 3], s)"
  "thread_step job_deployment job_world (WorkerExit None) (job_service d 1) = ([], job_service d 0)"
proof -
  have app: "service_get_application ''a1'' job_db = Inr job_app"
    by (simp add: service_get_application_def job_app_loaded job_stored)
  have a: "ap_cobol_source_path job_app = Some ''cobol-1''" "ap_target_runtime job_app = ''spring_boot''"
    by (simp_all add: job_app_def sample_application_def)
  have pre: "modernize_preflight job_deployment ''t'' ''a1'' False ''r1'' (job_service job_db n) = Inr job_run"
    by (simp add: contract_resolves modernize_preflight_def app a or_empty_def check_target_runtime_def supported_runtimes_def job_run_def)
  then show "thread_step job_deployment job_world (ModernizeRequest ''a1'' False ''r1'') (job_service job_db n)
     = ([ModernizeReserve job_run False], job_service job_db n)"
    by (simp add: request_step_def job_world_def)
  show "thread_step job_deployment job_world (ModernizeReserve job_run False) (job_service d 0)
     = ([ModernizeAdd job_run False], job_service d 1)"
    by (simp add: reserve_step_def acquire_job_slot_def job_limit_def at_least_one_def job_deployment_def job_service_def)
  show "thread_step job_deployment job_world (ModernizeAdd job_run False) (job_service job_db n)
     = ([ModernizeLaunch job_run False], job_service job_db_added n)"
    by (simp add: job_stored)
  show "thread_step job_deployment job_world (ModernizeLaunch job_run False) s = ([job_answer, WorkerStart job_kind_seen ''r1''], s)"
    by (simp add: launch_step_def job_world_def job_answer_def job_kind_seen_def)
  show "thread_step job_deployment job_world (WorkerStart job_kind_seen ''r1'') (job_service job_db_added n)
     = ([WorkerLoad job_kind_seen job_loaded], job_service job_db_added n)"
    by (simp add: job_run_loaded)
  show "thread_step job_deployment job_world (WorkerLoad job_kind_seen job_loaded) (job_service job_db_added n)
     = ([WorkerRun job_loaded job_app [Fail job_failure_seen]], job_service job_db_added n)"
    by (simp add: load_step_def job_kind_seen_def job_application_def job_app_loaded job_stored script_of_def
        modernize_script_def snapshot_script_def generate_script_def job_world_def a progress_def fail_if_def
        List.map_filter_def split: option.split)
  show "thread_step job_deployment job_world (WorkerRun job_loaded job_app [Fail job_failure_seen]) s
     = ([WorkerFinal job_last 3], s)"
    by (simp add: work_step_def job_last_def job_world_def persist_attempts_def)
  show "thread_step job_deployment job_world (WorkerExit None) (job_service d 1) = ([], job_service d 0)" by simp
qed

lemma job_params: "run_params job_last = Inr (None, None, None)"
  by (simp add: run_params_def encode_opt_def encode_report_def job_last_def failed_run_def job_loaded_def job_run_def new_run_def)

text \<open>The schedule, up to the last write.\<close>

definition job_pool :: "thread list \<Rightarrow> db \<Rightarrow> int \<Rightarrow> thread list \<times> service" where
  "job_pool ts d n = (ts, job_service d n)"

lemma job_move:
  "thread_step job_deployment job_world t (job_service d n) = (new, job_service d' n') \<Longrightarrow> \<not> ended t \<Longrightarrow>
    thread_move job_deployment (job_pool (xs @ t # ys) d n) (job_pool (xs @ new @ ys) d' n')"
  unfolding job_pool_def by (rule thread_move)

lemma job_moves:
  "(thread_move job_deployment)\<^sup>*\<^sup>* (job_pool [ModernizeRequest ''a1'' False ''r1''] job_db 0)
     (job_pool [job_answer, WorkerStart job_kind_seen ''r1''] job_db_added 1)"
  "(thread_move job_deployment)\<^sup>*\<^sup>* (job_pool [job_answer, WorkerStart job_kind_seen ''r1''] job_db_added 1)
     (job_pool [job_answer, WorkerFinal job_last 3] job_db_added 1)"
proof -
  note m = job_move [where xs = "[]" and ys = "[]", simplified] and n = job_move [where xs = "[job_answer]" and ys = "[]", simplified]
  let ?m = "thread_move job_deployment"
  have "?m\<^sup>*\<^sup>* (job_pool [ModernizeRequest ''a1'' False ''r1''] job_db 0) (job_pool [ModernizeRequest ''a1'' False ''r1''] job_db 0)"
    by simp
  also have "?m (job_pool [ModernizeRequest ''a1'' False ''r1''] job_db 0) (job_pool [ModernizeReserve job_run False] job_db 0)"
    by (rule m [OF job_steps(1)]) (simp add: ended_def)
  also have "?m (job_pool [ModernizeReserve job_run False] job_db 0) (job_pool [ModernizeAdd job_run False] job_db 1)"
    by (rule m [OF job_steps(2)]) (simp add: ended_def)
  also have "?m (job_pool [ModernizeAdd job_run False] job_db 1) (job_pool [ModernizeLaunch job_run False] job_db_added 1)"
    by (rule m [OF job_steps(3)]) (simp add: ended_def)
  also have "?m (job_pool [ModernizeLaunch job_run False] job_db_added 1)
      (job_pool [job_answer, WorkerStart job_kind_seen ''r1''] job_db_added 1)"
    by (rule m [OF job_steps(4)]) (simp add: ended_def)
  finally show "?m\<^sup>*\<^sup>* (job_pool [ModernizeRequest ''a1'' False ''r1''] job_db 0)
     (job_pool [job_answer, WorkerStart job_kind_seen ''r1''] job_db_added 1)" .
  have "?m\<^sup>*\<^sup>* (job_pool [job_answer, WorkerStart job_kind_seen ''r1''] job_db_added 1)
      (job_pool [job_answer, WorkerStart job_kind_seen ''r1''] job_db_added 1)" by simp
  also have "?m (job_pool [job_answer, WorkerStart job_kind_seen ''r1''] job_db_added 1)
      (job_pool [job_answer, WorkerLoad job_kind_seen job_loaded] job_db_added 1)"
    by (rule n [OF job_steps(5)]) (simp add: ended_def)
  also have "?m (job_pool [job_answer, WorkerLoad job_kind_seen job_loaded] job_db_added 1)
      (job_pool [job_answer, WorkerRun job_loaded job_app [Fail job_failure_seen]] job_db_added 1)"
    by (rule n [OF job_steps(6)]) (simp add: ended_def)
  also have "?m (job_pool [job_answer, WorkerRun job_loaded job_app [Fail job_failure_seen]] job_db_added 1)
      (job_pool [job_answer, WorkerFinal job_last 3] job_db_added 1)"
    by (rule n [OF job_steps(7)]) (simp add: ended_def)
  finally show "?m\<^sup>*\<^sup>* (job_pool [job_answer, WorkerStart job_kind_seen ''r1''] job_db_added 1)
     (job_pool [job_answer, WorkerFinal job_last 3] job_db_added 1)" .
qed

lemma job_start: "pool_reachable job_deployment (job_pool [ModernizeRequest ''a1'' False ''r1''] job_db 0)"
proof -
  have f: "first_start (\<lambda>_. Directory []) = ([], job_service empty_db 0)" by (simp add: first_start_def job_service_def)
  have "pool_steps job_deployment (first_start (\<lambda>_. Directory [])) (first_start (\<lambda>_. Directory []))" by simp
  also have "pool_step job_deployment (first_start (\<lambda>_. Directory [])) ([], job_service job_db 0)"
    using pool_step.pool_client [of "job_service empty_db 0" job_db job_deployment "[]"]
      client_add_application [of empty_db job_app]
    by (simp add: f job_db_def job_service_def)
  also have "pool_step job_deployment ([], job_service job_db 0) (job_pool [ModernizeRequest ''a1'' False ''r1''] job_db 0)"
    using pool_step.pool_request [of "ModernizeRequest ''a1'' False ''r1''" job_deployment "[]" "job_service job_db 0"]
    by (simp add: is_request_def job_pool_def)
  finally show ?thesis unfolding pool_reachable_def by blast
qed

lemmas job_reached = moves_reachable [OF job_start job_moves(1)] moves_reachable [OF moves_reachable [OF job_start job_moves(1)] job_moves(2)]

subsection \<open>The properties at this schedule\<close>

lemma slots_accounted_witness: "job_slots job_deployment (job_service job_db_added 1) = (1, 4)"
  using slots_accounted [OF job_reached(1) [unfolded job_pool_def]]
  by (simp add: job_answer_def slots_def holds_slot_def job_limit_def at_least_one_def job_deployment_def)

lemma single_flight_witness:
  "length (filter (\<lambda>t. owned t = Some ''r1'') [job_answer, WorkerStart job_kind_seen ''r1'']) = 1"
  using single_flight [OF job_reached(1) [unfolded job_pool_def], of "''r1''"]
  by (simp add: find_run_def job_stored job_row_def new_run_row_def job_run_def new_run_def is_terminal_text_def terminal_stages_def)

lemma pool_refines_store_witness: "reachable job_db \<and> store_steps job_db job_db_added"
proof -
  have "pool_steps job_deployment (job_pool [ModernizeRequest ''a1'' False ''r1''] job_db 0)
      (job_pool [job_answer, WorkerStart job_kind_seen ''r1''] job_db_added 1)"
    by (rule mono_rtranclp [rule_format, OF move_is_step job_moves(1)])
  from pool_refines_store [OF job_start [unfolded job_pool_def] this [unfolded job_pool_def]] show ?thesis by simp
qed

text \<open>The failed record of the worker lands; the same record with an older attempt number would not.\<close>

lemma final_write_outcome_witness:
  "(\<exists>d row. thread_step job_deployment job_world (WorkerFinal job_last 3) (job_service job_db_added 1)
      = ([WorkerExit None], (job_service job_db_added 1)\<lparr>sv_db := d\<rparr>) \<and>
    find_run d ''r1'' = Some row \<and> rw_stage row = stage_value STAGE_FAILED) \<and>
   thread_step job_deployment job_world (WorkerFinal (job_last\<lparr>rr_generation := - 1\<rparr>) 3) (job_service job_db_added 1)
      = ([WorkerFinal (job_last\<lparr>rr_generation := - 1\<rparr>) 2], job_service job_db_added 1)"
proof -
  let ?s = "job_service job_db_added 1" and ?old = "job_last\<lparr>rr_generation := - 1\<rparr>"
  have r: "reachable (sv_db ?s)"
    using pool_invD(1) [OF pool_reachable_inv [OF job_reached(1) [unfolded job_pool_def]]] by simp
  have f: "rr_stage job_last = STAGE_FAILED" "rr_generation job_last = 0" "rr_id job_last = ''r1''"
    by (simp_all add: job_last_def failed_run_def job_loaded_def job_run_def new_run_def)
  have row: "find_run (sv_db ?s) ''r1'' = Some job_row"
    by (simp add: find_run_def job_stored job_row_def new_run_row_def job_run_def new_run_def)
  have j: "rw_generation job_row = 0" "\<not> is_terminal_text (rw_stage job_row)"
    by (simp_all add: job_row_def new_run_row_def job_run_def new_run_def is_terminal_text_def terminal_stages_def)
  have a: "accepts_final (sv_db ?s) job_last" "\<not> accepts_final (sv_db ?s) ?old"
    using row j f by (simp_all add: accepts_final_def)
  have t: "rr_stage job_last \<in> set terminal_stages" "rr_stage ?old \<in> set terminal_stages"
    using f by (simp_all add: terminal_stages_def)
  have o: "thread_step job_deployment job_world (WorkerFinal ?old 3) ?s = ([WorkerFinal ?old 2], ?s)"
    using final_write_outcome [OF r t(2), of job_world job_deployment 3] a(2) by simp
  have "\<not> wo_locked job_world \<and> accepts_final (sv_db ?s) job_last \<and> (\<exists>blobs. run_params job_last = Inr blobs)"
    using a(1) job_params by (simp add: job_world_def)
  with final_write_outcome [OF r t(1), of job_world job_deployment 3] obtain blobs x d where
    "thread_step job_deployment job_world (WorkerFinal job_last 3) ?s = ([WorkerExit None], ?s\<lparr>sv_db := d\<rparr>)"
    "find_run d ''r1'' = Some (run_columns job_last blobs x)" unfolding f(3) by auto
  then show ?thesis using o f(1) by (auto simp: run_columns_def split: prod.splits)
qed

lemma job_final: "thread_step job_deployment job_world (WorkerFinal job_last 3) (job_service job_db_added 1)
    = ([WorkerExit None], job_service job_db_failed 1)"
proof -
  have "rr_stage job_last = STAGE_FAILED" "rr_generation job_last = 0" "rr_id job_last = ''r1''"
    by (simp_all add: job_last_def failed_run_def job_loaded_def job_run_def new_run_def)
  then have "fst (update_run False job_last job_db_added) = Inr ()"
    using job_params
    by (simp add: update_run_def find_run_def job_stored job_row_def new_run_row_def job_run_def new_run_def
        parse_stage_def all_stages_def Let_def is_valid_transition_def terminal_stages_def)
  then show ?thesis
    by (simp add: final_step_def persist_def job_db_failed_def)
qed

text \<open>After the request of the modernization, the pool comes to rest with the run failed.\<close>
lemma jobs_come_to_rest_witness: "at_rest ([job_answer], job_service job_db_failed 0)"
proof -
  let ?m = "thread_move job_deployment"
  have "?m\<^sup>*\<^sup>* (job_pool [ModernizeRequest ''a1'' False ''r1''] job_db 0) (job_pool [job_answer, WorkerFinal job_last 3] job_db_added 1)"
    using job_moves by (rule rtranclp_trans)
  also have "?m (job_pool [job_answer, WorkerFinal job_last 3] job_db_added 1) (job_pool [job_answer, WorkerExit None] job_db_failed 1)"
    by (rule job_move [where xs = "[job_answer]" and ys = "[]", simplified, OF job_final]) (simp add: ended_def)
  also have "?m (job_pool [job_answer, WorkerExit None] job_db_failed 1) (job_pool [job_answer] job_db_failed 0)"
    using job_move [OF job_steps(8), of "[job_answer]" "[]" job_db_failed] by (simp add: ended_def)
  finally have m: "?m\<^sup>*\<^sup>* (job_pool [ModernizeRequest ''a1'' False ''r1''] job_db 0) (job_pool [job_answer] job_db_failed 0)" .
  have "\<nexists>q. ?m (job_pool [job_answer] job_db_failed 0) q"
    unfolding job_pool_def stuck_iff by (simp add: job_answer_def ended_def)
  with jobs_come_to_rest [OF job_start] m show ?thesis unfolding job_pool_def by blast
qed

subsection \<open>An ingestion next to a modernization\<close>

definition job_fields :: "(string \<times> app_field) list" where
  "job_fields = ingest_fields ''cobol-2'' None"

definition job_db_ingested :: db where
  "job_db_ingested = snd (update_application_fields ''a1'' None job_fields job_db_added)"

lemma ingest_steps:
  "thread_step job_deployment job_world (IngestRequest ''a1'') (job_service job_db n)
     = ([IngestReserve ''a1''], job_service job_db n)"
  "thread_step job_deployment job_world (IngestReserve ''a1'') (job_service d 1)
     = ([IngestExtract ''a1''], job_service d 2)"
  "thread_step job_deployment job_world (IngestExtract ''a1'') (job_service job_db_added n)
     = ([IngestName job_app ''cobol-2''], job_service job_db_added n)"
  "thread_step job_deployment job_world (IngestName job_app ''cobol-2'') (job_service d n)
     = ([IngestRecord job_app ''cobol-2'' job_fields], job_service d n)"
  "thread_step job_deployment job_world (IngestRecord job_app ''cobol-2'' job_fields) (job_service job_db_added n)
     = ([IngestCleanup (Some ''cobol-1'')], job_service job_db_ingested n)"
proof -
  have "list_runs_for_application ''a1'' job_db = (Inr [], job_db)"
    by (simp add: list_runs_for_application_def job_stored)
  then show "thread_step job_deployment job_world (IngestRequest ''a1'') (job_service job_db n)
     = ([IngestReserve ''a1''], job_service job_db n)"
    by (simp add: request_step_def refuse_while_run_active_def)
  show "thread_step job_deployment job_world (IngestReserve ''a1'') (job_service d 1)
     = ([IngestExtract ''a1''], job_service d 2)"
    by (simp add: reserve_step_def acquire_job_slot_def job_limit_def at_least_one_def job_deployment_def job_service_def)
  have m: "make_directory p [] (job_service d m) = job_service d m" for p d m
    by (simp add: make_directory_def job_service_def fun_upd_idem)
  show "thread_step job_deployment job_world (IngestExtract ''a1'') (job_service job_db_added n)
     = ([IngestName job_app ''cobol-2''], job_service job_db_added n)"
    by (simp add: ingest_step_def service_get_application_def job_app_loaded job_stored job_world_def m)
  show "thread_step job_deployment job_world (IngestName job_app ''cobol-2'') (job_service d n)
     = ([IngestRecord job_app ''cobol-2'' job_fields], job_service d n)"
    by (simp add: ingest_step_def ingest_name_def job_world_def job_fields_def)
  have a: "ap_id job_app = ''a1''" "ap_cobol_source_path job_app = Some ''cobol-1''"
    by (simp_all add: job_app_def sample_application_def)
  have "\<exists>x. fst (update_application_fields ''a1'' None job_fields job_db_added) = Inr x"
    by (simp add: update_application_fields_def job_fields_def ingest_fields_def application_fields_def well_typed_change_def
        update_app_where_def find_app_def job_stored Let_def update_where_def set_column_def field_opt_def app_params_def a
        app_from_row_def decode_encode_str_list)
  then obtain x where "fst (update_application_fields ''a1'' None job_fields job_db_added) = Inr x" ..
  then show "thread_step job_deployment job_world (IngestRecord job_app ''cobol-2'' job_fields) (job_service job_db_added n)
     = ([IngestCleanup (Some ''cobol-1'')], job_service job_db_ingested n)"
    by (simp add: ingest_step_def a job_db_ingested_def)
qed

text \<open>The check that no run is in progress is made before the request has done anything that would keep one from
  starting: an ingestion that passed it removes the source of a run that started since, while its worker runs.\<close>

lemma source_removed_during_run:
  "\<exists>ts s ts' s'. pool_reachable job_deployment (ts, s) \<and> pool_step job_deployment (ts, s) (ts', s')
     \<and> WorkerRun job_loaded job_app [Fail job_failure_seen] \<in> set ts \<inter> set ts'
     \<and> rr_source_path job_loaded = Some ''cobol-1''
     \<and> is_directory (sv_fs s) ''cobol-1'' \<and> \<not> is_directory (sv_fs s') ''cobol-1''"
proof -
  let ?p = "job_pool" and ?m = "thread_move job_deployment" and ?r = "pool_reachable job_deployment"
  let ?run = "WorkerRun job_loaded job_app [Fail job_failure_seen]" and ?ask = "ModernizeRequest ''a1'' False ''r1''"
  have add: "?r (?p ts d n) \<Longrightarrow> is_request t \<Longrightarrow> ?r (?p (ts @ [t]) d n)" for ts d n t
    unfolding pool_reachable_def job_pool_def by (meson pool_step.pool_request rtranclp.rtrancl_into_rtrancl)
  have go: "?r p \<Longrightarrow> ?m p q \<Longrightarrow> ?r q" for p q using moves_reachable by blast
  have f: "first_start (\<lambda>_. Directory []) = ([], job_service empty_db 0)" by (simp add: first_start_def job_service_def)
  have "pool_step job_deployment (first_start (\<lambda>_. Directory [])) (?p [] job_db 0)"
    using pool_step.pool_client [of "job_service empty_db 0" job_db job_deployment "[]"]
      client_add_application [of empty_db job_app]
    by (simp add: f job_db_def job_service_def job_pool_def)
  then have "?r (?p [] job_db 0)" unfolding pool_reachable_def by blast
  from add [OF this, of "IngestRequest ''a1''"] have "?r (?p [IngestRequest ''a1''] job_db 0)" by (simp add: is_request_def)
  from go [OF this job_move [OF ingest_steps(1), of "[]" "[]", simplified]]
  have "?r (?p [IngestReserve ''a1''] job_db 0)" by (simp add: ended_def)
  from add [OF this, of ?ask] have "?r (?p [IngestReserve ''a1'', ?ask] job_db 0)" by (simp add: is_request_def)
  from go [OF this job_move [OF job_steps(1), of "[IngestReserve ''a1'']" "[]", simplified]]
  have "?r (?p [IngestReserve ''a1'', ModernizeReserve job_run False] job_db 0)" by (simp add: ended_def)
  from go [OF this job_move [OF job_steps(2), of "[IngestReserve ''a1'']" "[]", simplified]]
  have "?r (?p [IngestReserve ''a1'', ModernizeAdd job_run False] job_db 1)" by (simp add: ended_def)
  from go [OF this job_move [OF job_steps(3), of "[IngestReserve ''a1'']" "[]", simplified]]
  have "?r (?p [IngestReserve ''a1'', ModernizeLaunch job_run False] job_db_added 1)" by (simp add: ended_def)
  from go [OF this job_move [OF job_steps(4), of "[IngestReserve ''a1'']" "[]", simplified]]
  have "?r (?p [IngestReserve ''a1'', job_answer, WorkerStart job_kind_seen ''r1''] job_db_added 1)" by (simp add: ended_def)
  from go [OF this job_move [OF job_steps(5), of "[IngestReserve ''a1'', job_answer]" "[]", simplified]]
  have "?r (?p [IngestReserve ''a1'', job_answer, WorkerLoad job_kind_seen job_loaded] job_db_added 1)" by (simp add: ended_def)
  from go [OF this job_move [OF job_steps(6), of "[IngestReserve ''a1'', job_answer]" "[]", simplified]]
  have "?r (?p [IngestReserve ''a1'', job_answer, ?run] job_db_added 1)" by (simp add: ended_def)
  from go [OF this job_move [OF ingest_steps(2), of "[]" "[job_answer, ?run]", simplified]]
  have "?r (?p [IngestExtract ''a1'', job_answer, ?run] job_db_added 2)" by (simp add: ended_def)
  from go [OF this job_move [OF ingest_steps(3), of "[]" "[job_answer, ?run]", simplified]]
  have "?r (?p [IngestName job_app ''cobol-2'', job_answer, ?run] job_db_added 2)" by (simp add: ended_def)
  from go [OF this job_move [OF ingest_steps(4), of "[]" "[job_answer, ?run]", simplified]]
  have "?r (?p [IngestRecord job_app ''cobol-2'' job_fields, job_answer, ?run] job_db_added 2)" by (simp add: ended_def)
  from go [OF this job_move [OF ingest_steps(5), of "[]" "[job_answer, ?run]", simplified]]
  have r: "?r (?p [IngestCleanup (Some ''cobol-1''), job_answer, ?run] job_db_ingested 2)" by (simp add: ended_def)
  let ?s = "cleanup_temp_dir (Some ''cobol-1'') (job_service job_db_ingested 2)"
  have "pool_step job_deployment (?p [IngestCleanup (Some ''cobol-1''), job_answer, ?run] job_db_ingested 2)
      ([Releasing (Accepted (Inr ())), job_answer, ?run], ?s)"
    using pool_step.pool_thread [of job_deployment job_world "IngestCleanup (Some ''cobol-1'')" "job_service job_db_ingested 2"
        "[Releasing (Accepted (Inr ()))]" ?s "[]" "[job_answer, ?run]"]
    by (simp add: job_pool_def ingest_step_def)
  moreover have "\<not> is_directory (sv_fs ?s) ''cobol-1''"
    by (simp add: cleanup_temp_dir_def is_directory_def path_name_def name_parts_def temp_prefixes_def starts_with_def)
  ultimately show ?thesis using r unfolding job_pool_def
    by (intro exI conjI) (assumption | simp add: is_directory_def)+
qed

text \<open>A revalidation checks that the source of the run is still there, but not that its bundle is.\<close>

lemma missing_bundle_is_a_target:
  "revalidation_target True (\<lambda>p. if p = ''cobol-1'' then Directory [] else Absent)
     (job_run\<lparr>rr_generated_app_path := Some ''out''\<rparr>) job_app = Inr (''cobol-1'', ''out'')"
  by (simp add: revalidation_target_def revalidation_paths_def job_run_def new_run_def job_app_def sample_application_def
      is_given_def or_empty_def is_directory_def)

end
