(* ===== verification/JobCertification.thy ===== *)
theory JobCertification
  imports JobProperties
begin

text \<open>
  What a completed run stands for. A script is read as a predicate transformer: \<open>certifies run script\<close> says that a
  worker that performs all of the script, from the record \<open>run\<close>, ends with a record that carries its evidence, a
  verdict about that evidence and a seal. Every script does, whatever the engines report, and the store keeps it.
\<close>

subsection \<open>Scripts\<close>

definition documented :: "run_record \<Rightarrow> bool" where
  "documented run \<longleftrightarrow> (\<exists>m v. rr_evidence_manifest run = Some m \<and> rr_verdict run = Some v
     \<and> vd_evidence_manifest_hash v = str_hash (manifest_hash m))"

fun certifies :: "run_record \<Rightarrow> action list \<Rightarrow> bool" where
  "certifies run [] \<longleftrightarrow> documented run \<and> rr_generated_seal run \<noteq> None"
| "certifies run (Snapshot d # rest) \<longleftrightarrow> certifies run rest \<and> certifies (run\<lparr>rr_discovery_snapshot := d\<rparr>) rest"
| "certifies run (Progress st # rest) \<longleftrightarrow> certifies (run\<lparr>rr_stage := st\<rparr>) rest"
| "certifies run (PlaceTree dir files # rest) \<longleftrightarrow> certifies run rest"
| "certifies run (Report d # rest) \<longleftrightarrow> certifies (run\<lparr>rr_report := Some d\<rparr>) rest"
| "certifies run (UpdateApplication columns # rest) \<longleftrightarrow> certifies run rest"
| "certifies run (SealBundle dir # rest) \<longleftrightarrow> (\<forall>seal. certifies (run\<lparr>rr_generated_seal := Some seal\<rparr>) rest)"
| "certifies run (RecordBundle dir e # rest) \<longleftrightarrow>
     certifies (run\<lparr>rr_generated_app_path := Some dir, rr_generated_entrypoint := e\<rparr>) rest"
| "certifies run (ResolveContract # rest) \<longleftrightarrow> (\<forall>c. certifies (run\<lparr>rr_contract := Some c\<rparr>) rest)"
| "certifies run (Results m v # rest) \<longleftrightarrow> certifies (run\<lparr>rr_evidence_manifest := Some m, rr_verdict := Some v\<rparr>) rest"
| "certifies run (CheckConsistency # rest) \<longleftrightarrow> (check_evidence_verdict_consistency run = Inr () \<longrightarrow> certifies run rest)"
| "certifies run (SaveRun # rest) \<longleftrightarrow> certifies run rest"
| "certifies run (Fail f # rest) \<longleftrightarrow> True"

lemma documented_frame [simp]:
  "documented (run\<lparr>rr_report := a\<rparr>) = documented run" "documented (run\<lparr>rr_generated_seal := b\<rparr>) = documented run"
  "documented (completed_run now run) = documented run"
  by (simp_all add: documented_def completed_run_def)

lemma certifies_append: "(\<And>r. certifies r ys) \<Longrightarrow> certifies run (xs @ ys)"
proof (induction xs arbitrary: run)
  case (Cons a xs)
  then show ?case by (cases a) simp_all
qed simp

lemma certifies_fail: "certifies run (xs @ Fail f # ys)"
  by (rule certifies_append) simp

lemma validation_certifies: "certifies run (validation_script w dir)"
proof -
  have end_of: "certifies r (Results m v # CheckConsistency # (case report of None \<Rightarrow> [] | Some d \<Rightarrow> [Report d]) @ [SealBundle dir, SaveRun])"
    for r m v report
    by (cases report) (auto simp: check_evidence_verdict_consistency_def raise_api_def documented_def split: if_splits)
  show ?thesis
    unfolding validation_script_def Let_def
    by (intro certifies_append)
       (simp del: certifies.simps(10) add: end_of certifies_fail [of _ "[]", simplified]
          certifies_fail [of _ "[x, y]" for x y, simplified] split: sum.split prod.split)
qed

lemma generation_certifies:
  "certifies run (generate_script w app r @ fail_if x
     @ (case wo_generation w of EngineReported _ g \<Rightarrow> validation_script w (or_empty (gr_dir g)) | EngineRaised _ _ \<Rightarrow> []))"
proof (cases "wo_generation w")
  case (EngineRaised phases f)
  then show ?thesis using certifies_fail by (simp add: generate_script_def)
qed (simp add: certifies_append validation_certifies)

lemma script_certifies: "certifies run (script_of de w k fs app r)"
proof -
  have m: "certifies run (modernize_script w uploaded app r)" for uploaded
    unfolding modernize_script_def
    by (rule certifies_append) (simp add: generation_certifies validation_certifies split: option.split)
  have "certifies run (revalidate_script de w fs app r)"
    by (auto simp: revalidate_script_def intro: certifies_append validation_certifies split: sum.split prod.split)
  with m show ?thesis by (simp add: script_of_def split: job_kind.split)
qed

lemma perform_certifies:
  assumes "perform de w app a run s = (None, run', s')" "certifies run (a # rest)"
  shows "certifies run' rest"
  using assms
  by (cases a) (auto simp: or_fail_def Let_def split: sum.splits prod.splits if_splits)

subsection \<open>Seals in the store\<close>

definition sealed_runs :: "db \<Rightarrow> string set" where
  "sealed_runs d = {i. \<exists>w. find_run d i = Some w \<and> rw_generated_seal w \<noteq> None}"

lemma sealed_same_runs: "db_runs d' = db_runs d \<Longrightarrow> sealed_runs d' = sealed_runs d"
  by (simp add: sealed_runs_def find_run_def)

lemma sealed_commit [simp]: "sealed_runs (commit d) = sealed_runs d"
  by (rule sealed_same_runs) simp

lemma sealed_frame [simp]: "sealed_runs (d\<lparr>db_events := e\<rparr>) = sealed_runs d" "sealed_runs (d\<lparr>db_apps := a\<rparr>) = sealed_runs d"
  by (rule sealed_same_runs; simp)+

lemma sealed_update:
  assumes "keeps_run_id f" "i \<in> sealed_runs d"
    and "\<And>w. rw_id w = i \<Longrightarrow> p w \<Longrightarrow> rw_generated_seal w \<noteq> None \<Longrightarrow> rw_generated_seal (f w) \<noteq> None"
  shows "i \<in> sealed_runs (update_runs p f d)"
proof -
  obtain w where w: "find_run d i = Some w" "rw_generated_seal w \<noteq> None" using assms(2) by (auto simp: sealed_runs_def)
  have "find_run (update_runs p f d) i = Some (if p w then f w else w)"
    using w(1) by (simp add: find_run_def find_run_updated [OF assms(1)])
  then show ?thesis using w(2) assms(3) [of w] find_run_mem [OF w(1)] by (simp add: sealed_runs_def)
qed

lemma write_run_sealed:
  assumes "keeps_run_id f" "\<And>w. rw_generated_seal w \<noteq> None \<Longrightarrow> rw_generated_seal (f w) \<noteq> None" "i \<in> sealed_runs d"
  shows "i \<in> sealed_runs (snd (write_run stale j e f d))"
  using sealed_update [OF assms(1,3)] assms(2,3) by (simp add: write_run_def split: option.split)

lemma rollback_sealed:
  assumes "store_inv d"
  shows "sealed_runs (rollback d) = sealed_runs d"
proof -
  let ?k = "\<lambda>i w. if rw_id w = i then [rw_generated_seal w] else []"
  have f: "map_option rw_generated_seal (find (\<lambda>w. rw_id w = i) xs)
      = (case concat (map (?k i) xs) of [] \<Rightarrow> None | a # _ \<Rightarrow> Some a)" for xs i
    by (induction xs) auto
  have "map (?k i) (db_runs d) = map (?k i) (db_committed d)" for i
    by (rule anchor_map [OF store_invD(5) [OF assms]]) (simp add: forget_anchor_def)
  then have "map_option rw_generated_seal (find_run (rollback d) i) = map_option rw_generated_seal (find_run d i)" for i
    by (simp add: find_run_def f)
  then have "(\<exists>t. map_option rw_generated_seal (find_run (rollback d) i) = Some (Some t))
      \<longleftrightarrow> (\<exists>t. map_option rw_generated_seal (find_run d i) = Some (Some t))" for i by simp
  then show ?thesis by (simp add: sealed_runs_def set_eq_iff) blast
qed

lemma update_run_sealed: "i \<in> sealed_runs d \<Longrightarrow> i \<in> sealed_runs (snd (update_run False r d))"
proof -
  assume i: "i \<in> sealed_runs d"
  have k: "keeps_run_id (run_columns r blobs)" "keeps_run_id (\<lambda>x. x\<lparr>rw_last_stage := a\<rparr>)"
    "rw_generated_seal (run_columns r blobs w) = rw_generated_seal w" for blobs a w
    by (cases blobs; simp add: keeps_run_id_def run_columns_def)+
  have a: "i \<in> sealed_runs (update_runs p (\<lambda>x. x\<lparr>rw_last_stage := a\<rparr>) d)" for p a
    by (rule sealed_update [OF k(2) i]) simp
  have b: "i \<in> sealed_runs (update_runs p (run_columns r blobs) x)" if "i \<in> sealed_runs x" for p blobs x
    by (rule sealed_update [OF k(1) that]) (simp add: k(3))
  show ?thesis using i by (auto simp: update_run_def Let_def a b split: option.split sum.split)
qed

text \<open>No call takes the seal off a run that is in progress.\<close>

lemma call_sealed:
  assumes "job_call t d d'" "i \<in> sealed_runs d" "unfinished d i = 1"
  shows "i \<in> sealed_runs d'"
  using assms
proof (cases rule: job_call.cases)
  case (call_fields j e cs)
  then show ?thesis
    using assms(2) by (simp add: update_application_fields_def update_app_where_def Let_def split: option.split)
next
  case (call_add r)
  obtain res where a: "add_run r d = (res, d')" using call_add by (metis prod.collapse)
  have "find P (xs @ ys) = Some y" if "find P xs = Some y" for P xs and ys :: "run_row list" and y
    using that by (induction xs) (auto split: if_splits)
  then show ?thesis
    using a assms(2) by (fastforce simp: add_run_def sealed_runs_def find_run_def raise_api_def split: sum.splits if_splits)
next
  case (call_update r)
  then show ?thesis using assms(2) update_run_sealed by simp
next
  case (call_seal j seal e)
  then show ?thesis unfolding call_seal set_generated_seal_def
    by (intro write_run_sealed) (simp_all add: keeps_run_id_def assms(2))
next
  case (call_generated j p q e)
  then show ?thesis unfolding call_generated set_run_generated_def set_run_columns_def
    by (intro write_run_sealed) (simp_all add: keeps_run_id_def assms(2))
next
  case (call_discovery j snap)
  have "i \<in> sealed_runs (snd (set_run_columns j (\<lambda>w. w\<lparr>rw_discovery_json := x\<rparr>) None d))" for x
    unfolding set_run_columns_def by (intro write_run_sealed) (simp_all add: keeps_run_id_def assms(2))
  then show ?thesis using assms(2) by (simp add: call_discovery set_run_discovery_def split: sum.split)
next
  case (call_reset now j contract)
  obtain res where b: "begin_revalidation now j contract d = (res, d')" using call_reset by (metis prod.collapse)
  show ?thesis
  proof (cases "d' = d")
    case False
    then have n: "\<not> (d' = d \<and> (\<exists>e. res = Inl e))" by simp
    from begin_revalidation_rows [OF b n] obtain w cur where w: "find_run d j = Some w"
      and cur: "parse_stage (rw_stage w) ''persisted run stage'' = Inr cur" and t: "cur \<in> set terminal_stages"
      and runs: "db_runs d' = db_runs (update_runs (\<lambda>x. rw_id x = j) (reset_row (rw_generation w + 1) contract) d)" .
    have "attempt_of d j = Some (rw_generation w, True)"
      using w parse_stage_Inr [OF cur] t by (simp add: attempt_of_def is_terminal_text_iff)
    then have j: "j \<noteq> i" using assms(3) by (auto simp: unfinished_def)
    have "i \<in> sealed_runs (update_runs (\<lambda>x. rw_id x = j) (reset_row (rw_generation w + 1) contract) d)"
      by (rule sealed_update [OF _ assms(2)]) (use j in \<open>simp_all add: keeps_run_id_def reset_row_def\<close>)
    then show ?thesis using sealed_same_runs [OF runs] by simp
  next
    case True
    then show ?thesis using assms(2) by simp
  qed
qed simp

subsection \<open>Completed rows\<close>

text \<open>A completed row holds the encodings of a manifest and of a verdict about it, and it is sealed.\<close>

definition row_certified :: "run_row \<Rightarrow> bool" where
  "row_certified w \<longleftrightarrow> (rw_stage w = ''COMPLETED'' \<longrightarrow> rw_generated_seal w \<noteq> None
     \<and> (\<exists>run. documented run \<and> run_params run = Inr (rw_evidence_blob w, rw_verdict_blob w, rw_report_blob w)))"

definition store_certified :: "db \<Rightarrow> bool" where
  "store_certified d \<longleftrightarrow> (\<forall>w \<in> set (db_runs d) \<union> set (db_committed d). row_certified w)"

lemma certified_same:
  "set (db_runs d') \<subseteq> set (db_runs d) \<union> set (db_committed d) \<Longrightarrow> set (db_committed d') \<subseteq> set (db_runs d) \<union> set (db_committed d)
    \<Longrightarrow> store_certified d \<Longrightarrow> store_certified d'"
  by (auto simp: store_certified_def)

text \<open>A statement that rewrites rows so that the rewritten ones are certified, with or without a commit.\<close>

lemma certified_update:
  assumes "store_certified d" "\<And>w. w \<in> set (db_runs d) \<Longrightarrow> p w \<Longrightarrow> row_certified w \<Longrightarrow> row_certified (f w)"
  shows "store_certified (update_runs p f d)" "store_certified (commit (update_runs p f d))"
  using assms by (auto simp: store_certified_def set_update_where)

lemma write_run_certified:
  assumes "store_certified d" "\<And>w. row_certified w \<Longrightarrow> row_certified (f w)"
  shows "store_certified (snd (write_run stale j e f d))"
  using certified_update [OF assms(1)] assms by (simp add: write_run_def split: option.split)

lemma rollback_certified: "store_certified d \<Longrightarrow> store_certified (rollback d)"
  by (rule certified_same) auto

lemma apps_certified [simp]: "store_certified (commit (d\<lparr>db_apps := a\<rparr>)) \<longleftrightarrow> (\<forall>w \<in> set (db_runs d). row_certified w)"
  by (auto simp: store_certified_def)

lemma store_certifiedD: "store_certified d \<Longrightarrow> w \<in> set (db_runs d) \<Longrightarrow> row_certified w"
  by (simp add: store_certified_def)

lemma update_run_certified:
  assumes "store_certified d" "store_inv d"
    and "rr_stage r = COMPLETED \<Longrightarrow> documented r \<and> rr_id r \<in> sealed_runs d"
  shows "store_certified (snd (update_run False r d))"
proof -
  let ?p = "\<lambda>x. rw_id x = rr_id r"
  have anchor: "row_certified (w\<lparr>rw_last_stage := a\<rparr>) = row_certified w" for w a by (simp add: row_certified_def)
  have a: "store_certified (update_runs ?p (\<lambda>x. x\<lparr>rw_last_stage := a\<rparr>) d)" for a
    by (rule certified_update [OF assms(1)]) (simp add: anchor)
  have sealed: "rw_generated_seal w \<noteq> None"
    if "w \<in> set (db_runs d')" "?p w" "rr_id r \<in> sealed_runs d'" "map rw_id (db_runs d') = map rw_id (db_runs d)" for w d'
  proof -
    have "distinct (map rw_id (db_runs d'))" using store_invD(1) [OF assms(2)] that(4) by (simp add: runs_ok_def)
    from find_unique [OF this that(1)] that(2,3) show ?thesis by (auto simp: sealed_runs_def find_run_def)
  qed
  have b: "store_certified (commit (update_runs ?p (run_columns r blobs) d'))"
    if p: "run_params r = Inr blobs" and d': "store_certified d'" "map rw_id (db_runs d') = map rw_id (db_runs d)"
      "rr_stage r = COMPLETED \<Longrightarrow> rr_id r \<in> sealed_runs d'" for blobs d'
  proof (rule certified_update [OF d'(1)])
    fix w assume w: "w \<in> set (db_runs d')" "?p w"
    obtain ev ve rp where bl: "blobs = (ev, ve, rp)" by (cases blobs) auto
    have "rr_stage r = COMPLETED" if "stage_value (rr_stage r) = ''COMPLETED''" using that by (cases "rr_stage r") simp_all
    then show "row_certified (run_columns r blobs w)"
      using p assms(3) sealed [OF w] d'(2,3) by (auto simp: row_certified_def run_columns_def bl)
  qed
  have ids: "map rw_id (db_runs (update_runs ?p (\<lambda>x. x\<lparr>rw_last_stage := a\<rparr>) d)) = map rw_id (db_runs d)" for a
    by (simp add: update_where_def)
  have s: "rr_id r \<in> sealed_runs (update_runs ?p (\<lambda>x. x\<lparr>rw_last_stage := a\<rparr>) d)" if "rr_stage r = COMPLETED" for a
    by (rule sealed_update) (use assms(3) that in \<open>simp_all add: keeps_run_id_def\<close>)
  show ?thesis
    using assms(1,3) a b [OF _ assms(1) refl] b [OF _ a ids s]
    by (auto simp: update_run_def Let_def split: option.split sum.split)
qed

lemma call_certified:
  assumes "job_call t d d'" "store_certified d" "store_inv d"
    and "\<And>r. may_write t r \<Longrightarrow> rr_stage r = COMPLETED \<Longrightarrow> documented r \<and> rr_id r \<in> sealed_runs d"
  shows "store_certified d'"
  using assms(1)
proof (cases rule: job_call.cases)
  case call_none
  then show ?thesis using assms(2) by simp
next
  case (call_fields j e cs)
  then show ?thesis using assms(2) store_certifiedD [OF assms(2)]
    by (simp add: update_application_fields_def update_app_where_def Let_def split: option.split)
next
  case (call_add r)
  have "row_certified (new_run_row r blobs snap)" for blobs snap
    using call_add(3) by (cases blobs; cases "rr_stage r")
      (simp_all add: row_certified_def new_run_row_def running_def terminal_stages_def)
  then show ?thesis using assms(2) call_add(1)
    by (auto simp: add_run_def store_certified_def bind_res_eq_Inr split: sum.split)
next
  case (call_update r)
  then show ?thesis using update_run_certified [OF assms(2,3)] assms(4) by simp
next
  case (call_seal j seal e)
  then show ?thesis unfolding call_seal set_generated_seal_def
    by (intro write_run_certified assms(2)) (auto simp: row_certified_def)
next
  case (call_generated j p q e)
  then show ?thesis unfolding call_generated set_run_generated_def set_run_columns_def
    by (intro write_run_certified assms(2)) (auto simp: row_certified_def)
next
  case (call_discovery j snap)
  have "store_certified (snd (set_run_columns j (\<lambda>w. w\<lparr>rw_discovery_json := x\<rparr>) None d))" for x
    unfolding set_run_columns_def by (intro write_run_certified assms(2)) (auto simp: row_certified_def)
  then show ?thesis using assms(2) by (simp add: call_discovery set_run_discovery_def split: sum.split)
next
  case (call_reset now j contract)
  have r: "row_certified (reset_row g c w)" for g c w by (simp add: row_certified_def reset_row_def)
  have "store_certified (update_runs p (reset_row g c) d)" for p g c by (rule certified_update [OF assms(2)]) (rule r)
  then have "store_certified (commit (update_runs p (reset_row g c) d))"
    "store_certified (commit ((update_runs p (reset_row g c) d)\<lparr>db_events := e\<rparr>))" for p g c e
    by (auto simp: store_certified_def)
  then show ?thesis using assms(2)
    by (auto simp: call_reset begin_revalidation_def Let_def raise_api_def split: option.split sum.split)
qed

subsection \<open>The invariant\<close>

definition sealed_as :: "db \<Rightarrow> run_record \<Rightarrow> bool" where
  "sealed_as d run \<longleftrightarrow> (rr_generated_seal run \<noteq> None \<longrightarrow> rr_id run \<in> sealed_runs d)"

definition thread_certified :: "db \<Rightarrow> thread \<Rightarrow> bool" where
  "thread_certified d t = (case t of
     WorkerLoad _ run \<Rightarrow> sealed_as d run
   | WorkerRun run _ script \<Rightarrow> sealed_as d run \<and> certifies run script
   | WorkerFinal run _ \<Rightarrow> rr_stage run = COMPLETED \<longrightarrow> documented run \<and> rr_id run \<in> sealed_runs d
   | PersistFailed run _ _ \<Rightarrow> rr_stage run \<noteq> COMPLETED
   | _ \<Rightarrow> True)"

definition completion_inv :: "thread list \<times> service \<Rightarrow> bool" where
  "completion_inv = (\<lambda>(ts, s). store_certified (sv_db s) \<and> (\<forall>t \<in> set ts. thread_certified (sv_db s) t))"

lemma thread_certified_keeps:
  assumes "thread_certified d t" "\<And>i. owned t = Some i \<Longrightarrow> i \<in> sealed_runs d \<Longrightarrow> i \<in> sealed_runs d'"
  shows "thread_certified d' t"
  using assms by (cases t) (auto simp: thread_certified_def sealed_as_def owned_def)

lemma sealed_as_row:
  assumes "find_run d i = Some row" "run_from_row row = Inr run"
  shows "sealed_as d run"
  using assms find_run_mem [OF assms(1)]
  by (auto simp: sealed_as_def sealed_runs_def run_from_row_def bind_res_eq_Inr)

lemma seal_is_stored:
  assumes "set_generated_seal i seal e d = (Inr x, d')" "store_inv d"
  shows "i \<in> sealed_runs d'"
proof -
  let ?f = "\<lambda>w. w\<lparr>rw_generated_seal := Some seal\<rparr>"
  have k: "keeps_run_id ?f" by (simp add: keeps_run_id_def)
  have d': "filter (bound_to i e) (db_runs d) \<noteq> []" "d' = commit (update_runs (bound_to i e) ?f d)"
    using assms(1) by (auto simp: set_generated_seal_def write_run_def raise_api_def split: option.splits if_splits)
  then obtain w where w: "find_run d i = Some w" "e = None \<or> e = Some (rw_generation w)"
    using bound_to_Nil [OF store_invD(1) [OF assms(2)], of i e] by (auto split: option.splits)
  have "find_run d' i = Some (?f w)"
    using w find_run_mem [OF w(1)] by (simp add: d'(2) find_run_def find_run_updated [OF k] bound_to_def)
  then show ?thesis by (simp add: sealed_runs_def)
qed

lemma perform_sealed:
  assumes "perform de w app a run s = (f, run', s')" "sealed_as (sv_db s) run" "current (sv_db s) run" "running run"
    "keeps_running a" "store_inv (sv_db s)"
  shows "sealed_as (sv_db s') run'"
proof -
  have "job_call (WorkerRun run app []) (sv_db s) (sv_db s')" by (rule perform_call [OF assms(1,4,5)])
  from call_sealed [OF this _ current_unfinished [OF assms(3)]]
  have keep: "rr_id run \<in> sealed_runs (sv_db s) \<Longrightarrow> rr_id run \<in> sealed_runs (sv_db s')" .
  have i: "rr_id run' = rr_id run" using perform_keeps(2) [OF assms(3,4,5,1)] .
  show ?thesis
  proof (cases "rr_generated_seal run' = rr_generated_seal run")
    case True
    then show ?thesis using assms(2) keep i by (simp add: sealed_as_def)
  next
    case False
    then obtain dir seal where s: "write_call w (set_generated_seal (rr_id run) seal (Some (rr_generation run))) s = (Inr (), s')"
      using assms(1)
      by (cases a) (auto simp: or_fail_def Let_def split: sum.splits prod.splits if_splits)
    then obtain d where "set_generated_seal (rr_id run) seal (Some (rr_generation run)) (sv_db s) = (Inr (), sv_db s')"
      by (auto simp: write_call_eq call_eq split: if_splits)
    from seal_is_stored [OF this assms(6)] i show ?thesis by (simp add: sealed_as_def)
  qed
qed

text \<open>The new threads of a step are certified.\<close>

lemma final_certified:
  assumes "final_step w run n finished again lost s = (new, s')"
    and "\<And>u. u \<in> set finished \<union> set lost \<Longrightarrow> thread_certified (sv_db s') u" "\<And>m. thread_certified (sv_db s') (again m)"
    and "u \<in> set new"
  shows "thread_certified (sv_db s') u"
  using assms by (auto simp: final_step_def split: prod.splits bool.splits if_splits)

lemma work_certified:
  assumes "work_step de w run app script s = (new, s')" "thread_ok (sv_db s) (WorkerRun run app script)"
    and "thread_certified (sv_db s) (WorkerRun run app script)" "store_inv (sv_db s)" "u \<in> set new"
  shows "thread_certified (sv_db s') u"
proof (cases script)
  case Nil
  then show ?thesis using assms
    by (auto simp: work_step_def thread_certified_def sealed_as_def) (simp_all add: completed_run_def)
next
  case (Cons a rest)
  obtain f run' t where p: "perform de w app a run s = (f, run', t)" by (metis prod_cases3)
  have h: "current (sv_db s) run" "running run" "keeps_running a" "sealed_as (sv_db s) run" "certifies run (a # rest)"
    using assms(2,3) Cons by (simp_all add: thread_ok_def thread_certified_def)
  note sealed = perform_sealed [OF p h(4,1,2,3) assms(4)]
  show ?thesis
  proof (cases f)
    case None
    then have "new = [WorkerRun run' app rest]" "s' = t" using assms(1) Cons p by (simp_all add: work_step_def)
    then show ?thesis
      using assms(5) sealed perform_certifies [of de w app a run s run' t rest] p None h(5) by (simp add: thread_certified_def)
  next
    case (Some e)
    then have "new = [WorkerFinal (failed_run (wo_now w) (public_run_error e (rr_id run)) run') persist_attempts]"
      using assms(1) Cons p by (simp add: work_step_def)
    then show ?thesis using assms(5) by (simp add: thread_certified_def failed_run_def)
  qed
qed

lemma new_certified:
  assumes "thread_step de w t s = (new, s')" "thread_ok (sv_db s) t" "thread_certified (sv_db s) t" "store_inv (sv_db s)"
    and "u \<in> set new"
  shows "thread_certified (sv_db s') u"
proof (cases t)
  case (WorkerRun run app script)
  then show ?thesis using work_certified [of de w run app script s new s' u] assms by simp
next
  case (WorkerFinal run n)
  have c: "job_call t (sv_db s) (sv_db s')" by (rule thread_call [OF assms(1,2)])
  have "thread_certified (sv_db s') t"
    by (rule thread_certified_keeps [OF assms(3)])
       (rule call_sealed [OF c], assumption, rule owned_unfinished [OF assms(2)])
  then show ?thesis
    using assms(1,5) WorkerFinal
    by (auto simp: thread_certified_def final_step_def split: prod.splits bool.splits if_splits)
next
  case (PersistFailed run n a)
  then show ?thesis using assms(1,3,5)
    by (auto simp: thread_certified_def final_step_def split: prod.splits bool.splits if_splits)
next
  case (WorkerStart k i)
  then show ?thesis using assms(1,5) sealed_as_row
    by (auto simp: thread_certified_def get_run_def bind_res_eq_Inr bind_res_def split: sum.splits option.splits)
next
  case (WorkerLoad k run)
  then show ?thesis using assms(1,3,5)
    by (auto simp: thread_certified_def load_step_def Let_def failed_run_def script_certifies split: sum.splits option.splits)
next
  case (LaunchFailed run m)
  then show ?thesis using assms(1,5) by (auto simp: thread_certified_def failed_run_def)
qed (use assms(1,5) in \<open>auto simp: thread_certified_def request_step_def reserve_step_def launch_step_def ingest_step_def
  upload_step_def split: sum.splits prod.splits option.splits if_splits\<close>)

lemma step_keeps_completion:
  assumes "pool_step de p q" "pool_inv de p" "completion_inv p"
  shows "completion_inv q"
  using assms
proof (induction rule: pool_step.induct)
  case (pool_request t ts s)
  have "thread_certified (sv_db s) t" using pool_request.hyps by (cases t) (auto simp: is_request_def thread_certified_def)
  then show ?case using pool_request.prems(2) by (auto simp: completion_inv_def)
next
  case (pool_thread w t s new s' xs ys)
  note inv = pool_invD [OF pool_thread.prems(1)]
  have ok: "thread_ok (sv_db s) t" and cert: "store_certified (sv_db s)" "\<forall>u \<in> set (xs @ t # ys). thread_certified (sv_db s) u"
    using inv(4) pool_thread.prems(2) by (simp_all add: completion_inv_def)
  have c: "job_call t (sv_db s) (sv_db s')" by (rule thread_call [OF pool_thread.hyps ok])
  have final_writes: "documented r \<and> rr_id r \<in> sealed_runs (sv_db s)" if "may_write t r" "rr_stage r = COMPLETED" for r
  proof (cases t)
    case (WorkerFinal run n)
    then show ?thesis using that cert(2) by (simp add: may_write_def thread_certified_def)
  next
    case (PersistFailed run n a)
    then show ?thesis using that cert(2) by (simp add: may_write_def thread_certified_def)
  qed (use that in \<open>simp_all add: may_write_def running_def terminal_stages_def\<close>)
  have "store_certified (sv_db s')" by (rule call_certified [OF c cert(1) inv(2) final_writes])
  moreover have "thread_certified (sv_db s') u" if "u \<in> set xs \<union> set ys" for u
  proof (rule thread_certified_keeps)
    show "thread_certified (sv_db s) u" using cert(2) that by auto
    fix i assume i: "owned u = Some i" "i \<in> sealed_runs (sv_db s)"
    have "thread_ok (sv_db s) u" using inv(4) that by auto
    from call_sealed [OF c i(2) owned_unfinished [OF this i(1)]] show "i \<in> sealed_runs (sv_db s')" .
  qed
  moreover have "thread_certified (sv_db s') u" if "u \<in> set new" for u
    using new_certified [OF pool_thread.hyps ok _ inv(2) that] cert(2) by simp
  ultimately show ?case by (auto simp: completion_inv_def)
next
  case (pool_client s d ts)
  note inv = pool_invD [OF pool_client.prems(1)]
  have c: "store_certified (sv_db s)" using pool_client.prems(2) by (simp add: completion_inv_def)
  have "store_certified d \<and> sealed_runs (sv_db s) \<subseteq> sealed_runs d"
    using pool_client.hyps
  proof (cases rule: client_call.cases)
    case (client_add_application a)
    then show ?thesis using c store_certifiedD [OF c] by (simp add: add_application_def)
  next
    case (client_update_application a v)
    then show ?thesis using c store_certifiedD [OF c]
      by (simp add: update_application_def update_app_where_def Let_def split: option.split)
  next
    case (client_update_fields i v columns)
    then show ?thesis using c store_certifiedD [OF c]
      by (simp add: update_application_fields_def update_app_where_def Let_def split: option.split)
  next
    case (client_approval now i decision approver reason v)
    let ?f = "\<lambda>w. w\<lparr>rw_approval_state := decision, rw_approval_approver := Some approver,
      rw_approval_reason := reason, rw_approval_decided_at := Some now\<rparr>"
    have "store_certified (update_runs (bound_to i v) ?f (sv_db s))"
      by (rule certified_update [OF c]) (simp add: row_certified_def)
    moreover have "j \<in> sealed_runs (update_runs (bound_to i v) ?f (sv_db s))" if "j \<in> sealed_runs (sv_db s)" for j
      by (rule sealed_update [OF _ that]) (simp_all add: keeps_run_id_def)
    ultimately show ?thesis
      using c rollback_certified [OF c] rollback_sealed [OF inv(2)]
      by (auto simp: client_approval set_run_approval_def Let_def store_certified_def split: option.split)
  qed
  then show ?case using pool_client.prems(2) thread_certified_keeps [of "sv_db s" _ d] by (auto simp: completion_inv_def)
next
  case (pool_restart ts s now)
  have "store_certified (rollback (sv_db s))"
    using pool_restart.prems(2) rollback_certified by (simp add: completion_inv_def)
  from certified_update(2) [OF this] show ?case
    using \<open>store_certified (rollback (sv_db s))\<close>
    by (simp add: completion_inv_def restarted_def mark_interrupted_runs_def Let_def row_certified_def)
qed

lemma pool_reachable_completion:
  assumes "pool_reachable de p"
  shows "completion_inv p"
proof -
  obtain fs where "pool_steps de (first_start fs) p" using assms by (auto simp: pool_reachable_def)
  then show ?thesis
  proof (induction rule: rtranclp_induct)
    case base
    show ?case by (simp add: completion_inv_def first_start_def store_certified_def empty_db_def)
  next
    case (step p q)
    have "pool_reachable de p" using step.hyps(1) by (auto simp: pool_reachable_def)
    from step_keeps_completion [OF step.hyps(2) pool_reachable_inv [OF this] step.IH] show ?case .
  qed
qed

text \<open>C6: A run that is stored as completed is certified: in every reachable state of the pool its row holds the
  encodings of an evidence manifest and of a verdict that names this manifest by its hash, and the seal of its
  generated bundle. No failure of the engines, the store or the launch, no concurrent request and no restart
  leads to a completed run without them.\<close>
theorem completed_runs_certified:
  assumes "pool_reachable de (ts, s)" "find_run (sv_db s) i = Some w" "rw_stage w = ''COMPLETED''"
  shows "(\<exists>run m v. run_params run = Inr (rw_evidence_blob w, rw_verdict_blob w, rw_report_blob w)
      \<and> rr_evidence_manifest run = Some m \<and> rr_verdict run = Some v
      \<and> vd_evidence_manifest_hash v = str_hash (manifest_hash m))
    \<and> rw_generated_seal w \<noteq> None"
proof -
  have "store_certified (sv_db s)" using pool_reachable_completion [OF assms(1)] by (simp add: completion_inv_def)
  from store_certifiedD [OF this] find_run_mem [OF assms(2)] have "row_certified w" by blast
  then show ?thesis using assms(3) unfolding row_certified_def documented_def by blast
qed

end
