(* ===== verification/CompletionSamples.thy ===== *)
theory CompletionSamples
  imports JobSamples JobCertification GatesFacts
begin

text \<open>
  The modernization of \<open>JobSamples\<close> with engines that succeed: its worker performs a whole script and completes
  the run.
\<close>

definition built_app :: engine_report where
  "built_app = \<lparr>gr_success = True, gr_errors = [], gr_dir = Some ''/out'', gr_entrypoint = None, gr_discovered = [],
     gr_program_ids = [], gr_document = JNull, gr_limitations = [], gr_recommendations = [], gr_files = sample_bundle\<rparr>"

definition good_world :: "verdict \<Rightarrow> world" where
  "good_world v = job_world\<lparr>wo_generation := EngineReported [] built_app,
     wo_validation := \<lparr>vo_adapter = None, vo_prepare = None, vo_phases = [], vo_files = None,
       vo_result = Inr (sample_manifest, v), vo_proof = Inr None\<rparr>\<rparr>"

definition built_report :: "json dict" where
  "built_report = merged_report None (pipeline_entries built_app)"

definition built_columns :: "(string \<times> app_field) list" where
  "built_columns = [(''discovered_program_ids'', List_field []), (''generated_app_path'', Text_field ''/out''),
     (''generated_entrypoint'', Null_field), (''generated_program_ids'', List_field []),
     (''java_candidate_path'', Text_field ''/out'')]"

definition good_script :: "verdict \<Rightarrow> action list" where
  "good_script v = [PlaceTree ''/out'' sample_bundle, Report built_report, UpdateApplication built_columns, SealBundle ''/out'',
     RecordBundle ''/out'' None, ResolveContract, Results sample_manifest v, CheckConsistency, SealBundle ''/out'', SaveRun]"

lemma good_load:
  "thread_step job_deployment (good_world v) (WorkerLoad job_kind_seen job_loaded) (job_service job_db_added n)
     = ([WorkerRun job_loaded job_app (good_script v)], job_service job_db_added n)"
proof -
  have "ap_cobol_source_path job_app = Some ''cobol-1''" "rr_report job_loaded = None"
    by (simp_all add: job_app_def sample_application_def job_loaded_def job_run_def new_run_def)
  then show ?thesis
    by (simp add: load_step_def job_kind_seen_def job_application_def job_app_loaded job_stored script_of_def
        modernize_script_def snapshot_script_def generate_script_def validation_script_def good_world_def job_world_def
        progress_def fail_if_def List.map_filter_def good_script_def built_app_def built_report_def built_columns_def
        is_given_def or_empty_def opt_field_def Let_def split: option.split)
qed

lemma good_write [simp]: "write_call (good_world v) f s = call f s" "wo_now (good_world v) = ''t''"
  by (simp_all add: write_call_def good_world_def job_world_def)

text \<open>Where the worker stands: its run is at its first stage and attempt, and its bundle is in place.\<close>

definition first_stage :: "service \<Rightarrow> bool" where
  "first_stage s \<longleftrightarrow> sv_fs s ''/out'' = Directory sample_bundle \<and>
     (\<exists>row. find_run (sv_db s) ''r1'' = Some row \<and> rw_stage row = ''CREATED'' \<and> rw_generation row = 0)"

definition first_record :: "run_record \<Rightarrow> bool" where
  "first_record run \<longleftrightarrow> rr_id run = ''r1'' \<and> rr_generation run = 0 \<and> rr_stage run = CREATED"

definition works_on :: "run_record \<Rightarrow> action list \<Rightarrow> bool" where
  "works_on run script \<longleftrightarrow> first_record run \<and>
     (\<exists>s. pool_reachable job_deployment ([job_answer, WorkerRun run job_app script], s) \<and> first_stage s)"

lemma worker_moves:
  assumes "pool_reachable job_deployment ([job_answer, t], s)" "thread_step job_deployment w t s = ([t'], s')" "\<not> ended t"
  shows "pool_reachable job_deployment ([job_answer, t'], s')"
  using moves_reachable [OF assms(1)] thread_move [OF assms(3,2), of "[job_answer]" "[]"] by auto

lemma works_step:
  assumes "works_on run (a # script)"
    and "\<And>s. store_inv (sv_db s) \<Longrightarrow> first_record run \<Longrightarrow> first_stage s \<Longrightarrow>
      \<exists>s'. perform job_deployment w job_app a run s = (None, run', s') \<and> first_stage s'"
    and "first_record run'"
  shows "works_on run' script"
proof -
  obtain s where s: "pool_reachable job_deployment ([job_answer, WorkerRun run job_app (a # script)], s)" "first_stage s"
    and r: "first_record run" using assms(1) by (auto simp: works_on_def)
  have "store_inv (sv_db s)" by (rule pool_invD(2) [OF pool_reachable_inv [OF s(1)]])
  from assms(2) [OF this r s(2)] obtain s' where p: "perform job_deployment w job_app a run s = (None, run', s')" "first_stage s'"
    by blast
  have "thread_step job_deployment w (WorkerRun run job_app (a # script)) s = ([WorkerRun run' job_app script], s')"
    by (simp add: work_step_def p)
  from worker_moves [OF s(1) this] p(2) assms(3) show ?thesis by (auto simp: works_on_def ended_def)
qed

lemma stored_write:
  assumes "store_inv (sv_db s)" "first_stage s" "keeps_run_id f"
    "\<And>w. rw_stage (f w) = rw_stage w \<and> rw_generation (f w) = rw_generation w"
  shows "\<exists>s'. call (write_run stale ''r1'' (Some 0) f) s = (Inr (), s') \<and> first_stage s'"
proof -
  obtain row where row: "find_run (sv_db s) ''r1'' = Some row" "rw_stage row = ''CREATED''" "rw_generation row = 0"
    using assms(2) by (auto simp: first_stage_def)
  have ok: "runs_ok (sv_db s)" using assms(1) by (rule store_invD(1))
  have n: "filter (bound_to ''r1'' (Some 0)) (db_runs (sv_db s)) \<noteq> []"
    using bound_to_Nil [OF ok, of "''r1''" "Some 0"] row by simp
  have "find_run (snd (write_run stale ''r1'' (Some 0) f (sv_db s))) ''r1'' = Some (f row)"
    by (rule run_writes.current [OF ok assms(3) row(1)]) (simp add: row(3))
  then show ?thesis using n row assms(2,4) by (auto simp: write_run_def call_def first_stage_def)
qed

lemma seal_works:
  assumes "store_inv (sv_db s)" "first_record run" "first_stage s"
    "compute_generated_seal ''t'' (Directory sample_bundle) = Inr seal"
  shows "\<exists>s'. perform job_deployment (good_world v) job_app (SealBundle ''/out'') run s
    = (None, run\<lparr>rr_generated_seal := Some seal\<rparr>, s') \<and> first_stage s'"
proof -
  have "\<exists>s'. call (set_generated_seal ''r1'' seal (Some 0)) s = (Inr (), s') \<and> first_stage s'"
    unfolding set_generated_seal_def by (rule stored_write [OF assms(1,3)]) (simp_all add: keeps_run_id_def)
  then obtain s' where "call (set_generated_seal ''r1'' seal (Some 0)) s = (Inr (), s')" "first_stage s'" by blast
  moreover have "sv_fs s ''/out'' = Directory sample_bundle" using assms(3) by (simp add: first_stage_def)
  ultimately show ?thesis using assms(2,4) by (simp add: first_record_def)
qed

lemma bundle_works:
  assumes "store_inv (sv_db s)" "first_record run" "first_stage s"
  shows "\<exists>s'. perform job_deployment (good_world v) job_app (RecordBundle ''/out'' None) run s
    = (None, run\<lparr>rr_generated_app_path := Some ''/out'', rr_generated_entrypoint := None\<rparr>, s') \<and> first_stage s'"
proof -
  have "\<exists>s'. call (set_run_generated ''r1'' (Some ''/out'') None (Some 0)) s = (Inr (), s') \<and> first_stage s'"
    unfolding set_run_generated_def set_run_columns_def
    by (rule stored_write [OF assms(1,3)]) (simp_all add: keeps_run_id_def)
  then obtain s' where "call (set_run_generated ''r1'' (Some ''/out'') None (Some 0)) s = (Inr (), s')" "first_stage s'" by blast
  then show ?thesis using assms(2) by (simp add: first_record_def Let_def or_fail_def)
qed

lemma columns_work:
  "\<exists>s'. perform job_deployment (good_world v) job_app (UpdateApplication built_columns) run
      (make_directory ''/out'' sample_bundle (job_service job_db_added 1)) = (None, run, s') \<and> first_stage s'"
proof -
  let ?s = "make_directory ''/out'' sample_bundle (job_service job_db_added 1)"
  let ?r = "update_application_fields ''a1'' None built_columns job_db_added"
  have "\<exists>x. fst ?r = Inr x"
    by (simp add: update_application_fields_def built_columns_def application_fields_def well_typed_change_def
        update_app_where_def find_app_def job_stored Let_def update_where_def set_column_def field_opt_def field_list_def
        app_params_def app_from_row_def decode_encode_str_list job_app_def sample_application_def)
  moreover have "db_runs (snd ?r) = [job_row]"
    by (simp add: update_application_fields_def update_app_where_def Let_def job_stored split: option.split)
  moreover have "ap_id job_app = ''a1''" by (simp add: job_app_def sample_application_def)
  ultimately show ?thesis
    by (auto simp: or_fail_def call_def first_stage_def find_run_def job_row_def new_run_row_def job_run_def new_run_def
        make_directory_def split: prod.split)
qed

lemma save_works:
  assumes "first_record run" "first_stage s" "run_params run = Inr blobs"
  shows "\<exists>s'. perform job_deployment (good_world v) job_app SaveRun run s = (None, run, s') \<and> first_stage s'"
proof -
  obtain row where row: "find_run (sv_db s) ''r1'' = Some row" "rw_stage row = ''CREATED''" "rw_generation row = 0"
    using assms(2) by (auto simp: first_stage_def)
  obtain r d where u: "update_run False run (sv_db s) = (r, d)" by fastforce
  have r: "r = Inr ()"
    using row assms(1,3) u
    by (auto simp: update_run_def first_record_def parse_stage_def all_stages_def Let_def is_valid_transition_def split: if_splits)
  have "find_run (sv_db s) (rr_id run) = Some row" using row(1) assms(1) by (simp add: first_record_def)
  from update_run_row [OF u [unfolded r] this] assms(1)
  have "\<exists>row'. find_run d ''r1'' = Some row' \<and> rw_stage row' = ''CREATED'' \<and> rw_generation row' = 0"
    by (auto simp: first_record_def run_columns_def)
  then show ?thesis using u r assms(2) by (simp add: or_fail_def call_def first_stage_def)
qed

text \<open>The record after the script.\<close>

definition bundled :: run_record where
  "bundled = job_loaded\<lparr>rr_report := Some built_report\<rparr>"

lemma good_params:
  assumes "run_params (finished_run v) = Inr (ev, ve, None)"
    and "rr_evidence_manifest run = Some sample_manifest" "rr_verdict run = Some v" "rr_report run = Some built_report"
  shows "\<exists>blobs. run_params run = Inr blobs"
proof -
  have "\<exists>b. encode_report (Some built_report) = Inr b"
    by (simp add: encode_report_def encode_envelope_def built_report_def merged_report_def pipeline_entries_def built_app_def
        j_strs_def)
  then show ?thesis
    using assms by (auto simp: run_params_def bind_res_eq_Inr finished_run_def bundled_run_def sample_run_def)
qed

text \<open>A completed run, reached by a schedule: its row is certified.\<close>
lemma completed_runs_certified_witness:
  "\<exists>ts s w. pool_reachable job_deployment (ts, s) \<and> find_run (sv_db s) ''r1'' = Some w \<and> rw_stage w = ''COMPLETED''
     \<and> rw_generated_seal w \<noteq> None"
proof -
  obtain v ev ve where v: "run_params (finished_run v) = Inr (ev, ve, None)"
    "vd_evidence_manifest_hash v = str_hash (manifest_hash sample_manifest)" using sample_verdict by blast
  obtain seal where seal: "compute_generated_seal ''t'' (Directory sample_bundle) = Inr seal" using sample_seal by blast
  let ?w = "good_world v" and ?d = "job_deployment"
  have rec: "first_record job_loaded" "first_record bundled"
    by (simp_all add: first_record_def bundled_def job_loaded_def job_run_def new_run_def)
  note m = worker_moves [where w = "good_world v"]
  have "pool_reachable ?d ([job_answer, WorkerLoad job_kind_seen job_loaded], job_service job_db_added 1)"
    using worker_moves [OF job_reached(1) [unfolded job_pool_def] job_steps(5)] by (simp add: ended_def)
  from m [OF this good_load] have
    "pool_reachable ?d ([job_answer, WorkerRun job_loaded job_app (good_script v)], job_service job_db_added 1)"
    by (simp add: ended_def)
  from m [OF this, of "WorkerRun job_loaded job_app (tl (good_script v))" "make_directory ''/out'' sample_bundle (job_service job_db_added 1)"]
  have "pool_reachable ?d ([job_answer, WorkerRun job_loaded job_app (tl (good_script v))],
      make_directory ''/out'' sample_bundle (job_service job_db_added 1))"
    by (simp add: good_script_def work_step_def ended_def)
  from m [OF this, of "WorkerRun bundled job_app (tl (tl (good_script v)))" "make_directory ''/out'' sample_bundle (job_service job_db_added 1)"]
  have p: "pool_reachable ?d ([job_answer, WorkerRun bundled job_app (tl (tl (good_script v)))],
      make_directory ''/out'' sample_bundle (job_service job_db_added 1))"
    by (simp add: good_script_def work_step_def ended_def bundled_def)
  obtain s' where "perform ?d ?w job_app (UpdateApplication built_columns) bundled
      (make_directory ''/out'' sample_bundle (job_service job_db_added 1)) = (None, bundled, s')" "first_stage s'"
    using columns_work by blast
  with m [OF p, of "WorkerRun bundled job_app (tl (tl (tl (good_script v))))" s']
  have "pool_reachable ?d ([job_answer, WorkerRun bundled job_app (tl (tl (tl (good_script v))))], s')"
    by (simp add: good_script_def work_step_def ended_def)
  with \<open>first_stage s'\<close> rec(2) have "works_on bundled [SealBundle ''/out'', RecordBundle ''/out'' None, ResolveContract,
      Results sample_manifest v, CheckConsistency, SealBundle ''/out'', SaveRun]"
    by (auto simp: works_on_def good_script_def)
  from works_step [OF this seal_works [OF _ _ _ seal]] rec(2)
  have "works_on (bundled\<lparr>rr_generated_seal := Some seal\<rparr>) [RecordBundle ''/out'' None, ResolveContract,
      Results sample_manifest v, CheckConsistency, SealBundle ''/out'', SaveRun]" (is "works_on ?a _")
    by (simp add: first_record_def)
  from works_step [OF this bundle_works] rec(2)
  have "works_on (?a\<lparr>rr_generated_app_path := Some ''/out'', rr_generated_entrypoint := None\<rparr>) [ResolveContract,
      Results sample_manifest v, CheckConsistency, SealBundle ''/out'', SaveRun]" (is "works_on ?b _")
    by (simp add: first_record_def)
  from works_step [OF this, where w = ?w and run' = "?b\<lparr>rr_contract := Some (ct_contract_id job_contract)\<rparr>"] rec(2)
  have "works_on (?b\<lparr>rr_contract := Some (ct_contract_id job_contract)\<rparr>) [Results sample_manifest v, CheckConsistency,
      SealBundle ''/out'', SaveRun]" (is "works_on ?c _")
    by (simp add: first_record_def contract_resolves)
  from works_step [OF this, where w = ?w and run' = "?c\<lparr>rr_evidence_manifest := Some sample_manifest, rr_verdict := Some v\<rparr>"] rec(2)
  have "works_on (?c\<lparr>rr_evidence_manifest := Some sample_manifest, rr_verdict := Some v\<rparr>) [CheckConsistency,
      SealBundle ''/out'', SaveRun]" (is "works_on ?e _")
    by (simp add: first_record_def)
  from works_step [OF this, where w = ?w and run' = ?e] rec(2) v(2)
  have "works_on ?e [SealBundle ''/out'', SaveRun]"
    by (simp add: first_record_def check_evidence_verdict_consistency_def or_fail_def)
  from works_step [OF this seal_works [OF _ _ _ seal]] rec(2)
  have e: "works_on (?e\<lparr>rr_generated_seal := Some seal\<rparr>) [SaveRun]" (is "works_on ?f _") by (simp add: first_record_def)
  obtain blobs where blobs: "run_params ?f = Inr blobs" using good_params [OF v(1), of ?f] by (auto simp: bundled_def)
  from works_step [OF e save_works [OF _ _ blobs]] rec(2)
  have "works_on ?f []" by (simp add: first_record_def)
  then obtain s where s: "pool_reachable ?d ([job_answer, WorkerRun ?f job_app []], s)" "first_stage s"
    by (auto simp: works_on_def)
  let ?g = "completed_run ''t'' ?f"
  have "thread_step ?d ?w (WorkerRun ?f job_app []) s = ([WorkerFinal ?g 3], s)"
    by (simp add: work_step_def persist_attempts_def)
  from m [OF s(1) this] have g: "pool_reachable ?d ([job_answer, WorkerFinal ?g 3], s)" by (simp add: ended_def)
  have i: "rr_id ?g = ''r1''" "rr_generation ?g = 0" "rr_stage ?g = COMPLETED"
    by (simp_all add: completed_run_def bundled_def job_loaded_def job_run_def new_run_def)
  have p: "run_params ?g = Inr blobs" using blobs by (simp add: run_params_def completed_run_def)
  obtain row where row: "find_run (sv_db s) ''r1'' = Some row" "rw_stage row = ''CREATED''" "rw_generation row = 0"
    using s(2) by (auto simp: first_stage_def)
  obtain r d where u: "update_run False ?g (sv_db s) = (r, d)" by fastforce
  have r: "r = Inr ()"
    using row i p u by (auto simp: update_run_def parse_stage_def all_stages_def Let_def is_valid_transition_def
        terminal_stages_def split: if_splits)
  have f: "find_run (sv_db s) (rr_id ?g) = Some row" using row(1) i(1) by simp
  from update_run_row [OF u [unfolded r] f] i
  have "\<exists>w. find_run d ''r1'' = Some w \<and> rw_stage w = ''COMPLETED''" by (auto simp: run_columns_def)
  then obtain w where w: "find_run d ''r1'' = Some w" "rw_stage w = ''COMPLETED''" by blast
  have "thread_step ?d ?w (WorkerFinal ?g 3) s = ([WorkerExit None], s\<lparr>sv_db := d\<rparr>)"
    using u r by (simp add: final_step_def persist_def call_def)
  from m [OF g this] have "pool_reachable ?d ([job_answer, WorkerExit None], s\<lparr>sv_db := d\<rparr>)" by (simp add: ended_def)
  from completed_runs_certified [OF this, of "''r1''" w] this w show ?thesis by (intro exI conjI) auto
qed

end
