(* ===== verification/Spec2Isabelle.thy ===== *)
theory Spec2Isabelle
  imports VerdictFacts SerializationFacts StoreProperties GatesFacts ContentStore NumericFacts OverlayFacts GroupFacts
    PipelineSamples IngestionFacts WorkloadFacts UploadFacts CompletionSamples
begin

text \<open>
  This development models the trust core of the COBOL-to-Java certification engine: what a run is certified
  against, how its two executions are compared, how the evidence is represented, sealed, checked and turned into
  a verdict, and how sources, runs, verdicts and approvals are ingested, persisted and served, and how its background jobs run; with it, the
  parts of the translator that decide the storage and the values of COBOL data. Everything is translated from
  the Python sources under \<open>src/\<close>; byte strings and text are lists of characters with codes below 256, Python
  integers are \<open>int\<close>, dictionaries are association lists in insertion order, exceptions are the left side of a sum.

  \<^bold>\<open>How the parts interact.\<close> An uploaded archive becomes a workspace (\<open>api/ingestion.py\<close>). A run of the
  application resolves its certification contract (\<open>api/workload_contract.py\<close>), the declaration of the artifacts and
  business rules it is certified under (\<open>engine/workload.py\<close>). The pipeline (\<open>engine/pipeline.py\<close>) executes the
  original program (the oracle) and the generated one (the candidate); their outputs become artifacts
  (\<open>engine/execution/artifacts.py\<close>); the comparators (\<open>engine/comparators\<close>) compare them pairwise, reports of
  business rules (\<open>engine/verification/business_invariants.py\<close>) among them; executions, artifacts and comparisons
  form an \<open>EvidenceManifest\<close> (\<open>engine/evidence/models.py\<close>) that is sealed with the SHA-256 of its canonical graph
  when it is built. The validator (\<open>engine/evidence/integrity.py\<close>) admits or rejects it, the deriver
  (\<open>engine/verdict/derivation.py\<close>) turns it into one of seven verdict states, the codec
  (\<open>api/serialization.py\<close>) writes both to the tables of the store (\<open>api/store.py\<close>), which also holds the
  customer's approval and its audit trail. The gates of the service (\<open>api/service.py\<close>) decide what of a stored run
  is shown, approved and exported, against the seal of the generated bundle (\<open>api/artifact_seal.py\<close>).

  \<^bold>\<open>Theories of the foundation.\<close>
  \<^item> \<open>Prelude\<close>: Python's text, bytes, paths and errors (\<open>repr\<close>, \<open>splitlines\<close>, \<open>strip\<close>, results and their traversal).
  \<^item> \<open>Json\<close>, \<open>JsonParse\<close>, \<open>JsonParseFacts\<close>: \<open>json.dumps\<close> with sorted keys and \<open>json.loads\<close>, the second as a
    parser with fuel; the length of the text is enough fuel (\<open>loads_fuel\<close>). What a writer needs so that the parser
    reads its text back is the locale \<open>json_writer\<close>, interpreted on the default writer and, in \<open>PyValueFacts\<close>, on the
    compact one. \<open>Sha256\<close> is the hash itself on 32-bit words.
  \<^item> \<open>Decimals\<close>, \<open>DecimalFacts\<close>, \<open>PyValues\<close>, \<open>PyValueFacts\<close>: what the business rules use of \<open>decimal.Decimal\<close> (28-digit
    arithmetic with rounding to even, formats, parsing) and of Python's dynamic values (equality across types,
    \<open>repr\<close>, reading with \<open>parse_float=Decimal\<close>), and the canonical JSON of such values.

  \<^bold>\<open>Theories of the engine.\<close>
  \<^item> \<open>Identities\<close>: \<open>engine/domain/identities.py\<close>, a record per dataclass and a \<open>mk_\<close> function per constructor check.
  \<^item> \<open>Evidence\<close>, \<open>EvidenceGraph\<close>, \<open>ContentStore\<close>: \<open>engine/evidence/models.py\<close>. \<open>EvidenceGraph\<close> shows which part of
    a manifest the canonical graph determines (\<open>covered_manifest\<close>); \<open>ContentStore\<close> states the content-addressed
    store as a locale and interprets it.
  \<^item> \<open>Comparators\<close>, \<open>ComparatorFacts\<close>: \<open>engine/comparators/framework.py\<close>; the contract of a comparator is the
    locale \<open>typed_comparator\<close>, interpreted on the five V1 comparators. \<open>IndexedRecords\<close>, \<open>IndexedRecordFacts\<close>:
    \<open>engine/comparators/indexed_records.py\<close>, the readers of keyed files.
  \<^item> \<open>BusinessInvariants\<close> (declarations and their constructor), \<open>InvariantReports\<close> (evaluation, reports, their admission
    and comparator), \<open>InvariantFacts\<close>, \<open>InvariantProperties\<close>, \<open>InvariantSamples\<close>:
    \<open>engine/verification/business_invariants.py\<close> and the sixth comparator.
  \<^item> \<open>Execution\<close>: the results of the adapters and their capture. \<open>Pipeline\<close>, \<open>PipelineFacts\<close>, \<open>PipelineSamples\<close>: a run of
    \<open>engine/pipeline.py\<close> from the two results to the verdict, composed of the components above.
  \<^item> \<open>Integrity\<close>, \<open>IntegrityFacts\<close>: the twelve checks of the validator, and the declarative predicate \<open>admissible\<close>
    they decide. \<open>Samples\<close> holds the small manifest the witnesses evaluate.
  \<^item> \<open>Verdict\<close>, \<open>VerdictFacts\<close>: derivation and the admission step of \<open>engine/pipeline.py\<close>.

  \<^bold>\<open>Theories of the control plane.\<close>
  \<^item> \<open>Ingestion\<close>, \<open>IngestionFacts\<close>: \<open>api/ingestion.py\<close>, \<open>api/limits.py\<close>; the workspace is a tree of files and
    directories by path.
  \<^item> \<open>Workload\<close>, \<open>WorkloadFacts\<close>: \<open>engine/workload.py\<close>, \<open>api/workload_contract.py\<close>; the fixture directory is an argument.
  \<^item> \<open>ApiErrors\<close>, \<open>Serialization\<close>, \<open>SerializationFacts\<close>: \<open>api/errors.py\<close> and \<open>api/serialization.py\<close>.
  \<^item> \<open>Store\<close>, \<open>StoreFacts\<close>, \<open>StoreHistory\<close>, \<open>StoreProperties\<close>: \<open>api/store.py\<close> as state passing over the tables, its
    optimistic-concurrency contract as a locale, histories of calls as the inductive relation \<open>store_step\<close>
    with its invariant \<open>store_inv\<close>, and what holds of every reachable store.
  \<^item> \<open>Seal\<close>, \<open>SealFacts\<close>, \<open>Gates\<close>, \<open>GatesFacts\<close>: \<open>api/artifact_seal.py\<close> and the gates of \<open>api/service.py\<close> in front of
    verdicts, approval and export.
  \<^item> \<open>Uploads\<close>, \<open>UploadFacts\<close>: the upload of single files of \<open>api/service.py\<close>.
  \<^item> \<open>Jobs\<close>, \<open>JobThreads\<close>: the background jobs of \<open>api/service.py\<close>. A request or worker is a value of the datatype
    \<open>thread\<close>; \<open>thread_step\<close> performs its next atomic action, \<open>pool_step\<close> interleaves all threads, other clients
    and restarts of the process; what a job does is a script of actions (\<open>modernize_script\<close>, \<open>validation_script\<close>).
    \<open>JobFacts\<close> (the effect of store calls on attempts), \<open>JobPool\<close> (the effect of a step), \<open>JobInvariant\<close> (the
    invariant of the pool), \<open>JobProperties\<close> and \<open>JobCertification\<close> (what follows), \<open>JobSamples\<close> and
    \<open>CompletionSamples\<close> (schedules of a small deployment).

  \<^bold>\<open>Theories of the translator.\<close> \<open>CobolText\<close>, \<open>Numeric\<close>, \<open>NumericFacts\<close> (\<open>numeric_semantics.py\<close>), \<open>Figurative\<close>
  (\<open>figurative.py\<close>), \<open>DataItems\<close>, \<open>Overlays\<close>, \<open>OverlayFacts\<close> (\<open>ir.py\<close>, \<open>redefines.py\<close>) and \<open>GroupStorage\<close>,
  \<open>GroupFacts\<close> (\<open>group_storage.py\<close>), all of \<open>engine/transformation\<close>.

  \<^bold>\<open>What the theorems show.\<close> Certification is exactly admissibility plus certifiability; a VERIFIED run wrote the
  same undeclared files on both sides (the bytes, or the keyed records), agrees on every file a declaration reads
  under the policy of its kind, agrees on the streams and the exit code, and satisfied every business rule on both; evidence that was
  changed after sealing, after validation or on disk is detected up to SHA-256 collisions, and rejected
  evidence never certifies; the comparators match exactly on the equality their policy names; what the store
  writes it reads back; runs move only along the lifecycle, the approval columns are what the audit trail
  says, and nothing that belongs to an earlier validation attempt lands on a later one; what is exported is the
  sealed bundle of an approved, certified run. Which business rules are accepted and which errors their evaluation
  raises (the limit of Python on the digits of a printed integer included), and which group layouts and group moves
  the translator certifies, are stated as equivalences. Under every interleaving of requests, workers, clients and
  restarts the slots in use are those of the threads, a run in progress has exactly one thread, all jobs come to
  an end, a completed run carries its evidence, its verdict and its seal, and the outcome of the last write of a
  run is determined by the row and by what the worker read. Ingestion is confined to its workspace, bounded and all or
  nothing; a contract is resolved fail closed. Several theorems record where the code does less than it says:
  they are named in the theories next to the definitions they are about, for instance
  \<open>sorted_comparison_unterminated_line\<close>, \<open>shadowed_artifact_certifies\<close>, \<open>stream_output_path_hides_file\<close>,
  \<open>rounded_total_passes\<close>, \<open>respelled_names_overwrite\<close>, \<open>swapped_source_is_declared\<close> and \<open>source_removed_during_run\<close>.

  \<^bold>\<open>Bounds.\<close> The JSON readers take the length of the text as fuel; \<open>loads_fuel\<close> and the lemmas of \<open>PyValueFacts\<close> show
  that it suffices. Every other recursion is structural or has a termination proof; the walk of a B-tree image ends
  because every page is visited once. The last write of a run is tried three times, as in the code.

  \<^bold>\<open>Not modelled.\<close> HTTP routing, containers and processes (their results are arguments), the parsers of COBOL, SQL,
  CICS and JCL and the generators of Java, the planning of a modernization, schema migration and the connection
  set-up of the store, hashing of directories on the file system (the identities are arguments), the scans of
  source text for keyed files and unobserved effects (arguments of the pipeline), a run without a workload
  declaration, floating point numbers in persisted JSON (a parser result \<open>Beyond\<close>), text outside Latin-1
  (\<open>OutsideModel\<close>), the discovery of an ingested application, the report views of the service, and directories
  that a failed upload or a failed generation leaves behind or removes again. What the engines do in a job, what
  an archive extracts to, the clock, the outcome of starting a thread and of taking the write lock of the database
  are the argument \<open>world\<close> of a step, so that every theorem about the jobs holds whatever they are.
\<close>

end
